(* ===== verification/Prelude.thy ===== *)
theory Prelude
  imports Main "HOL-Library.Word"
begin

text \<open>
  Shared vocabulary of the development: C++ exceptions as values, the state-and-exception
  operations in which the stateful classes are written together with their weakest
  preconditions, decimal printing, and the generic list lemmas that the components use.
\<close>

subsection \<open>Collections of facts\<close>

named_theorems wp_simps \<open>weakest preconditions of state-and-exception operations\<close>
named_theorems validate_simps \<open>when a validation function succeeds\<close>
named_theorems frame_simps \<open>fields an operation leaves unchanged\<close>

subsection \<open>Machine types\<close>

text \<open>
  \<open>std::uint64_t\<close>, \<open>std::uint32_t\<close> and \<open>std::uint8_t\<close> are words, so counters and
  generation numbers wrap as in C++. \<open>int\<close> and \<open>std::int64_t\<close> are \<^typ>\<open>int\<close>: signed
  overflow is undefined in C++, so where the code subtracts timestamps the development
  proves that the difference is representable (\<open>in_int64\<close>).
\<close>

type_synonym uint64 = "64 word"
type_synonym uint32 = "32 word"
type_synonym uint8 = "8 word"

definition in_int64 :: "int \<Rightarrow> bool" where
  "in_int64 n \<longleftrightarrow> - (2 ^ 63) \<le> n \<and> n < 2 ^ 63"

definition in_int32 :: "int \<Rightarrow> bool" where
  "in_int32 n \<longleftrightarrow> - (2 ^ 31) \<le> n \<and> n < 2 ^ 31"

lemma in_int64_diff:
  assumes "in_int64 a" "in_int64 b" "0 \<le> a" "0 \<le> b"
  shows "in_int64 (a - b)"
  using assms by (simp add: in_int64_def)

lemma word_add_one_gt:
  fixes w :: "'a::len word"
  assumes "unat w < 2 ^ LENGTH('a) - 1"
  shows "w < w + 1" "unat (w + 1) = unat w + 1"
proof -
  have "unat (w + 1) = (unat w + 1) mod 2 ^ LENGTH('a)" by (simp add: unat_word_ariths)
  then show "unat (w + 1) = unat w + 1" using assms by simp
  then show "w < w + 1" by (simp add: word_less_nat_alt)
qed

subsection \<open>Decimal printing\<close>

text \<open>\<open>std::to_string\<close> on integers.\<close>

fun nat_to_string :: "nat \<Rightarrow> string" where
  "nat_to_string n =
     (if n < 10 then [''0123456789'' ! n]
      else nat_to_string (n div 10) @ [''0123456789'' ! (n mod 10)])"

declare nat_to_string.simps [simp del]

definition int_to_string :: "int \<Rightarrow> string" where
  "int_to_string i =
     (if i < 0 then ''-'' @ nat_to_string (nat (- i)) else nat_to_string (nat i))"

subsection \<open>Exceptions\<close>

text \<open>
  The exception types the sources throw, with the text that \<open>what()\<close> returns.
  \<open>ControlRejected\<close> is \<open>VehicleAdapterControlRejected\<close>, which also carries an issue
  code; its constructor replaces every other issue code by the generic one
  (\<open>control_rejected\<close> in theory Adapter). The exceptions of the signaling server are
  \<open>Unauthorized\<close>, \<open>ServiceUnavailable\<close>, \<open>Conflict\<close> with an issue code and details (an object of
  scalar fields), \<open>NotFound\<close> and \<open>TooManyRequests\<close> with the time to wait. The HTTP client throws
  \<open>HttpStatus\<close> with status, text, issue code and body of a response that is an error, and
  \<open>HttpTransport\<close>; the console throws \<open>SignalingRejected\<close> within itself.
\<close>

datatype scalar = SString string | SInt int | SUint uint64

datatype exn =
    InvalidArgument string
  | RuntimeError string
  | OutOfRange string
  | JsonError string
  | YamlError string
  | ControlRejected (issue_code_of: string) (result_code_of: int)
  | LogicError string
  | Unauthorized string
  | ServiceUnavailable string
  | Conflict string string "(string \<times> scalar) list"
  | NotFound string
  | TooManyRequests string int
  | HttpStatus int string string string
  | HttpTransport string
  | SignalingRejected string

type_synonym 'a res = "exn + 'a"

fun what :: "exn \<Rightarrow> string" where
  "what (InvalidArgument m) = m"
| "what (RuntimeError m) = m"
| "what (OutOfRange m) = m"
| "what (JsonError m) = m"
| "what (YamlError m) = m"
| "what (ControlRejected _ code) =
     ''vehicle adapter rejected control with code '' @ int_to_string code"
| "what (LogicError m) = m"
| "what (Unauthorized m) = m"
| "what (ServiceUnavailable m) = m"
| "what (Conflict m _ _) = m"
| "what (NotFound m) = m"
| "what (TooManyRequests m _) = m"
| "what (HttpStatus _ m _ _) = m"
| "what (HttpTransport m) = m"
| "what (SignalingRejected m) = m"

definition throw_if :: "bool \<Rightarrow> exn \<Rightarrow> unit res" where
  "throw_if c e = (if c then Inl e else Inr ())"

text \<open>A sequence of checks throws what its first failing check throws.\<close>

fun checks :: "unit res list \<Rightarrow> unit res" where
  "checks [] = Inr ()"
| "checks (Inl e # rs) = Inl e"
| "checks (Inr u # rs) = checks rs"

text \<open>A sequence of guarded early returns: the value of the first guard that holds.\<close>

fun first_match :: "(bool \<times> 'a) list \<Rightarrow> 'a option" where
  "first_match [] = None"
| "first_match ((c, a) # rs) = (if c then Some a else first_match rs)"

lemma first_match_None [simp]: "first_match rs = None \<longleftrightarrow> (\<forall>(c, a)\<in>set rs. \<not> c)"
  by (induction rs rule: first_match.induct) auto

lemma first_match_Some: "first_match rs = Some a \<Longrightarrow> (True, a) \<in> set rs"
  by (induction rs rule: first_match.induct) (auto split: if_splits)

definition bindE :: "'a res \<Rightarrow> ('a \<Rightarrow> 'b res) \<Rightarrow> 'b res" where
  "bindE r f = (case r of Inl e \<Rightarrow> Inl e | Inr a \<Rightarrow> f a)"

lemma bindE_simps [simp]: "bindE (Inl e) f = Inl e" "bindE (Inr a) f = f a"
  by (simp_all add: bindE_def)

lemma bindE_eq_Inr [simp]: "bindE r f = Inr b \<longleftrightarrow> (\<exists>a. r = Inr a \<and> f a = Inr b)"
  by (cases r) auto

lemma throw_if_simps [simp]:
  "throw_if c e = Inr u \<longleftrightarrow> \<not> c" "throw_if c e = Inl e' \<longleftrightarrow> c \<and> e' = e"
  by (auto simp: throw_if_def)

lemma checks_Cons_Inr [simp]: "checks (r # rs) = Inr u \<longleftrightarrow> r = Inr () \<and> checks rs = Inr u"
  by (cases r) auto

lemma checks_Cons_Inl:
  "checks (r # rs) = Inl e \<longleftrightarrow> r = Inl e \<or> (r = Inr () \<and> checks rs = Inl e)"
  by (cases r) auto

lemma checks_Inr_iff: "checks rs = Inr u \<longleftrightarrow> (\<forall>r\<in>set rs. r = Inr ())"
  by (induction rs) auto

lemma res_unit_cases: obtains (ok) "r = Inr ()" | (thrown) e where "r = Inl e"
  by (cases r) auto

subsection \<open>State and exceptions\<close>

text \<open>
  A member function that may throw maps the object's state to its result and the state it
  leaves behind; an exception keeps the assignments made before it was thrown.
\<close>

type_synonym ('s, 'a) oper = "'s \<Rightarrow> 'a res \<times> 's"

definition returnS :: "'a \<Rightarrow> ('s, 'a) oper" where
  "returnS a s = (Inr a, s)"

definition throwS :: "exn \<Rightarrow> ('s, 'a) oper" where
  "throwS e s = (Inl e, s)"

definition bindS :: "('s, 'a) oper \<Rightarrow> ('a \<Rightarrow> ('s, 'b) oper) \<Rightarrow> ('s, 'b) oper" where
  "bindS m f s = (case m s of (Inl e, t) \<Rightarrow> (Inl e, t) | (Inr a, t) \<Rightarrow> f a t)"

definition thenS :: "('s, unit) oper \<Rightarrow> ('s, 'b) oper \<Rightarrow> ('s, 'b) oper" where
  "thenS m k = bindS m (\<lambda>_. k)"

definition getS :: "('s \<Rightarrow> 'a) \<Rightarrow> ('s, 'a) oper" where
  "getS f s = (Inr (f s), s)"

definition modifyS :: "('s \<Rightarrow> 's) \<Rightarrow> ('s, unit) oper" where
  "modifyS f s = (Inr (), f s)"

definition liftS :: "'a res \<Rightarrow> ('s, 'a) oper" where
  "liftS r s = (r, s)"

text \<open>\<open>try m catch handler\<close>: the handler runs from the state the exception left.\<close>

definition tryS :: "('s, 'a) oper \<Rightarrow> (exn \<Rightarrow> ('s, 'a) oper) \<Rightarrow> ('s, 'a) oper" where
  "tryS m h s = (case m s of (Inl e, t) \<Rightarrow> h e t | (Inr a, t) \<Rightarrow> (Inr a, t))"

definition whenS :: "bool \<Rightarrow> ('s, unit) oper \<Rightarrow> ('s, unit) oper" where
  "whenS c m = (if c then m else returnS ())"

lemmas oper_defs =
  returnS_def throwS_def bindS_def thenS_def getS_def modifyS_def liftS_def tryS_def whenS_def

text \<open>
  \<open>wp m Q X s\<close>: run from \<open>s\<close>, operation \<open>m\<close> returns with \<open>Q\<close> or throws with \<open>X\<close>.
  All operations are total, so \<open>wp\<close> is total correctness.
\<close>

definition wp ::
  "('s, 'a) oper \<Rightarrow> ('a \<Rightarrow> 's \<Rightarrow> bool) \<Rightarrow> (exn \<Rightarrow> 's \<Rightarrow> bool) \<Rightarrow> 's \<Rightarrow> bool" where
  "wp m Q X s = (case m s of (Inl e, t) \<Rightarrow> X e t | (Inr a, t) \<Rightarrow> Q a t)"

lemma wp_returnS [wp_simps]: "wp (returnS a) Q X s = Q a s"
  by (simp add: wp_def returnS_def)

lemma wp_throwS [wp_simps]: "wp (throwS e) Q X s = X e s"
  by (simp add: wp_def throwS_def)

lemma wp_bindS [wp_simps]: "wp (bindS m f) Q X s = wp m (\<lambda>a. wp (f a) Q X) X s"
  by (auto simp: wp_def bindS_def split: prod.splits sum.splits)

lemma wp_thenS [wp_simps]: "wp (thenS m k) Q X s = wp m (\<lambda>_. wp k Q X) X s"
  by (simp add: thenS_def wp_bindS)

lemma wp_getS [wp_simps]: "wp (getS f) Q X s = Q (f s) s"
  by (simp add: wp_def getS_def)

lemma wp_modifyS [wp_simps]: "wp (modifyS f) Q X s = Q () (f s)"
  by (simp add: wp_def modifyS_def)

lemma wp_liftS [wp_simps]:
  "wp (liftS r) Q X s = (case r of Inl e \<Rightarrow> X e s | Inr a \<Rightarrow> Q a s)"
  by (simp add: wp_def liftS_def split: sum.splits)

lemma wp_tryS [wp_simps]: "wp (tryS m h) Q X s = wp m Q (\<lambda>e. wp (h e) Q X) s"
  by (auto simp: wp_def tryS_def split: prod.splits sum.splits)

lemma wp_whenS [wp_simps]: "wp (whenS c m) Q X s = (if c then wp m Q X s else Q () s)"
  by (simp add: whenS_def wp_returnS)

lemma wp_if [wp_simps]: "wp (if c then m else k) Q X s = (if c then wp m Q X s else wp k Q X s)"
  by simp

lemma wp_conseq:
  assumes "wp m Q X s" "\<And>a t. Q a t \<Longrightarrow> Q' a t" "\<And>e t. X e t \<Longrightarrow> X' e t"
  shows "wp m Q' X' s"
  using assms by (auto simp: wp_def split: prod.splits sum.splits)

lemma wp_conj:
  "wp m (\<lambda>a t. Q a t \<and> Q' a t) (\<lambda>e t. X e t \<and> X' e t) s \<longleftrightarrow> wp m Q X s \<and> wp m Q' X' s"
  by (auto simp: wp_def split: prod.splits sum.splits)

lemma wp_result:
  assumes "wp m Q X s"
  shows "(\<exists>a t. m s = (Inr a, t) \<and> Q a t) \<or> (\<exists>e t. m s = (Inl e, t) \<and> X e t)"
  using assms by (auto simp: wp_def split: prod.splits sum.splits)

lemma wp_Inr: "wp m Q X s \<Longrightarrow> m s = (Inr a, t) \<Longrightarrow> Q a t"
  by (simp add: wp_def)

lemma wp_Inl: "wp m Q X s \<Longrightarrow> m s = (Inl e, t) \<Longrightarrow> X e t"
  by (simp add: wp_def)

text \<open>When an operation returns, read off its structure.\<close>

lemma returned_iff:
  "bindS m f s = (Inr b, t) \<longleftrightarrow> (\<exists>a u. m s = (Inr a, u) \<and> f a u = (Inr b, t))"
  "thenS l k s = (Inr b, t) \<longleftrightarrow> (\<exists>u. l s = (Inr (), u) \<and> k u = (Inr b, t))"
  "liftS r s = (Inr b, t) \<longleftrightarrow> r = Inr b \<and> t = s" "throwS e s = (Inr b, t) \<longleftrightarrow> False" "returnS c s = (Inr b, t) \<longleftrightarrow> c = b \<and> t = s"
  "(if d then throwS e else n) s = (Inr b, t) \<longleftrightarrow> \<not> d \<and> n s = (Inr b, t)"
  by (auto simp: bindS_def thenS_def liftS_def throwS_def returnS_def split: prod.splits sum.splits)

lemma returned_state_iff:
  "getS g s = (Inr b, t) \<longleftrightarrow> b = g s \<and> t = s" "modifyS h s = (Inr (), t) \<longleftrightarrow> t = h s"
  by (auto simp: getS_def modifyS_def)

text \<open>\<open>keeps I m\<close>: operation \<open>m\<close> preserves \<open>I\<close>, whether it returns or throws.\<close>

definition keeps :: "('s \<Rightarrow> bool) \<Rightarrow> ('s, 'a) oper \<Rightarrow> bool" where
  "keeps I m \<longleftrightarrow> (\<forall>s. I s \<longrightarrow> I (snd (m s)))"

lemma wp_snd: "wp m (\<lambda>_. I) (\<lambda>_. I) s \<longleftrightarrow> I (snd (m s))"
  by (simp add: wp_def split: prod.splits sum.splits)

lemma keeps_alt: "keeps I m \<longleftrightarrow> (\<forall>s. I s \<longrightarrow> wp m (\<lambda>_. I) (\<lambda>_. I) s)"
  by (simp add: keeps_def wp_snd)

lemma keepsD: "keeps I m \<Longrightarrow> I s \<Longrightarrow> I (snd (m s))"
  by (simp add: keeps_def)

subsection \<open>Lists and sums\<close>

lemma conservation_chain:
  fixes p1 :: "'a::comm_monoid_add"
  assumes "p1 + d0 + n0 = q1 + d1 + n1" "p2 + d1 + n1 = q2 + d2 + n2"
  shows "(p1 + p2) + d0 + n0 = (q1 + q2) + d2 + n2"
proof -
  have "(p1 + p2) + d0 + n0 = (p1 + d0 + n0) + p2" by (simp add: ac_simps)
  also have "\<dots> = q1 + (p2 + d1 + n1)" unfolding assms(1) by (simp add: ac_simps)
  also have "\<dots> = (q1 + q2) + d2 + n2" unfolding assms(2) by (simp add: ac_simps)
  finally show ?thesis .
qed

lemma list_all_replicate [simp]: "list_all P (replicate n x) \<longleftrightarrow> n = 0 \<or> P x"
  by (induction n) auto

lemma list_all_nth_iff: "list_all P xs \<longleftrightarrow> (\<forall>i < length xs. P (xs ! i))"
  by (simp add: list_all_length)

subsection \<open>Runs of a component\<close>

text \<open>
  A component whose operations are serialised (by its mutex or by its owner's loop) runs
  through a list of events; \<open>step\<close> is the operation of one event, with its output.
\<close>

fun run :: "('e \<Rightarrow> 's \<Rightarrow> 'o \<times> 's) \<Rightarrow> 'e list \<Rightarrow> 's \<Rightarrow> 'o list \<times> 's" where
  "run step [] s = ([], s)"
| "run step (e # es) s =
     (fst (step e s) # fst (run step es (snd (step e s))), snd (run step es (snd (step e s))))"

lemma run_append:
  "run step (es @ fs) s =
     (fst (run step es s) @ fst (run step fs (snd (run step es s))),
      snd (run step fs (snd (run step es s))))"
  by (induction es arbitrary: s) auto

lemma length_run [simp]: "length (fst (run step es s)) = length es"
  by (induction es arbitrary: s) auto

text \<open>
  The contract of such a component: an invariant that every operation preserves and a
  guarantee on every output it produces under the invariant.
\<close>

locale machine =
  fixes step :: "'e \<Rightarrow> 's \<Rightarrow> 'o \<times> 's"
    and inv :: "'s \<Rightarrow> bool"
    and allowed :: "'e \<Rightarrow> bool"
    and good :: "'e \<Rightarrow> 'o \<Rightarrow> bool"
  assumes step_inv: "inv s \<Longrightarrow> allowed e \<Longrightarrow> inv (snd (step e s))"
    and step_good: "inv s \<Longrightarrow> allowed e \<Longrightarrow> good e (fst (step e s))"
begin

lemma run_inv: "inv s \<Longrightarrow> list_all allowed es \<Longrightarrow> inv (snd (run step es s))"
  by (induction es arbitrary: s) (auto intro: step_inv)

lemma run_good: "inv s \<Longrightarrow> list_all allowed es \<Longrightarrow> list_all2 good es (fst (run step es s))"
  by (induction es arbitrary: s) (auto intro: step_inv step_good)

end

end
