(* ===== verification/Binary64.thy ===== *)
theory Binary64
  imports Complex_Main "HOL-Library.Log_Nat" Prelude
begin

text \<open>
  C++ \<open>double\<close> as IEEE 754 binary64 with round-to-nearest-even. A finite double is its
  rational value; \<open>rnd64\<close> rounds an exact result to the nearest representable value, with
  subnormals, and \<open>round64\<close> adds the overflow to infinity. NaN and the infinities are
  values of their own, and every comparison with NaN is false. The sign of zero is not
  represented: no modelled function reads it (comparisons cannot, and every division by a
  quantity that may be zero is guarded in the source).

  The lemmas are the three facts the components rest on: rounding is monotone, exact on
  representable values, and close to the exact result.
\<close>

subsection \<open>Values and rounding\<close>

datatype double = Fin rat | PInf | NInf | NaN

definition round_half_even :: "rat \<Rightarrow> int" where
  "round_half_even x =
     (let f = \<lfloor>x\<rfloor>; d = x - of_int f
      in if d < 1 / 2 then f
         else if 1 / 2 < d then f + 1
         else if even f then f else f + 1)"

definition ilog2 :: "rat \<Rightarrow> int" where
  "ilog2 x = (if 1 \<le> x then bitlen \<lfloor>x\<rfloor> - 1 else - bitlen (\<lceil>1 / x\<rceil> - 1))"

definition ulp64 :: "rat \<Rightarrow> rat" where
  "ulp64 x = 2 powi (max (ilog2 \<bar>x\<bar>) (-1022) - 52)"

definition rnd64 :: "rat \<Rightarrow> rat" where
  "rnd64 x = (if x = 0 then 0 else of_int (round_half_even (x / ulp64 x)) * ulp64 x)"

definition overflow64 :: rat where
  "overflow64 = 2 ^ 1024"

definition round64 :: "rat \<Rightarrow> double" where
  "round64 x =
     (let r = rnd64 x
      in if overflow64 \<le> r then PInf else if r \<le> - overflow64 then NInf else Fin r)"


subsection \<open>Rounding to an integer\<close>

lemma round_half_even_cases:
  "(round_half_even x = \<lfloor>x\<rfloor> \<and> x - of_int \<lfloor>x\<rfloor> \<le> 1 / 2) \<or>
   (round_half_even x = \<lfloor>x\<rfloor> + 1 \<and> 1 / 2 \<le> x - of_int \<lfloor>x\<rfloor>)"
  by (auto simp: round_half_even_def Let_def)

lemma round_half_even_error: "\<bar>of_int (round_half_even x) - x\<bar> \<le> 1 / 2"
proof -
  have "of_int \<lfloor>x\<rfloor> \<le> x" "x < of_int \<lfloor>x\<rfloor> + 1" using floor_correct [of x] by auto
  then show ?thesis using round_half_even_cases [of x] by (auto simp: abs_le_iff)
qed

lemma round_half_even_of_int [simp]: "round_half_even (of_int n) = n"
  by (simp add: round_half_even_def)

lemma round_half_even_mono:
  assumes "x \<le> y"
  shows "round_half_even x \<le> round_half_even y"
proof (cases "\<lfloor>x\<rfloor> = \<lfloor>y\<rfloor>")
  case True
  with assms show ?thesis by (auto simp: round_half_even_def Let_def)
next
  case False
  with assms have "\<lfloor>x\<rfloor> + 1 \<le> \<lfloor>y\<rfloor>" using floor_mono [OF assms] by simp
  then show ?thesis using round_half_even_cases [of x] round_half_even_cases [of y] by auto
qed

lemma round_half_even_minus: "round_half_even (- x) = - round_half_even x"
proof (cases "x = of_int \<lfloor>x\<rfloor>")
  case True
  then have "- x = of_int (- \<lfloor>x\<rfloor>)" by simp
  then show ?thesis by (metis True round_half_even_of_int)
next
  case False
  then have "of_int \<lfloor>x\<rfloor> < x" using of_int_floor_le [of x] by linarith
  then have "\<lfloor>- x\<rfloor> = - \<lfloor>x\<rfloor> - 1" by (intro floor_unique) linarith+
  then show ?thesis by (auto simp: round_half_even_def Let_def)
qed

subsection \<open>The binary exponent\<close>

lemma two_powi_pos [simp]: "(0::rat) < 2 powi e"
  by simp

lemma two_powi_mono: "d \<le> e \<Longrightarrow> (2::rat) powi d \<le> 2 powi e"
  by (simp add: power_int_increasing)

lemma bitlen_ge_1: "0 < n \<Longrightarrow> 1 \<le> bitlen n"
  using bitlen_eq_zero_iff [of n] bitlen_nonneg [of n] by linarith

lemma two_powi_bitlen:
  assumes "0 < n"
  shows "2 powi (bitlen n - 1) \<le> (of_int n :: rat)" "of_int n + 1 \<le> (2 powi bitlen n :: rat)"
proof -
  have b: "1 \<le> bitlen n" using assms by (rule bitlen_ge_1)
  have lo: "2 ^ nat (bitlen n - 1) \<le> n" and hi: "n + 1 \<le> 2 ^ nat (bitlen n)"
    using bitlen_bounds [OF assms] by auto
  have "(of_int (2 ^ nat (bitlen n - 1)) :: rat) \<le> of_int n" using lo by (subst of_int_le_iff)
  then show "2 powi (bitlen n - 1) \<le> (of_int n :: rat)" using b by (simp add: power_int_def)
  have "(of_int (n + 1) :: rat) \<le> of_int (2 ^ nat (bitlen n))" using hi by (subst of_int_le_iff)
  then show "of_int n + 1 \<le> (2 powi bitlen n :: rat)" using b by (simp add: power_int_def)
qed

lemma ilog2_bounds:
  assumes "0 < x"
  shows "2 powi ilog2 x \<le> x" "x < 2 powi (ilog2 x + 1)"
proof -
  have "2 powi ilog2 x \<le> x \<and> x < 2 powi (ilog2 x + 1)"
  proof (cases "1 \<le> x")
    case True
    then have "0 < \<lfloor>x\<rfloor>" by simp
    note b = two_powi_bitlen [OF this]
    have "2 powi (bitlen \<lfloor>x\<rfloor> - 1) \<le> x" using b(1) of_int_floor_le [of x] by linarith
    moreover have "x < 2 powi bitlen \<lfloor>x\<rfloor>" using b(2) floor_correct [of x] by linarith
    ultimately show ?thesis using True by (simp add: ilog2_def)
  next
    case False
    define k where "k = bitlen (\<lceil>1 / x\<rceil> - 1)"
    have "1 < 1 / x" using assms False by simp
    then have "1 < \<lceil>1 / x\<rceil>" by (simp add: less_ceiling_iff)
    then have "0 < \<lceil>1 / x\<rceil> - 1" by simp
    note b = two_powi_bitlen [OF this, folded k_def]
    have hi: "2 powi (k - 1) < 1 / x"
      using b(1) ceiling_correct [of "1 / x"] by simp
    have "1 / x \<le> of_int \<lceil>1 / x\<rceil>" by (rule le_of_int_ceiling)
    also have "\<dots> \<le> 2 powi k" using b(2) by (simp only: of_int_diff of_int_1 diff_add_cancel)
    finally have lo: "1 / x \<le> 2 powi k" .
    have "2 powi (- k) \<le> x" using lo assms by (simp add: power_int_minus field_simps)
    moreover have "x < 2 powi (1 - k)"
    proof -
      have "2 powi (1 - k) = 1 / (2 powi (k - 1) :: rat)"
        using power_int_minus [of "2::rat" "k - 1"] by (simp add: field_simps)
      moreover have "x < 1 / 2 powi (k - 1)" using hi assms by (simp add: field_simps)
      ultimately show ?thesis by simp
    qed
    ultimately show ?thesis using False by (simp add: ilog2_def k_def add.commute)
  qed
  then show "2 powi ilog2 x \<le> x" "x < 2 powi (ilog2 x + 1)" by auto
qed

lemma ilog2_mono:
  assumes "0 < x" "x \<le> y"
  shows "ilog2 x \<le> ilog2 y"
proof (rule ccontr)
  assume "\<not> ?thesis"
  then have "ilog2 y + 1 \<le> ilog2 x" by simp
  then have "(2::rat) powi (ilog2 y + 1) \<le> 2 powi ilog2 x" by (rule two_powi_mono)
  with ilog2_bounds(1) [OF assms(1)] ilog2_bounds(2) [of y] assms show False by linarith
qed

lemma ulp64_pos [simp]: "0 < ulp64 x"
  by (simp add: ulp64_def)

lemma ulp64_nonneg [simp]: "0 \<le> ulp64 x" and ulp64_neq_0 [simp]: "ulp64 x \<noteq> 0"
  using ulp64_pos [of x] by linarith+

lemma ulp64_minus [simp]: "ulp64 (- x) = ulp64 x"
  by (simp add: ulp64_def)

lemma rnd64_0 [simp]: "rnd64 0 = 0"
  by (simp add: rnd64_def)

lemma rnd64_minus [simp]: "rnd64 (- x) = - rnd64 x"
  by (simp add: rnd64_def round_half_even_minus)

lemma rnd64_error: "\<bar>rnd64 x - x\<bar> \<le> ulp64 x / 2"
proof (cases "x = 0")
  case True
  then show ?thesis by simp
next
  case False
  have "rnd64 x - x = (of_int (round_half_even (x / ulp64 x)) - x / ulp64 x) * ulp64 x"
    using False ulp64_pos [of x] by (simp add: rnd64_def field_simps)
  then have "\<bar>rnd64 x - x\<bar> = \<bar>of_int (round_half_even (x / ulp64 x)) - x / ulp64 x\<bar> * ulp64 x"
    using ulp64_pos [of x] by (simp add: abs_mult)
  also have "\<dots> \<le> 1 / 2 * ulp64 x"
    using round_half_even_error by (intro mult_right_mono) auto
  finally show ?thesis by simp
qed

text \<open>A multiple of the grid that lies on the same side stays on that side after rounding.\<close>

lemma rnd64_le_grid:
  assumes "0 < x" "x \<le> of_int n * ulp64 x"
  shows "rnd64 x \<le> of_int n * ulp64 x"
proof -
  have "x / ulp64 x \<le> of_int n" using assms(2) ulp64_pos [of x] by (simp add: pos_divide_le_eq)
  then have "round_half_even (x / ulp64 x) \<le> n" using round_half_even_mono by fastforce
  then show ?thesis using assms(1) by (simp add: rnd64_def)
qed

lemma rnd64_ge_grid:
  assumes "0 < x" "of_int n * ulp64 x \<le> x"
  shows "of_int n * ulp64 x \<le> rnd64 x"
proof -
  have "of_int n \<le> x / ulp64 x" using assms(2) ulp64_pos [of x] by (simp add: pos_le_divide_eq)
  then have "n \<le> round_half_even (x / ulp64 x)" using round_half_even_mono by fastforce
  then show ?thesis using assms(1) by (simp add: rnd64_def)
qed

lemma rnd64_nonneg: "0 \<le> x \<Longrightarrow> 0 \<le> rnd64 x"
  using rnd64_ge_grid [of x 0] by (cases "x = 0") auto

lemma two_powi_grid:
  assumes "max (ilog2 \<bar>x\<bar>) (-1022) - 52 \<le> e"
  shows "\<exists>n. (2::rat) powi e = of_int n * ulp64 x"
proof -
  define d where "d = max (ilog2 \<bar>x\<bar>) (-1022) - 52"
  have "(2::rat) powi e = 2 powi (e - d) * 2 powi d" by (simp flip: power_int_add)
  moreover have "2 powi (e - d) = (of_int (2 ^ nat (e - d)) :: rat)"
    using assms by (simp add: power_int_def d_def)
  ultimately show ?thesis unfolding ulp64_def d_def by metis
qed

lemma rnd64_mono_pos:
  assumes "0 < x" "x \<le> y"
  shows "rnd64 x \<le> rnd64 y"
proof -
  define d where "d = max (ilog2 x) (-1022)"
  define e where "e = max (ilog2 y) (-1022)"
  have y: "0 < y" using assms by simp
  have de: "d \<le> e" using ilog2_mono [OF assms] by (auto simp: d_def e_def)
  show ?thesis
  proof (cases "d = e")
    case True
    then have u: "ulp64 x = ulp64 y" using assms y by (simp add: ulp64_def d_def e_def)
    have "x / ulp64 y \<le> y / ulp64 y" using assms by (intro divide_right_mono) auto
    then have "round_half_even (x / ulp64 y) \<le> round_half_even (y / ulp64 y)"
      by (rule round_half_even_mono)
    then show ?thesis using assms y by (simp add: rnd64_def u)
  next
    case False
    with de have e: "e = ilog2 y" and de': "d + 1 \<le> e" by (auto simp: e_def d_def)
    have xe: "x \<le> 2 powi e"
    proof -
      have "x < 2 powi (ilog2 x + 1)" using assms(1) by (rule ilog2_bounds)
      also have "\<dots> \<le> 2 powi e" using de' by (intro two_powi_mono) (auto simp: d_def)
      finally show ?thesis by simp
    qed
    have ye: "2 powi e \<le> y" using ilog2_bounds(1) [OF y] by (simp add: e)
    obtain n where n: "(2::rat) powi e = of_int n * ulp64 x"
      using two_powi_grid [of x e] de assms(1) unfolding d_def by fastforce
    obtain m where m: "(2::rat) powi e = of_int m * ulp64 y"
      using two_powi_grid [of y e] y by (auto simp: e_def)
    have "rnd64 x \<le> 2 powi e" using rnd64_le_grid [OF assms(1)] xe n by metis
    also have "\<dots> \<le> rnd64 y" using rnd64_ge_grid [OF y] ye m by metis
    finally show ?thesis .
  qed
qed

lemma rnd64_mono:
  assumes "x \<le> y"
  shows "rnd64 x \<le> rnd64 y"
proof -
  consider "0 < x" | "x \<le> 0" "0 \<le> y" | "y < 0" by linarith
  then show ?thesis
  proof cases
    case 1
    then show ?thesis using assms by (rule rnd64_mono_pos)
  next
    case 2
    then show ?thesis using rnd64_nonneg [of y] rnd64_nonneg [of "- x"] by simp
  next
    case 3
    then have "rnd64 (- y) \<le> rnd64 (- x)" using assms by (intro rnd64_mono_pos) auto
    then show ?thesis by simp
  qed
qed

lemma ulp64_le:
  assumes "2 powi (-1022) \<le> \<bar>x\<bar>"
  shows "ulp64 x \<le> \<bar>x\<bar> / 2 ^ 52"
proof -
  have x: "0 < \<bar>x\<bar>" using assms two_powi_pos [of "-1022"] by linarith
  have "-1022 \<le> ilog2 \<bar>x\<bar>"
  proof (rule ccontr)
    assume "\<not> ?thesis"
    then have "ilog2 \<bar>x\<bar> + 1 \<le> -1022" by simp
    then have "(2::rat) powi (ilog2 \<bar>x\<bar> + 1) \<le> 2 powi (-1022)" by (rule two_powi_mono)
    with ilog2_bounds(2) [OF x] assms show False by linarith
  qed
  then have "ulp64 x = 2 powi (ilog2 \<bar>x\<bar> - 52)" by (simp add: ulp64_def)
  also have "\<dots> = 2 powi ilog2 \<bar>x\<bar> / 2 ^ 52" by (simp add: power_int_diff)
  also have "\<dots> \<le> \<bar>x\<bar> / 2 ^ 52" using ilog2_bounds(1) [OF x] by (intro divide_right_mono) auto
  finally show ?thesis .
qed

lemma rnd64_rel_error:
  assumes "2 powi (-1022) \<le> \<bar>x\<bar>"
  shows "\<bar>rnd64 x - x\<bar> \<le> \<bar>x\<bar> / 2 ^ 53"
  using rnd64_error [of x] ulp64_le [OF assms] by simp

lemma rnd64_of_int:
  assumes "\<bar>n\<bar> \<le> 2 ^ 53"
  shows "rnd64 (of_int n) = of_int n"
proof (cases "n = 0")
  case True
  then show ?thesis by simp
next
  case False
  define x :: rat where "x = of_int n"
  have x: "0 < \<bar>x\<bar>" "1 \<le> \<bar>x\<bar>" "x \<noteq> 0" using False by (auto simp: x_def abs_if)
  show ?thesis
  proof (cases "\<bar>n\<bar> = 2 ^ 53")
    case True
    then have "n = 2 ^ 53 \<or> n = - (2 ^ 53)" by (auto simp: abs_if split: if_splits)
    moreover have "rnd64 (2 ^ 53) = 2 ^ 53" by code_simp
    ultimately show ?thesis by (auto)
  next
    case False
    have "\<bar>x\<bar> < 2 powi 53"
    proof -
      have "\<bar>n\<bar> < 2 ^ 53" using assms False by simp
      then have "(of_int \<bar>n\<bar> :: rat) < of_int (2 ^ 53)" by (subst of_int_less_iff)
      then show ?thesis by (simp add: x_def power_int_def)
    qed
    then have "ilog2 \<bar>x\<bar> < 53" using ilog2_bounds(1) [OF x(1)] two_powi_mono [of 53 "ilog2 \<bar>x\<bar>"]
      by linarith
    then have "max (ilog2 \<bar>x\<bar>) (-1022) - 52 \<le> 0" by simp
    then obtain m where m: "(2::rat) powi 0 = of_int m * ulp64 x" using two_powi_grid by blast
    then have "x / ulp64 x = of_int (n * m)" by (simp add: x_def divide_eq_eq)
    then have "rnd64 x = of_int (n * m) * ulp64 x"
      using x(3) by (metis rnd64_def round_half_even_of_int)
    also have "\<dots> = x" using m by (simp add: x_def)
    finally show ?thesis by (simp add: x_def)
  qed
qed

lemma rnd64_1 [simp]: "rnd64 1 = 1"
  using rnd64_of_int [of 1] by simp


subsection \<open>Operations on doubles\<close>

text \<open>\<open>dbl q\<close> is the value of a floating-point literal.\<close>

abbreviation dbl :: "rat \<Rightarrow> double" where
  "dbl q \<equiv> round64 q"

fun isfinite :: "double \<Rightarrow> bool" where
  "isfinite (Fin _) = True"
| "isfinite _ = False"

fun dlt :: "double \<Rightarrow> double \<Rightarrow> bool" where
  "dlt NaN _ = False"
| "dlt _ NaN = False"
| "dlt (Fin x) (Fin y) = (x < y)"
| "dlt NInf y = (y \<noteq> NInf)"
| "dlt x PInf = (x \<noteq> PInf)"
| "dlt _ _ = False"

fun deq :: "double \<Rightarrow> double \<Rightarrow> bool" where
  "deq NaN _ = False"
| "deq _ NaN = False"
| "deq x y = (x = y)"

definition dle :: "double \<Rightarrow> double \<Rightarrow> bool" where
  "dle x y \<longleftrightarrow> dlt x y \<or> deq x y"

fun dneg :: "double \<Rightarrow> double" where
  "dneg (Fin x) = Fin (- x)"
| "dneg PInf = NInf"
| "dneg NInf = PInf"
| "dneg NaN = NaN"

fun dabs :: "double \<Rightarrow> double" where
  "dabs (Fin x) = Fin \<bar>x\<bar>"
| "dabs NaN = NaN"
| "dabs _ = PInf"

fun dadd :: "double \<Rightarrow> double \<Rightarrow> double" where
  "dadd NaN _ = NaN"
| "dadd _ NaN = NaN"
| "dadd (Fin x) (Fin y) = round64 (x + y)"
| "dadd (Fin _) y = y"
| "dadd x (Fin _) = x"
| "dadd x y = (if x = y then x else NaN)"

definition dsub :: "double \<Rightarrow> double \<Rightarrow> double" where
  "dsub x y = dadd x (dneg y)"

definition signed_inf :: "bool \<Rightarrow> double" where
  "signed_inf negative = (if negative then NInf else PInf)"

fun dnegative :: "double \<Rightarrow> bool" where
  "dnegative (Fin x) = (x < 0)"
| "dnegative NInf = True"
| "dnegative _ = False"

fun dmul :: "double \<Rightarrow> double \<Rightarrow> double" where
  "dmul NaN _ = NaN"
| "dmul _ NaN = NaN"
| "dmul (Fin x) (Fin y) = round64 (x * y)"
| "dmul x y =
     (if x = Fin 0 \<or> y = Fin 0 then NaN else signed_inf (dnegative x \<noteq> dnegative y))"

fun ddiv :: "double \<Rightarrow> double \<Rightarrow> double" where
  "ddiv NaN _ = NaN"
| "ddiv _ NaN = NaN"
| "ddiv (Fin x) (Fin y) =
     (if y = 0 then (if x = 0 then NaN else signed_inf (x < 0)) else round64 (x / y))"
| "ddiv (Fin _) _ = Fin 0"
| "ddiv x (Fin y) = signed_inf (dnegative x \<noteq> (y < 0))"
| "ddiv _ _ = NaN"

text \<open>\<open>std::min\<close>, \<open>std::max\<close> and \<open>std::clamp\<close>, by their comparisons.\<close>

definition dmin :: "double \<Rightarrow> double \<Rightarrow> double" where
  "dmin x y = (if dlt y x then y else x)"

definition dmax :: "double \<Rightarrow> double \<Rightarrow> double" where
  "dmax x y = (if dlt x y then y else x)"

definition dclamp :: "double \<Rightarrow> double \<Rightarrow> double \<Rightarrow> double" where
  "dclamp v lo hi = (if dlt v lo then lo else if dlt hi v then hi else v)"

fun dfloor :: "double \<Rightarrow> double" where
  "dfloor (Fin x) = Fin (of_int \<lfloor>x\<rfloor>)"
| "dfloor x = x"

definition llround :: "rat \<Rightarrow> int" where
  "llround x = (if 0 \<le> x then \<lfloor>x + 1 / 2\<rfloor> else - \<lfloor>1 / 2 - x\<rfloor>)"

definition double_of_int :: "int \<Rightarrow> double" where
  "double_of_int n = round64 (of_int n)"

text \<open>The values a variable of type \<open>double\<close> can hold.\<close>

fun is_double :: "double \<Rightarrow> bool" where
  "is_double (Fin x) = (round64 x = Fin x)"
| "is_double _ = True"

lemma dle_simps [simp]:
  "dle (Fin x) (Fin y) \<longleftrightarrow> x \<le> y" "dle NaN a = False" "dle a NaN = False"
  by (auto simp: dle_def) (cases a; simp)+

lemma isfinite_conv: "isfinite x \<longleftrightarrow> (\<exists>q. x = Fin q)"
  by (cases x) auto

lemma dclamp_Fin: "dclamp (Fin v) (Fin lo) (Fin hi) = Fin (if v < lo then lo else if hi < v then hi else v)"
  by (simp add: dclamp_def)

lemma dmin_Fin: "dmin (Fin x) (Fin y) = Fin (min x y)"
  by (auto simp: dmin_def min_def)

lemma round64_Fin: "\<bar>rnd64 x\<bar> < overflow64 \<Longrightarrow> round64 x = Fin (rnd64 x)"
  by (auto simp: round64_def Let_def abs_less_iff)

lemma round64_eq_Fin_iff: "round64 x = Fin y \<longleftrightarrow> \<bar>rnd64 x\<bar> < overflow64 \<and> y = rnd64 x"
  by (auto simp: round64_def Let_def abs_less_iff)

lemma is_double_Fin_iff [simp]:
  "is_double (Fin x) \<longleftrightarrow> rnd64 x = x \<and> \<bar>x\<bar> < overflow64"
  by (auto simp: round64_eq_Fin_iff)

declare is_double.simps(1) [simp del]

lemma round64_between:
  assumes "is_double (Fin lo)" "is_double (Fin hi)" "lo \<le> x" "x \<le> hi"
  shows "round64 x = Fin (rnd64 x)" "lo \<le> rnd64 x" "rnd64 x \<le> hi"
proof -
  show *: "lo \<le> rnd64 x" "rnd64 x \<le> hi"
    using assms rnd64_mono [of lo x] rnd64_mono [of x hi] by auto
  then show "round64 x = Fin (rnd64 x)"
    using assms by (intro round64_Fin) auto
qed

text \<open>A result cannot fall below (rise above) a representable bound of the exact value.\<close>

lemma round64_not_below:
  "is_double (Fin b) \<Longrightarrow> b \<le> x \<Longrightarrow> \<not> dlt (round64 x) (Fin b)"
  using rnd64_mono [of b x] by (auto simp: round64_def Let_def)

lemma round64_not_above:
  "is_double (Fin b) \<Longrightarrow> x \<le> b \<Longrightarrow> \<not> dlt (Fin b) (round64 x)"
  using rnd64_mono [of x b] by (auto simp: round64_def Let_def)

lemma is_double_of_int: "\<bar>n\<bar> \<le> 2 ^ 53 \<Longrightarrow> is_double (Fin (of_int n))"
proof -
  assume n: "\<bar>n\<bar> \<le> 2 ^ 53"
  then have "(of_int \<bar>n\<bar> :: rat) \<le> of_int (2 ^ 53)" by (subst of_int_le_iff)
  then have "\<bar>of_int n :: rat\<bar> < overflow64" by (simp add: overflow64_def)
  with n show ?thesis by (simp add: rnd64_of_int)
qed

subsection \<open>Evaluating literals\<close>

lemma overflow64_gt: "x \<le> 2 ^ 63 \<Longrightarrow> x < overflow64"
  by (simp add: overflow64_def)

lemma round64_eval: "rnd64 x = y \<Longrightarrow> \<bar>y\<bar> \<le> 2 ^ 63 \<Longrightarrow> round64 x = Fin y"
  using overflow64_gt [of "\<bar>y\<bar>"] by (simp add: round64_Fin)

lemma is_double_eval: "rnd64 y = y \<Longrightarrow> \<bar>y\<bar> \<le> 2 ^ 63 \<Longrightarrow> is_double (Fin y)"
  using overflow64_gt [of "\<bar>y\<bar>"] by simp

lemma dbl_of_int: "\<bar>n\<bar> \<le> 2 ^ 53 \<Longrightarrow> dbl (of_int n) = Fin (of_int n)"
  using is_double_of_int [of n] round64_Fin [of "of_int n"] by simp

lemma dbl_ints [simp]:
  "dbl 0 = Fin 0" "dbl 1 = Fin 1"
  "(numeral w :: int) \<le> 2 ^ 53 \<Longrightarrow> dbl (numeral w) = Fin (numeral w)"
  "(numeral w :: int) \<le> 2 ^ 53 \<Longrightarrow> dbl (- numeral w) = Fin (- numeral w)"
  using dbl_of_int [of 0] dbl_of_int [of 1] dbl_of_int [of "numeral w"]
    dbl_of_int [of "- numeral w"] by auto

lemma is_double_ints [simp]:
  "rnd64 (numeral w) = numeral w" if "(numeral w :: int) \<le> 2 ^ 53" for w
  using that rnd64_of_int [of "numeral w"] by simp

lemma is_double_small [simp]:
  "is_double (Fin 0)" "is_double (Fin 1)" "is_double (Fin (-1))" "is_double (Fin (1 / 2))"
proof -
  show "is_double (Fin 0)" "is_double (Fin 1)" "is_double (Fin (-1))"
    using is_double_of_int [of 0] is_double_of_int [of 1] is_double_of_int [of "-1"] by simp_all
  show "is_double (Fin (1 / 2))" by (rule is_double_eval; code_simp)
qed

text \<open>The decimal literals of the sources.\<close>

lemma dbl_literals [simp]:
  "dbl (1 / 10) = Fin (3602879701896397 / 36028797018963968)"
  "dbl (18 / 5) = Fin (8106479329266893 / 2251799813685248)"
  "dbl (1 / 5) = Fin (3602879701896397 / 18014398509481984)"
  "dbl (1638 / 5) = Fin (2881600074075341 / 8796093022208)"
  "dbl (1 / 1000000000) = Fin (4835703278458517 / 4835703278458516698824704)"
  "dbl (819 / 2) = Fin (819 / 2)" "dbl (6707 / 2) = Fin (6707 / 2)"
  by (rule round64_eval; code_simp)+

subsection \<open>Printing\<close>

text \<open>\<open>std::to_string(double)\<close>, that is \<open>printf\<close> with \<open>%f\<close>: six decimals of the exact value.\<close>

definition fixed6 :: "rat \<Rightarrow> string" where
  "fixed6 x =
     (let n = nat (round_half_even (\<bar>x\<bar> * 1000000));
          frac = nat_to_string (n mod 1000000)
      in (if x < 0 then ''-'' else []) @ nat_to_string (n div 1000000) @ ''.'' @
         replicate (6 - length frac) (CHR ''0'') @ frac)"

fun double_to_string :: "double \<Rightarrow> string" where
  "double_to_string (Fin x) = fixed6 x"
| "double_to_string PInf = ''inf''"
| "double_to_string NInf = ''-inf''"
| "double_to_string NaN = ''nan''"

end
