(* ===== verification/Protocol.thy ===== *)
theory Protocol
  imports Binary64
begin

text \<open>
  The wire structures of \<open>cpp/include/mine_teleop/core.hpp\<close> and their validation in
  \<open>cpp/src/core.cpp\<close>: protocol metadata, control commands, native control intents and the
  session control profile with its request and result. A validation function returns the
  exception it throws, in the order of the source's checks.
\<close>

subsection \<open>Constants\<close>

definition kProtocolVersion :: int where
  "kProtocolVersion = 1"
definition kMaxFullScaleMotorTorqueNm :: double where
  "kMaxFullScaleMotorTorqueNm = dbl 640"
definition kDefaultMotorTorqueRiseRateNmPerSecond :: double where
  "kDefaultMotorTorqueRiseRateNmPerSecond = dbl 0"
definition kMaxMotorTorqueRiseRateNmPerSecond :: double where
  "kMaxMotorTorqueRiseRateNmPerSecond = dbl 32000"
definition kMaxOrdinaryBrakePressureBar :: double where
  "kMaxOrdinaryBrakePressureBar = dbl (3276 / 10)"
definition kSessionControlProfileMaxAgeMs :: int where
  "kSessionControlProfileMaxAgeMs = 2000"
definition kSessionControlProfileVersion :: int where
  "kSessionControlProfileVersion = 4"
definition kChassisControlMaxTargetSpeedMps :: double where
  "kChassisControlMaxTargetSpeedMps = dbl 20"
definition kChassisControlMaxTargetSpeedKph :: double where
  "kChassisControlMaxTargetSpeedKph = dmul kChassisControlMaxTargetSpeedMps (dbl (36 / 10))"
definition kChassisControlMaxSteeringAngleDeg :: double where
  "kChassisControlMaxSteeringAngleDeg = dbl 30"
definition kMinSpeedPidMaxDtMs :: int where
  "kMinSpeedPidMaxDtMs = 20"
definition kMaxSpeedPidMaxDtMs :: int where
  "kMaxSpeedPidMaxDtMs = 200"
definition kMaxSpeedPidGain :: double where
  "kMaxSpeedPidGain = dbl 100"
definition kMaxSpeedPidDerivativeFilterTauMs :: double where
  "kMaxSpeedPidDerivativeFilterTauMs = dbl 2000"

abbreviation zero :: double where
  "zero \<equiv> Fin 0"
abbreviation one :: double where
  "one \<equiv> Fin 1"

text \<open>The comparison tolerance \<open>1e-9\<close> of the sources.\<close>

definition tolerance :: double where
  "tolerance = dbl (1 / 1000000000)"

lemma tolerance_eq: "tolerance = Fin (4835703278458517 / 4835703278458516698824704)"
  by (simp add: tolerance_def)

lemma tolerance_bounds:
  obtains q where "tolerance = Fin q" "0 < q" "q < 1 / 100"
  by (rule that [OF tolerance_eq]) simp_all

lemma limit_values:
  "kChassisControlMaxTargetSpeedKph = Fin 72" "kMaxFullScaleMotorTorqueNm = Fin 640"
  "kMaxOrdinaryBrakePressureBar = Fin (2881600074075341 / 8796093022208)"
  "kChassisControlMaxSteeringAngleDeg = Fin 30" "kMaxSpeedPidGain = Fin 100"
  "kMaxSpeedPidDerivativeFilterTauMs = Fin 2000" "kMaxMotorTorqueRiseRateNmPerSecond = Fin 32000"
proof -
  have "round64 (20 * (8106479329266893 / 2251799813685248)) = Fin 72"
    by (rule round64_eval; code_simp)
  then show "kChassisControlMaxTargetSpeedKph = Fin 72"
    by (simp add: kChassisControlMaxTargetSpeedKph_def kChassisControlMaxTargetSpeedMps_def)
qed (simp_all add: kMaxFullScaleMotorTorqueNm_def kMaxOrdinaryBrakePressureBar_def
    kChassisControlMaxSteeringAngleDeg_def kMaxSpeedPidGain_def
    kMaxSpeedPidDerivativeFilterTauMs_def kMaxMotorTorqueRiseRateNmPerSecond_def)

subsection \<open>Range checks\<close>

definition require_finite_range :: "double \<Rightarrow> double \<Rightarrow> double \<Rightarrow> string \<Rightarrow> unit res" where
  "require_finite_range value minimum maximum label =
     throw_if (\<not> isfinite value \<or> dlt value minimum \<or> dlt maximum value)
       (InvalidArgument (label @ '' must be a finite value in ['' @
          double_to_string minimum @ '', '' @ double_to_string maximum @ '']''))"

definition in_range :: "double \<Rightarrow> double \<Rightarrow> double \<Rightarrow> bool" where
  "in_range x lo hi \<longleftrightarrow> isfinite x \<and> \<not> dlt x lo \<and> \<not> dlt hi x"

lemma require_finite_range_ok [validate_simps]:
  "require_finite_range x lo hi l = Inr u \<longleftrightarrow> in_range x lo hi"
  by (auto simp: require_finite_range_def in_range_def)

lemma in_range_Fin: "in_range x (Fin lo) (Fin hi) \<longleftrightarrow> (\<exists>q. x = Fin q \<and> lo \<le> q \<and> q \<le> hi)"
  by (cases x) (auto simp: in_range_def)

lemma in_range_values [simp]:
  "in_range (Fin q) (Fin lo) (Fin hi) \<longleftrightarrow> lo \<le> q \<and> q \<le> hi" "\<not> in_range PInf (Fin lo) (Fin hi)"
  "\<not> in_range NInf (Fin lo) (Fin hi)" "\<not> in_range NaN (Fin lo) (Fin hi)"
  by (auto simp: in_range_def)

subsection \<open>Protocol metadata\<close>

record protocol_metadata =
  protocol_version :: int
  vehicle_id :: string
  driver_id :: string
  session_id :: string
  seq :: uint64
  sent_at_utc_ms :: int

definition metadata_validate :: "'a protocol_metadata_scheme \<Rightarrow> unit res" where
  "metadata_validate m = checks
     [throw_if (protocol_version m \<noteq> kProtocolVersion) (InvalidArgument ''unsupported protocol_version''),
      throw_if (vehicle_id m = []) (InvalidArgument ''vehicle_id is required''),
      throw_if (driver_id m = []) (InvalidArgument ''driver_id is required''),
      throw_if (session_id m = []) (InvalidArgument ''session_id is required''),
      throw_if (seq m = 0) (InvalidArgument ''seq must be positive''),
      throw_if (sent_at_utc_ms m < 0) (InvalidArgument ''sent_at_utc_ms must be non-negative'')]"

lemma metadata_validate_ok [validate_simps]:
  "metadata_validate m = Inr u \<longleftrightarrow>
     protocol_version m = kProtocolVersion \<and> vehicle_id m \<noteq> [] \<and> driver_id m \<noteq> [] \<and>
     session_id m \<noteq> [] \<and> seq m \<noteq> 0 \<and> 0 \<le> sent_at_utc_ms m"
  by (auto simp: metadata_validate_def)

subsection \<open>Control commands\<close>

record control_command = protocol_metadata +
  gear :: string
  steering :: double
  throttle :: double
  brake :: double
  estop :: bool
  control_token :: string
  operator_active :: bool

definition allowed_gear :: "string \<Rightarrow> bool" where
  "allowed_gear g \<longleftrightarrow> g \<in> {''P'', ''R'', ''N'', ''D''}"

definition control_command_validate :: "control_command \<Rightarrow> unit res" where
  "control_command_validate c = checks
     [metadata_validate c,
      throw_if (control_token c = []) (InvalidArgument ''control_token is required''),
      throw_if (\<not> allowed_gear (gear c)) (InvalidArgument ''gear must be one of P/R/N/D''),
      require_finite_range (steering c) (Fin (-1)) one ''steering'',
      require_finite_range (throttle c) zero one ''throttle'',
      require_finite_range (brake c) zero one ''brake'']"

definition valid_command :: "control_command \<Rightarrow> bool" where
  "valid_command c \<longleftrightarrow> control_command_validate c = Inr ()"

lemma control_command_validate_ok [validate_simps]:
  "control_command_validate c = Inr u \<longleftrightarrow>
     metadata_validate c = Inr () \<and> control_token c \<noteq> [] \<and> allowed_gear (gear c) \<and>
     in_range (steering c) (Fin (-1)) one \<and> in_range (throttle c) zero one \<and>
     in_range (brake c) zero one"
  by (auto simp: control_command_validate_def validate_simps)

subsection \<open>Native control intents\<close>

record native_control_intent =
  ui_instance_id :: string
  intent_seq :: uint64
  ni_gear :: string
  ni_steering :: double
  ni_throttle :: double
  ni_brake :: double
  ni_estop :: bool

text \<open>\<open>std::isalnum\<close> in the C locale.\<close>

definition c_isalnum :: "char \<Rightarrow> bool" where
  "c_isalnum c \<longleftrightarrow>
     (let n = (of_char c :: nat)
      in (48 \<le> n \<and> n \<le> 57) \<or> (65 \<le> n \<and> n \<le> 90) \<or> (97 \<le> n \<and> n \<le> 122))"

definition intent_validate :: "native_control_intent \<Rightarrow> unit res" where
  "intent_validate i = checks
     [throw_if (ui_instance_id i = [] \<or> 128 < length (ui_instance_id i) \<or>
         \<not> list_all (\<lambda>c. c_isalnum c \<or> c = CHR ''-'' \<or> c = CHR ''_'') (ui_instance_id i))
        (InvalidArgument ''ui_instance_id is invalid''),
      throw_if (intent_seq i = 0) (InvalidArgument ''intent_seq must be positive''),
      throw_if (\<not> allowed_gear (ni_gear i)) (InvalidArgument ''intent gear must be one of P/R/N/D''),
      require_finite_range (ni_steering i) (Fin (-1)) one ''intent steering'',
      require_finite_range (ni_throttle i) zero one ''intent throttle'',
      require_finite_range (ni_brake i) zero one ''intent brake'']"

definition is_neutral :: "native_control_intent \<Rightarrow> bool" where
  "is_neutral i \<longleftrightarrow> \<not> ni_estop i \<and> dle (dabs (ni_steering i)) tolerance \<and>
     dle (ni_throttle i) tolerance \<and> dle (ni_brake i) tolerance"

text \<open>The defaulted \<open>operator==\<close>: memberwise, with the comparison of doubles.\<close>

definition intent_eq :: "native_control_intent \<Rightarrow> native_control_intent \<Rightarrow> bool" where
  "intent_eq a b \<longleftrightarrow> ui_instance_id a = ui_instance_id b \<and> intent_seq a = intent_seq b \<and>
     ni_gear a = ni_gear b \<and> deq (ni_steering a) (ni_steering b) \<and>
     deq (ni_throttle a) (ni_throttle b) \<and> deq (ni_brake a) (ni_brake b) \<and>
     ni_estop a = ni_estop b"

lemma intent_eq_imp_eq: "intent_eq a b \<Longrightarrow> a = b"
proof -
  have deq_eq: "deq x y \<Longrightarrow> x = y" for x y by (cases x; cases y; simp)
  assume "intent_eq a b"
  then show ?thesis by (auto simp: intent_eq_def intro!: native_control_intent.equality dest: deq_eq)
qed

subsection \<open>Session control profiles\<close>

record session_control_profile =
  profile_version :: int
  target_speed_kph :: double
  max_motor_torque_nm :: double
  max_brake_pressure_bar :: double
  service_brake_pressure_bar :: double
  hard_brake_pressure_bar :: double
  max_steering_angle_deg :: double
  speed_pid_kp :: double
  speed_pid_ki :: double
  speed_pid_kd :: double
  speed_pid_derivative_filter_tau_ms :: double
  speed_pid_max_dt_ms :: int
  motor_torque_rise_rate_nm_per_s :: double
  parking_idle_timeout_ms :: int

definition default_profile :: session_control_profile where
  "default_profile = \<lparr>
     profile_version = kSessionControlProfileVersion,
     target_speed_kph = zero, max_motor_torque_nm = zero, max_brake_pressure_bar = zero,
     service_brake_pressure_bar = zero, hard_brake_pressure_bar = zero,
     max_steering_angle_deg = zero,
     speed_pid_kp = one, speed_pid_ki = dbl (2 / 10), speed_pid_kd = zero,
     speed_pid_derivative_filter_tau_ms = dbl 100, speed_pid_max_dt_ms = 100,
     motor_torque_rise_rate_nm_per_s = kDefaultMotorTorqueRiseRateNmPerSecond,
     parking_idle_timeout_ms = 500\<rparr>"

definition profile_validate :: "session_control_profile \<Rightarrow> unit res" where
  "profile_validate p = checks
     [throw_if (parking_idle_timeout_ms p < 0 \<or> 1000 < parking_idle_timeout_ms p)
        (InvalidArgument ''parking_idle_timeout_ms must be in [0, 1000]''),
      throw_if (profile_version p \<noteq> kSessionControlProfileVersion)
        (InvalidArgument ''session control profile version must be 4''),
      require_finite_range (target_speed_kph p) zero kChassisControlMaxTargetSpeedKph ''target_speed_kph'',
      require_finite_range (max_motor_torque_nm p) zero kMaxFullScaleMotorTorqueNm ''max_motor_torque_nm'',
      require_finite_range (max_brake_pressure_bar p) zero kMaxOrdinaryBrakePressureBar ''max_brake_pressure_bar'',
      require_finite_range (service_brake_pressure_bar p) zero kMaxOrdinaryBrakePressureBar ''service_brake_pressure_bar'',
      require_finite_range (hard_brake_pressure_bar p) zero kMaxOrdinaryBrakePressureBar ''hard_brake_pressure_bar'',
      throw_if (dlt (hard_brake_pressure_bar p) (service_brake_pressure_bar p) \<or>
                dlt (max_brake_pressure_bar p) (hard_brake_pressure_bar p))
        (InvalidArgument ''brake pressure must satisfy service <= hard <= max''),
      require_finite_range (max_steering_angle_deg p) zero kChassisControlMaxSteeringAngleDeg ''max_steering_angle_deg'',
      require_finite_range (speed_pid_kp p) zero kMaxSpeedPidGain ''speed_pid_kp'',
      throw_if (dle (speed_pid_kp p) zero) (InvalidArgument ''speed_pid_kp must be positive''),
      require_finite_range (speed_pid_ki p) zero kMaxSpeedPidGain ''speed_pid_ki'',
      require_finite_range (speed_pid_kd p) zero kMaxSpeedPidGain ''speed_pid_kd'',
      require_finite_range (speed_pid_derivative_filter_tau_ms p) zero
        kMaxSpeedPidDerivativeFilterTauMs ''speed_pid_derivative_filter_tau_ms'',
      throw_if (speed_pid_max_dt_ms p < kMinSpeedPidMaxDtMs \<or> kMaxSpeedPidMaxDtMs < speed_pid_max_dt_ms p)
        (InvalidArgument ''speed_pid_max_dt_ms must be in [20, 200]''),
      require_finite_range (motor_torque_rise_rate_nm_per_s p) zero
        kMaxMotorTorqueRiseRateNmPerSecond ''motor_torque_rise_rate_nm_per_s'']"

definition profile_eq :: "session_control_profile \<Rightarrow> session_control_profile \<Rightarrow> bool" where
  "profile_eq p q \<longleftrightarrow>
     profile_version p = profile_version q \<and>
     deq (target_speed_kph p) (target_speed_kph q) \<and>
     deq (max_motor_torque_nm p) (max_motor_torque_nm q) \<and>
     deq (max_brake_pressure_bar p) (max_brake_pressure_bar q) \<and>
     deq (service_brake_pressure_bar p) (service_brake_pressure_bar q) \<and>
     deq (hard_brake_pressure_bar p) (hard_brake_pressure_bar q) \<and>
     deq (max_steering_angle_deg p) (max_steering_angle_deg q) \<and>
     deq (speed_pid_kp p) (speed_pid_kp q) \<and>
     deq (speed_pid_ki p) (speed_pid_ki q) \<and>
     deq (speed_pid_kd p) (speed_pid_kd q) \<and>
     deq (speed_pid_derivative_filter_tau_ms p) (speed_pid_derivative_filter_tau_ms q) \<and>
     speed_pid_max_dt_ms p = speed_pid_max_dt_ms q \<and>
     deq (motor_torque_rise_rate_nm_per_s p) (motor_torque_rise_rate_nm_per_s q) \<and>
     parking_idle_timeout_ms p = parking_idle_timeout_ms q"

record session_control_profile_request = protocol_metadata +
  req_control_token :: string
  req_profile :: session_control_profile

definition profile_request_validate :: "session_control_profile_request \<Rightarrow> unit res" where
  "profile_request_validate r = checks
     [metadata_validate r,
      throw_if (req_control_token r = []) (InvalidArgument ''control_token is required''),
      profile_validate (req_profile r)]"

record session_control_profile_result = protocol_metadata +
  res_accepted :: bool
  res_idempotent :: bool
  res_applied_revision :: uint64
  res_reason :: string
  res_effective_profile :: "session_control_profile option"

definition profile_result_validate :: "session_control_profile_result \<Rightarrow> unit res" where
  "profile_result_validate r = checks
     [metadata_validate r,
      throw_if (res_reason r = []) (InvalidArgument ''profile result reason is required''),
      (case res_effective_profile r of None \<Rightarrow> Inr () | Some p \<Rightarrow> profile_validate p),
      throw_if (res_accepted r \<and> res_effective_profile r = None)
        (InvalidArgument ''accepted profile result requires an effective profile''),
      throw_if (res_accepted r \<and> res_applied_revision r \<noteq> seq r)
        (InvalidArgument ''accepted profile result requires applied_revision equal to seq''),
      throw_if (\<not> res_accepted r \<and> res_applied_revision r \<noteq> 0)
        (InvalidArgument ''rejected profile result requires applied_revision zero'')]"

end
