(* ===== verification/Intent_Store.thy ===== *)
theory Intent_Store
  imports Protocol
begin

text \<open>
  \<open>NativeControlIntentStore\<close> (\<open>cpp/src/core.cpp\<close>): the latest browser intent, its lease,
  the fresh-neutral interlock and the sticky ESTOP latch. Each member function runs under
  the store's mutex, so a run of the store is a sequence of whole operations.
\<close>

record intent_update_result =
  iu_accepted :: bool
  iu_duplicate :: bool
  iu_requires_fresh_input :: bool
  iu_reason :: string

record intent_sample_result =
  is_active :: bool
  is_fresh :: bool
  is_requires_fresh_input :: bool
  is_intent :: native_control_intent

record intent_store =
  lease_ms :: int
  latest :: "native_control_intent option"
  received_at_monotonic_ms :: int
  requires_fresh_input :: bool
  estop_latched :: bool

definition default_intent :: native_control_intent where
  "default_intent = \<lparr>ui_instance_id = [], intent_seq = 0, ni_gear = ''N'', ni_steering = zero,
     ni_throttle = zero, ni_brake = zero, ni_estop = False\<rparr>"

definition intent_store_new :: "int \<Rightarrow> intent_store res" where
  "intent_store_new lease =
     (if lease < 100 \<or> 1000 < lease
      then Inl (InvalidArgument ''native control intent lease must be between 100ms and 1000ms'')
      else Inr \<lparr>lease_ms = lease, latest = None, received_at_monotonic_ms = 0,
                requires_fresh_input = True, estop_latched = False\<rparr>)"

text \<open>ESTOP makes the stored intent unambiguously fail-safe.\<close>

definition estop_normalize :: "bool \<Rightarrow> native_control_intent \<Rightarrow> native_control_intent" where
  "estop_normalize latched i =
     (if latched \<or> ni_estop i
      then i\<lparr>ni_estop := True, ni_steering := zero, ni_throttle := zero, ni_brake := zero\<rparr>
      else i)"

definition same_ui :: "intent_store \<Rightarrow> native_control_intent \<Rightarrow> bool" where
  "same_ui s i \<longleftrightarrow> (case latest s of None \<Rightarrow> False | Some l \<Rightarrow> ui_instance_id l = ui_instance_id i)"

definition latest_seq :: "intent_store \<Rightarrow> uint64" where
  "latest_seq s = (case latest s of None \<Rightarrow> 0 | Some l \<Rightarrow> intent_seq l)"

text \<open>
  The part of \<open>update\<close> under the lock: \<open>intent\<close> is the incoming value, \<open>i\<close> the value
  normalised by the latch.
\<close>

definition intent_admit ::
  "native_control_intent \<Rightarrow> int \<Rightarrow> intent_store \<Rightarrow> intent_update_result \<times> intent_store" where
  "intent_admit intent received_at s =
     (let i = estop_normalize (estop_latched s) intent;
          duplicate = (same_ui s i \<and> intent_seq i = latest_seq s);
          fresh_needed = (if latest s \<noteq> None \<and> \<not> same_ui s i then True else requires_fresh_input s);
          rejected = s\<lparr>requires_fresh_input := fresh_needed\<rparr>;
          fresh_needed' = (fresh_needed \<and> \<not> is_neutral intent)
      in if same_ui s i \<and> intent_seq i < latest_seq s
         then (\<lparr>iu_accepted = False, iu_duplicate = False,
                iu_requires_fresh_input = fresh_needed, iu_reason = ''old_intent_seq''\<rparr>, rejected)
         else if duplicate \<and> \<not> intent_eq i (the (latest s))
         then (\<lparr>iu_accepted = False, iu_duplicate = False,
                iu_requires_fresh_input = fresh_needed, iu_reason = ''intent_seq_conflict''\<rparr>, rejected)
         else if fresh_needed \<and> \<not> is_neutral intent \<and> \<not> ni_estop intent
         then (\<lparr>iu_accepted = False, iu_duplicate = duplicate,
                iu_requires_fresh_input = True, iu_reason = ''fresh_neutral_required''\<rparr>, rejected)
         else (\<lparr>iu_accepted = True, iu_duplicate = duplicate,
                iu_requires_fresh_input = fresh_needed',
                iu_reason = (if duplicate then ''refreshed'' else ''accepted'')\<rparr>,
               s\<lparr>latest := Some i, received_at_monotonic_ms := received_at,
                 requires_fresh_input := fresh_needed',
                 estop_latched := (estop_latched s \<or> ni_estop i)\<rparr>))"

definition intent_update ::
  "native_control_intent \<Rightarrow> int \<Rightarrow> (intent_store, intent_update_result) oper" where
  "intent_update intent received_at s =
     (case checks [intent_validate intent,
                   throw_if (received_at < 0)
                     (InvalidArgument ''intent receive time must be non-negative'')] of
        Inl e \<Rightarrow> (Inl e, s)
      | Inr _ \<Rightarrow> apfst Inr (intent_admit intent received_at s))"

definition intent_sample :: "int \<Rightarrow> (intent_store, intent_sample_result) oper" where
  "intent_sample now s =
     (if now < 0 then (Inl (InvalidArgument ''intent sample time must be non-negative''), s)
      else case latest s of
        None \<Rightarrow> (Inr \<lparr>is_active = False, is_fresh = False, is_requires_fresh_input = True,
                       is_intent = default_intent\<rparr>, s)
      | Some l \<Rightarrow>
        (let age = max 0 (now - received_at_monotonic_ms s);
             fresh = (age < lease_ms s);
             fresh_needed = (requires_fresh_input s \<or> (\<not> fresh \<and> \<not> is_neutral l \<and> \<not> ni_estop l));
             effective = (if fresh_needed \<and> \<not> ni_estop l
                          then l\<lparr>ni_steering := zero, ni_throttle := zero, ni_brake := zero\<rparr>
                          else l)
         in (Inr \<lparr>is_active = True, is_fresh = fresh, is_requires_fresh_input = fresh_needed,
                  is_intent = effective\<lparr>ni_estop := estop_latched s\<rparr>\<rparr>,
             s\<lparr>requires_fresh_input := fresh_needed\<rparr>)))"

definition intent_invalidate :: "(intent_store, unit) oper" where
  "intent_invalidate s = (Inr (), s\<lparr>requires_fresh_input := True\<rparr>)"

definition intent_reset :: "(intent_store, unit) oper" where
  "intent_reset s =
     (Inr (), s\<lparr>latest := None, received_at_monotonic_ms := 0, requires_fresh_input := True,
               estop_latched := False\<rparr>)"

subsection \<open>Runs of the store\<close>

datatype intent_event =
    IUpdate native_control_intent int
  | ISample int
  | IInvalidate
  | IReset

datatype intent_output =
    OUpdate intent_update_result
  | OSample intent_sample_result
  | ONone
  | OThrown exn

fun intent_step :: "intent_event \<Rightarrow> intent_store \<Rightarrow> intent_output \<times> intent_store" where
  "intent_step (IUpdate i t) s =
     (case intent_update i t s of (Inl e, s') \<Rightarrow> (OThrown e, s') | (Inr r, s') \<Rightarrow> (OUpdate r, s'))"
| "intent_step (ISample t) s =
     (case intent_sample t s of (Inl e, s') \<Rightarrow> (OThrown e, s') | (Inr r, s') \<Rightarrow> (OSample r, s'))"
| "intent_step IInvalidate s = (ONone, snd (intent_invalidate s))"
| "intent_step IReset s = (ONone, snd (intent_reset s))"

subsection \<open>The store's invariant\<close>

definition zero_actuation :: "native_control_intent \<Rightarrow> bool" where
  "zero_actuation i \<longleftrightarrow> ni_steering i = zero \<and> ni_throttle i = zero \<and> ni_brake i = zero"

text \<open>
  The latch and the stored intent agree: while ESTOP is latched the stored intent is an
  ESTOP with zero actuation, and an ESTOP is never stored without latching it. Every stored
  intent passed validation.
\<close>

definition intent_inv :: "intent_store \<Rightarrow> bool" where
  "intent_inv s \<longleftrightarrow> 100 \<le> lease_ms s \<and> lease_ms s \<le> 1000 \<and>
     (case latest s of
        None \<Rightarrow> \<not> estop_latched s \<and> requires_fresh_input s
      | Some i \<Rightarrow> ni_estop i = estop_latched s \<and> (ni_estop i \<longrightarrow> zero_actuation i) \<and>
                  intent_validate i = Inr ())"

lemma intent_validate_ok [validate_simps]:
  "intent_validate i = Inr u \<longleftrightarrow>
     ui_instance_id i \<noteq> [] \<and> length (ui_instance_id i) \<le> 128 \<and>
     list_all (\<lambda>c. c_isalnum c \<or> c = CHR ''-'' \<or> c = CHR ''_'') (ui_instance_id i) \<and>
     intent_seq i \<noteq> 0 \<and> allowed_gear (ni_gear i) \<and>
     in_range (ni_steering i) (Fin (-1)) one \<and> in_range (ni_throttle i) zero one \<and>
     in_range (ni_brake i) zero one"
  by (auto simp: intent_validate_def validate_simps)

lemma estop_normalize_simps [simp]:
  "ni_estop (estop_normalize b i) \<longleftrightarrow> b \<or> ni_estop i"
  "ui_instance_id (estop_normalize b i) = ui_instance_id i"
  "intent_seq (estop_normalize b i) = intent_seq i"
  "ni_estop (estop_normalize b i) \<Longrightarrow> zero_actuation (estop_normalize b i)"
  by (auto simp: estop_normalize_def zero_actuation_def)

lemma intent_validate_normalize:
  "intent_validate i = Inr () \<Longrightarrow> intent_validate (estop_normalize b i) = Inr ()"
  by (auto simp: estop_normalize_def validate_simps in_range_def)

lemma intent_store_new_inv: "intent_store_new l = Inr s \<Longrightarrow> intent_inv s"
  by (auto simp: intent_store_new_def intent_inv_def split: if_splits)

lemma intent_admit_cases:
  assumes "intent_admit i t s = (u, s')"
  obtains (rejected) b where "\<not> iu_accepted u" "s' = s\<lparr>requires_fresh_input := b\<rparr>"
      "requires_fresh_input s \<longrightarrow> b"
  | (accepted) b where "iu_accepted u"
      "s' = s\<lparr>latest := Some (estop_normalize (estop_latched s) i), received_at_monotonic_ms := t,
              requires_fresh_input := b, estop_latched := (estop_latched s \<or> ni_estop i)\<rparr>"
      "requires_fresh_input s \<longrightarrow> is_neutral i \<or> (b \<and> ni_estop i)"
      "same_ui s i \<longrightarrow> latest_seq s \<le> intent_seq i"
proof -
  define n where "n = estop_normalize (estop_latched s) i"
  have su: "same_ui s n = same_ui s i" by (simp add: n_def same_ui_def split: option.splits)
  define f where "f \<longleftrightarrow> (if latest s \<noteq> None \<and> \<not> same_ui s n then True else requires_fresh_input s)"
  have fr: "requires_fresh_input s \<longrightarrow> f" by (simp add: f_def)
  let ?old = "same_ui s n \<and> intent_seq n < latest_seq s"
  let ?conflict = "(same_ui s n \<and> intent_seq n = latest_seq s) \<and> \<not> intent_eq n (the (latest s))"
  let ?block = "f \<and> \<not> is_neutral i \<and> \<not> ni_estop i"
  note body = assms [unfolded intent_admit_def Let_def, folded n_def, folded f_def]
  show thesis
  proof (cases "?old \<or> ?conflict \<or> ?block")
    case True
    with body have "s' = s\<lparr>requires_fresh_input := f\<rparr> \<and> \<not> iu_accepted u"
      by (auto split: if_splits)
    then show thesis using rejected fr by blast
  next
    case False
    with body have "iu_accepted u \<and> s' = s\<lparr>latest := Some n, received_at_monotonic_ms := t,
        requires_fresh_input := (f \<and> \<not> is_neutral i), estop_latched := (estop_latched s \<or> ni_estop n)\<rparr>"
      by (auto split: if_splits)
    then show thesis
      using False fr su by (intro accepted [of "f \<and> \<not> is_neutral i"]) (auto simp: n_def not_less)
  qed
qed

lemma intent_update_cases:
  assumes "intent_update i t s = (r, s')"
  obtains (thrown) e where "r = Inl e" "s' = s"
  | (admitted) u where "r = Inr u" "intent_validate i = Inr ()" "0 \<le> t"
      "intent_admit i t s = (u, s')"
  using assms by (auto simp: intent_update_def split: sum.splits) (metis apfst_conv surj_pair Pair_inject)

text \<open>To show a property of the state after \<open>update\<close>, consider a rejection and an acceptance.\<close>

lemma intent_update_state:
  assumes "P s"
    and "\<And>b. (requires_fresh_input s \<longrightarrow> b) \<Longrightarrow> P (s\<lparr>requires_fresh_input := b\<rparr>)"
    and "\<And>b. intent_validate i = Inr () \<Longrightarrow>
      (requires_fresh_input s \<longrightarrow> is_neutral i \<or> (b \<and> ni_estop i)) \<Longrightarrow>
      P (s\<lparr>latest := Some (estop_normalize (estop_latched s) i), received_at_monotonic_ms := t,
           requires_fresh_input := b, estop_latched := (estop_latched s \<or> ni_estop i)\<rparr>)"
  shows "P (snd (intent_update i t s))"
proof (cases "intent_update i t s")
  case (Pair r s')
  then show ?thesis
  proof (cases rule: intent_update_cases)
    case thrown
    with assms(1) Pair show ?thesis by simp
  next
    case (admitted u)
    from admitted(4) show ?thesis
    proof (cases rule: intent_admit_cases)
      case (rejected b)
      with assms(2) Pair show ?thesis by simp
    next
      case (accepted b)
      with assms(3) Pair admitted(2) show ?thesis by simp
    qed
  qed
qed

lemma intent_update_inv:
  assumes "intent_inv s"
  shows "intent_inv (snd (intent_update i t s))"
  by (rule intent_update_state [where P = intent_inv])
     (use assms in \<open>auto simp: intent_inv_def intent_validate_normalize split: option.splits\<close>)

lemma intent_sample_inv:
  assumes "intent_inv s"
  shows "intent_inv (snd (intent_sample now s))"
  using assms by (auto simp: intent_sample_def intent_inv_def Let_def split: option.splits)

lemma snd_intent_step [simp]:
  "snd (intent_step (IUpdate i t) s) = snd (intent_update i t s)"
  "snd (intent_step (ISample t) s) = snd (intent_sample t s)"
  by (simp_all split: prod.splits sum.splits)

lemma intent_step_inv: "intent_inv s \<Longrightarrow> intent_inv (snd (intent_step e s))"
proof (cases e)
  case (IUpdate i t)
  assume "intent_inv s"
  then show ?thesis by (simp only: IUpdate snd_intent_step intent_update_inv)
next
  case (ISample t)
  assume "intent_inv s"
  then show ?thesis by (simp only: ISample snd_intent_step intent_sample_inv)
next
  case IInvalidate
  assume "intent_inv s"
  then show ?thesis using IInvalidate
    by (auto simp: intent_invalidate_def intent_inv_def split: option.splits)
next
  case IReset
  assume "intent_inv s"
  then show ?thesis using IReset by (simp add: intent_reset_def intent_inv_def)
qed

subsection \<open>What the samples of a run show\<close>

lemma zero_le_tolerance [simp]: "dle zero tolerance"
  by (simp add: tolerance_eq)

lemma zero_actuation_neutral: "zero_actuation i \<Longrightarrow> \<not> ni_estop i \<Longrightarrow> is_neutral i"
  by (simp add: zero_actuation_def is_neutral_def)

text \<open>A run without \<open>reset\<close> that starts with ESTOP latched.\<close>

definition estop_sample :: "intent_event \<Rightarrow> intent_output \<Rightarrow> bool" where
  "estop_sample e out \<longleftrightarrow>
     (case out of OSample r \<Rightarrow> is_active r \<and> ni_estop (is_intent r) \<and> zero_actuation (is_intent r)
      | _ \<Rightarrow> True)"

definition lease_sample :: "intent_event \<Rightarrow> intent_output \<Rightarrow> bool" where
  "lease_sample e out \<longleftrightarrow>
     (case out of
        OSample r \<Rightarrow> is_active r \<longrightarrow> \<not> is_fresh r \<longrightarrow>
          ni_estop (is_intent r) \<or> is_neutral (is_intent r)
      | _ \<Rightarrow> True)"

definition blocked_sample :: "intent_event \<Rightarrow> intent_output \<Rightarrow> bool" where
  "blocked_sample e out \<longleftrightarrow>
     (case out of OSample r \<Rightarrow> zero_actuation (is_intent r) \<and> is_requires_fresh_input r | _ \<Rightarrow> True)"

definition no_neutral_update :: "intent_event \<Rightarrow> bool" where
  "no_neutral_update e \<longleftrightarrow> (case e of IUpdate i t \<Rightarrow> \<not> is_neutral i | _ \<Rightarrow> True)"

lemma fst_intent_step_IUpdate:
  "case fst (intent_step (IUpdate i t) s) of OSample r \<Rightarrow> P r | _ \<Rightarrow> True"
  by (simp split: prod.splits sum.splits)

lemma intent_sample_latched:
  assumes "intent_inv s" "estop_latched s"
  shows "estop_sample e (fst (intent_step e s))"
  using assms fst_intent_step_IUpdate
  by (cases e) (auto simp: estop_sample_def intent_sample_def intent_inv_def Let_def
      zero_actuation_def split: option.splits)

lemma intent_update_latched:
  "estop_latched s \<Longrightarrow> estop_latched (snd (intent_update i t s))"
  by (rule intent_update_state [where P = estop_latched]) auto

lemma intent_step_latched:
  "estop_latched s \<Longrightarrow> e \<noteq> IReset \<Longrightarrow> estop_latched (snd (intent_step e s))"
proof (cases e)
  case (IUpdate i t)
  assume "estop_latched s"
  then show ?thesis by (simp only: IUpdate snd_intent_step intent_update_latched)
qed (auto simp: intent_sample_def intent_invalidate_def Let_def split: option.splits)

interpretation sticky: machine intent_step
  "\<lambda>s. intent_inv s \<and> estop_latched s" "\<lambda>e. e \<noteq> IReset" estop_sample
  by unfold_locales (auto intro: intent_step_inv intent_step_latched intent_sample_latched)

lemma intent_sample_lease:
  assumes "intent_inv s"
  shows "lease_sample e (fst (intent_step e s))"
  using assms fst_intent_step_IUpdate
  by (cases e) (auto simp: lease_sample_def intent_sample_def intent_inv_def Let_def
      is_neutral_def split: option.splits)

interpretation leased: machine intent_step intent_inv "\<lambda>_. True" lease_sample
  by unfold_locales (auto intro: intent_step_inv intent_sample_lease)

lemma intent_update_blocked:
  assumes "requires_fresh_input s" "\<not> is_neutral i"
  shows "requires_fresh_input (snd (intent_update i t s))"
  by (rule intent_update_state [where P = requires_fresh_input]) (use assms in auto)

lemma intent_step_blocked:
  "requires_fresh_input s \<Longrightarrow> no_neutral_update e \<Longrightarrow> requires_fresh_input (snd (intent_step e s))"
proof (cases e)
  case (IUpdate i t)
  assume "requires_fresh_input s" "no_neutral_update e"
  then have "requires_fresh_input s" "\<not> is_neutral i" by (auto simp: IUpdate no_neutral_update_def)
  then show ?thesis unfolding IUpdate snd_intent_step by (rule intent_update_blocked)
qed (auto simp: intent_sample_def intent_invalidate_def intent_reset_def Let_def split: option.splits)

lemma intent_sample_blocked:
  assumes "intent_inv s" "requires_fresh_input s"
  shows "blocked_sample e (fst (intent_step e s))"
  using assms fst_intent_step_IUpdate
  by (cases e) (auto simp: blocked_sample_def intent_sample_def intent_inv_def Let_def
      zero_actuation_def default_intent_def split: option.splits)

interpretation blocked: machine intent_step
  "\<lambda>s. intent_inv s \<and> requires_fresh_input s" no_neutral_update blocked_sample
  by unfold_locales (auto intro: intent_step_inv intent_step_blocked intent_sample_blocked)

text \<open>
  C9. Once ESTOP is latched, every sample of every run without an explicit \<open>reset\<close> is an
  active ESTOP with zero steering, throttle and brake, whatever updates arrive (including
  replays and updates of the same sequence number with \<open>estop = false\<close>).
\<close>

theorem intent_estop_sticky:
  assumes "intent_inv s" "estop_latched s" "IReset \<notin> set es"
  shows "list_all2 estop_sample es (fst (run intent_step es s))"
  using assms by (intro sticky.run_good) (auto simp: list_all_iff)

definition demo_intent :: native_control_intent where
  "demo_intent = \<lparr>ui_instance_id = ''ui-1'', intent_seq = 7, ni_gear = ''D'', ni_steering = zero,
     ni_throttle = Fin (1 / 2), ni_brake = zero, ni_estop = False\<rparr>"

definition demo_store :: intent_store where
  "demo_store = \<lparr>lease_ms = 300, latest = Some (estop_normalize True demo_intent),
     received_at_monotonic_ms = 10, requires_fresh_input = False, estop_latched = True\<rparr>"

lemma demo_store_inv: "intent_inv demo_store" "estop_latched demo_store"
  by (simp_all add: demo_store_def demo_intent_def intent_inv_def estop_normalize_def
      zero_actuation_def validate_simps in_range_Fin allowed_gear_def c_isalnum_def)

theorem intent_estop_sticky_witness:
  "list_all2 estop_sample [IUpdate demo_intent 20, ISample 21]
     (fst (run intent_step [IUpdate demo_intent 20, ISample 21] demo_store))"
  by (rule intent_estop_sticky [OF demo_store_inv]) simp

text \<open>
  A stale sample never carries actuation: if the age of the stored intent has reached
  the lease, the sample is an ESTOP or neutral, in every run from a state satisfying the
  store's invariant (in particular from a new store).
\<close>

theorem intent_stale_is_neutral:
  assumes "intent_inv s"
  shows "list_all2 lease_sample es (fst (run intent_step es s))"
  using assms by (intro leased.run_good) (auto simp: list_all_iff)

theorem intent_stale_is_neutral_witness:
  "intent_inv demo_store \<and>
   list_all2 lease_sample [ISample 500] (fst (run intent_step [ISample 500] demo_store))"
  using demo_store_inv(1) intent_stale_is_neutral [OF demo_store_inv(1), of "[ISample 500]"] by blast

text \<open>
  Fail-closed interlock: after the transport invalidated the store (or before any
  input), no sequence of updates without a neutral intent makes a sample carry steering,
  throttle or brake; every sample also reports that fresh input is required.
\<close>

theorem intent_interlock:
  assumes "intent_inv s" "list_all no_neutral_update es"
  shows "list_all2 blocked_sample es (fst (run intent_step es (snd (intent_invalidate s))))"
proof (rule blocked.run_good)
  show "intent_inv (snd (intent_invalidate s)) \<and> requires_fresh_input (snd (intent_invalidate s))"
    using intent_step_inv [OF assms(1), of IInvalidate] by (simp add: intent_invalidate_def)
qed (use assms in simp)

theorem intent_interlock_witness:
  "list_all2 blocked_sample [IUpdate demo_intent 30, ISample 31]
     (fst (run intent_step [IUpdate demo_intent 30, ISample 31] (snd (intent_invalidate demo_store))))"
proof (rule intent_interlock [OF demo_store_inv(1)])
  show "list_all no_neutral_update [IUpdate demo_intent 30, ISample 31]"
    by (simp add: no_neutral_update_def is_neutral_def demo_intent_def tolerance_eq)
qed

end
