(* ===== verification/Receiver.thy ===== *)
theory Receiver
  imports Protocol
begin

text \<open>
  \<open>LatestControlCommandMailbox\<close> and \<open>ControlReceiver\<close> (\<open>cpp/src/core.cpp\<close>): the last-value
  mailbox between the transport and the control loop, and the admission check of every
  control command (identity, token, sequence number, age, order and gap of arrival).
\<close>

subsection \<open>Mailbox\<close>

record mailbox =
  mb_latest :: "control_command option"
  mb_dropped_count :: uint64

definition mailbox_new :: mailbox where
  "mailbox_new = \<lparr>mb_latest = None, mb_dropped_count = 0\<rparr>"

definition mailbox_publish :: "control_command \<Rightarrow> (mailbox, unit) oper" where
  "mailbox_publish c s =
     (case control_command_validate c of
        Inl e \<Rightarrow> (Inl e, s)
      | Inr _ \<Rightarrow> (Inr (), s\<lparr>mb_dropped_count :=
                              (if mb_latest s \<noteq> None then mb_dropped_count s + 1 else mb_dropped_count s),
                            mb_latest := Some c\<rparr>))"

definition mailbox_pop_latest :: "mailbox \<Rightarrow> control_command option \<times> mailbox" where
  "mailbox_pop_latest s = (mb_latest s, s\<lparr>mb_latest := None\<rparr>)"

definition mailbox_pending_count :: "mailbox \<Rightarrow> nat" where
  "mailbox_pending_count s = (if mb_latest s \<noteq> None then 1 else 0)"

datatype mailbox_event = Publish control_command | Pop
datatype mailbox_output = Published "unit res" | Popped "control_command option"

fun mailbox_step :: "mailbox_event \<Rightarrow> mailbox \<Rightarrow> mailbox_output \<times> mailbox" where
  "mailbox_step (Publish c) s = apfst Published (mailbox_publish c s)"
| "mailbox_step Pop s = apfst Popped (mailbox_pop_latest s)"

text \<open>Accounting over a run: how many commands went in and came out.\<close>

fun published :: "mailbox_output \<Rightarrow> nat" where
  "published (Published (Inr _)) = 1"
| "published _ = 0"

fun popped :: "mailbox_output \<Rightarrow> nat" where
  "popped (Popped (Some _)) = 1"
| "popped _ = 0"

lemma mailbox_step_conservation:
  "of_nat (published (fst (mailbox_step e s))) + mb_dropped_count s + of_nat (mailbox_pending_count s) =
   of_nat (popped (fst (mailbox_step e s))) + mb_dropped_count (snd (mailbox_step e s)) +
     of_nat (mailbox_pending_count (snd (mailbox_step e s)))"
  by (cases e) (auto simp: mailbox_publish_def mailbox_pop_latest_def mailbox_pending_count_def
      split: sum.splits option.splits)

lemma mailbox_run_conservation:
  "of_nat (sum_list (map published (fst (run mailbox_step es s)))) + mb_dropped_count s +
     of_nat (mailbox_pending_count s) =
   of_nat (sum_list (map popped (fst (run mailbox_step es s)))) +
     mb_dropped_count (snd (run mailbox_step es s)) +
     of_nat (mailbox_pending_count (snd (run mailbox_step es s)))"
proof (induction es arbitrary: s)
  case Nil
  then show ?case by simp
next
  case (Cons e es)
  from conservation_chain [OF mailbox_step_conservation [of e s] Cons.IH [of "snd (mailbox_step e s)"]]
  show ?case by simp
qed

text \<open>The last command that was accepted for publication since the last pop.\<close>

fun last_value :: "mailbox_event list \<Rightarrow> control_command option \<Rightarrow> control_command option" where
  "last_value [] v = v"
| "last_value (Publish c # es) v =
     last_value es (if control_command_validate c = Inr () then Some c else v)"
| "last_value (Pop # es) v = last_value es None"

lemma mailbox_run_latest: "mb_latest (snd (run mailbox_step es s)) = last_value es (mb_latest s)"
proof (induction es arbitrary: s)
  case (Cons e es)
  show ?case
    by (cases e) (auto simp: Cons.IH mailbox_publish_def mailbox_pop_latest_def split: sum.splits)
qed simp

subsection \<open>Control receiver\<close>

record receive_result =
  rr_accepted :: bool
  rr_reason :: string
  rr_command :: "control_command option"
  rr_warnings :: "string list"
  rr_issue_code :: string

record control_receiver =
  cr_vehicle_id :: string
  cr_driver_id :: string
  cr_session_id :: string
  cr_max_command_gap_ms :: int
  cr_protocol_version :: int
  cr_control_authority :: bool
  cr_control_token :: string
  cr_timestamp_warning_skew_ms :: int
  cr_last_seq :: "uint64 option"
  cr_last_valid_receive_ms :: "int option"

definition receiver_new ::
  "string \<Rightarrow> string \<Rightarrow> string \<Rightarrow> int \<Rightarrow> int \<Rightarrow> bool \<Rightarrow> string \<Rightarrow> int \<Rightarrow> control_receiver res" where
  "receiver_new vehicle driver session gap version authority token skew =
     (if vehicle = [] \<or> driver = [] \<or> session = []
      then Inl (InvalidArgument ''vehicle_id, driver_id, and session_id are required'')
      else if gap \<le> 0 \<or> skew < 0
      then Inl (InvalidArgument ''control receiver timing values are invalid'')
      else Inr \<lparr>cr_vehicle_id = vehicle, cr_driver_id = driver, cr_session_id = session,
                cr_max_command_gap_ms = gap, cr_protocol_version = version,
                cr_control_authority = authority, cr_control_token = token,
                cr_timestamp_warning_skew_ms = skew, cr_last_seq = None,
                cr_last_valid_receive_ms = None\<rparr>)"

definition rejected :: "string \<Rightarrow> receive_result" where
  "rejected reason = \<lparr>rr_accepted = False, rr_reason = reason, rr_command = None,
     rr_warnings = [], rr_issue_code = []\<rparr>"

text \<open>The early returns of \<open>accept\<close> that leave the receiver unchanged, in the code's order.\<close>

definition receiver_rejection :: "control_command \<Rightarrow> int \<Rightarrow> control_receiver \<Rightarrow> string option" where
  "receiver_rejection c now s =
     (let delta = now - sent_at_utc_ms c; gap = cr_max_command_gap_ms s in
      first_match
        [(protocol_version c \<noteq> cr_protocol_version s, ''wrong_protocol_version''),
         (vehicle_id c \<noteq> cr_vehicle_id s, ''wrong_vehicle''),
         (driver_id c \<noteq> cr_driver_id s, ''wrong_driver''),
         (session_id c \<noteq> cr_session_id s, ''wrong_session''),
         (\<not> cr_control_authority s, ''control_authority_missing''),
         (control_token c \<noteq> cr_control_token s, ''control_token_invalid''),
         (case cr_last_seq s of None \<Rightarrow> False | Some q \<Rightarrow> seq c \<le> q, ''old_seq''),
         (\<not> estop c \<and> gap < delta, ''command_age_exceeded''),
         (\<not> estop c \<and> delta < - gap, ''command_timestamp_in_future''),
         (case cr_last_valid_receive_ms s of None \<Rightarrow> False | Some t \<Rightarrow> now < t,
          ''receive_time_reversed'')])"

definition gap_exceeded :: "control_command \<Rightarrow> int \<Rightarrow> control_receiver \<Rightarrow> bool" where
  "gap_exceeded c now s \<longleftrightarrow>
     (case cr_last_valid_receive_ms s of None \<Rightarrow> False | Some t \<Rightarrow> cr_max_command_gap_ms s < now - t) \<and>
     \<not> estop c"

definition receiver_accept ::
  "control_command \<Rightarrow> int \<Rightarrow> (control_receiver, receive_result) oper" where
  "receiver_accept c now s =
     (if now < 0 then (Inl (InvalidArgument ''receive_time_ms must be non-negative''), s)
      else case control_command_validate c of
        Inl e \<Rightarrow> (Inr (rejected (''invalid_command:'' @ what e)), s)
      | Inr _ \<Rightarrow>
        (case receiver_rejection c now s of
           Some reason \<Rightarrow> (Inr (rejected reason), s)
         | None \<Rightarrow>
             if gap_exceeded c now s
             then (Inr (rejected ''command_gap_exceeded''), s\<lparr>cr_last_valid_receive_ms := Some now\<rparr>)
             else (Inr \<lparr>rr_accepted = True, rr_reason = ''accepted'', rr_command = Some c,
                        rr_warnings = (if cr_timestamp_warning_skew_ms s < \<bar>now - sent_at_utc_ms c\<bar>
                                       then [''driver_timestamp_skew''] else []),
                        rr_issue_code = []\<rparr>,
                   s\<lparr>cr_last_seq := Some (seq c), cr_last_valid_receive_ms := Some now\<rparr>)))"

subsection \<open>What acceptance means\<close>

text \<open>The conditions under which a command is admitted, as a specification.\<close>

definition admissible :: "control_receiver \<Rightarrow> control_command \<Rightarrow> int \<Rightarrow> bool" where
  "admissible s c now \<longleftrightarrow>
     0 \<le> now \<and> control_command_validate c = Inr () \<and>
     protocol_version c = cr_protocol_version s \<and> vehicle_id c = cr_vehicle_id s \<and>
     driver_id c = cr_driver_id s \<and> session_id c = cr_session_id s \<and>
     cr_control_authority s \<and> control_token c = cr_control_token s \<and>
     (\<forall>q. cr_last_seq s = Some q \<longrightarrow> q < seq c) \<and>
     (estop c \<or> \<bar>now - sent_at_utc_ms c\<bar> \<le> cr_max_command_gap_ms s) \<and>
     (\<forall>t. cr_last_valid_receive_ms s = Some t \<longrightarrow>
        t \<le> now \<and> (estop c \<or> now - t \<le> cr_max_command_gap_ms s))"

lemma rejected_simps [simp]:
  "\<not> rr_accepted (rejected r)" "rr_reason (rejected r) = r" "rr_command (rejected r) = None"
  "rr_warnings (rejected r) = []" "rr_issue_code (rejected r) = []"
  by (simp_all add: rejected_def)

lemma receiver_rejection_None:
  "receiver_rejection c now s = None \<longleftrightarrow>
     protocol_version c = cr_protocol_version s \<and> vehicle_id c = cr_vehicle_id s \<and>
     driver_id c = cr_driver_id s \<and> session_id c = cr_session_id s \<and>
     cr_control_authority s \<and> control_token c = cr_control_token s \<and>
     (\<forall>q. cr_last_seq s = Some q \<longrightarrow> q < seq c) \<and>
     (estop c \<or> \<bar>now - sent_at_utc_ms c\<bar> \<le> cr_max_command_gap_ms s) \<and>
     (\<forall>t. cr_last_valid_receive_ms s = Some t \<longrightarrow> t \<le> now)"
  by (cases "cr_last_seq s"; cases "cr_last_valid_receive_ms s")
     (auto simp: receiver_rejection_def Let_def)

lemma receiver_rejection_Some:
  assumes "receiver_rejection c now s = Some r"
  shows "r \<noteq> ''command_gap_exceeded''"
  using first_match_Some [OF assms [unfolded receiver_rejection_def Let_def]] by auto

lemma admissible_iff:
  "admissible s c now \<longleftrightarrow>
     0 \<le> now \<and> control_command_validate c = Inr () \<and> receiver_rejection c now s = None \<and>
     \<not> gap_exceeded c now s"
  unfolding admissible_def receiver_rejection_None gap_exceeded_def
  by (cases "cr_last_valid_receive_ms s") auto

lemma receiver_accept_admissible:
  "admissible s c now \<Longrightarrow>
   receiver_accept c now s =
     (Inr \<lparr>rr_accepted = True, rr_reason = ''accepted'', rr_command = Some c,
           rr_warnings = (if cr_timestamp_warning_skew_ms s < \<bar>now - sent_at_utc_ms c\<bar>
                          then [''driver_timestamp_skew''] else []),
           rr_issue_code = []\<rparr>,
      s\<lparr>cr_last_seq := Some (seq c), cr_last_valid_receive_ms := Some now\<rparr>)"
  by (simp add: admissible_iff receiver_accept_def)

lemma receiver_accept_cases:
  obtains (thrown) e where "receiver_accept c now s = (Inl e, s)" "\<not> admissible s c now" "now < 0"
  | (rejected) r where "receiver_accept c now s = (Inr (rejected r), s)" "\<not> admissible s c now"
      "r \<noteq> ''command_gap_exceeded''"
  | (gap) "receiver_accept c now s =
        (Inr (rejected ''command_gap_exceeded''), s\<lparr>cr_last_valid_receive_ms := Some now\<rparr>)"
      "\<not> admissible s c now" "\<forall>t. cr_last_valid_receive_ms s = Some t \<longrightarrow> t \<le> now"
  | (accepted) "admissible s c now"
proof (cases "admissible s c now")
  case True
  then show thesis by (rule accepted)
next
  case False
  note na = this
  show thesis
  proof (cases "now < 0")
    case True
    then show thesis using na by (intro thrown) (auto simp: receiver_accept_def)
  next
    case time: False
    show thesis
    proof (cases "control_command_validate c" rule: res_unit_cases)
      case (thrown e)
      then show thesis using na time by (intro rejected) (auto simp: receiver_accept_def)
    next
      case ok
      show thesis
      proof (cases "receiver_rejection c now s")
        case (Some r)
        then show thesis using na time ok receiver_rejection_Some [OF Some]
          by (intro rejected) (auto simp: receiver_accept_def)
      next
        case None
        then have g: "gap_exceeded c now s" using na time ok by (simp add: admissible_iff)
        have t: "\<forall>t. cr_last_valid_receive_ms s = Some t \<longrightarrow> t \<le> now"
          using None receiver_rejection_None by blast
        show thesis using g time ok None na t by (intro gap) (auto simp: receiver_accept_def)
      qed
    qed
  qed
qed

subsection \<open>Runs of the receiver\<close>

definition receiver_step ::
  "control_command \<times> int \<Rightarrow> control_receiver \<Rightarrow> receive_result res \<times> control_receiver" where
  "receiver_step = (\<lambda>(c, now). receiver_accept c now)"

fun accepted_commands :: "receive_result res list \<Rightarrow> control_command list" where
  "accepted_commands [] = []"
| "accepted_commands (Inr r # rs) =
     (case rr_command r of
        Some c \<Rightarrow> if rr_accepted r then c # accepted_commands rs else accepted_commands rs
      | None \<Rightarrow> accepted_commands rs)"
| "accepted_commands (Inl e # rs) = accepted_commands rs"

definition newer_than :: "control_receiver \<Rightarrow> control_command \<Rightarrow> bool" where
  "newer_than s c \<longleftrightarrow> (\<forall>q. cr_last_seq s = Some q \<longrightarrow> q < seq c)"

lemma receiver_run_newer: "list_all (newer_than s) (accepted_commands (fst (run receiver_step es s)))"
proof (induction es arbitrary: s)
  case (Cons e es)
  obtain c now where e: "e = (c, now)" by (cases e)
  show ?case
  proof (cases rule: receiver_accept_cases [where c = c and now = now and s = s])
    case accepted
    then have c: "newer_than s c" by (simp add: newer_than_def admissible_def)
    moreover have "newer_than (s\<lparr>cr_last_seq := Some (seq c), cr_last_valid_receive_ms := Some now\<rparr>) d
        \<Longrightarrow> newer_than s d" for d
      using c by (auto simp: newer_than_def intro: order.strict_trans)
    ultimately show ?thesis
      using Cons.IH [of "s\<lparr>cr_last_seq := Some (seq c), cr_last_valid_receive_ms := Some now\<rparr>"] accepted
      by (auto simp: e receiver_step_def receiver_accept_admissible list_all_iff)
  next
    case gap
    then show ?thesis using Cons.IH [of "s\<lparr>cr_last_valid_receive_ms := Some now\<rparr>"]
      by (simp add: e receiver_step_def newer_than_def list_all_iff)
  qed (use Cons.IH in \<open>auto simp: e receiver_step_def\<close>)
qed simp

lemma receiver_run_sorted:
  "sorted_wrt (<) (map seq (accepted_commands (fst (run receiver_step es s))))"
proof (induction es arbitrary: s)
  case (Cons e es)
  obtain c now where e: "e = (c, now)" by (cases e)
  show ?case
  proof (cases rule: receiver_accept_cases [where c = c and now = now and s = s])
    case accepted
    let ?s' = "s\<lparr>cr_last_seq := Some (seq c), cr_last_valid_receive_ms := Some now\<rparr>"
    have "list_all (newer_than ?s') (accepted_commands (fst (run receiver_step es ?s')))"
      by (rule receiver_run_newer)
    then show ?thesis using Cons.IH [of ?s'] accepted
      by (auto simp: e receiver_step_def receiver_accept_admissible list_all_iff newer_than_def)
  qed (use Cons.IH in \<open>auto simp: e receiver_step_def\<close>)
qed simp

text \<open>
  The receiver admits a command exactly when the admission specification holds (valid,
  right protocol version, vehicle, driver and session, control authority, the session's
  token, a sequence number above every earlier accepted one, a timestamp within the
  configured gap unless it is an ESTOP, no reversed arrival time and no arrival gap), and
  then hands on that very command.
\<close>

theorem receiver_accepts_iff:
  "(\<exists>r s'. receiver_accept c now s = (Inr r, s') \<and> rr_accepted r \<and> rr_command r = Some c) \<longleftrightarrow>
     admissible s c now"
proof (cases rule: receiver_accept_cases [where c = c and now = now and s = s])
  case accepted
  then show ?thesis by (simp add: receiver_accept_admissible)
qed auto

text \<open>
  C19. No replay: over any run, whatever commands arrive in whatever order, the sequence
  numbers of the commands the receiver accepts are strictly increasing.
\<close>

theorem receiver_no_replay:
  "sorted_wrt (<) (map seq (accepted_commands (fst (run receiver_step es s))))"
  by (rule receiver_run_sorted)

text \<open>
  A gap does not lock control out: after a command was dropped because of the arrival
  gap, every later valid command of the session with a fresh sequence number and timestamp
  that arrives within the gap of the dropped one is accepted.
\<close>

theorem receiver_recovers_after_gap:
  assumes "receiver_accept c now s = (Inr r, s')" "rr_reason r = ''command_gap_exceeded''"
    and "control_command_validate d = Inr ()" "protocol_version d = cr_protocol_version s"
    and "vehicle_id d = cr_vehicle_id s" "driver_id d = cr_driver_id s"
    and "session_id d = cr_session_id s" "control_token d = cr_control_token s"
    and "cr_control_authority s" "newer_than s d"
    and "0 \<le> now" "now \<le> now'" "now' - now \<le> cr_max_command_gap_ms s"
    and "\<bar>now' - sent_at_utc_ms d\<bar> \<le> cr_max_command_gap_ms s"
  shows "\<exists>r'. fst (receiver_accept d now' s') = Inr r' \<and> rr_accepted r' \<and> rr_command r' = Some d"
proof -
  have "s' = s\<lparr>cr_last_valid_receive_ms := Some now\<rparr>"
    using assms(1,2)
    by (cases rule: receiver_accept_cases [where c = c and now = now and s = s])
       (auto simp: receiver_accept_admissible)
  then have "admissible s' d now'"
    using assms by (auto simp: admissible_def newer_than_def)
  then show ?thesis by (simp add: receiver_accept_admissible)
qed

definition demo_command :: control_command where
  "demo_command = \<lparr>protocol_version = 1, vehicle_id = ''v1'', driver_id = ''d1'', session_id = ''s1'',
     seq = 5, sent_at_utc_ms = 1000, gear = ''D'', steering = zero, throttle = Fin (1 / 2),
     brake = zero, estop = False, control_token = ''t'', operator_active = True\<rparr>"

definition demo_receiver :: control_receiver where
  "demo_receiver = \<lparr>cr_vehicle_id = ''v1'', cr_driver_id = ''d1'', cr_session_id = ''s1'',
     cr_max_command_gap_ms = 200, cr_protocol_version = 1, cr_control_authority = True,
     cr_control_token = ''t'', cr_timestamp_warning_skew_ms = 5000, cr_last_seq = Some 4,
     cr_last_valid_receive_ms = Some 500\<rparr>"

lemma demo_command_valid: "control_command_validate demo_command = Inr ()"
  by (simp add: demo_command_def validate_simps allowed_gear_def kProtocolVersion_def)

lemma demo_receiver_gap:
  "receiver_accept demo_command 1010 demo_receiver =
     (Inr (rejected ''command_gap_exceeded''), demo_receiver\<lparr>cr_last_valid_receive_ms := Some 1010\<rparr>)"
  by (simp add: receiver_accept_def demo_command_valid gap_exceeded_def receiver_rejection_def)
     (simp add: demo_command_def demo_receiver_def)

theorem receiver_recovers_after_gap_witness:
  "\<exists>r'. fst (receiver_accept demo_command 1060 (demo_receiver\<lparr>cr_last_valid_receive_ms := Some 1010\<rparr>)) =
     Inr r' \<and> rr_accepted r' \<and> rr_command r' = Some demo_command"
  by (rule receiver_recovers_after_gap [OF demo_receiver_gap])
     (simp_all add: demo_command_valid, simp_all add: demo_command_def demo_receiver_def newer_than_def)

subsection \<open>No signed overflow\<close>

text \<open>
  The timestamp differences that \<open>accept\<close> computes are representable: they are reached
  only for a non-negative arrival time and a validated command, and the stored arrival time
  is never negative, so no \<open>int64\<close> subtraction overflows.
\<close>

theorem receiver_no_overflow:
  assumes "in_int64 now" "in_int64 (sent_at_utc_ms c)" "0 \<le> now" "control_command_validate c = Inr ()"
    and "\<forall>t. cr_last_valid_receive_ms s = Some t \<longrightarrow> 0 \<le> t \<and> in_int64 t"
  shows "in_int64 (now - sent_at_utc_ms c) \<and>
     (\<forall>t. cr_last_valid_receive_ms s = Some t \<longrightarrow> in_int64 (now - t)) \<and>
     (\<forall>t. cr_last_valid_receive_ms (snd (receiver_accept c now s)) = Some t \<longrightarrow> 0 \<le> t \<and> in_int64 t)"
proof (intro conjI)
  have "0 \<le> sent_at_utc_ms c" using assms(4) by (simp add: validate_simps)
  then show "in_int64 (now - sent_at_utc_ms c)" using assms(1-3) by (intro in_int64_diff)
  show "\<forall>t. cr_last_valid_receive_ms s = Some t \<longrightarrow> in_int64 (now - t)"
    using assms(1,3,5) in_int64_diff by blast
  show "\<forall>t. cr_last_valid_receive_ms (snd (receiver_accept c now s)) = Some t \<longrightarrow> 0 \<le> t \<and> in_int64 t"
    using assms by (cases rule: receiver_accept_cases [where c = c and now = now and s = s])
       (auto simp: receiver_accept_admissible)
qed

theorem receiver_no_overflow_witness:
  "in_int64 (1010 - sent_at_utc_ms demo_command)"
proof -
  have "in_int64 1010" "in_int64 (sent_at_utc_ms demo_command)" "(0::int) \<le> 1010"
    by (simp_all add: in_int64_def demo_command_def)
  moreover have "\<forall>t. cr_last_valid_receive_ms demo_receiver = Some t \<longrightarrow> 0 \<le> t \<and> in_int64 t"
    by (simp add: demo_receiver_def in_int64_def)
  ultimately show ?thesis using receiver_no_overflow demo_command_valid by blast
qed

subsection \<open>Mailbox properties\<close>

text \<open>
  The mailbox is a last-value mailbox that loses nothing silently: popping returns the
  latest valid command published since the previous pop (and nothing if there was none),
  and the commands published equal those popped plus those counted as dropped plus the
  pending one (modulo the 64-bit counter).
\<close>

theorem mailbox_last_value:
  "fst (mailbox_pop_latest (snd (run mailbox_step es mailbox_new))) = last_value es None \<and>
   (of_nat (sum_list (map published (fst (run mailbox_step es mailbox_new)))) :: uint64) =
     of_nat (sum_list (map popped (fst (run mailbox_step es mailbox_new)))) +
     mb_dropped_count (snd (run mailbox_step es mailbox_new)) +
     of_nat (mailbox_pending_count (snd (run mailbox_step es mailbox_new)))"
  using mailbox_run_conservation [of es mailbox_new]
  by (simp add: mailbox_pop_latest_def mailbox_run_latest mailbox_new_def mailbox_pending_count_def)

end
