(* ===== verification/Safety.thy ===== *)
theory Safety
  imports Protocol
begin

text \<open>
  \<open>SafetyStateMachine\<close> (\<open>cpp/src/core.cpp\<close>) and the deceleration profile it brakes with:
  the command watchdog (degraded after one timeout, staged braking after a second), the
  ESTOP and fault latches, and the output the vehicle is driven with in each state.
\<close>

subsection \<open>Deceleration profile\<close>

record deceleration_stage =
  after_ms :: int
  stage_brake :: double

fun normalize_stages ::
  "double \<Rightarrow> int \<Rightarrow> deceleration_stage list \<Rightarrow> deceleration_stage list res" where
  "normalize_stages previous_brake previous_after_ms [] = Inr []"
| "normalize_stages previous_brake previous_after_ms (s # ss) =
     bindE (checks
       [throw_if (after_ms s < 0) (InvalidArgument ''deceleration after_ms must be non-negative''),
        throw_if (previous_after_ms \<ge> 0 \<and> after_ms s \<le> previous_after_ms)
          (InvalidArgument ''deceleration after_ms values must be strictly increasing''),
        require_finite_range (stage_brake s) zero one ''deceleration brake'',
        throw_if (dlt (dadd (stage_brake s) tolerance) previous_brake)
          (InvalidArgument ''deceleration brake stages must be non-decreasing'')])
     (\<lambda>_. let b = (if dlt (stage_brake s) previous_brake then previous_brake else stage_brake s)
           in bindE (normalize_stages b (after_ms s) ss)
                (\<lambda>rest. Inr (s\<lparr>stage_brake := b\<rparr> # rest)))"

definition normalize_profile :: "deceleration_stage list \<Rightarrow> deceleration_stage list res" where
  "normalize_profile profile =
     (if profile = [] then Inl (InvalidArgument ''deceleration profile must not be empty'')
      else if after_ms (hd profile) \<noteq> 0
      then Inl (InvalidArgument ''deceleration profile must start at after_ms 0'')
      else bindE (normalize_stages zero (-1) profile)
        (\<lambda>p. if dlt tolerance (dabs (dsub (stage_brake (last p)) one))
             then Inl (InvalidArgument ''deceleration profile must end with full safety brake 1.0'')
             else Inr (butlast p @ [(last p)\<lparr>stage_brake := one\<rparr>])))"

text \<open>
  What a usable profile is: it starts at once, its stages are ordered in time, braking never
  decreases and ends at full brake.
\<close>

fun stages_from :: "int \<Rightarrow> rat \<Rightarrow> deceleration_stage list \<Rightarrow> bool" where
  "stages_from t b [] = True"
| "stages_from t b (s # ss) =
     (t < after_ms s \<and> (case stage_brake s of Fin q \<Rightarrow> b \<le> q \<and> q \<le> 1 \<and> stages_from (after_ms s) q ss | _ \<Rightarrow> False))"

definition good_profile :: "deceleration_stage list \<Rightarrow> bool" where
  "good_profile p \<longleftrightarrow> p \<noteq> [] \<and> after_ms (hd p) = 0 \<and> stages_from (-1) 0 p \<and> stage_brake (last p) = one"

lemma normalize_stages_from:
  assumes "normalize_stages (Fin b) t p = Inr q" "0 \<le> b" "b \<le> 1" "-1 \<le> t"
  shows "stages_from t b q \<and> length q = length p \<and> map after_ms q = map after_ms p"
  using assms
proof (induction p arbitrary: b t q)
  case (Cons s p)
  from Cons.prems(1) obtain r where s: "in_range (stage_brake s) zero one" "0 \<le> after_ms s"
      "t < 0 \<or> t < after_ms s"
    and r: "normalize_stages (if dlt (stage_brake s) (Fin b) then Fin b else stage_brake s)
        (after_ms s) p = Inr r"
    and q: "q = s\<lparr>stage_brake := (if dlt (stage_brake s) (Fin b) then Fin b else stage_brake s)\<rparr> # r"
    by (auto simp: Let_def validate_simps)
  from s(1) obtain x where x: "stage_brake s = Fin x" "0 \<le> x" "x \<le> 1" by (auto simp: in_range_Fin)
  have t: "t < after_ms s" using s(2,3) Cons.prems(4) by auto
  have "normalize_stages (Fin (max b x)) (after_ms s) p = Inr r"
    using r x by (simp add: max_def split: if_splits)
  with Cons.IH [of "max b x" "after_ms s" r] Cons.prems s(2) x
  have "stages_from (after_ms s) (max b x) r \<and> length r = length p \<and> map after_ms r = map after_ms p"
    by auto
  with t x Cons.prems show ?case by (auto simp: q max_def split: if_splits)
qed simp

lemma stages_from_last_one:
  "stages_from t b p \<Longrightarrow> b \<le> 1 \<Longrightarrow> p \<noteq> [] \<Longrightarrow>
   stages_from t b (butlast p @ [(last p)\<lparr>stage_brake := one\<rparr>])"
  by (induction t b p rule: stages_from.induct) (auto split: double.splits)

lemma normalize_profile_good:
  assumes "normalize_profile p = Inr q"
  shows "good_profile q \<and> map after_ms q = map after_ms p"
proof -
  from assms obtain r where p: "p \<noteq> []" "after_ms (hd p) = 0"
    and r: "normalize_stages zero (-1) p = Inr r"
    and q: "q = butlast r @ [(last r)\<lparr>stage_brake := one\<rparr>]"
    by (auto simp: normalize_profile_def split: if_splits)
  have sf: "stages_from (-1) 0 r" "length r = length p" "map after_ms r = map after_ms p"
    using normalize_stages_from [OF r] by auto
  have ne: "r \<noteq> []" using sf p by auto
  have m: "map after_ms q = map after_ms r"
    using ne by (simp add: q) (metis append_butlast_last_id list.simps(8,9) map_append)
  then have "map after_ms q = map after_ms p" by (simp add: sf)
  moreover from this p have "after_ms (hd q) = 0" by (metis list.map_disc_iff hd_map q snoc_eq_iff_butlast)
  ultimately show ?thesis
    using stages_from_last_one [OF sf(1) _ ne] by (simp add: good_profile_def q)
qed

subsection \<open>State and operations\<close>

datatype safety_state = Init | Standby | ControlActive | Degraded | TimeoutBrake | Estop | Fault

text \<open>The order of the enumerators, which is also the order of severity.\<close>

fun safety_rank :: "safety_state \<Rightarrow> nat" where
  "safety_rank Init = 0"
| "safety_rank Standby = 1"
| "safety_rank ControlActive = 2"
| "safety_rank Degraded = 3"
| "safety_rank TimeoutBrake = 4"
| "safety_rank Estop = 5"
| "safety_rank Fault = 6"

instantiation safety_state :: linorder
begin

definition less_eq_safety_state :: "safety_state \<Rightarrow> safety_state \<Rightarrow> bool" where
  "less_eq_safety_state a b \<longleftrightarrow> safety_rank a \<le> safety_rank b"

definition less_safety_state :: "safety_state \<Rightarrow> safety_state \<Rightarrow> bool" where
  "less_safety_state a b \<longleftrightarrow> safety_rank a < safety_rank b"

instance
proof
  fix a b :: safety_state
  show "a \<le> b \<Longrightarrow> b \<le> a \<Longrightarrow> a = b" by (cases a; cases b) (simp_all add: less_eq_safety_state_def)
qed (auto simp: less_eq_safety_state_def less_safety_state_def)

end

fun safety_to_string :: "safety_state \<Rightarrow> string" where
  "safety_to_string Init = ''INIT''"
| "safety_to_string Standby = ''STANDBY''"
| "safety_to_string ControlActive = ''CONTROL_ACTIVE''"
| "safety_to_string Degraded = ''DEGRADED''"
| "safety_to_string TimeoutBrake = ''TIMEOUT_BRAKE''"
| "safety_to_string Estop = ''ESTOP''"
| "safety_to_string Fault = ''FAULT''"

record control_output =
  out_gear :: string
  out_steering :: double
  out_throttle :: double
  out_brake :: double
  out_estop :: bool
  full_emergency_brake :: bool

definition mk_output ::
  "string \<Rightarrow> double \<Rightarrow> double \<Rightarrow> double \<Rightarrow> bool \<Rightarrow> bool \<Rightarrow> control_output" where
  "mk_output g st th br es full =
     \<lparr>out_gear = g, out_steering = st, out_throttle = th, out_brake = br, out_estop = es,
      full_emergency_brake = full\<rparr>"

abbreviation default_output :: control_output where
  "default_output \<equiv> mk_output ''N'' zero zero zero False False"

record safety_machine =
  degraded_timeout_ms :: int
  control_timeout_ms :: int
  sm_profile :: "deceleration_stage list"
  sm_state :: safety_state
  last_valid_command :: "control_command option"
  last_valid_receive_ms :: "int option"
  timeout_entered_ms :: "int option"

definition safety_new :: "int \<Rightarrow> int \<Rightarrow> deceleration_stage list \<Rightarrow> safety_machine res" where
  "safety_new degraded control profile =
     (if degraded \<le> 0 \<or> control \<le> degraded
      then Inl (InvalidArgument ''control timeout must be greater than degraded timeout'')
      else bindE (normalize_profile profile)
        (\<lambda>p. Inr \<lparr>degraded_timeout_ms = degraded, control_timeout_ms = control, sm_profile = p,
                  sm_state = Init, last_valid_command = None, last_valid_receive_ms = None,
                  timeout_entered_ms = None\<rparr>))"

definition mark_ready :: "safety_machine \<Rightarrow> safety_machine" where
  "mark_ready s = (if sm_state s = Init then s\<lparr>sm_state := Standby\<rparr> else s)"

definition on_valid_command :: "control_command \<Rightarrow> int \<Rightarrow> safety_machine \<Rightarrow> safety_machine" where
  "on_valid_command c now s =
     (if estop c
      then s\<lparr>last_valid_command := Some c, last_valid_receive_ms := Some now, sm_state := Estop\<rparr>
      else if sm_state s = Estop \<or> sm_state s = Fault then s
      else s\<lparr>last_valid_command := Some c, last_valid_receive_ms := Some now,
             timeout_entered_ms := None, sm_state := ControlActive\<rparr>)"

definition safety_tick :: "int \<Rightarrow> safety_machine \<Rightarrow> safety_machine" where
  "safety_tick now s =
     (case last_valid_receive_ms s of
        None \<Rightarrow> s
      | Some t \<Rightarrow>
        if sm_state s \<in> {Init, Standby, Estop, Fault} then s
        else if control_timeout_ms s \<le> now - t
        then s\<lparr>timeout_entered_ms :=
                 (if sm_state s \<noteq> TimeoutBrake then Some now else timeout_entered_ms s),
               sm_state := TimeoutBrake\<rparr>
        else if degraded_timeout_ms s \<le> now - t then s\<lparr>sm_state := Degraded\<rparr>
        else s)"

fun choose_brake :: "int \<Rightarrow> double \<Rightarrow> deceleration_stage list \<Rightarrow> double" where
  "choose_brake elapsed chosen [] = chosen"
| "choose_brake elapsed chosen (st # sts) =
     choose_brake elapsed (if after_ms st \<le> elapsed then stage_brake st else chosen) sts"

definition brake_for_timeout :: "int \<Rightarrow> safety_machine \<Rightarrow> double" where
  "brake_for_timeout now s =
     (let entered = (case timeout_entered_ms s of None \<Rightarrow> now | Some t \<Rightarrow> t)
      in choose_brake (now - entered) zero (sm_profile s))"

definition current_output :: "int \<Rightarrow> safety_machine \<Rightarrow> control_output" where
  "current_output now s =
     (let g = (case last_valid_command s of None \<Rightarrow> ''N'' | Some c \<Rightarrow> gear c);
          st = (case last_valid_command s of None \<Rightarrow> zero | Some c \<Rightarrow> steering c)
      in case sm_state s of
           ControlActive \<Rightarrow>
             (case last_valid_command s of
                Some c \<Rightarrow> mk_output g st (throttle c) (brake c) False False
              | None \<Rightarrow> default_output)
         | Degraded \<Rightarrow>
             mk_output g st zero (case last_valid_command s of None \<Rightarrow> zero | Some c \<Rightarrow> brake c) False False
         | TimeoutBrake \<Rightarrow>
             (let b = brake_for_timeout now s in mk_output g zero zero b False (dle one b))
         | Estop \<Rightarrow> mk_output g zero zero one True True
         | Fault \<Rightarrow> mk_output g zero zero one False True
         | Init \<Rightarrow> default_output
         | Standby \<Rightarrow> default_output)"

definition enter_standby :: "safety_machine \<Rightarrow> safety_machine" where
  "enter_standby s = s\<lparr>last_valid_command := None, last_valid_receive_ms := None,
                       timeout_entered_ms := None, sm_state := Standby\<rparr>"

definition safety_reset_estop :: "bool \<Rightarrow> string \<Rightarrow> safety_machine \<Rightarrow> bool \<times> safety_machine" where
  "safety_reset_estop local_confirmed authorized_by s =
     (if sm_state s \<noteq> Estop \<or> \<not> local_confirmed \<or> authorized_by = [] then (False, s)
      else (True, enter_standby s))"

definition reset_to_standby :: "safety_machine \<Rightarrow> bool \<times> safety_machine" where
  "reset_to_standby s =
     (if sm_state s = Estop \<or> sm_state s = Fault then (False, s) else (True, enter_standby s))"

definition mark_fault :: "safety_machine \<Rightarrow> safety_machine" where
  "mark_fault s = s\<lparr>sm_state := Fault\<rparr>"

subsection \<open>Staged braking\<close>

lemma choose_brake_stages:
  assumes "stages_from t b p" "0 \<le> b" "b \<le> 1"
  shows "\<exists>q. choose_brake e (Fin b) p = Fin q \<and> b \<le> q \<and> q \<le> 1"
  using assms
proof (induction p arbitrary: t b)
  case (Cons s p)
  then obtain x where x: "stage_brake s = Fin x" "b \<le> x" "x \<le> 1" "stages_from (after_ms s) x p"
    by (auto split: double.splits)
  show ?case
  proof (cases "after_ms s \<le> e")
    case True
    with Cons.IH [OF x(4)] x Cons.prems show ?thesis by force
  next
    case False
    from x(4,2) have "stages_from (after_ms s) b p" by (cases p) (auto split: double.splits)
    with Cons.IH [of "after_ms s" b] False Cons.prems show ?thesis by simp
  qed
qed simp

lemma choose_brake_late:
  "stages_from t b p \<Longrightarrow> e \<le> t \<Longrightarrow> choose_brake e c p = c"
proof (induction p arbitrary: t b)
  case (Cons s p)
  then obtain x where "t < after_ms s" "stages_from (after_ms s) x p" by (auto split: double.splits)
  with Cons.IH [of "after_ms s" x] Cons.prems(2) show ?case by simp
qed simp

lemma choose_brake_mono:
  assumes "stages_from t b p" "0 \<le> b" "b \<le> 1" "e \<le> e'"
  shows "dle (choose_brake e (Fin b) p) (choose_brake e' (Fin b) p)"
  using assms
proof (induction p arbitrary: t b)
  case (Cons s p)
  then obtain x where x: "stage_brake s = Fin x" "b \<le> x" "x \<le> 1" "stages_from (after_ms s) x p"
    by (auto split: double.splits)
  consider "after_ms s \<le> e" | "e < after_ms s" "after_ms s \<le> e'" | "e' < after_ms s" by linarith
  then show ?case
  proof cases
    case 1
    with Cons.IH [OF x(4)] x Cons.prems show ?thesis by force
  next
    case 2
    then have "choose_brake e (Fin b) (s # p) = Fin b"
      using choose_brake_late [OF x(4)] by simp
    moreover obtain q where "choose_brake e' (Fin b) (s # p) = Fin q" "b \<le> q"
      using choose_brake_stages [OF Cons.prems(1-3)] by blast
    ultimately show ?thesis by simp
  next
    case 3
    with Cons.prems show ?thesis using choose_brake_late [OF x(4)] by simp
  qed
qed simp

lemma choose_brake_last:
  "stages_from t b p \<Longrightarrow> p \<noteq> [] \<Longrightarrow> after_ms (last p) \<le> e \<Longrightarrow> choose_brake e c p = stage_brake (last p)"
proof (induction p arbitrary: t b c)
  case (Cons s p)
  then obtain x where x: "stage_brake s = Fin x" "stages_from (after_ms s) x p"
    by (auto split: double.splits)
  show ?case
  proof (cases "p = []")
    case True
    with Cons.prems show ?thesis by simp
  next
    case False
    with Cons.IH [OF x(2) False] Cons.prems(3) show ?thesis by simp
  qed
qed simp

subsection \<open>Reachable machines\<close>

datatype safety_event =
    MarkReady
  | ValidCommand control_command int
  | Tick int
  | ResetEstop bool string
  | ResetToStandby
  | MarkFault

fun safety_step :: "safety_event \<Rightarrow> safety_machine \<Rightarrow> bool \<times> safety_machine" where
  "safety_step MarkReady s = (True, mark_ready s)"
| "safety_step (ValidCommand c now) s = (True, on_valid_command c now s)"
| "safety_step (Tick now) s = (True, safety_tick now s)"
| "safety_step (ResetEstop confirmed by_whom) s = safety_reset_estop confirmed by_whom s"
| "safety_step ResetToStandby s = reset_to_standby s"
| "safety_step MarkFault s = (True, mark_fault s)"

fun event_ok :: "safety_event \<Rightarrow> bool" where
  "event_ok (ValidCommand c now) = valid_command c"
| "event_ok _ = True"

text \<open>The states the machine reaches from construction when it is only given validated commands.\<close>

inductive safety_reachable :: "safety_machine \<Rightarrow> bool" where
  start: "safety_new degraded control profile = Inr s \<Longrightarrow> safety_reachable s"
| step: "safety_reachable s \<Longrightarrow> event_ok e \<Longrightarrow> safety_reachable (snd (safety_step e s))"

definition safety_inv :: "safety_machine \<Rightarrow> bool" where
  "safety_inv s \<longleftrightarrow>
     0 < degraded_timeout_ms s \<and> degraded_timeout_ms s < control_timeout_ms s \<and>
     good_profile (sm_profile s) \<and>
     (\<forall>c. last_valid_command s = Some c \<longrightarrow> valid_command c) \<and>
     (sm_state s \<in> {ControlActive, Degraded, TimeoutBrake} \<longrightarrow>
        last_valid_command s \<noteq> None \<and> last_valid_receive_ms s \<noteq> None) \<and>
     (sm_state s = TimeoutBrake \<longrightarrow> timeout_entered_ms s \<noteq> None)"

lemma safety_new_inv: "safety_new d c p = Inr s \<Longrightarrow> safety_inv s"
  using normalize_profile_good by (fastforce simp: safety_new_def safety_inv_def split: if_splits)

lemma enter_standby_inv: "safety_inv s \<Longrightarrow> safety_inv (enter_standby s)"
  by (simp add: safety_inv_def enter_standby_def)

lemma safety_step_inv:
  assumes "safety_inv s" "event_ok e"
  shows "safety_inv (snd (safety_step e s))"
proof (cases e)
  case MarkReady
  with assms show ?thesis by (auto simp: mark_ready_def safety_inv_def)
next
  case (ValidCommand c now)
  with assms show ?thesis by (auto simp: on_valid_command_def safety_inv_def)
next
  case (Tick now)
  with assms show ?thesis
    by (cases "sm_state s") (auto simp: safety_tick_def safety_inv_def split: option.splits)
next
  case (ResetEstop c w)
  with assms show ?thesis by (auto simp: safety_reset_estop_def enter_standby_inv)
next
  case ResetToStandby
  with assms show ?thesis by (auto simp: reset_to_standby_def enter_standby_inv)
next
  case MarkFault
  with assms show ?thesis by (auto simp: mark_fault_def safety_inv_def)
qed

lemma safety_reachable_inv: "safety_reachable s \<Longrightarrow> safety_inv s"
  by (induction rule: safety_reachable.induct) (auto intro: safety_new_inv safety_step_inv)

lemma brake_for_timeout_range:
  "safety_inv s \<Longrightarrow> in_range (brake_for_timeout now s) zero one"
proof -
  assume "safety_inv s"
  then have "stages_from (-1) 0 (sm_profile s)" by (simp add: safety_inv_def good_profile_def)
  from choose_brake_stages [OF this] show ?thesis
    unfolding brake_for_timeout_def Let_def in_range_Fin by (metis order_refl zero_le_one)
qed

definition output_in_range :: "control_output \<Rightarrow> bool" where
  "output_in_range out \<longleftrightarrow> in_range (out_throttle out) zero one \<and> in_range (out_brake out) zero one \<and>
     in_range (out_steering out) (Fin (-1)) one"

lemma mk_output_simps [simp]:
  "out_gear (mk_output g st th br es f) = g" "out_steering (mk_output g st th br es f) = st"
  "out_throttle (mk_output g st th br es f) = th" "out_brake (mk_output g st th br es f) = br"
  "out_estop (mk_output g st th br es f) = es" "full_emergency_brake (mk_output g st th br es f) = f"
  by (simp_all add: mk_output_def)

lemma current_output_range:
  assumes "safety_inv s"
  shows "output_in_range (current_output now s)"
proof -
  have c: "in_range (throttle c) zero one \<and> in_range (brake c) zero one \<and>
      in_range (steering c) (Fin (-1)) one" if "last_valid_command s = Some c" for c
    using assms that by (auto simp: safety_inv_def valid_command_def validate_simps)
  show ?thesis using c brake_for_timeout_range [OF assms, of now]
    by (auto simp: current_output_def output_in_range_def Let_def
        split: safety_state.splits option.splits)
qed

subsection \<open>Properties\<close>

text \<open>
  Construction normalises every profile it accepts: the stored stages start at 0 ms,
  are strictly ordered in time, brake within [0, 1] without ever decreasing and end at
  exactly full brake.
\<close>

theorem safety_profile_normalized:
  assumes "safety_new degraded control profile = Inr s"
  shows "good_profile (sm_profile s) \<and> map after_ms (sm_profile s) = map after_ms profile"
  using assms normalize_profile_good by (auto simp: safety_new_def split: if_splits)

definition demo_profile :: "deceleration_stage list" where
  "demo_profile = [\<lparr>after_ms = 0, stage_brake = Fin (1 / 2)\<rparr>, \<lparr>after_ms = 500, stage_brake = one\<rparr>]"

definition demo_drive :: control_command where
  "demo_drive = \<lparr>protocol_version = 1, vehicle_id = ''v1'', driver_id = ''d1'', session_id = ''s1'',
     seq = 1, sent_at_utc_ms = 0, gear = ''D'', steering = zero, throttle = one, brake = zero,
     estop = False, control_token = ''t'', operator_active = True\<rparr>"

definition demo_safety :: safety_machine where
  "demo_safety = \<lparr>degraded_timeout_ms = 300, control_timeout_ms = 800, sm_profile = demo_profile,
     sm_state = Init, last_valid_command = None, last_valid_receive_ms = None, timeout_entered_ms = None\<rparr>"

lemma demo_safety_new: "safety_new 300 800 demo_profile = Inr demo_safety"
proof -
  have "\<not> dlt (dadd (Fin (1 / 2)) tolerance) zero" "\<not> dlt (dadd one tolerance) (Fin (1 / 2))"
    unfolding tolerance_eq dadd.simps by (rule round64_not_below, rule is_double_small, simp)+
  then show ?thesis
    by (simp add: safety_new_def normalize_profile_def demo_profile_def demo_safety_def checks_Cons_Inl
        require_finite_range_def throw_if_def dsub_def tolerance_eq)
qed

theorem safety_profile_normalized_witness: "good_profile (sm_profile demo_safety)"
  using safety_profile_normalized [OF demo_safety_new] by simp

text \<open>
  Whatever validated commands, ticks, faults and resets a machine has seen, its output
  stays within the actuator ranges: throttle and brake in [0, 1], steering in [-1, 1].
\<close>

theorem safety_output_in_range:
  assumes "safety_reachable s"
  shows "output_in_range (current_output now s)"
  using assms by (intro current_output_range safety_reachable_inv)

lemma demo_safety_reachable: "safety_reachable demo_safety"
  using demo_safety_new by (rule safety_reachable.start)

theorem safety_output_in_range_witness: "output_in_range (current_output 7 demo_safety)"
  by (rule safety_output_in_range [OF demo_safety_reachable])

text \<open>
  Watchdog: right after a tick at time \<open>now\<close>, a reachable machine outputs traction only
  if it is in active control and the last valid command arrived less than the degraded
  timeout before \<open>now\<close>; once the control timeout has passed since that arrival, a machine
  that is not latched is in staged braking with steering released.
\<close>

theorem safety_watchdog:
  assumes "safety_reachable s"
  shows "(out_throttle (current_output now (safety_tick now s)) \<noteq> zero \<longrightarrow>
       sm_state (safety_tick now s) = ControlActive \<and>
       (\<exists>t. last_valid_receive_ms s = Some t \<and> now - t < degraded_timeout_ms s)) \<and>
     (\<forall>t. last_valid_receive_ms s = Some t \<longrightarrow> control_timeout_ms s \<le> now - t \<longrightarrow>
       sm_state s \<in> {ControlActive, Degraded, TimeoutBrake} \<longrightarrow>
       sm_state (safety_tick now s) = TimeoutBrake \<and>
       out_steering (current_output now (safety_tick now s)) = zero)"
proof -
  have inv: "safety_inv s" using assms by (rule safety_reachable_inv)
  show ?thesis
  proof (intro conjI impI allI)
    assume tr: "out_throttle (current_output now (safety_tick now s)) \<noteq> zero"
    then have active: "sm_state (safety_tick now s) = ControlActive"
      by (auto simp: current_output_def Let_def split: safety_state.splits)
    then show "sm_state (safety_tick now s) = ControlActive" .
    from active inv show "\<exists>t. last_valid_receive_ms s = Some t \<and> now - t < degraded_timeout_ms s"
      by (auto simp: safety_tick_def safety_inv_def split: option.splits if_splits)
  next
    fix t
    assume "last_valid_receive_ms s = Some t" "control_timeout_ms s \<le> now - t"
      "sm_state s \<in> {ControlActive, Degraded, TimeoutBrake}"
    then show "sm_state (safety_tick now s) = TimeoutBrake"
      and "out_steering (current_output now (safety_tick now s)) = zero"
      by (auto simp: safety_tick_def current_output_def Let_def)
  qed
qed

definition demo_active :: safety_machine where
  "demo_active = on_valid_command demo_drive 0 demo_safety"

lemma demo_active_reachable: "safety_reachable demo_active"
proof -
  have "event_ok (ValidCommand demo_drive 0)"
    by (simp add: valid_command_def demo_drive_def validate_simps allowed_gear_def kProtocolVersion_def)
  then show ?thesis
    using safety_reachable.step [OF demo_safety_reachable] by (fastforce simp: demo_active_def)
qed

lemma demo_active_throttle: "out_throttle (current_output 5 (safety_tick 5 demo_active)) \<noteq> zero"
  by (simp add: demo_active_def safety_tick_def on_valid_command_def demo_drive_def demo_safety_def
      current_output_def mk_output_def)

theorem safety_watchdog_witness:
  "\<exists>t. last_valid_receive_ms demo_active = Some t \<and> 5 - t < degraded_timeout_ms demo_active"
  using safety_watchdog [OF demo_active_reachable, of 5] demo_active_throttle by blast

text \<open>
  Staged braking only tightens: while a reachable machine stays in staged braking, the
  brake output never decreases as time passes, and from the last stage on it is the full
  emergency brake.
\<close>

theorem safety_staged_brake:
  assumes "safety_reachable s" "sm_state s = TimeoutBrake" "timeout_entered_ms s = Some t0" "now \<le> now'"
  shows "dle (out_brake (current_output now s)) (out_brake (current_output now' s)) \<and>
     (after_ms (last (sm_profile s)) \<le> now - t0 \<longrightarrow> full_emergency_brake (current_output now s))"
proof -
  have p: "stages_from (-1) 0 (sm_profile s)" "sm_profile s \<noteq> []" "stage_brake (last (sm_profile s)) = one"
    using safety_reachable_inv [OF assms(1)] by (auto simp: safety_inv_def good_profile_def)
  have "dle (choose_brake (now - t0) zero (sm_profile s)) (choose_brake (now' - t0) zero (sm_profile s))"
    using assms(4) by (intro choose_brake_mono [OF p(1)]) auto
  moreover have "after_ms (last (sm_profile s)) \<le> now - t0 \<Longrightarrow>
      choose_brake (now - t0) zero (sm_profile s) = one"
    using choose_brake_last [OF p(1,2)] p(3) by simp
  ultimately show ?thesis
    using assms(2,3) by (auto simp: current_output_def brake_for_timeout_def Let_def)
qed

definition demo_braking :: safety_machine where
  "demo_braking = safety_tick 900 (on_valid_command demo_drive 0 demo_safety)"

lemma demo_braking_reachable: "safety_reachable demo_braking"
  using safety_reachable.step [OF demo_active_reachable, of "Tick 900"]
  by (simp add: demo_braking_def demo_active_def)

lemma demo_braking_values:
  "sm_state demo_braking = TimeoutBrake" "timeout_entered_ms demo_braking = Some 900"
  "sm_profile demo_braking = demo_profile"
  by (simp_all add: demo_braking_def safety_tick_def on_valid_command_def demo_drive_def demo_safety_def)

theorem safety_staged_brake_witness: "full_emergency_brake (current_output 1500 demo_braking)"
  using safety_staged_brake [OF demo_braking_reachable demo_braking_values(1,2), of 1500 1600]
  by (simp add: demo_braking_values demo_profile_def)

subsection \<open>The latches\<close>

definition latched :: "safety_machine \<Rightarrow> bool" where
  "latched s \<longleftrightarrow> sm_state s = Estop \<or> sm_state s = Fault"

definition no_local_reset :: "safety_event \<Rightarrow> bool" where
  "no_local_reset e \<longleftrightarrow> (case e of ResetEstop c w \<Rightarrow> \<not> c \<or> w = [] | _ \<Rightarrow> True)"

lemma safety_step_latched:
  "latched s \<Longrightarrow> no_local_reset e \<Longrightarrow> latched (snd (safety_step e s))"
  by (cases e) (auto simp: latched_def no_local_reset_def mark_ready_def on_valid_command_def
      safety_tick_def safety_reset_estop_def reset_to_standby_def mark_fault_def split: option.splits)

interpretation latch: machine safety_step latched no_local_reset "\<lambda>_ _. True"
  by unfold_locales (auto intro: safety_step_latched)

lemma latched_output:
  "latched s \<Longrightarrow> out_throttle (current_output now s) = zero \<and> out_brake (current_output now s) = one \<and>
     full_emergency_brake (current_output now s)"
  by (auto simp: latched_def current_output_def Let_def)

text \<open>
  C10. Latch: once in ESTOP or fault, no sequence of commands, ticks, faults, re-arming requests
  and ESTOP resets without a local confirmation and an authorising person releases the
  machine; its output never has throttle and always demands the full emergency brake.
\<close>

theorem safety_latch:
  assumes "latched s" "list_all no_local_reset es"
  shows "latched (snd (run safety_step es s)) \<and>
     out_throttle (current_output now (snd (run safety_step es s))) = zero \<and>
     full_emergency_brake (current_output now (snd (run safety_step es s)))"
  using latch.run_inv [OF assms] latched_output by blast

theorem safety_latch_witness:
  "latched (snd (run safety_step [Tick 5, ResetEstop True [], ResetToStandby] (mark_fault demo_safety)))"
proof -
  have "latched (mark_fault demo_safety)" by (simp add: latched_def mark_fault_def)
  moreover have "list_all no_local_reset [Tick 5, ResetEstop True [], ResetToStandby]"
    by (simp add: no_local_reset_def)
  ultimately show ?thesis using safety_latch by blast
qed

subsection \<open>The watchdog as a function of silence\<close>

text \<open>The abstract watchdog: the state is determined by how long the operator has been silent.\<close>

definition watchdog_spec :: "int \<Rightarrow> int \<Rightarrow> int \<Rightarrow> safety_state" where
  "watchdog_spec degraded control silence =
     (if control \<le> silence then TimeoutBrake else if degraded \<le> silence then Degraded else ControlActive)"

lemma watchdog_spec_mono: "e \<le> e' \<Longrightarrow> watchdog_spec d c e \<le> watchdog_spec d c e'"
  by (simp add: watchdog_spec_def less_eq_safety_state_def)

lemma safety_tick_frame [frame_simps]:
  "degraded_timeout_ms (safety_tick now s) = degraded_timeout_ms s"
  "control_timeout_ms (safety_tick now s) = control_timeout_ms s"
  "last_valid_receive_ms (safety_tick now s) = last_valid_receive_ms s"
  "last_valid_command (safety_tick now s) = last_valid_command s"
  "sm_profile (safety_tick now s) = sm_profile s"
  by (simp_all add: safety_tick_def split: option.splits)

lemma safety_ticks_frame [frame_simps]:
  "degraded_timeout_ms (fold safety_tick ts s) = degraded_timeout_ms s"
  "control_timeout_ms (fold safety_tick ts s) = control_timeout_ms s"
  "last_valid_receive_ms (fold safety_tick ts s) = last_valid_receive_ms s"
  by (induction ts arbitrary: s) (simp_all add: safety_tick_frame)

text \<open>
  C24. The watchdog refines its specification: after a valid non-ESTOP command at time \<open>t\<close> on
  a machine that is not latched, and any number of ticks at non-decreasing times, the state
  is the one the specification gives for the silence since \<open>t\<close>; the specification only
  becomes more severe with silence, in the order of the enumerators.
\<close>

theorem safety_watchdog_refines:
  assumes "\<not> latched s" "\<not> estop c" "degraded_timeout_ms s < control_timeout_ms s"
    and "0 < degraded_timeout_ms s" "sorted (t # ts)"
  shows "sm_state (fold safety_tick ts (on_valid_command c t s)) =
       watchdog_spec (degraded_timeout_ms s) (control_timeout_ms s) (last (t # ts) - t) \<and>
     (\<forall>e e'. e \<le> e' \<longrightarrow> watchdog_spec (degraded_timeout_ms s) (control_timeout_ms s) e
        \<le> watchdog_spec (degraded_timeout_ms s) (control_timeout_ms s) e')"
proof -
  define s0 where "s0 = on_valid_command c t s"
  have s0: "sm_state s0 = ControlActive" "last_valid_receive_ms s0 = Some t"
    "degraded_timeout_ms s0 = degraded_timeout_ms s" "control_timeout_ms s0 = control_timeout_ms s"
    using assms(1,2) by (auto simp: s0_def on_valid_command_def latched_def)
  have "sm_state (fold safety_tick ts s0) =
      watchdog_spec (degraded_timeout_ms s) (control_timeout_ms s) (last (t # ts) - t)"
    using assms(5)
  proof (induction ts rule: rev_induct)
    case Nil
    then show ?case using s0 assms(3,4) by (simp add: watchdog_spec_def)
  next
    case (snoc now ts)
    have le: "last (t # ts) \<le> now" and srt: "sorted (t # ts)"
      using snoc.prems by (auto simp: sorted_append)
    define u where "u = fold safety_tick ts s0"
    have u: "sm_state u = watchdog_spec (degraded_timeout_ms s) (control_timeout_ms s) (last (t # ts) - t)"
      "last_valid_receive_ms u = Some t" "degraded_timeout_ms u = degraded_timeout_ms s"
      "control_timeout_ms u = control_timeout_ms s"
      using snoc.IH [OF srt] s0 by (simp_all add: u_def frame_simps)
    have "sm_state (safety_tick now u) =
        watchdog_spec (degraded_timeout_ms s) (control_timeout_ms s) (now - t)"
      using u le assms(3) by (simp add: safety_tick_def watchdog_spec_def split: if_splits)
    then show ?case by (simp add: u_def)
  qed
  then show ?thesis using watchdog_spec_mono by (simp add: s0_def)
qed

theorem safety_watchdog_refines_witness:
  "sm_state (fold safety_tick [50, 400] (on_valid_command demo_drive 10 demo_safety)) = Degraded"
proof -
  have "\<not> latched demo_safety" "\<not> estop demo_drive"
    "degraded_timeout_ms demo_safety < control_timeout_ms demo_safety" "0 < degraded_timeout_ms demo_safety"
    by (simp_all add: latched_def demo_safety_def demo_drive_def)
  from safety_watchdog_refines [OF this, of 10 "[50, 400]"] show ?thesis
    by (simp add: watchdog_spec_def demo_safety_def)
qed

end
