(* ===== verification/Vcu_Signals.thy ===== *)
theory Vcu_Signals
  imports Binary64
begin

unbundle bit_operations_syntax

text \<open>
  The CAN layer of \<open>cpp/src/vcu.cpp\<close>: signals of a frame's 64-bit little-endian payload,
  physical scaling, and the frames the controller transmits. The payload bytes are a list
  of eight words.
\<close>

subsection \<open>Frames and signals\<close>

record can_frame =
  frame_id :: uint32
  dlc :: uint8
  frame_data :: "uint8 list"
  extended :: bool

definition new_frame :: "uint32 \<Rightarrow> can_frame" where
  "new_frame i = \<lparr>frame_id = i, dlc = 8, frame_data = replicate 8 0, extended = True\<rparr>"

definition signal_mask :: "nat \<Rightarrow> uint64" where
  "signal_mask len = (if 64 \<le> len then - 1 else push_bit len 1 - 1)"

definition load_little_endian :: "uint8 list \<Rightarrow> uint64" where
  "load_little_endian bytes =
     foldl (\<lambda>value i. value OR push_bit (i * 8) (ucast (bytes ! i))) 0 [0..<8]"

definition store_little_endian :: "uint64 \<Rightarrow> uint8 list" where
  "store_little_endian value = map (\<lambda>i. ucast (drop_bit (i * 8) value AND 0xFF)) [0..<8]"

definition extract_signal :: "can_frame \<Rightarrow> nat \<Rightarrow> nat \<Rightarrow> uint64" where
  "extract_signal frame start len =
     drop_bit start (load_little_endian (frame_data frame)) AND signal_mask len"

definition insert_signal :: "nat \<Rightarrow> nat \<Rightarrow> uint64 \<Rightarrow> can_frame \<Rightarrow> can_frame" where
  "insert_signal start len raw frame =
     (let payload = load_little_endian (frame_data frame);
          mask = push_bit start (signal_mask len)
      in frame\<lparr>frame_data := store_little_endian ((payload AND NOT mask) OR (push_bit start raw AND mask))\<rparr>)"

subsection \<open>Physical values\<close>

text \<open>
  \<open>std::llround\<close>: half away from zero. For a non-finite argument its result is
  unspecified; the model uses the x86-64 value.
\<close>

fun llround_double :: "double \<Rightarrow> int" where
  "llround_double (Fin x) = llround x"
| "llround_double _ = - (2 ^ 63)"

definition encode_physical ::
  "double \<Rightarrow> double \<Rightarrow> double \<Rightarrow> nat \<Rightarrow> double \<Rightarrow> double \<Rightarrow> uint64" where
  "encode_physical value factor offset len minimum maximum =
     (let bounded = dclamp value minimum maximum;
          raw = llround_double (ddiv (dsub bounded offset) factor)
      in min (word_of_int (max raw 0)) (signal_mask len))"

definition decode_physical :: "uint64 \<Rightarrow> double \<Rightarrow> double \<Rightarrow> double" where
  "decode_physical raw factor offset = dadd (dmul (double_of_int (uint raw)) factor) offset"

subsection \<open>Laws of the payload\<close>

lemma bit_signal_mask: "bit (signal_mask len) n \<longleftrightarrow> n < 64 \<and> n < len"
  by (auto simp: signal_mask_def bit_simps bit_mask_iff simp flip: mask_eq_exp_minus_1)

lemma length_store [simp]: "length (store_little_endian v) = 8"
  by (simp add: store_little_endian_def)

lemma bit_load:
  assumes "length bytes = 8"
  shows "bit (load_little_endian bytes) n \<longleftrightarrow> n < 64 \<and> bit (bytes ! (n div 8)) (n mod 8)"
proof -
  have step: "bit (foldl (\<lambda>v i. v OR push_bit (i * 8) (ucast (bytes ! i) :: uint64)) w is) n \<longleftrightarrow>
      bit w n \<or> (\<exists>i\<in>set is. n < 64 \<and> i * 8 \<le> n \<and> n - i * 8 < 8 \<and> bit (bytes ! i) (n - i * 8))" for w "is"
    by (induction "is" arbitrary: w) (auto simp: bit_simps dest: bit_imp_le_length)
  show ?thesis
  proof (cases "n < 64")
    case True
    have "(\<exists>i\<in>set [0..<8]. n < 64 \<and> i * 8 \<le> n \<and> n - i * 8 < 8 \<and> bit (bytes ! i) (n - i * 8)) \<longleftrightarrow>
        bit (bytes ! (n div 8)) (n mod 8)" (is "?L \<longleftrightarrow> ?R")
    proof
      assume ?L
      then obtain i where i: "i * 8 \<le> n" "n - i * 8 < 8" "bit (bytes ! i) (n - i * 8)" by auto
      then have q: "i = n div 8" by (auto simp: div_nat_eqI)
      have "n - i * 8 = n mod 8" unfolding q by (simp add: modulo_nat_def)
      with i show ?R by (simp add: q)
    next
      assume ?R
      moreover have "n div 8 * 8 \<le> n" "n - n div 8 * 8 = n mod 8" by (auto simp: modulo_nat_def)
      ultimately show ?L using True by (intro bexI [of _ "n div 8"]) auto
    qed
    then show ?thesis using True by (simp add: load_little_endian_def step)
  next
    case False
    then show ?thesis by (simp add: load_little_endian_def step)
  qed
qed

lemma bit_word8_0xFF: "bit (0xFF :: uint64) n \<longleftrightarrow> n < 8"
proof -
  have "(0xFF :: uint64) = mask 8" by (simp add: mask_eq_exp_minus_1)
  then show ?thesis by (simp only: bit_mask_iff) auto
qed

lemma load_store [simp]: "load_little_endian (store_little_endian v) = v"
proof (rule bit_word_eqI)
  fix n :: nat
  assume "n < LENGTH(64)"
  then have n: "n < 64" by simp
  have m: "n mod 8 < 64" using mod_less_divisor [of 8 n] by linarith
  from n have "n div 8 < 8" by simp
  moreover have "bit (0xFF :: uint64) (n mod 8)" by (simp only: bit_word8_0xFF mod_less_divisor)
  moreover have "n div 8 * 8 + n mod 8 = n" by simp
  ultimately show "bit (load_little_endian (store_little_endian v)) n = bit v n"
    using n by (simp only: bit_load length_store, unfold store_little_endian_def)
      (simp add: bit_unsigned_iff bit_and_iff bit_drop_bit_eq m)
qed

lemma frame_insert_signal [simp]:
  "frame_id (insert_signal s l r f) = frame_id f" "dlc (insert_signal s l r f) = dlc f"
  "extended (insert_signal s l r f) = extended f" "length (frame_data (insert_signal s l r f)) = 8"
  by (simp_all add: insert_signal_def Let_def)

lemma bit_extract:
  "bit (extract_signal f start len) n \<longleftrightarrow>
     n < len \<and> start + n < 64 \<and> bit (load_little_endian (frame_data f)) (start + n)"
  using bit_imp_le_length [of "load_little_endian (frame_data f)" "start + n"]
  by (auto simp: extract_signal_def bit_and_iff bit_drop_bit_eq bit_signal_mask)

lemma bit_insert:
  "bit (load_little_endian (frame_data (insert_signal start len raw f))) n \<longleftrightarrow>
     (if start \<le> n \<and> n < start + len \<and> n < 64 then bit raw (n - start)
      else bit (load_little_endian (frame_data f)) n)"
  using bit_imp_le_length [of "load_little_endian (frame_data f)" n]
  by (auto simp: insert_signal_def Let_def bit_and_iff bit_or_iff bit_not_iff bit_push_bit_iff
      bit_signal_mask)

text \<open>Reading a signal back, and reading another one.\<close>

lemma extract_insert_same:
  assumes "start + len \<le> 64"
  shows "extract_signal (insert_signal start len raw f) start len = raw AND signal_mask len"
  using assms
  by (intro bit_word_eqI) (auto simp: bit_extract bit_insert bit_and_iff bit_signal_mask)

lemma extract_insert_disjoint:
  assumes "start + len \<le> start' \<or> start' + len' \<le> start"
  shows "extract_signal (insert_signal start len raw f) start' len' = extract_signal f start' len'"
  using assms by (intro bit_word_eqI) (auto simp: bit_extract bit_insert)

lemma uint_signal_mask: "len < 64 \<Longrightarrow> uint (signal_mask len) = 2 ^ len - 1"
proof -
  assume len: "len < 64"
  have "uint (mask len :: uint64) = mask len"
    using len by (intro bit_eqI) (auto simp: bit_uint_iff bit_mask_iff)
  then show ?thesis using len by (simp add: signal_mask_def flip: mask_eq_exp_minus_1)
qed

lemma and_signal_mask_id:
  assumes "raw \<le> signal_mask len"
  shows "raw AND signal_mask len = raw"
proof (cases "64 \<le> len")
  case True
  then show ?thesis by (simp add: signal_mask_def)
next
  case False
  then have eq: "signal_mask len = mask len" by (simp add: signal_mask_def mask_eq_exp_minus_1)
  have "uint raw < 2 ^ len" using assms uint_signal_mask [of len] False by (simp add: word_le_def)
  then show ?thesis by (simp add: eq and_mask_bintr take_bit_int_eq_self)
qed

subsection \<open>Identifiers\<close>

definition kMotorCommandIds :: "uint32 list" where
  "kMotorCommandIds = [0x18F0D0F5, 0x18F1D0F5, 0x18F2D0F5, 0x18F3D0F5,
     0x18F4D0F5, 0x18F5D0F5, 0x18F6D0F5, 0x18F7D0F5]"
definition kMotorStatus01Ids :: "uint32 list" where
  "kMotorStatus01Ids = [0x18A0F4D0, 0x18A3F4D0, 0x18A6F4D0, 0x18A9F4D0,
     0x18ACF4D0, 0x18AFF4D0, 0x18B2F4D0, 0x18B5F4D0]"
definition kMotorStatus02Ids :: "uint32 list" where
  "kMotorStatus02Ids = [0x18A1F4D0, 0x18A4F4D0, 0x18A7F4D0, 0x18AAF4D0,
     0x18ADF4D0, 0x18B0F4D0, 0x18B3F4D0, 0x18B6F4D0]"
definition kSteeringStatusIds :: "uint32 list" where
  "kSteeringStatusIds = [0x18C0F4D0, 0x18C1F4D0, 0x18C2F4D0, 0x18C3F4D0]"
definition kBrakeStatusIds :: "uint32 list" where
  "kBrakeStatusIds = [0x18C8F4D0, 0x18C9F4D0, 0x18CAF4D0, 0x18CBF4D0]"

definition kAduEps01 :: uint32 where
  "kAduEps01 = 0x18F8D0F5"
definition kAduEps03 :: uint32 where
  "kAduEps03 = 0x18F9D0F5"
definition kAduEhb01 :: uint32 where
  "kAduEhb01 = 0x18FFD0F5"
definition kAduEhb02 :: uint32 where
  "kAduEhb02 = 0x18FAD0F5"
definition kAduEpb :: uint32 where
  "kAduEpb = 0x18FBD0F5"
definition kAduShake :: uint32 where
  "kAduShake = 0x18FCD0F5"
definition kAduBody :: uint32 where
  "kAduBody = 0x18FDD0F5"
definition kAduVehicleSpeed :: uint32 where
  "kAduVehicleSpeed = 0x18FED0F5"
definition kWvcuHandshake :: uint32 where
  "kWvcuHandshake = 0x18F0F5D0"
definition kWvcuVehicleStatus :: uint32 where
  "kWvcuVehicleStatus = 0x18F2F5D0"
definition kWvcuVehicleSpeed :: uint32 where
  "kWvcuVehicleSpeed = 0x18F3F5D0"
definition kWvcuDriverIntention :: uint32 where
  "kWvcuDriverIntention = 0x18F5F5D0"
definition kWvcuDriverIntention2 :: uint32 where
  "kWvcuDriverIntention2 = 0x18F6F5D0"
definition kWvcuParkingBrake :: uint32 where
  "kWvcuParkingBrake = 0x18CFF4D0"

text \<open>\<open>find_id\<close> and \<open>find_axis_id\<close>: the first index of the identifier, or the table size.\<close>

fun find_id :: "uint32 \<Rightarrow> uint32 list \<Rightarrow> nat" where
  "find_id i [] = 0"
| "find_id i (x # xs) = (if x = i then 0 else Suc (find_id i xs))"

lemma find_id_less: "find_id i xs < length xs \<longleftrightarrow> i \<in> set xs"
  by (induction xs) auto

lemma find_id_nth: "find_id i xs < length xs \<Longrightarrow> xs ! find_id i xs = i"
  by (induction xs) auto

subsection \<open>Transmitted frames\<close>

definition kMotorTorqueBits :: nat where
  "kMotorTorqueBits = 16"
definition kMotorTorqueResolutionNm :: double where
  "kMotorTorqueResolutionNm = dbl (1 / 10)"
definition kMotorTorqueMinimumNm :: double where
  "kMotorTorqueMinimumNm = dbl (- 3200)"
definition kMotorTorqueMaximumNm :: double where
  "kMotorTorqueMaximumNm = dbl (33535 / 10)"

definition encode_torque :: "double \<Rightarrow> uint64" where
  "encode_torque torque_nm = encode_physical torque_nm kMotorTorqueResolutionNm kMotorTorqueMinimumNm
     kMotorTorqueBits kMotorTorqueMinimumNm kMotorTorqueMaximumNm"

definition encode_pressure :: "double \<Rightarrow> uint64" where
  "encode_pressure bar = encode_physical bar (dbl (1 / 10)) (dbl 0) 12 (dbl 0) (dbl (4095 / 10))"

definition make_motor_frame :: "nat \<Rightarrow> int \<Rightarrow> int \<Rightarrow> double \<Rightarrow> double \<Rightarrow> can_frame" where
  "make_motor_frame index command mode torque_nm speed_rpm =
     insert_signal 24 14 (encode_physical speed_rpm (dbl 1) (dbl (- 8000)) 14 (dbl (- 8000)) (dbl 8383))
      (insert_signal 8 kMotorTorqueBits (encode_torque torque_nm)
        (insert_signal 3 3 (word_of_int mode)
          (insert_signal 0 3 (word_of_int command)
            (new_frame (kMotorCommandIds ! index)))))"

definition make_steering_frame ::
  "uint32 \<Rightarrow> nat \<Rightarrow> int list \<Rightarrow> double list \<Rightarrow> double list \<Rightarrow> can_frame" where
  "make_steering_frame i first_axis mode angle_deg speed_degps =
     foldl (\<lambda>frame local_axis.
         let axis = first_axis + local_axis; base = local_axis * 32
         in insert_signal (base + 24) 8 (encode_physical (speed_degps ! axis) (dbl 1) (dbl 0) 8 (dbl 0) (dbl 255))
             (insert_signal (base + 8) 16
               (encode_physical (angle_deg ! axis) (dbl (1 / 10)) (dbl (- 1575)) 16 (dbl (- 1575)) (dbl 1575))
               (insert_signal base 8 (word_of_int (mode ! axis)) frame)))
       (new_frame i) [0, 1]"

definition make_brake_frame :: "uint32 \<Rightarrow> nat \<Rightarrow> int list \<Rightarrow> double list \<Rightarrow> can_frame" where
  "make_brake_frame i first_brake mode pressure_bar =
     foldl (\<lambda>frame local_brake.
         let brake = first_brake + local_brake; base = local_brake * 16
         in insert_signal (base + 4) 12 (encode_pressure (pressure_bar ! brake))
             (insert_signal base 4 (word_of_int (mode ! brake)) frame))
       (new_frame i) [0, 1, 2, 3]"

definition make_epb_frame :: "int list \<Rightarrow> int \<Rightarrow> can_frame" where
  "make_epb_frame requests steering_mode =
     insert_signal 32 3 (word_of_int steering_mode)
       (foldl (\<lambda>frame index. insert_signal (index * 8) 2 (word_of_int (requests ! index)) frame)
         (new_frame kAduEpb) [0, 1, 2, 3])"

definition make_shake_frame :: "int \<Rightarrow> int \<Rightarrow> bool \<Rightarrow> can_frame" where
  "make_shake_frame gear handshake_request fault_reset =
     insert_signal 24 1 (if fault_reset then 1 else 0)
       (insert_signal 16 8 0
         (insert_signal 8 8 (word_of_int gear)
           (insert_signal 0 8 (word_of_int handshake_request) (new_frame kAduShake))))"

definition make_vehicle_speed_frame :: "double \<Rightarrow> bool \<Rightarrow> can_frame" where
  "make_vehicle_speed_frame speed_request_kph valid =
     insert_signal 8 8 (if valid then 1 else 0)
       (insert_signal 0 8
         (encode_physical (if valid then dfloor speed_request_kph else dbl 0) (dbl 1) (dbl 0) 8 (dbl 0) (dbl 255))
         (new_frame kAduVehicleSpeed))"

subsection \<open>Reading transmitted frames\<close>

lemma extract_new_frame [simp]: "extract_signal (new_frame i) start len = 0"
  by (rule bit_word_eqI) (simp add: bit_extract bit_load new_frame_def nth_replicate)

lemma encode_physical_le: "encode_physical v f b len lo hi \<le> signal_mask len"
  by (simp add: encode_physical_def Let_def)

lemma encode_and_mask [simp]:
  "encode_physical v f b len lo hi AND signal_mask len = encode_physical v f b len lo hi"
  "encode_torque v AND signal_mask 16 = encode_torque v"
  "encode_pressure v AND signal_mask 12 = encode_pressure v"
  by (simp_all add: and_signal_mask_id encode_physical_le encode_torque_def encode_pressure_def
      kMotorTorqueBits_def)

lemmas read_signal = extract_insert_same extract_insert_disjoint

lemma motor_frame_signals:
  "extract_signal (make_motor_frame i c m t v) 0 3 = word_of_int c AND signal_mask 3"
  "extract_signal (make_motor_frame i c m t v) 3 3 = word_of_int m AND signal_mask 3"
  "extract_signal (make_motor_frame i c m t v) 8 16 = encode_torque t"
  by (simp_all add: make_motor_frame_def read_signal kMotorTorqueBits_def)

lemma less_4_cases: "(j::nat) < 4 \<Longrightarrow> j = 0 \<or> j = 1 \<or> j = 2 \<or> j = 3"
  by arith

lemma brake_frame_signals:
  assumes "j < 4"
  shows "extract_signal (make_brake_frame i b m p) (16 * j + 4) 12 = encode_pressure (p ! (b + j))"
    and "extract_signal (make_brake_frame i b m p) (16 * j) 4 = word_of_int (m ! (b + j)) AND signal_mask 4"
  using less_4_cases [OF assms] by (auto simp: make_brake_frame_def Let_def read_signal)

lemma epb_frame_signals:
  assumes "j < 4"
  shows "extract_signal (make_epb_frame r m) (8 * j) 2 = word_of_int (r ! j) AND signal_mask 2"
  using less_4_cases [OF assms] by (auto simp: make_epb_frame_def read_signal)

lemma shake_frame_signals:
  "extract_signal (make_shake_frame g h f) 0 8 = word_of_int h AND signal_mask 8"
  "extract_signal (make_shake_frame g h f) 8 8 = word_of_int g AND signal_mask 8"
  "extract_signal (make_shake_frame g h f) 24 1 = (if f then 1 else 0)"
  by (simp_all add: make_shake_frame_def read_signal) (simp add: signal_mask_def)

lemma floor_half: "\<lfloor>1 / 2 :: rat\<rfloor> = 0"
  by (simp add: floor_eq_iff)

lemma vehicle_speed_frame_signals:
  "extract_signal (make_vehicle_speed_frame v False) 0 8 = 0"
  "extract_signal (make_vehicle_speed_frame v False) 8 8 = 0"
  by (simp_all add: make_vehicle_speed_frame_def read_signal encode_physical_def dclamp_Fin dsub_def
      llround_def floor_half)

subsection \<open>Scaling\<close>

lemma rnd64_abs_error:
  assumes "\<bar>x\<bar> \<le> b" "1 \<le> b"
  shows "\<bar>rnd64 x - x\<bar> \<le> b / 2 ^ 53"
proof (cases "x = 0")
  case True
  then show ?thesis using assms by simp
next
  case False
  have "(2::rat) powi (-1022) \<le> 2 powi 0" by (rule two_powi_mono) simp
  then have "ulp64 b \<le> b / 2 ^ 52" using ulp64_le [of b] assms(2) by simp
  moreover have "ulp64 x \<le> ulp64 b"
    using ilog2_mono [of "\<bar>x\<bar>" "\<bar>b\<bar>"] False assms unfolding ulp64_def by (intro two_powi_mono) auto
  ultimately show ?thesis using rnd64_error [of x] by simp
qed

lemma llround_error: "\<bar>of_int (llround x) - x\<bar> \<le> 1 / 2"
proof (cases "0 \<le> x")
  case True
  then show ?thesis
    using floor_correct [of "x + 1 / 2"] unfolding llround_def abs_le_iff by simp linarith
next
  case False
  then show ?thesis
    using floor_correct [of "1 / 2 - x"] unfolding llround_def abs_le_iff by simp linarith
qed

lemma llround_nonneg: "0 \<le> x \<Longrightarrow> 0 \<le> llround x"
  by (simp add: llround_def)


text \<open>
  The value transmitted for a physical value in range: the nearest multiple of the factor,
  up to the rounding of the intermediate doubles.
\<close>

lemma encode_physical_nearest:
  fixes f b t hi :: rat and len :: nat
  assumes f: "1 / 16 \<le> f" "f \<le> 1" and t: "b \<le> t" "t \<le> hi" "hi - b \<le> 2 ^ 13"
    and len: "(hi - b) / f + 1 / 2 + 1 / 2 ^ 30 \<le> 2 ^ len" "len \<le> 16"
  obtains n where "encode_physical (Fin t) (Fin f) (Fin b) len (Fin b) (Fin hi) = word_of_int n"
    "0 \<le> n" "n < 2 ^ len" "\<bar>of_int n * f + b - t\<bar> \<le> f / 2 + 1 / 2 ^ 35"
proof -
  define a where "a = rnd64 (t - b)"
  define q where "q = rnd64 (a / f)"
  define n where "n = llround q"
  have pow: "is_double (Fin (2 ^ 13))" "is_double (Fin (2 ^ 17))"
    using is_double_of_int [of "2 ^ 13"] is_double_of_int [of "2 ^ 17"] by simp_all
  have a: "round64 (t - b) = Fin a" "0 \<le> a" "a \<le> 2 ^ 13"
    using round64_between [OF is_double_small(1) pow(1), of "t - b"] t by (simp_all add: a_def)
  have ae: "\<bar>a - (t - b)\<bar> \<le> 1 / 2 ^ 40" unfolding a_def using rnd64_abs_error [of "t - b" "2 ^ 13"] t by simp
  have af: "0 \<le> a / f" "a / f \<le> 2 ^ 17" using a f by (auto simp: field_simps intro: order_trans)
  have q: "round64 (a / f) = Fin q" "0 \<le> q" "q \<le> 2 ^ 17"
    using round64_between [OF is_double_small(1) pow(2) af] by (simp_all add: q_def)
  have qe: "\<bar>q - a / f\<bar> \<le> 1 / 2 ^ 36" unfolding q_def using rnd64_abs_error [of "a / f" "2 ^ 17"] af by simp
  have ne: "\<bar>of_int n - q\<bar> \<le> 1 / 2" and n0: "0 \<le> n" unfolding n_def by (rule llround_error, rule llround_nonneg [OF q(2)])
  have "\<bar>of_int n - a / f\<bar> \<le> 1 / 2 + 1 / 2 ^ 36" using ne qe unfolding abs_le_iff by linarith
  then have "\<bar>of_int n - a / f\<bar> * f \<le> (1 / 2 + 1 / 2 ^ 36) * f" using f by (intro mult_right_mono) auto
  then have nf: "\<bar>of_int n * f - a\<bar> \<le> f / 2 + f / 2 ^ 36"
    using f by (simp add: abs_mult_pos left_diff_distrib distrib_right)
  have err: "\<bar>of_int n * f + b - t\<bar> \<le> f / 2 + 1 / 2 ^ 35"
    using nf ae f(2) unfolding abs_le_iff by (auto simp: field_simps)
  have "a / f \<le> (hi - b + 1 / 2 ^ 40) / f" using ae t f unfolding abs_le_iff
    by (intro divide_right_mono) auto
  also have "\<dots> = (hi - b) / f + 1 / 2 ^ 40 / f" by (simp add: add_divide_distrib)
  also have "1 / 2 ^ 40 / f \<le> 1 / 2 ^ 36" using f by (simp add: field_simps)
  finally have "a / f \<le> (hi - b) / f + 1 / 2 ^ 36" by simp
  then have "of_int n < (hi - b) / f + 1 / 2 + 1 / 2 ^ 30" using ne qe unfolding abs_le_iff by auto
  then have "(of_int n :: rat) < of_int (2 ^ len)"
    unfolding of_int_power of_int_numeral using len(1) by (rule order_less_le_trans)
  then have n1: "n < 2 ^ len" by (simp only: of_int_less_iff)
  have "(2::int) ^ len \<le> 2 ^ 16" using len(2) by (intro power_increasing) auto
  then have "word_of_int n \<le> signal_mask len"
    using n0 n1 len(2) by (simp add: uint_signal_mask word_le_def uint_word_of_int_eq take_bit_int_eq_self)
  then have "encode_physical (Fin t) (Fin f) (Fin b) len (Fin b) (Fin hi) = word_of_int n"
    using a(1) q(1) t f n0
    by (simp add: encode_physical_def dclamp_Fin dsub_def n_def min_absorb1 max_absorb1)
  then show ?thesis using that n0 n1 err by blast
qed

text \<open>Decoding what was encoded gives the value back to within half a step.\<close>

lemma decode_encode_physical:
  fixes f b t hi :: rat and len :: nat
  assumes f: "1 / 16 \<le> f" "f \<le> 1" and t: "b \<le> t" "t \<le> hi" "hi - b \<le> 2 ^ 13" "\<bar>b\<bar> \<le> 2 ^ 13"
    and len: "(hi - b) / f + 1 / 2 + 1 / 2 ^ 30 \<le> 2 ^ len" "len \<le> 16"
  shows "\<exists>y. decode_physical (encode_physical (Fin t) (Fin f) (Fin b) len (Fin b) (Fin hi)) (Fin f) (Fin b) = Fin y \<and>
    \<bar>y - t\<bar> \<le> f / 2 + 1 / 2 ^ 34"
proof -
  obtain n where enc: "encode_physical (Fin t) (Fin f) (Fin b) len (Fin b) (Fin hi) = word_of_int n"
    and n: "0 \<le> n" "n < 2 ^ len" and err: "\<bar>of_int n * f + b - t\<bar> \<le> f / 2 + 1 / 2 ^ 35"
    using encode_physical_nearest [OF f t(1-3) len] .
  have l16: "(2::int) ^ len \<le> 2 ^ 16" using len(2) by (intro power_increasing) auto
  have u: "uint (word_of_int n :: uint64) = n" using n l16 by (simp add: uint_word_of_int_eq take_bit_int_eq_self)
  have pow: "is_double (Fin (2 ^ 15))" "is_double (Fin (- (2 ^ 15)))"
    using is_double_of_int [of "2 ^ 15"] is_double_of_int [of "- (2 ^ 15)"] by simp_all
  define m where "m = rnd64 (of_int n * f)"
  have nf: "0 \<le> of_int n * f" "of_int n * f \<le> 2 ^ 14"
    using n f err t by (auto simp: abs_le_iff)
  have m: "round64 (of_int n * f) = Fin m" "0 \<le> m" "m \<le> 2 ^ 15"
    using round64_between [OF is_double_small(1) pow(1), of "of_int n * f"] nf by (simp_all add: m_def)
  have me: "\<bar>m - of_int n * f\<bar> \<le> 1 / 2 ^ 38"
    unfolding m_def using rnd64_abs_error [of "of_int n * f" "2 ^ 15"] nf by simp
  have mb: "- (2 ^ 15) \<le> m + b" "m + b \<le> 2 ^ 15" 
    using m(2) me nf t(4) unfolding abs_le_iff by (auto simp: field_simps)
  have ye: "\<bar>rnd64 (m + b) - (m + b)\<bar> \<le> 1 / 2 ^ 38"
    using rnd64_abs_error [of "m + b" "2 ^ 15"] mb by (simp add: abs_le_iff)
  have "double_of_int n = Fin (of_int n)"
    unfolding double_of_int_def using n l16 by (intro dbl_of_int) simp
  then have "decode_physical (word_of_int n) (Fin f) (Fin b) = Fin (rnd64 (m + b))"
    using m(1) round64_between(1) [OF pow(2,1) mb] by (simp add: decode_physical_def u)
  moreover have "\<bar>rnd64 (m + b) - t\<bar> \<le> f / 2 + 1 / 2 ^ 34"
    using ye me err unfolding abs_le_iff by auto
  ultimately show ?thesis by (simp add: enc)
qed

lemma dbl_torque_maximum [simp]: "dbl (6707 / 2) = Fin (6707 / 2)"
  by (rule round64_eval, code_simp, simp)

lemma dbl_pressure_maximum [simp]: "dbl (819 / 2) = Fin (819 / 2)"
  by (rule round64_eval, code_simp, simp)

lemma encode_torque_zero: "encode_torque (Fin 0) = 32000"
proof -
  have "rnd64 (3200 / (3602879701896397 / 36028797018963968)) = 32000" by code_simp
  then have "round64 (115292150460684697600 / 3602879701896397) = Fin 32000" by (intro round64_eval) simp_all
  moreover have "llround 32000 = 32000" by (simp add: llround_def floor_eq_iff)
  ultimately show ?thesis
    by (simp add: encode_torque_def encode_physical_def dclamp_Fin dsub_def kMotorTorqueResolutionNm_def
        kMotorTorqueMinimumNm_def kMotorTorqueMaximumNm_def kMotorTorqueBits_def signal_mask_def)
qed

text \<open>
  C32. Scaling is accurate: a torque within the representable interval and an ordinary brake
  pressure survive encoding and decoding to within half a unit of the last place of their
  signal (0.05 Nm and 0.05 bar, with a margin for rounding).
\<close>

theorem vcu_scaling_roundtrip:
  "(\<forall>t. - 3200 \<le> t \<longrightarrow> t \<le> 33535 / 10 \<longrightarrow>
      (\<exists>y. decode_physical (encode_torque (Fin t)) kMotorTorqueResolutionNm kMotorTorqueMinimumNm = Fin y \<and>
        \<bar>y - t\<bar> \<le> 1 / 20 + 1 / 10 ^ 9)) \<and>
   (\<forall>p. 0 \<le> p \<longrightarrow> p \<le> 4095 / 10 \<longrightarrow>
      (\<exists>y. decode_physical (encode_pressure (Fin p)) (dbl (1 / 10)) (dbl 0) = Fin y \<and>
        \<bar>y - p\<bar> \<le> 1 / 20 + 1 / 10 ^ 9))"
proof -
  let ?f = "3602879701896397 / 36028797018963968 :: rat"
  have t: "\<exists>y. decode_physical (encode_physical (Fin t) (Fin ?f) (Fin (- 3200)) 16 (Fin (- 3200)) (Fin (6707 / 2)))
      (Fin ?f) (Fin (- 3200)) = Fin y \<and> \<bar>y - t\<bar> \<le> ?f / 2 + 1 / 2 ^ 34"
    if "- 3200 \<le> t" "t \<le> 6707 / 2" for t
    using that by (intro decode_encode_physical) simp_all
  have p: "\<exists>y. decode_physical (encode_physical (Fin p) (Fin ?f) (Fin 0) 12 (Fin 0) (Fin (819 / 2)))
      (Fin ?f) (Fin 0) = Fin y \<and> \<bar>y - p\<bar> \<le> ?f / 2 + 1 / 2 ^ 34"
    if "0 \<le> p" "p \<le> 819 / 2" for p
    using that by (intro decode_encode_physical) simp_all
  have le: "?f / 2 + 1 / 2 ^ 34 \<le> 1 / 20 + 1 / 10 ^ 9" by simp
  have "\<exists>y. decode_physical (encode_torque (Fin t)) kMotorTorqueResolutionNm kMotorTorqueMinimumNm = Fin y \<and>
      \<bar>y - t\<bar> \<le> 1 / 20 + 1 / 10 ^ 9" if "- 3200 \<le> t" "t \<le> 33535 / 10" for t
    using t [of t] le that
    by (auto simp: encode_torque_def kMotorTorqueResolutionNm_def kMotorTorqueMinimumNm_def
        kMotorTorqueMaximumNm_def kMotorTorqueBits_def simp del: divide_le_eq_numeral1 intro: order_trans)
  moreover have "\<exists>y. decode_physical (encode_pressure (Fin p)) (dbl (1 / 10)) (dbl 0) = Fin y \<and>
      \<bar>y - p\<bar> \<le> 1 / 20 + 1 / 10 ^ 9" if "0 \<le> p" "p \<le> 4095 / 10" for p
    using p [of p] le that by (auto simp: encode_pressure_def intro: order_trans)
  ultimately show ?thesis by blast
qed

theorem vcu_scaling_roundtrip_witness:
  "\<exists>y. decode_physical (encode_torque (Fin 100)) kMotorTorqueResolutionNm kMotorTorqueMinimumNm = Fin y \<and>
     \<bar>y - 100\<bar> \<le> 1 / 20 + 1 / 10 ^ 9"
  using vcu_scaling_roundtrip [THEN conjunct1, rule_format, of 100] by simp

end
