(* ===== verification/Vcu_Controller.thy ===== *)
theory Vcu_Controller
  imports Vcu_Signals
begin

text \<open>
  \<open>ParallelController\<close> and \<open>OperatorIdleParking\<close> of \<open>cpp/src/vcu.cpp\<close>: the state machine
  that arms and disarms by-wire driving over CAN, and the sixteen frames each 20 ms tick
  transmits. The fixed-size arrays are lists; \<open>controller_wf\<close> records their lengths.
\<close>

subsection \<open>Data\<close>

definition kNeutralGear :: int where
  "kNeutralGear = 1"
definition kIntelligentHandshakeRequest :: int where
  "kIntelligentHandshakeRequest = 2"
definition kIntelligentHandshakeStatus :: int where
  "kIntelligentHandshakeStatus = 5"
definition kManualHandshakeStatus :: int where
  "kManualHandshakeStatus = 3"
definition kNeutralGearRequest :: int where
  "kNeutralGearRequest = 1"
definition kParkingBrakeHold :: int where
  "kParkingBrakeHold = 0"
definition kParkingBrakeRelease :: int where
  "kParkingBrakeRelease = 1"
definition kParkingBrakePark :: int where
  "kParkingBrakePark = 2"
definition kByWireMode :: int where
  "kByWireMode = 1"
definition kMotorEnable :: int where
  "kMotorEnable = 1"
definition kMotorTorqueMode :: int where
  "kMotorTorqueMode = 1"
definition kTorqueZeroToleranceNm :: double where
  "kTorqueZeroToleranceNm = dbl 2"
definition kStoppedSpeedToleranceMps :: double where
  "kStoppedSpeedToleranceMps = dbl (1 / 10)"

record vcu_command =
  cmd_gear :: int
  vehicle_speed_request_kph :: double
  vehicle_speed_request_valid :: bool
  motor_torque_nm :: "double list"
  motor_speed_rpm :: "double list"
  steering_angle_deg :: "double list"
  steering_speed_degps :: "double list"
  brake_pressure_bar :: "double list"
  fault_reset :: bool

definition default_command :: vcu_command where
  "default_command = \<lparr>cmd_gear = 1, vehicle_speed_request_kph = Fin 0, vehicle_speed_request_valid = False,
     motor_torque_nm = replicate 8 (Fin 0), motor_speed_rpm = replicate 8 (Fin 0),
     steering_angle_deg = replicate 4 (Fin 0), steering_speed_degps = replicate 4 (Fin 0),
     brake_pressure_bar = replicate 8 (Fin 0), fault_reset = False\<rparr>"

record vcu_feedback =
  fb_handshake_status :: int
  fb_handshake_valid :: bool
  fb_gear :: int
  fb_gear_valid :: bool
  fb_emergency_switch :: int
  fb_vmc_fault_code :: int
  fb_vmc_fault_code_valid :: bool
  fb_driver_gear_request :: int
  fb_driver_gear_request_valid :: bool
  fb_parking_brake_switch :: int
  fb_parking_brake_switch_valid :: bool
  fb_brake_pedal_switch :: int
  fb_brake_pedal_switch_valid :: bool
  fb_speed_mps :: double
  fb_speed_valid :: bool
  fb_parking_brake_status :: "int list"
  fb_parking_brake_valid :: "bool list"
  fb_motor_mode :: "int list"
  fb_motor_mode_valid :: "bool list"
  fb_motor_torque_nm :: "double list"
  fb_motor_torque_valid :: "bool list"
  fb_motor_speed_rpm :: "double list"
  fb_motor_speed_valid :: "bool list"
  fb_steering_mode :: "int list"
  fb_steering_valid :: "bool list"
  fb_steering_angle_deg :: "double list"
  fb_brake_mode :: "int list"
  fb_brake_valid :: "bool list"
  fb_brake_pressure_bar :: "double list"

definition default_feedback :: vcu_feedback where
  "default_feedback = \<lparr>
     fb_handshake_status = 0, fb_handshake_valid = False,
     fb_gear = 0, fb_gear_valid = False, fb_emergency_switch = 0,
     fb_vmc_fault_code = 0, fb_vmc_fault_code_valid = False,
     fb_driver_gear_request = 0, fb_driver_gear_request_valid = False,
     fb_parking_brake_switch = 0, fb_parking_brake_switch_valid = False,
     fb_brake_pedal_switch = 0, fb_brake_pedal_switch_valid = False,
     fb_speed_mps = Fin 0, fb_speed_valid = False,
     fb_parking_brake_status = replicate 4 0, fb_parking_brake_valid = replicate 4 False,
     fb_motor_mode = replicate 8 0, fb_motor_mode_valid = replicate 8 False,
     fb_motor_torque_nm = replicate 8 (Fin 0), fb_motor_torque_valid = replicate 8 False,
     fb_motor_speed_rpm = replicate 8 (Fin 0), fb_motor_speed_valid = replicate 8 False,
     fb_steering_mode = replicate 4 0, fb_steering_valid = replicate 4 False,
     fb_steering_angle_deg = replicate 4 (Fin 0),
     fb_brake_mode = replicate 8 0, fb_brake_valid = replicate 8 False,
     fb_brake_pressure_bar = replicate 8 (Fin 0)\<rparr>"

datatype vcu_state =
    Standby | Initial | WaitParallelHandshake | WaitParkingBrakeReleased | WaitGear
  | WaitActuatorModes | Ready | DisarmTorque | DisarmStop | DisarmNeutral
  | DisarmParkingBrake | DisarmManual | Disarmed | Fault

record parallel_controller =
  desired :: vcu_command
  emergency :: vcu_command
  feedback :: vcu_feedback
  vstate :: vcu_state
  automatic_parking :: bool
  automatic_park_requested :: bool
  parking_stopped_fresh :: bool
  parking_release_generation :: uint64
  parking_brake_bar :: double
  initial_frame_count :: int
  emergency_stop_flag :: bool
  physical_emergency_latched :: bool
  handshake_revoked :: bool
  revoked_handshake_status :: int
  receive_generation :: uint64
  state_entry_generation :: uint64
  handshake_generation :: uint64
  gear_generation :: uint64
  speed_generation :: uint64
  parking_brake_generation :: uint64
  motor_mode_generation :: "uint64 list"
  motor_torque_generation :: "uint64 list"
  steering_generation :: "uint64 list"
  brake_generation :: "uint64 list"

subsection \<open>Array predicates\<close>

definition all_equal_valid :: "int list \<Rightarrow> bool list \<Rightarrow> int \<Rightarrow> bool" where
  "all_equal_valid values valid expected =
     list_all (\<lambda>index. valid ! index \<and> values ! index = expected) [0..<length values]"

definition all_valid :: "bool list \<Rightarrow> bool" where
  "all_valid values = list_all (\<lambda>value. value) values"

definition all_newer_than :: "uint64 list \<Rightarrow> uint64 \<Rightarrow> bool" where
  "all_newer_than values generation = list_all (\<lambda>value. generation < value) values"

definition all_finite_in_range :: "double list \<Rightarrow> double \<Rightarrow> double \<Rightarrow> bool" where
  "all_finite_in_range values minimum maximum =
     list_all (\<lambda>value. isfinite value \<and> dle minimum value \<and> dle value maximum) values"

definition command_valid :: "vcu_command \<Rightarrow> bool" where
  "command_valid c \<longleftrightarrow>
     1 \<le> cmd_gear c \<and> cmd_gear c \<le> 3 \<and>
     isfinite (vehicle_speed_request_kph c) \<and>
     dle (dbl 0) (vehicle_speed_request_kph c) \<and> dle (vehicle_speed_request_kph c) (dbl 255) \<and>
     all_finite_in_range (motor_torque_nm c) kMotorTorqueMinimumNm kMotorTorqueMaximumNm \<and>
     all_finite_in_range (motor_speed_rpm c) (dbl (- 8000)) (dbl 8383) \<and>
     all_finite_in_range (steering_angle_deg c) (dbl (- 30)) (dbl 30) \<and>
     all_finite_in_range (steering_speed_degps c) (dbl 0) (dbl 255) \<and>
     all_finite_in_range (brake_pressure_bar c) (dbl 0) (dbl (4095 / 10))"

definition stopped :: "vcu_feedback \<Rightarrow> bool" where
  "stopped f \<longleftrightarrow> dle (dabs (fb_speed_mps f)) kStoppedSpeedToleranceMps"

definition all_torque_zero :: "double list \<Rightarrow> bool" where
  "all_torque_zero torques = list_all (\<lambda>torque. dle (dabs torque) kTorqueZeroToleranceNm) torques"

subsection \<open>Construction\<close>

text \<open>\<open>reset\<close> assigns every member, and the constructor runs it.\<close>

definition vcu_reset :: parallel_controller where
  "vcu_reset = \<lparr>
     desired = default_command,
     emergency = default_command\<lparr>cmd_gear := kNeutralGear,
       brake_pressure_bar := replicate 8 (dbl (4095 / 10))\<rparr>,
     feedback = default_feedback,
     vstate = Standby,
     automatic_parking = False,
     automatic_park_requested = True,
     parking_stopped_fresh = False,
     parking_release_generation = 0,
     parking_brake_bar = Fin 0,
     initial_frame_count = 0,
     emergency_stop_flag = False,
     physical_emergency_latched = False,
     handshake_revoked = False,
     revoked_handshake_status = 0,
     receive_generation = 0,
     state_entry_generation = 0,
     handshake_generation = 0,
     gear_generation = 0,
     speed_generation = 0,
     parking_brake_generation = 0,
     motor_mode_generation = replicate 8 0,
     motor_torque_generation = replicate 8 0,
     steering_generation = replicate 4 0,
     brake_generation = replicate 4 0\<rparr>"

subsection \<open>Operator idle parking\<close>

record operator_idle_parking =
  oip_seen :: bool
  oip_active :: bool
  oip_last_active_ms :: int

definition oip_reset :: operator_idle_parking where
  "oip_reset = \<lparr>oip_seen = False, oip_active = False, oip_last_active_ms = 0\<rparr>"

definition oip_observe :: "bool \<Rightarrow> int \<Rightarrow> operator_idle_parking \<Rightarrow> operator_idle_parking" where
  "oip_observe active now_ms p =
     (if active then p\<lparr>oip_seen := True, oip_last_active_ms := now_ms\<rparr> else p)\<lparr>oip_active := active\<rparr>"

definition oip_expired :: "int \<Rightarrow> int \<Rightarrow> operator_idle_parking \<Rightarrow> bool" where
  "oip_expired now_ms timeout_ms p \<longleftrightarrow>
     (if \<not> oip_seen p then True
      else let elapsed = max 0 (now_ms - oip_last_active_ms p)
           in \<not> (oip_active p \<and> elapsed < 200) \<and> timeout_ms \<le> elapsed)"

subsection \<open>Commands and requests\<close>

definition vcu_enter :: "vcu_state \<Rightarrow> parallel_controller \<Rightarrow> parallel_controller" where
  "vcu_enter st c = c\<lparr>vstate := st, state_entry_generation := receive_generation c\<rparr>"

definition begin_arming_emergency_disarm :: "parallel_controller \<Rightarrow> bool \<times> parallel_controller" where
  "begin_arming_emergency_disarm c = (case vstate c of
       Initial \<Rightarrow> (True, vcu_enter Disarmed c)
     | WaitParallelHandshake \<Rightarrow> (True, vcu_enter DisarmManual c)
     | WaitParkingBrakeReleased \<Rightarrow> (True, vcu_enter DisarmTorque c)
     | WaitGear \<Rightarrow> (True, vcu_enter DisarmTorque c)
     | WaitActuatorModes \<Rightarrow> (True, vcu_enter DisarmTorque c)
     | _ \<Rightarrow> (False, c))"

definition set_automatic_parking ::
  "bool \<Rightarrow> bool \<Rightarrow> bool \<Rightarrow> double \<Rightarrow> parallel_controller \<Rightarrow> parallel_controller" where
  "set_automatic_parking enabled requested stopped_fresh brake_bar c =
     (if enabled \<and> \<not> requested \<and> (\<not> automatic_parking c \<or> automatic_park_requested c)
      then c\<lparr>parking_release_generation := receive_generation c\<rparr> else c)
     \<lparr>automatic_parking := enabled, automatic_park_requested := requested,
      parking_stopped_fresh := stopped_fresh, parking_brake_bar := brake_bar\<rparr>"

definition epb_reports :: "int \<Rightarrow> vcu_feedback \<Rightarrow> bool" where
  "epb_reports status f = all_equal_valid (fb_parking_brake_status f) (fb_parking_brake_valid f) status"

definition parking_released :: "parallel_controller \<Rightarrow> bool" where
  "parking_released c \<longleftrightarrow>
     (\<not> automatic_parking c \<or> (\<not> automatic_park_requested c \<and>
        parking_release_generation c < parking_brake_generation c)) \<and>
     epb_reports kParkingBrakeRelease (feedback c)"

definition emergency_stop :: "parallel_controller \<Rightarrow> parallel_controller" where
  "emergency_stop c = snd (begin_arming_emergency_disarm (c\<lparr>emergency_stop_flag := True\<rparr>))"

definition set_command :: "vcu_command \<Rightarrow> parallel_controller \<Rightarrow> bool \<times> parallel_controller" where
  "set_command cmd c =
     (if \<not> command_valid cmd \<or>
         vstate c \<in> {DisarmTorque, DisarmStop, DisarmNeutral, DisarmParkingBrake, DisarmManual, Fault}
      then (False, c)
      else let gear_changed = cmd_gear (desired c) \<noteq> cmd_gear cmd
        in if gear_changed \<and> (cmd_gear cmd = 2 \<or> cmd_gear cmd = 3) \<and>
              (\<not> fb_speed_valid (feedback c) \<or> \<not> fb_gear_valid (feedback c) \<or>
               dlt kStoppedSpeedToleranceMps (dabs (fb_speed_mps (feedback c))))
           then (False, emergency_stop (c\<lparr>desired := (desired c)\<lparr>
                   motor_torque_nm := replicate 8 (Fin 0), motor_speed_rpm := replicate 8 (Fin 0),
                   vehicle_speed_request_kph := Fin 0, vehicle_speed_request_valid := False\<rparr>\<rparr>))
           else let c' = c\<lparr>desired := cmd\<rparr>
             in (True, if gear_changed \<and> vstate c' = Ready then vcu_enter WaitGear c' else c'))"

definition set_emergency_command :: "vcu_command \<Rightarrow> parallel_controller \<Rightarrow> bool \<times> parallel_controller" where
  "set_emergency_command cmd c =
     (if \<not> command_valid cmd \<or> cmd_gear cmd \<noteq> kNeutralGear then (False, c)
      else (True, c\<lparr>emergency := cmd\<lparr>motor_torque_nm := replicate 8 (Fin 0),
                                      motor_speed_rpm := replicate 8 (Fin 0)\<rparr>\<rparr>))"

definition clear_emergency_stop :: "parallel_controller \<Rightarrow> parallel_controller" where
  "clear_emergency_stop c =
     (if \<not> physical_emergency_latched c \<and> \<not> handshake_revoked c
      then c\<lparr>emergency_stop_flag := False\<rparr> else c)"

definition parking_ready :: "parallel_controller \<Rightarrow> bool" where
  "parking_ready c \<longleftrightarrow>
     fb_gear_valid (feedback c) \<and> fb_gear (feedback c) = kNeutralGear \<and>
     fb_emergency_switch (feedback c) = 0 \<and>
     fb_driver_gear_request_valid (feedback c) \<and>
     fb_driver_gear_request (feedback c) = kNeutralGearRequest \<and>
     fb_handshake_valid (feedback c) \<and> fb_handshake_status (feedback c) = kManualHandshakeStatus \<and>
     fb_speed_valid (feedback c) \<and> stopped (feedback c) \<and>
     epb_reports kParkingBrakePark (feedback c)"

definition request_parallel_handshake :: "parallel_controller \<Rightarrow> bool \<times> parallel_controller" where
  "request_parallel_handshake c =
     (if vstate c \<notin> {Standby, Disarmed} \<or> \<not> parking_ready c then (False, c)
      else (True, vcu_enter Initial (c\<lparr>desired := default_command\<lparr>cmd_gear := kNeutralGear\<rparr>,
              physical_emergency_latched := False, emergency_stop_flag := False,
              handshake_revoked := False, revoked_handshake_status := 0,
              initial_frame_count := 0\<rparr>)))"

definition request_disarm :: "parallel_controller \<Rightarrow> parallel_controller" where
  "request_disarm c =
     (if vstate c \<in> {Standby, Disarmed} then c
      else let c' = c\<lparr>emergency_stop_flag := True\<rparr>
        in if vstate c' = Initial then vcu_enter Disarmed c'
           else if vstate c' = WaitParallelHandshake then vcu_enter DisarmManual c'
           else if vstate c' \<in> {DisarmTorque, DisarmStop, DisarmNeutral, DisarmParkingBrake,
                                DisarmManual, Disarmed} then c'
           else vcu_enter DisarmTorque c')"

definition transport_fault :: "parallel_controller \<Rightarrow> parallel_controller" where
  "transport_fault c = vcu_enter Fault (c\<lparr>emergency_stop_flag := True\<rparr>)"

subsection \<open>Feedback frames\<close>

text \<open>\<open>++receive_generation_\<close>, stored in the generation of the signal group by the caller.\<close>

definition next_generation :: "parallel_controller \<Rightarrow> parallel_controller" where
  "next_generation c = c\<lparr>receive_generation := receive_generation c + 1\<rparr>"

definition signal_int :: "can_frame \<Rightarrow> nat \<Rightarrow> nat \<Rightarrow> int" where
  "signal_int frame start len = uint (extract_signal frame start len)"

definition ingest_handshake :: "can_frame \<Rightarrow> parallel_controller \<Rightarrow> parallel_controller" where
  "ingest_handshake frame c0 =
     (let c1 = next_generation c0;
          status = signal_int frame 8 8;
          c = c1\<lparr>handshake_generation := receive_generation c1,
                feedback := (feedback c1)\<lparr>fb_handshake_status := status, fb_handshake_valid := True\<rparr>\<rparr>;
          accepted_parallel_handshake =
            vstate c \<in> {WaitParkingBrakeReleased, WaitGear, WaitActuatorModes, Ready}
      in if accepted_parallel_handshake \<and> status = kManualHandshakeStatus \<and> \<not> handshake_revoked c
         then let c' = c\<lparr>handshake_revoked := True, revoked_handshake_status := status,
                         emergency_stop_flag := True\<rparr>
           in if vstate c' = Ready then transport_fault c' else vcu_enter DisarmTorque c'
         else c)"

definition ingest_vehicle_status :: "can_frame \<Rightarrow> parallel_controller \<Rightarrow> parallel_controller" where
  "ingest_vehicle_status frame c0 =
     (let c1 = next_generation c0;
          c = c1\<lparr>gear_generation := receive_generation c1,
                feedback := (feedback c1)\<lparr>fb_emergency_switch := signal_int frame 0 2,
                  fb_gear := signal_int frame 2 2, fb_gear_valid := True,
                  fb_vmc_fault_code := signal_int frame 16 8, fb_vmc_fault_code_valid := True\<rparr>\<rparr>
      in if fb_emergency_switch (feedback c) \<noteq> 0
         then let c' = c\<lparr>physical_emergency_latched := True, emergency_stop_flag := True\<rparr>
           in if vstate c' = Ready then vcu_enter DisarmTorque c'
              else snd (begin_arming_emergency_disarm c')
         else c)"

definition ingest_vehicle_speed :: "can_frame \<Rightarrow> parallel_controller \<Rightarrow> parallel_controller" where
  "ingest_vehicle_speed frame c0 =
     (let c1 = next_generation c0;
          speed_kph = decode_physical (extract_signal frame 0 16) (dbl (1 / 10)) (dbl (- 500))
      in c1\<lparr>speed_generation := receive_generation c1,
           feedback := (feedback c1)\<lparr>fb_speed_mps := ddiv speed_kph (dbl (36 / 10)), fb_speed_valid := True\<rparr>\<rparr>)"

definition ingest_driver_intention :: "can_frame \<Rightarrow> parallel_controller \<Rightarrow> parallel_controller" where
  "ingest_driver_intention frame c0 =
     (let c1 = next_generation c0
      in c1\<lparr>feedback := (feedback c1)\<lparr>fb_driver_gear_request := signal_int frame 57 3,
           fb_driver_gear_request_valid := True\<rparr>\<rparr>)"

definition ingest_driver_intention2 :: "can_frame \<Rightarrow> parallel_controller \<Rightarrow> parallel_controller" where
  "ingest_driver_intention2 frame c0 =
     (let c1 = next_generation c0
      in c1\<lparr>feedback := (feedback c1)\<lparr>
           fb_brake_pedal_switch := signal_int frame 22 2, fb_brake_pedal_switch_valid := True,
           fb_parking_brake_switch := signal_int frame 24 2, fb_parking_brake_switch_valid := True\<rparr>\<rparr>)"

definition ingest_parking_brake :: "can_frame \<Rightarrow> parallel_controller \<Rightarrow> parallel_controller" where
  "ingest_parking_brake frame c0 =
     (let c1 = next_generation c0
      in c1\<lparr>parking_brake_generation := receive_generation c1,
           feedback := foldl (\<lambda>f index.
               f\<lparr>fb_parking_brake_status := (fb_parking_brake_status f)[index := signal_int frame (index * 16) 2],
                 fb_parking_brake_valid := (fb_parking_brake_valid f)[index := True]\<rparr>)
             (feedback c1) [0, 1, 2, 3]\<rparr>)"

definition ingest_motor_status01 :: "nat \<Rightarrow> can_frame \<Rightarrow> parallel_controller \<Rightarrow> parallel_controller" where
  "ingest_motor_status01 i frame c0 =
     (let c1 = next_generation c0; f = feedback c1
      in c1\<lparr>motor_torque_generation := (motor_torque_generation c1)[i := receive_generation c1],
           feedback := f\<lparr>
             fb_motor_speed_rpm := (fb_motor_speed_rpm f)
               [i := decode_physical (extract_signal frame 0 14) (dbl 1) (dbl (- 8000))],
             fb_motor_speed_valid := (fb_motor_speed_valid f)[i := extract_signal frame 15 1 = 1],
             fb_motor_torque_nm := (fb_motor_torque_nm f)
               [i := decode_physical (extract_signal frame 16 kMotorTorqueBits)
                       kMotorTorqueResolutionNm kMotorTorqueMinimumNm],
             fb_motor_torque_valid := (fb_motor_torque_valid f)[i := True]\<rparr>\<rparr>)"

definition ingest_motor_status02 :: "nat \<Rightarrow> can_frame \<Rightarrow> parallel_controller \<Rightarrow> parallel_controller" where
  "ingest_motor_status02 i frame c0 =
     (let c1 = next_generation c0; f = feedback c1
      in c1\<lparr>motor_mode_generation := (motor_mode_generation c1)[i := receive_generation c1],
           feedback := f\<lparr>fb_motor_mode := (fb_motor_mode f)[i := signal_int frame 4 4],
             fb_motor_mode_valid := (fb_motor_mode_valid f)[i := True]\<rparr>\<rparr>)"

definition ingest_steering :: "nat \<Rightarrow> can_frame \<Rightarrow> parallel_controller \<Rightarrow> parallel_controller" where
  "ingest_steering i frame c0 =
     (let c1 = next_generation c0; f = feedback c1
      in c1\<lparr>steering_generation := (steering_generation c1)[i := receive_generation c1],
           feedback := f\<lparr>fb_steering_mode := (fb_steering_mode f)[i := signal_int frame 0 8],
             fb_steering_angle_deg := (fb_steering_angle_deg f)
               [i := decode_physical (extract_signal frame 8 16) (dbl (1 / 10)) (dbl (- 1575))],
             fb_steering_valid := (fb_steering_valid f)[i := True]\<rparr>\<rparr>)"

definition ingest_brake :: "nat \<Rightarrow> can_frame \<Rightarrow> parallel_controller \<Rightarrow> parallel_controller" where
  "ingest_brake i frame c0 =
     (let c1 = next_generation c0
      in c1\<lparr>brake_generation := (brake_generation c1)[i := receive_generation c1],
           feedback := foldl (\<lambda>f local_brake.
               let brake_index = i * 2 + local_brake; base = local_brake * 32
               in f\<lparr>fb_brake_mode := (fb_brake_mode f)[brake_index := signal_int frame base 4],
                    fb_brake_pressure_bar := (fb_brake_pressure_bar f)
                      [brake_index := decode_physical (extract_signal frame (base + 4) 12) (dbl (1 / 10)) (dbl 0)],
                    fb_brake_valid := (fb_brake_valid f)[brake_index := True]\<rparr>)
             (feedback c1) [0, 1]\<rparr>)"

definition ingest :: "can_frame \<Rightarrow> parallel_controller \<Rightarrow> bool \<times> parallel_controller" where
  "ingest frame c =
     (let m1 = find_id (frame_id frame) kMotorStatus01Ids;
          m2 = find_id (frame_id frame) kMotorStatus02Ids;
          st = find_id (frame_id frame) kSteeringStatusIds;
          br = find_id (frame_id frame) kBrakeStatusIds
      in if \<not> extended frame \<or> dlc frame < 8 then (False, c)
         else if frame_id frame = kWvcuHandshake then (True, ingest_handshake frame c)
         else if frame_id frame = kWvcuVehicleStatus then (True, ingest_vehicle_status frame c)
         else if frame_id frame = kWvcuVehicleSpeed then (True, ingest_vehicle_speed frame c)
         else if frame_id frame = kWvcuDriverIntention then (True, ingest_driver_intention frame c)
         else if frame_id frame = kWvcuDriverIntention2 then (True, ingest_driver_intention2 frame c)
         else if frame_id frame = kWvcuParkingBrake then (True, ingest_parking_brake frame c)
         else if m1 < 8 then (True, ingest_motor_status01 m1 frame c)
         else if m2 < 8 then (True, ingest_motor_status02 m2 frame c)
         else if st < 4 then (True, ingest_steering st frame c)
         else if br < 4 then (True, ingest_brake br frame c)
         else (False, c))"

subsection \<open>State advance\<close>

definition handshake_fresh :: "int \<Rightarrow> parallel_controller \<Rightarrow> bool" where
  "handshake_fresh status c \<longleftrightarrow> fb_handshake_valid (feedback c) \<and>
     state_entry_generation c < handshake_generation c \<and> fb_handshake_status (feedback c) = status"

definition gear_fresh :: "int \<Rightarrow> parallel_controller \<Rightarrow> bool" where
  "gear_fresh g c \<longleftrightarrow> fb_gear_valid (feedback c) \<and>
     state_entry_generation c < gear_generation c \<and> fb_gear (feedback c) = g"

definition stopped_fresh :: "parallel_controller \<Rightarrow> bool" where
  "stopped_fresh c \<longleftrightarrow> fb_speed_valid (feedback c) \<and>
     state_entry_generation c < speed_generation c \<and> stopped (feedback c)"

definition epb_fresh :: "int \<Rightarrow> parallel_controller \<Rightarrow> bool" where
  "epb_fresh status c \<longleftrightarrow> state_entry_generation c < parking_brake_generation c \<and>
     epb_reports status (feedback c)"

definition actuators_fresh :: "parallel_controller \<Rightarrow> bool" where
  "actuators_fresh c \<longleftrightarrow>
     all_newer_than (motor_mode_generation c) (state_entry_generation c) \<and>
     all_newer_than (motor_torque_generation c) (state_entry_generation c) \<and>
     all_newer_than (steering_generation c) (state_entry_generation c) \<and>
     all_newer_than (brake_generation c) (state_entry_generation c) \<and>
     all_equal_valid (fb_motor_mode (feedback c)) (fb_motor_mode_valid (feedback c)) kMotorTorqueMode \<and>
     all_valid (fb_motor_torque_valid (feedback c)) \<and>
     all_equal_valid (fb_steering_mode (feedback c)) (fb_steering_valid (feedback c)) kByWireMode \<and>
     all_equal_valid (fb_brake_mode (feedback c)) (fb_brake_valid (feedback c)) kByWireMode"

definition torque_zero_fresh :: "parallel_controller \<Rightarrow> bool" where
  "torque_zero_fresh c \<longleftrightarrow> all_valid (fb_motor_torque_valid (feedback c)) \<and>
     all_newer_than (motor_torque_generation c) (state_entry_generation c) \<and>
     all_torque_zero (fb_motor_torque_nm (feedback c))"

definition advance_switch :: "parallel_controller \<Rightarrow> parallel_controller" where
  "advance_switch c = (case vstate c of
       Standby \<Rightarrow> c
     | Initial \<Rightarrow> if 5 \<le> initial_frame_count c then vcu_enter WaitParallelHandshake c
                  else c\<lparr>initial_frame_count := initial_frame_count c + 1\<rparr>
     | WaitParallelHandshake \<Rightarrow> if handshake_fresh kIntelligentHandshakeStatus c
         then vcu_enter (if automatic_parking c then WaitGear else WaitParkingBrakeReleased) c else c
     | WaitParkingBrakeReleased \<Rightarrow> if epb_fresh kParkingBrakeRelease c then vcu_enter WaitGear c else c
     | WaitGear \<Rightarrow> if gear_fresh (cmd_gear (desired c)) c then vcu_enter WaitActuatorModes c else c
     | WaitActuatorModes \<Rightarrow> if actuators_fresh c then vcu_enter Ready c else c
     | Ready \<Rightarrow> c
     | DisarmTorque \<Rightarrow> if torque_zero_fresh c then vcu_enter DisarmStop c else c
     | DisarmStop \<Rightarrow> if stopped_fresh c then vcu_enter DisarmNeutral c else c
     | DisarmNeutral \<Rightarrow> if gear_fresh kNeutralGear c then vcu_enter DisarmParkingBrake c else c
     | DisarmParkingBrake \<Rightarrow> if epb_fresh kParkingBrakePark c then vcu_enter DisarmManual c else c
     | DisarmManual \<Rightarrow> if handshake_fresh kManualHandshakeStatus c \<and> gear_fresh kNeutralGear c \<and>
           stopped_fresh c \<and> epb_fresh kParkingBrakePark c
         then vcu_enter Disarmed c else c
     | Disarmed \<Rightarrow> c
     | Fault \<Rightarrow> c)"

definition advance_state :: "parallel_controller \<Rightarrow> parallel_controller" where
  "advance_state c =
     (if (emergency_stop_flag c \<or> fb_emergency_switch (feedback c) \<noteq> 0) \<and>
         fst (begin_arming_emergency_disarm c)
      then snd (begin_arming_emergency_disarm c)
      else if vstate c = Ready \<and> fb_handshake_valid (feedback c) \<and>
              fb_handshake_status (feedback c) \<noteq> kIntelligentHandshakeStatus
      then transport_fault c
      else if vstate c = Ready \<and>
              (\<not> fb_gear_valid (feedback c) \<or> fb_gear (feedback c) \<noteq> cmd_gear (desired c))
      then vcu_enter WaitGear (c\<lparr>emergency_stop_flag := True\<rparr>)
      else advance_switch c)"

subsection \<open>Transmission\<close>

text \<open>The local variables of \<open>tick\<close>, and its blocks in their order.\<close>

record tick_outputs =
  o_gear :: int
  o_handshake_request :: int
  o_steering_mode :: int
  o_parking_brake :: "int list"
  o_motor_command :: "int list"
  o_motor_mode :: "int list"
  o_steering_axis_mode :: "int list"
  o_brake_mode :: "int list"
  o_motor_torque :: "double list"
  o_motor_speed :: "double list"
  o_steering_angle :: "double list"
  o_steering_speed :: "double list"
  o_brake_pressure :: "double list"
  o_vehicle_speed_request_kph :: double
  o_vehicle_speed_request_valid :: bool
  o_fault_reset :: bool

definition initial_outputs :: tick_outputs where
  "initial_outputs = \<lparr>
     o_gear = 0, o_handshake_request = 0, o_steering_mode = 0,
     o_parking_brake = replicate 4 kParkingBrakeHold,
     o_motor_command = replicate 8 0, o_motor_mode = replicate 8 0,
     o_steering_axis_mode = replicate 4 0, o_brake_mode = replicate 8 0,
     o_motor_torque = replicate 8 (Fin 0), o_motor_speed = replicate 8 (Fin 0),
     o_steering_angle = replicate 4 (Fin 0), o_steering_speed = replicate 4 (Fin 0),
     o_brake_pressure = replicate 8 (Fin 0),
     o_vehicle_speed_request_kph = Fin 0, o_vehicle_speed_request_valid = False,
     o_fault_reset = False\<rparr>"

definition tick_authority :: "parallel_controller \<Rightarrow> tick_outputs \<Rightarrow> tick_outputs" where
  "tick_authority c t =
     (let driving_authority_requested = vstate c \<notin> {Standby, Initial, Disarmed, DisarmManual}
      in if driving_authority_requested \<and> \<not> handshake_revoked c
         then t\<lparr>o_handshake_request := kIntelligentHandshakeRequest\<rparr> else t)"

definition tick_release :: "parallel_controller \<Rightarrow> tick_outputs \<Rightarrow> tick_outputs" where
  "tick_release c t =
     (if vstate c \<in> {WaitParkingBrakeReleased, WaitGear, WaitActuatorModes, Ready,
                     DisarmTorque, DisarmStop, DisarmNeutral}
      then (if \<not> handshake_revoked c then t\<lparr>o_parking_brake := replicate 4 kParkingBrakeRelease\<rparr> else t)
        \<lparr>o_steering_mode := kByWireMode\<rparr>
      else t)"

definition tick_actuators :: "parallel_controller \<Rightarrow> tick_outputs \<Rightarrow> tick_outputs" where
  "tick_actuators c t =
     (let t1 = if vstate c \<in> {WaitGear, WaitActuatorModes, Ready, DisarmTorque, DisarmStop}
               then t\<lparr>o_gear := cmd_gear (desired c), o_steering_axis_mode := replicate 4 kByWireMode,
                      o_brake_mode := replicate 8 kByWireMode\<rparr> else t
      in if vstate c \<in> {WaitActuatorModes, Ready, DisarmTorque, DisarmStop}
         then t1\<lparr>o_motor_command := replicate 8 kMotorEnable, o_motor_mode := replicate 8 kMotorTorqueMode\<rparr>
         else t1)"

definition tick_desired :: "parallel_controller \<Rightarrow> tick_outputs \<Rightarrow> tick_outputs" where
  "tick_desired c t =
     (let t1 = if vstate c \<in> {WaitGear, WaitActuatorModes, Ready}
               then t\<lparr>o_steering_angle := steering_angle_deg (desired c),
                      o_steering_speed := steering_speed_degps (desired c),
                      o_brake_pressure := brake_pressure_bar (desired c)\<rparr> else t
      in if vstate c = Ready
         then t1\<lparr>o_motor_torque := motor_torque_nm (desired c), o_motor_speed := motor_speed_rpm (desired c),
                 o_vehicle_speed_request_kph := Fin 0, o_vehicle_speed_request_valid := False,
                 o_fault_reset := fault_reset (desired c)\<rparr>
         else t1)"

definition tick_parking :: "parallel_controller \<Rightarrow> tick_outputs \<Rightarrow> tick_outputs" where
  "tick_parking c t =
     (if automatic_parking c \<and> vstate c \<in> {WaitGear, WaitActuatorModes, Ready}
      then let park = automatic_park_requested c \<or> vstate c \<noteq> Ready;
               torque_zero = all_valid (fb_motor_torque_valid (feedback c)) \<and>
                             all_torque_zero (fb_motor_torque_nm (feedback c));
               t1 = t\<lparr>o_parking_brake := replicate 4
                 (if park then (if parking_stopped_fresh c \<and> torque_zero then kParkingBrakePark
                                else kParkingBrakeHold)
                  else kParkingBrakeRelease)\<rparr>
           in if park \<or> \<not> parking_released c
              then t1\<lparr>o_motor_torque := replicate 8 (Fin 0), o_motor_speed := replicate 8 (Fin 0),
                      o_steering_angle := replicate 4 (Fin 0),
                      o_brake_pressure := replicate 8 (parking_brake_bar c)\<rparr>
              else t1
      else t)"

definition safety_brake :: "parallel_controller \<Rightarrow> bool" where
  "safety_brake c \<longleftrightarrow> emergency_stop_flag c \<or> fb_emergency_switch (feedback c) \<noteq> 0 \<or>
     vstate c \<in> {Fault, DisarmTorque, DisarmStop}"

definition tick_safety :: "parallel_controller \<Rightarrow> tick_outputs \<Rightarrow> tick_outputs" where
  "tick_safety c t =
     (if safety_brake c
      then let t1 = t\<lparr>o_motor_torque := replicate 8 (Fin 0), o_motor_speed := replicate 8 (Fin 0),
                      o_brake_pressure := brake_pressure_bar (emergency c),
                      o_vehicle_speed_request_kph := Fin 0, o_vehicle_speed_request_valid := False\<rparr>
        in if vstate c \<in> {Ready, Fault, DisarmTorque, DisarmStop}
           then t1\<lparr>o_motor_command := replicate 8 kMotorEnable, o_motor_mode := replicate 8 kMotorTorqueMode,
                   o_steering_axis_mode := replicate 4 kByWireMode, o_brake_mode := replicate 8 kByWireMode,
                   o_steering_angle := steering_angle_deg (desired c),
                   o_steering_speed := steering_speed_degps (desired c)\<rparr>
           else t1
      else t)"

definition tick_disarm :: "parallel_controller \<Rightarrow> tick_outputs \<Rightarrow> tick_outputs" where
  "tick_disarm c t =
     (if vstate c = DisarmNeutral
      then t\<lparr>o_gear := kNeutralGear,
             o_motor_command := replicate 8 kMotorEnable, o_motor_mode := replicate 8 kMotorTorqueMode,
             o_steering_axis_mode := replicate 4 kByWireMode, o_brake_mode := replicate 8 kByWireMode,
             o_brake_pressure := brake_pressure_bar (emergency c)\<rparr>
      else if vstate c = DisarmParkingBrake
      then t\<lparr>o_gear := kNeutralGear, o_parking_brake := replicate 4 kParkingBrakePark\<rparr>
      else if vstate c = DisarmManual
      then t\<lparr>o_gear := kNeutralGear, o_handshake_request := 0,
             o_parking_brake := replicate 4 kParkingBrakePark\<rparr>
      else t)"

definition tick_outputs_of :: "parallel_controller \<Rightarrow> tick_outputs" where
  "tick_outputs_of c =
     tick_disarm c (tick_safety c (tick_parking c (tick_desired c (tick_actuators c
       (tick_release c (tick_authority c initial_outputs))))))"

definition tick_frames :: "tick_outputs \<Rightarrow> can_frame list" where
  "tick_frames t =
     map (\<lambda>index. make_motor_frame index (o_motor_command t ! index) (o_motor_mode t ! index)
                    (o_motor_torque t ! index) (o_motor_speed t ! index)) [0..<8] @
     [make_steering_frame kAduEps01 0 (o_steering_axis_mode t) (o_steering_angle t) (o_steering_speed t),
      make_steering_frame kAduEps03 2 (o_steering_axis_mode t) (o_steering_angle t) (o_steering_speed t),
      make_brake_frame kAduEhb01 0 (o_brake_mode t) (o_brake_pressure t),
      make_brake_frame kAduEhb02 4 (o_brake_mode t) (o_brake_pressure t),
      make_epb_frame (o_parking_brake t) (o_steering_mode t),
      make_shake_frame (o_gear t) (o_handshake_request t) (o_fault_reset t),
      new_frame kAduBody,
      make_vehicle_speed_frame (o_vehicle_speed_request_kph t) (o_vehicle_speed_request_valid t)]"

definition vcu_tick :: "parallel_controller \<Rightarrow> can_frame list \<times> parallel_controller" where
  "vcu_tick c = (let c' = advance_state c in (tick_frames (tick_outputs_of c'), c'))"

subsection \<open>Queries\<close>

definition vcu_ready :: "parallel_controller \<Rightarrow> bool" where
  "vcu_ready c \<longleftrightarrow> vstate c = Ready"

definition vcu_disarmed :: "parallel_controller \<Rightarrow> bool" where
  "vcu_disarmed c \<longleftrightarrow> vstate c = Standby \<or> vstate c = Disarmed"

definition handshake_requested :: "parallel_controller \<Rightarrow> bool" where
  "handshake_requested c \<longleftrightarrow> vstate c \<noteq> Standby \<and> vstate c \<noteq> Disarmed \<and> vstate c \<noteq> Fault"

definition feedback_complete :: "parallel_controller \<Rightarrow> bool" where
  "feedback_complete c \<longleftrightarrow>
     fb_handshake_valid (feedback c) \<and> fb_gear_valid (feedback c) \<and>
     fb_driver_gear_request_valid (feedback c) \<and> fb_speed_valid (feedback c) \<and>
     all_valid (fb_parking_brake_valid (feedback c)) \<and> all_valid (fb_motor_mode_valid (feedback c)) \<and>
     all_valid (fb_motor_torque_valid (feedback c)) \<and> all_valid (fb_steering_valid (feedback c)) \<and>
     all_valid (fb_brake_valid (feedback c))"

fun state_name :: "vcu_state \<Rightarrow> string" where
  "state_name Standby = ''standby''"
| "state_name Initial = ''initial''"
| "state_name WaitParallelHandshake = ''wait_parallel_handshake''"
| "state_name WaitParkingBrakeReleased = ''wait_parking_brake_released''"
| "state_name WaitGear = ''wait_gear''"
| "state_name WaitActuatorModes = ''wait_actuator_modes''"
| "state_name Ready = ''ready''"
| "state_name DisarmTorque = ''disarm_torque''"
| "state_name DisarmStop = ''disarm_stop''"
| "state_name DisarmNeutral = ''disarm_neutral''"
| "state_name DisarmParkingBrake = ''disarm_parking_brake''"
| "state_name DisarmManual = ''disarm_manual''"
| "state_name Disarmed = ''disarmed''"
| "state_name Fault = ''fault''"

subsection \<open>Runs\<close>

datatype vcu_event =
    Reset
  | SetCommand vcu_command
  | SetEmergencyCommand vcu_command
  | SetAutomaticParking bool bool bool double
  | EmergencyStop
  | ClearEmergencyStop
  | RequestParallelHandshake
  | RequestDisarm
  | TransportFault
  | Ingest can_frame
  | Tick

fun vcu_step :: "vcu_event \<Rightarrow> parallel_controller \<Rightarrow> can_frame list \<times> parallel_controller" where
  "vcu_step Reset c = ([], vcu_reset)"
| "vcu_step (SetCommand cmd) c = ([], snd (set_command cmd c))"
| "vcu_step (SetEmergencyCommand cmd) c = ([], snd (set_emergency_command cmd c))"
| "vcu_step (SetAutomaticParking e r s b) c = ([], set_automatic_parking e r s b c)"
| "vcu_step EmergencyStop c = ([], emergency_stop c)"
| "vcu_step ClearEmergencyStop c = ([], clear_emergency_stop c)"
| "vcu_step RequestParallelHandshake c = ([], snd (request_parallel_handshake c))"
| "vcu_step RequestDisarm c = ([], request_disarm c)"
| "vcu_step TransportFault c = ([], transport_fault c)"
| "vcu_step (Ingest frame) c = ([], snd (ingest frame c))"
| "vcu_step Tick c = vcu_tick c"

definition command_wf :: "vcu_command \<Rightarrow> bool" where
  "command_wf cmd \<longleftrightarrow> length (motor_torque_nm cmd) = 8 \<and> length (motor_speed_rpm cmd) = 8 \<and>
     length (steering_angle_deg cmd) = 4 \<and> length (steering_speed_degps cmd) = 4 \<and>
     length (brake_pressure_bar cmd) = 8"

text \<open>An event whose arrays have the length of their C++ type.\<close>

fun event_wf :: "vcu_event \<Rightarrow> bool" where
  "event_wf (SetCommand cmd) = command_wf cmd"
| "event_wf (SetEmergencyCommand cmd) = command_wf cmd"
| "event_wf (Ingest frame) = (length (frame_data frame) = 8)"
| "event_wf _ = True"

inductive vcu_reachable :: "parallel_controller \<Rightarrow> bool" where
  start: "vcu_reachable vcu_reset"
| step: "vcu_reachable c \<Longrightarrow> event_wf e \<Longrightarrow> vcu_reachable (snd (vcu_step e c))"

end
