(* ===== verification/Vcu_Safety.thy ===== *)
theory Vcu_Safety
  imports Vcu_Controller
begin

text \<open>
  Safety of the parallel controller: what the frames of a tick may carry in each state, the
  latches that keep the vehicle disarmed, and the arming and disarming sequences.
\<close>

subsection \<open>The outputs of a tick, field by field\<close>

definition traction :: "parallel_controller \<Rightarrow> bool" where
  "traction c \<longleftrightarrow> vstate c = Ready \<and> \<not> emergency_stop_flag c \<and> fb_emergency_switch (feedback c) = 0 \<and>
     (automatic_parking c \<longrightarrow> \<not> automatic_park_requested c \<and> parking_released c)"

lemmas tick_blocks = tick_authority_def tick_release_def tick_actuators_def tick_desired_def
  tick_parking_def tick_safety_def tick_disarm_def tick_outputs_of_def initial_outputs_def Let_def

lemma out_torque:
  "o_motor_torque (tick_outputs_of c) =
     (if traction c then motor_torque_nm (desired c) else replicate 8 (Fin 0))"
  by (cases "vstate c") (simp_all add: tick_blocks traction_def safety_brake_def)

lemma out_brake:
  "safety_brake c \<Longrightarrow> o_brake_pressure (tick_outputs_of c) = brake_pressure_bar (emergency c)"
  by (cases "vstate c") (simp_all add: tick_blocks safety_brake_def)

lemma out_brake_mode:
  "vstate c \<in> {WaitGear, WaitActuatorModes, Ready, Fault, DisarmTorque, DisarmStop, DisarmNeutral} \<Longrightarrow>
     o_brake_mode (tick_outputs_of c) = replicate 8 kByWireMode"
  by (cases "vstate c") (simp_all add: tick_blocks safety_brake_def)

lemma out_handshake:
  "o_handshake_request (tick_outputs_of c) =
     (if vstate c \<in> {Standby, Initial, Disarmed, DisarmManual} \<or> handshake_revoked c then 0
      else kIntelligentHandshakeRequest)"
  by (cases "vstate c") (simp_all add: tick_blocks)

text \<open>What the parking brakes are asked to do, the same for all four.\<close>

definition epb_request :: "parallel_controller \<Rightarrow> int" where
  "epb_request c =
     (if vstate c \<in> {DisarmParkingBrake, DisarmManual} then kParkingBrakePark
      else if automatic_parking c \<and> vstate c \<in> {WaitGear, WaitActuatorModes, Ready} then
        (if automatic_park_requested c \<or> vstate c \<noteq> Ready then
           (if parking_stopped_fresh c \<and> all_valid (fb_motor_torque_valid (feedback c)) \<and>
               all_torque_zero (fb_motor_torque_nm (feedback c))
            then kParkingBrakePark else kParkingBrakeHold)
         else kParkingBrakeRelease)
      else if vstate c \<in> {WaitParkingBrakeReleased, WaitGear, WaitActuatorModes, Ready,
                          DisarmTorque, DisarmStop, DisarmNeutral} \<and> \<not> handshake_revoked c
      then kParkingBrakeRelease else kParkingBrakeHold)"

lemma out_epb: "o_parking_brake (tick_outputs_of c) = replicate 4 (epb_request c)"
  by (cases "vstate c") (simp_all add: tick_blocks epb_request_def)

lemma out_vehicle_speed:
  "o_vehicle_speed_request_valid (tick_outputs_of c) = False"
  by (cases "vstate c") (simp_all add: tick_blocks)

subsection \<open>Signals of the transmitted frames\<close>

definition motor_torques :: "can_frame list \<Rightarrow> uint64 list" where
  "motor_torques frames = map (\<lambda>f. extract_signal f 8 16) (take 8 frames)"

definition brake_pressures :: "can_frame list \<Rightarrow> uint64 list" where
  "brake_pressures frames =
     map (\<lambda>j. extract_signal (frames ! 10) (16 * j + 4) 12) [0..<4] @
     map (\<lambda>j. extract_signal (frames ! 11) (16 * j + 4) 12) [0..<4]"

definition brake_modes :: "can_frame list \<Rightarrow> uint64 list" where
  "brake_modes frames =
     map (\<lambda>j. extract_signal (frames ! 10) (16 * j) 4) [0..<4] @
     map (\<lambda>j. extract_signal (frames ! 11) (16 * j) 4) [0..<4]"

definition epb_requests :: "can_frame list \<Rightarrow> uint64 list" where
  "epb_requests frames = map (\<lambda>j. extract_signal (frames ! 12) (8 * j) 2) [0..<4]"

definition shake_request :: "can_frame list \<Rightarrow> uint64" where
  "shake_request frames = extract_signal (frames ! 13) 0 8"

definition vehicle_speed_quality :: "can_frame list \<Rightarrow> uint64" where
  "vehicle_speed_quality frames = extract_signal (frames ! 15) 8 8"

lemma upt4: "[0..<4] = [0, 1, 2, 3::nat]"
  by (simp add: upt_rec)

lemma frames_torque:
  "length (o_motor_torque t) = 8 \<Longrightarrow> motor_torques (tick_frames t) = map encode_torque (o_motor_torque t)"
  by (auto simp: motor_torques_def tick_frames_def motor_frame_signals intro!: nth_equalityI)

lemma list8: "length xs = 8 \<Longrightarrow> map f xs = map (\<lambda>j. f (xs ! j)) [0..<4] @ map (\<lambda>j. f (xs ! (4 + j))) [0..<4]"
  by (rule nth_equalityI) (auto simp: nth_append)

lemma frames_nth:
  "tick_frames t ! 10 = make_brake_frame kAduEhb01 0 (o_brake_mode t) (o_brake_pressure t)"
  "tick_frames t ! 11 = make_brake_frame kAduEhb02 4 (o_brake_mode t) (o_brake_pressure t)"
  "tick_frames t ! 12 = make_epb_frame (o_parking_brake t) (o_steering_mode t)"
  "tick_frames t ! 13 = make_shake_frame (o_gear t) (o_handshake_request t) (o_fault_reset t)"
  "tick_frames t ! 15 = make_vehicle_speed_frame (o_vehicle_speed_request_kph t) (o_vehicle_speed_request_valid t)"
  by (simp_all add: tick_frames_def nth_append)

lemma frames_pressure:
  "length (o_brake_pressure t) = 8 \<Longrightarrow>
     brake_pressures (tick_frames t) = map encode_pressure (o_brake_pressure t)"
  by (simp add: brake_pressures_def frames_nth brake_frame_signals list8)

lemma frames_brake_mode:
  "length (o_brake_mode t) = 8 \<Longrightarrow>
     brake_modes (tick_frames t) = map (\<lambda>m. word_of_int m AND signal_mask 4) (o_brake_mode t)"
  by (simp add: brake_modes_def frames_nth brake_frame_signals list8 [where xs = "o_brake_mode t"])

lemma frames_epb:
  "o_parking_brake t = replicate 4 r \<Longrightarrow>
     epb_requests (tick_frames t) = replicate 4 (word_of_int r AND signal_mask 2)"
  by (rule nth_equalityI) (simp_all add: epb_requests_def frames_nth epb_frame_signals)

lemma frames_shake: "shake_request (tick_frames t) = word_of_int (o_handshake_request t) AND signal_mask 8"
  by (simp add: shake_request_def frames_nth shake_frame_signals)

subsection \<open>Invariants\<close>

definition armed_states :: "vcu_state set" where
  "armed_states = {Initial, WaitParallelHandshake, WaitParkingBrakeReleased, WaitGear, WaitActuatorModes, Ready}"

definition latch_set :: "parallel_controller \<Rightarrow> bool" where
  "latch_set c \<longleftrightarrow> physical_emergency_latched c \<or> handshake_revoked c"

definition latch_inv :: "parallel_controller \<Rightarrow> bool" where
  "latch_inv c \<longleftrightarrow> (latch_set c \<longrightarrow> emergency_stop_flag c \<and> vstate c \<notin> armed_states)"

definition commands_inv :: "parallel_controller \<Rightarrow> bool" where
  "commands_inv c \<longleftrightarrow> command_wf (desired c) \<and> command_valid (desired c) \<and>
     command_wf (emergency c) \<and> command_valid (emergency c) \<and> cmd_gear (emergency c) = kNeutralGear"

lemmas vcu_operations = set_command_def set_emergency_command_def set_automatic_parking_def
  emergency_stop_def clear_emergency_stop_def request_parallel_handshake_def request_disarm_def
  transport_fault_def begin_arming_emergency_disarm_def vcu_enter_def next_generation_def

lemmas ingest_blocks = ingest_vehicle_speed_def
  ingest_driver_intention_def ingest_driver_intention2_def ingest_parking_brake_def
  ingest_motor_status01_def ingest_motor_status02_def ingest_steering_def ingest_brake_def

text \<open>
  Feedback other than handshake and vehicle status changes only the feedback and the
  generations.
\<close>

definition same_control :: "parallel_controller \<Rightarrow> parallel_controller \<Rightarrow> bool" where
  "same_control c d \<longleftrightarrow> desired d = desired c \<and> emergency d = emergency c \<and> vstate d = vstate c \<and>
     emergency_stop_flag d = emergency_stop_flag c \<and>
     physical_emergency_latched d = physical_emergency_latched c \<and>
     handshake_revoked d = handshake_revoked c \<and>
     state_entry_generation d = state_entry_generation c"

lemma ingest_cases:
  obtains (handshake) "ingest frame c = (True, ingest_handshake frame c)"
  | (status) "ingest frame c = (True, ingest_vehicle_status frame c)"
  | (other) "same_control c (snd (ingest frame c))"
proof -
  have "same_control c (ingest_vehicle_speed frame c)" "same_control c (ingest_driver_intention frame c)"
    "same_control c (ingest_driver_intention2 frame c)" "same_control c (ingest_parking_brake frame c)"
    "same_control c (ingest_motor_status01 i frame c)" "same_control c (ingest_motor_status02 i frame c)"
    "same_control c (ingest_steering i frame c)" "same_control c (ingest_brake i frame c)"
    "same_control c c" for i
    by (simp_all add: ingest_blocks same_control_def next_generation_def Let_def)
  then have "ingest frame c = (True, ingest_handshake frame c) \<or>
      ingest frame c = (True, ingest_vehicle_status frame c) \<or> same_control c (snd (ingest frame c))"
    unfolding ingest_def Let_def by simp
  then show ?thesis using that by blast
qed

lemma default_command_valid: "command_valid default_command" "command_wf default_command"
  by (simp_all add: command_valid_def command_wf_def default_command_def all_finite_in_range_def
      kMotorTorqueMinimumNm_def kMotorTorqueMaximumNm_def)

lemma reset_inv: "latch_inv vcu_reset" "commands_inv vcu_reset"
  by (simp_all add: latch_inv_def latch_set_def vcu_reset_def commands_inv_def command_valid_def command_wf_def
      default_command_def all_finite_in_range_def kMotorTorqueMinimumNm_def kMotorTorqueMaximumNm_def
      kNeutralGear_def)

lemma command_valid_zeroed:
  "command_valid cmd \<Longrightarrow> command_valid (cmd\<lparr>motor_torque_nm := replicate 8 (Fin 0), motor_speed_rpm := replicate 8 (Fin 0)\<rparr>)"
  "command_valid cmd \<Longrightarrow> command_valid (cmd\<lparr>motor_torque_nm := replicate 8 (Fin 0), motor_speed_rpm := replicate 8 (Fin 0),
     vehicle_speed_request_kph := Fin 0, vehicle_speed_request_valid := False\<rparr>)"
  by (simp_all add: command_valid_def all_finite_in_range_def kMotorTorqueMinimumNm_def kMotorTorqueMaximumNm_def)

lemmas advance_blocks = advance_state_def advance_switch_def

lemma latch_same_control: "same_control c d \<Longrightarrow> latch_inv c \<Longrightarrow> latch_inv d"
  by (auto simp: same_control_def latch_inv_def latch_set_def)

lemma latch_ingest:
  assumes "latch_inv c"
  shows "latch_inv (snd (ingest frame c))"
proof (rule ingest_cases [of frame c])
  assume "ingest frame c = (True, ingest_handshake frame c)"
  then show ?thesis using assms
    by (cases "vstate c") (simp_all add: ingest_handshake_def Let_def vcu_operations latch_inv_def
        latch_set_def armed_states_def)
next
  assume "ingest frame c = (True, ingest_vehicle_status frame c)"
  then show ?thesis using assms
    by (cases "vstate c") (simp_all add: ingest_vehicle_status_def Let_def vcu_operations latch_inv_def
        latch_set_def armed_states_def)
next
  assume "same_control c (snd (ingest frame c))"
  then show ?thesis using assms by (rule latch_same_control)
qed

lemma latch_advance: "latch_inv c \<Longrightarrow> latch_inv (advance_state c)"
  by (cases "vstate c") (simp_all add: advance_blocks vcu_operations latch_inv_def latch_set_def armed_states_def)

lemma latch_step: "latch_inv c \<Longrightarrow> latch_inv (snd (vcu_step e c))"
proof (cases e)
  case (SetCommand cmd)
  moreover assume "latch_inv c"
  ultimately show ?thesis
    by (cases "vstate c") (simp_all add: Let_def vcu_operations latch_inv_def latch_set_def armed_states_def)
next
  case RequestDisarm
  moreover assume "latch_inv c"
  ultimately show ?thesis
    by (cases "vstate c") (simp_all add: Let_def vcu_operations latch_inv_def latch_set_def armed_states_def)
next
  case EmergencyStop
  moreover assume "latch_inv c"
  ultimately show ?thesis
    by (cases "vstate c") (simp_all add: Let_def vcu_operations latch_inv_def latch_set_def armed_states_def)
qed (simp_all add: reset_inv latch_ingest latch_advance vcu_tick_def Let_def,
     simp_all add: vcu_operations latch_inv_def latch_set_def armed_states_def)

lemma commands_same_control: "same_control c d \<Longrightarrow> commands_inv c \<Longrightarrow> commands_inv d"
  by (auto simp: same_control_def commands_inv_def)

lemma advance_commands [simp]:
  "desired (advance_state c) = desired c" "emergency (advance_state c) = emergency c"
  "feedback (advance_state c) = feedback c"
  by (cases "vstate c"; simp add: advance_blocks vcu_operations)+

lemma ingest_commands [simp]:
  "desired (snd (ingest frame c)) = desired c" "emergency (snd (ingest frame c)) = emergency c"
proof -
  have "desired (snd (ingest frame c)) = desired c \<and> emergency (snd (ingest frame c)) = emergency c"
    by (rule ingest_cases [of frame c]; cases "vstate c")
       (simp_all add: ingest_handshake_def ingest_vehicle_status_def Let_def vcu_operations same_control_def)
  then show "desired (snd (ingest frame c)) = desired c" "emergency (snd (ingest frame c)) = emergency c"
    by simp_all
qed

lemma begin_disarm_commands [simp]:
  "desired (snd (begin_arming_emergency_disarm c)) = desired c"
  "emergency (snd (begin_arming_emergency_disarm c)) = emergency c"
  by (cases "vstate c"; simp add: vcu_operations)+

lemma commands_step:
  assumes "commands_inv c" "event_wf e"
  shows "commands_inv (snd (vcu_step e c))"
proof (cases e)
  case (SetCommand cmd)
  have "command_wf (desired c\<lparr>motor_torque_nm := replicate 8 (Fin 0), motor_speed_rpm := replicate 8 (Fin 0),
      vehicle_speed_request_kph := Fin 0, vehicle_speed_request_valid := False\<rparr>)"
    using assms by (simp add: commands_inv_def command_wf_def)
  then show ?thesis using SetCommand assms command_valid_zeroed(2) [of "desired c"]
    by (simp add: set_command_def Let_def commands_inv_def emergency_stop_def vcu_enter_def)
next
  case (SetEmergencyCommand cmd)
  have "command_wf cmd \<Longrightarrow> command_wf (cmd\<lparr>motor_torque_nm := replicate 8 (Fin 0), motor_speed_rpm := replicate 8 (Fin 0)\<rparr>)"
    by (simp add: command_wf_def)
  then show ?thesis using SetEmergencyCommand assms command_valid_zeroed(1) [of cmd]
    by (simp add: set_emergency_command_def commands_inv_def)
next
  case RequestParallelHandshake
  have "default_command\<lparr>cmd_gear := kNeutralGear\<rparr> = default_command"
    by (simp add: default_command_def kNeutralGear_def)
  then show ?thesis using RequestParallelHandshake assms default_command_valid
    by (simp add: request_parallel_handshake_def vcu_enter_def commands_inv_def)
qed (use assms reset_inv in \<open>simp_all add: vcu_tick_def Let_def commands_inv_def set_automatic_parking_def
      emergency_stop_def clear_emergency_stop_def request_disarm_def transport_fault_def vcu_enter_def\<close>)

lemma vcu_reachable_inv:
  assumes "vcu_reachable c"
  shows "latch_inv c" "commands_inv c"
  using assms by (induction) (simp_all add: reset_inv latch_step commands_step)

subsection \<open>Traction and braking\<close>

text \<open>
  C6. No traction without authority: every tick transmits the raw value of zero torque in all
  eight motor frames, unless the controller is then in Ready with neither a requested nor a
  physical emergency stop and, under automatic parking, with the parking brakes confirmed
  released.
\<close>

theorem vcu_no_traction:
  "traction (snd (vcu_tick c)) \<or> motor_torques (fst (vcu_tick c)) = replicate 8 32000"
  by (cases "traction (advance_state c)") (simp_all add: vcu_tick_def Let_def frames_torque out_torque encode_torque_zero)

text \<open>
  What drives the vehicle: in a reachable controller with traction, the eight motor frames
  carry the encoded torques of the accepted command, which are finite and within the limits.
\<close>

theorem vcu_traction_command:
  assumes "vcu_reachable c" "traction (snd (vcu_tick c))"
  shows "motor_torques (fst (vcu_tick c)) = map encode_torque (motor_torque_nm (desired c)) \<and>
     all_finite_in_range (motor_torque_nm (desired c)) kMotorTorqueMinimumNm kMotorTorqueMaximumNm"
proof -
  have "commands_inv c" using assms(1) by (rule vcu_reachable_inv)
  then have len: "length (motor_torque_nm (desired c)) = 8"
    and "all_finite_in_range (motor_torque_nm (desired c)) kMotorTorqueMinimumNm kMotorTorqueMaximumNm"
    by (simp_all add: commands_inv_def command_wf_def command_valid_def)
  then show ?thesis using assms(2) by (simp add: vcu_tick_def Let_def frames_torque out_torque)
qed

text \<open>The states in which the parking brakes may be released.\<close>

definition may_roll :: "vcu_state \<Rightarrow> bool" where
  "may_roll st \<longleftrightarrow> st \<in> {WaitParkingBrakeReleased, WaitGear, WaitActuatorModes, Ready, Fault,
     DisarmTorque, DisarmStop, DisarmNeutral}"

lemma advance_no_wait_release:
  "safety_brake (advance_state c) \<Longrightarrow> vstate (advance_state c) \<noteq> WaitParkingBrakeReleased"
  by (cases "vstate c") (simp_all add: safety_brake_def advance_blocks vcu_operations split: if_splits)


subsection \<open>Latches\<close>

definition no_rearm :: "vcu_event \<Rightarrow> bool" where
  "no_rearm e \<longleftrightarrow> (case e of Reset \<Rightarrow> False | RequestParallelHandshake \<Rightarrow> False | _ \<Rightarrow> event_wf e)"

definition held :: "parallel_controller \<Rightarrow> bool" where
  "held c \<longleftrightarrow> latch_inv c \<and> latch_set c"

definition held_revoked :: "parallel_controller \<Rightarrow> bool" where
  "held_revoked c \<longleftrightarrow> latch_inv c \<and> handshake_revoked c"

lemma latch_flags_advance [simp]:
  "physical_emergency_latched (advance_state c) = physical_emergency_latched c"
  "handshake_revoked (advance_state c) = handshake_revoked c"
  by (cases "vstate c"; simp add: advance_blocks vcu_operations)+

lemma latch_flags_disarm [simp]:
  "physical_emergency_latched (snd (begin_arming_emergency_disarm c)) = physical_emergency_latched c"
  "handshake_revoked (snd (begin_arming_emergency_disarm c)) = handshake_revoked c"
  by (cases "vstate c"; simp add: vcu_operations)+

lemma latch_flags_ingest:
  "physical_emergency_latched c \<Longrightarrow> physical_emergency_latched (snd (ingest frame c))"
  "handshake_revoked c \<Longrightarrow> handshake_revoked (snd (ingest frame c))"
  by (rule ingest_cases [of frame c];
      simp add: ingest_handshake_def ingest_vehicle_status_def Let_def transport_fault_def vcu_enter_def
        next_generation_def same_control_def)+

lemma latch_flags_step:
  assumes "no_rearm e"
  shows "physical_emergency_latched c \<Longrightarrow> physical_emergency_latched (snd (vcu_step e c))"
    and "handshake_revoked c \<Longrightarrow> handshake_revoked (snd (vcu_step e c))"
  using assms
  by (cases e; simp add: no_rearm_def latch_flags_ingest vcu_tick_def Let_def set_command_def
      set_emergency_command_def set_automatic_parking_def emergency_stop_def clear_emergency_stop_def
      request_disarm_def transport_fault_def vcu_enter_def)+

lemma held_step: "held c \<Longrightarrow> no_rearm e \<Longrightarrow> held (snd (vcu_step e c))"
  using latch_flags_step [of e c] by (auto simp: held_def latch_set_def intro: latch_step)

lemma held_no_traction: "held c \<Longrightarrow> motor_torques (fst (vcu_tick c)) = replicate 8 32000"
proof -
  assume "held c"
  then have "held (advance_state c)" using held_step [of c Tick] by (simp add: no_rearm_def vcu_tick_def Let_def)
  then have "\<not> traction (advance_state c)" by (auto simp: held_def latch_inv_def traction_def)
  then show ?thesis by (simp add: vcu_tick_def Let_def frames_torque out_torque encode_torque_zero)
qed

lemma revoked_tick:
  assumes "held_revoked c"
  shows "shake_request (fst (vcu_tick c)) = 0 \<and> 1 \<notin> set (epb_requests (fst (vcu_tick c)))"
proof -
  define d where "d = advance_state c"
  have d: "handshake_revoked d" "vstate d \<notin> armed_states"
    using assms latch_advance [of c] by (auto simp: held_revoked_def latch_inv_def latch_set_def d_def)
  then have "epb_request d \<in> {kParkingBrakeHold, kParkingBrakePark}"
    by (auto simp: epb_request_def armed_states_def)
  then show ?thesis
    using d by (auto simp: vcu_tick_def Let_def frames_shake out_handshake frames_epb [OF out_epb]
        kParkingBrakeHold_def kParkingBrakePark_def signal_mask_def simp flip: d_def)
qed

interpretation vcu_latch: machine vcu_step held no_rearm
  "\<lambda>e frames. e = Tick \<longrightarrow> motor_torques frames = replicate 8 32000"
  by unfold_locales (auto simp: held_step held_no_traction)

interpretation vcu_revoked: machine vcu_step held_revoked no_rearm
  "\<lambda>e frames. e = Tick \<longrightarrow> shake_request frames = 0 \<and> 1 \<notin> set (epb_requests frames)"
  by unfold_locales (auto simp: held_revoked_def revoked_tick intro: latch_step latch_flags_step)

lemma status_ingest_held:
  assumes "vcu_reachable c" "extended f" "8 \<le> dlc f" "frame_id f = kWvcuVehicleStatus" "signal_int f 0 2 \<noteq> 0"
  shows "held (snd (ingest f c))"
proof -
  have i: "ingest f c = (True, ingest_vehicle_status f c)"
    using assms(2-4) by (simp add: ingest_def Let_def kWvcuVehicleStatus_def kWvcuHandshake_def leD)
  have "physical_emergency_latched (ingest_vehicle_status f c)"
    using assms(5) by (simp add: ingest_vehicle_status_def Let_def vcu_enter_def)
  then show ?thesis using latch_ingest [OF vcu_reachable_inv(1) [OF assms(1)], of f]
    by (simp add: held_def latch_set_def i)
qed

text \<open>
  C20. A physical emergency-switch pulse cannot be lost: once a vehicle-status frame with the
  switch pressed has been ingested in any reachable state, then through every later
  sequence of operations without a fresh arming request or a reset the controller is never
  in an arming state or Ready and every tick transmits zero torque.
\<close>

theorem vcu_emergency_pulse_latched:
  assumes "vcu_reachable c" "extended f" "8 \<le> dlc f" "frame_id f = kWvcuVehicleStatus"
    and "signal_int f 0 2 \<noteq> 0" "list_all no_rearm es"
  shows "vstate (snd (run vcu_step es (snd (ingest f c)))) \<notin> armed_states \<and>
     list_all2 (\<lambda>e frames. e = Tick \<longrightarrow> motor_torques frames = replicate 8 32000)
       es (fst (run vcu_step es (snd (ingest f c))))"
proof -
  have h: "held (snd (ingest f c))" using assms(1-5) by (rule status_ingest_held)
  from vcu_latch.run_inv [OF h assms(6)] vcu_latch.run_good [OF h assms(6)]
  show ?thesis by (simp add: held_def latch_inv_def)
qed

lemma handshake_ingest_held:
  assumes "vcu_reachable c" "extended f" "8 \<le> dlc f" "frame_id f = kWvcuHandshake"
    and "signal_int f 8 8 = kManualHandshakeStatus"
    and "vstate c \<in> {WaitParkingBrakeReleased, WaitGear, WaitActuatorModes, Ready}"
  shows "held_revoked (snd (ingest f c))"
proof -
  have i: "ingest f c = (True, ingest_handshake f c)" using assms(2-4) by (simp add: ingest_def Let_def leD)
  have "handshake_revoked (ingest_handshake f c)"
    using assms(5,6) by (auto simp: ingest_handshake_def Let_def transport_fault_def vcu_enter_def next_generation_def)
  then show ?thesis using latch_ingest [OF vcu_reachable_inv(1) [OF assms(1)], of f]
    by (simp add: held_revoked_def i)
qed

text \<open>
  C22. Revocation: when the vehicle returns to manual after it had accepted the parallel
  handshake, then through every later sequence of operations without a fresh arming
  request or a reset no tick requests the handshake or the release of a parking brake, and
  no tick transmits torque.
\<close>

theorem vcu_revocation:
  assumes "vcu_reachable c" "extended f" "8 \<le> dlc f" "frame_id f = kWvcuHandshake"
    and "signal_int f 8 8 = kManualHandshakeStatus"
    and "vstate c \<in> {WaitParkingBrakeReleased, WaitGear, WaitActuatorModes, Ready}"
    and "list_all no_rearm es"
  shows "list_all2 (\<lambda>e frames. e = Tick \<longrightarrow> shake_request frames = 0 \<and> 1 \<notin> set (epb_requests frames) \<and>
       motor_torques frames = replicate 8 32000) es (fst (run vcu_step es (snd (ingest f c))))"
proof -
  have h: "held_revoked (snd (ingest f c))" using assms(1-6) by (rule handshake_ingest_held)
  then have h': "held (snd (ingest f c))" by (simp add: held_revoked_def held_def latch_set_def)
  show ?thesis using vcu_revoked.run_good [OF h assms(7)] vcu_latch.run_good [OF h' assms(7)]
    by (simp add: list_all2_conv_all_nth)
qed

subsection \<open>The arming and disarming graph\<close>

text \<open>The documented transitions, each with the feedback it needs.\<close>

inductive vcu_edge :: "parallel_controller \<Rightarrow> vcu_state \<Rightarrow> vcu_state \<Rightarrow> bool" for c where
  "vcu_edge c Initial WaitParallelHandshake"
| "handshake_fresh kIntelligentHandshakeStatus c \<Longrightarrow> \<not> automatic_parking c \<Longrightarrow>
     vcu_edge c WaitParallelHandshake WaitParkingBrakeReleased"
| "handshake_fresh kIntelligentHandshakeStatus c \<Longrightarrow> automatic_parking c \<Longrightarrow>
     vcu_edge c WaitParallelHandshake WaitGear"
| "epb_fresh kParkingBrakeRelease c \<Longrightarrow> vcu_edge c WaitParkingBrakeReleased WaitGear"
| "gear_fresh (cmd_gear (desired c)) c \<Longrightarrow> vcu_edge c WaitGear WaitActuatorModes"
| "actuators_fresh c \<Longrightarrow> vcu_edge c WaitActuatorModes Ready"
| "torque_zero_fresh c \<Longrightarrow> vcu_edge c DisarmTorque DisarmStop"
| "stopped_fresh c \<Longrightarrow> vcu_edge c DisarmStop DisarmNeutral"
| "gear_fresh kNeutralGear c \<Longrightarrow> vcu_edge c DisarmNeutral DisarmParkingBrake"
| "epb_fresh kParkingBrakePark c \<Longrightarrow> vcu_edge c DisarmParkingBrake DisarmManual"
| "handshake_fresh kManualHandshakeStatus c \<Longrightarrow> gear_fresh kNeutralGear c \<Longrightarrow> stopped_fresh c \<Longrightarrow>
     epb_fresh kParkingBrakePark c \<Longrightarrow> vcu_edge c DisarmManual Disarmed"

inductive_simps vcu_edge_simps: "vcu_edge c a b"

text \<open>The transitions that remove authority.\<close>

definition vcu_abort :: "vcu_state \<Rightarrow> vcu_state \<Rightarrow> bool" where
  "vcu_abort a b \<longleftrightarrow> b = Fault \<or> (a = Initial \<and> b = Disarmed) \<or> (a = WaitParallelHandshake \<and> b = DisarmManual) \<or>
     (a \<in> {WaitParkingBrakeReleased, WaitGear, WaitActuatorModes, Ready, Fault} \<and> b = DisarmTorque) \<or>
     (a = Ready \<and> b = WaitGear)"

lemma advance_edge:
  "vstate (advance_state c) = vstate c \<or> vcu_edge c (vstate c) (vstate (advance_state c)) \<or>
   vcu_abort (vstate c) (vstate (advance_state c))"
  by (cases "vstate c") (simp_all add: advance_blocks vcu_operations vcu_edge_simps vcu_abort_def)

lemma ingest_abort:
  "vstate (snd (ingest f c)) = vstate c \<or> vcu_abort (vstate c) (vstate (snd (ingest f c)))"
  by (rule ingest_cases [of f c]; cases "vstate c")
     (simp_all add: ingest_handshake_def ingest_vehicle_status_def Let_def vcu_operations same_control_def vcu_abort_def)

lemma begin_disarm_abort:
  "vstate (snd (begin_arming_emergency_disarm c)) = vstate c \<or>
   vcu_abort (vstate c) (vstate (snd (begin_arming_emergency_disarm c)))"
  by (cases "vstate c") (simp_all add: vcu_operations vcu_abort_def)

lemma set_command_abort:
  "vstate (snd (set_command cmd c)) = vstate c \<or> vcu_abort (vstate c) (vstate (snd (set_command cmd c)))"
  by (cases "vstate c") (simp_all add: set_command_def Let_def vcu_operations vcu_abort_def)

lemma request_disarm_abort:
  "vstate (request_disarm c) = vstate c \<or> vcu_abort (vstate c) (vstate (request_disarm c))"
  by (cases "vstate c") (simp_all add: request_disarm_def Let_def vcu_enter_def vcu_abort_def)

lemma vcu_transitions_lemma:
  "e = Reset \<or> vstate (snd (vcu_step e c)) = vstate c \<or>
   (e = Tick \<and> vcu_edge c (vstate c) (vstate (snd (vcu_step e c)))) \<or>
   vcu_abort (vstate c) (vstate (snd (vcu_step e c))) \<or>
   (e = RequestParallelHandshake \<and> vstate c \<in> {Standby, Disarmed} \<and> parking_ready c \<and>
    vstate (snd (vcu_step e c)) = Initial)"
proof (cases e)
  case RequestParallelHandshake
  then show ?thesis by (auto simp: request_parallel_handshake_def vcu_enter_def)
next
  case EmergencyStop
  then show ?thesis using begin_disarm_abort [of "c\<lparr>emergency_stop_flag := True\<rparr>"]
    by (simp add: emergency_stop_def)
qed (use advance_edge [of c] set_command_abort [of _ c] request_disarm_abort [of c] ingest_abort [of _ c]
     in \<open>simp_all add: vcu_tick_def Let_def set_emergency_command_def set_automatic_parking_def
      clear_emergency_stop_def transport_fault_def vcu_enter_def vcu_abort_def\<close>)


text \<open>
  Entering Ready: only a tick in WaitActuatorModes does, with no emergency stop and the
  switch released, and only if since that state was entered every motor, steering axis and
  brake has reported, all in by-wire mode with valid torques.
\<close>

theorem vcu_ready_entry:
  assumes "vstate c \<noteq> Ready" "vstate (snd (vcu_step e c)) = Ready"
  shows "e = Tick \<and> vstate c = WaitActuatorModes \<and> actuators_fresh c \<and> \<not> emergency_stop_flag c \<and>
     fb_emergency_switch (feedback c) = 0"
proof -
  have "e \<noteq> Reset" using assms(2) by (auto simp: vcu_reset_def)
  then have e: "e = Tick" and edge: "vcu_edge c (vstate c) Ready"
    using assms vcu_transitions_lemma [of e c] by (auto simp: vcu_abort_def)
  then have w: "vstate c = WaitActuatorModes" and "actuators_fresh c" by (auto simp: vcu_edge_simps)
  moreover have "\<not> emergency_stop_flag c" "fb_emergency_switch (feedback c) = 0"
    using assms(2) e w by (auto simp: vcu_tick_def Let_def advance_blocks vcu_operations split: if_splits)
  ultimately show ?thesis using e by simp
qed

end
