(* ===== verification/Vcu_Arming.thy ===== *)
theory Vcu_Arming
  imports Vcu_Safety
begin

text \<open>
  Progress of the parallel controller: generation numbers really mean feedback received after
  the state was entered, a cooperating vehicle can be armed and disarmed, and the gear,
  parking brake and operator-idle interlocks.
\<close>

subsection \<open>Generations\<close>

text \<open>Array lengths, and no signal group newer than the last received frame.\<close>

definition arrays_wf :: "parallel_controller \<Rightarrow> bool" where
  "arrays_wf c \<longleftrightarrow>
     length (motor_mode_generation c) = 8 \<and> length (motor_torque_generation c) = 8 \<and>
     length (steering_generation c) = 4 \<and> length (brake_generation c) = 4 \<and>
     length (fb_parking_brake_status (feedback c)) = 4 \<and> length (fb_parking_brake_valid (feedback c)) = 4 \<and>
     length (fb_motor_mode (feedback c)) = 8 \<and> length (fb_motor_mode_valid (feedback c)) = 8 \<and>
     length (fb_motor_torque_nm (feedback c)) = 8 \<and> length (fb_motor_torque_valid (feedback c)) = 8 \<and>
     length (fb_steering_mode (feedback c)) = 4 \<and> length (fb_steering_valid (feedback c)) = 4 \<and>
     length (fb_brake_mode (feedback c)) = 8 \<and> length (fb_brake_valid (feedback c)) = 8"

definition generations_le :: "uint64 \<Rightarrow> parallel_controller \<Rightarrow> bool" where
  "generations_le g c \<longleftrightarrow>
     state_entry_generation c \<le> g \<and> handshake_generation c \<le> g \<and> gear_generation c \<le> g \<and>
     speed_generation c \<le> g \<and> parking_brake_generation c \<le> g \<and>
     list_all (\<lambda>v. v \<le> g) (motor_mode_generation c) \<and> list_all (\<lambda>v. v \<le> g) (motor_torque_generation c) \<and>
     list_all (\<lambda>v. v \<le> g) (steering_generation c) \<and> list_all (\<lambda>v. v \<le> g) (brake_generation c)"

definition generations_inv :: "parallel_controller \<Rightarrow> bool" where
  "generations_inv c \<longleftrightarrow> arrays_wf c \<and> generations_le (receive_generation c) c"

text \<open>Enough room in the frame counter for \<open>n\<close> more frames.\<close>

definition room :: "nat \<Rightarrow> parallel_controller \<Rightarrow> bool" where
  "room n c \<longleftrightarrow> unat (receive_generation c) + n < 2 ^ 64"

lemma room_next:
  "room (Suc n) c \<Longrightarrow> receive_generation c < receive_generation c + 1 \<and>
     unat (receive_generation c + 1) = unat (receive_generation c) + 1"
  using word_add_one_gt [of "receive_generation c"] by (simp add: room_def)

lemma list_all_update: "list_all P xs \<Longrightarrow> P x \<Longrightarrow> list_all P (xs[i := x])"
  by (auto simp: list_all_iff dest: set_update_subset_insert [THEN subsetD])

lemma generations_le_mono: "generations_le g c \<Longrightarrow> g \<le> h \<Longrightarrow> generations_le h c"
  by (auto simp: generations_le_def list_all_iff)

lemma arrays_ingest [simp]: "arrays_wf c \<Longrightarrow> arrays_wf (snd (ingest f c))"
proof -
  assume c: "arrays_wf c"
  have "arrays_wf (ingest_vehicle_speed f c)" "arrays_wf (ingest_driver_intention f c)"
    "arrays_wf (ingest_driver_intention2 f c)" "arrays_wf (ingest_parking_brake f c)"
    "arrays_wf (ingest_motor_status01 i f c)" "arrays_wf (ingest_motor_status02 i f c)"
    "arrays_wf (ingest_steering i f c)" "arrays_wf (ingest_brake i f c)"
    "arrays_wf (ingest_handshake f c)" "arrays_wf (ingest_vehicle_status f c)" for i
    using c by (simp_all add: arrays_wf_def ingest_blocks next_generation_def Let_def ingest_handshake_def
        ingest_vehicle_status_def transport_fault_def vcu_enter_def begin_arming_emergency_disarm_def
        split: vcu_state.splits)
  then show ?thesis using c unfolding ingest_def Let_def by simp
qed

lemma generations_ingest:
  assumes c: "generations_inv c" and r: "room 1 c"
  shows "generations_inv (snd (ingest f c))" "receive_generation (snd (ingest f c)) \<in> {receive_generation c, receive_generation c + 1}"
proof -
  define g where "g = receive_generation c + 1"
  have "receive_generation c \<le> g" using room_next [of 0 c] r by (auto simp: g_def intro: less_imp_le)
  then have le: "generations_le g c" using c generations_le_mono by (auto simp: generations_inv_def)
  have x: "generations_le g (ingest_vehicle_speed f c)" "generations_le g (ingest_driver_intention f c)"
    "generations_le g (ingest_driver_intention2 f c)" "generations_le g (ingest_parking_brake f c)"
    "generations_le g (ingest_motor_status01 i f c)" "generations_le g (ingest_motor_status02 i f c)"
    "generations_le g (ingest_steering i f c)" "generations_le g (ingest_brake i f c)"
    "generations_le g (ingest_handshake f c)" "generations_le g (ingest_vehicle_status f c)" for i
    using le by (simp_all add: generations_le_def ingest_blocks next_generation_def Let_def g_def
        ingest_handshake_def ingest_vehicle_status_def transport_fault_def vcu_enter_def
        begin_arming_emergency_disarm_def list_all_update split: vcu_state.splits)
  have y: "receive_generation (ingest_vehicle_speed f c) = g" "receive_generation (ingest_driver_intention f c) = g"
    "receive_generation (ingest_driver_intention2 f c) = g" "receive_generation (ingest_parking_brake f c) = g"
    "receive_generation (ingest_motor_status01 i f c) = g" "receive_generation (ingest_motor_status02 i f c) = g"
    "receive_generation (ingest_steering i f c) = g" "receive_generation (ingest_brake i f c) = g"
    "receive_generation (ingest_handshake f c) = g" "receive_generation (ingest_vehicle_status f c) = g" for i
    by (simp_all add: ingest_blocks next_generation_def Let_def g_def
        ingest_handshake_def ingest_vehicle_status_def transport_fault_def vcu_enter_def
        begin_arming_emergency_disarm_def split: vcu_state.splits)
  have "generations_le (receive_generation c) c" using c by (simp add: generations_inv_def)
  then have "generations_le (receive_generation (snd (ingest f c))) (snd (ingest f c)) \<and>
      receive_generation (snd (ingest f c)) \<in> {receive_generation c, g}"
    using x y unfolding ingest_def Let_def by simp
  moreover have "arrays_wf (snd (ingest f c))" using c by (simp add: generations_inv_def)
  ultimately show "generations_inv (snd (ingest f c))"
    "receive_generation (snd (ingest f c)) \<in> {receive_generation c, receive_generation c + 1}"
    by (simp_all add: generations_inv_def g_def)
qed

lemma generations_enter: "generations_inv c \<Longrightarrow> generations_inv (vcu_enter st c)"
  by (simp add: generations_inv_def arrays_wf_def generations_le_def vcu_enter_def)

lemma generations_fields:
  "generations_inv (c\<lparr>emergency_stop_flag := b\<rparr>) = generations_inv c"
  "generations_inv (c\<lparr>desired := cmd\<rparr>) = generations_inv c"
  "generations_inv (c\<lparr>emergency := cmd\<rparr>) = generations_inv c"
  "generations_inv (c\<lparr>initial_frame_count := n\<rparr>) = generations_inv c"
  "generations_inv (c\<lparr>physical_emergency_latched := b\<rparr>) = generations_inv c"
  "generations_inv (c\<lparr>handshake_revoked := b\<rparr>) = generations_inv c"
  "generations_inv (c\<lparr>revoked_handshake_status := n\<rparr>) = generations_inv c"
  "generations_inv (c\<lparr>parking_release_generation := g\<rparr>) = generations_inv c"
  "generations_inv (c\<lparr>automatic_parking := b\<rparr>) = generations_inv c"
  "generations_inv (c\<lparr>automatic_park_requested := b\<rparr>) = generations_inv c"
  "generations_inv (c\<lparr>parking_stopped_fresh := b\<rparr>) = generations_inv c"
  "generations_inv (c\<lparr>parking_brake_bar := x\<rparr>) = generations_inv c"
  by (simp_all add: generations_inv_def arrays_wf_def generations_le_def)

lemma generations_disarm: "generations_inv c \<Longrightarrow> generations_inv (snd (begin_arming_emergency_disarm c))"
  by (cases "vstate c") (simp_all add: begin_arming_emergency_disarm_def generations_enter)

lemma generations_advance: "generations_inv c \<Longrightarrow> generations_inv (advance_state c)"
  by (cases "vstate c") (simp_all add: advance_blocks transport_fault_def generations_disarm generations_enter
      generations_fields)

lemma generations_reset: "generations_inv vcu_reset"
  by (simp add: generations_inv_def generations_le_def arrays_wf_def vcu_reset_def default_feedback_def)

lemma receive_advance [simp]: "receive_generation (advance_state c) = receive_generation c"
  by (cases "vstate c") (simp_all add: advance_blocks vcu_operations)

lemma receive_disarm [simp]:
  "receive_generation (snd (begin_arming_emergency_disarm c)) = receive_generation c"
  by (cases "vstate c") (simp_all add: vcu_operations)

lemmas step_ops = set_command_def set_emergency_command_def set_automatic_parking_def emergency_stop_def
  clear_emergency_stop_def request_parallel_handshake_def request_disarm_def transport_fault_def

lemma receive_step: "(\<forall>f. e \<noteq> Ingest f) \<Longrightarrow> e \<noteq> Reset \<Longrightarrow>
    receive_generation (snd (vcu_step e c)) = receive_generation c"
  by (cases e) (simp_all add: vcu_tick_def Let_def step_ops vcu_enter_def)

lemma generations_step:
  assumes "generations_inv c" "room 1 c"
  shows "generations_inv (snd (vcu_step e c)) \<and>
    unat (receive_generation (snd (vcu_step e c))) \<le> unat (receive_generation c) + 1"
proof (cases e)
  case (Ingest f)
  then show ?thesis using generations_ingest [OF assms, of f] room_next [of 0 c] assms(2) by auto
next
  case Reset
  then show ?thesis by (simp add: generations_reset) (simp add: vcu_reset_def)
qed (use assms(1) receive_step [of e c] in \<open>simp_all add: vcu_tick_def Let_def generations_advance
      step_ops generations_fields generations_enter generations_disarm\<close>)

text \<open>Up to \<open>2 ^ 64\<close> operations the frame counter cannot wrap.\<close>

lemma generations_run:
  assumes "length es < 2 ^ 64"
  shows "generations_inv (snd (run vcu_step es vcu_reset)) \<and>
    unat (receive_generation (snd (run vcu_step es vcu_reset))) \<le> length es"
  using assms
proof (induction es rule: rev_induct)
  case Nil
  then show ?case by (simp add: generations_reset) (simp add: vcu_reset_def)
next
  case (snoc e es)
  define c where "c = snd (run vcu_step es vcu_reset)"
  have "generations_inv c" "unat (receive_generation c) \<le> length es" using snoc by (simp_all add: c_def)
  moreover from this have "room 1 c" using snoc.prems by (simp add: room_def)
  ultimately show ?case using generations_step [of c e] by (simp add: run_append c_def)
qed

lemma advance_entry:
  "vstate (advance_state c) \<noteq> vstate c \<Longrightarrow>
     state_entry_generation (advance_state c) = receive_generation (advance_state c)"
  by (cases "vstate c") (auto simp: advance_blocks vcu_operations split: if_splits)

lemma advance_standby: "vstate c = Standby \<Longrightarrow> vstate (advance_state c) = Standby"
  by (simp add: advance_blocks vcu_operations)

text \<open>The groups of feedback: the frame that carries each and the generation the controller keeps for it.\<close>

definition feedback_groups :: "(uint32 \<times> (parallel_controller \<Rightarrow> uint64)) list" where
  "feedback_groups =
     [(kWvcuHandshake, handshake_generation), (kWvcuVehicleStatus, gear_generation),
      (kWvcuVehicleSpeed, speed_generation), (kWvcuParkingBrake, parking_brake_generation)] @
     map (\<lambda>i. (kMotorStatus01Ids ! i, \<lambda>c. motor_torque_generation c ! i)) [0..<8] @
     map (\<lambda>i. (kMotorStatus02Ids ! i, \<lambda>c. motor_mode_generation c ! i)) [0..<8] @
     map (\<lambda>i. (kSteeringStatusIds ! i, \<lambda>c. steering_generation c ! i)) [0..<4] @
     map (\<lambda>i. (kBrakeStatusIds ! i, \<lambda>c. brake_generation c ! i)) [0..<4]"

definition brings :: "uint32 \<Rightarrow> vcu_event \<Rightarrow> bool" where
  "brings frame e \<longleftrightarrow> (\<exists>f. e = Ingest f \<and> frame_id f = frame \<and> extended f \<and> 8 \<le> dlc f)"

text \<open>The frames each transition of the arming and disarming sequence needs.\<close>

definition needed_frames :: "vcu_state \<Rightarrow> vcu_state \<Rightarrow> uint32 list" where
  "needed_frames a b = (case a of
       WaitParallelHandshake \<Rightarrow> if b = WaitParkingBrakeReleased \<or> b = WaitGear then [kWvcuHandshake] else []
     | WaitParkingBrakeReleased \<Rightarrow> if b = WaitGear then [kWvcuParkingBrake] else []
     | WaitGear \<Rightarrow> if b = WaitActuatorModes then [kWvcuVehicleStatus] else []
     | WaitActuatorModes \<Rightarrow> if b = Ready
         then kMotorStatus01Ids @ kMotorStatus02Ids @ kSteeringStatusIds @ kBrakeStatusIds else []
     | DisarmTorque \<Rightarrow> if b = DisarmStop then kMotorStatus01Ids else []
     | DisarmStop \<Rightarrow> if b = DisarmNeutral then [kWvcuVehicleSpeed] else []
     | DisarmNeutral \<Rightarrow> if b = DisarmParkingBrake then [kWvcuVehicleStatus] else []
     | DisarmParkingBrake \<Rightarrow> if b = DisarmManual then [kWvcuParkingBrake] else []
     | DisarmManual \<Rightarrow> if b = Disarmed
         then [kWvcuHandshake, kWvcuVehicleStatus, kWvcuVehicleSpeed, kWvcuParkingBrake] else []
     | _ \<Rightarrow> [])"

lemma ids_length [simp]: "length kMotorStatus01Ids = 8" "length kMotorStatus02Ids = 8"
  "length kSteeringStatusIds = 4" "length kBrakeStatusIds = 4"
  by (simp_all add: kMotorStatus01Ids_def kMotorStatus02Ids_def kSteeringStatusIds_def kBrakeStatusIds_def)

lemma groups_blocks:
  assumes "(frame, gen) \<in> set feedback_groups"
  shows "frame \<noteq> kWvcuHandshake \<Longrightarrow> gen (ingest_handshake f c) = gen c"
    "frame \<noteq> kWvcuVehicleStatus \<Longrightarrow> gen (ingest_vehicle_status f c) = gen c"
    "frame \<noteq> kWvcuVehicleSpeed \<Longrightarrow> gen (ingest_vehicle_speed f c) = gen c"
    "gen (ingest_driver_intention f c) = gen c" "gen (ingest_driver_intention2 f c) = gen c"
    "frame \<noteq> kWvcuParkingBrake \<Longrightarrow> gen (ingest_parking_brake f c) = gen c"
    "frame \<noteq> kMotorStatus01Ids ! i \<Longrightarrow> gen (ingest_motor_status01 i f c) = gen c"
    "frame \<noteq> kMotorStatus02Ids ! i \<Longrightarrow> gen (ingest_motor_status02 i f c) = gen c"
    "frame \<noteq> kSteeringStatusIds ! i \<Longrightarrow> gen (ingest_steering i f c) = gen c"
    "frame \<noteq> kBrakeStatusIds ! i \<Longrightarrow> gen (ingest_brake i f c) = gen c"
  using assms unfolding feedback_groups_def
  by (auto simp: ingest_blocks ingest_handshake_def ingest_vehicle_status_def next_generation_def Let_def
      transport_fault_def vcu_enter_def begin_arming_emergency_disarm_def split: vcu_state.splits) (metis nth_list_update_neq)+

lemma ingest_other_groups:
  assumes "(frame, gen) \<in> set feedback_groups" "\<not> brings frame (Ingest f)"
  shows "gen (snd (ingest f c)) = gen c"
proof (cases "extended f \<and> 8 \<le> dlc f")
  case False
  then have "\<not> extended f \<or> dlc f < 8" by auto
  then show ?thesis by (simp only: ingest_def Let_def if_True snd_conv)
next
  case True
  then have ne: "frame \<noteq> frame_id f" using assms(2) by (auto simp: brings_def)
  have unit: "frame \<noteq> ids ! find_id (frame_id f) ids" if "find_id (frame_id f) ids < length ids" for ids
    using find_id_nth[OF that] ne by simp
  show ?thesis using ne unit[of kMotorStatus01Ids] unit[of kMotorStatus02Ids] unit[of kSteeringStatusIds] unit[of kBrakeStatusIds]
    unfolding ingest_def Let_def by (simp add: groups_blocks[OF assms(1)])
qed

lemma groups_fields:
  assumes "(frame, gen) \<in> set feedback_groups"
  shows "gen (vcu_enter st c) = gen c" "gen (c\<lparr>emergency_stop_flag := b\<rparr>) = gen c" "gen (c\<lparr>desired := cmd\<rparr>) = gen c"
    "gen (c\<lparr>emergency := cmd\<rparr>) = gen c" "gen (c\<lparr>initial_frame_count := n\<rparr>) = gen c"
    "gen (c\<lparr>physical_emergency_latched := b\<rparr>) = gen c" "gen (c\<lparr>handshake_revoked := b\<rparr>) = gen c"
    "gen (c\<lparr>revoked_handshake_status := k\<rparr>) = gen c" "gen (c\<lparr>parking_release_generation := g\<rparr>) = gen c"
    "gen (c\<lparr>automatic_parking := b\<rparr>) = gen c" "gen (c\<lparr>automatic_park_requested := b\<rparr>) = gen c"
    "gen (c\<lparr>parking_stopped_fresh := b\<rparr>) = gen c" "gen (c\<lparr>parking_brake_bar := x\<rparr>) = gen c"
  using assms by (auto simp: feedback_groups_def vcu_enter_def)

lemma groups_disarm:
  "(frame, gen) \<in> set feedback_groups \<Longrightarrow> gen (snd (begin_arming_emergency_disarm c)) = gen c"
  by (cases "vstate c") (simp_all add: begin_arming_emergency_disarm_def groups_fields)

lemma groups_step:
  assumes "(frame, gen) \<in> set feedback_groups" "\<not> brings frame e" "e \<noteq> Reset"
  shows "gen (snd (vcu_step e c)) = gen c"
proof (cases e)
  case (Ingest f)
  then show ?thesis using ingest_other_groups[OF assms(1)] assms(2) by simp
next
  case Tick
  have "gen (advance_state c) = gen c"
    by (cases "vstate c") (simp_all add: advance_blocks transport_fault_def groups_fields[OF assms(1)] groups_disarm[OF assms(1)])
  then show ?thesis using Tick by (simp add: vcu_tick_def Let_def)
next
  case RequestDisarm
  then show ?thesis by (cases "vstate c") (simp_all add: request_disarm_def Let_def groups_fields[OF assms(1)])
qed (use assms(3) in \<open>simp_all add: step_ops Let_def groups_fields[OF assms(1)] groups_disarm[OF assms(1)]\<close>)

text \<open>The generation of the state's entry: the current one after a change, and it never falls.\<close>

lemma entry_step:
  "state_entry_generation (snd (vcu_step e c)) = receive_generation (snd (vcu_step e c)) \<or>
   (state_entry_generation (snd (vcu_step e c)) = state_entry_generation c \<and> vstate (snd (vcu_step e c)) = vstate c)"
proof (cases e)
  case (Ingest f)
  have "state_entry_generation (snd (ingest f c)) = receive_generation (snd (ingest f c)) \<or>
     (state_entry_generation (snd (ingest f c)) = state_entry_generation c \<and> vstate (snd (ingest f c)) = vstate c)"
    by (cases f c rule: ingest_cases)
      (auto simp: ingest_handshake_def ingest_vehicle_status_def next_generation_def Let_def same_control_def
        transport_fault_def vcu_enter_def begin_arming_emergency_disarm_def split: vcu_state.splits)
  then show ?thesis using Ingest by simp
next
  case Tick
  then show ?thesis
    by (cases "vstate c") (auto simp: vcu_tick_def Let_def advance_blocks vcu_operations)
next
  case RequestDisarm
  then show ?thesis by (cases "vstate c") (simp_all add: request_disarm_def Let_def vcu_enter_def)
next
  case EmergencyStop
  then show ?thesis by (cases "vstate c") (simp_all add: vcu_operations)
next
  case (SetCommand cmd)
  then show ?thesis by (cases "vstate c") (simp_all add: set_command_def Let_def vcu_operations)
qed (auto simp: vcu_operations vcu_reset_def)

text \<open>A run without a reset: generations stay in order, and only its own frames renew a group.\<close>

lemma groups_run:
  assumes "generations_inv c" "room (length es) c" "Reset \<notin> set es"
    "(frame, gen) \<in> set feedback_groups" "list_all (\<lambda>e. \<not> brings frame e) es"
  shows "generations_inv (snd (run vcu_step es c)) \<and> gen (snd (run vcu_step es c)) = gen c \<and>
    state_entry_generation c \<le> state_entry_generation (snd (run vcu_step es c))"
  using assms
proof (induction es arbitrary: c)
  case (Cons e es)
  define d where "d = snd (vcu_step e c)"
  have step: "generations_inv d" "unat (receive_generation d) \<le> unat (receive_generation c) + 1"
    using generations_step[of c e] Cons.prems(1,2) by (simp_all add: d_def room_def)
  then have "room (length es) d" using Cons.prems(2) by (simp add: room_def)
  then have IH: "generations_inv (snd (run vcu_step es d)) \<and> gen (snd (run vcu_step es d)) = gen d \<and>
      state_entry_generation d \<le> state_entry_generation (snd (run vcu_step es d))"
    using Cons step(1) by simp
  have "gen d = gen c" using groups_step[OF Cons.prems(4), of e c] Cons.prems(3,5) by (auto simp: d_def)
  moreover have "state_entry_generation c \<le> state_entry_generation d"
  proof -
    have "receive_generation c \<le> receive_generation d"
    proof (cases e)
      case (Ingest f)
      then show ?thesis using generations_ingest(2)[of c f] room_next[of 0 c] Cons.prems(1,2)
        by (auto simp: d_def room_def)
    qed (use receive_step[of e c] Cons.prems(3) in \<open>auto simp: d_def\<close>)
    moreover have "state_entry_generation c \<le> receive_generation c"
      using Cons.prems(1) by (simp add: generations_inv_def generations_le_def)
    ultimately show ?thesis using entry_step[of e c] by (auto simp: d_def)
  qed
  ultimately show ?case using IH by (auto simp: d_def)
qed simp

lemma newer_nth: "all_newer_than xs g \<Longrightarrow> i < length xs \<Longrightarrow> g < xs ! i"
  by (simp add: all_newer_than_def list_all_length)

lemma group_ids:
  "i < 8 \<Longrightarrow> (kMotorStatus01Ids ! i, \<lambda>c. motor_torque_generation c ! i) \<in> set feedback_groups"
  "i < 8 \<Longrightarrow> (kMotorStatus02Ids ! i, \<lambda>c. motor_mode_generation c ! i) \<in> set feedback_groups"
  "i < 4 \<Longrightarrow> (kSteeringStatusIds ! i, \<lambda>c. steering_generation c ! i) \<in> set feedback_groups"
  "i < 4 \<Longrightarrow> (kBrakeStatusIds ! i, \<lambda>c. brake_generation c ! i) \<in> set feedback_groups"
  "(kWvcuHandshake, handshake_generation) \<in> set feedback_groups" "(kWvcuVehicleStatus, gear_generation) \<in> set feedback_groups"
  "(kWvcuVehicleSpeed, speed_generation) \<in> set feedback_groups" "(kWvcuParkingBrake, parking_brake_generation) \<in> set feedback_groups"
  by (auto simp: feedback_groups_def)

lemma abort_needs_nothing: "vcu_abort a b \<Longrightarrow> needed_frames a b = []"
  by (auto simp: vcu_abort_def needed_frames_def split: vcu_state.split)

lemma same_needs_nothing: "needed_frames a a = []"
  by (cases a) (simp_all add: needed_frames_def)

lemma edge_needs:
  assumes "vcu_edge c a b" "frame \<in> set (needed_frames a b)" "arrays_wf c"
  obtains (group) gen where "(frame, gen) \<in> set feedback_groups" "state_entry_generation c < gen c"
proof -
  have units: thesis if "frame \<in> set ids" "all_newer_than (gens c) (state_entry_generation c)" "length (gens c) = length ids"
    "\<And>i. i < length ids \<Longrightarrow> (ids ! i, \<lambda>c. gens c ! i) \<in> set feedback_groups" for ids and gens :: "parallel_controller \<Rightarrow> uint64 list"
  proof -
    from that(1)[unfolded in_set_conv_nth] obtain i where i: "i < length ids" "ids ! i = frame" by blast
    show thesis
      using that(4)[OF i(1)] newer_nth[OF that(2), of i] i that(3) by (intro group[of "\<lambda>c. gens c ! i"]) simp_all
  qed
  let ?e = "state_entry_generation c"
  have "(frame = kWvcuHandshake \<and> ?e < handshake_generation c) \<or> (frame = kWvcuVehicleStatus \<and> ?e < gear_generation c) \<or>
      (frame = kWvcuVehicleSpeed \<and> ?e < speed_generation c) \<or> (frame = kWvcuParkingBrake \<and> ?e < parking_brake_generation c) \<or>
      (frame \<in> set kMotorStatus01Ids \<and> all_newer_than (motor_torque_generation c) ?e) \<or>
      (frame \<in> set kMotorStatus02Ids \<and> all_newer_than (motor_mode_generation c) ?e) \<or>
      (frame \<in> set kSteeringStatusIds \<and> all_newer_than (steering_generation c) ?e) \<or>
      (frame \<in> set kBrakeStatusIds \<and> all_newer_than (brake_generation c) ?e)"
    using assms(1,2) by (cases rule: vcu_edge.cases)
      (auto simp: needed_frames_def actuators_fresh_def torque_zero_fresh_def handshake_fresh_def epb_fresh_def gear_fresh_def
        stopped_fresh_def)
  then show thesis
    using group group_ids units[of kMotorStatus01Ids motor_torque_generation] units[of kMotorStatus02Ids motor_mode_generation]
      units[of kSteeringStatusIds steering_generation] units[of kBrakeStatusIds brake_generation] assms(3)
    unfolding arrays_wf_def by (elim disjE conjE) simp_all
qed

text \<open>
  C26. Feedback is never reused: let, in any run from construction, an operation enter a state,
  and let any operations but a reset follow, less than \<open>2 ^ 64\<close> in all. If a tick then moves the
  controller along the arming or disarming sequence, every frame that the transition needs - the
  handshake, the gear, the speed, the parking brakes, each of the motors, steering axes and
  brakes - was received again after the entry: no older frame and no unrelated one replaces it.
\<close>

theorem vcu_no_stale_progress:
  assumes "c = snd (run vcu_step es vcu_reset)" "entry = snd (vcu_step e c)" "vstate entry \<noteq> vstate c"
    and "later = snd (run vcu_step es' entry)" "Reset \<notin> set es'" "length es + length es' + 1 < 2 ^ 64"
    and "frame \<in> set (needed_frames (vstate later) (vstate (snd (vcu_tick later))))"
  shows "\<exists>f. Ingest f \<in> set es' \<and> frame_id f = frame \<and> extended f \<and> 8 \<le> dlc f"
proof (rule ccontr)
  assume none: "\<not> ?thesis"
  have "entry = snd (run vcu_step (es @ [e]) vcu_reset)" using assms(1,2) by (simp add: run_append)
  then have inv: "generations_inv entry" "room (length es') entry"
    using generations_run[of "es @ [e]"] assms(6) by (auto simp: room_def)
  have newest: "state_entry_generation entry = receive_generation entry" using entry_step[of e c] assms(2,3) by auto
  have unbrought: "list_all (\<lambda>e. \<not> brings frame e) es'" using none by (auto simp: list_all_iff brings_def)
  have tick: "vstate (snd (vcu_tick later)) = vstate (advance_state later)" by (simp add: vcu_tick_def Let_def)
  have edge: "vcu_edge later (vstate later) (vstate (advance_state later))"
    using advance_edge[of later] assms(7) abort_needs_nothing same_needs_nothing unfolding tick by auto
  have "later = snd (run vcu_step (es @ e # es') vcu_reset)" using assms(1,2,4) by (simp add: run_append)
  then have "arrays_wf later" using generations_run[of "es @ e # es'"] assms(6) by (simp add: generations_inv_def)
  then obtain gen where gen: "(frame, gen) \<in> set feedback_groups" "state_entry_generation later < gen later"
    using edge_needs[OF edge] assms(7) unfolding tick by blast
  from groups_run[OF inv assms(5) gen(1) unbrought] have "gen later = gen entry" "state_entry_generation entry \<le> state_entry_generation later"
    using assms(4) by simp_all
  moreover have "gen entry \<le> receive_generation entry"
    using inv(1) gen(1) by (auto simp: generations_inv_def generations_le_def feedback_groups_def list_all_length arrays_wf_def)
  ultimately show False using gen(2) newest by auto
qed

subsection \<open>A cooperating vehicle\<close>

text \<open>Feedback frames of a vehicle that follows the sequence.\<close>

definition handshake_msg :: "int \<Rightarrow> can_frame" where
  "handshake_msg status = insert_signal 8 8 (word_of_int status) (new_frame kWvcuHandshake)"

definition status_msg :: "int \<Rightarrow> can_frame" where
  "status_msg g = insert_signal 2 2 (word_of_int g) (new_frame kWvcuVehicleStatus)"

definition epb_msg :: "int \<Rightarrow> can_frame" where
  "epb_msg status = insert_signal 0 2 (word_of_int status) (insert_signal 16 2 (word_of_int status)
     (insert_signal 32 2 (word_of_int status) (insert_signal 48 2 (word_of_int status)
       (new_frame kWvcuParkingBrake))))"

definition standstill_msg :: can_frame where
  "standstill_msg = insert_signal 0 16 5000 (new_frame kWvcuVehicleSpeed)"

definition driver_msg :: can_frame where
  "driver_msg = insert_signal 57 3 1 (new_frame kWvcuDriverIntention)"

datatype unit_report = MotorTorque nat | MotorMode nat | Steering nat | Brake nat

fun report_msg :: "unit_report \<Rightarrow> can_frame" where
  "report_msg (MotorTorque i) = insert_signal 16 16 32000 (new_frame (kMotorStatus01Ids ! i))"
| "report_msg (MotorMode i) = insert_signal 4 4 1 (new_frame (kMotorStatus02Ids ! i))"
| "report_msg (Steering i) = insert_signal 0 8 1 (new_frame (kSteeringStatusIds ! i))"
| "report_msg (Brake i) = insert_signal 0 4 1 (insert_signal 32 4 1 (new_frame (kBrakeStatusIds ! i)))"

definition motor_reports :: "unit_report list" where
  "motor_reports = map MotorTorque [0..<8]"

definition all_reports :: "unit_report list" where
  "all_reports = motor_reports @ map MotorMode [0..<8] @ map Steering [0..<4] @ map Brake [0..<4]"

fun report_ok :: "unit_report \<Rightarrow> bool" where
  "report_ok (MotorTorque i) = (i < 8)"
| "report_ok (MotorMode i) = (i < 8)"
| "report_ok (Steering i) = (i < 4)"
| "report_ok (Brake i) = (i < 4)"

fun reported :: "unit_report \<Rightarrow> parallel_controller \<Rightarrow> bool" where
  "reported (MotorTorque i) c = (state_entry_generation c < motor_torque_generation c ! i \<and>
     fb_motor_torque_valid (feedback c) ! i \<and> fb_motor_torque_nm (feedback c) ! i = Fin 0)"
| "reported (MotorMode i) c = (state_entry_generation c < motor_mode_generation c ! i \<and>
     fb_motor_mode_valid (feedback c) ! i \<and> fb_motor_mode (feedback c) ! i = 1)"
| "reported (Steering i) c = (state_entry_generation c < steering_generation c ! i \<and>
     fb_steering_valid (feedback c) ! i \<and> fb_steering_mode (feedback c) ! i = 1)"
| "reported (Brake i) c = (state_entry_generation c < brake_generation c ! i \<and>
     fb_brake_valid (feedback c) ! (2 * i) \<and> fb_brake_mode (feedback c) ! (2 * i) = 1 \<and>
     fb_brake_valid (feedback c) ! (2 * i + 1) \<and> fb_brake_mode (feedback c) ! (2 * i + 1) = 1)"

lemma less_8_cases: "(j::nat) < 8 \<Longrightarrow> j = 0 \<or> j = 1 \<or> j = 2 \<or> j = 3 \<or> j = 4 \<or> j = 5 \<or> j = 6 \<or> j = 7"
  by arith

lemmas vcu_ids = kWvcuHandshake_def kWvcuVehicleStatus_def kWvcuVehicleSpeed_def kWvcuDriverIntention_def
  kWvcuDriverIntention2_def kWvcuParkingBrake_def kMotorStatus01Ids_def kMotorStatus02Ids_def
  kSteeringStatusIds_def kBrakeStatusIds_def

lemma new_frame_simps [simp]: "frame_id (new_frame i) = i" "dlc (new_frame i) = 8" "extended (new_frame i)"
  by (simp_all add: new_frame_def)

lemma msg_routes:
  "ingest (handshake_msg s) c = (True, ingest_handshake (handshake_msg s) c)"
  "ingest (status_msg g) c = (True, ingest_vehicle_status (status_msg g) c)"
  "ingest (epb_msg s) c = (True, ingest_parking_brake (epb_msg s) c)"
  "ingest standstill_msg c = (True, ingest_vehicle_speed standstill_msg c)"
  "ingest driver_msg c = (True, ingest_driver_intention driver_msg c)"
  by (simp_all add: ingest_def handshake_msg_def status_msg_def epb_msg_def standstill_msg_def driver_msg_def
      vcu_ids Let_def)

lemma report_routes:
  "i < 8 \<Longrightarrow> ingest (report_msg (MotorTorque i)) c = (True, ingest_motor_status01 i (report_msg (MotorTorque i)) c)"
  "i < 8 \<Longrightarrow> ingest (report_msg (MotorMode i)) c = (True, ingest_motor_status02 i (report_msg (MotorMode i)) c)"
  "i < 4 \<Longrightarrow> ingest (report_msg (Steering i)) c = (True, ingest_steering i (report_msg (Steering i)) c)"
  "i < 4 \<Longrightarrow> ingest (report_msg (Brake i)) c = (True, ingest_brake i (report_msg (Brake i)) c)"
  by (drule less_8_cases less_4_cases, elim disjE;
      simp add: ingest_def vcu_ids Let_def; simp add: numeral_eq_Suc)+

lemma decode_zero_torque:
  "decode_physical 32000 kMotorTorqueResolutionNm kMotorTorqueMinimumNm = Fin 0"
proof -
  have "rnd64 (32000 * (3602879701896397 / 36028797018963968)) = 3200" by code_simp
  then have "round64 (900719925474099250 / 281474976710656) = Fin 3200" by (intro round64_eval) simp_all
  then show ?thesis
    by (simp add: decode_physical_def kMotorTorqueResolutionNm_def kMotorTorqueMinimumNm_def double_of_int_def)
qed

lemma report_signals:
  "extract_signal (report_msg (MotorTorque i)) 16 16 = 32000"
  "signal_int (report_msg (MotorMode i)) 4 4 = 1"
  "signal_int (report_msg (Steering i)) 0 8 = 1"
  "signal_int (report_msg (Brake i)) 0 4 = 1" "signal_int (report_msg (Brake i)) 32 4 = 1"
  by (simp_all add: signal_int_def read_signal signal_mask_def)

lemma msg_signals:
  "signal_int (handshake_msg 5) 8 8 = 5" "signal_int (handshake_msg 3) 8 8 = 3"
  "signal_int (status_msg 1) 2 2 = 1" "signal_int (status_msg 1) 0 2 = 0"
  "extract_signal standstill_msg 0 16 = 5000" "signal_int driver_msg 57 3 = 1"
  by (simp_all add: signal_int_def handshake_msg_def status_msg_def standstill_msg_def driver_msg_def
      read_signal signal_mask_def)

lemma epb_msg_signals:
  "j \<in> {0, 1, 2, 3} \<Longrightarrow> s \<in> {1, 2} \<Longrightarrow> signal_int (epb_msg s) (j * 16) 2 = s"
  by (auto simp: signal_int_def epb_msg_def read_signal signal_mask_def)

text \<open>A report changes nothing but its own entries, and these for the better.\<close>

lemma report_ingest:
  assumes "generations_inv c" "room 1 c" "report_ok a"
  defines "d \<equiv> snd (ingest (report_msg a) c)"
  shows "same_control c d" "reported a d" "report_ok b \<Longrightarrow> reported b c \<Longrightarrow> reported b d"
    "receive_generation d = receive_generation c + 1"
    "automatic_parking d = automatic_parking c"
    "fb_emergency_switch (feedback d) = fb_emergency_switch (feedback c)"
    "fb_speed_valid (feedback d) = fb_speed_valid (feedback c)" 
proof -
  have gt: "state_entry_generation c < receive_generation c + 1"
    using assms(1) room_next [of 0 c] assms(2)
    by (auto simp: generations_inv_def generations_le_def intro: le_less_trans)
  have len: "length (motor_mode_generation c) = 8" "length (motor_torque_generation c) = 8"
    "length (steering_generation c) = 4" "length (brake_generation c) = 4"
    "length (fb_motor_mode (feedback c)) = 8" "length (fb_motor_mode_valid (feedback c)) = 8"
    "length (fb_motor_torque_nm (feedback c)) = 8" "length (fb_motor_torque_valid (feedback c)) = 8"
    "length (fb_steering_mode (feedback c)) = 4" "length (fb_steering_valid (feedback c)) = 4"
    "length (fb_brake_mode (feedback c)) = 8" "length (fb_brake_valid (feedback c)) = 8"
    using assms(1) by (simp_all add: generations_inv_def arrays_wf_def)
  show "same_control c d" "receive_generation d = receive_generation c + 1"
    "automatic_parking d = automatic_parking c" "fb_emergency_switch (feedback d) = fb_emergency_switch (feedback c)"
    "fb_speed_valid (feedback d) = fb_speed_valid (feedback c)"
    using assms(3)
    by (cases a; simp add: d_def report_routes ingest_blocks next_generation_def Let_def same_control_def
        del: report_msg.simps)+
  show "reported a d"
    using assms(3) gt len
    by (cases a) (simp_all add: d_def report_routes ingest_blocks next_generation_def Let_def
        report_signals decode_zero_torque kMotorTorqueBits_def nth_list_update del: report_msg.simps)
  show "report_ok b \<Longrightarrow> reported b c \<Longrightarrow> reported b d"
    using assms(3) gt len
    by (cases a; cases b) (auto simp: d_def report_routes ingest_blocks next_generation_def Let_def
        report_signals decode_zero_torque kMotorTorqueBits_def nth_list_update simp del: report_msg.simps)
qed

definition ingests :: "can_frame list \<Rightarrow> vcu_event list" where
  "ingests frames = map Ingest frames"

lemma same_control_refl [simp]: "same_control c c"
  by (simp add: same_control_def)

lemma same_control_trans: "same_control c d \<Longrightarrow> same_control d e \<Longrightarrow> same_control c e"
  by (simp add: same_control_def)

text \<open>Ingesting the reports of a list of units.\<close>

lemma reports_run:
  assumes "generations_inv c" "room (length as) c" "list_all report_ok as"
  defines "d \<equiv> snd (run vcu_step (map Ingest (map report_msg as)) c)"
  shows "generations_inv d \<and> same_control c d \<and> list_all (\<lambda>a. reported a d) as \<and>
    (\<forall>b. report_ok b \<longrightarrow> reported b c \<longrightarrow> reported b d) \<and>
    unat (receive_generation d) = unat (receive_generation c) + length as \<and>
    automatic_parking d = automatic_parking c \<and>
    fb_emergency_switch (feedback d) = fb_emergency_switch (feedback c)"
  using assms(1-3) unfolding d_def
proof (induction as arbitrary: c)
  case Nil
  then show ?case by simp
next
  case (Cons a as)
  define c1 where "c1 = snd (ingest (report_msg a) c)"
  have r1: "room 1 c" using Cons.prems by (simp add: room_def)
  have a: "report_ok a" using Cons.prems by simp
  note one = report_ingest [OF Cons.prems(1) r1 a, folded c1_def]
  have g1: "generations_inv c1" unfolding c1_def using generations_ingest(1) [OF Cons.prems(1) r1] .
  have u: "unat (receive_generation c1) = unat (receive_generation c) + 1"
    using one(4) room_next [of 0 c] r1 by simp
  have r2: "room (length as) c1" using u Cons.prems(2) by (simp add: room_def)
  have as: "list_all report_ok as" using Cons.prems(3) by simp
  define d1 where "d1 = snd (run vcu_step (map Ingest (map report_msg as)) c1)"
  from Cons.IH [OF g1 r2 as, folded d1_def]
  have "generations_inv d1 \<and> same_control c1 d1 \<and> list_all (\<lambda>a. reported a d1) as \<and>
    (\<forall>b. report_ok b \<longrightarrow> reported b c1 \<longrightarrow> reported b d1) \<and>
    unat (receive_generation d1) = unat (receive_generation c1) + length as \<and>
    automatic_parking d1 = automatic_parking c1 \<and>
    fb_emergency_switch (feedback d1) = fb_emergency_switch (feedback c1)" .
  moreover have "snd (run vcu_step (map Ingest (map report_msg (a # as))) c) = d1"
    by (simp add: d1_def c1_def)
  ultimately show ?case
    using one u a same_control_trans [of c c1 d1] by simp
qed

lemma list_all_upt: "list_all P (map f [0..<n]) \<longleftrightarrow> (\<forall>i < n. P (f i))"
  by (auto simp: list_all_iff)

lemma all_newer_conv: "length xs = n \<Longrightarrow> all_newer_than xs g \<longleftrightarrow> (\<forall>i < n. g < xs ! i)"
  by (auto simp: all_newer_than_def list_all_length)

lemma all_valid_conv: "length xs = n \<Longrightarrow> all_valid xs \<longleftrightarrow> (\<forall>i < n. xs ! i)"
  by (auto simp: all_valid_def list_all_length)

lemma all_equal_conv: "length xs = n \<Longrightarrow> all_equal_valid xs vs e \<longleftrightarrow> (\<forall>i < n. vs ! i \<and> xs ! i = e)"
  by (auto simp: all_equal_valid_def list_all_iff)

lemma all_torque_zero_conv: "length xs = n \<Longrightarrow> all_torque_zero xs \<longleftrightarrow>
    (\<forall>i < n. dle (dabs (xs ! i)) kTorqueZeroToleranceNm)"
  by (auto simp: all_torque_zero_def list_all_length)

lemma all_pairs: "(\<forall>i < (8::nat). P i) \<longleftrightarrow> (\<forall>i < 4. P (2 * i) \<and> P (2 * i + 1))"
proof (intro iffI allI impI)
  fix i :: nat
  assume "\<forall>i < 4. P (2 * i) \<and> P (2 * i + 1)" "i < 8"
  then have "P (2 * (i div 2)) \<and> P (2 * (i div 2) + 1)" by simp
  moreover have "i = 2 * (i div 2) \<or> i = 2 * (i div 2) + 1" by presburger
  ultimately show "P i" by metis
qed auto

lemma actuators_fresh_reports:
  assumes "arrays_wf c" "list_all (\<lambda>a. reported a c) all_reports"
  shows "actuators_fresh c"
  using assms
  by (simp add: actuators_fresh_def arrays_wf_def all_reports_def motor_reports_def list_all_upt
      all_newer_conv all_valid_conv all_equal_conv kMotorTorqueMode_def kByWireMode_def all_pairs)

lemma torque_zero_reports:
  assumes "arrays_wf c" "list_all (\<lambda>a. reported a c) motor_reports"
  shows "torque_zero_fresh c"
  using assms
  by (simp add: torque_zero_fresh_def arrays_wf_def motor_reports_def list_all_upt
      all_newer_conv all_valid_conv all_torque_zero_conv kTorqueZeroToleranceNm_def)

lemma reports_ok: "list_all report_ok all_reports" "list_all report_ok motor_reports"
  by (simp_all add: all_reports_def motor_reports_def list_all_upt)

text \<open>Just entered a state, with nothing wrong.\<close>

definition entered :: "vcu_state \<Rightarrow> parallel_controller \<Rightarrow> bool" where
  "entered st c \<longleftrightarrow> generations_inv c \<and> vstate c = st \<and> state_entry_generation c = receive_generation c"

definition calm :: "parallel_controller \<Rightarrow> bool" where
  "calm c \<longleftrightarrow> \<not> emergency_stop_flag c \<and> fb_emergency_switch (feedback c) = 0 \<and> \<not> automatic_parking c \<and>
     cmd_gear (desired c) = 1 \<and> \<not> handshake_revoked c"

definition received :: "nat \<Rightarrow> parallel_controller \<Rightarrow> parallel_controller \<Rightarrow> bool" where
  "received n c d \<longleftrightarrow> unat (receive_generation d) = unat (receive_generation c) + n"

lemma received_room: "received n c d \<Longrightarrow> room (n + m) c \<Longrightarrow> room m d"
  by (simp add: received_def room_def)

lemma received_trans: "received m c d \<Longrightarrow> received n d e \<Longrightarrow> received (m + n) c e"
  by (simp add: received_def)

lemma advance_enters:
  "generations_inv c \<Longrightarrow> vstate (advance_state c) \<noteq> vstate c \<Longrightarrow> vstate (advance_state c) = st \<Longrightarrow>
     entered st (advance_state c)"
  using generations_advance advance_entry by (auto simp: entered_def)

text \<open>One received frame, then a tick.\<close>

lemma ingest_tick:
  assumes "generations_inv c" "room 1 c"
    and "receive_generation (snd (ingest f c)) = receive_generation c + 1"
    and "vstate (snd (ingest f c)) = vstate c" "vstate (advance_state (snd (ingest f c))) = st" "st \<noteq> vstate c"
  shows "entered st (snd (run vcu_step [Ingest f, Tick] c)) \<and> received 1 c (snd (run vcu_step [Ingest f, Tick] c))"
  using assms generations_ingest(1) [OF assms(1,2), of f] room_next [of 0 c]
  by (auto simp: vcu_tick_def Let_def received_def intro: advance_enters)

lemma stage_handshake:
  assumes "entered WaitParallelHandshake c" "calm c" "room 1 c"
  defines "d \<equiv> snd (run vcu_step [Ingest (handshake_msg 5), Tick] c)"
  shows "entered WaitParkingBrakeReleased d \<and> received 1 c d \<and> calm d"
proof -
  define i where "i = snd (ingest (handshake_msg 5) c)"
  have i: "vstate i = WaitParallelHandshake" "receive_generation i = receive_generation c + 1"
    "handshake_generation i = receive_generation c + 1" "state_entry_generation i = receive_generation c"
    "fb_handshake_valid (feedback i)" "fb_handshake_status (feedback i) = 5" "calm i"
    using assms(1,2)
    by (simp_all add: i_def msg_routes ingest_handshake_def Let_def next_generation_def msg_signals
        kManualHandshakeStatus_def entered_def calm_def)
  have "handshake_fresh kIntelligentHandshakeStatus i"
    using i room_next [of 0 c] assms(3) by (simp add: handshake_fresh_def kIntelligentHandshakeStatus_def)
  then have a: "advance_state i = vcu_enter WaitParkingBrakeReleased i"
    using i by (simp add: advance_blocks calm_def)
  then have "calm (advance_state i)" using i(7) by (simp add: calm_def vcu_enter_def)
  moreover have "entered WaitParkingBrakeReleased d \<and> received 1 c d"
    unfolding d_def using assms(1,3) i a
    by (intro ingest_tick) (simp_all add: i_def entered_def vcu_enter_def)
  ultimately show ?thesis by (simp add: d_def i_def vcu_tick_def Let_def)
qed

lemma epb_ingest:
  assumes "arrays_wf c" "s \<in> {1, 2}"
  defines "i \<equiv> snd (ingest (epb_msg s) c)"
  shows "vstate i = vstate c" "receive_generation i = receive_generation c + 1"
    "parking_brake_generation i = receive_generation c + 1" "state_entry_generation i = state_entry_generation c"
    "epb_reports s (feedback i)" "calm i = calm c" "fb_speed_valid (feedback i) = fb_speed_valid (feedback c)"
    "fb_gear_valid (feedback i) = fb_gear_valid (feedback c)" "fb_gear (feedback i) = fb_gear (feedback c)"
    "handshake_fresh h i = handshake_fresh h c" "gear_fresh g i = gear_fresh g c" "stopped_fresh i = stopped_fresh c"
proof -
  have len: "length (fb_parking_brake_status (feedback c)) = 4" "length (fb_parking_brake_valid (feedback c)) = 4"
    using assms(1) by (simp_all add: arrays_wf_def)
  have sig: "signal_int (epb_msg s) 0 2 = s" "signal_int (epb_msg s) 16 2 = s"
    "signal_int (epb_msg s) 32 2 = s" "signal_int (epb_msg s) 48 2 = s"
    using epb_msg_signals [OF _ assms(2), of 0] epb_msg_signals [OF _ assms(2), of 1]
      epb_msg_signals [OF _ assms(2), of 2] epb_msg_signals [OF _ assms(2), of 3] by simp_all
  have l: "length (fb_parking_brake_status (feedback i)) = 4"
    using len by (simp add: i_def msg_routes ingest_parking_brake_def Let_def next_generation_def)
  have "fb_parking_brake_valid (feedback i) ! j \<and> fb_parking_brake_status (feedback i) ! j = s" if "j < 4" for j
    using less_4_cases [OF that] len sig
    by (elim disjE; simp add: i_def msg_routes ingest_parking_brake_def Let_def next_generation_def)
  then show "epb_reports s (feedback i)" by (simp add: epb_reports_def all_equal_conv [OF l])
qed (simp_all add: i_def msg_routes ingest_parking_brake_def Let_def next_generation_def calm_def
      handshake_fresh_def gear_fresh_def stopped_fresh_def stopped_def)

lemma stage_epb_release:
  assumes "entered WaitParkingBrakeReleased c" "calm c" "room 1 c"
  defines "d \<equiv> snd (run vcu_step [Ingest (epb_msg 1), Tick] c)"
  shows "entered WaitGear d \<and> received 1 c d \<and> calm d"
proof -
  define i where "i = snd (ingest (epb_msg 1) c)"
  have wf: "arrays_wf c" using assms(1) by (simp add: entered_def generations_inv_def)
  note i = epb_ingest [OF wf, of 1, folded i_def, simplified]
  have "epb_fresh kParkingBrakeRelease i"
    using i(2-5) assms(1,3) room_next [of 0 c] by (simp add: epb_fresh_def kParkingBrakeRelease_def entered_def)
  then have a: "advance_state i = vcu_enter WaitGear i"
    using i(1,6) assms(1,2) by (simp add: advance_blocks calm_def entered_def)
  then have "calm (advance_state i)" using i(6) assms(2) by (simp add: calm_def vcu_enter_def)
  moreover have "entered WaitGear d \<and> received 1 c d"
    unfolding d_def using assms(1,3) i(1-2) a
    by (intro ingest_tick) (simp_all add: i_def entered_def vcu_enter_def)
  ultimately show ?thesis by (simp add: d_def i_def vcu_tick_def Let_def)
qed

lemma status_ingest:
  fixes c :: parallel_controller
  defines "i \<equiv> snd (ingest (status_msg 1) c)"
  shows "vstate i = vstate c" "receive_generation i = receive_generation c + 1"
    "gear_generation i = receive_generation c + 1" "state_entry_generation i = state_entry_generation c"
    "fb_gear_valid (feedback i)" "fb_gear (feedback i) = 1" "calm c \<Longrightarrow> calm i"
    "handshake_fresh h i = handshake_fresh h c"
  by (simp_all add: i_def msg_routes ingest_vehicle_status_def Let_def next_generation_def calm_def
      msg_signals handshake_fresh_def)

lemma stage_gear:
  assumes "entered WaitGear c" "calm c" "room 1 c"
  defines "d \<equiv> snd (run vcu_step [Ingest (status_msg 1), Tick] c)"
  shows "entered WaitActuatorModes d \<and> received 1 c d \<and> calm d"
proof -
  define i where "i = snd (ingest (status_msg 1) c)"
  note i = status_ingest [where c = c, folded i_def]
  have c: "calm i" using i(7) assms(2) by simp
  have "gear_fresh (cmd_gear (desired i)) i"
    using i(3-6) c assms(1,3) room_next [of 0 c] by (simp add: gear_fresh_def calm_def entered_def)
  then have a: "advance_state i = vcu_enter WaitActuatorModes i"
    using i(1) c assms(1) by (simp add: advance_blocks calm_def entered_def)
  then have "calm (advance_state i)" using c by (simp add: calm_def vcu_enter_def)
  moreover have "entered WaitActuatorModes d \<and> received 1 c d"
    unfolding d_def using assms(1,3) i(1-2) a
    by (intro ingest_tick) (simp_all add: i_def entered_def vcu_enter_def)
  ultimately show ?thesis by (simp add: d_def i_def vcu_tick_def Let_def)
qed

lemma stage_actuators:
  assumes "entered WaitActuatorModes c" "calm c" "room 24 c"
  shows "traction (snd (run vcu_step (map Ingest (map report_msg all_reports) @ [Tick]) c))"
proof -
  define d where "d = snd (run vcu_step (map Ingest (map report_msg all_reports)) c)"
  have "length all_reports = 24" by (simp add: all_reports_def motor_reports_def)
  then have d: "generations_inv d" "same_control c d" "list_all (\<lambda>a. reported a d) all_reports"
    "automatic_parking d = automatic_parking c" "fb_emergency_switch (feedback d) = fb_emergency_switch (feedback c)"
    using reports_run [of c all_reports] assms reports_ok by (simp_all add: entered_def d_def)
  then have "actuators_fresh d" by (intro actuators_fresh_reports) (simp_all add: generations_inv_def)
  then have "traction (advance_state d)"
    using d(2,4,5) assms(1,2) by (simp add: same_control_def calm_def entered_def advance_blocks traction_def vcu_enter_def)
  then show ?thesis by (simp add: run_append d_def vcu_tick_def Let_def)
qed

lemma stage_initial:
  assumes "vstate c = Initial" "initial_frame_count c = 0" "generations_inv c" "calm c"
  defines "d \<equiv> snd (run vcu_step (replicate 6 Tick) c)"
  shows "entered WaitParallelHandshake d \<and> received 0 c d \<and> calm d"
proof -
  have tick: "vstate c' = Initial \<Longrightarrow> calm c' \<Longrightarrow> advance_state c' =
      (if 5 \<le> initial_frame_count c' then vcu_enter WaitParallelHandshake c'
       else c'\<lparr>initial_frame_count := initial_frame_count c' + 1\<rparr>)" for c'
    by (simp add: advance_blocks calm_def)
  have calm_count: "calm (c'\<lparr>initial_frame_count := n\<rparr>) = calm c'" for c' n by (simp add: calm_def)
  have "d = vcu_enter WaitParallelHandshake (c\<lparr>initial_frame_count := 5\<rparr>)"
    using assms(1,2,4) by (simp add: d_def vcu_tick_def Let_def tick calm_count numeral_eq_Suc)
  then show ?thesis using assms(3,4)
    by (simp add: entered_def generations_enter generations_fields received_def calm_def) (simp add: vcu_enter_def)
qed

text \<open>The script of a cooperating vehicle: the request, the fixed delay, then one report per stage.\<close>

definition arming_script :: "vcu_event list" where
  "arming_script = [RequestParallelHandshake] @ replicate 6 Tick @
     [Ingest (handshake_msg 5), Tick] @ [Ingest (epb_msg 1), Tick] @ [Ingest (status_msg 1), Tick] @
     (map Ingest (map report_msg all_reports) @ [Tick])"

lemma arming_completes:
  assumes "generations_inv c" "room 27 c" "vstate c \<in> {Standby, Disarmed}" "parking_ready c"
    and "\<not> automatic_parking c"
  shows "traction (snd (run vcu_step arming_script c))"
proof -
  define c0 where "c0 = snd (request_parallel_handshake c)"
  have c0: "vstate c0 = Initial" "initial_frame_count c0 = 0" "generations_inv c0" "calm c0" "received 0 c c0"
    using assms by (auto simp: c0_def request_parallel_handshake_def generations_enter generations_fields)
      (auto simp: vcu_enter_def calm_def received_def default_command_def kNeutralGear_def parking_ready_def)
  define c1 where "c1 = snd (run vcu_step (replicate 6 Tick) c0)"
  have c1: "entered WaitParallelHandshake c1" "received 0 c0 c1" "calm c1"
    using stage_initial [OF c0(1-4)] by (simp_all add: c1_def)
  have r1: "room 27 c1"
    using received_room [OF received_trans [OF c0(5) c1(2)], of 27] assms(2) by simp
  define c2 where "c2 = snd (run vcu_step [Ingest (handshake_msg 5), Tick] c1)"
  have c2: "entered WaitParkingBrakeReleased c2" "received 1 c1 c2" "calm c2"
    using stage_handshake [OF c1(1,3)] r1 by (simp_all add: c2_def room_def)
  have r2: "room 26 c2" using received_room [OF c2(2), of 26] r1 by simp
  define c3 where "c3 = snd (run vcu_step [Ingest (epb_msg 1), Tick] c2)"
  have c3: "entered WaitGear c3" "received 1 c2 c3" "calm c3"
    using stage_epb_release [OF c2(1,3)] r2 by (simp_all add: c3_def room_def)
  have r3: "room 25 c3" using received_room [OF c3(2), of 25] r2 by simp
  define c4 where "c4 = snd (run vcu_step [Ingest (status_msg 1), Tick] c3)"
  have c4: "entered WaitActuatorModes c4" "received 1 c3 c4" "calm c4"
    using stage_gear [OF c3(1,3)] r3 by (simp_all add: c4_def room_def)
  have r4: "room 24 c4" using received_room [OF c4(2), of 24] r3 by simp
  have "snd (run vcu_step arming_script c) =
      snd (run vcu_step (map Ingest (map report_msg all_reports) @ [Tick]) c4)"
    by (simp only: arming_script_def run_append snd_conv c4_def c3_def c2_def c1_def c0_def)
       (simp only: run.simps vcu_step.simps snd_conv)
  then show ?thesis using stage_actuators [OF c4(1,3) r4] by simp
qed

text \<open>
  C28. Arming is live: from any run of fewer than \<open>2 ^ 63\<close> operations that leaves the controller
  in Standby or Disarmed with the vehicle ready for parking, the arming request followed by
  six ticks and the feedback of a cooperating vehicle ends in Ready with traction enabled.
\<close>

theorem vcu_arming_live:
  assumes "length es < 2 ^ 63" "c = snd (run vcu_step es vcu_reset)"
    and "vstate c \<in> {Standby, Disarmed}" "parking_ready c" "\<not> automatic_parking c"
  shows "traction (snd (run vcu_step arming_script c))"
proof -
  have "generations_inv c" "unat (receive_generation c) \<le> length es"
    using generations_run [of es] assms(1,2) by simp_all
  moreover from this have "room 27 c" using assms(1) by (simp add: room_def)
  ultimately show ?thesis using arming_completes assms(3-5) by blast
qed

text \<open>The reports after which a freshly constructed controller may be armed.\<close>

definition parked_script :: "vcu_event list" where
  "parked_script = [Ingest (handshake_msg 3), Ingest (status_msg 1), Ingest standstill_msg, Ingest driver_msg,
     Ingest (epb_msg 2)]"

lemma decode_standstill: "ddiv (decode_physical 5000 (dbl (1 / 10)) (dbl (- 500))) (dbl (36 / 10)) = Fin 0"
proof -
  have "rnd64 (5000 * (3602879701896397 / 36028797018963968)) = 500" by code_simp
  then have "round64 (2251799813685248125 / 4503599627370496) = Fin 500" by (intro round64_eval) simp_all
  then show ?thesis by (simp add: decode_physical_def double_of_int_def)
qed

definition parked :: parallel_controller where
  "parked = snd (run vcu_step parked_script vcu_reset)"

definition before_epb :: parallel_controller where
  "before_epb = snd (run vcu_step
     [Ingest (handshake_msg 3), Ingest (status_msg 1), Ingest standstill_msg, Ingest driver_msg] vcu_reset)"

lemma before_epb_facts:
  "vstate before_epb = Standby" "\<not> automatic_parking before_epb" "arrays_wf before_epb"
  "fb_gear_valid (feedback before_epb)" "fb_gear (feedback before_epb) = 1"
  "fb_emergency_switch (feedback before_epb) = 0" "fb_driver_gear_request_valid (feedback before_epb)"
  "fb_driver_gear_request (feedback before_epb) = 1" "fb_handshake_valid (feedback before_epb)"
  "fb_handshake_status (feedback before_epb) = 3" "fb_speed_valid (feedback before_epb)"
  "fb_speed_mps (feedback before_epb) = Fin 0"
  by (simp_all add: before_epb_def msg_routes ingest_handshake_def ingest_vehicle_status_def
      ingest_vehicle_speed_def ingest_driver_intention_def Let_def next_generation_def msg_signals
      kManualHandshakeStatus_def vcu_reset_def default_feedback_def arrays_wf_def decode_standstill [simplified])

lemma parked_facts: "vstate parked \<in> {Standby, Disarmed}" "parking_ready parked" "\<not> automatic_parking parked"
proof -
  have p: "parked = snd (ingest (epb_msg 2) before_epb)"
    by (simp add: parked_def parked_script_def before_epb_def)
  note e = epb_ingest [OF before_epb_facts(3), of 2, simplified, folded p]
  have f: "automatic_parking parked = automatic_parking before_epb"
    "feedback parked = (feedback before_epb)\<lparr>fb_parking_brake_status := fb_parking_brake_status (feedback parked),
       fb_parking_brake_valid := fb_parking_brake_valid (feedback parked)\<rparr>"
    by (simp_all add: p msg_routes ingest_parking_brake_def Let_def next_generation_def)
  have g: "fb_emergency_switch (feedback parked) = 0" "fb_driver_gear_request_valid (feedback parked)"
    "fb_driver_gear_request (feedback parked) = 1" "fb_handshake_valid (feedback parked)"
    "fb_handshake_status (feedback parked) = 3" "fb_speed_mps (feedback parked) = Fin 0"
    using before_epb_facts by (simp_all add: p msg_routes ingest_parking_brake_def Let_def next_generation_def)
  show "vstate parked \<in> {Standby, Disarmed}" "\<not> automatic_parking parked"
    using e(1) f(1) before_epb_facts by simp_all
  show "parking_ready parked"
    using e g before_epb_facts
    by (simp add: parking_ready_def stopped_def kNeutralGear_def kNeutralGearRequest_def kManualHandshakeStatus_def
        kStoppedSpeedToleranceMps_def kParkingBrakePark_def)
qed

theorem vcu_arming_live_witness: "traction (snd (run vcu_step arming_script parked))"
proof -
  have "length parked_script < 2 ^ 63" by (simp add: parked_script_def)
  from vcu_arming_live [OF this parked_def parked_facts] show ?thesis .
qed

definition requested_script :: "vcu_event list" where
  "requested_script = parked_script @ RequestParallelHandshake # replicate 5 Tick"

lemma requested_facts:
  "vstate (snd (run vcu_step requested_script vcu_reset)) = Initial"
  "vstate (snd (vcu_tick (snd (run vcu_step requested_script vcu_reset)))) = WaitParallelHandshake"
  "calm (snd (vcu_tick (snd (run vcu_step requested_script vcu_reset))))"
proof -
  define c0 where "c0 = snd (request_parallel_handshake parked)"
  have c0: "vstate c0 = Initial" "initial_frame_count c0 = 0" "\<not> emergency_stop_flag c0"
    "fb_emergency_switch (feedback c0) = 0" "\<not> automatic_parking c0" "cmd_gear (desired c0) = 1" "\<not> handshake_revoked c0"
    using parked_facts by (auto simp: c0_def request_parallel_handshake_def vcu_enter_def parking_ready_def kNeutralGear_def)
  have r: "snd (run vcu_step requested_script vcu_reset) = snd (run vcu_step (replicate 5 Tick) c0)"
    by (simp add: requested_script_def run_append parked_def c0_def)
  have "vstate (snd (run vcu_step (replicate 5 Tick) c0)) = Initial \<and>
      vstate (snd (vcu_tick (snd (run vcu_step (replicate 5 Tick) c0)))) = WaitParallelHandshake \<and>
      calm (snd (vcu_tick (snd (run vcu_step (replicate 5 Tick) c0))))"
    using c0 by (simp add: numeral_eq_Suc vcu_tick_def Let_def advance_blocks vcu_enter_def calm_def)
  then show "vstate (snd (run vcu_step requested_script vcu_reset)) = Initial"
    "vstate (snd (vcu_tick (snd (run vcu_step requested_script vcu_reset)))) = WaitParallelHandshake"
    "calm (snd (vcu_tick (snd (run vcu_step requested_script vcu_reset))))"
    by (simp_all add: r)
qed

text \<open>
  The arming of a parked vehicle: after the tick that enters WaitParallelHandshake, the next one
  moves on only with a handshake frame in between.
\<close>

theorem vcu_no_stale_progress_witness:
  "\<exists>f. Ingest f \<in> set [Ingest (handshake_msg 5)] \<and> frame_id f = kWvcuHandshake \<and> extended f \<and> 8 \<le> dlc f"
proof -
  define c where "c = snd (run vcu_step requested_script vcu_reset)"
  define entry where "entry = snd (vcu_step Tick c)"
  define later where "later = snd (run vcu_step [Ingest (handshake_msg 5)] entry)"
  have states: "vstate c = Initial" "vstate entry = WaitParallelHandshake"
    using requested_facts by (simp_all add: c_def entry_def)
  have inv: "generations_inv entry" "room 1 entry" "state_entry_generation entry = receive_generation entry"
  proof -
    have e: "entry = snd (run vcu_step (requested_script @ [Tick]) vcu_reset)" by (simp add: run_append c_def entry_def)
    have "length (requested_script @ [Tick]) < 2 ^ 63" by (simp add: requested_script_def parked_script_def)
    then show "generations_inv entry" "room 1 entry"
      using generations_run[of "requested_script @ [Tick]"] unfolding e by (simp_all add: room_def)
    show "state_entry_generation entry = receive_generation entry" using entry_step[of Tick c] states by (auto simp: entry_def)
  qed
  have "calm entry" using requested_facts(3) by (simp add: c_def entry_def)
  then have "vstate (snd (vcu_tick later)) = WaitParkingBrakeReleased"
    using stage_handshake[of entry] inv states by (auto simp: entered_def later_def)
  moreover have "vstate later = WaitParallelHandshake"
    using states(2) by (simp add: later_def msg_routes ingest_handshake_def Let_def next_generation_def msg_signals
        kManualHandshakeStatus_def)
  ultimately have "kWvcuHandshake \<in> set (needed_frames (vstate later) (vstate (snd (vcu_tick later))))" by (simp add: needed_frames_def)
  moreover have "length requested_script + length [Ingest (handshake_msg 5)] + 1 < 2 ^ 64"
    by (simp add: requested_script_def parked_script_def)
  moreover have "vstate entry \<noteq> vstate c" "Reset \<notin> set [Ingest (handshake_msg 5)]" using states by simp_all
  ultimately show ?thesis using vcu_no_stale_progress[OF c_def entry_def _ later_def] by blast
qed

lemma reachable_run:
  "vcu_reachable c \<Longrightarrow> list_all event_wf es \<Longrightarrow> vcu_reachable (snd (run vcu_step es c))"
  by (induction es arbitrary: c) (auto intro: vcu_reachable.step)

lemma msg_data [simp]:
  "length (frame_data (handshake_msg s)) = 8" "length (frame_data (status_msg g)) = 8"
  "length (frame_data (epb_msg s)) = 8" "length (frame_data standstill_msg) = 8"
  "length (frame_data driver_msg) = 8" "length (frame_data (report_msg a)) = 8"
  by (simp_all add: handshake_msg_def status_msg_def epb_msg_def standstill_msg_def driver_msg_def)
    (cases a; simp)

lemma reachable_parked: "vcu_reachable parked"
  unfolding parked_def by (rule reachable_run [OF vcu_reachable.start]) (simp add: parked_script_def)

definition armed :: parallel_controller where
  "armed = snd (run vcu_step (butlast arming_script) parked)"

lemma reachable_armed: "vcu_reachable armed"
proof -
  have "list_all event_wf (butlast arming_script)"
    by (simp add: arming_script_def butlast_append) (auto simp: list_all_iff)
  then show ?thesis unfolding armed_def by (rule reachable_run [OF reachable_parked])
qed

lemma armed_tick: "traction (snd (vcu_tick armed))"
proof -
  have "arming_script = butlast arming_script @ [Tick]" by (simp add: arming_script_def butlast_append)
  then have "snd (run vcu_step arming_script parked) = snd (vcu_tick armed)"
    unfolding armed_def by (metis run.simps run_append snd_conv vcu_step.simps(11))
  moreover have "length parked_script < 2 ^ 63" by (simp add: parked_script_def)
  then have "generations_inv parked" "room 27 parked"
    using generations_run [of parked_script] by (auto simp: parked_def room_def parked_script_def)
  ultimately show ?thesis using arming_completes [of parked] parked_facts by simp
qed

text \<open>Disarming, stage by stage.\<close>

lemma stage_torque:
  assumes "entered DisarmTorque c" "room 8 c"
  defines "d \<equiv> snd (run vcu_step (map Ingest (map report_msg motor_reports) @ [Tick]) c)"
  shows "entered DisarmStop d \<and> received 8 c d"
proof -
  define i where "i = snd (run vcu_step (map Ingest (map report_msg motor_reports)) c)"
  have "length motor_reports = 8" by (simp add: motor_reports_def)
  then have i: "generations_inv i" "same_control c i" "list_all (\<lambda>a. reported a i) motor_reports" "received 8 c i"
    using reports_run [of c motor_reports] assms(1,2) reports_ok by (simp_all add: entered_def i_def received_def)
  then have "torque_zero_fresh i" by (intro torque_zero_reports) (simp_all add: generations_inv_def)
  then have "advance_state i = vcu_enter DisarmStop i"
    using i(2) assms(1) by (simp add: same_control_def entered_def advance_blocks begin_arming_emergency_disarm_def)
  then have "d = vcu_enter DisarmStop i" by (simp add: d_def run_append i_def vcu_tick_def Let_def)
  then show ?thesis using i(1,4) by (simp add: entered_def generations_enter) (simp add: vcu_enter_def received_def)
qed

lemma standstill_ingest:
  fixes c :: parallel_controller
  defines "i \<equiv> snd (ingest standstill_msg c)"
  shows "vstate i = vstate c" "receive_generation i = receive_generation c + 1"
    "speed_generation i = receive_generation c + 1" "state_entry_generation i = state_entry_generation c"
    "fb_speed_valid (feedback i)" "stopped (feedback i)"
    "handshake_fresh h i = handshake_fresh h c" "gear_fresh g i = gear_fresh g c"
  by (simp_all add: i_def msg_routes ingest_vehicle_speed_def Let_def next_generation_def stopped_def
      msg_signals decode_standstill [simplified] kStoppedSpeedToleranceMps_def handshake_fresh_def gear_fresh_def)

lemma stage_stop:
  assumes "entered DisarmStop c" "room 1 c"
  defines "d \<equiv> snd (run vcu_step [Ingest standstill_msg, Tick] c)"
  shows "entered DisarmNeutral d \<and> received 1 c d"
proof -
  define i where "i = snd (ingest standstill_msg c)"
  note i = standstill_ingest [where c = c, folded i_def]
  have "stopped_fresh i"
    using i(2-6) assms(1,2) room_next [of 0 c] by (simp add: stopped_fresh_def entered_def)
  then have a: "advance_state i = vcu_enter DisarmNeutral i"
    using i(1) assms(1) by (simp add: advance_blocks entered_def begin_arming_emergency_disarm_def)
  then show ?thesis
    unfolding d_def using assms(1,2) i(1,2) by (intro ingest_tick) (simp_all add: i_def entered_def vcu_enter_def)
qed

lemma stage_neutral:
  assumes "entered DisarmNeutral c" "room 1 c"
  defines "d \<equiv> snd (run vcu_step [Ingest (status_msg 1), Tick] c)"
  shows "entered DisarmParkingBrake d \<and> received 1 c d"
proof -
  define i where "i = snd (ingest (status_msg 1) c)"
  note i = status_ingest [where c = c, folded i_def]
  have "gear_fresh kNeutralGear i"
    using i(2-6) assms(1,2) room_next [of 0 c] by (simp add: gear_fresh_def entered_def kNeutralGear_def)
  then have a: "advance_state i = vcu_enter DisarmParkingBrake i"
    using i(1) assms(1) by (simp add: advance_blocks entered_def begin_arming_emergency_disarm_def)
  then show ?thesis
    unfolding d_def using assms(1,2) i(1,2) by (intro ingest_tick) (simp_all add: i_def entered_def vcu_enter_def)
qed

lemma stage_epb_park:
  assumes "entered DisarmParkingBrake c" "room 1 c"
  defines "d \<equiv> snd (run vcu_step [Ingest (epb_msg 2), Tick] c)"
  shows "entered DisarmManual d \<and> received 1 c d"
proof -
  define i where "i = snd (ingest (epb_msg 2) c)"
  have wf: "arrays_wf c" using assms(1) by (simp add: entered_def generations_inv_def)
  note i = epb_ingest [OF wf, of 2, folded i_def, simplified]
  have "epb_fresh kParkingBrakePark i"
    using i(2-5) assms(1,2) room_next [of 0 c] by (simp add: epb_fresh_def kParkingBrakePark_def entered_def)
  then have a: "advance_state i = vcu_enter DisarmManual i"
    using i(1) assms(1) by (simp add: advance_blocks entered_def begin_arming_emergency_disarm_def)
  then show ?thesis
    unfolding d_def using assms(1,2) i(1,2) by (intro ingest_tick) (simp_all add: i_def entered_def vcu_enter_def)
qed

text \<open>The final confirmation needs four reports, in any order; here handshake, gear, speed, brakes.\<close>

lemma stage_manual:
  assumes "entered DisarmManual c" "room 4 c"
  shows "vstate (snd (run vcu_step [Ingest (handshake_msg 3), Ingest (status_msg 1), Ingest standstill_msg,
    Ingest (epb_msg 2), Tick] c)) = Disarmed"
proof -
  define i1 where "i1 = snd (ingest (handshake_msg 3) c)"
  define i2 where "i2 = snd (ingest (status_msg 1) i1)"
  define i3 where "i3 = snd (ingest standstill_msg i2)"
  define i4 where "i4 = snd (ingest (epb_msg 2) i3)"
  have i1: "vstate i1 = DisarmManual" "receive_generation i1 = receive_generation c + 1"
    "handshake_generation i1 = receive_generation c + 1" "state_entry_generation i1 = receive_generation c"
    "fb_handshake_valid (feedback i1)" "fb_handshake_status (feedback i1) = 3" "arrays_wf i1"
    using assms(1)
    by (simp_all add: i1_def msg_routes ingest_handshake_def Let_def next_generation_def msg_signals
        kManualHandshakeStatus_def entered_def generations_inv_def arrays_wf_def)
  note i2 = status_ingest [where c = i1, folded i2_def]
  note i3 = standstill_ingest [where c = i2, folded i3_def]
  have wf: "arrays_wf i3" unfolding i3_def i2_def using i1(7) by simp
  note i4 = epb_ingest [OF wf, of 2, folded i4_def, simplified]
  define g where "g = receive_generation c"
  have u: "unat (g + 1) = unat g + 1" "unat (g + 2) = unat g + 2" "unat (g + 3) = unat g + 3"
    "unat (g + 4) = unat g + 4"
    using assms(2) by (simp_all add: room_def g_def unat_word_ariths)
  have lt: "g < g + 1" "g < g + 2" "g < g + 3" "g < g + 4"
    "g < 2 + g" "g < 3 + g" "g < 4 + g"
    using u by (simp_all add: word_less_nat_alt add.commute)
  have hs: "handshake_fresh kManualHandshakeStatus i4"
    using i1 i2(8) i3(7) i4(10) lt(1) by (simp add: handshake_fresh_def kManualHandshakeStatus_def g_def)
  have gr: "gear_fresh kNeutralGear i4"
    using i1 i2 i3(8) i4(11) lt by (simp add: gear_fresh_def kNeutralGear_def g_def)
  have st: "stopped_fresh i4"
    using i1 i2 i3 i4(12) lt by (simp add: stopped_fresh_def g_def add.assoc)
  have ep: "epb_fresh kParkingBrakePark i4"
    using i1 i2 i3 i4(3-5) lt by (simp add: epb_fresh_def kParkingBrakePark_def g_def add.assoc)
  have "vstate i4 = DisarmManual" using i1(1) i2(1) i3(1) i4(1) by simp
  then have "advance_state i4 = vcu_enter Disarmed i4"
    using hs gr st ep by (simp add: advance_blocks begin_arming_emergency_disarm_def)
  then show ?thesis
    by (simp add: vcu_tick_def Let_def vcu_enter_def flip: i1_def i2_def i3_def i4_def)
qed

definition disarming_script :: "vcu_event list" where
  "disarming_script = [RequestDisarm] @ (map Ingest (map report_msg motor_reports) @ [Tick]) @
     [Ingest standstill_msg, Tick] @ [Ingest (status_msg 1), Tick] @ [Ingest (epb_msg 2), Tick] @
     [Ingest (handshake_msg 3), Ingest (status_msg 1), Ingest standstill_msg, Ingest (epb_msg 2), Tick]"

text \<open>
  Disarming is live: from any run of fewer than \<open>2 ^ 63\<close> operations that leaves the
  controller where the parking brakes may be released (Ready and Fault included), the disarm
  request followed by the feedback of a vehicle that stops, shifts to neutral and parks ends
  in Disarmed.
\<close>

theorem vcu_disarming_live:
  assumes "length es < 2 ^ 63" "c = snd (run vcu_step es vcu_reset)"
    and "vstate c \<in> {WaitParkingBrakeReleased, WaitGear, WaitActuatorModes, Ready, Fault}"
  shows "vstate (snd (run vcu_step disarming_script c)) = Disarmed"
proof -
  have c: "generations_inv c" "unat (receive_generation c) \<le> length es"
    using generations_run [of es] assms(1,2) by simp_all
  define c0 where "c0 = request_disarm c"
  have c0: "entered DisarmTorque c0" "received 0 c c0"
    using c(1) assms(3)
    by (auto simp: c0_def request_disarm_def Let_def entered_def generations_enter generations_fields)
       (auto simp: vcu_enter_def received_def)
  have r0: "room 15 c0" using c(2) c0(2) assms(1) by (simp add: room_def received_def)
  define c1 where "c1 = snd (run vcu_step (map Ingest (map report_msg motor_reports) @ [Tick]) c0)"
  have c1: "entered DisarmStop c1" "received 8 c0 c1"
    using stage_torque [OF c0(1)] r0 by (simp_all add: c1_def room_def)
  have r1: "room 7 c1" using received_room [OF c1(2), of 7] r0 by simp
  define c2 where "c2 = snd (run vcu_step [Ingest standstill_msg, Tick] c1)"
  have c2: "entered DisarmNeutral c2" "received 1 c1 c2"
    using stage_stop [OF c1(1)] r1 by (simp_all add: c2_def room_def)
  have r2: "room 6 c2" using received_room [OF c2(2), of 6] r1 by simp
  define c3 where "c3 = snd (run vcu_step [Ingest (status_msg 1), Tick] c2)"
  have c3: "entered DisarmParkingBrake c3" "received 1 c2 c3"
    using stage_neutral [OF c2(1)] r2 by (simp_all add: c3_def room_def)
  have r3: "room 5 c3" using received_room [OF c3(2), of 5] r2 by simp
  define c4 where "c4 = snd (run vcu_step [Ingest (epb_msg 2), Tick] c3)"
  have c4: "entered DisarmManual c4" "received 1 c3 c4"
    using stage_epb_park [OF c3(1)] r3 by (simp_all add: c4_def room_def)
  have r4: "room 4 c4" using received_room [OF c4(2), of 4] r3 by simp
  have "snd (run vcu_step disarming_script c) = snd (run vcu_step [Ingest (handshake_msg 3),
      Ingest (status_msg 1), Ingest standstill_msg, Ingest (epb_msg 2), Tick] c4)"
    by (simp only: disarming_script_def run_append snd_conv c4_def c3_def c2_def c1_def c0_def)
       (simp only: run.simps vcu_step.simps snd_conv)
  then show ?thesis using stage_manual [OF c4(1) r4] by simp
qed

definition driving :: parallel_controller where
  "driving = snd (run vcu_step (parked_script @ arming_script) vcu_reset)"

lemma driving_eq: "driving = snd (run vcu_step arming_script parked)"
  by (simp add: driving_def run_append parked_def)

lemma script_lengths: "length (parked_script @ arming_script) < 2 ^ 63"
  by (simp add: parked_script_def arming_script_def all_reports_def motor_reports_def)

lemma driving_tick: "driving = snd (vcu_tick armed)"
proof -
  have "arming_script = butlast arming_script @ [Tick]" by (simp add: arming_script_def butlast_append)
  then show ?thesis unfolding driving_eq armed_def by (metis run.simps run_append snd_conv vcu_step.simps(11))
qed

lemma driving_facts: "traction driving" "vstate driving = Ready" "vcu_reachable driving"
proof -
  show t: "traction driving" using armed_tick by (simp add: driving_tick)
  then show "vstate driving = Ready" by (simp add: traction_def)
  show "vcu_reachable driving" using vcu_reachable.step [OF reachable_armed, of Tick] by (simp add: driving_tick)
qed

theorem vcu_disarming_live_witness: "vstate (snd (run vcu_step disarming_script driving)) = Disarmed"
proof -
  have "vstate driving \<in> {WaitParkingBrakeReleased, WaitGear, WaitActuatorModes, Ready, Fault}"
    by (simp add: driving_facts)
  from vcu_disarming_live [OF script_lengths driving_def this] show ?thesis .
qed

subsection \<open>Witnesses for the safety properties\<close>

theorem vcu_traction_command_witness:
  "motor_torques (fst (vcu_tick armed)) = map encode_torque (motor_torque_nm (desired armed))"
  using Vcu_Safety.vcu_traction_command [OF reachable_armed armed_tick] by simp

definition pressed_msg :: can_frame where
  "pressed_msg = insert_signal 0 2 1 (status_msg 1)"

lemma pressed_msg_facts: "extended pressed_msg" "8 \<le> dlc pressed_msg" "frame_id pressed_msg = kWvcuVehicleStatus"
  "signal_int pressed_msg 0 2 \<noteq> 0"
  by (simp_all add: pressed_msg_def status_msg_def signal_int_def read_signal signal_mask_def)

theorem vcu_emergency_pulse_latched_witness:
  "vstate (snd (run vcu_step [Ingest (status_msg 1), ClearEmergencyStop, Tick] (snd (ingest pressed_msg driving)))) \<notin> armed_states"
proof -
  have "list_all no_rearm [Ingest (status_msg 1), ClearEmergencyStop, Tick]" by (simp add: no_rearm_def)
  from vcu_emergency_pulse_latched [OF driving_facts(3) pressed_msg_facts this] show ?thesis by simp
qed

theorem vcu_revocation_witness:
  "motor_torques (fst (vcu_tick (snd (ingest (handshake_msg 5) (snd (ingest (handshake_msg 3) driving)))))) = replicate 8 32000"
proof -
  have f: "extended (handshake_msg 3)" "8 \<le> dlc (handshake_msg 3)" "frame_id (handshake_msg 3) = kWvcuHandshake"
    "signal_int (handshake_msg 3) 8 8 = kManualHandshakeStatus"
    using msg_signals(2) by (simp_all add: kManualHandshakeStatus_def) (simp_all add: handshake_msg_def)
  have s: "vstate driving \<in> {WaitParkingBrakeReleased, WaitGear, WaitActuatorModes, Ready}" by (simp add: driving_facts)
  have "list_all no_rearm [Ingest (handshake_msg 5), Tick]" by (simp add: no_rearm_def)
  from vcu_revocation [OF driving_facts(3) f s this] show ?thesis by simp
qed


definition actuators_up :: parallel_controller where
  "actuators_up = vcu_reset\<lparr>vstate := WaitActuatorModes,
     motor_mode_generation := replicate 8 1, motor_torque_generation := replicate 8 1,
     steering_generation := replicate 4 1, brake_generation := replicate 4 1,
     feedback := default_feedback\<lparr>fb_motor_mode := replicate 8 1, fb_motor_mode_valid := replicate 8 True,
       fb_motor_torque_valid := replicate 8 True, fb_steering_mode := replicate 4 1,
       fb_steering_valid := replicate 4 True, fb_brake_mode := replicate 8 1,
       fb_brake_valid := replicate 8 True\<rparr>\<rparr>"

theorem vcu_ready_entry_witness: "actuators_fresh actuators_up"
proof -
  have "actuators_fresh actuators_up"
    by (simp add: actuators_fresh_def actuators_up_def vcu_reset_def default_feedback_def
        all_newer_conv all_valid_conv all_equal_conv kMotorTorqueMode_def kByWireMode_def)
  moreover have "vstate actuators_up = WaitActuatorModes" "\<not> emergency_stop_flag actuators_up"
    "fb_emergency_switch (feedback actuators_up) = 0"
    by (simp_all add: actuators_up_def vcu_reset_def default_feedback_def)
  ultimately have "vstate (snd (vcu_step Tick actuators_up)) = Ready"
    by (simp add: vcu_tick_def Let_def advance_blocks vcu_enter_def)
  moreover have "vstate actuators_up \<noteq> Ready" by (simp add: actuators_up_def)
  ultimately show ?thesis using vcu_ready_entry [of actuators_up Tick] by simp
qed

subsection \<open>Interlocks\<close>

lemma begin_disarm_flag:
  "emergency_stop_flag (snd (begin_arming_emergency_disarm c)) = emergency_stop_flag c"
  by (cases "vstate c") (simp_all add: begin_arming_emergency_disarm_def vcu_enter_def)

lemma emergency_stop_sets [simp]: "emergency_stop_flag (emergency_stop c)" "desired (emergency_stop c) = desired c"
  by (simp_all add: emergency_stop_def begin_disarm_flag)

definition gear_refused :: "vcu_command \<Rightarrow> parallel_controller \<Rightarrow> bool" where
  "gear_refused cmd c \<longleftrightarrow> cmd_gear (desired c) \<noteq> cmd_gear cmd \<and> (cmd_gear cmd = 2 \<or> cmd_gear cmd = 3) \<and>
     (\<not> fb_speed_valid (feedback c) \<or> \<not> fb_gear_valid (feedback c) \<or>
      dlt kStoppedSpeedToleranceMps (dabs (fb_speed_mps (feedback c))))"

text \<open>
  Gear interlock: a command that selects reverse or drive is accepted with a change of gear
  only if the vehicle is known to stand still; a valid one refused for that reason outside
  the disarm states leaves an emergency stop and zeroed torques behind. A refused command
  never replaces the one being driven.
\<close>

theorem vcu_gear_interlock:
  "(fst (set_command cmd c) \<longrightarrow> command_valid cmd \<and> desired (snd (set_command cmd c)) = cmd \<and>
     (cmd_gear cmd \<noteq> cmd_gear (desired c) \<longrightarrow> cmd_gear cmd \<noteq> kNeutralGear \<longrightarrow>
       fb_speed_valid (feedback c) \<and> fb_gear_valid (feedback c) \<and>
       \<not> dlt kStoppedSpeedToleranceMps (dabs (fb_speed_mps (feedback c))))) \<and>
   (\<not> fst (set_command cmd c) \<longrightarrow> snd (set_command cmd c) = c \<or>
     (emergency_stop_flag (snd (set_command cmd c)) \<and>
      motor_torque_nm (desired (snd (set_command cmd c))) = replicate 8 (Fin 0) \<and>
      cmd_gear (desired (snd (set_command cmd c))) = cmd_gear (desired c)))"
proof -
  have gear: "command_valid cmd \<Longrightarrow> cmd_gear cmd = 1 \<or> cmd_gear cmd = 2 \<or> cmd_gear cmd = 3"
    by (auto simp: command_valid_def)
  show ?thesis
  proof (cases "command_valid cmd \<and> vstate c \<notin> {DisarmTorque, DisarmStop, DisarmNeutral,
      DisarmParkingBrake, DisarmManual, Fault}")
    case True
    then have "set_command cmd c = (if gear_refused cmd c
         then (False, emergency_stop (c\<lparr>desired := (desired c)\<lparr>
             motor_torque_nm := replicate 8 (Fin 0), motor_speed_rpm := replicate 8 (Fin 0),
             vehicle_speed_request_kph := Fin 0, vehicle_speed_request_valid := False\<rparr>\<rparr>))
         else (True, if cmd_gear (desired c) \<noteq> cmd_gear cmd \<and> vstate c = Ready
           then vcu_enter WaitGear (c\<lparr>desired := cmd\<rparr>) else c\<lparr>desired := cmd\<rparr>))"
      by (simp add: set_command_def Let_def gear_refused_def)
    then show ?thesis using gear True
      by (cases "gear_refused cmd c") (simp_all add: vcu_enter_def, auto simp: gear_refused_def kNeutralGear_def)
  qed (simp_all add: set_command_def)
qed

theorem vcu_gear_interlock_witness: "desired (snd (set_command default_command vcu_reset)) = default_command"
proof -
  have "fst (set_command default_command vcu_reset)"
    by (simp add: set_command_def default_command_valid) (simp add: default_command_def vcu_reset_def)
  then show ?thesis using vcu_gear_interlock [of default_command vcu_reset] by blast
qed

text \<open>
  Parking brakes are applied only at rest: a tick asks for the parking brakes to be applied
  only in the last two disarm stages, which follow confirmed standstill and neutral, or under
  automatic parking with standstill reported and every motor's torque known and zero; it asks
  for their release only with the handshake not revoked, and under automatic parking in Ready
  only when parking is not requested. All four brakes always receive the same request.
\<close>

theorem vcu_epb_requests:
  "(\<exists>r. epb_requests (fst (vcu_tick c)) = replicate 4 (word_of_int r) \<and>
     (r = kParkingBrakePark \<or> r = kParkingBrakeHold \<or> r = kParkingBrakeRelease) \<and>
     (r = kParkingBrakePark \<longrightarrow> vstate (snd (vcu_tick c)) \<in> {DisarmParkingBrake, DisarmManual} \<or>
        (automatic_parking c \<and> parking_stopped_fresh c \<and> all_valid (fb_motor_torque_valid (feedback c)) \<and>
         all_torque_zero (fb_motor_torque_nm (feedback c)))) \<and>
     (r = kParkingBrakeRelease \<longrightarrow> may_roll (vstate (snd (vcu_tick c))) \<and>
        (\<not> handshake_revoked c \<or> automatic_parking c) \<and>
        (automatic_parking c \<longrightarrow> vstate (snd (vcu_tick c)) = Ready \<longrightarrow> \<not> automatic_park_requested c)))"
proof -
  define d where "d = advance_state c"
  have same: "feedback d = feedback c" "handshake_revoked d = handshake_revoked c"
    "automatic_parking d = automatic_parking c" "automatic_park_requested d = automatic_park_requested c"
    "parking_stopped_fresh d = parking_stopped_fresh c"
    unfolding d_def by (simp, simp) (cases "vstate c"; simp add: advance_blocks vcu_operations)+
  have r: "epb_request d = kParkingBrakePark \<or> epb_request d = kParkingBrakeHold \<or> epb_request d = kParkingBrakeRelease"
    by (simp add: epb_request_def)
  have "epb_requests (fst (vcu_tick c)) = replicate 4 (word_of_int (epb_request d))"
    using r by (auto simp: vcu_tick_def Let_def frames_epb [OF out_epb] signal_mask_def kParkingBrakePark_def
        kParkingBrakeHold_def kParkingBrakeRelease_def simp flip: d_def)
  then show ?thesis using r
    by (intro exI [of _ "epb_request d"])
       (simp add: vcu_tick_def Let_def flip: d_def,
        auto simp: epb_request_def same may_roll_def kParkingBrakePark_def kParkingBrakeHold_def
          kParkingBrakeRelease_def split: if_splits)
qed

theorem vcu_epb_requests_witness:
  "\<exists>r. epb_requests (fst (vcu_tick vcu_reset)) = replicate 4 (word_of_int r) \<and> r \<noteq> kParkingBrakePark"
proof -
  have standby: "vstate (advance_state vcu_reset) = Standby"
    by (rule advance_standby) (simp_all add: vcu_reset_def default_feedback_def)
  have tick: "vstate (snd (vcu_tick c)) = vstate (advance_state c)" for c
    by (simp add: vcu_tick_def Let_def)
  have auto_off: "\<not> automatic_parking vcu_reset" by (simp add: vcu_reset_def)
  obtain r where r: "epb_requests (fst (vcu_tick vcu_reset)) = replicate 4 (word_of_int r)"
      "r = kParkingBrakePark \<longrightarrow> vstate (snd (vcu_tick vcu_reset)) \<in> {DisarmParkingBrake, DisarmManual} \<or>
        automatic_parking vcu_reset"
    using vcu_epb_requests [of vcu_reset] by metis
  have "r \<noteq> kParkingBrakePark" using r(2) auto_off unfolding tick standby by blast
  with r(1) show ?thesis by blast
qed

subsection \<open>Operator idleness\<close>

definition last_active :: "(bool \<times> int) list \<Rightarrow> int option" where
  "last_active obs = (case filter fst obs of [] \<Rightarrow> None | xs \<Rightarrow> Some (snd (last xs)))"

definition observed :: "(bool \<times> int) list \<Rightarrow> operator_idle_parking" where
  "observed obs = fold (\<lambda>(active, t). oip_observe active t) obs oip_reset"

lemma last_active_snoc: "last_active (obs @ [(a, t)]) = (if a then Some t else last_active obs)"
  by (cases "filter fst obs") (simp_all add: last_active_def)

lemma observed_state:
  "(oip_seen (observed obs) \<longleftrightarrow> last_active obs \<noteq> None) \<and>
   (last_active obs \<noteq> None \<longrightarrow> oip_last_active_ms (observed obs) = the (last_active obs)) \<and>
   oip_active (observed obs) = (obs \<noteq> [] \<and> fst (last obs))"
proof (induction obs rule: rev_induct)
  case Nil
  then show ?case by (simp add: observed_def oip_reset_def last_active_def)
next
  case (snoc e obs)
  then show ?case
    by (cases e) (auto simp: observed_def last_active_snoc oip_observe_def)
qed

text \<open>
  The operator-idle timer over any sequence of observations: parking is due exactly when the
  operator was never active, or when the time since the last active observation (not counting
  clock steps backwards) has reached the timeout, and at least 200 ms when the most recent
  observation is itself an active one. Inactive observations never renew the timer.
\<close>

theorem oip_expired_iff:
  "oip_expired now timeout (observed obs) =
     (case last_active obs of None \<Rightarrow> True
      | Some t \<Rightarrow> (if fst (last obs) then max 200 timeout else timeout) \<le> max 0 (now - t))"
proof (cases "last_active obs")
  case None
  then show ?thesis using observed_state [of obs] by (simp add: oip_expired_def)
next
  case (Some t)
  then have "obs \<noteq> []" by (auto simp: last_active_def)
  then show ?thesis using Some observed_state [of obs] by (auto simp: oip_expired_def Let_def)
qed

end
