(* ===== verification/Adapter.thy ===== *)
theory Adapter
  imports Safety
begin

text \<open>
  The vehicle adapters of \<open>cpp/src/core.cpp\<close>: the \<open>VehicleAdapter\<close> interface with its data,
  the names of stop sources and reasons, the brake and speed requests derived from a
  command, and \<open>MockVehicleAdapter\<close>. \<open>DynamicLibraryVehicleAdapter\<close> is in \<open>Dynamic_Adapter\<close>.
\<close>

subsection \<open>Interface data\<close>

datatype vehicle_stop_source =
  SourceNone | DriverPage | SessionSource | Watchdog | SoftwareFault | PhysicalEmergency | SourceUnknown

datatype vehicle_stop_reason =
    ReasonNone | OperatorEstop | VcuHandshakeDisconnect | DriverDisconnect | SessionLost
  | ControlApplyTimeout | OuterControlTimeout | FeedbackTimeout | ControlApplyFailed
  | ChassisControlFault | CanReceiveFailed | CanSendFailed | IoThreadException | HardOverspeed
  | OppositeDirectionMotion | ArmingMotion | ControlCommandInvalid | PhysicalEmergencySwitch
  | HandshakeRevoked | CriticalCameraFailed | MediaPipelineFailed | VcuStateFault
  | SessionProfileRequired | CanFeedbackMissing | AdapterSafetyStatusUnavailable | LegacyUnspecified

fun source_value :: "vehicle_stop_source \<Rightarrow> uint32" where
  "source_value SourceNone = 0"
| "source_value DriverPage = 1"
| "source_value SessionSource = 2"
| "source_value Watchdog = 3"
| "source_value SoftwareFault = 4"
| "source_value PhysicalEmergency = 5"
| "source_value SourceUnknown = 255"

definition all_sources :: "vehicle_stop_source list" where
  "all_sources = [SourceNone, DriverPage, SessionSource, Watchdog, SoftwareFault, PhysicalEmergency, SourceUnknown]"

fun reason_value :: "vehicle_stop_reason \<Rightarrow> uint32" where
  "reason_value ReasonNone = 0"
| "reason_value OperatorEstop = 1"
| "reason_value VcuHandshakeDisconnect = 2"
| "reason_value DriverDisconnect = 3"
| "reason_value SessionLost = 4"
| "reason_value ControlApplyTimeout = 5"
| "reason_value OuterControlTimeout = 6"
| "reason_value FeedbackTimeout = 7"
| "reason_value ControlApplyFailed = 8"
| "reason_value ChassisControlFault = 9"
| "reason_value CanReceiveFailed = 10"
| "reason_value CanSendFailed = 11"
| "reason_value IoThreadException = 12"
| "reason_value HardOverspeed = 13"
| "reason_value OppositeDirectionMotion = 14"
| "reason_value ArmingMotion = 15"
| "reason_value ControlCommandInvalid = 16"
| "reason_value PhysicalEmergencySwitch = 17"
| "reason_value HandshakeRevoked = 18"
| "reason_value CriticalCameraFailed = 19"
| "reason_value MediaPipelineFailed = 20"
| "reason_value VcuStateFault = 21"
| "reason_value SessionProfileRequired = 22"
| "reason_value CanFeedbackMissing = 23"
| "reason_value AdapterSafetyStatusUnavailable = 24"
| "reason_value LegacyUnspecified = 255"

definition all_reasons :: "vehicle_stop_reason list" where
  "all_reasons = [ReasonNone, OperatorEstop, VcuHandshakeDisconnect, DriverDisconnect, SessionLost,
     ControlApplyTimeout, OuterControlTimeout, FeedbackTimeout, ControlApplyFailed,
     ChassisControlFault, CanReceiveFailed, CanSendFailed, IoThreadException, HardOverspeed,
     OppositeDirectionMotion, ArmingMotion, ControlCommandInvalid, PhysicalEmergencySwitch,
     HandshakeRevoked, CriticalCameraFailed, MediaPipelineFailed, VcuStateFault,
     SessionProfileRequired, CanFeedbackMissing, AdapterSafetyStatusUnavailable, LegacyUnspecified]"

text \<open>\<open>static_cast\<close> of a number to an enumeration, \<open>None\<close> for a number that names no enumerator.\<close>

definition source_of :: "uint32 \<Rightarrow> vehicle_stop_source option" where
  "source_of v = find (\<lambda>s. source_value s = v) all_sources"

definition reason_of :: "uint32 \<Rightarrow> vehicle_stop_reason option" where
  "reason_of v = find (\<lambda>r. reason_value r = v) all_reasons"

record vehicle_stop_context =
  stop_source_of :: vehicle_stop_source
  stop_reason_of :: vehicle_stop_reason

definition stop_context :: "vehicle_stop_source \<Rightarrow> vehicle_stop_reason \<Rightarrow> vehicle_stop_context" where
  "stop_context s r = \<lparr>stop_source_of = s, stop_reason_of = r\<rparr>"

definition bridge_stop_source :: "uint32 \<Rightarrow> uint32 \<Rightarrow> string" where
  "bridge_stop_source sv rv = (case source_of sv of
       Some SourceNone \<Rightarrow> ''none''
     | Some DriverPage \<Rightarrow>
         (if reason_of rv = Some VcuHandshakeDisconnect \<or> reason_of rv = Some DriverDisconnect
          then ''page_disconnect'' else ''page_request'')
     | Some SessionSource \<Rightarrow> ''session_loss''
     | Some Watchdog \<Rightarrow> ''watchdog''
     | Some SoftwareFault \<Rightarrow> ''software_fault''
     | Some PhysicalEmergency \<Rightarrow> ''physical_estop''
     | Some SourceUnknown \<Rightarrow> ''unknown''
     | None \<Rightarrow> ''unknown'')"

fun reason_name :: "vehicle_stop_reason \<Rightarrow> string" where
  "reason_name ReasonNone = ''none''"
| "reason_name OperatorEstop = ''operator_estop''"
| "reason_name VcuHandshakeDisconnect = ''vcu_handshake_disconnect''"
| "reason_name DriverDisconnect = ''driver_disconnect''"
| "reason_name SessionLost = ''session_lost''"
| "reason_name ControlApplyTimeout = ''control_apply_timeout''"
| "reason_name OuterControlTimeout = ''outer_control_timeout''"
| "reason_name FeedbackTimeout = ''feedback_timeout''"
| "reason_name ControlApplyFailed = ''control_apply_failed''"
| "reason_name ChassisControlFault = ''chassis_control_fault''"
| "reason_name CanReceiveFailed = ''can_receive_failed''"
| "reason_name CanSendFailed = ''can_send_failed''"
| "reason_name IoThreadException = ''io_thread_exception''"
| "reason_name HardOverspeed = ''hard_overspeed''"
| "reason_name OppositeDirectionMotion = ''opposite_direction_motion''"
| "reason_name ArmingMotion = ''arming_motion''"
| "reason_name ControlCommandInvalid = ''control_command_invalid''"
| "reason_name PhysicalEmergencySwitch = ''physical_emergency_switch''"
| "reason_name HandshakeRevoked = ''handshake_revoked''"
| "reason_name CriticalCameraFailed = ''critical_camera_failed''"
| "reason_name MediaPipelineFailed = ''media_pipeline_failed''"
| "reason_name VcuStateFault = ''vcu_state_fault''"
| "reason_name SessionProfileRequired = ''session_profile_required''"
| "reason_name CanFeedbackMissing = ''can_feedback_missing''"
| "reason_name AdapterSafetyStatusUnavailable = ''adapter_safety_status_unavailable''"
| "reason_name LegacyUnspecified = ''legacy_unspecified''"

definition bridge_stop_reason :: "uint32 \<Rightarrow> string" where
  "bridge_stop_reason v = (case reason_of v of Some r \<Rightarrow> reason_name r | None \<Rightarrow> ''unknown'')"

definition gear_to_bridge_value :: "string \<Rightarrow> int res" where
  "gear_to_bridge_value g =
     (if g = ''N'' then Inr 1 else if g = ''R'' then Inr 2 else if g = ''D'' then Inr 3
      else if g = ''P'' then Inr 4 else Inl (InvalidArgument ''unsupported gear''))"

definition bridge_value_to_gear :: "int \<Rightarrow> string" where
  "bridge_value_to_gear g =
     (if g = 2 then ''R'' else if g = 3 then ''D'' else if g = 4 then ''P'' else ''N'')"

definition kStates :: "string list" where
  "kStates = [''standby'', ''initial'', ''wait_parallel_handshake'', ''wait_parking_brake_released'',
     ''wait_gear'', ''wait_actuator_modes'', ''ready'', ''disarm_torque'', ''disarm_stop'',
     ''disarm_neutral'', ''disarm_parking_brake'', ''disarm_manual'', ''disarmed'', ''fault'']"

definition bridge_handshake_state :: "int \<Rightarrow> string" where
  "bridge_handshake_state state =
     (if state < 0 \<or> int (length kStates) \<le> state then ''unknown'' else kStates ! nat state)"

definition kBridgeApplyIssueNone :: uint32 where
  "kBridgeApplyIssueNone = 0"
definition kBridgeApplyIssueDriveGearChangeMovingOrStale :: uint32 where
  "kBridgeApplyIssueDriveGearChangeMovingOrStale = 5"

definition bridge_apply_issue_code :: "uint32 \<Rightarrow> string" where
  "bridge_apply_issue_code issue_id =
     (if issue_id = kBridgeApplyIssueDriveGearChangeMovingOrStale
      then ''vcu_drive_gear_change_moving_or_stale'' else ''vcu_control_apply_rejected'')"

text \<open>The constructor of \<open>VehicleAdapterControlRejected\<close>.\<close>

definition control_rejected :: "string \<Rightarrow> int \<Rightarrow> exn" where
  "control_rejected code result_code = ControlRejected
     (if code = ''vcu_drive_gear_change_moving_or_stale'' then code else ''vcu_control_apply_rejected'')
     result_code"

record vehicle_can_feedback =
  vcf_supported :: bool
  vcf_feedback_fresh :: bool
  vcf_max_feedback_age_ms :: int
  vcf_speed_mps :: double
  vcf_speed_valid :: bool
  vcf_gear :: int
  vcf_gear_valid :: bool
  vcf_emergency_switch :: int
  vcf_driver_gear_request :: int
  vcf_driver_gear_request_valid :: bool
  vcf_handshake_status :: int
  vcf_handshake_valid :: bool
  vcf_vmc_fault_code :: int
  vcf_vmc_fault_code_valid :: bool
  vcf_parking_brake_switch :: int
  vcf_parking_brake_switch_valid :: bool
  vcf_brake_pedal_switch :: int
  vcf_brake_pedal_switch_valid :: bool
  vcf_parking_brake_status :: "int list"
  vcf_parking_brake_valid :: "bool list"
  vcf_motor_mode :: "int list"
  vcf_motor_mode_valid :: "bool list"
  vcf_motor_torque_nm :: "double list"
  vcf_motor_torque_valid :: "bool list"
  vcf_motor_speed_rpm :: "double list"
  vcf_motor_speed_valid :: "bool list"
  vcf_steering_mode :: "int list"
  vcf_steering_valid :: "bool list"
  vcf_steering_angle_deg :: "double list"
  vcf_brake_mode :: "int list"
  vcf_brake_valid :: "bool list"
  vcf_brake_pressure_bar :: "double list"

definition default_can_feedback :: vehicle_can_feedback where
  "default_can_feedback = \<lparr>vcf_supported = False, vcf_feedback_fresh = False, vcf_max_feedback_age_ms = -1,
     vcf_speed_mps = zero, vcf_speed_valid = False, vcf_gear = 0, vcf_gear_valid = False,
     vcf_emergency_switch = 0, vcf_driver_gear_request = 0, vcf_driver_gear_request_valid = False,
     vcf_handshake_status = 0, vcf_handshake_valid = False, vcf_vmc_fault_code = 0,
     vcf_vmc_fault_code_valid = False, vcf_parking_brake_switch = 0, vcf_parking_brake_switch_valid = False,
     vcf_brake_pedal_switch = 0, vcf_brake_pedal_switch_valid = False,
     vcf_parking_brake_status = replicate 4 0, vcf_parking_brake_valid = replicate 4 False,
     vcf_motor_mode = replicate 8 0, vcf_motor_mode_valid = replicate 8 False,
     vcf_motor_torque_nm = replicate 8 zero, vcf_motor_torque_valid = replicate 8 False,
     vcf_motor_speed_rpm = replicate 8 zero, vcf_motor_speed_valid = replicate 8 False,
     vcf_steering_mode = replicate 4 0, vcf_steering_valid = replicate 4 False,
     vcf_steering_angle_deg = replicate 4 zero, vcf_brake_mode = replicate 8 0,
     vcf_brake_valid = replicate 8 False, vcf_brake_pressure_bar = replicate 8 zero\<rparr>"

record vehicle_telemetry =
  tel_speed_mps :: double
  tel_gear :: string
  tel_steering_feedback :: double
  tel_throttle_feedback :: double
  tel_brake_feedback :: double
  tel_estop :: bool
  tel_stop_source :: string
  tel_stop_reason :: string
  tel_stop_sequence :: uint64
  tel_can_feedback :: vehicle_can_feedback

definition default_telemetry :: vehicle_telemetry where
  "default_telemetry = \<lparr>tel_speed_mps = zero, tel_gear = ''N'', tel_steering_feedback = zero,
     tel_throttle_feedback = zero, tel_brake_feedback = zero, tel_estop = False,
     tel_stop_source = ''none'', tel_stop_reason = ''none'', tel_stop_sequence = 0,
     tel_can_feedback = default_can_feedback\<rparr>"

record vehicle_adapter_status =
  vas_adapter_type :: string
  vas_opened :: bool
  vas_healthy :: bool
  vas_can_interface :: string
  vas_library_path :: string
  vas_applied_command_count :: uint64
  vas_safe_stop_count :: uint64
  vas_last_error :: string
  vas_feedback_ready :: bool
  vas_can_bitrate :: int
  vas_can_tx_queue_length :: int

record vcu_handshake_status =
  vhs_supported :: bool
  vhs_state :: string
  vhs_requested :: bool
  vhs_ready :: bool
  vhs_disarming :: bool
  vhs_parking_ready :: bool
  vhs_driver_gear_request :: int
  vhs_driver_gear_request_valid :: bool
  vhs_handshake_status :: int
  vhs_handshake_valid :: bool
  vhs_handshake_revoked :: bool
  vhs_revoked_handshake_status :: int
  vhs_vmc_fault_code :: int
  vhs_vmc_fault_code_valid :: bool
  vhs_parking_brake_switch :: int
  vhs_parking_brake_switch_valid :: bool
  vhs_brake_pedal_switch :: int
  vhs_brake_pedal_switch_valid :: bool
  vhs_epb_status :: "int list"
  vhs_epb_valid :: "bool list"
  vhs_speed_mps :: double
  vhs_speed_valid :: bool

definition default_handshake_status :: vcu_handshake_status where
  "default_handshake_status = \<lparr>vhs_supported = False, vhs_state = ''unsupported'', vhs_requested = False,
     vhs_ready = False, vhs_disarming = False, vhs_parking_ready = False,
     vhs_driver_gear_request = 0, vhs_driver_gear_request_valid = False,
     vhs_handshake_status = 0, vhs_handshake_valid = False, vhs_handshake_revoked = False,
     vhs_revoked_handshake_status = 0, vhs_vmc_fault_code = 0, vhs_vmc_fault_code_valid = False,
     vhs_parking_brake_switch = 0, vhs_parking_brake_switch_valid = False,
     vhs_brake_pedal_switch = 0, vhs_brake_pedal_switch_valid = False,
     vhs_epb_status = replicate 4 0, vhs_epb_valid = replicate 4 False,
     vhs_speed_mps = zero, vhs_speed_valid = False\<rparr>"

subsection \<open>The interface\<close>

text \<open>
  The virtual functions of \<open>VehicleAdapter\<close> over the adapter's own state. The service is
  developed for every value of this type.
\<close>

record 'a vehicle_adapter =
  ad_open :: "('a, unit) oper"
  ad_close :: "('a, unit) oper"
  ad_configure_runtime_control_profile :: "session_control_profile \<Rightarrow> uint64 \<Rightarrow> ('a, uint64) oper"
  ad_clear_runtime_control_profile :: "('a, unit) oper"
  ad_apply_control :: "control_command \<Rightarrow> ('a, unit) oper"
  ad_apply_safe_stop :: "control_output \<Rightarrow> vehicle_stop_context \<Rightarrow> ('a, unit) oper"
  ad_poll_feedback :: "('a, bool) oper"
  ad_request_vcu_handshake :: "('a, bool) oper"
  ad_disconnect_vcu_handshake :: "('a, bool) oper"
  ad_feedback_ready :: "'a \<Rightarrow> bool"
  ad_vcu_handshake_status :: "('a, vcu_handshake_status) oper"
  ad_read_telemetry :: "('a, vehicle_telemetry) oper"
  ad_status :: "'a \<Rightarrow> vehicle_adapter_status"

subsection \<open>Requests derived from a command\<close>

definition vehicle_normalized_brake_request :: "double \<Rightarrow> double \<Rightarrow> double \<Rightarrow> double res" where
  "vehicle_normalized_brake_request session_brake session_max vehicle_max =
     bindE (checks
       [require_finite_range session_brake zero one ''session_normalized_brake'',
        require_finite_range vehicle_max zero kMaxOrdinaryBrakePressureBar ''vehicle_max_brake_pressure_bar'',
        require_finite_range session_max zero vehicle_max ''session_max_brake_pressure_bar''])
     (\<lambda>_. Inr (if dlt zero vehicle_max then ddiv (dmul session_brake session_max) vehicle_max else zero))"

definition dynamic_adapter_target_speed_mps :: "control_command \<Rightarrow> double \<Rightarrow> double res" where
  "dynamic_adapter_target_speed_mps c max_speed_mps =
     bindE (checks
       [control_command_validate c,
        throw_if (\<not> isfinite max_speed_mps \<or> dlt max_speed_mps zero)
          (InvalidArgument ''max_speed_mps must be finite and non-negative'')])
     (\<lambda>_. let driving_gear = gear c = ''D'' \<or> gear c = ''R''
           in Inr (if driving_gear \<and> deq (brake c) zero
                   then dmul (dclamp (throttle c) zero one) max_speed_mps else zero))"

definition dynamic_adapter_target_acceleration ::
  "control_command \<Rightarrow> double \<Rightarrow> double \<Rightarrow> double \<Rightarrow> double res" where
  "dynamic_adapter_target_acceleration c traction_ceiling session_max vehicle_max =
     bindE (checks
       [control_command_validate c,
        require_finite_range traction_ceiling zero one ''traction_ceiling''])
     (\<lambda>_. bindE (vehicle_normalized_brake_request (brake c) session_max vehicle_max)
       (\<lambda>brake_ratio. Inr (if dlt zero (brake c) then dneg brake_ratio
          else if dlt zero (throttle c) then traction_ceiling else zero)))"

subsection \<open>Mock adapter\<close>

record mock_adapter =
  ma_opened :: bool
  ma_latest_output :: "control_output option"
  ma_latest_stop_context :: vehicle_stop_context
  ma_stop_sequence :: uint64
  ma_applied_command_count :: uint64
  ma_safe_stop_count :: uint64
  ma_session_motor_torque_limit_nm :: double
  ma_session_brake_pressure_limit_bar :: double
  ma_runtime_control_profile_revision :: uint64

definition mock_new :: mock_adapter where
  "mock_new = \<lparr>ma_opened = False, ma_latest_output = None,
     ma_latest_stop_context = stop_context SourceNone ReasonNone, ma_stop_sequence = 0,
     ma_applied_command_count = 0, ma_safe_stop_count = 0,
     ma_session_motor_torque_limit_nm = zero, ma_session_brake_pressure_limit_bar = zero,
     ma_runtime_control_profile_revision = 0\<rparr>"

definition mock_open :: "(mock_adapter, unit) oper" where
  "mock_open = modifyS (\<lambda>s. s\<lparr>ma_opened := True\<rparr>)"

definition mock_close :: "(mock_adapter, unit) oper" where
  "mock_close = modifyS (\<lambda>s. s\<lparr>ma_opened := False\<rparr>)"

definition mock_configure :: "session_control_profile \<Rightarrow> uint64 \<Rightarrow> (mock_adapter, uint64) oper" where
  "mock_configure p revision =
     bindS (liftS (checks [profile_validate p,
         throw_if (revision = 0) (InvalidArgument ''profile_revision must be positive'')]))
      (\<lambda>_. bindS (modifyS (\<lambda>s. s\<lparr>ma_session_motor_torque_limit_nm := max_motor_torque_nm p,
               ma_session_brake_pressure_limit_bar := max_brake_pressure_bar p,
               ma_runtime_control_profile_revision := revision\<rparr>))
      (\<lambda>_. getS ma_runtime_control_profile_revision))"

definition mock_clear :: "(mock_adapter, unit) oper" where
  "mock_clear = modifyS (\<lambda>s. s\<lparr>ma_session_motor_torque_limit_nm := zero,
     ma_session_brake_pressure_limit_bar := zero, ma_runtime_control_profile_revision := 0\<rparr>)"

definition mock_apply_control :: "control_command \<Rightarrow> (mock_adapter, unit) oper" where
  "mock_apply_control c s =
     (if \<not> ma_opened s then (Inl (RuntimeError ''mock vehicle adapter is not open''), s)
      else (Inr (), s\<lparr>ma_latest_output := Some (mk_output (gear c) (steering c) (throttle c) (brake c) (estop c) False),
              ma_applied_command_count := ma_applied_command_count s + 1\<rparr>))"

definition mock_apply_safe_stop :: "control_output \<Rightarrow> vehicle_stop_context \<Rightarrow> (mock_adapter, unit) oper" where
  "mock_apply_safe_stop out ctx s =
     (if \<not> ma_opened s then (Inl (RuntimeError ''mock vehicle adapter is not open''), s)
      else let stop_was_active = (case ma_latest_output s of None \<Rightarrow> False | Some o' \<Rightarrow> out_estop o');
               stop_is_active = out_estop out;
               s1 = s\<lparr>ma_latest_output := Some out\<rparr>;
               s2 = (if stop_is_active \<and> \<not> stop_was_active
                     then s1\<lparr>ma_latest_stop_context := ctx, ma_stop_sequence := ma_stop_sequence s1 + 1\<rparr>
                     else if \<not> stop_is_active
                     then s1\<lparr>ma_latest_stop_context := stop_context SourceNone ReasonNone\<rparr>
                     else s1)
           in (Inr (), s2\<lparr>ma_safe_stop_count := ma_safe_stop_count s2 + 1\<rparr>))"

definition mock_read_telemetry :: "(mock_adapter, vehicle_telemetry) oper" where
  "mock_read_telemetry s = (Inr (case ma_latest_output s of
       None \<Rightarrow> default_telemetry
     | Some out \<Rightarrow>
         (let t = default_telemetry\<lparr>tel_speed_mps := dmul (out_throttle out) (dbl 2), tel_gear := out_gear out,
                tel_steering_feedback := out_steering out, tel_throttle_feedback := out_throttle out,
                tel_brake_feedback := out_brake out, tel_estop := out_estop out\<rparr>;
              ctx = ma_latest_stop_context s
          in if out_estop out
             then t\<lparr>tel_stop_source := bridge_stop_source (source_value (stop_source_of ctx))
                                                          (reason_value (stop_reason_of ctx)),
                    tel_stop_reason := bridge_stop_reason (reason_value (stop_reason_of ctx)),
                    tel_stop_sequence := ma_stop_sequence s\<rparr>
             else t)), s)"

definition mock_status :: "mock_adapter \<Rightarrow> vehicle_adapter_status" where
  "mock_status s = \<lparr>vas_adapter_type = ''mock'', vas_opened = ma_opened s, vas_healthy = True,
     vas_can_interface = [], vas_library_path = [],
     vas_applied_command_count = ma_applied_command_count s, vas_safe_stop_count = ma_safe_stop_count s,
     vas_last_error = [], vas_feedback_ready = ma_opened s, vas_can_bitrate = 0, vas_can_tx_queue_length = 0\<rparr>"

definition mock_vehicle_adapter :: "mock_adapter vehicle_adapter" where
  "mock_vehicle_adapter = \<lparr>ad_open = mock_open, ad_close = mock_close,
     ad_configure_runtime_control_profile = mock_configure, ad_clear_runtime_control_profile = mock_clear,
     ad_apply_control = mock_apply_control, ad_apply_safe_stop = mock_apply_safe_stop,
     ad_poll_feedback = getS ma_opened, ad_request_vcu_handshake = returnS False,
     ad_disconnect_vcu_handshake = returnS False, ad_feedback_ready = ma_opened,
     ad_vcu_handshake_status = returnS default_handshake_status,
     ad_read_telemetry = mock_read_telemetry, ad_status = mock_status\<rparr>"

end
