(* ===== verification/Bridge_Abi.thy ===== *)
theory Bridge_Abi
  imports Binary64
begin

text \<open>
  The structures of the C interface of the chassis bridge, as both sides see them:
  \<open>mine_teleop_chassis_bridge.h\<close> and its mirror in \<open>cpp/src/core.cpp\<close>.
\<close>

subsection \<open>Bridge structures\<close>

record bridge_abi =
  abi_version :: uint32
  open_config_v4_size :: uint32
  open_config_v3_size :: uint32
  open_config_v2_size :: uint32
  runtime_control_config_v1_size :: uint32
  runtime_control_config_v2_size :: uint32
  runtime_control_config_v3_size :: uint32
  stop_context_v1_size :: uint32

record bridge_open_config_v4 =
  oc_struct_size :: uint32
  oc_can_interface :: string
  oc_full_scale_motor_torque_nm :: double
  oc_hard_speed_limit_mps :: double
  oc_control_timeout_ms :: int
  oc_speed_feedback_timeout_ms :: int
  oc_speed_pid_kp :: double
  oc_speed_pid_ki :: double
  oc_speed_pid_kd :: double
  oc_speed_pid_derivative_filter_tau_ms :: double
  oc_speed_pid_max_dt_ms :: int
  oc_hard_overspeed_margin_mps :: double
  oc_max_ordinary_brake_pressure_bar :: double
  oc_motor_torque_rise_rate_nm_per_s :: double

record bridge_runtime_control_config_v3 =
  rc_struct_size :: uint32
  rc_profile_version :: uint32
  rc_profile_revision :: uint64
  rc_target_speed_limit_mps :: double
  rc_max_motor_torque_nm :: double
  rc_max_brake_pressure_bar :: double
  rc_max_steering_request :: double
  rc_speed_pid_kp :: double
  rc_speed_pid_ki :: double
  rc_speed_pid_kd :: double
  rc_speed_pid_derivative_filter_tau_ms :: double
  rc_speed_pid_max_dt_ms :: int
  rc_reserved :: uint32
  rc_motor_torque_rise_rate_nm_per_s :: double
  rc_parking_idle_timeout_ms :: int
  rc_parking_reserved :: uint32

record bridge_runtime_control_result_v1 =
  rr_struct_size :: uint32
  rr_result_code :: int
  rr_issue_id :: uint32
  rr_reserved :: uint32
  rr_applied_revision :: uint64

record bridge_apply_result_v1 =
  ar_struct_size :: uint32
  ar_result_code :: int
  ar_issue_id :: uint32
  ar_reserved :: uint32

record bridge_stop_context_v1 =
  sc_struct_size :: uint32
  sc_stop_source :: uint32
  sc_stop_reason :: uint32
  sc_reserved :: uint32

record bridge_telemetry =
  bt_speed_mps :: double
  bt_gear :: int
  bt_steering_feedback :: double
  bt_throttle_feedback :: double
  bt_brake_feedback :: double
  bt_estop :: int
  bt_stop_source :: uint32
  bt_stop_reason :: uint32
  bt_stop_sequence :: uint64

record bridge_handshake_status =
  bh_state :: int
  bh_requested :: int
  bh_ready :: int
  bh_disarming :: int
  bh_parking_ready :: int
  bh_driver_gear_request :: int
  bh_driver_gear_request_valid :: int
  bh_handshake_status :: int
  bh_handshake_valid :: int
  bh_epb_status :: "int list"
  bh_epb_valid :: "int list"
  bh_speed_mps :: double
  bh_speed_valid :: int
  bh_handshake_revoked :: int
  bh_revoked_handshake_status :: int
  bh_vmc_fault_code :: int
  bh_vmc_fault_code_valid :: int
  bh_parking_brake_switch :: int
  bh_parking_brake_switch_valid :: int
  bh_brake_pedal_switch :: int
  bh_brake_pedal_switch_valid :: int

record bridge_can_feedback_v1 =
  bc_feedback_fresh :: int
  bc_max_feedback_age_ms :: int
  bc_speed_mps :: double
  bc_speed_valid :: int
  bc_gear :: int
  bc_gear_valid :: int
  bc_emergency_switch :: int
  bc_driver_gear_request :: int
  bc_driver_gear_request_valid :: int
  bc_handshake_status :: int
  bc_handshake_valid :: int
  bc_epb_status :: "int list"
  bc_epb_valid :: "int list"
  bc_motor_mode :: "int list"
  bc_motor_mode_valid :: "int list"
  bc_motor_torque_nm :: "double list"
  bc_motor_torque_valid :: "int list"
  bc_motor_speed_rpm :: "double list"
  bc_motor_speed_valid :: "int list"
  bc_steering_mode :: "int list"
  bc_steering_valid :: "int list"
  bc_steering_angle_deg :: "double list"
  bc_brake_mode :: "int list"
  bc_brake_valid :: "int list"
  bc_brake_pressure_bar :: "double list"
  bc_vmc_fault_code :: int
  bc_vmc_fault_code_valid :: int
  bc_parking_brake_switch :: int
  bc_parking_brake_switch_valid :: int
  bc_brake_pedal_switch :: int
  bc_brake_pedal_switch_valid :: int

text \<open>The sizes of the structures on a 64-bit target, as the source asserts them.\<close>

definition sizeof_open_config_v2 :: uint32 where
  "sizeof_open_config_v2 = 88"
definition sizeof_open_config_v3 :: uint32 where
  "sizeof_open_config_v3 = 96"
definition sizeof_open_config_v4 :: uint32 where
  "sizeof_open_config_v4 = 104"
definition sizeof_runtime_config_v1 :: uint32 where
  "sizeof_runtime_config_v1 = 88"
definition sizeof_runtime_config_v2 :: uint32 where
  "sizeof_runtime_config_v2 = 96"
definition sizeof_runtime_config_v3 :: uint32 where
  "sizeof_runtime_config_v3 = 104"
definition sizeof_runtime_result :: uint32 where
  "sizeof_runtime_result = 24"
definition sizeof_apply_result :: uint32 where
  "sizeof_apply_result = 16"
definition sizeof_stop_context :: uint32 where
  "sizeof_stop_context = 16"

end
