(* ===== verification/Dynamic_Adapter.thy ===== *)
theory Dynamic_Adapter
  imports Adapter Bridge_Abi
begin

text \<open>
  \<open>DynamicLibraryVehicleAdapter\<close> of \<open>cpp/src/core.cpp\<close>. The chassis bridge is a shared library
  loaded at run time: its exported functions, the dynamic loader and the SocketCAN set-up are
  the fields of \<open>chassis_bridge\<close>, arbitrary functions over an arbitrary state.
\<close>

subsection \<open>Version of the library\<close>

definition word_to_string :: "'a::len word \<Rightarrow> string" where
  "word_to_string w = int_to_string (uint w)"

definition validate_chassis_bridge_abi :: "bridge_abi \<Rightarrow> unit res" where
  "validate_chassis_bridge_abi a = checks
     [throw_if (runtime_control_config_v3_size a \<noteq> sizeof_runtime_config_v3)
        (RuntimeError ''chassis runtime control V3 ABI size mismatch''),
      throw_if (abi_version a \<noteq> 6 \<or> open_config_v4_size a \<noteq> sizeof_open_config_v4 \<or>
          open_config_v3_size a \<noteq> sizeof_open_config_v3 \<or> open_config_v2_size a \<noteq> sizeof_open_config_v2 \<or>
          runtime_control_config_v1_size a \<noteq> sizeof_runtime_config_v1 \<or>
          runtime_control_config_v2_size a \<noteq> sizeof_runtime_config_v2 \<or>
          stop_context_v1_size a \<noteq> sizeof_stop_context)
        (RuntimeError (concat
          [''chassis bridge ABI mismatch: expected version 6 and V4 config size '', word_to_string sizeof_open_config_v4,
           '', got version '', word_to_string (abi_version a), '' and size '', word_to_string (open_config_v4_size a),
           ''; legacy V3 size expected '', word_to_string sizeof_open_config_v3,
           '', got '', word_to_string (open_config_v3_size a),
           ''; legacy V2 size expected '', word_to_string sizeof_open_config_v2,
           '', got '', word_to_string (open_config_v2_size a),
           ''; runtime control V1 size expected '', word_to_string sizeof_runtime_config_v1,
           '', got '', word_to_string (runtime_control_config_v1_size a),
           ''; runtime control V2 size expected '', word_to_string sizeof_runtime_config_v2,
           '', got '', word_to_string (runtime_control_config_v2_size a),
           ''; stop context V1 size expected '', word_to_string sizeof_stop_context,
           '', got '', word_to_string (stop_context_v1_size a)]))]"

subsection \<open>The loaded library\<close>

text \<open>
  \<open>br_load\<close> is \<open>dlopen\<close>, the symbol look-ups and the size queries; \<open>br_prepare_socketcan\<close> is
  the operating system's CAN set-up. A function that fills a structure returns it with its
  result code.
\<close>

record 'b chassis_bridge =
  br_load :: "string \<Rightarrow> ('b, bridge_abi) oper"
  br_prepare_socketcan :: "string \<Rightarrow> int \<Rightarrow> int \<Rightarrow> ('b, unit) oper"
  br_open_v4 :: "bridge_open_config_v4 \<Rightarrow> 'b \<Rightarrow> int \<times> 'b"
  br_close :: "'b \<Rightarrow> int \<times> 'b"
  br_configure_runtime_control_v3 ::
    "bridge_runtime_control_config_v3 \<Rightarrow> 'b \<Rightarrow> (int \<times> bridge_runtime_control_result_v1) \<times> 'b"
  br_clear_runtime_control :: "'b \<Rightarrow> (int \<times> bridge_runtime_control_result_v1) \<times> 'b"
  br_apply_v3 ::
    "int \<Rightarrow> double \<Rightarrow> double \<Rightarrow> double list \<Rightarrow> int \<Rightarrow> int \<Rightarrow> 'b \<Rightarrow> (int \<times> bridge_apply_result_v1) \<times> 'b"
  br_apply :: "int \<Rightarrow> double \<Rightarrow> double \<Rightarrow> double list \<Rightarrow> int \<Rightarrow> 'b \<Rightarrow> int \<times> 'b"
  br_set_stop_context :: "bridge_stop_context_v1 \<Rightarrow> 'b \<Rightarrow> int \<times> 'b"
  br_emergency_stop :: "'b \<Rightarrow> int \<times> 'b"
  br_request_handshake :: "'b \<Rightarrow> int \<times> 'b"
  br_disconnect_handshake :: "'b \<Rightarrow> int \<times> 'b"
  br_poll_feedback :: "'b \<Rightarrow> int \<times> 'b"
  br_read_handshake :: "'b \<Rightarrow> (int \<times> bridge_handshake_status) \<times> 'b"
  br_read_telemetry :: "'b \<Rightarrow> (int \<times> bridge_telemetry) \<times> 'b"
  br_read_can_feedback :: "'b \<Rightarrow> (int \<times> bridge_can_feedback_v1) \<times> 'b"

record 'b dynamic_adapter =
  da_library_path :: string
  da_can_interface :: string
  da_can_bitrate :: int
  da_can_tx_queue_length :: int
  da_max_speed_mps :: double
  da_full_scale_motor_torque_nm :: double
  da_motor_torque_rise_rate_nm_per_s :: double
  da_max_ordinary_brake_pressure_bar :: double
  da_session_motor_torque_limit_nm :: double
  da_session_brake_pressure_limit_bar :: double
  da_runtime_control_profile_revision :: uint64
  da_control_timeout_ms :: int
  da_speed_feedback_timeout_ms :: int
  da_speed_pid_kp :: double
  da_speed_pid_ki :: double
  da_speed_pid_kd :: double
  da_speed_pid_derivative_filter_tau_ms :: double
  da_speed_pid_max_dt_ms :: int
  da_hard_overspeed_margin_mps :: double
  da_loaded :: bool
  da_opened :: bool
  da_feedback_ready :: bool
  da_applied_command_count :: uint64
  da_safe_stop_count :: uint64
  da_last_error :: string
  da_bridge :: 'b

definition kMinSpeedFeedbackTimeoutMs :: int where
  "kMinSpeedFeedbackTimeoutMs = 20"
definition kMaxSpeedFeedbackTimeoutMs :: int where
  "kMaxSpeedFeedbackTimeoutMs = 500"
definition kMaxHardOverspeedMarginKph :: double where
  "kMaxHardOverspeedMarginKph = dbl 36"

text \<open>\<open>!std::isfinite(x) || x < lo || x > hi\<close> is the negation of \<^const>\<open>in_range\<close>.\<close>

definition adapter_config_ok :: "'b dynamic_adapter \<Rightarrow> bool" where
  "adapter_config_ok s \<longleftrightarrow>
     da_library_path s \<noteq> [] \<and> da_can_interface s \<noteq> [] \<and> 0 < da_can_bitrate s \<and>
     16 \<le> da_can_tx_queue_length s \<and>
     in_range (da_max_speed_mps s) zero kChassisControlMaxTargetSpeedMps \<and>
     in_range (da_full_scale_motor_torque_nm s) zero kMaxFullScaleMotorTorqueNm \<and>
     in_range (da_motor_torque_rise_rate_nm_per_s s) zero kMaxMotorTorqueRiseRateNmPerSecond \<and>
     in_range (da_max_ordinary_brake_pressure_bar s) zero kMaxOrdinaryBrakePressureBar \<and>
     20 \<le> da_control_timeout_ms s \<and> da_control_timeout_ms s \<le> 60000 \<and>
     kMinSpeedFeedbackTimeoutMs \<le> da_speed_feedback_timeout_ms s \<and>
     da_speed_feedback_timeout_ms s \<le> kMaxSpeedFeedbackTimeoutMs \<and>
     da_speed_feedback_timeout_ms s \<le> da_control_timeout_ms s \<and>
     in_range (da_speed_pid_kp s) zero kMaxSpeedPidGain \<and> \<not> dle (da_speed_pid_kp s) zero \<and>
     in_range (da_speed_pid_ki s) zero kMaxSpeedPidGain \<and>
     in_range (da_speed_pid_kd s) zero kMaxSpeedPidGain \<and>
     isfinite (da_speed_pid_derivative_filter_tau_ms s) \<and>
     \<not> dlt (da_speed_pid_derivative_filter_tau_ms s) zero \<and>
     \<not> dlt kMaxSpeedPidDerivativeFilterTauMs (da_speed_pid_derivative_filter_tau_ms s) \<and>
     kMinSpeedPidMaxDtMs \<le> da_speed_pid_max_dt_ms s \<and> da_speed_pid_max_dt_ms s \<le> kMaxSpeedPidMaxDtMs \<and>
     isfinite (da_hard_overspeed_margin_mps s) \<and> \<not> dle (da_hard_overspeed_margin_mps s) zero \<and>
     \<not> dlt (ddiv kMaxHardOverspeedMarginKph (dbl (36 / 10))) (da_hard_overspeed_margin_mps s)"

definition dynamic_new ::
  "string \<Rightarrow> string \<Rightarrow> int \<Rightarrow> int \<Rightarrow> double \<Rightarrow> double \<Rightarrow> double \<Rightarrow> double \<Rightarrow> int \<Rightarrow> int \<Rightarrow>
   double \<Rightarrow> double \<Rightarrow> double \<Rightarrow> double \<Rightarrow> int \<Rightarrow> double \<Rightarrow> 'b \<Rightarrow> 'b dynamic_adapter res" where
  "dynamic_new library can bitrate queue max_speed full_scale rise max_brake control_timeout
     feedback_timeout kp ki kd tau max_dt margin b =
     (let s = \<lparr>da_library_path = library, da_can_interface = can, da_can_bitrate = bitrate,
            da_can_tx_queue_length = queue, da_max_speed_mps = max_speed,
            da_full_scale_motor_torque_nm = full_scale, da_motor_torque_rise_rate_nm_per_s = rise,
            da_max_ordinary_brake_pressure_bar = max_brake,
            da_session_motor_torque_limit_nm = zero, da_session_brake_pressure_limit_bar = zero,
            da_runtime_control_profile_revision = 0,
            da_control_timeout_ms = control_timeout, da_speed_feedback_timeout_ms = feedback_timeout,
            da_speed_pid_kp = kp, da_speed_pid_ki = ki, da_speed_pid_kd = kd,
            da_speed_pid_derivative_filter_tau_ms = tau, da_speed_pid_max_dt_ms = max_dt,
            da_hard_overspeed_margin_mps = margin, da_loaded = False, da_opened = False,
            da_feedback_ready = False, da_applied_command_count = 0, da_safe_stop_count = 0,
            da_last_error = [], da_bridge = b\<rparr>
      in if \<not> adapter_config_ok s
         then Inl (InvalidArgument ''dynamic adapter configuration is incomplete'') else Inr s)"

subsection \<open>Operations\<close>

definition bridge_call :: "('b \<Rightarrow> 'r \<times> 'b) \<Rightarrow> ('b dynamic_adapter, 'r) oper" where
  "bridge_call f s = (let (r, b) = f (da_bridge s) in (Inr r, s\<lparr>da_bridge := b\<rparr>))"

definition bridge_oper :: "('b, 'r) oper \<Rightarrow> ('b dynamic_adapter, 'r) oper" where
  "bridge_oper m s = (let (r, b) = m (da_bridge s) in (r, s\<lparr>da_bridge := b\<rparr>))"

definition not_open :: exn where
  "not_open = RuntimeError ''dynamic vehicle adapter is not open''"

definition require_open :: "('b dynamic_adapter, unit) oper" where
  "require_open s = (if da_opened s then (Inr (), s) else (Inl not_open, s))"

definition check_result :: "int \<Rightarrow> string \<Rightarrow> ('b dynamic_adapter, unit) oper" where
  "check_result code operation s =
     (if code = 0 then (Inr (), s\<lparr>da_last_error := []\<rparr>)
      else let m = operation @ '' failed with code '' @ int_to_string code
           in (Inl (RuntimeError m), s\<lparr>da_last_error := m\<rparr>))"

definition ensure_loaded :: "'b chassis_bridge \<Rightarrow> ('b dynamic_adapter, unit) oper" where
  "ensure_loaded B =
     bindS (getS da_loaded) (\<lambda>loaded. whenS (\<not> loaded)
       (bindS (getS da_library_path) (\<lambda>path.
        bindS (bridge_oper (br_load B path)) (\<lambda>abi.
        thenS (liftS (validate_chassis_bridge_abi abi))
              (modifyS (\<lambda>s. s\<lparr>da_loaded := True\<rparr>))))))"

definition open_config :: "'b dynamic_adapter \<Rightarrow> bridge_open_config_v4" where
  "open_config s = \<lparr>oc_struct_size = sizeof_open_config_v4, oc_can_interface = da_can_interface s,
     oc_full_scale_motor_torque_nm = da_full_scale_motor_torque_nm s,
     oc_hard_speed_limit_mps = da_max_speed_mps s,
     oc_control_timeout_ms = da_control_timeout_ms s,
     oc_speed_feedback_timeout_ms = da_speed_feedback_timeout_ms s,
     oc_speed_pid_kp = da_speed_pid_kp s, oc_speed_pid_ki = da_speed_pid_ki s,
     oc_speed_pid_kd = da_speed_pid_kd s,
     oc_speed_pid_derivative_filter_tau_ms = da_speed_pid_derivative_filter_tau_ms s,
     oc_speed_pid_max_dt_ms = da_speed_pid_max_dt_ms s,
     oc_hard_overspeed_margin_mps = da_hard_overspeed_margin_mps s,
     oc_max_ordinary_brake_pressure_bar = da_max_ordinary_brake_pressure_bar s,
     oc_motor_torque_rise_rate_nm_per_s = da_motor_torque_rise_rate_nm_per_s s\<rparr>"

definition dynamic_open :: "'b chassis_bridge \<Rightarrow> ('b dynamic_adapter, unit) oper" where
  "dynamic_open B = tryS
     (thenS (ensure_loaded B)
     (bindS (getS id) (\<lambda>s.
      thenS (bridge_oper (br_prepare_socketcan B (da_can_interface s) (da_can_bitrate s) (da_can_tx_queue_length s)))
     (bindS (bridge_call (br_open_v4 B (open_config s))) (\<lambda>code.
      thenS (check_result code ''mine_teleop_chassis_open_v4'')
            (modifyS (\<lambda>s. s\<lparr>da_opened := True\<rparr>)))))))
     (\<lambda>e. thenS (modifyS (\<lambda>s. s\<lparr>da_last_error := what e\<rparr>)) (throwS e))"

definition dynamic_close :: "'b chassis_bridge \<Rightarrow> ('b dynamic_adapter, unit) oper" where
  "dynamic_close B =
     bindS (getS (\<lambda>s. da_opened s \<and> da_loaded s)) (\<lambda>active. whenS active
       (bindS (bridge_call (br_close B)) (\<lambda>code.
        thenS (check_result code ''mine_teleop_chassis_close'')
              (modifyS (\<lambda>s. s\<lparr>da_opened := False, da_feedback_ready := False\<rparr>)))))"

definition runtime_config :: "session_control_profile \<Rightarrow> uint64 \<Rightarrow> bridge_runtime_control_config_v3" where
  "runtime_config p revision = \<lparr>rc_struct_size = sizeof_runtime_config_v3,
     rc_profile_version = word_of_int (profile_version p), rc_profile_revision = revision,
     rc_target_speed_limit_mps = ddiv (target_speed_kph p) (dbl (36 / 10)),
     rc_max_motor_torque_nm = max_motor_torque_nm p,
     rc_max_brake_pressure_bar = max_brake_pressure_bar p,
     rc_max_steering_request = ddiv (max_steering_angle_deg p) kChassisControlMaxSteeringAngleDeg,
     rc_speed_pid_kp = speed_pid_kp p, rc_speed_pid_ki = speed_pid_ki p, rc_speed_pid_kd = speed_pid_kd p,
     rc_speed_pid_derivative_filter_tau_ms = speed_pid_derivative_filter_tau_ms p,
     rc_speed_pid_max_dt_ms = speed_pid_max_dt_ms p, rc_reserved = 0,
     rc_motor_torque_rise_rate_nm_per_s = motor_torque_rise_rate_nm_per_s p,
     rc_parking_idle_timeout_ms = parking_idle_timeout_ms p, rc_parking_reserved = 0\<rparr>"

definition runtime_result_ok :: "int \<Rightarrow> uint64 \<Rightarrow> bridge_runtime_control_result_v1 \<Rightarrow> bool" where
  "runtime_result_ok code revision r \<longleftrightarrow>
     rr_struct_size r = sizeof_runtime_result \<and> rr_result_code r = code \<and> rr_reserved r = 0 \<and>
     (code = 0 \<longrightarrow> rr_issue_id r = 0 \<and> rr_applied_revision r = revision)"

definition dynamic_configure ::
  "'b chassis_bridge \<Rightarrow> session_control_profile \<Rightarrow> uint64 \<Rightarrow> ('b dynamic_adapter, uint64) oper" where
  "dynamic_configure B p revision =
     bindS require_open (\<lambda>_.
     bindS (getS id) (\<lambda>s.
     bindS (liftS (checks [profile_validate p,
        throw_if (revision = 0 \<or>
            dlt (dadd (dmul (da_max_speed_mps s) (dbl (36 / 10))) tolerance) (target_speed_kph p) \<or>
            dlt (dadd (da_full_scale_motor_torque_nm s) tolerance) (max_motor_torque_nm p) \<or>
            dlt (dadd (da_max_ordinary_brake_pressure_bar s) tolerance) (max_brake_pressure_bar p))
          (InvalidArgument ''runtime control profile exceeds vehicle limits'')])) (\<lambda>_.
     bindS (bridge_call (br_configure_runtime_control_v3 B (runtime_config p revision))) (\<lambda>(code, r).
     bindS (liftS (checks
       [throw_if (\<not> runtime_result_ok code revision r)
          (RuntimeError ''mine_teleop_chassis_configure_runtime_control_v3 returned an invalid result structure''),
        throw_if (code \<noteq> 0)
          (RuntimeError (''mine_teleop_chassis_configure_runtime_control_v3 rejected profile with code '' @
             int_to_string code @ '' and issue '' @ word_to_string (rr_issue_id r)))])) (\<lambda>_.
     bindS (modifyS (\<lambda>s. s\<lparr>da_session_motor_torque_limit_nm := max_motor_torque_nm p,
        da_session_brake_pressure_limit_bar := max_brake_pressure_bar p,
        da_runtime_control_profile_revision := rr_applied_revision r\<rparr>)) (\<lambda>_.
     getS da_runtime_control_profile_revision))))))"

definition dynamic_clear :: "'b chassis_bridge \<Rightarrow> ('b dynamic_adapter, unit) oper" where
  "dynamic_clear B =
     thenS require_open
     (bindS (bridge_call (br_clear_runtime_control B)) (\<lambda>(code, r).
      thenS (liftS (throw_if (\<not> runtime_result_ok code 0 r)
        (RuntimeError ''mine_teleop_chassis_clear_runtime_control_v1 returned an invalid result structure'')))
     (thenS (check_result code ''mine_teleop_chassis_clear_runtime_control_v1'')
      (modifyS (\<lambda>s. s\<lparr>da_session_motor_torque_limit_nm := zero, da_session_brake_pressure_limit_bar := zero,
         da_runtime_control_profile_revision := 0\<rparr>)))))"

definition apply_result_ok :: "int \<Rightarrow> bridge_apply_result_v1 \<Rightarrow> bool" where
  "apply_result_ok code r \<longleftrightarrow>
     ar_struct_size r = sizeof_apply_result \<and> ar_result_code r = code \<and> ar_reserved r = 0 \<and>
     (code = 0 \<longrightarrow> ar_issue_id r = kBridgeApplyIssueNone)"

text \<open>\<open>last_error_ = m; throw e\<close>.\<close>

definition fail_with :: "string \<Rightarrow> exn \<Rightarrow> ('b dynamic_adapter, unit) oper" where
  "fail_with m e = thenS (modifyS (\<lambda>s. s\<lparr>da_last_error := m\<rparr>)) (throwS e)"

definition traction_ceiling_of :: "'b dynamic_adapter \<Rightarrow> double" where
  "traction_ceiling_of s =
     (if dlt zero (da_full_scale_motor_torque_nm s)
      then ddiv (da_session_motor_torque_limit_nm s) (da_full_scale_motor_torque_nm s) else zero)"

definition dynamic_apply_control :: "'b chassis_bridge \<Rightarrow> control_command \<Rightarrow> ('b dynamic_adapter, unit) oper" where
  "dynamic_apply_control B c =
     thenS require_open
     (bindS (getS id) (\<lambda>s.
      bindS (liftS (dynamic_adapter_target_speed_mps c (da_max_speed_mps s))) (\<lambda>velocity.
      bindS (liftS (dynamic_adapter_target_acceleration c (traction_ceiling_of s)
               (da_session_brake_pressure_limit_bar s) (da_max_ordinary_brake_pressure_bar s))) (\<lambda>acceleration.
      bindS (liftS (gear_to_bridge_value (gear c))) (\<lambda>g.
      bindS (bridge_call (br_apply_v3 B g velocity acceleration (replicate 4 (steering c)) 4
               (if operator_active c \<and> \<not> estop c then 1 else 0))) (\<lambda>(code, r).
      let bad = ''mine_teleop_chassis_apply_state_v3 returned an invalid result structure'' in
      thenS (whenS (\<not> apply_result_ok code r) (fail_with bad (RuntimeError bad)))
      (thenS (whenS (code \<noteq> 0)
         (fail_with (''mine_teleop_chassis_apply_state_v3 rejected control with code '' @ int_to_string code)
            (control_rejected (bridge_apply_issue_code (ar_issue_id r)) code)))
       (modifyS (\<lambda>s. s\<lparr>da_last_error := [],
          da_applied_command_count := da_applied_command_count s + 1\<rparr>)))))))))"

definition dynamic_apply_safe_stop ::
  "'b chassis_bridge \<Rightarrow> control_output \<Rightarrow> vehicle_stop_context \<Rightarrow> ('b dynamic_adapter, unit) oper" where
  "dynamic_apply_safe_stop B out ctx =
     thenS require_open
     (thenS
       (if out_estop out \<or> full_emergency_brake out then
          bindS (bridge_call (br_set_stop_context B \<lparr>sc_struct_size = sizeof_stop_context,
              sc_stop_source = source_value (stop_source_of ctx),
              sc_stop_reason = reason_value (stop_reason_of ctx), sc_reserved = 0\<rparr>)) (\<lambda>code1.
          thenS (check_result code1 ''mine_teleop_chassis_set_stop_context_v1'')
         (bindS (bridge_call (br_emergency_stop B)) (\<lambda>code2.
          check_result code2 ''mine_teleop_chassis_emergency_stop'')))
        else
          bindS (liftS (gear_to_bridge_value (out_gear out))) (\<lambda>g.
          bindS (bridge_call (br_apply B g zero (dneg (out_brake out)) (replicate 4 (out_steering out)) 4)) (\<lambda>code.
          check_result code ''mine_teleop_chassis_apply_state'')))
       (modifyS (\<lambda>s. s\<lparr>da_safe_stop_count := da_safe_stop_count s + 1\<rparr>)))"

definition dynamic_poll_feedback :: "'b chassis_bridge \<Rightarrow> ('b dynamic_adapter, bool) oper" where
  "dynamic_poll_feedback B =
     bindS require_open (\<lambda>_.
     bindS (bridge_call (br_poll_feedback B)) (\<lambda>code.
     if code = 1 then returnS False
     else bindS (check_result code ''mine_teleop_chassis_poll_feedback'') (\<lambda>_.
          bindS (modifyS (\<lambda>s. s\<lparr>da_feedback_ready := True\<rparr>)) (\<lambda>_. returnS True))))"

definition dynamic_request_handshake :: "'b chassis_bridge \<Rightarrow> ('b dynamic_adapter, bool) oper" where
  "dynamic_request_handshake B =
     bindS require_open (\<lambda>_.
     bindS (bridge_call (br_request_handshake B)) (\<lambda>code.
     if code \<noteq> 0 then returnS False
     else bindS (modifyS (\<lambda>s. s\<lparr>da_feedback_ready := False\<rparr>)) (\<lambda>_. returnS True)))"

definition dynamic_disconnect_handshake :: "'b chassis_bridge \<Rightarrow> ('b dynamic_adapter, bool) oper" where
  "dynamic_disconnect_handshake B =
     bindS require_open (\<lambda>_.
     bindS (bridge_call (br_disconnect_handshake B)) (\<lambda>code.
     bindS (check_result code ''mine_teleop_chassis_disconnect_parallel_handshake'') (\<lambda>_.
     bindS (modifyS (\<lambda>s. s\<lparr>da_feedback_ready := False\<rparr>)) (\<lambda>_. returnS True))))"

definition handshake_status_of :: "bridge_handshake_status \<Rightarrow> vcu_handshake_status" where
  "handshake_status_of raw = \<lparr>vhs_supported = True, vhs_state = bridge_handshake_state (bh_state raw),
     vhs_requested = (bh_requested raw \<noteq> 0), vhs_ready = (bh_ready raw \<noteq> 0),
     vhs_disarming = (bh_disarming raw \<noteq> 0), vhs_parking_ready = (bh_parking_ready raw \<noteq> 0),
     vhs_driver_gear_request = bh_driver_gear_request raw,
     vhs_driver_gear_request_valid = (bh_driver_gear_request_valid raw \<noteq> 0),
     vhs_handshake_status = bh_handshake_status raw,
     vhs_handshake_valid = (bh_handshake_valid raw \<noteq> 0),
     vhs_handshake_revoked = (bh_handshake_revoked raw \<noteq> 0),
     vhs_revoked_handshake_status = bh_revoked_handshake_status raw,
     vhs_vmc_fault_code = bh_vmc_fault_code raw,
     vhs_vmc_fault_code_valid = (bh_vmc_fault_code_valid raw \<noteq> 0),
     vhs_parking_brake_switch = bh_parking_brake_switch raw,
     vhs_parking_brake_switch_valid = (bh_parking_brake_switch_valid raw \<noteq> 0),
     vhs_brake_pedal_switch = bh_brake_pedal_switch raw,
     vhs_brake_pedal_switch_valid = (bh_brake_pedal_switch_valid raw \<noteq> 0),
     vhs_epb_status = bh_epb_status raw, vhs_epb_valid = map (\<lambda>v. v \<noteq> 0) (bh_epb_valid raw),
     vhs_speed_mps = bh_speed_mps raw, vhs_speed_valid = (bh_speed_valid raw \<noteq> 0)\<rparr>"

definition dynamic_handshake_status :: "'b chassis_bridge \<Rightarrow> ('b dynamic_adapter, vcu_handshake_status) oper" where
  "dynamic_handshake_status B =
     bindS (getS da_opened) (\<lambda>opened.
     if \<not> opened then returnS (default_handshake_status\<lparr>vhs_supported := True, vhs_state := ''closed''\<rparr>)
     else bindS (bridge_call (br_read_handshake B)) (\<lambda>(code, raw).
       if code \<noteq> 0
       then throwS (RuntimeError (''mine_teleop_chassis_read_handshake_status failed with code '' @ int_to_string code))
       else returnS (handshake_status_of raw)))"

definition can_feedback_of :: "bridge_can_feedback_v1 \<Rightarrow> vehicle_can_feedback" where
  "can_feedback_of raw = \<lparr>vcf_supported = True, vcf_feedback_fresh = (bc_feedback_fresh raw \<noteq> 0),
     vcf_max_feedback_age_ms = bc_max_feedback_age_ms raw,
     vcf_speed_mps = bc_speed_mps raw, vcf_speed_valid = (bc_speed_valid raw \<noteq> 0),
     vcf_gear = bc_gear raw, vcf_gear_valid = (bc_gear_valid raw \<noteq> 0),
     vcf_emergency_switch = bc_emergency_switch raw,
     vcf_driver_gear_request = bc_driver_gear_request raw,
     vcf_driver_gear_request_valid = (bc_driver_gear_request_valid raw \<noteq> 0),
     vcf_handshake_status = bc_handshake_status raw, vcf_handshake_valid = (bc_handshake_valid raw \<noteq> 0),
     vcf_vmc_fault_code = bc_vmc_fault_code raw, vcf_vmc_fault_code_valid = (bc_vmc_fault_code_valid raw \<noteq> 0),
     vcf_parking_brake_switch = bc_parking_brake_switch raw,
     vcf_parking_brake_switch_valid = (bc_parking_brake_switch_valid raw \<noteq> 0),
     vcf_brake_pedal_switch = bc_brake_pedal_switch raw,
     vcf_brake_pedal_switch_valid = (bc_brake_pedal_switch_valid raw \<noteq> 0),
     vcf_parking_brake_status = bc_epb_status raw, vcf_parking_brake_valid = map (\<lambda>v. v \<noteq> 0) (bc_epb_valid raw),
     vcf_motor_mode = bc_motor_mode raw, vcf_motor_mode_valid = map (\<lambda>v. v \<noteq> 0) (bc_motor_mode_valid raw),
     vcf_motor_torque_nm = bc_motor_torque_nm raw,
     vcf_motor_torque_valid = map (\<lambda>v. v \<noteq> 0) (bc_motor_torque_valid raw),
     vcf_motor_speed_rpm = bc_motor_speed_rpm raw,
     vcf_motor_speed_valid = map (\<lambda>v. v \<noteq> 0) (bc_motor_speed_valid raw),
     vcf_steering_mode = bc_steering_mode raw, vcf_steering_valid = map (\<lambda>v. v \<noteq> 0) (bc_steering_valid raw),
     vcf_steering_angle_deg = bc_steering_angle_deg raw,
     vcf_brake_mode = bc_brake_mode raw, vcf_brake_valid = map (\<lambda>v. v \<noteq> 0) (bc_brake_valid raw),
     vcf_brake_pressure_bar = bc_brake_pressure_bar raw\<rparr>"

definition telemetry_of :: "bridge_telemetry \<Rightarrow> bridge_can_feedback_v1 \<Rightarrow> vehicle_telemetry" where
  "telemetry_of t raw = \<lparr>tel_speed_mps = bt_speed_mps t, tel_gear = bridge_value_to_gear (bt_gear t),
     tel_steering_feedback = bt_steering_feedback t, tel_throttle_feedback = bt_throttle_feedback t,
     tel_brake_feedback = bt_brake_feedback t, tel_estop = (bt_estop t \<noteq> 0),
     tel_stop_source = bridge_stop_source (bt_stop_source t) (bt_stop_reason t),
     tel_stop_reason = bridge_stop_reason (bt_stop_reason t),
     tel_stop_sequence = bt_stop_sequence t, tel_can_feedback = can_feedback_of raw\<rparr>"

definition dynamic_read_telemetry :: "'b chassis_bridge \<Rightarrow> ('b dynamic_adapter, vehicle_telemetry) oper" where
  "dynamic_read_telemetry B =
     bindS (bridge_call (br_read_telemetry B)) (\<lambda>(code1, t).
     bindS (check_result code1 ''mine_teleop_chassis_read_telemetry'') (\<lambda>_.
     bindS (bridge_call (br_read_can_feedback B)) (\<lambda>(code2, raw).
     bindS (check_result code2 ''mine_teleop_chassis_read_can_feedback_v1'') (\<lambda>_.
     returnS (telemetry_of t raw)))))"

definition dynamic_status :: "'b dynamic_adapter \<Rightarrow> vehicle_adapter_status" where
  "dynamic_status s = \<lparr>vas_adapter_type = ''dynamic_library'', vas_opened = da_opened s,
     vas_healthy = (da_last_error s = []), vas_can_interface = da_can_interface s,
     vas_library_path = da_library_path s, vas_applied_command_count = da_applied_command_count s,
     vas_safe_stop_count = da_safe_stop_count s, vas_last_error = da_last_error s,
     vas_feedback_ready = da_feedback_ready s, vas_can_bitrate = da_can_bitrate s,
     vas_can_tx_queue_length = da_can_tx_queue_length s\<rparr>"

definition dynamic_vehicle_adapter :: "'b chassis_bridge \<Rightarrow> 'b dynamic_adapter vehicle_adapter" where
  "dynamic_vehicle_adapter B = \<lparr>ad_open = dynamic_open B, ad_close = dynamic_close B,
     ad_configure_runtime_control_profile = dynamic_configure B,
     ad_clear_runtime_control_profile = dynamic_clear B,
     ad_apply_control = dynamic_apply_control B, ad_apply_safe_stop = dynamic_apply_safe_stop B,
     ad_poll_feedback = dynamic_poll_feedback B, ad_request_vcu_handshake = dynamic_request_handshake B,
     ad_disconnect_vcu_handshake = dynamic_disconnect_handshake B, ad_feedback_ready = da_feedback_ready,
     ad_vcu_handshake_status = dynamic_handshake_status B,
     ad_read_telemetry = dynamic_read_telemetry B, ad_status = dynamic_status\<rparr>"

end
