(* ===== verification/Control_Service.thy ===== *)
theory Control_Service
  imports Receiver Adapter
begin

text \<open>
  \<open>VehicleControlService\<close> of \<open>cpp/src/core.cpp\<close>: the receiver, the safety state machine and the
  vehicle adapter put together, with the session control profile that gives traction
  authority. Every definition is parametric in the adapter.
\<close>

subsection \<open>State\<close>

record telemetry_message =
  tm_seq :: uint64
  tm_sent_at_utc_ms :: int
  tm_safety_state :: string
  tm_telemetry :: vehicle_telemetry
  tm_adapter_status :: vehicle_adapter_status
  tm_handshake :: vcu_handshake_status

definition kMaxVehicleTelemetryHistory :: nat where
  "kMaxVehicleTelemetryHistory = 1024"

record 'a control_service =
  sv_vehicle_id :: string
  sv_driver_id :: string
  sv_session_id :: string
  sv_control_token :: string
  sv_commissioning_mode :: string
  sv_receiver :: control_receiver
  sv_safety :: safety_machine
  sv_adapter :: 'a
  sv_require_feedback :: bool
  sv_max_speed_kph :: double
  sv_max_throttle :: double
  sv_full_scale_motor_torque_nm :: double
  sv_max_brake_pressure_bar :: double
  sv_max_steering_angle_deg :: double
  sv_default_speed_pid_kp :: double
  sv_default_speed_pid_ki :: double
  sv_default_speed_pid_kd :: double
  sv_default_speed_pid_derivative_filter_tau_ms :: double
  sv_default_speed_pid_max_dt_ms :: int
  sv_default_motor_torque_rise_rate_nm_per_s :: double
  sv_telemetry_interval_ms :: int
  sv_last_telemetry_ms :: "int option"
  sv_telemetry_sequence :: uint64
  sv_telemetry_history :: "telemetry_message list"
  sv_active_profile :: "session_control_profile option"
  sv_last_request :: "session_control_profile_request option"
  sv_last_result :: "session_control_profile_result option"
  sv_last_effective_command :: "control_command option"
  sv_adapter_safe_stop_active :: bool
  sv_started :: bool

text \<open>The members of \<open>VehicleConfig\<close> that the constructor reads.\<close>

record control_service_config =
  cf_vehicle_id :: string
  cf_commissioning_mode :: string
  cf_max_command_gap_ms :: int
  cf_degraded_timeout_ms :: int
  cf_control_timeout_ms :: int
  cf_deceleration_profile :: "deceleration_stage list"
  cf_require_can_feedback_before_control :: bool
  cf_max_speed_kph :: double
  cf_max_throttle :: double
  cf_full_scale_motor_torque_nm :: double
  cf_max_brake_pressure_bar :: double
  cf_max_steering_angle_deg :: double
  cf_speed_pid_kp :: double
  cf_speed_pid_ki :: double
  cf_speed_pid_kd :: double
  cf_speed_pid_derivative_filter_tau_ms :: double
  cf_speed_pid_max_dt_ms :: int
  cf_motor_torque_rise_rate_nm_per_s :: double

definition service_new ::
  "control_service_config \<Rightarrow> string \<Rightarrow> string \<Rightarrow> string \<Rightarrow> 'a \<Rightarrow> int \<Rightarrow> 'a control_service res" where
  "service_new cfg driver session token a interval =
     bindE (receiver_new (cf_vehicle_id cfg) driver session (cf_max_command_gap_ms cfg) kProtocolVersion True token 5000)
     (\<lambda>rec. bindE (safety_new (cf_degraded_timeout_ms cfg) (cf_control_timeout_ms cfg) (cf_deceleration_profile cfg))
     (\<lambda>safety. if interval \<le> 0 then Inl (InvalidArgument ''telemetry interval must be positive'')
       else Inr \<lparr>sv_vehicle_id = cf_vehicle_id cfg, sv_driver_id = driver, sv_session_id = session,
         sv_control_token = token, sv_commissioning_mode = cf_commissioning_mode cfg,
         sv_receiver = rec, sv_safety = safety, sv_adapter = a,
         sv_require_feedback = cf_require_can_feedback_before_control cfg,
         sv_max_speed_kph = cf_max_speed_kph cfg, sv_max_throttle = cf_max_throttle cfg,
         sv_full_scale_motor_torque_nm = cf_full_scale_motor_torque_nm cfg,
         sv_max_brake_pressure_bar = cf_max_brake_pressure_bar cfg,
         sv_max_steering_angle_deg = cf_max_steering_angle_deg cfg,
         sv_default_speed_pid_kp = cf_speed_pid_kp cfg, sv_default_speed_pid_ki = cf_speed_pid_ki cfg,
         sv_default_speed_pid_kd = cf_speed_pid_kd cfg,
         sv_default_speed_pid_derivative_filter_tau_ms = cf_speed_pid_derivative_filter_tau_ms cfg,
         sv_default_speed_pid_max_dt_ms = cf_speed_pid_max_dt_ms cfg,
         sv_default_motor_torque_rise_rate_nm_per_s = cf_motor_torque_rise_rate_nm_per_s cfg,
         sv_telemetry_interval_ms = interval, sv_last_telemetry_ms = None, sv_telemetry_sequence = 0,
         sv_telemetry_history = [], sv_active_profile = None, sv_last_request = None, sv_last_result = None,
         sv_last_effective_command = None, sv_adapter_safe_stop_active = False, sv_started = False\<rparr>))"

subsection \<open>Calls\<close>

definition adapter_call :: "('a, 'r) oper \<Rightarrow> ('a control_service, 'r) oper" where
  "adapter_call m s = (let (r, a) = m (sv_adapter s) in (r, s\<lparr>sv_adapter := a\<rparr>))"

definition require_started :: "('a control_service, unit) oper" where
  "require_started s = (if sv_started s then (Inr (), s)
     else (Inl (RuntimeError ''vehicle control service is not started''), s))"

definition update_safety :: "(safety_machine \<Rightarrow> safety_machine) \<Rightarrow> ('a control_service, unit) oper" where
  "update_safety f = modifyS (\<lambda>s. s\<lparr>sv_safety := f (sv_safety s)\<rparr>)"

definition latching :: "'a control_service \<Rightarrow> bool" where
  "latching s \<longleftrightarrow> sm_state (sv_safety s) = Estop \<or> sm_state (sv_safety s) = Fault"

text \<open>\<open>clear_session_profile\<close>, which swallows the adapter's exceptions.\<close>

definition forget_profile :: "'a control_service \<Rightarrow> 'a control_service" where
  "forget_profile s = s\<lparr>sv_active_profile := None, sv_last_effective_command := None,
     sv_last_result := map_option (\<lambda>r. r\<lparr>res_accepted := False, res_idempotent := False,
       res_applied_revision := 0, res_reason := ''session_profile_cleared'',
       res_effective_profile := None\<rparr>) (sv_last_result s)\<rparr>"

definition ignoring :: "('s, unit) oper \<Rightarrow> ('s, unit) oper" where
  "ignoring m = tryS m (\<lambda>_. returnS ())"

definition clear_session_profile :: "'a vehicle_adapter \<Rightarrow> ('a control_service, unit) oper" where
  "clear_session_profile A =
     thenS (modifyS forget_profile) (ignoring (adapter_call (ad_clear_runtime_control_profile A)))"

definition refresh_adapter_safe_stop_state :: "'a vehicle_adapter \<Rightarrow> ('a control_service, bool) oper" where
  "refresh_adapter_safe_stop_state A = tryS
     (bindS (adapter_call (ad_read_telemetry A)) (\<lambda>telemetry.
      bindS (adapter_call (ad_vcu_handshake_status A)) (\<lambda>handshake.
      bindS (modifyS (\<lambda>s. s\<lparr>sv_adapter_safe_stop_active := tel_estop telemetry \<or> vhs_disarming handshake\<rparr>)) (\<lambda>_.
      bindS (getS sv_adapter_safe_stop_active) (\<lambda>active.
      bindS (whenS active (clear_session_profile A)) (\<lambda>_. returnS True))))))
     (\<lambda>_. returnS False)"

definition sv_start :: "'a vehicle_adapter \<Rightarrow> ('a control_service, unit) oper" where
  "sv_start A =
     bindS (getS sv_started) (\<lambda>started. whenS (\<not> started)
       (thenS (adapter_call (ad_open A))
       (thenS (tryS (adapter_call (ad_clear_runtime_control_profile A))
                (\<lambda>e. thenS (adapter_call (ad_close A)) (throwS e)))
       (thenS (update_safety mark_ready)
              (modifyS (\<lambda>s. s\<lparr>sv_started := True\<rparr>))))))"

subsection \<open>Watchdog\<close>

definition watchdog_context :: "safety_state \<Rightarrow> vehicle_stop_context" where
  "watchdog_context st =
     (if st = Degraded \<or> st = TimeoutBrake then stop_context Watchdog OuterControlTimeout
      else if st = Estop then stop_context DriverPage OperatorEstop
      else stop_context SoftwareFault VcuStateFault)"

definition evaluate_control_watchdog :: "'a vehicle_adapter \<Rightarrow> int \<Rightarrow> ('a control_service, unit) oper" where
  "evaluate_control_watchdog A now =
     thenS (update_safety (safety_tick now))
     (bindS (getS (\<lambda>s. sm_state (sv_safety s))) (\<lambda>st.
      whenS (st = Degraded \<or> st = TimeoutBrake \<or> st = Estop \<or> st = Fault)
        (thenS (whenS (st \<noteq> Degraded) (clear_session_profile A))
        (bindS (getS sv_adapter_safe_stop_active) (\<lambda>active.
         let adapter_owns_recoverable_stop = active \<and> (st = Degraded \<or> st = TimeoutBrake) in
         whenS (\<not> adapter_owns_recoverable_stop)
           (bindS (getS (\<lambda>s. current_output now (sv_safety s))) (\<lambda>out.
            adapter_call (ad_apply_safe_stop A out (watchdog_context st)))))))))"

subsection \<open>Telemetry\<close>

definition build_telemetry :: "'a vehicle_adapter \<Rightarrow> int \<Rightarrow> ('a control_service, telemetry_message) oper" where
  "build_telemetry A now =
     bindS (adapter_call (ad_read_telemetry A)) (\<lambda>t.
     bindS (modifyS (\<lambda>s. s\<lparr>sv_telemetry_sequence := sv_telemetry_sequence s + 1\<rparr>)) (\<lambda>_.
     bindS (getS id) (\<lambda>s.
     bindS (adapter_call (ad_vcu_handshake_status A)) (\<lambda>h.
     returnS \<lparr>tm_seq = sv_telemetry_sequence s, tm_sent_at_utc_ms = now,
       tm_safety_state = safety_to_string (sm_state (sv_safety s)), tm_telemetry = t,
       tm_adapter_status = ad_status A (sv_adapter s), tm_handshake = h\<rparr>))))"

definition record_telemetry :: "'a vehicle_adapter \<Rightarrow> int \<Rightarrow> ('a control_service, unit) oper" where
  "record_telemetry A now =
     bindS (getS (\<lambda>s. case sv_last_telemetry_ms s of None \<Rightarrow> True | Some t \<Rightarrow> sv_telemetry_interval_ms s \<le> now - t))
     (\<lambda>due. whenS due (ignoring
       (thenS (modifyS (\<lambda>s. if length (sv_telemetry_history s) = kMaxVehicleTelemetryHistory
                  then s\<lparr>sv_telemetry_history := tl (sv_telemetry_history s)\<rparr> else s))
       (bindS (build_telemetry A now) (\<lambda>m.
        modifyS (\<lambda>s. s\<lparr>sv_telemetry_history := sv_telemetry_history s @ [m], sv_last_telemetry_ms := Some now\<rparr>))))))"

text \<open>\<open>try { poll_feedback } catch\<close>: whether it threw.\<close>

definition poll_failed :: "'a vehicle_adapter \<Rightarrow> ('a control_service, bool) oper" where
  "poll_failed A = tryS (bindS (adapter_call (ad_poll_feedback A)) (\<lambda>_. returnS False)) (\<lambda>_. returnS True)"

definition sv_tick :: "'a vehicle_adapter \<Rightarrow> int \<Rightarrow> ('a control_service, unit) oper" where
  "sv_tick A now =
     thenS require_started
     (bindS (poll_failed A) (\<lambda>feedback_poll_failed.
      bindS (refresh_adapter_safe_stop_state A) (\<lambda>adapter_safety_observed.
      bindS (getS id) (\<lambda>s.
      thenS (whenS ((\<not> adapter_safety_observed \<or> feedback_poll_failed) \<and> \<not> sv_adapter_safe_stop_active s \<and>
                    sv_require_feedback s \<and> \<not> latching s)
               (update_safety mark_fault))
     (thenS (evaluate_control_watchdog A now)
            (record_telemetry A now))))))"

subsection \<open>Commands\<close>

definition refusal :: "string \<Rightarrow> string list \<Rightarrow> receive_result" where
  "refusal reason warnings = \<lparr>rr_accepted = False, rr_reason = reason, rr_command = None,
     rr_warnings = warnings, rr_issue_code = []\<rparr>"

definition sv_receiver_accept :: "control_command \<Rightarrow> int \<Rightarrow> ('a control_service, receive_result) oper" where
  "sv_receiver_accept c now s =
     (let (r, rec) = receiver_accept c now (sv_receiver s) in (r, s\<lparr>sv_receiver := rec\<rparr>))"

text \<open>The first block: an ESTOP is latched before any adapter call, another command after the watchdog.\<close>

definition admit_command ::
  "'a vehicle_adapter \<Rightarrow> control_command \<Rightarrow> int \<Rightarrow> ('a control_service, receive_result) oper" where
  "admit_command A c now =
     (if estop c then
        bindS (sv_receiver_accept c now) (\<lambda>r.
        bindS (case rr_command r of
            Some ec \<Rightarrow> if rr_accepted r
              then thenS (update_safety (on_valid_command ec now)) (clear_session_profile A)
              else evaluate_control_watchdog A now
          | None \<Rightarrow> evaluate_control_watchdog A now) (\<lambda>_. returnS r))
      else thenS (evaluate_control_watchdog A now) (sv_receiver_accept c now))"

definition session_throttle_limit :: "'a control_service \<Rightarrow> double" where
  "session_throttle_limit s = (case sv_active_profile s of
       Some p \<Rightarrow> if dlt zero (sv_max_speed_kph s) then ddiv (target_speed_kph p) (sv_max_speed_kph s) else zero
     | None \<Rightarrow> sv_max_throttle s)"

definition session_steering_limit :: "'a control_service \<Rightarrow> double" where
  "session_steering_limit s = (case sv_active_profile s of
       Some p \<Rightarrow> max_steering_angle_deg p | None \<Rightarrow> sv_max_steering_angle_deg s)"

text \<open>The second block: throttle and steering limited by the vehicle and by the session.\<close>

definition limit_command :: "'a control_service \<Rightarrow> control_command \<Rightarrow> control_command" where
  "limit_command s c =
     (let limited_throttle = dmin (dmin (throttle c) (sv_max_throttle s)) (session_throttle_limit s);
          steering_limit = ddiv (dmin (sv_max_steering_angle_deg s) (session_steering_limit s)) (dbl 30);
          limited_steering = dclamp (steering c) (dneg steering_limit) steering_limit
      in c\<lparr>throttle := (if \<not> deq limited_throttle (throttle c) then limited_throttle else throttle c),
           steering := (if \<not> deq limited_steering (steering c) then limited_steering else steering c)\<rparr>)"

definition limit_warnings :: "'a control_service \<Rightarrow> control_command \<Rightarrow> string list" where
  "limit_warnings s c =
     (let vehicle_limited_throttle = dmin (throttle c) (sv_max_throttle s);
          limited_throttle = dmin vehicle_limited_throttle (session_throttle_limit s);
          steering_limit = ddiv (dmin (sv_max_steering_angle_deg s) (session_steering_limit s)) (dbl 30);
          limited_steering = dclamp (steering c) (dneg steering_limit) steering_limit
      in (if \<not> deq vehicle_limited_throttle (throttle c) then [''vehicle_max_throttle_applied''] else []) @
         (if \<not> deq limited_throttle vehicle_limited_throttle then [''session_target_speed_applied''] else []) @
         (if \<not> deq limited_steering (steering c)
          then [if sv_active_profile s \<noteq> None \<and>
                   dlt (dadd (session_steering_limit s) tolerance) (sv_max_steering_angle_deg s)
                then ''session_max_steering_applied'' else ''vehicle_max_steering_applied'']
          else []))"

text \<open>
  The third block: the adapter's feedback and safety status are observed; an ordinary command
  is refused when the adapter owns a stop or cannot be observed.
\<close>

definition stop_and_clear ::
  "'a vehicle_adapter \<Rightarrow> control_output \<Rightarrow> vehicle_stop_reason \<Rightarrow> ('a control_service, unit) oper" where
  "stop_and_clear A out reason =
     thenS (adapter_call (ad_apply_safe_stop A out (stop_context SoftwareFault reason)))
           (clear_session_profile A)"

definition fault_and_stop ::
  "'a vehicle_adapter \<Rightarrow> int \<Rightarrow> vehicle_stop_reason \<Rightarrow> ('a control_service, unit) oper" where
  "fault_and_stop A now reason =
     thenS (update_safety mark_fault)
     (bindS (getS (\<lambda>s. current_output now (sv_safety s))) (\<lambda>out. stop_and_clear A out reason))"

definition observe_adapter ::
  "'a vehicle_adapter \<Rightarrow> control_command \<Rightarrow> int \<Rightarrow> string list \<Rightarrow> ('a control_service, receive_result option) oper" where
  "observe_adapter A c now warnings =
     bindS (if \<not> estop c then poll_failed A else returnS False) (\<lambda>feedback_poll_failed.
     bindS (refresh_adapter_safe_stop_state A) (\<lambda>adapter_safety_observed.
     if estop c then returnS None
     else bindS (getS id) (\<lambda>s.
       if sv_adapter_safe_stop_active s
       then returnS (Some (refusal ''adapter_safe_stop_active'' warnings))
       else if \<not> adapter_safety_observed
       then bindS (fault_and_stop A now AdapterSafetyStatusUnavailable)
              (\<lambda>_. returnS (Some (refusal ''adapter_safety_status_unavailable'' warnings)))
       else if feedback_poll_failed \<and> sv_require_feedback s
       then bindS (fault_and_stop A now CanFeedbackMissing)
              (\<lambda>_. returnS (Some (refusal ''can_feedback_poll_failed'' warnings)))
       else if sv_require_feedback s \<and> \<not> ad_feedback_ready A (sv_adapter s)
       then bindS (stop_and_clear A (mk_output ''N'' zero zero one False True) CanFeedbackMissing)
              (\<lambda>_. returnS (Some (refusal ''can_feedback_missing'' warnings)))
       else returnS None)))"

text \<open>The command the safety machine records: its brake relative to the vehicle's maximum.\<close>

definition safety_command :: "'a control_service \<Rightarrow> control_command \<Rightarrow> control_command res" where
  "safety_command s c = (case sv_active_profile s of
       Some p \<Rightarrow> if \<not> estop c
         then bindE (vehicle_normalized_brake_request (brake c) (max_brake_pressure_bar p) (sv_max_brake_pressure_bar s))
                (\<lambda>b. Inr (c\<lparr>brake := b\<rparr>))
         else Inr c
     | None \<Rightarrow> Inr c)"

text \<open>The last block: apply an ordinary command, or keep the vehicle stopped.\<close>

definition apply_ordinary ::
  "'a vehicle_adapter \<Rightarrow> control_command \<Rightarrow> control_command \<Rightarrow> int \<Rightarrow> receive_result \<Rightarrow>
   ('a control_service, receive_result) oper" where
  "apply_ordinary A c sc now r =
     bindS (tryS (bindS (adapter_call (ad_apply_control A c)) (\<lambda>_. returnS None))
              (\<lambda>e. case e of ControlRejected issue code \<Rightarrow> returnS (Some issue) | _ \<Rightarrow> throwS e)) (\<lambda>rejected_with.
     case rejected_with of
       Some issue \<Rightarrow> returnS (r\<lparr>rr_accepted := False, rr_reason := ''adapter_control_rejected'',
                                 rr_command := None, rr_issue_code := issue\<rparr>)
     | None \<Rightarrow> bindS (update_safety (on_valid_command sc now)) (\<lambda>_.
               bindS (modifyS (\<lambda>s. s\<lparr>sv_last_effective_command := Some c\<rparr>)) (\<lambda>_. returnS r)))"

definition hold_stop :: "'a vehicle_adapter \<Rightarrow> int \<Rightarrow> ('a control_service, unit) oper" where
  "hold_stop A now =
     bindS (getS id) (\<lambda>s. whenS (\<not> sv_adapter_safe_stop_active s \<or> latching s)
       (thenS (whenS (latching s) (clear_session_profile A))
       (bindS (getS (\<lambda>s. sm_state (sv_safety s))) (\<lambda>st.
        bindS (getS (\<lambda>s. current_output now (sv_safety s))) (\<lambda>out.
        adapter_call (ad_apply_safe_stop A out
          (if st = Estop then stop_context DriverPage OperatorEstop
           else stop_context SoftwareFault VcuStateFault)))))))"

definition finish_command ::
  "'a vehicle_adapter \<Rightarrow> control_command \<Rightarrow> int \<Rightarrow> receive_result \<Rightarrow> ('a control_service, receive_result) oper" where
  "finish_command A c now r =
     bindS (getS id) (\<lambda>s.
     bindS (liftS (safety_command s c)) (\<lambda>sc.
     if \<not> estop sc \<and> \<not> latching s then apply_ordinary A c sc now r
     else bindS (update_safety (on_valid_command sc now)) (\<lambda>_.
          bindS (hold_stop A now) (\<lambda>_. returnS r))))"

definition degraded_refused :: "'a control_service \<Rightarrow> control_command \<Rightarrow> bool" where
  "degraded_refused s c \<longleftrightarrow> \<not> estop c \<and> sm_state (sv_safety s) = Degraded \<and>
     (dlt tolerance (throttle c) \<or> dlt tolerance (dabs (steering c)))"

text \<open>What follows the receiver's answer \<open>r\<close>.\<close>

definition process_received ::
  "'a vehicle_adapter \<Rightarrow> int \<Rightarrow> receive_result \<Rightarrow> ('a control_service, receive_result) oper" where
  "process_received A now r =
     (case (rr_accepted r, rr_command r) of
       (True, Some effective) \<Rightarrow>
         bindS (getS id) (\<lambda>s.
         if \<not> estop effective \<and> sv_active_profile s = None
         then bindS (whenS (\<not> sv_adapter_safe_stop_active s)
                (adapter_call (ad_apply_safe_stop A (mk_output ''N'' zero zero one False True)
                   (stop_context SoftwareFault SessionProfileRequired))))
              (\<lambda>_. returnS (refusal ''session_control_profile_required'' []))
         else if degraded_refused s effective
         then returnS (r\<lparr>rr_accepted := False, rr_reason := ''degraded_neutral_required'', rr_command := None\<rparr>)
         else let c' = limit_command s effective;
                  r' = r\<lparr>rr_command := Some c', rr_warnings := rr_warnings r @ limit_warnings s effective\<rparr>
              in bindS (observe_adapter A c' now (rr_warnings r')) (\<lambda>early.
                 case early of Some refused \<Rightarrow> returnS refused
                 | None \<Rightarrow> finish_command A c' now r'))
     | _ \<Rightarrow> returnS r)"

definition sv_receive_command ::
  "'a vehicle_adapter \<Rightarrow> control_command \<Rightarrow> int \<Rightarrow> ('a control_service, receive_result) oper" where
  "sv_receive_command A c now =
     bindS require_started (\<lambda>_. bindS (admit_command A c now) (process_received A now))"

subsection \<open>Handshake, ESTOP reset and shutdown\<close>

definition sv_request_vcu_handshake :: "'a vehicle_adapter \<Rightarrow> ('a control_service, bool) oper" where
  "sv_request_vcu_handshake A =
     bindS require_started (\<lambda>_.
     bindS (getS id) (\<lambda>s.
     if sv_active_profile s = None \<or> latching s then returnS False
     else bindS (adapter_call (ad_request_vcu_handshake A)) (\<lambda>granted.
       if \<not> granted then returnS False
       else bindS (getS (\<lambda>s. reset_to_standby (sv_safety s))) (\<lambda>(ok, safety).
         bindS (modifyS (\<lambda>s. s\<lparr>sv_safety := safety\<rparr>)) (\<lambda>_.
         if \<not> ok then returnS False
         else bindS (modifyS (\<lambda>s. s\<lparr>sv_adapter_safe_stop_active := False\<rparr>)) (\<lambda>_. returnS True))))))"

definition sv_disconnect_vcu_handshake :: "'a vehicle_adapter \<Rightarrow> ('a control_service, bool) oper" where
  "sv_disconnect_vcu_handshake A =
     bindS require_started (\<lambda>_.
     bindS (adapter_call (ad_disconnect_vcu_handshake A)) (\<lambda>disconnected.
     bindS (whenS disconnected
        (thenS (modifyS (\<lambda>s. s\<lparr>sv_adapter_safe_stop_active := True\<rparr>)) (clear_session_profile A)))
     (\<lambda>_. returnS disconnected)))"

text \<open>The observation of \<open>reset_estop\<close>: the adapter's gear, or \<open>None\<close> for its early returns.\<close>

definition reset_observation :: "'a vehicle_adapter \<Rightarrow> ('a control_service, string option) oper" where
  "reset_observation A = tryS
     (bindS (adapter_call (ad_read_telemetry A)) (\<lambda>telemetry.
      bindS (adapter_call (ad_vcu_handshake_status A)) (\<lambda>handshake.
      bindS (modifyS (\<lambda>s. s\<lparr>sv_adapter_safe_stop_active := tel_estop telemetry \<or> vhs_disarming handshake\<rparr>)) (\<lambda>_.
      returnS (if vhs_disarming handshake then None else Some (tel_gear telemetry))))))
     (\<lambda>_. returnS None)"

definition sv_reset_estop ::
  "'a vehicle_adapter \<Rightarrow> bool \<Rightarrow> string \<Rightarrow> ('a control_service, bool) oper" where
  "sv_reset_estop A local_confirmed authorized_by =
     bindS (getS (\<lambda>s. sm_state (sv_safety s))) (\<lambda>st.
     if st \<noteq> Estop \<or> \<not> local_confirmed \<or> authorized_by = [] then returnS False
     else bindS (reset_observation A) (\<lambda>gear.
       case gear of None \<Rightarrow> returnS False
       | Some g \<Rightarrow>
         bindS (tryS (bindS (adapter_call (ad_apply_safe_stop A (mk_output g zero zero zero False False)
                               (stop_context SourceNone ReasonNone))) (\<lambda>_. returnS True))
                (\<lambda>_. bindS (modifyS (\<lambda>s. s\<lparr>sv_adapter_safe_stop_active := True\<rparr>)) (\<lambda>_. returnS False)))
         (\<lambda>applied. if \<not> applied then returnS False
          else bindS (getS (\<lambda>s. safety_reset_estop local_confirmed authorized_by (sv_safety s))) (\<lambda>(reset, safety).
            bindS (modifyS (\<lambda>s. s\<lparr>sv_safety := safety\<rparr>)) (\<lambda>_.
            if \<not> reset then returnS False
            else bindS (modifyS (\<lambda>s. s\<lparr>sv_adapter_safe_stop_active := False\<rparr>)) (\<lambda>_.
                 bindS (refresh_adapter_safe_stop_state A) (\<lambda>_. returnS True)))))))"

definition sv_close :: "'a vehicle_adapter \<Rightarrow> vehicle_stop_context \<Rightarrow> ('a control_service, unit) oper" where
  "sv_close A ctx =
     bindS (getS sv_started) (\<lambda>started. whenS started
       (thenS (adapter_call (ad_apply_safe_stop A (mk_output ''N'' zero zero one True False) ctx))
       (thenS (clear_session_profile A)
       (thenS (adapter_call (ad_close A))
              (modifyS (\<lambda>s. s\<lparr>sv_started := False\<rparr>))))))"

subsection \<open>Session control profiles\<close>

definition profile_result ::
  "session_control_profile_request \<Rightarrow> int \<Rightarrow> bool \<Rightarrow> bool \<Rightarrow> string \<Rightarrow> 'a control_service \<Rightarrow>
   session_control_profile_result" where
  "profile_result req now accepted idempotent reason s =
     (let q = (if seq req = 0 then 1 else seq req) in
      \<lparr>protocol_version = kProtocolVersion, vehicle_id = sv_vehicle_id s, driver_id = sv_driver_id s,
       session_id = sv_session_id s, seq = q, sent_at_utc_ms = max now 0,
       res_accepted = accepted, res_idempotent = idempotent,
       res_applied_revision = (if accepted then q else 0), res_reason = reason,
       res_effective_profile = sv_active_profile s\<rparr>)"

definition cache_result ::
  "session_control_profile_request \<Rightarrow> session_control_profile_result \<Rightarrow>
   ('a control_service, session_control_profile_result) oper" where
  "cache_result req r =
     bindS (modifyS (\<lambda>s. s\<lparr>sv_last_request := Some req, sv_last_result := Some r\<rparr>)) (\<lambda>_. returnS r)"

text \<open>The identity and authority checks that precede everything else, and are not cached.\<close>

definition profile_identity_error ::
  "session_control_profile_request \<Rightarrow> 'a control_service \<Rightarrow> string option" where
  "profile_identity_error req s =
     (case checks [metadata_validate req,
                   throw_if (req_control_token req = []) (InvalidArgument ''control_token is required'')] of
        Inl e \<Rightarrow> Some (''invalid_profile:'' @ what e)
      | Inr _ \<Rightarrow> first_match
          [(vehicle_id req \<noteq> sv_vehicle_id s, ''wrong_vehicle''),
           (driver_id req \<noteq> sv_driver_id s, ''wrong_driver''),
           (session_id req \<noteq> sv_session_id s, ''wrong_session''),
           (req_control_token req \<noteq> sv_control_token s, ''control_token_invalid'')])"

definition identical_request ::
  "session_control_profile_request \<Rightarrow> session_control_profile_request \<Rightarrow> bool" where
  "identical_request req previous \<longleftrightarrow>
     protocol_version req = protocol_version previous \<and> vehicle_id req = vehicle_id previous \<and>
     driver_id req = driver_id previous \<and> session_id req = session_id previous \<and>
     seq req = seq previous \<and> req_control_token req = req_control_token previous \<and>
     profile_eq (req_profile req) (req_profile previous)"

definition profile_freshness_error :: "session_control_profile_request \<Rightarrow> int \<Rightarrow> string option" where
  "profile_freshness_error req now =
     (case profile_validate (req_profile req) of
        Inl e \<Rightarrow> Some (''invalid_profile:'' @ what e)
      | Inr _ \<Rightarrow> first_match
          [(kSessionControlProfileMaxAgeMs < now - sent_at_utc_ms req, ''profile_age_exceeded''),
           (now - sent_at_utc_ms req < - kSessionControlProfileMaxAgeMs, ''profile_timestamp_in_future'')])"

definition profile_limit_error ::
  "session_control_profile \<Rightarrow> 'a control_service \<Rightarrow> string option" where
  "profile_limit_error p s = first_match
     [(dlt (dadd (dmul (sv_max_speed_kph s) (sv_max_throttle s)) tolerance) (target_speed_kph p),
       ''target_speed_exceeds_vehicle_limit''),
      (dlt (dadd (sv_full_scale_motor_torque_nm s) tolerance) (max_motor_torque_nm p),
       ''motor_torque_exceeds_vehicle_limit''),
      (dlt (dadd (sv_max_brake_pressure_bar s) tolerance) (max_brake_pressure_bar p),
       ''brake_pressure_exceeds_vehicle_limit''),
      (dlt (dadd (sv_max_steering_angle_deg s) tolerance) (max_steering_angle_deg p),
       ''steering_exceeds_vehicle_limit'')]"

definition empty_profile :: "'a control_service \<Rightarrow> session_control_profile" where
  "empty_profile s = default_profile\<lparr>speed_pid_kp := sv_default_speed_pid_kp s,
     speed_pid_ki := sv_default_speed_pid_ki s, speed_pid_kd := sv_default_speed_pid_kd s,
     speed_pid_derivative_filter_tau_ms := sv_default_speed_pid_derivative_filter_tau_ms s,
     speed_pid_max_dt_ms := sv_default_speed_pid_max_dt_ms s,
     motor_torque_rise_rate_nm_per_s := sv_default_motor_torque_rise_rate_nm_per_s s\<rparr>"

definition current_profile :: "'a control_service \<Rightarrow> session_control_profile" where
  "current_profile s = (case sv_active_profile s of Some p \<Rightarrow> p | None \<Rightarrow> empty_profile s)"

definition current_torque_limit :: "'a control_service \<Rightarrow> double" where
  "current_torque_limit s = (case sv_active_profile s of Some p \<Rightarrow> max_motor_torque_nm p | None \<Rightarrow> zero)"

definition current_target_speed :: "'a control_service \<Rightarrow> double" where
  "current_target_speed s = (case sv_active_profile s of Some p \<Rightarrow> target_speed_kph p | None \<Rightarrow> zero)"

definition limits_increase :: "session_control_profile \<Rightarrow> 'a control_service \<Rightarrow> bool" where
  "limits_increase p s \<longleftrightarrow>
     dlt (dadd (current_target_speed s) tolerance) (target_speed_kph p) \<or>
     dlt (dadd (current_torque_limit s) tolerance) (max_motor_torque_nm p)"

definition limits_decrease :: "session_control_profile \<Rightarrow> 'a control_service \<Rightarrow> bool" where
  "limits_decrease p s \<longleftrightarrow>
     dlt (dadd (target_speed_kph p) tolerance) (current_target_speed s) \<or>
     dlt (dadd (max_motor_torque_nm p) tolerance) (current_torque_limit s)"

definition other_parameters_changed :: "session_control_profile \<Rightarrow> 'a control_service \<Rightarrow> bool" where
  "other_parameters_changed p s \<longleftrightarrow>
     (let q = current_profile s in
      \<not> deq (max_brake_pressure_bar p) (max_brake_pressure_bar q) \<or>
      \<not> deq (service_brake_pressure_bar p) (service_brake_pressure_bar q) \<or>
      \<not> deq (hard_brake_pressure_bar p) (hard_brake_pressure_bar q) \<or>
      \<not> deq (max_steering_angle_deg p) (max_steering_angle_deg q) \<or>
      \<not> deq (speed_pid_kp p) (speed_pid_kp q) \<or> \<not> deq (speed_pid_ki p) (speed_pid_ki q) \<or>
      \<not> deq (speed_pid_kd p) (speed_pid_kd q) \<or>
      \<not> deq (speed_pid_derivative_filter_tau_ms p) (speed_pid_derivative_filter_tau_ms q) \<or>
      speed_pid_max_dt_ms p \<noteq> speed_pid_max_dt_ms q \<or>
      \<not> deq (motor_torque_rise_rate_nm_per_s p) (motor_torque_rise_rate_nm_per_s q))"

definition mock_bench_bypass :: "'a vehicle_adapter \<Rightarrow> 'a control_service \<Rightarrow> bool" where
  "mock_bench_bypass A s \<longleftrightarrow> sv_commissioning_mode s = ''bench'' \<and>
     vas_adapter_type (ad_status A (sv_adapter s)) = ''mock''"

definition parking_required :: "'a vehicle_adapter \<Rightarrow> session_control_profile \<Rightarrow> 'a control_service \<Rightarrow> bool" where
  "parking_required A p s \<longleftrightarrow>
     (sv_active_profile s = None \<or> limits_increase p s \<or> other_parameters_changed p s \<or>
      parking_idle_timeout_ms p \<noteq> parking_idle_timeout_ms (current_profile s)) \<and> \<not> mock_bench_bypass A s"

text \<open>The vehicle must be parked and disarmed before its limits may grow or change.\<close>

definition parking_error :: "'a vehicle_adapter \<Rightarrow> ('a control_service, string option) oper" where
  "parking_error A =
     bindS (tryS (bindS (adapter_call (ad_vcu_handshake_status A)) (\<lambda>h. returnS (Some h))) (\<lambda>_. returnS None)) (\<lambda>status.
     returnS (case status of
         None \<Rightarrow> Some ''parking_ready_required_for_profile_increase''
       | Some h \<Rightarrow> first_match
           [(\<not> vhs_parking_ready h, ''parking_ready_required_for_profile_increase''),
            (vhs_state h \<noteq> ''standby'' \<and> vhs_state h \<noteq> ''disarmed'',
             ''standby_or_disarmed_required_for_profile_change'')]))"

definition reapplied_command :: "session_control_profile \<Rightarrow> 'a control_service \<Rightarrow> control_command \<Rightarrow> control_command" where
  "reapplied_command p s c =
     (let limit = (if dlt zero (sv_max_speed_kph s) then ddiv (target_speed_kph p) (sv_max_speed_kph s) else zero)
      in c\<lparr>throttle := dmin (throttle c) (dmin (sv_max_throttle s) limit)\<rparr>)"

definition install_profile ::
  "'a vehicle_adapter \<Rightarrow> session_control_profile_request \<Rightarrow> 'a control_service \<Rightarrow> ('a control_service, unit) oper" where
  "install_profile A req s =
     bindS (adapter_call (ad_configure_runtime_control_profile A (req_profile req) (seq req))) (\<lambda>applied_revision.
     bindS (liftS (throw_if (applied_revision \<noteq> seq req)
       (RuntimeError ''adapter applied a runtime control revision inconsistent with request seq''))) (\<lambda>_.
     case sv_last_effective_command s of
       Some c \<Rightarrow> whenS (limits_decrease (req_profile req) s \<and> \<not> other_parameters_changed (req_profile req) s \<and>
                       sm_state (sv_safety s) = ControlActive)
         (let c' = reapplied_command (req_profile req) s c in
          thenS (adapter_call (ad_apply_control A c'))
                (modifyS (\<lambda>s. s\<lparr>sv_last_effective_command := Some c'\<rparr>)))
     | None \<Rightarrow> returnS ()))"

definition refuse_profile ::
  "session_control_profile_request \<Rightarrow> int \<Rightarrow> string \<Rightarrow> ('a control_service, session_control_profile_result) oper" where
  "refuse_profile req now reason = getS (profile_result req now False False reason)"

definition refuse_and_cache ::
  "session_control_profile_request \<Rightarrow> int \<Rightarrow> string \<Rightarrow> ('a control_service, session_control_profile_result) oper" where
  "refuse_and_cache req now reason = bindS (refuse_profile req now reason) (cache_result req)"

text \<open>The commit: an adapter failure stops the vehicle and forgets every profile.\<close>

definition commit_profile ::
  "'a vehicle_adapter \<Rightarrow> session_control_profile_request \<Rightarrow> int \<Rightarrow>
   ('a control_service, session_control_profile_result) oper" where
  "commit_profile A req now =
     bindS (getS id) (\<lambda>s.
     bindS (tryS (bindS (install_profile A req s) (\<lambda>_. returnS True))
       (\<lambda>_. bindS (ignoring (adapter_call (ad_apply_safe_stop A (mk_output ''N'' zero zero one True False)
                     (stop_context SoftwareFault ControlApplyFailed)))) (\<lambda>_.
            bindS (clear_session_profile A) (\<lambda>_. returnS False)))) (\<lambda>installed.
     if \<not> installed then refuse_and_cache req now ''adapter_session_profile_apply_failed''
     else bindS (modifyS (\<lambda>s. s\<lparr>sv_active_profile := Some (req_profile req)\<rparr>)) (\<lambda>_.
          bindS (getS (profile_result req now True False ''accepted'')) (cache_result req))))"

definition evaluate_profile ::
  "'a vehicle_adapter \<Rightarrow> session_control_profile_request \<Rightarrow> int \<Rightarrow>
   ('a control_service, session_control_profile_result) oper" where
  "evaluate_profile A req now =
     (case profile_freshness_error req now of
        Some reason \<Rightarrow> refuse_profile req now reason
      | None \<Rightarrow>
        bindS (getS (profile_limit_error (req_profile req))) (\<lambda>limit_error.
        case limit_error of
          Some reason \<Rightarrow> refuse_and_cache req now reason
        | None \<Rightarrow>
          bindS (getS (parking_required A (req_profile req))) (\<lambda>required.
          bindS (if required then parking_error A else returnS None) (\<lambda>error.
          case error of
            Some reason \<Rightarrow> refuse_and_cache req now reason
          | None \<Rightarrow> commit_profile A req now))))"

text \<open>The same sequence number again: the cached answer, unless the profile has been revoked since.\<close>

definition replay_profile ::
  "session_control_profile_request \<Rightarrow> session_control_profile_request \<Rightarrow> int \<Rightarrow>
   ('a control_service, session_control_profile_result) oper" where
  "replay_profile previous req now =
     bindS (getS id) (\<lambda>s.
     if \<not> identical_request req previous then refuse_profile req now ''profile_seq_conflict''
     else case sv_last_result s of
         Some r \<Rightarrow>
           if sv_active_profile s = None \<and> res_accepted r
           then getS (profile_result req now False True ''session_profile_cleared'')
           else let replay = r\<lparr>sent_at_utc_ms := now, res_idempotent := True,
                               res_effective_profile := sv_active_profile s\<rparr>
             in bindS (modifyS (\<lambda>s. s\<lparr>sv_last_result := Some replay\<rparr>)) (\<lambda>_. returnS replay)
       | None \<Rightarrow> throwS (RuntimeError ''bad optional access''))"

definition sv_receive_session_profile ::
  "'a vehicle_adapter \<Rightarrow> session_control_profile_request \<Rightarrow> int \<Rightarrow>
   ('a control_service, session_control_profile_result) oper" where
  "sv_receive_session_profile A req now =
     bindS require_started (\<lambda>_.
     bindS (liftS (throw_if (now < 0) (InvalidArgument ''receive_time_ms must be non-negative''))) (\<lambda>_.
     bindS (getS id) (\<lambda>s.
     case profile_identity_error req s of
       Some reason \<Rightarrow> refuse_profile req now reason
     | None \<Rightarrow>
       (case sv_last_request s of
          None \<Rightarrow> evaluate_profile A req now
        | Some previous \<Rightarrow>
            if seq req < seq previous then refuse_profile req now ''old_seq''
            else if seq req = seq previous then replay_profile previous req now
            else evaluate_profile A req now))))"

end
