(* ===== verification/Control_Authority.thy ===== *)
theory Control_Authority
  imports Control_Service Dynamic_Adapter
begin

text \<open>
  The safety properties of \<open>VehicleControlService\<close>, for every adapter: whatever the adapter's
  operations return or throw, and in whatever state they leave it, the outer latch, the
  session profile and the limits hold. The adapter's obligation is the locale \<open>quiet_adapter\<close>.
\<close>

subsection \<open>Operations of the service\<close>

datatype sv_event =
    SvStart
  | SvCommand control_command int
  | SvProfile session_control_profile_request int
  | SvTick int
  | SvRequestHandshake
  | SvDisconnectHandshake
  | SvResetEstop bool string
  | SvClose vehicle_stop_context

datatype sv_output =
    Done "unit res"
  | Received "receive_result res"
  | Answered "session_control_profile_result res"
  | Flag "bool res"

fun sv_step :: "'a vehicle_adapter \<Rightarrow> sv_event \<Rightarrow> 'a control_service \<Rightarrow> sv_output \<times> 'a control_service" where
  "sv_step A SvStart s = map_prod Done id (sv_start A s)"
| "sv_step A (SvCommand c now) s = map_prod Received id (sv_receive_command A c now s)"
| "sv_step A (SvProfile req now) s = map_prod Answered id (sv_receive_session_profile A req now s)"
| "sv_step A (SvTick now) s = map_prod Done id (sv_tick A now s)"
| "sv_step A SvRequestHandshake s = map_prod Flag id (sv_request_vcu_handshake A s)"
| "sv_step A SvDisconnectHandshake s = map_prod Flag id (sv_disconnect_vcu_handshake A s)"
| "sv_step A (SvResetEstop confirmed by_whom) s = map_prod Flag id (sv_reset_estop A confirmed by_whom s)"
| "sv_step A (SvClose ctx) s = map_prod Done id (sv_close A ctx s)"

lemma map_prod_snd [simp]: "snd (map_prod f id p) = snd p"
  by (cases p) simp

subsection \<open>Preservation, operation by operation\<close>

named_theorems keeps_intros \<open>preservation of a state predicate, by the structure of the operation\<close>

lemma keeps_basic [keeps_intros]:
  "keeps I (returnS a)" "keeps I (throwS e)" "keeps I (liftS r)" "keeps I (getS f)"
  by (simp_all add: keeps_def oper_defs)

lemma keeps_modifyS: "(\<And>s. I s \<Longrightarrow> I (f s)) \<Longrightarrow> keeps I (modifyS f)"
  by (simp add: keeps_def modifyS_def)

lemma keeps_bindS: "keeps I m \<Longrightarrow> (\<And>a. keeps I (f a)) \<Longrightarrow> keeps I (bindS m f)"
  by (simp add: keeps_alt wp_bindS) (blast intro: wp_conseq)

lemma keeps_getS_bind: "(\<And>s. I s \<Longrightarrow> keeps I (k (f s))) \<Longrightarrow> keeps I (bindS (getS f) k)"
  by (simp add: keeps_alt wp_bindS wp_getS)

lemma keeps_thenS [keeps_intros]: "keeps I m \<Longrightarrow> keeps I k \<Longrightarrow> keeps I (thenS m k)"
  unfolding thenS_def by (rule keeps_bindS)

lemma keeps_tryS [keeps_intros]: "keeps I m \<Longrightarrow> (\<And>e. keeps I (h e)) \<Longrightarrow> keeps I (tryS m h)"
  by (simp add: keeps_alt wp_tryS) (blast intro: wp_conseq)

lemma keeps_whenS [keeps_intros]: "(c \<Longrightarrow> keeps I m) \<Longrightarrow> keeps I (whenS c m)"
  by (simp add: whenS_def keeps_basic)

lemma keeps_if [keeps_intros]:
  "(c \<Longrightarrow> keeps I m) \<Longrightarrow> (\<not> c \<Longrightarrow> keeps I k) \<Longrightarrow> keeps I (if c then m else k)"
  by simp

lemma keeps_option [keeps_intros]:
  "(y = None \<Longrightarrow> keeps I m) \<Longrightarrow> (\<And>x. y = Some x \<Longrightarrow> keeps I (k x)) \<Longrightarrow> keeps I (case y of None \<Rightarrow> m | Some x \<Rightarrow> k x)"
  by (cases y) simp_all

lemma keeps_pair [keeps_intros]: "(\<And>x z. y = (x, z) \<Longrightarrow> keeps I (k x z)) \<Longrightarrow> keeps I (case y of (x, z) \<Rightarrow> k x z)"
  by (cases y) simp

lemma keeps_bool [keeps_intros]:
  "(y \<Longrightarrow> keeps I m) \<Longrightarrow> (\<not> y \<Longrightarrow> keeps I k) \<Longrightarrow> keeps I (case y of True \<Rightarrow> m | False \<Rightarrow> k)"
  by (cases y) simp_all

lemma keeps_exn [keeps_intros]:
  "(\<And>i c. keeps I (k i c)) \<Longrightarrow> keeps I m \<Longrightarrow>
   keeps I (case e of ControlRejected i c \<Rightarrow> k i c | _ \<Rightarrow> m)"
  by (cases e) simp_all

subsection \<open>Calls into the adapter\<close>

lemma keeps_adapter_call:
  assumes "keeps P m" "\<And>s. I s \<Longrightarrow> P (sv_adapter s)"
    and "\<And>s a. I s \<Longrightarrow> P a \<Longrightarrow> I (s\<lparr>sv_adapter := a\<rparr>)"
  shows "keeps I (adapter_call m)"
  using assms by (auto simp: keeps_def adapter_call_def split: prod.splits) (metis snd_conv)

lemma wp_adapter_call:
  assumes "\<And>r a. Q r (s\<lparr>sv_adapter := a\<rparr>)" "\<And>e a. X e (s\<lparr>sv_adapter := a\<rparr>)"
  shows "wp (adapter_call m) Q X s"
  using assms by (simp add: wp_def adapter_call_def split: prod.splits sum.splits)

lemma wp_returnS_fun [wp_simps]: "wp (returnS a) Q X = Q a"
  by (rule ext) (rule wp_returnS)

lemma wp_require_started:
  "wp require_started Q X s = (if sv_started s then Q () s
     else X (RuntimeError ''vehicle control service is not started'') s)"
  by (simp add: wp_def require_started_def)

lemma wp_receiver:
  "wp (sv_receiver_accept c now) Q X s =
     (case receiver_accept c now (sv_receiver s) of
        (Inl e, rc) \<Rightarrow> X e (s\<lparr>sv_receiver := rc\<rparr>) | (Inr r, rc) \<Rightarrow> Q r (s\<lparr>sv_receiver := rc\<rparr>))"
  by (simp add: wp_def sv_receiver_accept_def split: prod.splits)

lemma wp_adapter_call_keeps:
  assumes "keeps P m" "P (sv_adapter s)"
    and "\<And>r a. P a \<Longrightarrow> Q r (s\<lparr>sv_adapter := a\<rparr>)" "\<And>e a. P a \<Longrightarrow> X e (s\<lparr>sv_adapter := a\<rparr>)"
  shows "wp (adapter_call m) Q X s"
  using assms keepsD [OF assms(1,2)] by (cases "m (sv_adapter s)")
    (auto simp: wp_def adapter_call_def split: sum.splits)

text \<open>
  The obligations that make a predicate an invariant of everything the service does around a
  command: its calls into the adapter, the revocation of the profile, the adapter-stop flag
  and the safety machine's clock and fault inputs.
\<close>

lemma inv_require_started: "keeps I require_started"
  by (simp add: keeps_def require_started_def)

locale service_invariant =
  fixes A :: "'a vehicle_adapter" and I :: "'a control_service \<Rightarrow> bool"
  assumes i_clear: "keeps I (adapter_call (ad_clear_runtime_control_profile A))"
    and i_stop: "keeps I (adapter_call (ad_apply_safe_stop A out ctx))"
    and i_poll: "keeps I (adapter_call (ad_poll_feedback A))"
    and i_status: "keeps I (adapter_call (ad_vcu_handshake_status A))"
    and i_telemetry: "keeps I (adapter_call (ad_read_telemetry A))"
    and i_forget: "I s \<Longrightarrow> I (forget_profile s)"
    and i_flag: "I s \<Longrightarrow> I (s\<lparr>sv_adapter_safe_stop_active := b\<rparr>)"
    and i_tick: "keeps I (update_safety (safety_tick now))"
    and i_fault: "keeps I (update_safety mark_fault)"
begin

lemmas inv_calls = i_clear i_stop i_poll i_status i_telemetry i_tick i_fault

lemma inv_clear: "keeps I (clear_session_profile A)"
  unfolding clear_session_profile_def ignoring_def
  by (intro keeps_intros keeps_modifyS inv_calls i_forget)

lemma inv_refresh: "keeps I (refresh_adapter_safe_stop_state A)"
  unfolding refresh_adapter_safe_stop_state_def
  by (intro keeps_intros keeps_bindS keeps_modifyS inv_calls inv_clear i_flag)

lemma inv_watchdog: "keeps I (evaluate_control_watchdog A now)"
  unfolding evaluate_control_watchdog_def Let_def
  by (intro keeps_intros keeps_bindS inv_calls inv_clear)

lemma inv_poll: "keeps I (poll_failed A)"
  unfolding poll_failed_def by (intro keeps_intros keeps_bindS inv_calls)

lemma inv_stop_ops: "keeps I (stop_and_clear A out reason)" "keeps I (fault_and_stop A now reason)"
  unfolding fault_and_stop_def stop_and_clear_def
  by (intro keeps_intros keeps_bindS inv_calls inv_clear)+

lemma inv_observe: "keeps I (observe_adapter A c now w)"
  unfolding observe_adapter_def
  by (intro keeps_intros keeps_bindS inv_poll inv_refresh inv_stop_ops)

lemma inv_hold: "keeps I (hold_stop A now)"
  unfolding hold_stop_def by (intro keeps_intros keeps_bindS inv_calls inv_clear)

lemma inv_parking: "keeps I (parking_error A)"
  unfolding parking_error_def by (intro keeps_intros keeps_bindS inv_calls)

lemma inv_observation: "keeps I (reset_observation A)"
  unfolding reset_observation_def by (intro keeps_intros keeps_bindS keeps_modifyS inv_calls i_flag)

text \<open>Receiving a profile: the cached request and answer, the commit's calls, and the activation.\<close>

lemma inv_profile:
  assumes result: "\<And>s r. I s \<Longrightarrow> I (s\<lparr>sv_last_result := r\<rparr>)"
    and request: "\<And>s q. I s \<Longrightarrow> I (s\<lparr>sv_last_request := q\<rparr>)"
    and configure: "keeps I (adapter_call (ad_configure_runtime_control_profile A (req_profile req) (seq req)))"
    and reapply: "\<And>c. keeps I (adapter_call (ad_apply_control A c))"
    and effective: "\<And>s c. I s \<Longrightarrow> I (s\<lparr>sv_last_effective_command := c\<rparr>)"
    and activate: "\<And>s t. profile_freshness_error req now = None \<Longrightarrow> I s \<Longrightarrow>
      profile_limit_error (req_profile req) s = None \<Longrightarrow> I t \<Longrightarrow> I (t\<lparr>sv_active_profile := Some (req_profile req)\<rparr>)"
  shows "keeps I (sv_receive_session_profile A req now)"
proof -
  have cache: "keeps I (cache_result req r)" for r
    unfolding cache_result_def by (intro keeps_intros keeps_bindS keeps_modifyS result request)
  have refuse: "keeps I (refuse_profile req now reason)" "keeps I (refuse_and_cache req now reason)" for reason
    unfolding refuse_and_cache_def refuse_profile_def by (intro keeps_intros keeps_bindS cache)+
  have install: "keeps I (install_profile A req s)" for s
    unfolding install_profile_def Let_def
    by (intro keeps_intros keeps_bindS keeps_modifyS configure reapply effective; assumption?)
  have commit: "keeps I (commit_profile A req now)"
    if "profile_freshness_error req now = None" "I s" "profile_limit_error (req_profile req) s = None" for s
    unfolding commit_profile_def ignoring_def
    by (intro keeps_intros keeps_bindS keeps_modifyS install inv_calls inv_clear refuse cache activate [OF that]; assumption?)
  have evaluate: "keeps I (evaluate_profile A req now)"
    unfolding evaluate_profile_def
    by (intro keeps_getS_bind keeps_option keeps_if keeps_bindS refuse inv_parking commit keeps_basic; assumption?)
  show ?thesis
    unfolding sv_receive_session_profile_def replay_profile_def Let_def
    by (intro keeps_intros keeps_bindS keeps_modifyS inv_require_started refuse evaluate result; assumption?)
qed

end

definition sv_unreset :: "sv_event \<Rightarrow> bool" where
  "sv_unreset e \<longleftrightarrow> (case e of SvResetEstop confirmed by_whom \<Rightarrow> \<not> confirmed \<or> by_whom = [] | _ \<Rightarrow> True)"

lemma latching_iff: "latching s \<longleftrightarrow> latched (sv_safety s)"
  by (simp add: latching_def latched_def)

lemma latched_ops [simp]:
  "latched m \<Longrightarrow> latched (safety_tick now m)" "latched m \<Longrightarrow> latched (on_valid_command c now m)"
  "latched m \<Longrightarrow> latched (mark_ready m)" "latched (mark_fault m)"
  "latched m \<Longrightarrow> latched (snd (reset_to_standby m))"
  using safety_step_latched [of m "Tick now"] safety_step_latched [of m "ValidCommand c now"]
    safety_step_latched [of m MarkReady] safety_step_latched [of m ResetToStandby]
  by (simp_all add: no_local_reset_def) (simp add: latched_def mark_fault_def)

text \<open>
  A quiet adapter: \<open>P\<close> is a property of the adapter's state that only \<open>apply_control\<close> may
  change, such as the number of commands it has applied.
\<close>

locale quiet_adapter =
  fixes A :: "'a vehicle_adapter" and P :: "'a \<Rightarrow> bool"
  assumes q_open: "keeps P (ad_open A)" and q_close: "keeps P (ad_close A)"
    and q_configure: "keeps P (ad_configure_runtime_control_profile A p revision)"
    and q_clear: "keeps P (ad_clear_runtime_control_profile A)"
    and q_stop: "keeps P (ad_apply_safe_stop A out ctx)"
    and q_poll: "keeps P (ad_poll_feedback A)"
    and q_request: "keeps P (ad_request_vcu_handshake A)"
    and q_disconnect: "keeps P (ad_disconnect_vcu_handshake A)"
    and q_status: "keeps P (ad_vcu_handshake_status A)"
    and q_telemetry: "keeps P (ad_read_telemetry A)"
begin

lemmas quiet = q_open q_close q_configure q_clear q_stop q_poll q_request q_disconnect q_status q_telemetry

text \<open>The service is latched, and the adapter has not been driven since.\<close>

definition held :: "'a control_service \<Rightarrow> bool" where
  "held s \<longleftrightarrow> latching s \<and> P (sv_adapter s)"

lemma held_update [simp]:
  "held (s\<lparr>sv_adapter := a\<rparr>) \<longleftrightarrow> latching s \<and> P a" "held (forget_profile s) \<longleftrightarrow> held s"
  "held (s\<lparr>sv_adapter_safe_stop_active := b\<rparr>) \<longleftrightarrow> held s" "held (s\<lparr>sv_started := b\<rparr>) \<longleftrightarrow> held s"
  "held (s\<lparr>sv_active_profile := p\<rparr>) \<longleftrightarrow> held s" "held (s\<lparr>sv_last_effective_command := c\<rparr>) \<longleftrightarrow> held s"
  "held (s\<lparr>sv_last_result := r\<rparr>) \<longleftrightarrow> held s" "held (s\<lparr>sv_last_request := q\<rparr>) \<longleftrightarrow> held s" "held (s\<lparr>sv_last_request := q, sv_last_result := r\<rparr>) \<longleftrightarrow> held s"
  "held (s\<lparr>sv_telemetry_sequence := n\<rparr>) \<longleftrightarrow> held s" "held (s\<lparr>sv_telemetry_history := ts\<rparr>) \<longleftrightarrow> held s"
  "held (s\<lparr>sv_telemetry_history := ts, sv_last_telemetry_ms := t\<rparr>) \<longleftrightarrow> held s"
  "held (s\<lparr>sv_receiver := rc\<rparr>) \<longleftrightarrow> held s"
  by (simp_all add: held_def latching_def forget_profile_def)

lemma held_call: "keeps P m \<Longrightarrow> keeps held (adapter_call m)"
  by (rule keeps_adapter_call [where P = P]) (simp_all add: held_def latching_def)

lemmas held_calls = quiet [THEN held_call]

lemma held_update_safety: "(\<And>m. latched m \<Longrightarrow> latched (f m)) \<Longrightarrow> keeps held (update_safety f)"
  unfolding update_safety_def by (rule keeps_modifyS) (simp add: held_def latching_iff)

lemma held_safety_ops:
  "keeps held (update_safety (safety_tick now))" "keeps held (update_safety (on_valid_command c now))"
  "keeps held (update_safety mark_fault)" "keeps held (update_safety mark_ready)"
  by (rule held_update_safety, simp)+

sublocale held: service_invariant A held
  by unfold_locales (simp_all add: held_calls held_safety_ops)

lemma held_telemetry: "keeps held (record_telemetry A now)"
  unfolding record_telemetry_def build_telemetry_def ignoring_def
  by (intro keeps_intros keeps_bindS keeps_modifyS held_calls) simp_all

lemma held_tick: "keeps held (sv_tick A now)"
  unfolding sv_tick_def
  by (intro keeps_intros keeps_bindS inv_require_started held.inv_poll held.inv_refresh held.inv_watchdog
      held_telemetry held_safety_ops)

lemma held_receiver: "keeps held (sv_receiver_accept c now)"
  by (simp add: keeps_def sv_receiver_accept_def split: prod.splits)

lemma held_admit: "keeps held (admit_command A c now)"
  unfolding admit_command_def
  by (intro keeps_intros keeps_bindS held_receiver held.inv_watchdog held.inv_clear held_safety_ops)

lemma held_finish: "keeps held (finish_command A c now r)"
  unfolding finish_command_def
  by (intro keeps_getS_bind keeps_bindS keeps_if keeps_intros held_safety_ops held.inv_hold)
     (simp add: held_def)

lemma held_process: "keeps held (process_received A now r)"
  unfolding process_received_def Let_def
  by (intro keeps_intros keeps_bindS held_calls held.inv_observe held_finish)

lemma held_command: "keeps held (sv_receive_command A c now)"
  unfolding sv_receive_command_def
  by (intro keeps_bindS inv_require_started held_admit held_process)

lemma held_profile: "keeps held (sv_receive_session_profile A req now)"
proof -
  have install: "held s \<Longrightarrow> keeps held (install_profile A req s)" for s
    unfolding install_profile_def
    by (intro keeps_intros keeps_bindS held_calls) (auto simp: held_def latching_def)
  have refuse: "keeps held (refuse_profile req now reason)" "keeps held (refuse_and_cache req now reason)" for reason
    unfolding refuse_and_cache_def refuse_profile_def cache_result_def
    by (intro keeps_intros keeps_bindS keeps_modifyS; simp)+
  have commit: "keeps held (commit_profile A req now)"
    unfolding commit_profile_def cache_result_def ignoring_def
    by (intro keeps_getS_bind keeps_bindS keeps_intros keeps_modifyS held_calls held.inv_clear install refuse) simp_all
  show ?thesis
    unfolding sv_receive_session_profile_def evaluate_profile_def replay_profile_def Let_def
    by (intro keeps_intros keeps_bindS keeps_modifyS inv_require_started refuse commit held.inv_parking) simp_all
qed

lemma held_handshake: "keeps held (sv_request_vcu_handshake A)" "keeps held (sv_disconnect_vcu_handshake A)"
  unfolding sv_request_vcu_handshake_def sv_disconnect_vcu_handshake_def
  by (intro keeps_getS_bind keeps_bindS keeps_intros keeps_modifyS inv_require_started held_calls held.inv_clear;
      auto simp: held_def latching_def)+

lemma held_start: "keeps held (sv_start A)"
  unfolding sv_start_def
  by (intro keeps_intros keeps_bindS keeps_modifyS held_calls held_safety_ops) simp_all

lemma held_close: "keeps held (sv_close A ctx)"
  unfolding sv_close_def by (intro keeps_intros keeps_bindS keeps_modifyS held_calls held.inv_clear) simp_all

lemma held_reset: "\<not> confirmed \<or> by_whom = [] \<Longrightarrow> keeps held (sv_reset_estop A confirmed by_whom)"
  unfolding sv_reset_estop_def by (intro keeps_bindS keeps_intros) auto

lemma held_event: "held s \<Longrightarrow> sv_unreset e \<Longrightarrow> held (snd (sv_step A e s))"
  using held_start held_command held_profile held_tick held_handshake held_close held_reset
  by (cases e) (auto intro: keepsD simp: sv_unreset_def)

lemma held_run: "held s \<Longrightarrow> list_all sv_unreset es \<Longrightarrow> held (snd (run (sv_step A) es s))"
  by (induction es arbitrary: s) (auto intro: held_event)

lemma held_estop:
  assumes "sv_started s" "estop c" "admissible (sv_receiver s) c now" "P (sv_adapter s)"
  shows "held (snd (sv_receive_command A c now s))"
proof -
  have "wp (admit_command A c now) (\<lambda>_. held) (\<lambda>_. held) s"
  proof -
    have "held (t\<lparr>sv_safety := on_valid_command c now m\<rparr>)" if "P (sv_adapter t)" for t m
      using that assms(2) by (simp add: held_def latching_def on_valid_command_def)
    then show ?thesis
      using assms held.inv_clear
      by (simp add: admit_command_def wp_simps wp_receiver receiver_accept_admissible update_safety_def keeps_alt)
  qed
  then have "wp (bindS (admit_command A c now) (process_received A now)) (\<lambda>_. held) (\<lambda>_. held) s"
    using held_process unfolding wp_bindS keeps_alt by (blast intro: wp_conseq)
  then have "held (snd (bindS (admit_command A c now) (process_received A now) s))"
    by (simp only: wp_snd)
  then show ?thesis
    using assms(1) by (simp add: sv_receive_command_def bindS_def [of require_started] require_started_def)
qed

lemma held_estop_run:
  assumes "sv_started s" "estop c" "admissible (sv_receiver s) c now" "P (sv_adapter s)" "list_all sv_unreset es"
  shows "held (snd (run (sv_step A) (SvCommand c now # es) s))"
  using held_run [OF held_estop [OF assms(1-4)] assms(5)] by simp

end

subsection \<open>Counting what reaches the actuators\<close>

text \<open>
  The commands an adapter has been asked to apply, each with the state the adapter was in when
  it was asked: any adapter with a log beside its state.
\<close>

definition lifted :: "('a, 'r) oper \<Rightarrow> ('a \<times> 'l, 'r) oper" where
  "lifted m s = (case m (fst s) of (r, a) \<Rightarrow> (r, (a, snd s)))"

definition logged :: "'a vehicle_adapter \<Rightarrow> ('a \<times> (control_command \<times> 'a) list) vehicle_adapter" where
  "logged A = \<lparr>ad_open = lifted (ad_open A), ad_close = lifted (ad_close A),
     ad_configure_runtime_control_profile = (\<lambda>p revision. lifted (ad_configure_runtime_control_profile A p revision)),
     ad_clear_runtime_control_profile = lifted (ad_clear_runtime_control_profile A),
     ad_apply_control = (\<lambda>c s. case lifted (ad_apply_control A c) s of (r, a, l) \<Rightarrow> (r, a, l @ [(c, fst s)])),
     ad_apply_safe_stop = (\<lambda>out ctx. lifted (ad_apply_safe_stop A out ctx)),
     ad_poll_feedback = lifted (ad_poll_feedback A),
     ad_request_vcu_handshake = lifted (ad_request_vcu_handshake A),
     ad_disconnect_vcu_handshake = lifted (ad_disconnect_vcu_handshake A),
     ad_feedback_ready = ad_feedback_ready A \<circ> fst,
     ad_vcu_handshake_status = lifted (ad_vcu_handshake_status A),
     ad_read_telemetry = lifted (ad_read_telemetry A), ad_status = ad_status A \<circ> fst\<rparr>"

lemma keeps_lifted: "keeps (\<lambda>s. snd s = l) (lifted m)"
  by (simp add: keeps_def lifted_def split: prod.splits)

interpretation logged: quiet_adapter "logged A" "\<lambda>s. snd s = l" for A l
  by unfold_locales (simp_all add: logged_def keeps_lifted)

interpretation mock: quiet_adapter mock_vehicle_adapter "\<lambda>s. ma_applied_command_count s = n" for n
  by unfold_locales (simp_all add: mock_vehicle_adapter_def keeps_def oper_defs mock_open_def mock_close_def
      mock_configure_def mock_clear_def mock_apply_safe_stop_def mock_read_telemetry_def Let_def
      split: sum.splits)

lemma keeps_bridge:
  "(\<And>s b. I (s\<lparr>da_bridge := b\<rparr>) = I s) \<Longrightarrow> keeps I (bridge_call f)"
  "(\<And>s b. I (s\<lparr>da_bridge := b\<rparr>) = I s) \<Longrightarrow> keeps I (bridge_oper m)"
  by (simp_all add: keeps_def bridge_call_def bridge_oper_def split: prod.splits)

lemma keeps_dynamic_checks:
  "(\<And>s m. I (s\<lparr>da_last_error := m\<rparr>) = I s) \<Longrightarrow> keeps I (check_result code operation)"
  "keeps I require_open"
  by (simp_all add: keeps_def check_result_def require_open_def Let_def)

interpretation dynamic: quiet_adapter "dynamic_vehicle_adapter B" "\<lambda>s. da_applied_command_count s = n" for B n
  by unfold_locales
     (unfold dynamic_vehicle_adapter_def vehicle_adapter.simps dynamic_open_def dynamic_close_def dynamic_configure_def
        dynamic_clear_def dynamic_apply_safe_stop_def dynamic_poll_feedback_def dynamic_request_handshake_def
        dynamic_disconnect_handshake_def dynamic_handshake_status_def dynamic_read_telemetry_def ensure_loaded_def,
      (intro keeps_intros keeps_bindS keeps_modifyS keeps_bridge keeps_dynamic_checks; simp)+)

text \<open>
  C1. ESTOP withdraws drive authority for good: once the service has admitted an ESTOP command,
  then whatever the adapter's operations return or throw, through every later sequence of
  commands, profiles, ticks, handshakes, restarts and unconfirmed resets the service stays
  latched and passes no command to the adapter's actuators.
\<close>

theorem sv_estop_blocks_control:
  assumes "sv_started s" "estop c" "admissible (sv_receiver s) c now" "list_all sv_unreset es"
  shows "latching (snd (run (sv_step (logged A)) (SvCommand c now # es) s)) \<and>
     snd (sv_adapter (snd (run (sv_step (logged A)) (SvCommand c now # es) s))) = snd (sv_adapter s)"
  using logged.held_estop_run [OF assms(1-3) refl assms(4)] by (simp only: logged.held_def)

subsection \<open>When a command reaches the actuators\<close>

text \<open>What the observing part of the service leaves alone: the vehicle's configuration and an active profile, unless it is revoked.\<close>

definition vehicle_limits :: "'a control_service \<Rightarrow> double \<times> double \<times> double \<times> double \<times> bool" where
  "vehicle_limits s = (sv_max_speed_kph s, sv_max_throttle s, sv_max_steering_angle_deg s, sv_max_brake_pressure_bar s,
     sv_require_feedback s)"

definition calm :: "('a \<times> 'l) control_service \<Rightarrow> ('a \<times> 'l) control_service \<Rightarrow> bool" where
  "calm s t \<longleftrightarrow> snd (sv_adapter t) = snd (sv_adapter s) \<and> vehicle_limits t = vehicle_limits s \<and>
     (sv_active_profile t = None \<or> sv_active_profile t = sv_active_profile s)"

lemma calm_refl [simp]: "calm s s"
  by (simp add: calm_def)

lemma calm_trans: "calm s t \<Longrightarrow> calm t u \<Longrightarrow> calm s u"
  by (auto simp: calm_def)

lemma calm_update [simp]:
  "calm s (t\<lparr>sv_adapter_safe_stop_active := b\<rparr>) \<longleftrightarrow> calm s t" "calm s (t\<lparr>sv_safety := m\<rparr>) \<longleftrightarrow> calm s t"
  "calm s (t\<lparr>sv_receiver := rc\<rparr>) \<longleftrightarrow> calm s t" "calm s t \<Longrightarrow> calm s (forget_profile t)"
  "calm s t \<Longrightarrow> snd a = snd (sv_adapter s) \<Longrightarrow> calm s (t\<lparr>sv_adapter := a\<rparr>)"
  by (simp_all add: calm_def vehicle_limits_def forget_profile_def)

lemma calm_call: "keeps (\<lambda>a. snd a = snd (sv_adapter s)) m \<Longrightarrow> keeps (calm s) (adapter_call m)"
  by (rule keeps_adapter_call [where P = "\<lambda>a. snd a = snd (sv_adapter s)"]) (simp_all add: calm_def vehicle_limits_def)

interpretation calm: service_invariant "logged A" "calm s" for A s
  by unfold_locales (simp_all add: calm_call logged.quiet update_safety_def keeps_modifyS)

lemma limit_command_calm:
  "calm s t \<Longrightarrow> sv_active_profile t \<noteq> None \<Longrightarrow> limit_command t c = limit_command s c"
  by (auto simp: calm_def vehicle_limits_def limit_command_def session_throttle_limit_def
      session_steering_limit_def Let_def)

text \<open>After the watchdog: the safety machine has ticked, and only its driving states leave a profile.\<close>

definition watched :: "int \<Rightarrow> ('a \<times> 'l) control_service \<Rightarrow> ('a \<times> 'l) control_service \<Rightarrow> bool" where
  "watched now s t \<longleftrightarrow> calm s t \<and> sv_receiver t = sv_receiver s \<and> sv_safety t = safety_tick now (sv_safety s) \<and>
     (sm_state (sv_safety t) \<in> {TimeoutBrake, Estop, Fault} \<longrightarrow> sv_active_profile t = None)"

lemma watched_update [simp]:
  "watched now s t \<Longrightarrow> snd a = snd (sv_adapter s) \<Longrightarrow> watched now s (t\<lparr>sv_adapter := a\<rparr>)"
  by (simp add: watched_def)

lemma forget_profile_adapter [simp]: "sv_adapter (forget_profile s) = sv_adapter s"
  by (simp add: forget_profile_def)

lemma wp_logged_call:
  assumes "\<And>l. keeps (\<lambda>a. snd a = l) m"
    and "\<And>r a. snd a = snd (sv_adapter s) \<Longrightarrow> Q r (s\<lparr>sv_adapter := a\<rparr>)"
    and "\<And>e a. snd a = snd (sv_adapter s) \<Longrightarrow> X e (s\<lparr>sv_adapter := a\<rparr>)"
  shows "wp (adapter_call m) Q X s"
  using assms by (intro wp_adapter_call_keeps [where P = "\<lambda>a. snd a = snd (sv_adapter s)"]) auto

lemma wp_logged_clear:
  assumes "\<And>a. snd a = snd (sv_adapter s) \<Longrightarrow> Q () ((forget_profile s)\<lparr>sv_adapter := a\<rparr>)"
  shows "wp (clear_session_profile (logged A)) Q X s"
  unfolding clear_session_profile_def ignoring_def wp_simps
  by (rule wp_logged_call) (use assms in \<open>simp_all add: logged.quiet wp_simps\<close>)

lemma watchdog_post:
  "wp (evaluate_control_watchdog (logged A) now) (\<lambda>_. watched now s) (\<lambda>_. watched now s) s"
proof -
  have calls: "keeps (\<lambda>a. snd a = l) (ad_apply_safe_stop (logged A) out ctx)" for l out ctx
    by (rule logged.quiet)
  show ?thesis
    unfolding evaluate_control_watchdog_def update_safety_def Let_def wp_simps
    by (auto intro!: wp_logged_call [OF calls] wp_logged_clear simp: wp_simps watched_def)
       (auto simp: forget_profile_def calm_def vehicle_limits_def)
qed

definition may_drive :: "'a control_service \<Rightarrow> control_command \<Rightarrow> int \<Rightarrow> bool" where
  "may_drive s c now \<longleftrightarrow> admissible (sv_receiver s) c now \<and> \<not> estop c \<and> sv_active_profile s \<noteq> None \<and>
     sm_state (safety_tick now (sv_safety s)) \<notin> {TimeoutBrake, Estop, Fault} \<and>
     (sm_state (safety_tick now (sv_safety s)) = Degraded \<longrightarrow>
        \<not> dlt tolerance (throttle c) \<and> \<not> dlt tolerance (dabs (steering c)))"

definition driven :: "('b \<Rightarrow> bool) \<Rightarrow> ('b \<times> (control_command \<times> 'b) list) control_service \<Rightarrow> control_command \<Rightarrow> int \<Rightarrow>
    ('b \<times> (control_command \<times> 'b) list) control_service \<Rightarrow> bool" where
  "driven G s c now t \<longleftrightarrow> snd (sv_adapter t) = snd (sv_adapter s) \<or>
     (may_drive s c now \<and> (\<exists>b. G b \<and> snd (sv_adapter t) = snd (sv_adapter s) @ [(limit_command s c, b)]))"

lemma calm_driven: "calm s t \<Longrightarrow> driven G s c now t"
  by (simp add: calm_def driven_def)

lemma wp_logged_apply:
  assumes "\<And>r a. snd a = snd (sv_adapter s) @ [(c, fst (sv_adapter s))] \<Longrightarrow> Q r (s\<lparr>sv_adapter := a\<rparr>)"
    and "\<And>e a. snd a = snd (sv_adapter s) @ [(c, fst (sv_adapter s))] \<Longrightarrow> X e (s\<lparr>sv_adapter := a\<rparr>)"
  shows "wp (adapter_call (ad_apply_control (logged A) c)) Q X s"
  using assms by (simp add: wp_def adapter_call_def logged_def lifted_def split: prod.splits sum.splits)

lemma wp_keeps: "keeps I m \<Longrightarrow> I s \<Longrightarrow> (\<And>t. I t \<Longrightarrow> D t) \<Longrightarrow> wp m (\<lambda>_. D) (\<lambda>_. D) s"
  by (simp add: wp_snd keeps_def)

lemma wp_both:
  "wp m Q X s \<Longrightarrow> wp m Q' X' s \<Longrightarrow> wp m (\<lambda>r t. Q r t \<and> Q' r t) (\<lambda>e t. X e t \<and> X' e t) s"
  by (simp add: wp_def split: prod.splits sum.splits)

lemma limit_estop [simp]: "estop (limit_command s c) = estop c"
  by (simp add: limit_command_def Let_def)

lemma apply_post:
  assumes "calm s t" "may_drive s c now" "G (fst (sv_adapter t))"
  shows "wp (apply_ordinary (logged A) (limit_command s c) sc now r) (\<lambda>_. driven G s c now) (\<lambda>_. driven G s c now) t"
  using assms unfolding apply_ordinary_def update_safety_def wp_simps
  by (intro wp_logged_apply) (auto simp: wp_simps driven_def calm_def split: exn.splits)

lemma finish_post:
  assumes "calm s t" "may_drive s c now" "G (fst (sv_adapter t))"
  shows "wp (finish_command (logged A) (limit_command s c) now r) (\<lambda>_. driven G s c now) (\<lambda>_. driven G s c now) t"
proof -
  have hold: "wp (hold_stop (logged A) now) (\<lambda>_. driven G s c now) (\<lambda>_. driven G s c now) u" if "calm s u" for u
    using calm.inv_hold that by (rule wp_keeps) (rule calm_driven)
  show ?thesis
    using assms hold apply_post [where G = G, OF assms] calm_driven [OF assms(1)]
    by (auto simp: finish_command_def wp_simps update_safety_def split: sum.splits)
qed

text \<open>
  What the service has seen of the vehicle, written beside the state of any adapter: whether the
  last poll for feedback returned, and the telemetry and handshake status last read (None when
  the reading threw).
\<close>

record vehicle_view =
  vv_polled :: bool
  vv_telemetry :: "vehicle_telemetry option"
  vv_handshake :: "vcu_handshake_status option"

fun answer :: "'r res \<Rightarrow> 'r option" where
  "answer (Inl e) = None"
| "answer (Inr r) = Some r"

definition recorded :: "'a vehicle_adapter \<Rightarrow> ('a \<times> vehicle_view) vehicle_adapter" where
  "recorded A = \<lparr>ad_open = lifted (ad_open A), ad_close = lifted (ad_close A),
     ad_configure_runtime_control_profile = (\<lambda>p revision. lifted (ad_configure_runtime_control_profile A p revision)),
     ad_clear_runtime_control_profile = lifted (ad_clear_runtime_control_profile A),
     ad_apply_control = (\<lambda>c. lifted (ad_apply_control A c)),
     ad_apply_safe_stop = (\<lambda>out ctx. lifted (ad_apply_safe_stop A out ctx)),
     ad_poll_feedback = (\<lambda>s. case ad_poll_feedback A (fst s) of (r, a) \<Rightarrow> (r, a, (snd s)\<lparr>vv_polled := answer r \<noteq> None\<rparr>)),
     ad_request_vcu_handshake = lifted (ad_request_vcu_handshake A),
     ad_disconnect_vcu_handshake = lifted (ad_disconnect_vcu_handshake A),
     ad_feedback_ready = ad_feedback_ready A \<circ> fst,
     ad_vcu_handshake_status =
       (\<lambda>s. case ad_vcu_handshake_status A (fst s) of (r, a) \<Rightarrow> (r, a, (snd s)\<lparr>vv_handshake := answer r\<rparr>)),
     ad_read_telemetry = (\<lambda>s. case ad_read_telemetry A (fst s) of (r, a) \<Rightarrow> (r, a, (snd s)\<lparr>vv_telemetry := answer r\<rparr>)),
     ad_status = ad_status A \<circ> fst\<rparr>"

text \<open>The feedback allows an ordinary command: it could be polled and is complete, where it is required, and no stop is reported.\<close>

definition feedback_allows :: "'a vehicle_adapter \<Rightarrow> bool \<Rightarrow> 'a \<times> vehicle_view \<Rightarrow> bool" where
  "feedback_allows A required b \<longleftrightarrow> (required \<longrightarrow> vv_polled (snd b) \<and> ad_feedback_ready A (fst b)) \<and>
     (case (vv_telemetry (snd b), vv_handshake (snd b)) of
        (Some t, Some h) \<Rightarrow> \<not> tel_estop t \<and> \<not> vhs_disarming h | _ \<Rightarrow> False)"

lemma wp_recorded:
  assumes "\<And>r x. snd x = snd (sv_adapter s) \<Longrightarrow> vv_polled (snd (fst x)) \<Longrightarrow> Q r (s\<lparr>sv_adapter := x\<rparr>)"
    and "\<And>e x. snd x = snd (sv_adapter s) \<Longrightarrow> \<not> vv_polled (snd (fst x)) \<Longrightarrow> X e (s\<lparr>sv_adapter := x\<rparr>)"
  shows "wp (adapter_call (ad_poll_feedback (logged (recorded A)))) Q X s"
  using assms by (simp add: wp_def adapter_call_def logged_def lifted_def recorded_def split: prod.splits sum.splits)

lemma wp_recorded_telemetry:
  assumes "\<And>r a. Q r (s\<lparr>sv_adapter := ((a, (snd (fst (sv_adapter s)))\<lparr>vv_telemetry := Some r\<rparr>), snd (sv_adapter s))\<rparr>)"
    and "\<And>e a. X e (s\<lparr>sv_adapter := ((a, (snd (fst (sv_adapter s)))\<lparr>vv_telemetry := None\<rparr>), snd (sv_adapter s))\<rparr>)"
  shows "wp (adapter_call (ad_read_telemetry (logged (recorded A)))) Q X s"
  using assms by (simp add: wp_def adapter_call_def logged_def lifted_def recorded_def split: prod.splits sum.splits)

lemma wp_recorded_handshake:
  assumes "\<And>r a. Q r (s\<lparr>sv_adapter := ((a, (snd (fst (sv_adapter s)))\<lparr>vv_handshake := Some r\<rparr>), snd (sv_adapter s))\<rparr>)"
    and "\<And>e a. X e (s\<lparr>sv_adapter := ((a, (snd (fst (sv_adapter s)))\<lparr>vv_handshake := None\<rparr>), snd (sv_adapter s))\<rparr>)"
  shows "wp (adapter_call (ad_vcu_handshake_status (logged (recorded A)))) Q X s"
  using assms by (simp add: wp_def adapter_call_def logged_def lifted_def recorded_def split: prod.splits sum.splits)

lemma calm_required: "calm s t \<Longrightarrow> sv_require_feedback t = sv_require_feedback s"
  by (simp add: calm_def vehicle_limits_def)

text \<open>Observing the adapter lets the command pass only with such feedback.\<close>

lemma poll_seen: "wp (poll_failed (logged (recorded A))) (\<lambda>failed t. \<not> failed \<longrightarrow> vv_polled (snd (fst (sv_adapter t)))) X s"
  unfolding poll_failed_def wp_simps by (rule wp_recorded) (simp_all add: wp_simps)

lemma refresh_seen:
  assumes "b \<longrightarrow> vv_polled (snd (fst (sv_adapter s)))"
  shows "wp (refresh_adapter_safe_stop_state (logged (recorded A)))
     (\<lambda>seen t. seen \<and> \<not> sv_adapter_safe_stop_active t \<longrightarrow>
        (b \<longrightarrow> vv_polled (snd (fst (sv_adapter t)))) \<and> feedback_allows A False (fst (sv_adapter t))) X s"
  unfolding refresh_adapter_safe_stop_state_def wp_simps
  using assms by (intro wp_recorded_telemetry wp_recorded_handshake)
    (auto simp: wp_simps feedback_allows_def forget_profile_def intro!: wp_logged_clear wp_recorded_handshake)

lemma observe_seen:
  assumes "\<not> estop c"
  shows "wp (observe_adapter (logged (recorded A)) c now w)
     (\<lambda>e t. e = None \<longrightarrow> feedback_allows A (sv_require_feedback t) (fst (sv_adapter t))) (\<lambda>_ _. True) s"
proof -
  let ?B = "logged (recorded A)"
  let ?Q = "\<lambda>e t. e = None \<longrightarrow> feedback_allows A (sv_require_feedback t) (fst (sv_adapter t))"
  define decide where "decide = (\<lambda>failed seen. bindS (getS id) (\<lambda>s.
       if sv_adapter_safe_stop_active s then returnS (Some (refusal ''adapter_safe_stop_active'' w))
       else if \<not> seen then bindS (fault_and_stop ?B now AdapterSafetyStatusUnavailable)
              (\<lambda>_. returnS (Some (refusal ''adapter_safety_status_unavailable'' w)))
       else if failed \<and> sv_require_feedback s then bindS (fault_and_stop ?B now CanFeedbackMissing)
              (\<lambda>_. returnS (Some (refusal ''can_feedback_poll_failed'' w)))
       else if sv_require_feedback s \<and> \<not> ad_feedback_ready ?B (sv_adapter s)
         then bindS (stop_and_clear ?B (mk_output ''N'' zero zero one False True) CanFeedbackMissing)
              (\<lambda>_. returnS (Some (refusal ''can_feedback_missing'' w)))
       else returnS None))"
  have trivial: "wp m (\<lambda>_ _. True) (\<lambda>_ _. True) u" for m :: "('s, 'r) oper" and u
    by (simp add: wp_def split: prod.splits sum.splits)
  have decided: "wp (decide failed seen) ?Q (\<lambda>_ _. True) u"
    if "seen \<and> \<not> sv_adapter_safe_stop_active u \<longrightarrow>
       (\<not> failed \<longrightarrow> vv_polled (snd (fst (sv_adapter u)))) \<and> feedback_allows A False (fst (sv_adapter u))"
    for failed seen u
    using that by (auto simp: decide_def wp_simps trivial feedback_allows_def logged_def recorded_def)
  have refreshed: "wp (bindS (refresh_adapter_safe_stop_state ?B) (decide failed)) ?Q (\<lambda>_ _. True) u"
    if "\<not> failed \<longrightarrow> vv_polled (snd (fst (sv_adapter u)))" for failed u
    by (simp only: wp_bindS) (rule wp_conseq [OF refresh_seen [OF that, where X = "\<lambda>_ _. True"]], erule decided, simp)
  have "wp (bindS (poll_failed ?B) (\<lambda>failed. bindS (refresh_adapter_safe_stop_state ?B) (decide failed))) ?Q (\<lambda>_ _. True) s"
    by (subst wp_bindS, rule wp_conseq [OF poll_seen [where X = "\<lambda>_ _. True"]], erule refreshed, simp)
  then show ?thesis using assms by (simp add: observe_adapter_def decide_def)
qed

lemma process_post:
  assumes "calm s t" "sv_safety t = safety_tick now (sv_safety s)"
    and "sm_state (sv_safety t) \<in> {TimeoutBrake, Estop, Fault} \<longrightarrow> sv_active_profile t = None"
    and "rr_accepted r \<Longrightarrow> rr_command r = Some c \<and> admissible (sv_receiver s) c now" "\<not> estop c"
  shows "wp (process_received (logged (recorded A)) now r) (\<lambda>_. driven (feedback_allows A (sv_require_feedback s)) s c now)
    (\<lambda>_. driven (feedback_allows A (sv_require_feedback s)) s c now) t"
proof -
  define D where "D = driven (feedback_allows A (sv_require_feedback s)) s c now"
  have calm_D: "calm s u \<Longrightarrow> D u" for u unfolding D_def by (rule calm_driven)
  have quiet: "wp m (\<lambda>_. D) (\<lambda>_. D) u" if "keeps (calm s) m" "calm s u"
    for m :: "((('a \<times> vehicle_view) \<times> (control_command \<times> 'a \<times> vehicle_view) list) control_service, 'r) oper" and u
    using that by (rule wp_keeps) (rule calm_D)
  have "wp (process_received (logged (recorded A)) now r) (\<lambda>_. D) (\<lambda>_. D) t"
  proof (cases "rr_accepted r")
    case False
    then show ?thesis
      using calm_D [OF assms(1)] by (simp add: process_received_def wp_simps split: option.splits)
  next
    case True
    then have r: "rr_command r = Some c" "admissible (sv_receiver s) c now" using assms(4) by simp_all
    show ?thesis
    proof (cases "sv_active_profile t = None \<or> degraded_refused t c")
      case True
      then show ?thesis
        using r \<open>rr_accepted r\<close> assms(1,5) calm_D [OF assms(1)] quiet [OF calm.i_stop assms(1)]
        by (auto simp: process_received_def wp_simps wp_returnS_fun)
    next
      case False
      have md: "may_drive s c now"
        using r False assms(1-5) by (auto simp: may_drive_def calm_def degraded_refused_def)
      have l: "limit_command t c = limit_command s c" using assms(1) False by (intro limit_command_calm) auto
      have finish: "wp (finish_command (logged (recorded A)) (limit_command s c) now r') (\<lambda>_. D) (\<lambda>_. D) u"
        if "calm s u" "feedback_allows A (sv_require_feedback s) (fst (sv_adapter u))" for u r'
        unfolding D_def by (rule finish_post [where G = "feedback_allows A (sv_require_feedback s)", OF that(1) md that(2)])
      have "wp (observe_adapter (logged (recorded A)) (limit_command s c) now w)
          (\<lambda>e. wp (case e of None \<Rightarrow> finish_command (logged (recorded A)) (limit_command s c) now r' | Some x \<Rightarrow> returnS x)
            (\<lambda>_. D) (\<lambda>_. D))
          (\<lambda>_. D) t" for w r'
      proof -
        have "wp (observe_adapter (logged (recorded A)) (limit_command s c) now w) (\<lambda>_. calm s) (\<lambda>_. calm s) t"
          using calm.inv_observe assms(1) by (rule wp_keeps) simp
        from wp_both [OF this observe_seen] show ?thesis
          by (rule wp_conseq)
             (use assms(5) in \<open>auto intro: calm_D finish simp: wp_simps calm_required split: option.splits\<close>)
      qed
      then show ?thesis
        using r \<open>rr_accepted r\<close> False assms(5) by (auto simp: process_received_def wp_simps l Let_def)
    qed
  qed
  then show ?thesis unfolding D_def .
qed

lemma receiver_result:
  assumes "receiver_accept c now rc = (Inr r, rc')" "rr_accepted r"
  shows "rr_command r = Some c \<and> admissible rc c now"
  using assms by (cases rule: receiver_accept_cases [where c = c and now = now and s = rc])
    (auto simp: receiver_accept_admissible)

lemma command_post:
  assumes "\<not> estop c"
  shows "wp (sv_receive_command (logged (recorded A)) c now) (\<lambda>_. driven (feedback_allows A (sv_require_feedback s)) s c now)
    (\<lambda>_. driven (feedback_allows A (sv_require_feedback s)) s c now) s"
proof -
  define D where "D s = driven (feedback_allows A (sv_require_feedback s)) s c now" for s
  have calm_D: "calm s u \<Longrightarrow> D s u" for u unfolding D_def by (rule calm_driven)
  have receive: "wp (sv_receiver_accept c now) (\<lambda>r. wp (process_received (logged (recorded A)) now r) (\<lambda>_. D s) (\<lambda>_. D s))
      (\<lambda>_. D s) t" if t: "watched now s t" for t
  proof -
    obtain res rc where acc: "receiver_accept c now (sv_receiver s) = (res, rc)" by (cases "receiver_accept c now (sv_receiver s)")
    have cm: "calm s (t\<lparr>sv_receiver := rc\<rparr>)" using t by (simp add: watched_def)
    have rt: "sv_receiver t = sv_receiver s" using t by (simp add: watched_def)
    show ?thesis
    proof (cases res)
      case (Inl e)
      then show ?thesis using acc rt calm_D [OF cm] by (simp add: wp_receiver)
    next
      case (Inr r)
      then have r: "rr_accepted r \<Longrightarrow> rr_command r = Some c \<and> admissible (sv_receiver s) c now"
        using receiver_result acc by blast
      have "wp (process_received (logged (recorded A)) now r) (\<lambda>_. D s) (\<lambda>_. D s) (t\<lparr>sv_receiver := rc\<rparr>)"
        unfolding D_def using t by (intro process_post [OF cm _ _ r assms(1)]) (simp_all add: watched_def)
      then show ?thesis using acc rt Inr by (simp add: wp_receiver)
    qed
  qed
  have "wp (evaluate_control_watchdog (logged (recorded A)) now)
      (\<lambda>_. wp (sv_receiver_accept c now) (\<lambda>r. wp (process_received (logged (recorded A)) now r) (\<lambda>_. D s) (\<lambda>_. D s))
        (\<lambda>_. D s)) (\<lambda>_. D s) s"
    using watchdog_post by (rule wp_conseq) (auto intro: receive calm_D simp: watched_def)
  moreover have "D s s" by (rule calm_D) simp
  ultimately have "wp (sv_receive_command (logged (recorded A)) c now) (\<lambda>_. D s) (\<lambda>_. D s) s"
    using assms(1) by (cases "sv_started s") (simp_all add: sv_receive_command_def admit_command_def wp_simps wp_require_started)
  then show ?thesis unfolding D_def .
qed

text \<open>
  C2. When a command reaches the actuators: receiving an ordinary command passes at most one
  command to the adapter's \<open>apply_control\<close>, namely the received one limited by the vehicle and
  the session, and only if the receiver admits it, a session profile is active, the watchdog
  has neither expired nor latched, in the degraded state the command is neutral, and the
  vehicle's feedback allows it: the telemetry and the handshake status could be read and report
  neither a stop nor a disarming VCU, and where the service requires feedback the poll returned
  and the adapter, in the very state in which it is given the command, reports its feedback
  ready; this for every adapter and whatever it returns or throws.
\<close>

theorem sv_drive_conditions:
  assumes "\<not> estop c" "s' = snd (sv_receive_command (logged (recorded A)) c now s)"
    and "snd (sv_adapter s') \<noteq> snd (sv_adapter s)"
  shows "may_drive s c now \<and>
    (\<exists>a v. snd (sv_adapter s') = snd (sv_adapter s) @ [(limit_command s c, a, v)] \<and>
       (sv_require_feedback s \<longrightarrow> vv_polled v \<and> ad_feedback_ready A a) \<and>
       (\<exists>t h. vv_telemetry v = Some t \<and> \<not> tel_estop t \<and> vv_handshake v = Some h \<and> \<not> vhs_disarming h))"
  using command_post [OF assms(1), of A now s] assms(2,3)
  by (auto simp: wp_snd driven_def feedback_allows_def split: option.splits)

lemma dlt_irrefl: "\<not> dlt a a"
  by (cases a) simp_all

lemma dlt_asym: "dlt a b \<Longrightarrow> \<not> dlt b a"
  by (cases a; cases b) simp_all

lemma dlt_trans: "dlt a b \<Longrightarrow> dlt b c \<Longrightarrow> dlt a c"
  by (cases a; cases b; cases c) simp_all

lemma deq_eq: "deq a b \<Longrightarrow> a = b"
  by (cases a; cases b) simp_all

lemma dmin_bounds: "\<not> dlt a (dmin a b)" "\<not> dlt b (dmin a b)" "\<not> dlt a x \<Longrightarrow> \<not> dlt a (dmin x b)"
  by (auto simp: dmin_def dlt_irrefl dest: dlt_asym dlt_trans)

lemma dclamp_bounds:
  assumes "dle zero l"
  shows "\<not> dlt l (dclamp v (dneg l) l)" "\<not> dlt (dclamp v (dneg l) l) (dneg l)"
proof -
  have "\<not> dlt l (dneg l)" using assms by (cases l) (auto simp: dle_def)
  then show "\<not> dlt l (dclamp v (dneg l) l)" "\<not> dlt (dclamp v (dneg l) l) (dneg l)"
    by (auto simp: dclamp_def dlt_irrefl)
qed

text \<open>
  The limits: the command that reaches the actuators never exceeds the vehicle's throttle
  limit, nor the session's target speed as a share of the vehicle's speed, and its steering
  never exceeds the smaller of the vehicle's and the session's steering angles as a share of
  30 degrees; its gear and brake are those received.
\<close>

theorem sv_limits:
  assumes "dle zero (ddiv (dmin (sv_max_steering_angle_deg s) (session_steering_limit s)) (dbl 30))"
  shows "\<not> dlt (sv_max_throttle s) (throttle (limit_command s c)) \<and>
     \<not> dlt (session_throttle_limit s) (throttle (limit_command s c)) \<and>
     \<not> dlt (ddiv (dmin (sv_max_steering_angle_deg s) (session_steering_limit s)) (dbl 30)) (steering (limit_command s c)) \<and>
     \<not> dlt (steering (limit_command s c)) (dneg (ddiv (dmin (sv_max_steering_angle_deg s) (session_steering_limit s)) (dbl 30))) \<and>
     gear (limit_command s c) = gear c \<and> brake (limit_command s c) = brake c"
proof -
  let ?l = "ddiv (dmin (sv_max_steering_angle_deg s) (session_steering_limit s)) (dbl 30)"
  have "throttle (limit_command s c) = dmin (dmin (throttle c) (sv_max_throttle s)) (session_throttle_limit s)"
    "steering (limit_command s c) = dclamp (steering c) (dneg ?l) ?l"
    by (auto simp: limit_command_def Let_def dest: deq_eq)
  moreover have "gear (limit_command s c) = gear c" "brake (limit_command s c) = brake c"
    by (simp_all add: limit_command_def Let_def)
  ultimately show ?thesis
    using dmin_bounds dclamp_bounds [OF assms] by simp
qed

subsection \<open>Invariants of every operation\<close>

text \<open>
  The contract of a predicate that every operation of the service preserves: beside the
  obligations above, it bears the remaining calls and assignments, and the two operations that
  install profiles and record telemetry keep it.
\<close>

locale service_contract = service_invariant A I for A :: "'a vehicle_adapter" and I +
  assumes c_calls: "keeps I (adapter_call (ad_open A))" "keeps I (adapter_call (ad_close A))"
      "keeps I (adapter_call (ad_apply_control A c))" "keeps I (adapter_call (ad_request_vcu_handshake A))"
      "keeps I (adapter_call (ad_disconnect_vcu_handshake A))"
    and c_safety: "I s \<Longrightarrow> I (s\<lparr>sv_safety := m\<rparr>)"
    and c_receiver: "I s \<Longrightarrow> I (s\<lparr>sv_receiver := rc\<rparr>)"
    and c_effective: "I s \<Longrightarrow> I (s\<lparr>sv_last_effective_command := ec\<rparr>)"
    and c_started: "I s \<Longrightarrow> I (s\<lparr>sv_started := b\<rparr>)"
    and c_profile: "keeps I (sv_receive_session_profile A req now)"
    and c_telemetry: "keeps I (record_telemetry A now)"
begin

lemma contract_safety: "keeps I (update_safety f)"
  unfolding update_safety_def by (rule keeps_modifyS) (rule c_safety)

lemma contract_receiver: "keeps I (sv_receiver_accept c now)"
  using c_receiver by (simp add: keeps_def sv_receiver_accept_def split: prod.splits)

lemma contract_command: "keeps I (sv_receive_command A c now)"
proof -
  have "keeps I (admit_command A c now)"
    unfolding admit_command_def
    by (intro keeps_intros keeps_bindS contract_receiver inv_watchdog inv_clear contract_safety)
  moreover have "keeps I (finish_command A x now r)" for x r
    unfolding finish_command_def apply_ordinary_def
    by (intro keeps_intros keeps_bindS keeps_modifyS c_calls c_effective contract_safety inv_hold; assumption?)
  ultimately show ?thesis
    unfolding sv_receive_command_def process_received_def Let_def
    by (intro keeps_intros keeps_bindS inv_require_started inv_calls inv_observe)
qed

lemma contract_others:
  "keeps I (sv_tick A now)" "keeps I (sv_start A)" "keeps I (sv_close A ctx)"
  "keeps I (sv_request_vcu_handshake A)" "keeps I (sv_disconnect_vcu_handshake A)"
  "keeps I (sv_reset_estop A confirmed by_whom)"
  unfolding sv_tick_def sv_start_def sv_close_def sv_request_vcu_handshake_def
    sv_disconnect_vcu_handshake_def sv_reset_estop_def
  by (intro keeps_intros keeps_bindS keeps_modifyS inv_require_started inv_calls inv_poll inv_refresh inv_watchdog
      inv_clear inv_observation c_calls c_telemetry contract_safety c_safety c_started i_flag; assumption?)+

lemma contract_step: "I s \<Longrightarrow> I (snd (sv_step A e s))"
  using contract_command c_profile contract_others by (cases e) (auto intro: keepsD)

lemma contract_run: "I s \<Longrightarrow> I (snd (run (sv_step A) es s))"
  by (induction es arbitrary: s) (auto intro: contract_step)

end

lemma keeps_any_call: "(\<And>s a. I s \<Longrightarrow> I (s\<lparr>sv_adapter := a\<rparr>)) \<Longrightarrow> keeps I (adapter_call m)"
  by (rule keeps_adapter_call [where P = "\<lambda>_. True"]) (simp_all add: keeps_def)

subsubsection \<open>The telemetry history\<close>

definition bounded_history :: "'a control_service \<Rightarrow> bool" where
  "bounded_history s \<longleftrightarrow> length (sv_telemetry_history s) \<le> kMaxVehicleTelemetryHistory"

lemma bounded_call: "keeps bounded_history (adapter_call m)"
  by (rule keeps_any_call) (simp add: bounded_history_def)

lemma bounded_safety: "keeps bounded_history (update_safety f)"
  unfolding update_safety_def by (rule keeps_modifyS) (simp add: bounded_history_def)

lemma bounded_record: "keeps bounded_history (record_telemetry A now)"
proof -
  let ?room = "\<lambda>s. length (sv_telemetry_history s) < kMaxVehicleTelemetryHistory"
  let ?trim = "\<lambda>s. if length (sv_telemetry_history s) = kMaxVehicleTelemetryHistory
    then s\<lparr>sv_telemetry_history := tl (sv_telemetry_history s)\<rparr> else s"
  let ?append = "\<lambda>m. modifyS (\<lambda>s. s\<lparr>sv_telemetry_history := sv_telemetry_history s @ [m], sv_last_telemetry_ms := Some now\<rparr>)"
  have build: "keeps ?room (build_telemetry A now)"
    unfolding build_telemetry_def
    by (intro keeps_intros keeps_bindS keeps_modifyS keeps_any_call) simp_all
  have trim: "?room (?trim s)" if "bounded_history s" for s :: "'a control_service"
    using that by (auto simp: bounded_history_def kMaxVehicleTelemetryHistory_def)
  have append: "wp (?append m) (\<lambda>_. bounded_history) (\<lambda>_. bounded_history) t" if "?room t" for m and t :: "'a control_service"
    using that by (simp add: wp_modifyS bounded_history_def)
  have "wp (bindS (build_telemetry A now) ?append) (\<lambda>_. bounded_history) (\<lambda>_. bounded_history) t" if "?room t" for t
  proof -
    have "wp (build_telemetry A now) (\<lambda>_. ?room) (\<lambda>_. ?room) t" using build that by (simp add: keeps_alt)
    then show ?thesis
      unfolding wp_bindS by (rule wp_conseq) (rule append, assumption, simp add: bounded_history_def)
  qed
  then have step: "keeps bounded_history (thenS (modifyS ?trim) (bindS (build_telemetry A now) ?append))"
    using trim by (simp add: keeps_alt wp_thenS wp_modifyS)
  show ?thesis
    unfolding record_telemetry_def ignoring_def
    by (rule keeps_bindS, rule keeps_basic, rule keeps_whenS, rule keeps_tryS, rule step, rule keeps_basic)
qed

interpretation history: service_invariant A bounded_history for A
  by (unfold_locales; (rule bounded_call bounded_safety)?; (simp add: bounded_history_def forget_profile_def)?)

lemma bounded_received: "keeps bounded_history (sv_receive_session_profile A req now)"
  by (rule history.inv_profile; (rule bounded_call)?; (simp add: bounded_history_def)?)

interpretation history: service_contract A bounded_history for A
  by (unfold_locales; (rule bounded_call bounded_record bounded_received)?; (simp add: bounded_history_def)?)

text \<open>
  The telemetry history is bounded: whatever operations a newly constructed service performs,
  with whatever adapter, it never retains more than 1024 telemetry messages.
\<close>

theorem sv_history_bounded:
  assumes "service_new cfg driver session token a interval = Inr s"
  shows "length (sv_telemetry_history (snd (run (sv_step A) es s))) \<le> 1024"
proof -
  have "sv_telemetry_history s = []" using assms by (auto simp: service_new_def split: if_splits)
  then have "bounded_history s" by (simp add: bounded_history_def)
  then have "bounded_history (snd (run (sv_step A) es s))" by (rule history.contract_run)
  then show ?thesis by (simp add: bounded_history_def kMaxVehicleTelemetryHistory_def)
qed

subsubsection \<open>The active profile\<close>

definition profile_bounds :: "'a control_service \<Rightarrow> double \<times> double \<times> double \<times> double \<times> double" where
  "profile_bounds s = (sv_max_speed_kph s, sv_max_throttle s, sv_full_scale_motor_torque_nm s,
     sv_max_brake_pressure_bar s, sv_max_steering_angle_deg s)"

definition profile_fits :: "double \<times> double \<times> double \<times> double \<times> double \<Rightarrow> 'a control_service \<Rightarrow> bool" where
  "profile_fits v s \<longleftrightarrow> profile_bounds s = v \<and>
     (\<forall>p. sv_active_profile s = Some p \<longrightarrow> profile_validate p = Inr () \<and> profile_limit_error p s = None)"

lemma profile_limit_error_bounds:
  "profile_bounds s = profile_bounds t \<Longrightarrow> profile_limit_error p s = profile_limit_error p t"
  by (simp add: profile_bounds_def profile_limit_error_def)

lemma profile_fits_update:
  assumes "profile_bounds t = profile_bounds s" "sv_active_profile t = sv_active_profile s \<or> sv_active_profile t = None"
  shows "profile_fits v s \<Longrightarrow> profile_fits v t"
  using assms profile_limit_error_bounds [OF assms(1)] by (auto simp: profile_fits_def)

lemma profile_fits_call: "keeps (profile_fits v) (adapter_call m)"
  by (rule keeps_any_call) (erule profile_fits_update [rotated 2]; simp add: profile_bounds_def)

lemma profile_fits_safety: "profile_fits v s \<Longrightarrow> profile_fits v (s\<lparr>sv_safety := m\<rparr>)"
  by (erule profile_fits_update [rotated 2]; simp add: profile_bounds_def)

lemma freshness_validates: "profile_freshness_error req now = None \<Longrightarrow> profile_validate (req_profile req) = Inr ()"
  by (simp add: profile_freshness_error_def split: sum.splits)

lemma profile_fits_safety_op: "keeps (profile_fits v) (update_safety f)"
  unfolding update_safety_def by (rule keeps_modifyS) (rule profile_fits_safety)

interpretation profile: service_invariant A "profile_fits v" for A v
  by (unfold_locales; (rule profile_fits_call profile_fits_safety_op)?;
      (erule profile_fits_update [rotated 2]; simp add: profile_bounds_def forget_profile_def)?)

lemma profile_fits_received: "keeps (profile_fits v) (sv_receive_session_profile A req now)"
proof (rule profile.inv_profile)
  fix s t :: "'a control_service"
  assume "profile_freshness_error req now = None" "profile_fits v s" "profile_fits v t"
    "profile_limit_error (req_profile req) s = None"
  then show "profile_fits v (t\<lparr>sv_active_profile := Some (req_profile req)\<rparr>)"
    using profile_limit_error_bounds [of "t\<lparr>sv_active_profile := Some (req_profile req)\<rparr>" s "req_profile req"] freshness_validates
    by (auto simp: profile_fits_def profile_bounds_def)
qed (rule profile_fits_call | erule profile_fits_update [rotated 2]; simp add: profile_bounds_def)+

lemma profile_fits_telemetry [simp]:
  "profile_fits v (s\<lparr>sv_telemetry_sequence := n\<rparr>) \<longleftrightarrow> profile_fits v s"
  "profile_fits v (s\<lparr>sv_telemetry_history := ts\<rparr>) \<longleftrightarrow> profile_fits v s"
  "profile_fits v (s\<lparr>sv_telemetry_history := ts, sv_last_telemetry_ms := t\<rparr>) \<longleftrightarrow> profile_fits v s"
  by (simp_all add: profile_fits_def profile_bounds_def profile_limit_error_def)

lemma profile_fits_record: "keeps (profile_fits v) (record_telemetry A now)"
  unfolding record_telemetry_def build_telemetry_def ignoring_def
  by (intro keeps_intros keeps_bindS keeps_modifyS profile_fits_call) simp_all

interpretation profile: service_contract A "profile_fits v" for A v
  by (unfold_locales; (rule profile_fits_call profile_fits_received profile_fits_record)?;
      (erule profile_fits_update [rotated 2]; simp add: profile_bounds_def)?)

text \<open>
  C17. Session authority stays within the vehicle: whatever requests a newly constructed service
  receives and whatever its adapter does, a profile that is active has been validated and its
  target speed, torque, brake pressure and steering angle are within the configured limits.
\<close>

theorem sv_active_profile_within_limits:
  assumes "service_new cfg driver session token a interval = Inr s"
    and "sv_active_profile (snd (run (sv_step A) es s)) = Some p"
  shows "profile_validate p = Inr () \<and>
     \<not> dlt (dadd (dmul (cf_max_speed_kph cfg) (cf_max_throttle cfg)) tolerance) (target_speed_kph p) \<and>
     \<not> dlt (dadd (cf_full_scale_motor_torque_nm cfg) tolerance) (max_motor_torque_nm p) \<and>
     \<not> dlt (dadd (cf_max_brake_pressure_bar cfg) tolerance) (max_brake_pressure_bar p) \<and>
     \<not> dlt (dadd (cf_max_steering_angle_deg cfg) tolerance) (max_steering_angle_deg p)"
proof -
  have new: "sv_active_profile s = None"
    "profile_bounds s = (cf_max_speed_kph cfg, cf_max_throttle cfg, cf_full_scale_motor_torque_nm cfg,
       cf_max_brake_pressure_bar cfg, cf_max_steering_angle_deg cfg)"
    using assms(1) by (auto simp: service_new_def profile_bounds_def split: if_splits)
  then have "profile_fits (profile_bounds s) s" by (simp add: profile_fits_def)
  then have fits: "profile_fits (profile_bounds s) (snd (run (sv_step A) es s))" by (rule profile.contract_run)
  then have "profile_limit_error p (snd (run (sv_step A) es s)) = profile_limit_error p s"
    by (intro profile_limit_error_bounds) (simp add: profile_fits_def)
  then have "profile_limit_error p s = None" using fits assms(2) by (simp add: profile_fits_def)
  then have "\<not> dlt (dadd (dmul (sv_max_speed_kph s) (sv_max_throttle s)) tolerance) (target_speed_kph p) \<and>
     \<not> dlt (dadd (sv_full_scale_motor_torque_nm s) tolerance) (max_motor_torque_nm p) \<and>
     \<not> dlt (dadd (sv_max_brake_pressure_bar s) tolerance) (max_brake_pressure_bar p) \<and>
     \<not> dlt (dadd (sv_max_steering_angle_deg s) tolerance) (max_steering_angle_deg p)"
    unfolding profile_limit_error_def first_match_None by auto
  then show ?thesis
    using fits assms(2) new(2) by (simp add: profile_fits_def profile_bounds_def)
qed

subsection \<open>A concrete service\<close>

definition demo_config :: control_service_config where
  "demo_config = \<lparr>cf_vehicle_id = ''v1'', cf_commissioning_mode = ''bench'', cf_max_command_gap_ms = 200,
     cf_degraded_timeout_ms = 300, cf_control_timeout_ms = 800, cf_deceleration_profile = demo_profile,
     cf_require_can_feedback_before_control = True, cf_max_speed_kph = Fin 16, cf_max_throttle = one,
     cf_full_scale_motor_torque_nm = Fin 640, cf_max_brake_pressure_bar = Fin 256,
     cf_max_steering_angle_deg = Fin 30, cf_speed_pid_kp = one, cf_speed_pid_ki = zero, cf_speed_pid_kd = zero,
     cf_speed_pid_derivative_filter_tau_ms = Fin 100, cf_speed_pid_max_dt_ms = 100,
     cf_motor_torque_rise_rate_nm_per_s = zero\<rparr>"

definition demo_authority :: control_receiver where
  "demo_authority = \<lparr>cr_vehicle_id = ''v1'', cr_driver_id = ''d1'', cr_session_id = ''s1'',
     cr_max_command_gap_ms = 200, cr_protocol_version = kProtocolVersion, cr_control_authority = True,
     cr_control_token = ''t'', cr_timestamp_warning_skew_ms = 5000, cr_last_seq = None,
     cr_last_valid_receive_ms = None\<rparr>"

definition demo_service :: "'a \<Rightarrow> 'a control_service" where
  "demo_service a = \<lparr>sv_vehicle_id = ''v1'', sv_driver_id = ''d1'', sv_session_id = ''s1'', sv_control_token = ''t'',
     sv_commissioning_mode = ''bench'', sv_receiver = demo_authority, sv_safety = demo_safety, sv_adapter = a,
     sv_require_feedback = True, sv_max_speed_kph = Fin 16, sv_max_throttle = one,
     sv_full_scale_motor_torque_nm = Fin 640, sv_max_brake_pressure_bar = Fin 256,
     sv_max_steering_angle_deg = Fin 30, sv_default_speed_pid_kp = one, sv_default_speed_pid_ki = zero,
     sv_default_speed_pid_kd = zero, sv_default_speed_pid_derivative_filter_tau_ms = Fin 100,
     sv_default_speed_pid_max_dt_ms = 100, sv_default_motor_torque_rise_rate_nm_per_s = zero,
     sv_telemetry_interval_ms = 100, sv_last_telemetry_ms = None, sv_telemetry_sequence = 0,
     sv_telemetry_history = [], sv_active_profile = None, sv_last_request = None, sv_last_result = None,
     sv_last_effective_command = None, sv_adapter_safe_stop_active = False, sv_started = False\<rparr>"

lemma demo_service_new: "service_new demo_config ''d1'' ''s1'' ''t'' a 100 = Inr (demo_service a)"
  by (simp add: service_new_def receiver_new_def demo_config_def demo_safety_new demo_service_def demo_authority_def)

definition demo_stop :: control_command where
  "demo_stop = demo_drive\<lparr>estop := True, throttle := zero\<rparr>"

lemma demo_admissible: "admissible demo_authority demo_drive 100" "admissible demo_authority demo_stop 100"
  by (simp_all add: admissible_def demo_authority_def demo_stop_def demo_drive_def control_command_validate_def
      validate_simps allowed_gear_def kProtocolVersion_def)

theorem sv_estop_blocks_control_witness:
  "latching (snd (run (sv_step (logged mock_vehicle_adapter))
     [SvCommand demo_stop 100, SvTick 200, SvRequestHandshake, SvResetEstop True []]
     (demo_service (mock_new, [])\<lparr>sv_started := True\<rparr>)))"
proof -
  have "sv_started (demo_service (mock_new, [])\<lparr>sv_started := True\<rparr>)" "estop demo_stop"
    "admissible (sv_receiver (demo_service (mock_new, [])\<lparr>sv_started := True\<rparr>)) demo_stop 100"
    "list_all sv_unreset [SvTick 200, SvRequestHandshake, SvResetEstop True []]"
    using demo_admissible by (simp_all add: demo_service_def demo_stop_def sv_unreset_def)
  from sv_estop_blocks_control [OF this, of mock_vehicle_adapter] show ?thesis by blast
qed

theorem sv_history_bounded_witness:
  "length (sv_telemetry_history (snd (run (sv_step mock_vehicle_adapter) (replicate 2000 (SvTick 5)) (demo_service mock_new)))) \<le> 1024"
  by (rule sv_history_bounded [OF demo_service_new])

definition demo_session_profile :: session_control_profile where
  "demo_session_profile = default_profile\<lparr>target_speed_kph := Fin 8, max_motor_torque_nm := Fin 320,
     max_brake_pressure_bar := Fin 128, service_brake_pressure_bar := Fin 32, hard_brake_pressure_bar := Fin 64,
     max_steering_angle_deg := Fin 15, speed_pid_kp := one, speed_pid_ki := zero, speed_pid_kd := zero,
     speed_pid_derivative_filter_tau_ms := Fin 100, speed_pid_max_dt_ms := 100, motor_torque_rise_rate_nm_per_s := zero\<rparr>"

lemma demo_profile_valid: "profile_validate demo_session_profile = Inr ()"
  by (simp add: demo_session_profile_def profile_validate_def default_profile_def validate_simps
      limit_values kMinSpeedPidMaxDtMs_def kMaxSpeedPidMaxDtMs_def dle_def)

definition demo_request :: session_control_profile_request where
  "demo_request = \<lparr>protocol_version = 1, vehicle_id = ''v1'', driver_id = ''d1'', session_id = ''s1'', seq = 7,
     sent_at_utc_ms = 50, req_control_token = ''t'', req_profile = demo_session_profile\<rparr>"

lemma demo_limit_ok: "profile_limit_error demo_session_profile (demo_service a) = None"
proof -
  have t: "is_double (Fin (of_int n))" if "\<bar>n\<bar> \<le> 2 ^ 53" for n :: int
    using is_double_of_int [OF that] by simp
  have "\<not> dlt (dadd (Fin (of_int n)) tolerance) (Fin (of_int m))" if "m \<le> n" "\<bar>m\<bar> \<le> 2 ^ 53" for n m :: int
    unfolding tolerance_eq dadd.simps
    by (rule round64_not_below) (use that t in simp_all)
  from this [of 8 16] this [of 320 640] this [of 128 256] this [of 15 30]
  show ?thesis by (simp add: profile_limit_error_def demo_session_profile_def demo_service_def)
qed

definition demo_started :: "mock_adapter control_service" where
  "demo_started = (demo_service (mock_new\<lparr>ma_opened := True\<rparr>))\<lparr>sv_safety := mark_ready demo_safety, sv_started := True\<rparr>"

lemma demo_start: "sv_start mock_vehicle_adapter (demo_service mock_new) = (Inr (), demo_started)"
  by (simp add: demo_started_def sv_start_def demo_service_def oper_defs adapter_call_def mock_vehicle_adapter_def
      mock_open_def mock_clear_def update_safety_def mock_new_def)

lemma demo_accepted:
  obtains r u where "sv_receive_session_profile mock_vehicle_adapter demo_request 100 demo_started = (Inr r, u)"
    "res_accepted r" "\<not> res_idempotent r" "sv_active_profile u = Some demo_session_profile"
proof -
  let ?t = demo_started
  have id: "profile_identity_error demo_request ?t = None"
  proof -
    have "metadata_validate demo_request = Inr ()" "req_control_token demo_request = ''t''"
      by (simp_all add: validate_simps demo_request_def kProtocolVersion_def)
    then have c: "checks [metadata_validate demo_request,
        throw_if (req_control_token demo_request = []) (InvalidArgument ''control_token is required'')] = Inr ()" by simp
    show ?thesis
      unfolding profile_identity_error_def c sum.case first_match_None
      by (simp add: demo_request_def demo_started_def demo_service_def)
  qed
  have fr: "profile_freshness_error demo_request 100 = None"
    by (simp add: profile_freshness_error_def demo_request_def demo_profile_valid kSessionControlProfileMaxAgeMs_def)
  have lim: "profile_limit_error (req_profile demo_request) ?t = None"
    using demo_limit_ok
    by (simp add: demo_started_def demo_service_def profile_limit_error_def demo_request_def del: first_match.simps)
  have park: "\<not> parking_required mock_vehicle_adapter (req_profile demo_request) ?t"
    by (simp add: parking_required_def mock_bench_bypass_def demo_started_def demo_service_def mock_vehicle_adapter_def mock_status_def)
  have t': "sv_started ?t" "sv_last_request ?t = None" "sv_last_effective_command ?t = None" "req_profile demo_request = demo_session_profile"
    "seq demo_request = 7"
    by (simp_all add: demo_started_def demo_service_def demo_request_def)
  have ad: "ad_configure_runtime_control_profile mock_vehicle_adapter = mock_configure"
    by (simp add: mock_vehicle_adapter_def)
  have "checks [profile_validate demo_session_profile, throw_if ((7::uint64) = 0) (InvalidArgument ''profile_revision must be positive'')] = Inr ()"
    by (simp add: demo_profile_valid)
  then obtain u where inst: "install_profile mock_vehicle_adapter demo_request ?t ?t = (Inr (), u)"
    unfolding install_profile_def ad mock_configure_def t' oper_defs adapter_call_def by (simp add: throw_if_def)
  have "\<exists>r u. commit_profile mock_vehicle_adapter demo_request 100 ?t = (Inr r, u) \<and> res_accepted r \<and> \<not> res_idempotent r \<and>
      sv_active_profile u = Some demo_session_profile"
    by (simp add: commit_profile_def oper_defs inst cache_result_def t' profile_result_def Let_def)
  then show thesis
    by (elim exE conjE) (rule that; simp add: sv_receive_session_profile_def require_started_def oper_defs id evaluate_profile_def fr
      lim [unfolded t'] park [unfolded t'] throw_if_def t')
qed

lemma demo_profile_installed:
  "sv_active_profile (snd (run (sv_step mock_vehicle_adapter) [SvStart, SvProfile demo_request 100] (demo_service mock_new)))
     = Some demo_session_profile"
  by (rule demo_accepted) (simp add: demo_start)

theorem sv_active_profile_within_limits_witness:
  "\<not> dlt (dadd (Fin 640) tolerance) (max_motor_torque_nm demo_session_profile)"
  using sv_active_profile_within_limits [OF demo_service_new demo_profile_installed]
  by (simp add: demo_config_def)

definition demo_active_service :: "'a \<Rightarrow> 'a control_service" where
  "demo_active_service a = (demo_service a)\<lparr>sv_started := True, sv_active_profile := Some demo_session_profile\<rparr>"

lemma demo_limited: "limit_command (demo_active_service a) demo_drive = demo_drive\<lparr>throttle := Fin (1 / 2)\<rparr>"
proof -
  have "round64 (8 / 16) = Fin (1 / 2)" "round64 (15 / 30) = Fin (1 / 2)"
    by (rule round64_eval; code_simp)+
  then have "session_throttle_limit (demo_active_service a) = Fin (1 / 2)"
    "ddiv (dmin (sv_max_steering_angle_deg (demo_active_service a)) (session_steering_limit (demo_active_service a))) (dbl 30) = Fin (1 / 2)"
    by (simp_all add: session_throttle_limit_def session_steering_limit_def demo_active_service_def
        demo_service_def demo_session_profile_def dmin_def)
  then show ?thesis
    by (simp add: limit_command_def Let_def dclamp_def) (simp add: demo_active_service_def demo_drive_def demo_service_def dmin_def)
qed

lemma demo_brake: "safety_command (demo_active_service a) (demo_drive\<lparr>throttle := Fin (1 / 2)\<rparr>) = Inr (demo_drive\<lparr>throttle := Fin (1 / 2)\<rparr>)"
proof -
  have "dmul zero (Fin 128) = zero" "ddiv zero (Fin 256) = zero"
     by simp_all
  then show ?thesis
   by (simp add: safety_command_def demo_active_service_def demo_service_def demo_drive_def demo_session_profile_def
     vehicle_normalized_brake_request_def require_finite_range_def throw_if_def limit_values)
qed

text \<open>The mock adapter, opened, and a view of it.\<close>

definition demo_seen :: "vehicle_view \<Rightarrow> (mock_adapter \<times> vehicle_view) \<times> (control_command \<times> mock_adapter \<times> vehicle_view) list" where
  "demo_seen v = ((mock_new\<lparr>ma_opened := True\<rparr>, v), [])"

definition unobserved :: vehicle_view where
  "unobserved = \<lparr>vv_polled = False, vv_telemetry = None, vv_handshake = None\<rparr>"

lemma demo_seen_calls:
  fixes t :: "((mock_adapter \<times> vehicle_view) \<times> (control_command \<times> mock_adapter \<times> vehicle_view) list) control_service"
  assumes "sv_adapter t = demo_seen v"
  shows "adapter_call (ad_poll_feedback (logged (recorded mock_vehicle_adapter))) t = (Inr True, t\<lparr>sv_adapter := demo_seen (v\<lparr>vv_polled := True\<rparr>)\<rparr>)"
    "adapter_call (ad_read_telemetry (logged (recorded mock_vehicle_adapter))) t =
       (Inr default_telemetry, t\<lparr>sv_adapter := demo_seen (v\<lparr>vv_telemetry := Some default_telemetry\<rparr>)\<rparr>)"
    "adapter_call (ad_vcu_handshake_status (logged (recorded mock_vehicle_adapter))) t =
       (Inr default_handshake_status, t\<lparr>sv_adapter := demo_seen (v\<lparr>vv_handshake := Some default_handshake_status\<rparr>)\<rparr>)"
    "ad_feedback_ready (logged (recorded mock_vehicle_adapter)) (demo_seen v)"
    "\<exists>u. adapter_call (ad_apply_control (logged (recorded mock_vehicle_adapter)) c) t = (Inr (), u) \<and>
       snd (sv_adapter u) = [(c, mock_new\<lparr>ma_opened := True\<rparr>, v)]"
  using assms by (simp_all add: adapter_call_def logged_def lifted_def recorded_def demo_seen_def mock_vehicle_adapter_def oper_defs
      mock_read_telemetry_def mock_apply_control_def mock_new_def)

lemma demo_observed:
  assumes "sv_adapter t = demo_seen unobserved" "\<not> sv_adapter_safe_stop_active t" "\<not> estop c"
  shows "observe_adapter (logged (recorded mock_vehicle_adapter)) c now w t = (Inr None, t\<lparr>sv_adapter := demo_seen
     \<lparr>vv_polled = True, vv_telemetry = Some default_telemetry, vv_handshake = Some default_handshake_status\<rparr>\<rparr>)"
proof -
  let ?A = "logged (recorded mock_vehicle_adapter)"
  let ?v = "\<lparr>vv_polled = True, vv_telemetry = Some default_telemetry, vv_handshake = Some default_handshake_status\<rparr>"
  have flag: "u\<lparr>sv_adapter_safe_stop_active := False\<rparr> = u" if "\<not> sv_adapter_safe_stop_active u" for u :: "'s control_service"
    using that by simp
  have "poll_failed ?A t = (Inr False, t\<lparr>sv_adapter := demo_seen (unobserved\<lparr>vv_polled := True\<rparr>)\<rparr>)"
    by (simp add: poll_failed_def oper_defs demo_seen_calls [OF assms(1)])
  moreover have "refresh_adapter_safe_stop_state ?A (t\<lparr>sv_adapter := demo_seen (unobserved\<lparr>vv_polled := True\<rparr>)\<rparr>) =
      (Inr True, t\<lparr>sv_adapter := demo_seen ?v\<rparr>)"
    using assms(2) by (simp add: refresh_adapter_safe_stop_state_def oper_defs demo_seen_calls(1-3) [of _ "v" for v] flag
        default_telemetry_def default_handshake_status_def unobserved_def)
  ultimately show ?thesis
    using assms by (simp add: observe_adapter_def bindS_def returnS_def getS_def demo_seen_calls(4) [of "t\<lparr>sv_adapter := demo_seen v\<rparr>" v for v])
qed

lemma demo_drives:
  "snd (sv_adapter (snd (sv_receive_command (logged (recorded mock_vehicle_adapter)) demo_drive 100
     (demo_active_service (demo_seen unobserved))))) = [(demo_drive\<lparr>throttle := Fin (1 / 2)\<rparr>, mock_new\<lparr>ma_opened := True\<rparr>,
       \<lparr>vv_polled = True, vv_telemetry = Some default_telemetry, vv_handshake = Some default_handshake_status\<rparr>)]"
proof -
  let ?A = "logged (recorded mock_vehicle_adapter)"
  let ?c = "demo_drive\<lparr>throttle := Fin (1 / 2)\<rparr>"
  let ?v = "\<lparr>vv_polled = True, vv_telemetry = Some default_telemetry, vv_handshake = Some default_handshake_status\<rparr>"
  define s where "s = demo_active_service (demo_seen unobserved)"
  define t where "t = s\<lparr>sv_receiver := (sv_receiver s)\<lparr>cr_last_seq := Some 1, cr_last_valid_receive_ms := Some 100\<rparr>\<rparr>"
  define t2 where "t2 = t\<lparr>sv_adapter := demo_seen ?v\<rparr>"
  have fields: "sv_started s" "sv_safety s = demo_safety" "sv_receiver s = demo_authority"
    "sv_active_profile s = Some demo_session_profile" "sv_require_feedback s" "\<not> sv_adapter_safe_stop_active s"
    "sv_adapter s = demo_seen unobserved"
    by (simp_all add: s_def demo_active_service_def demo_service_def)
  have watchdog: "evaluate_control_watchdog ?A 100 s = (Inr (), s)"
    by (simp add: evaluate_control_watchdog_def update_safety_def oper_defs safety_tick_def fields demo_safety_def)
  obtain r where recv: "sv_receiver_accept demo_drive 100 s = (Inr r, t)" "rr_accepted r" "rr_command r = Some demo_drive"
    using demo_admissible(1) by (simp add: sv_receiver_accept_def fields receiver_accept_admissible t_def demo_drive_def)
  have tf: "\<not> sv_adapter_safe_stop_active t" "\<not> estop demo_drive" "sv_active_profile t = Some demo_session_profile"
    "sv_safety t = demo_safety" "sv_adapter t = demo_seen unobserved" "sv_adapter t2 = demo_seen ?v"
    "sv_safety t2 = demo_safety" "sv_active_profile t2 = Some demo_session_profile"
    by (simp_all add: t2_def t_def fields) (simp add: demo_drive_def)
  have observe: "observe_adapter ?A ?c 100 w t = (Inr None, t2)" for w
    unfolding t2_def using tf by (intro demo_observed) simp_all
  have "calm s t" by (simp add: t_def)
  then have limited: "limit_command t demo_drive = ?c"
    using limit_command_calm [of s t demo_drive] tf(3) demo_limited by (simp add: s_def)
  have "safety_command t2 c = safety_command s c" for c by (simp add: safety_command_def tf(8) fields(4)) (simp add: t2_def t_def)
  then have sc: "safety_command t2 ?c = Inr ?c"
    using demo_brake by (simp add: s_def)
  obtain u where u: "adapter_call (ad_apply_control ?A ?c) t2 = (Inr (), u)" "snd (sv_adapter u) = [(?c, mock_new\<lparr>ma_opened := True\<rparr>, ?v)]"
    using demo_seen_calls(5) [OF tf(6)] by blast
  have finish: "snd (sv_adapter (snd (finish_command ?A ?c 100 r' t2))) = [(?c, mock_new\<lparr>ma_opened := True\<rparr>, ?v)]" for r'
    using u(2)
    by (simp add: finish_command_def apply_ordinary_def oper_defs sc u(1) update_safety_def)
       (simp add: latching_def tf demo_safety_def)
  have process: "snd (sv_adapter (snd (process_received ?A 100 r t))) = [(?c, mock_new\<lparr>ma_opened := True\<rparr>, ?v)]"
    using recv(2,3) finish
    by (simp add: process_received_def oper_defs observe limited degraded_refused_def Let_def tf demo_safety_def)
  then show ?thesis
    using recv(1) watchdog
    by (simp add: sv_receive_command_def admit_command_def oper_defs require_started_def fields flip: s_def) (simp add: demo_drive_def)
qed

text \<open>A service that requires feedback, with an active session: the command drives, and the feedback was seen in this very call.\<close>

theorem sv_drive_conditions_witness:
  "may_drive (demo_active_service (demo_seen unobserved)) demo_drive 100 \<and>
   ad_feedback_ready mock_vehicle_adapter (mock_new\<lparr>ma_opened := True\<rparr>)"
proof -
  have "\<not> estop demo_drive" by (simp add: demo_drive_def)
  moreover have "snd (sv_adapter (demo_active_service (demo_seen unobserved))) = []"
    "sv_require_feedback (demo_active_service (demo_seen unobserved))"
    by (simp_all add: demo_active_service_def demo_service_def demo_seen_def)
  moreover have "snd (sv_adapter (snd (sv_receive_command (logged (recorded mock_vehicle_adapter)) demo_drive 100
      (demo_active_service (demo_seen unobserved))))) \<noteq> snd (sv_adapter (demo_active_service (demo_seen unobserved)))"
    unfolding demo_drives calculation(2) by simp
  ultimately show ?thesis
    using sv_drive_conditions [OF _ refl, of demo_drive mock_vehicle_adapter 100 "demo_active_service (demo_seen unobserved)"]
    unfolding demo_drives by auto
qed

theorem sv_limits_witness: "\<not> dlt (sv_max_throttle (demo_active_service ())) (throttle (limit_command (demo_active_service ()) demo_drive))"
proof -
  have "round64 (15 / 30) = Fin (1 / 2)" by (rule round64_eval; code_simp)
  then have "dle zero (ddiv (dmin (sv_max_steering_angle_deg (demo_active_service ())) (session_steering_limit (demo_active_service ()))) (dbl 30))"
    by (simp add: session_steering_limit_def demo_active_service_def demo_service_def demo_session_profile_def dmin_def)
  from sv_limits [OF this] show ?thesis by blast
qed

end
