(* ===== verification/Session_Profiles.thy ===== *)
theory Session_Profiles
  imports Control_Authority
begin

text \<open>
  What a client of \<open>VehicleControlService\<close> is promised about the operations that change its
  authority: releasing an ESTOP, installing a session profile, including the answer to a
  replayed request, and the watchdog of a tick that withdraws it.
\<close>

subsection \<open>Releasing an ESTOP\<close>

lemma keeps_safety_refresh: "keeps (\<lambda>t. sv_safety t = m) (refresh_adapter_safe_stop_state A)"
  unfolding refresh_adapter_safe_stop_state_def clear_session_profile_def ignoring_def
  by (intro keeps_intros keeps_bindS keeps_modifyS keeps_any_call) (simp_all add: forget_profile_def)

lemma reset_observation_cases:
  obtains (failed) u where "reset_observation A s = (Inr None, u)" "sv_safety u = sv_safety s"
  | (seen) t h a1 a2 u where "ad_read_telemetry A (sv_adapter s) = (Inr t, a1)"
      "ad_vcu_handshake_status A a1 = (Inr h, a2)" "\<not> vhs_disarming h"
      "reset_observation A s = (Inr (Some (tel_gear t)), u)" "sv_safety u = sv_safety s" "sv_adapter u = a2"
proof -
  obtain r1 a1 where tel: "ad_read_telemetry A (sv_adapter s) = (r1, a1)" by fastforce
  obtain r2 a2 where hs: "ad_vcu_handshake_status A a1 = (r2, a2)" by fastforce
  show thesis
  proof (cases "\<exists>t h. r1 = Inr t \<and> r2 = Inr h \<and> \<not> vhs_disarming h")
    case True
    then show thesis using tel hs
      by (auto simp: reset_observation_def oper_defs adapter_call_def intro!: seen)
  next
    case False
    then have "reset_observation A s = (Inr None, snd (reset_observation A s)) \<and>
        sv_safety (snd (reset_observation A s)) = sv_safety s"
      using tel hs by (cases r1; cases r2) (simp_all add: reset_observation_def oper_defs adapter_call_def)
    then show thesis using failed by blast
  qed
qed

text \<open>
  C23. Resetting an ESTOP needs a person and a vehicle at rest: a reset releases the latch only
  when it is confirmed locally by a named person, the adapter's telemetry and handshake can be
  read and no disarming is in progress, and the adapter has accepted an output without
  traction or brake; a reset that reports success leaves the machine in standby, one that
  reports failure leaves the latch.
\<close>

theorem sv_reset_estop_conditions:
  assumes "sm_state (sv_safety s) = Estop" "sm_state (sv_safety (snd (sv_reset_estop A confirmed by_whom s))) \<noteq> Estop"
  shows "confirmed \<and> by_whom \<noteq> [] \<and>
     (\<exists>t h a1 a2 a3. ad_read_telemetry A (sv_adapter s) = (Inr t, a1) \<and>
        ad_vcu_handshake_status A a1 = (Inr h, a2) \<and> \<not> vhs_disarming h \<and>
        ad_apply_safe_stop A (mk_output (tel_gear t) zero zero zero False False)
          (stop_context SourceNone ReasonNone) a2 = (Inr (), a3)) \<and>
     sm_state (sv_safety (snd (sv_reset_estop A confirmed by_whom s))) = Standby"
proof -
  have c: "confirmed" "by_whom \<noteq> []"
  proof -
    have "sv_reset_estop A confirmed by_whom s = (Inr False, s)" if "confirmed \<longrightarrow> by_whom = []"
      using that by (simp add: sv_reset_estop_def bindS_def getS_def returnS_def)
    then show "confirmed" "by_whom \<noteq> []" using assms by fastforce+
  qed
  show ?thesis
  proof (cases rule: reset_observation_cases [where A = A and s = s])
    case (failed u)
    then show ?thesis using assms c by (simp add: sv_reset_estop_def bindS_def getS_def returnS_def)
  next
    case (seen t h a1 a2 u)
    obtain r a3 where stop: "ad_apply_safe_stop A (mk_output (tel_gear t) zero zero zero False False)
        (stop_context SourceNone ReasonNone) a2 = (r, a3)" by fastforce
    show ?thesis
    proof (cases r)
      case (Inl e)
      then show ?thesis
        using assms c seen stop by (simp add: sv_reset_estop_def oper_defs adapter_call_def)
    next
      case (Inr x)
      have "safety_reset_estop confirmed by_whom (sv_safety s) = (True, enter_standby (sv_safety s))"
        using assms(1) c by (simp add: safety_reset_estop_def)
      moreover have "sm_state (enter_standby m) = Standby" for m by (simp add: enter_standby_def)
      moreover have "sv_safety v' = sv_safety v" if "refresh_adapter_safe_stop_state A v = (r', v')" for v v' r'
        using keepsD [OF keeps_safety_refresh [of "sv_safety v" A], of v] that by simp
      ultimately have "sm_state (sv_safety (snd (sv_reset_estop A confirmed by_whom s))) = Standby"
        using assms(1) c seen stop Inr
        by (auto simp: sv_reset_estop_def bindS_def getS_def returnS_def modifyS_def tryS_def adapter_call_def split: prod.splits sum.splits)
      moreover have "r = Inr ()" using Inr by simp
      ultimately show ?thesis using c seen stop by blast
    qed
  qed
qed

definition demo_stopped_service :: "mock_adapter control_service" where
  "demo_stopped_service = (demo_service (mock_new\<lparr>ma_opened := True\<rparr>))\<lparr>sv_started := True,
     sv_safety := demo_safety\<lparr>sm_state := Estop\<rparr>\<rparr>"

theorem sv_reset_estop_conditions_witness:
  "sm_state (sv_safety (snd (sv_reset_estop mock_vehicle_adapter True ''ops'' demo_stopped_service))) = Standby"
proof -
  have estop: "sm_state (sv_safety demo_stopped_service) = Estop" by (simp add: demo_stopped_service_def)
  have "sm_state (sv_safety (snd (sv_reset_estop mock_vehicle_adapter True ''ops'' demo_stopped_service))) \<noteq> Estop"
    by (simp add: sv_reset_estop_def reset_observation_def refresh_adapter_safe_stop_state_def oper_defs adapter_call_def
        mock_vehicle_adapter_def mock_read_telemetry_def mock_apply_safe_stop_def Let_def
        demo_stopped_service_def demo_service_def mock_new_def default_telemetry_def default_handshake_status_def mk_output_def
        safety_reset_estop_def enter_standby_def demo_safety_def)
  from sv_reset_estop_conditions [OF estop this] show ?thesis by blast
qed

subsection \<open>Accepting a profile\<close>

lemma profile_identity_seq: "profile_identity_error req s = None \<Longrightarrow> seq req \<noteq> 0"
  by (auto simp: profile_identity_error_def validate_simps split: sum.splits)

lemma accepted_post:
  fixes s :: "'a control_service"
  assumes "sv_receive_session_profile A req now s = (Inr r, s')" "res_accepted r" "\<not> res_idempotent r"
  shows "sv_started s \<and> profile_identity_error req s = None \<and> profile_freshness_error req now = None \<and>
     profile_limit_error (req_profile req) s = None \<and>
     (parking_required A (req_profile req) s \<longrightarrow> (\<exists>h a. ad_vcu_handshake_status A (sv_adapter s) = (Inr h, a) \<and>
        vhs_parking_ready h \<and> (vhs_state h = ''standby'' \<or> vhs_state h = ''disarmed''))) \<and>
     sv_active_profile s' = Some (req_profile req) \<and> res_applied_revision r = seq req \<and>
     sv_last_request s' = Some req \<and> sv_last_result s' = Some r \<and> res_effective_profile r = Some (req_profile req)"
proof -
  let ?parked = "parking_required A (req_profile req) s \<longrightarrow> (\<exists>h a. ad_vcu_handshake_status A (sv_adapter s) = (Inr h, a) \<and>
        vhs_parking_ready h \<and> (vhs_state h = ''standby'' \<or> vhs_state h = ''disarmed''))"
  define Q where "Q = (\<lambda>(r :: session_control_profile_result) (s' :: 'a control_service). res_accepted r \<and> \<not> res_idempotent r \<longrightarrow> sv_started s \<and> profile_identity_error req s = None \<and>
     profile_freshness_error req now = None \<and> profile_limit_error (req_profile req) s = None \<and> ?parked \<and>
     sv_active_profile s' = Some (req_profile req) \<and> res_applied_revision r = seq req \<and>
     sv_last_request s' = Some req \<and> sv_last_result s' = Some r \<and> res_effective_profile r = Some (req_profile req))"
  have refuse: "wp (refuse_profile req now reason) Q X t" "wp (refuse_and_cache req now reason) Q X t" for reason X t
    by (simp_all add: refuse_and_cache_def refuse_profile_def cache_result_def wp_simps profile_result_def Let_def Q_def)
  have commit: "wp (commit_profile A req now) Q (\<lambda>_ _. True) t"
    if "sv_started s" "profile_identity_error req s = None" "profile_freshness_error req now = None"
      "profile_limit_error (req_profile req) s = None" ?parked for t
  proof -
    have q: "seq req \<noteq> 0" using profile_identity_seq [OF that(2)] .
    have "wp (tryS (bindS (install_profile A req t) (\<lambda>_. returnS True)) h)
        (\<lambda>installed. wp (if \<not> installed then refuse_and_cache req now ''adapter_session_profile_apply_failed''
           else bindS (modifyS (\<lambda>s. s\<lparr>sv_active_profile := Some (req_profile req)\<rparr>)) (\<lambda>_.
             bindS (getS (profile_result req now True False ''accepted'')) (cache_result req))) Q (\<lambda>_ _. True))
        (\<lambda>_ _. True) t" for h
    proof -
      have "wp m (\<lambda>_ _. True) (\<lambda>_ _. True) u" for m :: "('a control_service, bool) oper" and u
        by (simp add: wp_def split: prod.splits sum.splits)
      then show ?thesis
        by (rule wp_conseq) (use refuse(2) that q in \<open>auto simp: wp_simps cache_result_def profile_result_def Let_def Q_def\<close>)
    qed
    then show ?thesis by (simp add: commit_profile_def wp_simps)
  qed
  have parking: "wp (parking_error A) (\<lambda>e _. e = None \<longrightarrow> ?parked) (\<lambda>_ _. True) s"
    by (cases "ad_vcu_handshake_status A (sv_adapter s)")
       (auto simp: parking_error_def wp_def oper_defs adapter_call_def split: sum.splits option.splits if_splits)
  have evaluate: "wp (evaluate_profile A req now) Q (\<lambda>_ _. True) s" if "sv_started s" "profile_identity_error req s = None"
  proof (cases "profile_freshness_error req now = None \<and> profile_limit_error (req_profile req) s = None")
    case False
    then show ?thesis by (auto simp: evaluate_profile_def wp_simps refuse split: option.splits)
  next
    case True
    show ?thesis
    proof (cases "parking_required A (req_profile req) s")
      case False
      then have ?parked by simp
      then show ?thesis using True False that commit by (simp add: evaluate_profile_def wp_simps)
    next
      case req: True
      have "wp (parking_error A) (\<lambda>e. wp (case e of None \<Rightarrow> commit_profile A req now | Some reason \<Rightarrow> refuse_and_cache req now reason)
          Q (\<lambda>_ _. True)) (\<lambda>_ _. True) s"
        using parking by (rule wp_conseq) (use True that in \<open>auto simp: refuse intro: commit split: option.splits\<close>)
      then show ?thesis using True req by (simp add: evaluate_profile_def wp_simps)
    qed
  qed
  have "wp (sv_receive_session_profile A req now) Q (\<lambda>_ _. True) s"
  proof (cases "sv_started s \<and> profile_identity_error req s = None")
    case False
    then show ?thesis
      by (auto simp: sv_receive_session_profile_def wp_simps wp_require_started refuse split: option.splits sum.splits)
  next
    case True
    have idem: "Q r u" if "res_idempotent r" for r u using that by (simp add: Q_def)
    have replay: "wp (replay_profile previous req now) Q (\<lambda>_ _. True) s" for previous
      by (auto simp: replay_profile_def wp_simps refuse Let_def idem profile_result_def split: option.splits)
    show ?thesis
      using True evaluate replay refuse
      by (auto simp: sv_receive_session_profile_def wp_simps wp_require_started split: option.splits sum.splits)
  qed
  then have "Q r s'" using assms(1) by (simp add: wp_def)
  then show ?thesis using assms(2,3) by (simp add: Q_def)
qed

text \<open>A profile that asks for no more than the active one, and for nothing else to change.\<close>

definition only_reduces :: "session_control_profile \<Rightarrow> session_control_profile \<Rightarrow> bool" where
  "only_reduces p q \<longleftrightarrow>
     \<not> dlt (dadd (target_speed_kph q) tolerance) (target_speed_kph p) \<and>
     \<not> dlt (dadd (max_motor_torque_nm q) tolerance) (max_motor_torque_nm p) \<and>
     max_brake_pressure_bar p = max_brake_pressure_bar q \<and> service_brake_pressure_bar p = service_brake_pressure_bar q \<and>
     hard_brake_pressure_bar p = hard_brake_pressure_bar q \<and> max_steering_angle_deg p = max_steering_angle_deg q \<and>
     speed_pid_kp p = speed_pid_kp q \<and> speed_pid_ki p = speed_pid_ki q \<and> speed_pid_kd p = speed_pid_kd q \<and>
     speed_pid_derivative_filter_tau_ms p = speed_pid_derivative_filter_tau_ms q \<and>
     speed_pid_max_dt_ms p = speed_pid_max_dt_ms q \<and>
     motor_torque_rise_rate_nm_per_s p = motor_torque_rise_rate_nm_per_s q \<and>
     parking_idle_timeout_ms p = parking_idle_timeout_ms q"

text \<open>The absolute limits of a profile, whatever the vehicle.\<close>

definition profile_ranges :: "session_control_profile \<Rightarrow> bool" where
  "profile_ranges p \<longleftrightarrow> profile_version p = 4 \<and> 0 \<le> parking_idle_timeout_ms p \<and> parking_idle_timeout_ms p \<le> 1000 \<and>
     in_range (target_speed_kph p) zero (Fin 72) \<and> in_range (max_motor_torque_nm p) zero (Fin 640) \<and>
     in_range (max_steering_angle_deg p) zero (Fin 30) \<and> in_range (service_brake_pressure_bar p) zero (dbl (3276 / 10)) \<and>
     dle (service_brake_pressure_bar p) (hard_brake_pressure_bar p) \<and>
     dle (hard_brake_pressure_bar p) (max_brake_pressure_bar p) \<and> in_range (max_brake_pressure_bar p) zero (dbl (3276 / 10)) \<and>
     dlt zero (speed_pid_kp p) \<and> in_range (speed_pid_kp p) zero (Fin 100) \<and> in_range (speed_pid_ki p) zero (Fin 100) \<and>
     in_range (speed_pid_kd p) zero (Fin 100) \<and> in_range (speed_pid_derivative_filter_tau_ms p) zero (Fin 2000) \<and>
     20 \<le> speed_pid_max_dt_ms p \<and> speed_pid_max_dt_ms p \<le> 200 \<and>
     in_range (motor_torque_rise_rate_nm_per_s p) zero (Fin 32000)"

lemma valid_ranges:
  assumes "profile_validate p = Inr u"
  shows "profile_ranges p"
  using assms unfolding profile_validate_def profile_ranges_def
  by (auto simp: validate_simps in_range_Fin limit_values kSessionControlProfileVersion_def kMinSpeedPidMaxDtMs_def
      kMaxSpeedPidMaxDtMs_def kMaxOrdinaryBrakePressureBar_def dle_def)

text \<open>
  C27. Accepting a session profile: a fresh answer that accepts a request comes only from a started
  service whose vehicle, driver, session and token the request names, for a request sent within
  two seconds of the receipt, whose profile is within the absolute ranges and within the
  vehicle's speed, torque, brake and steering limits; and, unless the mock adapter on the bench
  is driven or the active profile is at most reduced in speed and torque, only with the vehicle
  reported parked and in standby or disarmed. The profile is then active and the answer carries
  its revision.
\<close>

theorem sv_profile_accepted:
  fixes s :: "'a control_service"
  assumes "sv_receive_session_profile A req now s = (Inr r, s')" "res_accepted r" "\<not> res_idempotent r"
  defines "p \<equiv> req_profile req"
  shows "sv_started s \<and> protocol_version req = 1 \<and> seq req \<noteq> 0 \<and>
     vehicle_id req = sv_vehicle_id s \<and> driver_id req = sv_driver_id s \<and> session_id req = sv_session_id s \<and>
     req_control_token req = sv_control_token s \<and> req_control_token req \<noteq> [] \<and>
     0 \<le> sent_at_utc_ms req \<and> \<bar>now - sent_at_utc_ms req\<bar> \<le> 2000 \<and> profile_ranges p \<and>
     \<not> dlt (dadd (dmul (sv_max_speed_kph s) (sv_max_throttle s)) tolerance) (target_speed_kph p) \<and>
     \<not> dlt (dadd (sv_full_scale_motor_torque_nm s) tolerance) (max_motor_torque_nm p) \<and>
     \<not> dlt (dadd (sv_max_brake_pressure_bar s) tolerance) (max_brake_pressure_bar p) \<and>
     \<not> dlt (dadd (sv_max_steering_angle_deg s) tolerance) (max_steering_angle_deg p) \<and>
     ((sv_commissioning_mode s = ''bench'' \<and> vas_adapter_type (ad_status A (sv_adapter s)) = ''mock'') \<or>
      (\<exists>q. sv_active_profile s = Some q \<and> only_reduces p q) \<or>
      (\<exists>h a. ad_vcu_handshake_status A (sv_adapter s) = (Inr h, a) \<and>
         vhs_parking_ready h \<and> (vhs_state h = ''standby'' \<or> vhs_state h = ''disarmed''))) \<and>
     sv_active_profile s' = Some p \<and> res_applied_revision r = seq req"
proof -
  note post = accepted_post [OF assms(1-3)]
  have identity: "protocol_version req = 1" "seq req \<noteq> 0" "vehicle_id req = sv_vehicle_id s" "driver_id req = sv_driver_id s"
    "session_id req = sv_session_id s" "req_control_token req = sv_control_token s" "req_control_token req \<noteq> []" "0 \<le> sent_at_utc_ms req"
    using post by (auto simp: profile_identity_error_def validate_simps kProtocolVersion_def simp del: first_match.simps split: sum.splits)
  obtain u where "profile_validate p = Inr u" and age: "\<bar>now - sent_at_utc_ms req\<bar> \<le> 2000"
    using post by (auto simp: p_def profile_freshness_error_def kSessionControlProfileMaxAgeMs_def abs_le_iff
        simp del: first_match.simps split: sum.splits)
  from this(1) have "profile_ranges p" by (rule valid_ranges)
  moreover have "\<exists>q. sv_active_profile s = Some q \<and> only_reduces p q" if "\<not> parking_required A p s" "\<not> mock_bench_bypass A s"
    using that by (auto simp: parking_required_def only_reduces_def limits_increase_def other_parameters_changed_def
        current_profile_def current_torque_limit_def current_target_speed_def Let_def dest: deq_eq)
  moreover have "profile_limit_error p s = None" using post by (simp add: p_def)
  ultimately show ?thesis
    using post identity age by (auto simp: p_def profile_limit_error_def mock_bench_bypass_def simp del: first_match.simps)
qed

text \<open>A profile of 320 Nm is accepted by the started demo service.\<close>

theorem sv_profile_accepted_witness:
  "req_control_token demo_request = sv_control_token demo_started \<and>
   \<not> dlt (dadd (sv_full_scale_motor_torque_nm demo_started) tolerance) (max_motor_torque_nm (req_profile demo_request))"
proof -
  obtain r u where "sv_receive_session_profile mock_vehicle_adapter demo_request 100 demo_started = (Inr r, u)"
    "res_accepted r" "\<not> res_idempotent r" by (rule demo_accepted)
  from sv_profile_accepted [OF this] show ?thesis by blast
qed

subsection \<open>Replayed requests\<close>

definition service_identity :: "'a control_service \<Rightarrow> bool \<times> string \<times> string \<times> string \<times> string" where
  "service_identity s = (sv_started s, sv_vehicle_id s, sv_driver_id s, sv_session_id s, sv_control_token s)"

lemma identity_call: "keeps (\<lambda>s. service_identity s = v) (adapter_call m)"
  by (rule keeps_any_call) (simp add: service_identity_def)

interpretation identity: service_invariant A "\<lambda>s. service_identity s = v" for A v
  by (unfold_locales; (rule identity_call)?;
      (simp add: service_identity_def forget_profile_def update_safety_def keeps_modifyS)?)

lemma identity_received: "keeps (\<lambda>s. service_identity s = v) (sv_receive_session_profile A req now)"
  by (rule identity.inv_profile; (rule identity_call)?; (simp add: service_identity_def)?)

lemma profile_eq_refl: "profile_validate p = Inr () \<Longrightarrow> profile_eq p p"
  by (auto simp: profile_validate_def validate_simps profile_eq_def in_range_def isfinite_conv)

text \<open>
  Replay is idempotent: repeating a request that has just been accepted, at any later time,
  gets the same acceptance again, marked idempotent and restamped, and changes nothing but the
  cached answer; in particular the adapter is not called.
\<close>

theorem sv_replay_idempotent:
  assumes "sv_receive_session_profile A req now s = (Inr r, s')" "res_accepted r" "\<not> res_idempotent r" "0 \<le> now'"
  shows "sv_receive_session_profile A req now' s' =
    (Inr (r\<lparr>sent_at_utc_ms := now', res_idempotent := True\<rparr>),
     s'\<lparr>sv_last_result := Some (r\<lparr>sent_at_utc_ms := now', res_idempotent := True\<rparr>)\<rparr>)"
proof -
  note p = accepted_post [OF assms(1-3)]
  have same: "service_identity s' = service_identity s"
    using keepsD [OF identity_received [of "service_identity s" A req now], of s] assms(1) by simp
  then have "profile_identity_error req s' = profile_identity_error req s"
    by (simp only: service_identity_def profile_identity_error_def prod.inject)
  then have "sv_started s'" "profile_identity_error req s' = None"
    using p same by (simp_all add: service_identity_def)
  moreover have "identical_request req req"
    using profile_eq_refl [OF freshness_validates [of req now]] p by (simp add: identical_request_def)
  moreover have "r\<lparr>sent_at_utc_ms := now', res_idempotent := True, res_effective_profile := Some (req_profile req)\<rparr> =
      r\<lparr>sent_at_utc_ms := now', res_idempotent := True\<rparr>"
    using p by simp
  ultimately show ?thesis
    using p assms(4) by (simp add: sv_receive_session_profile_def bindS_def require_started_def liftS_def throw_if_def
        getS_def replay_profile_def returnS_def modifyS_def Let_def)
qed

theorem sv_replay_idempotent_witness:
  "\<exists>r u. sv_receive_session_profile mock_vehicle_adapter demo_request 100 demo_started = (Inr r, u) \<and> res_accepted r \<and>
     fst (sv_receive_session_profile mock_vehicle_adapter demo_request 900 u) = Inr (r\<lparr>sent_at_utc_ms := 900, res_idempotent := True\<rparr>)"
proof -
  obtain r u where step: "sv_receive_session_profile mock_vehicle_adapter demo_request 100 demo_started = (Inr r, u)"
    "res_accepted r" "\<not> res_idempotent r" by (rule demo_accepted)
  from sv_replay_idempotent [OF this, of 900] step(1,2) show ?thesis by auto
qed

subsection \<open>Losing authority\<close>

definition withdrawn :: "safety_machine \<Rightarrow> bool" where
  "withdrawn m \<longleftrightarrow> sm_state m \<in> {TimeoutBrake, Estop, Fault}"

lemma withdrawn_fault: "withdrawn (safety_tick now (mark_fault m))"
  by (simp add: withdrawn_def safety_tick_def mark_fault_def split: option.split)

lemma watchdog_revokes:
  "wp (evaluate_control_watchdog A now)
     (\<lambda>_ t. sv_safety t = safety_tick now (sv_safety s) \<and> (withdrawn (sv_safety t) \<longrightarrow> sv_active_profile t = None))
     (\<lambda>_ t. sv_safety t = safety_tick now (sv_safety s) \<and> (withdrawn (sv_safety t) \<longrightarrow> sv_active_profile t = None)) s"
proof -
  have clear: "wp (clear_session_profile A) Q X u"
    if "\<And>a. Q () ((forget_profile u)\<lparr>sv_adapter := a\<rparr>)" for Q X u
    unfolding clear_session_profile_def ignoring_def wp_simps
    by (rule wp_adapter_call) (use that in simp_all)
  show ?thesis
    unfolding evaluate_control_watchdog_def update_safety_def Let_def wp_simps
    by (auto intro!: wp_adapter_call clear simp: wp_simps withdrawn_def forget_profile_def)
qed

definition revoked :: "safety_machine \<Rightarrow> 'a control_service \<Rightarrow> bool" where
  "revoked m t \<longleftrightarrow> sv_safety t = m \<and> (withdrawn m \<longrightarrow> sv_active_profile t = None)"

lemma revoked_telemetry: "keeps (revoked m) (record_telemetry A now)"
  unfolding record_telemetry_def build_telemetry_def ignoring_def
  by (intro keeps_intros keeps_bindS keeps_modifyS keeps_any_call) (simp_all add: revoked_def)

lemma observation_safety:
  "wp (poll_failed A) (\<lambda>_ t. sv_safety t = sv_safety s) (\<lambda>_ _. False) s"
  "wp (refresh_adapter_safe_stop_state A) (\<lambda>_ t. sv_safety t = sv_safety s) (\<lambda>_ _. False) s"
  unfolding poll_failed_def refresh_adapter_safe_stop_state_def clear_session_profile_def ignoring_def wp_simps
  by (auto intro!: wp_adapter_call simp: wp_simps forget_profile_def)

lemma tick_revokes:
  fixes now and s :: "'a control_service"
  assumes "sv_started s"
  defines "D \<equiv> \<lambda>t. \<exists>m. m \<in> {safety_tick now (sv_safety s), safety_tick now (mark_fault (sv_safety s))} \<and> revoked m t"
  shows "wp (sv_tick A now) (\<lambda>_. D) (\<lambda>_. D) s"
proof -
  have finish: "wp (thenS (evaluate_control_watchdog A now) (record_telemetry A now)) (\<lambda>_. D) (\<lambda>_. D) t"
    if "sv_safety t \<in> {sv_safety s, mark_fault (sv_safety s)}" for t
  proof -
    let ?m = "safety_tick now (sv_safety t)"
    have m: "?m \<in> {safety_tick now (sv_safety s), safety_tick now (mark_fault (sv_safety s))}" using that by auto
    have "wp (evaluate_control_watchdog A now)
        (\<lambda>_. wp (record_telemetry A now) (\<lambda>_. D) (\<lambda>_. D)) (\<lambda>_. D) t"
    proof (rule wp_conseq [OF watchdog_revokes])
      fix r and u :: "'a control_service" assume u: "sv_safety u = ?m \<and> (withdrawn (sv_safety u) \<longrightarrow> sv_active_profile u = None)"
      show "wp (record_telemetry A now) (\<lambda>_. D) (\<lambda>_. D) u"
        by (rule wp_keeps [OF revoked_telemetry [of ?m]]) (use u m in \<open>auto simp: revoked_def D_def\<close>)
    next
      fix e and u :: "'a control_service" assume "sv_safety u = ?m \<and> (withdrawn (sv_safety u) \<longrightarrow> sv_active_profile u = None)"
      then show "D u" using m by (auto simp: revoked_def D_def)
    qed
    then show ?thesis by (simp add: wp_simps)
  qed
  have rest: "wp (bindS (getS id) (\<lambda>s.
      thenS (whenS ((\<not> observed \<or> failed) \<and> \<not> sv_adapter_safe_stop_active s \<and>
                    sv_require_feedback s \<and> \<not> latching s) (update_safety mark_fault))
     (thenS (evaluate_control_watchdog A now) (record_telemetry A now)))) (\<lambda>_. D) (\<lambda>_. D) t"
    if "sv_safety t = sv_safety s" for t observed failed
    using that finish by (simp add: wp_simps update_safety_def)
  have observe: "wp (refresh_adapter_safe_stop_state A) (\<lambda>observed. wp (bindS (getS id) (\<lambda>s.
      thenS (whenS ((\<not> observed \<or> failed) \<and> \<not> sv_adapter_safe_stop_active s \<and>
                    sv_require_feedback s \<and> \<not> latching s) (update_safety mark_fault))
     (thenS (evaluate_control_watchdog A now) (record_telemetry A now)))) (\<lambda>_. D) (\<lambda>_. D)) (\<lambda>_. D) t"
    if "sv_safety t = sv_safety s" for t failed
    using observation_safety(2) by (rule wp_conseq) (use that rest in simp_all)
  have "wp (poll_failed A) (\<lambda>failed. wp (bindS (refresh_adapter_safe_stop_state A) (\<lambda>observed. bindS (getS id) (\<lambda>s.
      thenS (whenS ((\<not> observed \<or> failed) \<and> \<not> sv_adapter_safe_stop_active s \<and>
                    sv_require_feedback s \<and> \<not> latching s) (update_safety mark_fault))
     (thenS (evaluate_control_watchdog A now) (record_telemetry A now))))) (\<lambda>_. D) (\<lambda>_. D)) (\<lambda>_. D) s"
    using observation_safety(1) by (rule wp_conseq) (use observe in \<open>simp_all only: wp_bindS\<close>)
  then show ?thesis
    using assms(1) by (simp only: sv_tick_def wp_thenS wp_bindS wp_require_started if_True)
qed

text \<open>
  C13. Silence costs the session its authority: when the outer watchdog finds the control
  timeout passed, or the safety machine in fault or ESTOP, a tick ends with no active profile
  and with the machine still in one of these states, whatever the adapter returns or throws.
\<close>

theorem sv_timeout_revokes:
  assumes "sv_started s" "sm_state (safety_tick now (sv_safety s)) \<in> {TimeoutBrake, Estop, Fault}"
  shows "sv_active_profile (snd (sv_tick A now s)) = None \<and>
    sm_state (sv_safety (snd (sv_tick A now s))) \<in> {TimeoutBrake, Estop, Fault}"
proof -
  obtain m where "m \<in> {safety_tick now (sv_safety s), safety_tick now (mark_fault (sv_safety s))}"
    "revoked m (snd (sv_tick A now s))"
    using tick_revokes [OF assms(1)] by (auto simp: wp_snd)
  moreover then have "withdrawn m" using assms(2) withdrawn_fault by (auto simp: withdrawn_def)
  ultimately show ?thesis by (auto simp: revoked_def withdrawn_def)
qed

theorem sv_timeout_revokes_witness:
  "sv_active_profile (snd (sv_tick mock_vehicle_adapter 5000 ((demo_active_service mock_new)
     \<lparr>sv_safety := on_valid_command demo_drive 100 demo_safety\<rparr>))) = None"
proof -
  let ?s = "(demo_active_service mock_new)\<lparr>sv_safety := on_valid_command demo_drive 100 demo_safety\<rparr>"
  have "sv_started ?s" by (simp add: demo_active_service_def)
  moreover have "sm_state (safety_tick 5000 (sv_safety ?s)) \<in> {TimeoutBrake, Estop, Fault}"
    by (simp add: demo_safety_def safety_tick_def on_valid_command_def demo_drive_def)
  ultimately show ?thesis using sv_timeout_revokes [of ?s 5000 mock_vehicle_adapter] by blast
qed


end
