(* ===== verification/Adapter_Contract.thy ===== *)
theory Adapter_Contract
  imports Dynamic_Adapter
begin

text \<open>
  What the vehicle adapters promise: the requests a command becomes stay within the limits of
  the session and the vehicle, a brake request excludes traction, a command counts as applied
  only when the bridge confirms it, and the names and numbers that cross the bridge come back
  unchanged.
\<close>

subsection \<open>Requests derived from a command\<close>

definition unit_interval :: "double \<Rightarrow> bool" where
  "unit_interval a \<longleftrightarrow> (\<exists>q. a = Fin q \<and> 0 \<le> q \<and> q \<le> 1)"

lemma scaled_down:
  assumes "0 \<le> x" "x \<le> 1" "0 \<le> m" "is_double (Fin m)"
  shows "\<exists>q. dmul (Fin x) (Fin m) = Fin q \<and> 0 \<le> q \<and> q \<le> m"
proof -
  have "x * m \<le> m" using assms mult_left_le_one_le [of m x] by simp
  then show ?thesis using round64_between [of 0 m "x * m"] assms by simp
qed

lemma ratio_at_most_one:
  assumes "0 \<le> x" "x \<le> m" "0 < m"
  shows "unit_interval (ddiv (Fin x) (Fin m))"
proof -
  have "0 \<le> x / m" "x / m \<le> 1" using assms by (simp_all add: divide_le_eq)
  then show ?thesis using round64_between [of 0 1 "x / m"] assms overflow64_gt [of 1] by (simp add: unit_interval_def)
qed

lemma brake_request_unit:
  assumes "vehicle_normalized_brake_request b session vehicle = Inr r" "is_double session"
  shows "unit_interval r"
proof -
  obtain x y z where "b = Fin x" "0 \<le> x" "x \<le> 1" and y: "session = Fin y" "0 \<le> y" "y \<le> z" and z: "vehicle = Fin z" "0 \<le> z"
    and r: "r = (if dlt zero vehicle then ddiv (dmul b session) vehicle else zero)"
    using assms(1) by (auto simp: vehicle_normalized_brake_request_def validate_simps in_range_Fin limit_values)
  then obtain q where q: "dmul b session = Fin q" "0 \<le> q" "q \<le> y" using scaled_down [of x y] assms(2) by auto
  then show ?thesis
    using ratio_at_most_one [of q z] y z r by (cases "0 < z") (simp_all add: unit_interval_def)
qed

lemma target_speed_range:
  assumes "dynamic_adapter_target_speed_mps c m = Inr v" "is_double m"
  shows "control_command_validate c = Inr ()" "dle zero v" "dle v m"
    "dlt zero (brake c) \<or> gear c \<notin> {''D'', ''R''} \<Longrightarrow> v = zero"
proof -
  obtain x y z where c: "control_command_validate c = Inr ()" "throttle c = Fin x" "0 \<le> x" "x \<le> 1" and m: "m = Fin y" "0 \<le> y"
    and b: "brake c = Fin z" "0 \<le> z"
    and v: "v = (if (gear c = ''D'' \<or> gear c = ''R'') \<and> deq (brake c) zero then dmul (dclamp (throttle c) zero one) m else zero)"
    using assms(1)
    by (cases m) (auto simp: dynamic_adapter_target_speed_mps_def validate_simps in_range_Fin Let_def)
  have "dclamp (throttle c) zero one = Fin x" using c by (simp add: dclamp_Fin)
  moreover obtain q where "dmul (Fin x) (Fin y) = Fin q" "0 \<le> q" "q \<le> y" using scaled_down [of x y] c m assms(2) by auto
  ultimately show "dle zero v" "dle v m" "dlt zero (brake c) \<or> gear c \<notin> {''D'', ''R''} \<Longrightarrow> v = zero"
    using v m b by auto
  show "control_command_validate c = Inr ()" by (rule c)
qed

lemma target_acceleration_range:
  assumes "dynamic_adapter_target_acceleration c top_ratio session vehicle = Inr a" "is_double session"
  shows "dle (Fin (-1)) a" "dle a top_ratio" "unit_interval top_ratio"
    "\<not> dlt zero (throttle c) \<or> dlt zero (brake c) \<Longrightarrow> dle a zero"
proof -
  obtain r q where r: "vehicle_normalized_brake_request (brake c) session vehicle = Inr r" and q: "top_ratio = Fin q" "0 \<le> q" "q \<le> 1"
    and a: "a = (if dlt zero (brake c) then dneg r else if dlt zero (throttle c) then top_ratio else zero)"
    using assms(1) by (auto simp: dynamic_adapter_target_acceleration_def validate_simps in_range_Fin)
  then obtain p where "r = Fin p" "0 \<le> p" "p \<le> 1" using brake_request_unit [OF r assms(2)] by (auto simp: unit_interval_def)
  then show "dle (Fin (-1)) a" "dle a top_ratio" "unit_interval top_ratio"
    "\<not> dlt zero (throttle c) \<or> dlt zero (brake c) \<Longrightarrow> dle a zero"
    using a q by (auto simp: unit_interval_def)
qed


subsection \<open>Commands sent to the bridge\<close>

definition delivered :: "'b chassis_bridge \<Rightarrow> control_command \<Rightarrow> 'b dynamic_adapter \<Rightarrow> int \<Rightarrow> double \<Rightarrow> double \<Rightarrow>
    'b dynamic_adapter \<Rightarrow> bool" where
  "delivered B c s g v a s' \<longleftrightarrow> (\<exists>r b. br_apply_v3 B g v a (replicate 4 (steering c)) 4
       (if operator_active c \<and> \<not> estop c then 1 else 0) (da_bridge s) = ((0, r), b) \<and> apply_result_ok 0 r \<and>
     s' = s\<lparr>da_bridge := b, da_last_error := [], da_applied_command_count := da_applied_command_count s + 1\<rparr>)"

lemma apply_control_sent:
  assumes "da_opened s" "dynamic_adapter_target_speed_mps c (da_max_speed_mps s) = Inr v"
    "dynamic_adapter_target_acceleration c (traction_ceiling_of s) (da_session_brake_pressure_limit_bar s)
       (da_max_ordinary_brake_pressure_bar s) = Inr a"
    "gear_to_bridge_value (gear c) = Inr g"
    "br_apply_v3 B g v a (replicate 4 (steering c)) 4 (if operator_active c \<and> \<not> estop c then 1 else 0) (da_bridge s) = ((code, r), b)"
  shows "dynamic_apply_control B c s =
        (if \<not> apply_result_ok code r
         then (Inl (RuntimeError ''mine_teleop_chassis_apply_state_v3 returned an invalid result structure''),
           s\<lparr>da_bridge := b, da_last_error := ''mine_teleop_chassis_apply_state_v3 returned an invalid result structure''\<rparr>)
         else if code \<noteq> 0
         then (Inl (control_rejected (bridge_apply_issue_code (ar_issue_id r)) code), s\<lparr>da_bridge := b,
           da_last_error := ''mine_teleop_chassis_apply_state_v3 rejected control with code '' @ int_to_string code\<rparr>)
         else (Inr (), s\<lparr>da_bridge := b, da_last_error := [], da_applied_command_count := da_applied_command_count s + 1\<rparr>))"
  using assms by (simp add: dynamic_apply_control_def oper_defs require_open_def bridge_call_def fail_with_def Let_def del: One_nat_def)

lemma apply_control_cases:
  obtains
    (refused) e where "dynamic_apply_control B c s = (Inl e, s)"
      "if \<not> da_opened s then e = not_open else dynamic_adapter_target_speed_mps c (da_max_speed_mps s) = Inl e \<or>
       dynamic_adapter_target_acceleration c (traction_ceiling_of s) (da_session_brake_pressure_limit_bar s)
         (da_max_ordinary_brake_pressure_bar s) = Inl e \<or> gear_to_bridge_value (gear c) = Inl e"
  | (sent) v a g code r b where
      "da_opened s" "dynamic_adapter_target_speed_mps c (da_max_speed_mps s) = Inr v"
      "dynamic_adapter_target_acceleration c (traction_ceiling_of s) (da_session_brake_pressure_limit_bar s)
         (da_max_ordinary_brake_pressure_bar s) = Inr a"
      "gear_to_bridge_value (gear c) = Inr g"
      "br_apply_v3 B g v a (replicate 4 (steering c)) 4 (if operator_active c \<and> \<not> estop c then 1 else 0) (da_bridge s) = ((code, r), b)"
      "dynamic_apply_control B c s =
        (if \<not> apply_result_ok code r
         then (Inl (RuntimeError ''mine_teleop_chassis_apply_state_v3 returned an invalid result structure''),
           s\<lparr>da_bridge := b, da_last_error := ''mine_teleop_chassis_apply_state_v3 returned an invalid result structure''\<rparr>)
         else if code \<noteq> 0
         then (Inl (control_rejected (bridge_apply_issue_code (ar_issue_id r)) code), s\<lparr>da_bridge := b,
           da_last_error := ''mine_teleop_chassis_apply_state_v3 rejected control with code '' @ int_to_string code\<rparr>)
         else (Inr (), s\<lparr>da_bridge := b, da_last_error := [], da_applied_command_count := da_applied_command_count s + 1\<rparr>))"
proof (cases "da_opened s")
  case False
  then show thesis by (intro refused [of not_open]) (simp_all add: dynamic_apply_control_def oper_defs require_open_def)
next
  case op: True
  note unfold_apply = dynamic_apply_control_def oper_defs require_open_def op
  show thesis
  proof (cases "dynamic_adapter_target_speed_mps c (da_max_speed_mps s)")
    case (Inl e)
    then show thesis by (intro refused [of e]) (simp_all add: unfold_apply)
  next
    case v: (Inr v)
    show thesis
    proof (cases "dynamic_adapter_target_acceleration c (traction_ceiling_of s) (da_session_brake_pressure_limit_bar s)
         (da_max_ordinary_brake_pressure_bar s)")
      case (Inl e)
      then show thesis using v by (intro refused [of e]) (simp_all add: unfold_apply)
    next
      case a: (Inr a)
      show thesis
      proof (cases "gear_to_bridge_value (gear c)")
        case (Inl e)
        then show thesis using v a by (intro refused [of e]) (simp_all add: unfold_apply)
      next
        case g: (Inr g)
        obtain code r b where call: "br_apply_v3 B g v a (replicate 4 (steering c)) 4
            (if operator_active c \<and> \<not> estop c then 1 else 0) (da_bridge s) = ((code, r), b)"
          by (metis prod.exhaust)
        show thesis
          by (rule sent [OF op v a g call apply_control_sent [OF op v a g call]])
      qed
    qed
  qed
qed

text \<open>
  C14. A command counts as applied only when the bridge confirms it: if \<open>apply_control\<close> returns, the
  adapter is open, exactly this request was sent and answered by a well-formed success, and
  the request is safe: its target speed is within the vehicle's maximum and zero under a brake
  request or outside drive and reverse, its acceleration is between full brake and the
  session's traction ceiling and not positive under a brake request or without throttle.
\<close>

theorem dynamic_apply_confirmed:
  assumes "dynamic_apply_control B c s = (Inr (), s')"
    and "is_double (da_max_speed_mps s)" "is_double (da_session_brake_pressure_limit_bar s)"
  shows "da_opened s \<and> (\<exists>g v a. delivered B c s g v a s' \<and> bridge_value_to_gear g = gear c \<and>
     dle zero v \<and> dle v (da_max_speed_mps s) \<and> dle (Fin (-1)) a \<and> dle a (traction_ceiling_of s) \<and>
     (dlt zero (brake c) \<or> gear c \<notin> {''D'', ''R''} \<longrightarrow> v = zero) \<and>
     (dlt zero (brake c) \<or> \<not> dlt zero (throttle c) \<longrightarrow> dle a zero))"
proof (cases rule: apply_control_cases [where B = B and c = c and s = s])
  case (refused e)
  then show ?thesis using assms(1) by simp
next
  case (sent v a g code r b)
  have ok: "apply_result_ok code r" "code = 0"
    "s' = s\<lparr>da_bridge := b, da_last_error := [], da_applied_command_count := da_applied_command_count s + 1\<rparr>"
    using sent(6) assms(1) by (auto split: if_splits)
  then have "delivered B c s g v a s'" using sent(5) by (auto simp: delivered_def)
  moreover have "bridge_value_to_gear g = gear c"
    using sent(4) by (auto simp: gear_to_bridge_value_def bridge_value_to_gear_def split: if_splits)
  ultimately show ?thesis
    using target_speed_range [OF sent(2) assms(2)] target_acceleration_range [OF sent(3) assms(3)] sent(1) by blast
qed

text \<open>What is refused before the bridge is an invalid argument.\<close>

abbreviation bad_argument :: "exn \<Rightarrow> bool" where
  "bad_argument e \<equiv> \<exists>msg. e = InvalidArgument msg"

lemma bindE_eq_Inl: "bindE r f = Inl e \<longleftrightarrow> r = Inl e \<or> (\<exists>a. r = Inr a \<and> f a = Inl e)"
  by (cases r) auto

lemma validate_bad_argument: "control_command_validate c = Inl e \<Longrightarrow> bad_argument e"
  by (auto simp: control_command_validate_def metadata_validate_def require_finite_range_def checks_Cons_Inl)

lemma brake_bad_argument: "vehicle_normalized_brake_request b session vehicle = Inl e \<Longrightarrow> bad_argument e"
  by (auto simp: vehicle_normalized_brake_request_def require_finite_range_def checks_Cons_Inl bindE_eq_Inl)

lemma request_bad_argument:
  "dynamic_adapter_target_speed_mps c m = Inl e \<Longrightarrow> bad_argument e"
  "dynamic_adapter_target_acceleration c t session vehicle = Inl e \<Longrightarrow> bad_argument e"
  "gear_to_bridge_value g = Inl e \<Longrightarrow> bad_argument e"
  by (auto simp: dynamic_adapter_target_speed_mps_def dynamic_adapter_target_acceleration_def gear_to_bridge_value_def
      require_finite_range_def checks_Cons_Inl bindE_eq_Inl Let_def dest: validate_bad_argument brake_bad_argument split: if_splits)

text \<open>
  C31. A command that is not applied: the adapter's counter of applied commands does not move, and
  the error names the cause. A rejected control, which the service treats as recoverable, is
  reported only for a well-formed refusal by the bridge, whose code is kept; a malformed answer
  is a fault. What is refused before the bridge - the adapter is not open, the command or the
  session's limits are invalid, the gear is unknown - is never a rejected control and leaves the
  adapter untouched.
\<close>

theorem dynamic_apply_failed:
  assumes "dynamic_apply_control B c s = (Inl e, s')"
  shows "da_applied_command_count s' = da_applied_command_count s \<and>
    (s' = s \<and> (if da_opened s then (\<exists>msg. e = InvalidArgument msg) \<and>
         (dynamic_adapter_target_speed_mps c (da_max_speed_mps s) = Inl e \<or>
          dynamic_adapter_target_acceleration c (traction_ceiling_of s) (da_session_brake_pressure_limit_bar s)
            (da_max_ordinary_brake_pressure_bar s) = Inl e \<or>
          gear_to_bridge_value (gear c) = Inl e)
        else e = RuntimeError ''dynamic vehicle adapter is not open'') \<or>
     (\<exists>g v a code r b. br_apply_v3 B g v a (replicate 4 (steering c)) 4
        (if operator_active c \<and> \<not> estop c then 1 else 0) (da_bridge s) = ((code, r), b) \<and>
        da_last_error s' \<noteq> [] \<and>
        (if apply_result_ok code r
         then code \<noteq> 0 \<and> e = control_rejected (bridge_apply_issue_code (ar_issue_id r)) code
         else e = RuntimeError (da_last_error s'))))"
proof (cases rule: apply_control_cases [where B = B and c = c and s = s])
  case (refused e')
  then show ?thesis using assms request_bad_argument by (fastforce simp: not_open_def)
next
  case (sent v a g code r b)
  have "da_applied_command_count s' = da_applied_command_count s" "da_last_error s' \<noteq> []"
    "if apply_result_ok code r then code \<noteq> 0 \<and> e = control_rejected (bridge_apply_issue_code (ar_issue_id r)) code
     else e = RuntimeError (da_last_error s')"
    using sent(6) assms by (auto split: if_splits)
  then show ?thesis using sent(5) by blast
qed

subsection \<open>Names and numbers across the bridge\<close>

lemma source_round_trip: "source_of (source_value s) = Some s"
  by (cases s) (simp_all add: source_of_def all_sources_def)

lemma reason_round_trip: "reason_of (reason_value r) = Some r"
  by (cases r) (simp_all add: reason_of_def all_reasons_def)

lemma reason_names_distinct: "distinct (map reason_name all_reasons)"
  by (simp add: all_reasons_def)

lemma reason_in_all: "r \<in> set all_reasons"
  by (cases r) (simp_all add: all_reasons_def)

lemma reason_name_inj: "reason_name r = reason_name r' \<Longrightarrow> r = r'"
  using reason_names_distinct reason_in_all
  by (auto simp: distinct_map inj_on_def)

text \<open>
  Stop contexts survive the bridge: the source and reason that \<open>apply_safe_stop\<close> writes into
  the context structure are reported by \<open>read_telemetry\<close> under names that identify the reason,
  and that separate the person, the session, the watchdog and the switch as the source.
\<close>

theorem stop_context_round_trip:
  "source_of (source_value source) = Some source \<and> reason_of (reason_value reason) = Some reason \<and>
   bridge_stop_reason (reason_value reason) = reason_name reason \<and>
   (bridge_stop_reason (reason_value reason) = bridge_stop_reason (reason_value reason') \<longleftrightarrow> reason = reason') \<and>
   (bridge_stop_source (source_value source) (reason_value reason) = bridge_stop_source (source_value source') (reason_value reason)
      \<longleftrightarrow> source = source')"
proof -
  have names: "bridge_stop_reason (reason_value r) = reason_name r" for r
    by (simp add: bridge_stop_reason_def reason_round_trip)
  have sources: "bridge_stop_source (source_value source) (reason_value reason) = bridge_stop_source (source_value source') (reason_value reason)
      \<longleftrightarrow> source = source'"
    unfolding bridge_stop_source_def source_round_trip reason_round_trip option.inject
    by (cases source; cases source'; simp)
  show ?thesis using sources reason_name_inj by (auto simp: names source_round_trip reason_round_trip)
qed


subsection \<open>Witnesses\<close>

text \<open>A bridge whose state is its log of accelerations and that refuses gear 4 with code 7.\<close>

definition demo_bridge :: "(int \<times> double) list chassis_bridge" where
  "demo_bridge = \<lparr>br_load = (\<lambda>_. throwS not_open), br_prepare_socketcan = (\<lambda>_ _ _. returnS ()),
     br_open_v4 = (\<lambda>_ b. (0, b)), br_close = (\<lambda>b. (0, b)),
     br_configure_runtime_control_v3 = (\<lambda>c b. ((0, \<lparr>rr_struct_size = 24, rr_result_code = 0, rr_issue_id = 0,
        rr_reserved = 0, rr_applied_revision = rc_profile_revision c\<rparr>), b)),
     br_clear_runtime_control = (\<lambda>b. ((0, \<lparr>rr_struct_size = 24, rr_result_code = 0, rr_issue_id = 0,
        rr_reserved = 0, rr_applied_revision = 0\<rparr>), b)),
     br_apply_v3 = (\<lambda>g v a st n ok b. let code = (if g = 4 then 7 else 0) in
        ((code, \<lparr>ar_struct_size = 16, ar_result_code = code, ar_issue_id = (if g = 4 then 5 else 0), ar_reserved = 0\<rparr>), (g, a) # b)),
     br_apply = (\<lambda>g v a st n b. (0, (g, a) # b)), br_set_stop_context = (\<lambda>_ b. (0, b)),
     br_emergency_stop = (\<lambda>b. (0, b)), br_request_handshake = (\<lambda>b. (0, b)), br_disconnect_handshake = (\<lambda>b. (0, b)),
     br_poll_feedback = (\<lambda>b. (0, b)),
     br_read_handshake = (\<lambda>b. ((0, \<lparr>bh_state = 0, bh_requested = 0, bh_ready = 0, bh_disarming = 0, bh_parking_ready = 0,
        bh_driver_gear_request = 0, bh_driver_gear_request_valid = 0, bh_handshake_status = 0, bh_handshake_valid = 0,
        bh_epb_status = [], bh_epb_valid = [], bh_speed_mps = zero, bh_speed_valid = 0, bh_handshake_revoked = 0,
        bh_revoked_handshake_status = 0, bh_vmc_fault_code = 0, bh_vmc_fault_code_valid = 0, bh_parking_brake_switch = 0,
        bh_parking_brake_switch_valid = 0, bh_brake_pedal_switch = 0, bh_brake_pedal_switch_valid = 0\<rparr>), b)),
     br_read_telemetry = (\<lambda>b. ((0, \<lparr>bt_speed_mps = zero, bt_gear = 1, bt_steering_feedback = zero, bt_throttle_feedback = zero,
        bt_brake_feedback = zero, bt_estop = 0, bt_stop_source = 0, bt_stop_reason = 0, bt_stop_sequence = 0\<rparr>), b)),
     br_read_can_feedback = (\<lambda>b. ((1, \<lparr>bc_feedback_fresh = 0, bc_max_feedback_age_ms = 0, bc_speed_mps = zero, bc_speed_valid = 0,
        bc_gear = 0, bc_gear_valid = 0, bc_emergency_switch = 0, bc_driver_gear_request = 0, bc_driver_gear_request_valid = 0,
        bc_handshake_status = 0, bc_handshake_valid = 0, bc_epb_status = [], bc_epb_valid = [], bc_motor_mode = [],
        bc_motor_mode_valid = [], bc_motor_torque_nm = [], bc_motor_torque_valid = [], bc_motor_speed_rpm = [],
        bc_motor_speed_valid = [], bc_steering_mode = [], bc_steering_valid = [], bc_steering_angle_deg = [],
        bc_brake_mode = [], bc_brake_valid = [], bc_brake_pressure_bar = [], bc_vmc_fault_code = 0, bc_vmc_fault_code_valid = 0,
        bc_parking_brake_switch = 0, bc_parking_brake_switch_valid = 0, bc_brake_pedal_switch = 0,
        bc_brake_pedal_switch_valid = 0\<rparr>), b))\<rparr>"

definition demo_dynamic :: "(int \<times> double) list dynamic_adapter" where
  "demo_dynamic = \<lparr>da_library_path = ''lib'', da_can_interface = ''can0'', da_can_bitrate = 500000,
     da_can_tx_queue_length = 16, da_max_speed_mps = Fin 5, da_full_scale_motor_torque_nm = Fin 640,
     da_motor_torque_rise_rate_nm_per_s = zero, da_max_ordinary_brake_pressure_bar = Fin 128,
     da_session_motor_torque_limit_nm = Fin 320, da_session_brake_pressure_limit_bar = Fin 64,
     da_runtime_control_profile_revision = 1, da_control_timeout_ms = 200, da_speed_feedback_timeout_ms = 100,
     da_speed_pid_kp = one, da_speed_pid_ki = zero, da_speed_pid_kd = zero,
     da_speed_pid_derivative_filter_tau_ms = zero, da_speed_pid_max_dt_ms = 100, da_hard_overspeed_margin_mps = one,
     da_loaded = True, da_opened = True, da_feedback_ready = True, da_applied_command_count = 3,
     da_safe_stop_count = 0, da_last_error = [], da_bridge = []\<rparr>"

definition demo_drive_half :: control_command where
  "demo_drive_half = demo_drive\<lparr>brake := Fin (1 / 2), throttle := one\<rparr>"

lemma demo_half: "round64 (1 / 2) = Fin (1 / 2)" "round64 32 = Fin 32" "round64 (1 / 4) = Fin (1 / 4)"
  by (rule round64_eval; code_simp)+

lemma demo_requests:
  assumes "c = demo_drive_half\<lparr>gear := g\<rparr>" "g = ''D'' \<or> g = ''P''"
  shows "dynamic_adapter_target_acceleration c (traction_ceiling_of demo_dynamic) (Fin 64) (Fin 128) = Inr (Fin (- (1 / 4)))"
    "dynamic_adapter_target_speed_mps c (Fin 5) = Inr zero"
proof -
  have valid: "control_command_validate c = Inr ()"
    using assms by (auto simp: demo_drive_half_def demo_drive_def validate_simps kProtocolVersion_def allowed_gear_def)
  have "traction_ceiling_of demo_dynamic = Fin (1 / 2)" by (simp add: traction_ceiling_of_def demo_dynamic_def demo_half)
  moreover have "vehicle_normalized_brake_request (Fin (1 / 2)) (Fin 64) (Fin 128) = Inr (Fin (1 / 4))"
    by (simp add: vehicle_normalized_brake_request_def require_finite_range_def throw_if_def limit_values demo_half)
  ultimately show "dynamic_adapter_target_acceleration c (traction_ceiling_of demo_dynamic) (Fin 64) (Fin 128) = Inr (Fin (- (1 / 4)))"
    "dynamic_adapter_target_speed_mps c (Fin 5) = Inr zero"
    using valid assms(1) by (simp_all add: dynamic_adapter_target_acceleration_def dynamic_adapter_target_speed_mps_def
        require_finite_range_def throw_if_def demo_drive_half_def)
qed

lemma demo_dynamic_fields:
  "da_opened demo_dynamic" "da_max_speed_mps demo_dynamic = Fin 5" "da_session_brake_pressure_limit_bar demo_dynamic = Fin 64"
  "da_max_ordinary_brake_pressure_bar demo_dynamic = Fin 128" "da_bridge demo_dynamic = []" "da_applied_command_count demo_dynamic = 3"
  by (simp_all add: demo_dynamic_def)

lemma demo_calls:
  "br_apply_v3 demo_bridge 3 v a st 4 ok [] = ((0, \<lparr>ar_struct_size = 16, ar_result_code = 0, ar_issue_id = 0, ar_reserved = 0\<rparr>), [(3, a)])"
  "br_apply_v3 demo_bridge 4 v a st 4 ok [] = ((7, \<lparr>ar_struct_size = 16, ar_result_code = 7, ar_issue_id = 5, ar_reserved = 0\<rparr>), [(4, a)])"
  by (simp_all add: demo_bridge_def)

lemma demo_braked: "dynamic_apply_control demo_bridge demo_drive_half demo_dynamic =
  (Inr (), demo_dynamic\<lparr>da_bridge := [(3, Fin (- (1 / 4)))], da_last_error := [], da_applied_command_count := 4\<rparr>)"
proof -
  have "demo_drive_half = demo_drive_half\<lparr>gear := ''D''\<rparr>" by (simp add: demo_drive_half_def demo_drive_def)
  note r = demo_requests [OF this]
  have "gear_to_bridge_value (gear demo_drive_half) = Inr 3"
    by (simp add: demo_drive_half_def demo_drive_def gear_to_bridge_value_def)
  then show ?thesis
    using apply_control_sent [of demo_dynamic demo_drive_half zero "Fin (- (1 / 4))" 3 demo_bridge 0]
    by (simp add: demo_dynamic_fields r demo_calls apply_result_ok_def sizeof_apply_result_def kBridgeApplyIssueNone_def)
qed

theorem dynamic_apply_confirmed_witness:
  "da_opened demo_dynamic \<and> (\<exists>g v a. delivered demo_bridge demo_drive_half demo_dynamic g v a
     (demo_dynamic\<lparr>da_bridge := [(3, Fin (- (1 / 4)))], da_last_error := [], da_applied_command_count := 4\<rparr>) \<and>
     v = zero \<and> dle a zero)"
proof -
  have "is_double (da_max_speed_mps demo_dynamic)" "is_double (da_session_brake_pressure_limit_bar demo_dynamic)"
    using is_double_of_int [of 5] is_double_of_int [of 64] by (simp_all add: demo_dynamic_fields)
  from dynamic_apply_confirmed [OF demo_braked this] show ?thesis by (auto simp: demo_drive_half_def)
qed

theorem dynamic_apply_failed_witness:
  "\<exists>e t. dynamic_apply_control demo_bridge (demo_drive_half\<lparr>gear := ''P''\<rparr>) demo_dynamic = (Inl e, t) \<and>
     da_applied_command_count t = 3"
proof -
  note r = demo_requests [OF refl, of "''P''"]
  have "\<exists>e t. dynamic_apply_control demo_bridge (demo_drive_half\<lparr>gear := ''P''\<rparr>) demo_dynamic = (Inl e, t)"
    using apply_control_sent [of demo_dynamic "demo_drive_half\<lparr>gear := ''P''\<rparr>" zero "Fin (- (1 / 4))" 4 demo_bridge 7]
    by (simp add: demo_dynamic_fields r demo_calls gear_to_bridge_value_def)
  then show ?thesis using dynamic_apply_failed [of demo_bridge "demo_drive_half\<lparr>gear := ''P''\<rparr>" demo_dynamic]
    by (auto simp: demo_dynamic_fields)
qed

end
