(* ===== verification/Speed_Pid.thy ===== *)
theory Speed_Pid
  imports Binary64
begin

text \<open>
  The numeric routines of \<open>deployments/chassis-control-bridge/mine_teleop_chassis_bridge.h\<close>: the
  speed PID, the limits and the quantisation of motor torque and brake pressure, the
  overspeed and watchdog predicates. \<open>mine_teleop_chassis_finite\<close> is \<^const>\<open>isfinite\<close>. The
  lemmas hold for every argument, NaN and the infinities included.
\<close>

subsection \<open>Limits\<close>

definition mtc_default_full_scale_motor_torque_nm :: double where
  "mtc_default_full_scale_motor_torque_nm = dbl 300"
definition mtc_max_full_scale_motor_torque_nm :: double where
  "mtc_max_full_scale_motor_torque_nm = dbl 640"
definition mtc_min_dbc_motor_torque_nm :: double where
  "mtc_min_dbc_motor_torque_nm = dbl (- 3200)"
definition mtc_max_dbc_motor_torque_nm :: double where
  "mtc_max_dbc_motor_torque_nm = dbl (33535 / 10)"
definition mtc_motor_torque_resolution_nm :: double where
  "mtc_motor_torque_resolution_nm = dbl (1 / 10)"
definition mtc_default_motor_torque_rise_rate :: double where
  "mtc_default_motor_torque_rise_rate = dbl 0"
definition mtc_max_motor_torque_rise_rate :: double where
  "mtc_max_motor_torque_rise_rate = dbl 32000"
definition mtc_max_ordinary_brake_pressure_bar :: double where
  "mtc_max_ordinary_brake_pressure_bar = dbl (3276 / 10)"
definition mtc_max_emergency_brake_pressure_bar :: double where
  "mtc_max_emergency_brake_pressure_bar = dbl (4095 / 10)"
definition mtc_brake_pressure_resolution_bar :: double where
  "mtc_brake_pressure_resolution_bar = dbl (1 / 10)"
definition mtc_default_control_timeout_ms :: int where
  "mtc_default_control_timeout_ms = 800"
definition mtc_min_control_timeout_ms :: int where
  "mtc_min_control_timeout_ms = 20"
definition mtc_max_control_timeout_ms :: int where
  "mtc_max_control_timeout_ms = 60000"
definition mtc_min_speed_feedback_timeout_ms :: int where
  "mtc_min_speed_feedback_timeout_ms = 20"
definition mtc_max_speed_feedback_timeout_ms :: int where
  "mtc_max_speed_feedback_timeout_ms = 500"
definition mtc_min_speed_pid_max_dt_ms :: int where
  "mtc_min_speed_pid_max_dt_ms = 20"
definition mtc_max_speed_pid_max_dt_ms :: int where
  "mtc_max_speed_pid_max_dt_ms = 200"
definition mtc_max_speed_pid_gain :: double where
  "mtc_max_speed_pid_gain = dbl 100"
definition mtc_max_derivative_filter_tau_ms :: double where
  "mtc_max_derivative_filter_tau_ms = dbl 2000"
definition mtc_setpoint_reset_deadband_mps :: double where
  "mtc_setpoint_reset_deadband_mps = dbl (5 / 100)"
definition mtc_max_hard_overspeed_margin_mps :: double where
  "mtc_max_hard_overspeed_margin_mps = dbl 10"
definition mtc_max_steering_request :: double where
  "mtc_max_steering_request = dbl 1"

lemmas mtc_limits =
  mtc_default_full_scale_motor_torque_nm_def mtc_max_full_scale_motor_torque_nm_def
  mtc_min_dbc_motor_torque_nm_def mtc_max_dbc_motor_torque_nm_def mtc_motor_torque_resolution_nm_def
  mtc_default_motor_torque_rise_rate_def mtc_max_motor_torque_rise_rate_def
  mtc_max_ordinary_brake_pressure_bar_def mtc_max_emergency_brake_pressure_bar_def
  mtc_brake_pressure_resolution_bar_def mtc_max_speed_pid_gain_def mtc_max_derivative_filter_tau_ms_def
  mtc_max_hard_overspeed_margin_mps_def mtc_max_steering_request_def

subsection \<open>Library functions\<close>

text \<open>\<open>std::nextafter (x, DBL_MAX)\<close>: the next representable value towards the largest finite one.\<close>

definition dbl_max :: rat where
  "dbl_max = (2 ^ 53 - 1) * 2 ^ 971"

definition next_below :: "rat \<Rightarrow> rat" where
  "next_below x = (if x = 2 powi ilog2 x \<and> -1022 < ilog2 x then x - ulp64 x / 2 else x - ulp64 x)"

fun nextafter_max :: "double \<Rightarrow> double" where
  "nextafter_max (Fin x) = (if x = dbl_max then Fin x else if 0 \<le> x then Fin (x + ulp64 x) else Fin (- next_below (- x)))"
| "nextafter_max PInf = Fin dbl_max"
| "nextafter_max NInf = Fin (- dbl_max)"
| "nextafter_max NaN = NaN"

text \<open>\<open>fmin\<close>: a NaN argument is ignored.\<close>

definition dfmin :: "double \<Rightarrow> double \<Rightarrow> double" where
  "dfmin x y = (if x = NaN then y else if y = NaN then x else if dlt y x then y else x)"

subsection \<open>Torque and pressure\<close>

definition speed_magnitude_mps :: "double \<Rightarrow> double" where
  "speed_magnitude_mps v = dabs v"

definition bounded_motor_torque_nm :: "double \<Rightarrow> double \<Rightarrow> double" where
  "bounded_motor_torque_nm normalized_pid_output max_motor_torque_nm =
     (if \<not> isfinite normalized_pid_output \<or> \<not> isfinite max_motor_torque_nm \<or>
         \<not> dlt (dbl 0) normalized_pid_output \<or> \<not> dlt (dbl 0) max_motor_torque_nm then dbl 0
      else
        let normalized_traction = (if dlt normalized_pid_output (dbl 1) then normalized_pid_output else dbl 1);
            limit1 = (if dlt mtc_max_full_scale_motor_torque_nm max_motor_torque_nm
                      then mtc_max_full_scale_motor_torque_nm else max_motor_torque_nm);
            limit2 = (if dlt mtc_max_dbc_motor_torque_nm limit1 then mtc_max_dbc_motor_torque_nm else limit1)
        in dmul normalized_traction limit2)"

definition motor_torque_limit_nm :: "double \<Rightarrow> double \<Rightarrow> double" where
  "motor_torque_limit_nm normalized_pid_output max_motor_torque_nm =
     (let requested_limit = bounded_motor_torque_nm normalized_pid_output max_motor_torque_nm
      in dmul (dfloor (nextafter_max (ddiv requested_limit mtc_motor_torque_resolution_nm)))
           mtc_motor_torque_resolution_nm)"

definition rise_limited_motor_torque_nm :: "double \<Rightarrow> double \<Rightarrow> double \<Rightarrow> double \<Rightarrow> double" where
  "rise_limited_motor_torque_nm previous target rise_rate dt_seconds =
     (if \<not> isfinite previous \<or> \<not> isfinite target \<or> dlt previous (dbl 0) \<or> dle target (dbl 0) then dbl 0
      else if dle target previous then target
      else if deq rise_rate (dbl 0) then target
      else if \<not> isfinite rise_rate \<or> dlt rise_rate (dbl 0) \<or> dlt mtc_max_motor_torque_rise_rate rise_rate \<or>
              \<not> isfinite dt_seconds \<or> dle dt_seconds (dbl 0) then dbl 0
      else dfmin target (dadd previous (dmul rise_rate dt_seconds)))"

definition directional_motor_torque_nm :: "int \<Rightarrow> double \<Rightarrow> double" where
  "directional_motor_torque_nm target_gear magnitude =
     (if \<not> isfinite magnitude \<or> dle magnitude (dbl 0) then dbl 0
      else
        let quantized = dmul (dfloor (nextafter_max (ddiv magnitude mtc_motor_torque_resolution_nm)))
                          mtc_motor_torque_resolution_nm
        in if target_gear = 3 then
             (if dlt mtc_max_dbc_motor_torque_nm quantized then mtc_max_dbc_motor_torque_nm else quantized)
           else if target_gear = 2 then
             (let requested = dneg quantized
              in if dlt requested mtc_min_dbc_motor_torque_nm then mtc_min_dbc_motor_torque_nm else requested)
           else dbl 0)"

definition quantize_brake_pressure_bar :: "double \<Rightarrow> double" where
  "quantize_brake_pressure_bar pressure =
     (if \<not> dlt (dbl 0) pressure then dbl 0
      else
        let bounded = (if dlt mtc_max_ordinary_brake_pressure_bar pressure
                       then mtc_max_ordinary_brake_pressure_bar else pressure)
        in dmul (dfloor (nextafter_max (ddiv bounded mtc_brake_pressure_resolution_bar)))
             mtc_brake_pressure_resolution_bar)"

definition control_output_is_finite :: "double \<Rightarrow> double \<Rightarrow> double \<Rightarrow> double \<Rightarrow> double \<Rightarrow> bool" where
  "control_output_is_finite wheel_torque wheel_speed steering_angle steering_speed brake_pressure \<longleftrightarrow>
     isfinite wheel_torque \<and> isfinite wheel_speed \<and> isfinite steering_angle \<and>
     isfinite steering_speed \<and> isfinite brake_pressure"

definition control_timeout_is_valid :: "int \<Rightarrow> bool" where
  "control_timeout_is_valid timeout_ms \<longleftrightarrow>
     mtc_min_control_timeout_ms \<le> timeout_ms \<and> timeout_ms \<le> mtc_max_control_timeout_ms"

subsection \<open>Speed PID\<close>

record speed_pid_config =
  pid_kp :: double
  pid_ki :: double
  pid_kd :: double
  pid_derivative_filter_tau_ms :: double
  pid_max_dt_ms :: int

record speed_pid_state =
  pid_integral :: double
  pid_filtered_measurement_derivative :: double
  pid_previous_measurement :: double
  pid_initialized :: bool

definition speed_pid_config_is_valid :: "speed_pid_config \<Rightarrow> bool" where
  "speed_pid_config_is_valid c \<longleftrightarrow>
     isfinite (pid_kp c) \<and> dlt (dbl 0) (pid_kp c) \<and> dle (pid_kp c) mtc_max_speed_pid_gain \<and>
     isfinite (pid_ki c) \<and> dle (dbl 0) (pid_ki c) \<and> dle (pid_ki c) mtc_max_speed_pid_gain \<and>
     isfinite (pid_kd c) \<and> dle (dbl 0) (pid_kd c) \<and> dle (pid_kd c) mtc_max_speed_pid_gain \<and>
     isfinite (pid_derivative_filter_tau_ms c) \<and> dle (dbl 0) (pid_derivative_filter_tau_ms c) \<and>
     dle (pid_derivative_filter_tau_ms c) mtc_max_derivative_filter_tau_ms \<and>
     mtc_min_speed_pid_max_dt_ms \<le> pid_max_dt_ms c \<and> pid_max_dt_ms c \<le> mtc_max_speed_pid_max_dt_ms"

definition speed_pid_reset :: speed_pid_state where
  "speed_pid_reset = \<lparr>pid_integral = Fin 0, pid_filtered_measurement_derivative = Fin 0,
     pid_previous_measurement = Fin 0, pid_initialized = False\<rparr>"

definition setpoint_requires_reset :: "bool \<Rightarrow> int \<Rightarrow> int \<Rightarrow> double \<Rightarrow> double \<Rightarrow> bool" where
  "setpoint_requires_reset reference_valid reference_gear target_gear reference_speed target_speed \<longleftrightarrow>
     \<not> reference_valid \<or> reference_gear \<noteq> target_gear \<or>
     \<not> isfinite reference_speed \<or> \<not> isfinite target_speed \<or>
     dlt mtc_setpoint_reset_deadband_mps (dabs (dsub target_speed reference_speed))"

text \<open>The guard of \<open>speed_pid_step\<close>; \<open>initialized\<close> is 0 or 1 by its type here.\<close>

definition pid_step_ok :: "speed_pid_config \<Rightarrow> speed_pid_state \<Rightarrow> double \<Rightarrow> double \<Rightarrow> double \<Rightarrow> double \<Rightarrow> bool" where
  "pid_step_ok c s target measured ceiling_in dt \<longleftrightarrow>
     speed_pid_config_is_valid c \<and> isfinite (pid_integral s) \<and>
     isfinite (pid_filtered_measurement_derivative s) \<and> isfinite (pid_previous_measurement s) \<and>
     isfinite target \<and> \<not> dle target (dbl 0) \<and> isfinite measured \<and>
     isfinite ceiling_in \<and> \<not> dle ceiling_in (dbl 0) \<and> isfinite dt \<and> \<not> dle dt (dbl 0) \<and>
     \<not> dlt (double_of_int (pid_max_dt_ms c)) (dmul dt (dbl 1000))"

definition clamp_between :: "double \<Rightarrow> double \<Rightarrow> double" where
  "clamp_between x hi = (let y = (if dlt x (dbl 0) then dbl 0 else x) in if dlt hi y then hi else y)"

definition pid_filtered :: "speed_pid_config \<Rightarrow> speed_pid_state \<Rightarrow> double \<Rightarrow> double \<Rightarrow> double" where
  "pid_filtered c s measured dt =
     (let raw_derivative = ddiv (dsub measured (pid_previous_measurement s)) dt;
          tau_seconds = ddiv (pid_derivative_filter_tau_ms c) (dbl 1000);
          alpha = (if dle tau_seconds (dbl 0) then dbl 1 else ddiv dt (dadd tau_seconds dt))
      in dadd (pid_filtered_measurement_derivative s)
           (dmul alpha (dsub raw_derivative (pid_filtered_measurement_derivative s))))"

definition pid_unclamped :: "speed_pid_config \<Rightarrow> double \<Rightarrow> double \<Rightarrow> double \<Rightarrow> double" where
  "pid_unclamped c error integral derivative =
     dsub (dadd (dmul (pid_kp c) error) integral) (dmul (pid_kd c) derivative)"

definition speed_pid_step ::
  "speed_pid_config \<Rightarrow> double \<Rightarrow> double \<Rightarrow> double \<Rightarrow> double \<Rightarrow> speed_pid_state \<Rightarrow> double \<times> speed_pid_state" where
  "speed_pid_step c target measured ceiling_in dt s =
     (if \<not> pid_step_ok c s target measured ceiling_in dt then (dbl 0, speed_pid_reset)
      else
        let top = (if dlt (dbl 1) ceiling_in then dbl 1 else ceiling_in);
            error = dsub target measured;
            filtered = (if pid_initialized s then pid_filtered c s measured dt
                        else pid_filtered_measurement_derivative s);
            derivative = (if pid_initialized s then filtered else dbl 0);
            integral = clamp_between (pid_integral s) top;
            unconstrained = pid_unclamped c error integral derivative;
            saturated_high = dle top unconstrained;
            saturated_low = dle unconstrained (dbl 0);
            integrate = (\<not> saturated_high \<and> \<not> saturated_low) \<or> (saturated_high \<and> dlt error (dbl 0)) \<or>
                        (saturated_low \<and> dlt (dbl 0) error);
            integral' = (if integrate
              then clamp_between (dadd integral (dmul (dmul (pid_ki c) error) dt)) top else integral);
            output = clamp_between (pid_unclamped c error integral' derivative) top
        in (output, \<lparr>pid_integral = integral', pid_filtered_measurement_derivative = filtered,
              pid_previous_measurement = measured, pid_initialized = True\<rparr>))"

subsection \<open>Safety predicates\<close>

definition hard_overspeed :: "double \<Rightarrow> double \<Rightarrow> double \<Rightarrow> bool" where
  "hard_overspeed target measured margin \<longleftrightarrow>
     isfinite target \<and> isfinite measured \<and> isfinite margin \<and> dle (dbl 0) target \<and> dlt (dbl 0) margin \<and>
     dlt (dadd target margin) (speed_magnitude_mps measured)"

definition hard_overspeed_latch :: "bool \<Rightarrow> double \<Rightarrow> double \<Rightarrow> double \<Rightarrow> bool" where
  "hard_overspeed_latch already_latched target measured margin \<longleftrightarrow>
     already_latched \<or> hard_overspeed target measured margin"

definition control_watchdog_expired :: "bool \<Rightarrow> bool \<Rightarrow> bool \<Rightarrow> int \<Rightarrow> int \<Rightarrow> bool" where
  "control_watchdog_expired active_control_state has_reference already_latched elapsed_ms timeout_ms \<longleftrightarrow>
     active_control_state \<and> has_reference \<and> \<not> already_latched \<and>
     control_timeout_is_valid timeout_ms \<and> timeout_ms \<le> elapsed_ms"

end
