(* ===== verification/Bridge_State.thy ===== *)
theory Bridge_State
  imports Bridge_Abi Speed_Pid Vcu_Controller
begin

unbundle bit_operations_syntax

text \<open>
  The state of \<open>BridgeRuntime\<close> in \<open>deployments/chassis-control-bridge/chassis_control_bridge.cpp\<close>
  and the private functions its operations share. Times are \<open>steady_clock\<close> nanoseconds and a
  parameter, \<open>now\<close>. The vehicle dynamics library ChassisControl is not part of the repository:
  its two functions are the fields of \<open>chassis_control\<close> over an arbitrary state. The protocol
  log and its counters are output only and left out.
\<close>

subsection \<open>Constants\<close>

definition kWheelCount :: nat where
  "kWheelCount = 8"
definition kMaxSteeringAngleRad :: double where
  "kMaxSteeringAngleRad = dbl (5235987755982988 / 10000000000000000)"
definition kRadiansToDegrees :: double where
  "kRadiansToDegrees = dbl (5729577951308232 / 100000000000000)"
definition kFeedbackTimeoutSeconds :: double where
  "kFeedbackTimeoutSeconds = dbl (5 / 10)"
definition kAutomaticParkingBrakePressureBar :: double where
  "kAutomaticParkingBrakePressureBar = dbl 100"
definition kTransmitPeriodMs :: int where
  "kTransmitPeriodMs = 20"

definition kCriticalFeedbackIds :: "uint32 list" where
  "kCriticalFeedbackIds = [
     0x18F0F5D0, 0x18F2F5D0, 0x18F3F5D0, 0x18F5F5D0, 0x18CFF4D0,
     0x18A0F4D0, 0x18A3F4D0, 0x18A6F4D0, 0x18A9F4D0,
     0x18ACF4D0, 0x18AFF4D0, 0x18B2F4D0, 0x18B5F4D0,
     0x18A1F4D0, 0x18A4F4D0, 0x18A7F4D0, 0x18AAF4D0,
     0x18ADF4D0, 0x18B0F4D0, 0x18B3F4D0, 0x18B6F4D0,
     0x18C0F4D0, 0x18C1F4D0, 0x18C2F4D0, 0x18C3F4D0,
     0x18C8F4D0, 0x18C9F4D0, 0x18CAF4D0, 0x18CBF4D0]"

text \<open>Stop sources and reasons of the C interface.\<close>

definition source_none :: uint32 where "source_none = 0"
definition source_driver_page :: uint32 where "source_driver_page = 1"
definition source_session :: uint32 where "source_session = 2"
definition source_watchdog :: uint32 where "source_watchdog = 3"
definition source_software_fault :: uint32 where "source_software_fault = 4"
definition source_physical_emergency :: uint32 where "source_physical_emergency = 5"
definition source_unknown :: uint32 where "source_unknown = 255"

definition reason_none :: uint32 where "reason_none = 0"
definition reason_vcu_handshake_disconnect :: uint32 where "reason_vcu_handshake_disconnect = 2"
definition reason_session_lost :: uint32 where "reason_session_lost = 4"
definition reason_control_apply_timeout :: uint32 where "reason_control_apply_timeout = 5"
definition reason_feedback_timeout :: uint32 where "reason_feedback_timeout = 7"
definition reason_control_apply_failed :: uint32 where "reason_control_apply_failed = 8"
definition reason_chassis_control_fault :: uint32 where "reason_chassis_control_fault = 9"
definition reason_can_receive_failed :: uint32 where "reason_can_receive_failed = 10"
definition reason_can_send_failed :: uint32 where "reason_can_send_failed = 11"
definition reason_io_thread_exception :: uint32 where "reason_io_thread_exception = 12"
definition reason_hard_overspeed :: uint32 where "reason_hard_overspeed = 13"
definition reason_arming_motion :: uint32 where "reason_arming_motion = 15"
definition reason_control_command_invalid :: uint32 where "reason_control_command_invalid = 16"
definition reason_physical_emergency_switch :: uint32 where "reason_physical_emergency_switch = 17"
definition reason_handshake_revoked :: uint32 where "reason_handshake_revoked = 18"
definition reason_vcu_state_fault :: uint32 where "reason_vcu_state_fault = 21"
definition reason_legacy_unspecified :: uint32 where "reason_legacy_unspecified = 255"

lemmas source_defs = source_none_def source_driver_page_def source_session_def source_watchdog_def
  source_software_fault_def source_physical_emergency_def source_unknown_def

lemmas reason_defs = reason_none_def reason_vcu_handshake_disconnect_def reason_session_lost_def
  reason_control_apply_timeout_def reason_feedback_timeout_def reason_control_apply_failed_def
  reason_chassis_control_fault_def reason_can_receive_failed_def reason_can_send_failed_def
  reason_io_thread_exception_def reason_hard_overspeed_def reason_arming_motion_def
  reason_control_command_invalid_def reason_physical_emergency_switch_def reason_handshake_revoked_def
  reason_vcu_state_fault_def reason_legacy_unspecified_def

definition valid_stop_source :: "uint32 \<Rightarrow> bool" where
  "valid_stop_source v \<longleftrightarrow> v \<in> {0, 1, 2, 3, 4, 5, 255}"

definition valid_stop_reason :: "uint32 \<Rightarrow> bool" where
  "valid_stop_reason v \<longleftrightarrow> v \<le> 24 \<or> v = 255"

definition issue_none :: uint32 where "issue_none = 0"
definition issue_generic_rejected :: uint32 where "issue_generic_rejected = 1"
definition issue_runtime_unavailable :: uint32 where "issue_runtime_unavailable = 2"
definition issue_physical_emergency_latched :: uint32 where "issue_physical_emergency_latched = 3"
definition issue_hard_overspeed_latched :: uint32 where "issue_hard_overspeed_latched = 4"
definition issue_drive_gear_change :: uint32 where "issue_drive_gear_change = 5"
definition issue_arguments_invalid :: uint32 where "issue_arguments_invalid = 6"

definition runtime_issue_none :: uint32 where "runtime_issue_none = 0"
definition runtime_issue_generic_rejected :: uint32 where "runtime_issue_generic_rejected = 1"
definition runtime_issue_runtime_unavailable :: uint32 where "runtime_issue_runtime_unavailable = 2"
definition runtime_issue_arguments_invalid :: uint32 where "runtime_issue_arguments_invalid = 3"
definition runtime_issue_parking_required :: uint32 where "runtime_issue_parking_required = 4"
definition runtime_issue_stale_revision :: uint32 where "runtime_issue_stale_revision = 5"

lemmas issue_defs = issue_none_def issue_generic_rejected_def issue_runtime_unavailable_def
  issue_physical_emergency_latched_def issue_hard_overspeed_latched_def issue_drive_gear_change_def
  issue_arguments_invalid_def

lemmas runtime_issue_defs = runtime_issue_none_def runtime_issue_generic_rejected_def
  runtime_issue_runtime_unavailable_def runtime_issue_arguments_invalid_def
  runtime_issue_parking_required_def runtime_issue_stale_revision_def

text \<open>\<open>errno\<close> values of Linux.\<close>

definition EIO :: int where "EIO = 5"
definition EFAULT :: int where "EFAULT = 14"
definition ETIMEDOUT :: int where "ETIMEDOUT = 110"

subsection \<open>Controller states\<close>

fun handshake_state_code :: "vcu_state \<Rightarrow> int" where
  "handshake_state_code Standby = 0"
| "handshake_state_code Initial = 1"
| "handshake_state_code WaitParallelHandshake = 2"
| "handshake_state_code WaitParkingBrakeReleased = 3"
| "handshake_state_code WaitGear = 4"
| "handshake_state_code WaitActuatorModes = 5"
| "handshake_state_code Ready = 6"
| "handshake_state_code DisarmTorque = 7"
| "handshake_state_code DisarmStop = 8"
| "handshake_state_code DisarmNeutral = 9"
| "handshake_state_code DisarmParkingBrake = 10"
| "handshake_state_code DisarmManual = 11"
| "handshake_state_code Disarmed = 12"
| "handshake_state_code Fault = 13"

definition is_disarming :: "vcu_state \<Rightarrow> bool" where
  "is_disarming s \<longleftrightarrow> s = DisarmTorque \<or> s = DisarmStop \<or> s = DisarmNeutral \<or>
     s = DisarmParkingBrake \<or> s = DisarmManual"

definition speed_safety_active_state :: "vcu_state \<Rightarrow> bool" where
  "speed_safety_active_state s \<longleftrightarrow> s = WaitGear \<or> s = WaitActuatorModes \<or> s = Ready"

definition stationary_arming_state :: "vcu_state \<Rightarrow> bool" where
  "stationary_arming_state s \<longleftrightarrow> s = WaitParkingBrakeReleased \<or> s = WaitGear \<or> s = WaitActuatorModes"

subsection \<open>Floats\<close>

text \<open>
  \<open>static_cast<float>\<close>: rounding to binary32. \<open>clamp_value\<close> is \<open>std::max (lo, std::min (hi, v))\<close>,
  so a NaN becomes the upper bound.
\<close>

definition ulp32 :: "rat \<Rightarrow> rat" where
  "ulp32 x = 2 powi (max (ilog2 \<bar>x\<bar>) (-126) - 23)"

definition rnd32 :: "rat \<Rightarrow> rat" where
  "rnd32 x = (if x = 0 then 0 else of_int (round_half_even (x / ulp32 x)) * ulp32 x)"

fun to_float :: "double \<Rightarrow> double" where
  "to_float (Fin x) = (let r = rnd32 x in if 2 ^ 128 \<le> r then PInf else if r \<le> - (2 ^ 128) then NInf else Fin r)"
| "to_float x = x"

definition clamp_value :: "double \<Rightarrow> double \<Rightarrow> double \<Rightarrow> double" where
  "clamp_value v lo hi = dmax lo (dmin hi v)"

definition clamp_float :: "double \<Rightarrow> double \<Rightarrow> double \<Rightarrow> double" where
  "clamp_float v lo hi = to_float (clamp_value v lo hi)"

subsection \<open>ChassisControl\<close>

record vehicle_state =
  vs_cur_velocity :: double
  vs_target_velocity :: "double list"
  vs_target_acceleration :: "double list"
  vs_target_gear :: int
  vs_target_steering_angle :: "double list"

record wheel_control =
  wc_wheel_torque :: double
  wc_wheel_speed :: double
  wc_eps_ang_req :: double
  wc_eps_ang_spd_req :: double
  wc_ehb_brk_pres_req :: double

text \<open>\<open>Initialize\<close>, \<open>UpdateVehicleState\<close> and \<open>GetControlInfo\<close>; the first two may throw.\<close>

record 'c chassis_control =
  cc_initialize :: "string \<Rightarrow> ('c, bool) oper"
  cc_update :: "vehicle_state \<Rightarrow> ('c, bool) oper"
  cc_controls :: "'c \<Rightarrow> wheel_control list"

text \<open>The members that stay at their initial value (positions, postures, tire states) are left out.\<close>

definition make_vehicle_state :: "double \<Rightarrow> int \<Rightarrow> double \<Rightarrow> double \<Rightarrow> double list \<Rightarrow> vehicle_state" where
  "make_vehicle_state current_speed target_gear target_vx target_ax steering_values =
     \<lparr>vs_cur_velocity = clamp_float (speed_magnitude_mps current_speed) (dbl 0) (dbl 20),
      vs_target_velocity = [clamp_float target_vx (dbl 0) (dbl 20), Fin 0],
      vs_target_acceleration = [clamp_float (dmin (dbl 0) target_ax) (dbl (- 8)) (dbl 0), Fin 0],
      vs_target_gear = target_gear,
      vs_target_steering_angle =
        (let angles = map (\<lambda>v. to_float (dmul (clamp_value v (dbl (- 1)) (dbl 1)) kMaxSteeringAngleRad))
                          (take 4 steering_values)
         in take kWheelCount (concat (map (\<lambda>a. [a, a]) angles) @ replicate kWheelCount (Fin 0)))\<rparr>"

definition wheel_control_finite :: "wheel_control \<Rightarrow> bool" where
  "wheel_control_finite w \<longleftrightarrow> control_output_is_finite (wc_wheel_torque w) (wc_wheel_speed w)
     (wc_eps_ang_req w) (wc_eps_ang_spd_req w) (wc_ehb_brk_pres_req w)"

definition command_from_chassis_control :: "int \<Rightarrow> wheel_control list \<Rightarrow> vcu_command res" where
  "command_from_chassis_control g controls =
     (if length controls < 8 then Inl (RuntimeError ''ChassisControl did not produce eight wheel controls'')
      else case find (\<lambda>i. \<not> wheel_control_finite (controls ! i)) [0..<8] of
        Some i \<Rightarrow> Inl (RuntimeError (''ChassisControl produced a non-finite output at wheel '' @ nat_to_string i))
      | None \<Rightarrow> Inr (default_command\<lparr>cmd_gear := g,
          vehicle_speed_request_kph := Fin 0, vehicle_speed_request_valid := False,
          motor_torque_nm := replicate 8 (Fin 0), motor_speed_rpm := replicate 8 (Fin 0),
          brake_pressure_bar := map (\<lambda>i. quantize_brake_pressure_bar (wc_ehb_brk_pres_req (controls ! i))) [0..<8],
          steering_angle_deg := map (\<lambda>axis. clamp_value (wc_eps_ang_req (controls ! (axis * 2))) (dbl (- 30)) (dbl 30)) [0..<4],
          steering_speed_degps := map (\<lambda>axis. clamp_value
             (dmul (wc_eps_ang_spd_req (controls ! (axis * 2))) kRadiansToDegrees) (dbl 0) (dbl 255)) [0..<4]\<rparr>))"

subsection \<open>Runtime state\<close>

record speed_control_settings =
  sc_enabled :: bool
  sc_hard_speed_limit_mps :: double
  sc_speed_feedback_timeout_ms :: int
  sc_pid :: speed_pid_config
  sc_hard_overspeed_margin_mps :: double
  sc_motor_torque_rise_rate :: double

definition default_speed_control :: speed_control_settings where
  "default_speed_control = \<lparr>sc_enabled = False, sc_hard_speed_limit_mps = Fin 0,
     sc_speed_feedback_timeout_ms = mtc_max_speed_feedback_timeout_ms,
     sc_pid = \<lparr>pid_kp = Fin 1, pid_ki = Fin 0, pid_kd = Fin 0, pid_derivative_filter_tau_ms = Fin 0, pid_max_dt_ms = 100\<rparr>,
     sc_hard_overspeed_margin_mps = Fin 1, sc_motor_torque_rise_rate = mtc_default_motor_torque_rise_rate\<rparr>"

record runtime_control_settings =
  rt_parking_idle_timeout_ms :: int
  rt_active :: bool
  rt_revision :: uint64
  rt_target_speed_limit_mps :: double
  rt_max_motor_torque_nm :: double
  rt_max_brake_pressure_bar :: double
  rt_max_steering_request :: double
  rt_motor_torque_rise_rate :: double

definition default_runtime_control :: runtime_control_settings where
  "default_runtime_control = \<lparr>rt_parking_idle_timeout_ms = -1, rt_active = False, rt_revision = 0,
     rt_target_speed_limit_mps = Fin 0, rt_max_motor_torque_nm = Fin 0, rt_max_brake_pressure_bar = Fin 0,
     rt_max_steering_request = Fin 0, rt_motor_torque_rise_rate = mtc_default_motor_torque_rise_rate\<rparr>"

record control_intent =
  ci_gear :: int
  ci_target_speed_mps :: double
  ci_longitudinal :: double
  ci_steering :: "double list"
  ci_generation :: uint64

definition default_control_intent :: control_intent where
  "default_control_intent = \<lparr>ci_gear = 1, ci_target_speed_mps = Fin 0, ci_longitudinal = Fin 0,
     ci_steering = replicate 4 (Fin 0), ci_generation = 0\<rparr>"

record stop_pair =
  sp_source :: uint32
  sp_reason :: uint32

definition no_stop :: stop_pair where
  "no_stop = \<lparr>sp_source = source_none, sp_reason = reason_none\<rparr>"

record bridge_feedback =
  bf_shake_hand_status :: int
  bf_epb_status :: "int list"
  bf_gear_status :: int
  bf_mcu_mode :: "int list"
  bf_eps_mode :: "int list"
  bf_eps_angle :: "double list"
  bf_ehb_mode :: "int list"
  bf_vehicle_speed :: double
  bf_vehicle_speed_valid :: int
  bf_driver_gear_request :: int
  bf_driver_gear_request_valid :: int

record 'c bridge_runtime =
  b_full_scale_motor_torque_nm :: double
  b_control_timeout_ms :: int
  b_open_speed_control :: speed_control_settings
  b_speed_control :: speed_control_settings
  b_runtime_control :: runtime_control_settings
  b_physical_brake_input :: bool
  b_max_ordinary_brake_pressure_bar :: double
  b_controller :: parallel_controller
  b_running :: bool
  b_last_seen :: "uint32 \<Rightarrow> int option"
  b_feedback_generation :: uint64
  b_last_polled_generation :: uint64
  b_io_error :: int
  b_software_estop :: bool
  b_operator_idle :: operator_idle_parking
  b_last_successful_apply :: "int option"
  b_ready_since :: "int option"
  b_session_ready_latched :: bool
  b_feedback_watchdog_armed :: bool
  b_arming_deadline :: "(vcu_state \<times> int) option"
  b_control_watchdog_latched :: bool
  b_hard_overspeed_latched :: bool
  b_physical_emergency_reported :: bool
  b_handshake_revoked_reported :: bool
  b_recoverable_arming_timeout :: bool
  b_chassis_control_fault_latched :: bool
  b_clear_soft_stop_requested :: bool
  b_pending_stop :: stop_pair
  b_stop_source :: uint32
  b_stop_reason :: uint32
  b_stop_sequence :: uint64
  b_latest_intent :: control_intent
  b_latest_intent_valid :: bool
  b_gear_rejection_latched :: bool
  b_gear_rejection_retained_gear :: int
  b_intent_generation :: uint64
  b_speed_pid_state :: speed_pid_state
  b_speed_pid_reference_valid :: bool
  b_speed_pid_gear :: int
  b_speed_pid_target_mps :: double
  b_last_traction_torque_nm :: double
  b_last_traction_gear :: int
  b_last_feedback :: bridge_feedback
  b_telemetry :: bridge_telemetry
  b_last_control_tick :: "int option"
  b_send_failures :: int
  b_chassis :: 'c

text \<open>
  The constructor. The validity flags \<open>last_successful_apply_valid_\<close>, \<open>ready_since_valid_\<close> and
  \<open>arming_feedback_deadline_valid_\<close> are options together with the value they guard;
  \<open>b_last_control_tick\<close> and \<open>b_send_failures\<close> are the locals of the I/O loop that survive an
  iteration, and \<open>b_chassis\<close> is the state inside ChassisControl.
\<close>

definition runtime_new :: "double \<Rightarrow> int \<Rightarrow> speed_control_settings \<Rightarrow> bool \<Rightarrow> double \<Rightarrow> 'c \<Rightarrow> 'c bridge_runtime" where
  "runtime_new full_scale control_timeout speed_control physical_brake max_brake cc = \<lparr>
     b_full_scale_motor_torque_nm = full_scale, b_control_timeout_ms = control_timeout,
     b_open_speed_control = speed_control, b_speed_control = speed_control,
     b_runtime_control = default_runtime_control, b_physical_brake_input = physical_brake,
     b_max_ordinary_brake_pressure_bar = max_brake, b_controller = vcu_reset, b_running = False,
     b_last_seen = Map.empty, b_feedback_generation = 0, b_last_polled_generation = 0, b_io_error = 0,
     b_software_estop = False, b_operator_idle = oip_reset, b_last_successful_apply = None,
     b_ready_since = None, b_session_ready_latched = False, b_feedback_watchdog_armed = False,
     b_arming_deadline = None, b_control_watchdog_latched = False, b_hard_overspeed_latched = False,
     b_physical_emergency_reported = False, b_handshake_revoked_reported = False,
     b_recoverable_arming_timeout = False, b_chassis_control_fault_latched = False,
     b_clear_soft_stop_requested = False, b_pending_stop = no_stop,
     b_stop_source = source_none, b_stop_reason = reason_none, b_stop_sequence = 0,
     b_latest_intent = default_control_intent, b_latest_intent_valid = False,
     b_gear_rejection_latched = False, b_gear_rejection_retained_gear = 1, b_intent_generation = 0,
     b_speed_pid_state = speed_pid_reset, b_speed_pid_reference_valid = False, b_speed_pid_gear = 1,
     b_speed_pid_target_mps = Fin 0, b_last_traction_torque_nm = Fin 0, b_last_traction_gear = 1,
     b_last_feedback = \<lparr>bf_shake_hand_status = 0, bf_epb_status = replicate 4 0, bf_gear_status = 0,
       bf_mcu_mode = replicate 8 0, bf_eps_mode = replicate 4 0, bf_eps_angle = replicate 4 NaN,
       bf_ehb_mode = replicate 8 0, bf_vehicle_speed = Fin 0, bf_vehicle_speed_valid = 0,
       bf_driver_gear_request = 0, bf_driver_gear_request_valid = 0\<rparr>,
     b_telemetry = \<lparr>bt_speed_mps = Fin 0, bt_gear = 1, bt_steering_feedback = Fin 0,
       bt_throttle_feedback = Fin 0, bt_brake_feedback = Fin 0, bt_estop = 0, bt_stop_source = source_none,
       bt_stop_reason = reason_none, bt_stop_sequence = 0\<rparr>,
     b_last_control_tick = None, b_send_failures = 0, b_chassis = cc\<rparr>"

end
