(* ===== verification/Bridge_Runtime.thy ===== *)
theory Bridge_Runtime
  imports Bridge_State
begin

text \<open>
  The operations of \<open>BridgeRuntime\<close>: intents, runtime profiles, stops and handshakes requested
  by the vehicle agent, feedback from the bus, and the three locked sections of an iteration
  of the I/O loop. The mutex serialises them, so a run is a sequence of operations.
\<close>

subsection \<open>Clock and freshness\<close>

text \<open>\<open>duration<double>\<close> and \<open>duration_cast<milliseconds>\<close> of nanoseconds.\<close>

definition seconds :: "int \<Rightarrow> double" where
  "seconds n = ddiv (double_of_int n) (dbl 1000000000)"

definition millis :: "int \<Rightarrow> int" where
  "millis n = (if 0 \<le> n then n div 1000000 else - (- n div 1000000))"

definition limit_tolerance :: double where
  "limit_tolerance = dbl (1 / 1000000000)"

definition stationary_limit :: double where
  "stationary_limit = dbl (1 / 10)"

definition feedback_id_fresh :: "uint32 \<Rightarrow> int \<Rightarrow> 'c bridge_runtime \<Rightarrow> bool" where
  "feedback_id_fresh i now s \<longleftrightarrow> (case b_last_seen s i of None \<Rightarrow> False
     | Some t \<Rightarrow> dle (seconds (now - t)) kFeedbackTimeoutSeconds)"

definition feedback_fresh :: "int \<Rightarrow> 'c bridge_runtime \<Rightarrow> bool" where
  "feedback_fresh now s \<longleftrightarrow> list_all (\<lambda>i. case b_last_seen s i of None \<Rightarrow> False
     | Some t \<Rightarrow> \<not> dlt kFeedbackTimeoutSeconds (seconds (now - t))) kCriticalFeedbackIds"

definition speed_feedback_fresh :: "int \<Rightarrow> 'c bridge_runtime \<Rightarrow> bool" where
  "speed_feedback_fresh now s \<longleftrightarrow>
     (let f = feedback (b_controller s)
      in fb_speed_valid f \<and> isfinite (fb_speed_mps f) \<and>
         (case b_last_seen s kWvcuVehicleSpeed of None \<Rightarrow> False
          | Some t \<Rightarrow> millis (now - t) \<le> sc_speed_feedback_timeout_ms (b_speed_control s)))"

definition gear_feedback_fresh :: "int \<Rightarrow> 'c bridge_runtime \<Rightarrow> bool" where
  "gear_feedback_fresh now s \<longleftrightarrow>
     (let f = feedback (b_controller s)
      in fb_gear_valid f \<and> 1 \<le> fb_gear f \<and> fb_gear f \<le> 3 \<and> feedback_id_fresh kWvcuVehicleStatus now s)"

definition parking_gate_fresh :: "int \<Rightarrow> 'c bridge_runtime \<Rightarrow> bool" where
  "parking_gate_fresh now s \<longleftrightarrow>
     feedback_id_fresh kWvcuHandshake now s \<and> feedback_id_fresh kWvcuDriverIntention now s \<and>
     feedback_id_fresh kWvcuVehicleSpeed now s \<and> feedback_id_fresh kWvcuVehicleStatus now s \<and>
     feedback_id_fresh kWvcuParkingBrake now s"

definition arming_feedback_fresh :: "vcu_state \<Rightarrow> int \<Rightarrow> 'c bridge_runtime \<Rightarrow> bool" where
  "arming_feedback_fresh st now s \<longleftrightarrow>
     (if st = WaitParkingBrakeReleased then parking_gate_fresh now s
      else if st = WaitGear then parking_gate_fresh now s \<and> feedback_id_fresh kWvcuVehicleStatus now s
      else if st = WaitActuatorModes then feedback_fresh now s
      else True)"

subsection \<open>Shared private functions\<close>

definition on_controller :: "(parallel_controller \<Rightarrow> parallel_controller) \<Rightarrow> 'c bridge_runtime \<Rightarrow> 'c bridge_runtime" where
  "on_controller f s = s\<lparr>b_controller := f (b_controller s)\<rparr>"

definition automatic_parking_enabled :: "'c bridge_runtime \<Rightarrow> bool" where
  "automatic_parking_enabled s \<longleftrightarrow> 0 \<le> rt_parking_idle_timeout_ms (b_runtime_control s) \<and> b_session_ready_latched s"

definition automatic_parking_pressure_bar :: "'c bridge_runtime \<Rightarrow> double" where
  "automatic_parking_pressure_bar s =
     (if b_session_ready_latched s
      then dmin kAutomaticParkingBrakePressureBar (b_max_ordinary_brake_pressure_bar s) else Fin 0)"

definition arming_timeout_recovery_ready :: "int \<Rightarrow> 'c bridge_runtime \<Rightarrow> bool" where
  "arming_timeout_recovery_ready now s \<longleftrightarrow> b_recoverable_arming_timeout s \<and> b_io_error s = - ETIMEDOUT \<and>
     vstate (b_controller s) = Disarmed \<and> parking_gate_fresh now s \<and> parking_ready (b_controller s)"

definition recover_arming_timeout :: "'c bridge_runtime \<Rightarrow> 'c bridge_runtime" where
  "recover_arming_timeout s = s\<lparr>b_io_error := 0, b_recoverable_arming_timeout := False\<rparr>"

definition consume_stop_context :: "uint32 \<Rightarrow> uint32 \<Rightarrow> 'c bridge_runtime \<Rightarrow> stop_pair \<times> 'c bridge_runtime" where
  "consume_stop_context default_source default_reason s =
     (if sp_source (b_pending_stop s) = source_none
      then \<lparr>sp_source = default_source, sp_reason = default_reason\<rparr> else b_pending_stop s,
      s\<lparr>b_pending_stop := no_stop\<rparr>)"

definition set_provenance :: "uint32 \<Rightarrow> uint32 \<Rightarrow> 'c bridge_runtime \<Rightarrow> 'c bridge_runtime" where
  "set_provenance source reason s = s\<lparr>b_stop_source := source, b_stop_reason := reason,
     b_telemetry := (b_telemetry s)\<lparr>bt_stop_source := source, bt_stop_reason := reason,
       bt_stop_sequence := b_stop_sequence s\<rparr>\<rparr>"

definition latch_stop_provenance :: "uint32 \<Rightarrow> uint32 \<Rightarrow> 'c bridge_runtime \<Rightarrow> 'c bridge_runtime" where
  "latch_stop_provenance source0 reason0 s =
     (let bad = \<not> valid_stop_source source0 \<or> \<not> valid_stop_reason reason0 \<or>
            source0 = source_none \<or> reason0 = reason_none;
          source = (if bad then source_unknown else source0);
          reason = (if bad then reason_legacy_unspecified else reason0);
          physical_override = source = source_physical_emergency \<and> b_stop_source s \<noteq> source_physical_emergency
      in if b_stop_source s \<noteq> source_none \<and> \<not> physical_override then s
         else set_provenance source reason
           (s\<lparr>b_pending_stop := no_stop, b_stop_sequence := b_stop_sequence s + 1\<rparr>))"

definition clear_stop_provenance :: "'c bridge_runtime \<Rightarrow> 'c bridge_runtime" where
  "clear_stop_provenance s =
     (let s1 = s\<lparr>b_pending_stop := no_stop\<rparr>
      in if b_stop_source s1 = source_none then s1 else set_provenance source_none reason_none s1)"

definition reset_speed_pid :: "'c bridge_runtime \<Rightarrow> 'c bridge_runtime" where
  "reset_speed_pid s = s\<lparr>b_speed_pid_state := speed_pid_reset, b_speed_pid_reference_valid := False\<rparr>"

definition reset_direct_traction :: "'c bridge_runtime \<Rightarrow> 'c bridge_runtime" where
  "reset_direct_traction s = s\<lparr>b_last_traction_torque_nm := Fin 0, b_last_traction_gear := 1\<rparr>"

text \<open>\<open>latest_intent_.generation = ++intent_generation_\<close>.\<close>

definition renew_intent :: "'c bridge_runtime \<Rightarrow> 'c bridge_runtime" where
  "renew_intent s = s\<lparr>b_intent_generation := b_intent_generation s + 1,
     b_latest_intent := (b_latest_intent s)\<lparr>ci_generation := b_intent_generation s + 1\<rparr>\<rparr>"

definition feedback_gear_or_neutral :: "'c bridge_runtime \<Rightarrow> int" where
  "feedback_gear_or_neutral s =
     (let f = feedback (b_controller s)
      in if fb_gear_valid f \<and> 1 \<le> fb_gear f \<and> fb_gear f \<le> 3 then fb_gear f else 1)"

definition withdraw_latest_traction :: "'c bridge_runtime \<Rightarrow> 'c bridge_runtime" where
  "withdraw_latest_traction s =
     (let s1 = (if b_latest_intent_valid s then s
                else s\<lparr>b_latest_intent := (b_latest_intent s)\<lparr>ci_gear := feedback_gear_or_neutral s,
                         ci_target_speed_mps := Fin 0\<rparr>, b_latest_intent_valid := True\<rparr>)
      in reset_direct_traction (reset_speed_pid (renew_intent
           (s1\<lparr>b_latest_intent := (b_latest_intent s1)\<lparr>ci_longitudinal := Fin 0\<rparr>\<rparr>))))"

definition hold_rejected_gear :: "double \<Rightarrow> 'c bridge_runtime \<Rightarrow> 'c bridge_runtime" where
  "hold_rejected_gear requested_longitudinal s =
     (let s1 = (if b_latest_intent_valid s then s
                else s\<lparr>b_latest_intent := default_control_intent, b_latest_intent_valid := True\<rparr>)
      in reset_direct_traction (reset_speed_pid (renew_intent
           (s1\<lparr>b_latest_intent := (b_latest_intent s1)\<lparr>ci_gear := b_gear_rejection_retained_gear s1,
              ci_target_speed_mps := Fin 0, ci_longitudinal := dmin (Fin 0) requested_longitudinal\<rparr>\<rparr>))))"

text \<open>A fault of ChassisControl is permanent: \<open>chassis_control_fault_latched_\<close> is never reset.\<close>

definition latch_chassis_control_fault :: "'c bridge_runtime \<Rightarrow> 'c bridge_runtime" where
  "latch_chassis_control_fault s =
     withdraw_latest_traction (on_controller transport_fault
       (latch_stop_provenance source_software_fault reason_chassis_control_fault s)
       \<lparr>b_chassis_control_fault_latched := True, b_io_error := - EFAULT,
        b_software_estop := True, b_clear_soft_stop_requested := False\<rparr>)"

definition max_valid :: "double list \<Rightarrow> bool list \<Rightarrow> double" where
  "max_valid values valid = foldl (\<lambda>m i. if valid ! i then dmax m (values ! i) else m) (Fin 0) [0..<8]"

definition flag :: "bool \<Rightarrow> int" where
  "flag b = (if b then 1 else 0)"

definition update_feedback :: "'c bridge_runtime \<Rightarrow> 'c bridge_runtime" where
  "update_feedback s =
     (let f = feedback (b_controller s);
          estop = b_software_estop s \<or> fb_emergency_switch f \<noteq> 0
      in s\<lparr>b_last_feedback := (b_last_feedback s)\<lparr>
             bf_shake_hand_status := fb_handshake_status f, bf_gear_status := fb_gear f,
             bf_epb_status := fb_parking_brake_status f, bf_mcu_mode := fb_motor_mode f,
             bf_ehb_mode := fb_brake_mode f, bf_eps_mode := fb_steering_mode f,
             bf_eps_angle := map (\<lambda>i. if fb_steering_valid f ! i then fb_steering_angle_deg f ! i else NaN) [0..<4],
             bf_vehicle_speed := fb_speed_mps f, bf_vehicle_speed_valid := flag (fb_speed_valid f),
             bf_driver_gear_request := fb_driver_gear_request f,
             bf_driver_gear_request_valid := flag (fb_driver_gear_request_valid f)\<rparr>,
           b_telemetry := (b_telemetry s)\<lparr>
             bt_speed_mps := (if fb_speed_valid f then fb_speed_mps f else Fin 0),
             bt_gear := (if fb_gear_valid f then fb_gear f else 1),
             bt_steering_feedback := (if fb_steering_valid f ! 0
               then clamp_value (ddiv (fb_steering_angle_deg f ! 0) (dbl 30)) (dbl (- 1)) (dbl 1) else Fin 0),
             bt_throttle_feedback := clamp_value
               (ddiv (max_valid (fb_motor_torque_nm f) (fb_motor_torque_valid f)) kMotorTorqueMaximumNm) (dbl 0) (dbl 1),
             bt_brake_feedback := clamp_value
               (ddiv (max_valid (fb_brake_pressure_bar f) (fb_brake_valid f)) (dbl (4095 / 10))) (dbl 0) (dbl 1),
             bt_estop := flag estop,
             bt_stop_source := (if estop then b_stop_source s else source_none),
             bt_stop_reason := (if estop then b_stop_reason s else reason_none),
             bt_stop_sequence := b_stop_sequence s\<rparr>\<rparr>)"

definition ingest_locked :: "int \<Rightarrow> can_frame \<Rightarrow> 'c bridge_runtime \<Rightarrow> 'c bridge_runtime" where
  "ingest_locked now frame s =
     (let (accepted, c) = ingest frame (b_controller s); s1 = s\<lparr>b_controller := c\<rparr>
      in if \<not> accepted then s1
         else
           let s2 = (if physical_emergency_latched c
                     then latch_stop_provenance source_physical_emergency reason_physical_emergency_switch s1 else s1)
           in update_feedback (s2\<lparr>b_last_seen := (b_last_seen s2)(frame_id frame \<mapsto> now),
                b_feedback_generation := b_feedback_generation s2 + 1\<rparr>))"

subsection \<open>Requests of the vehicle agent\<close>

definition exceeds_profile :: "double \<Rightarrow> double \<Rightarrow> double list \<Rightarrow> 'c bridge_runtime \<Rightarrow> bool" where
  "exceeds_profile target_speed longitudinal steering s \<longleftrightarrow>
     (let r = b_runtime_control s;
          traction_limit = (if dlt (Fin 0) (b_full_scale_motor_torque_nm s)
            then ddiv (rt_max_motor_torque_nm r) (b_full_scale_motor_torque_nm s) else Fin 0)
      in dlt (dadd (rt_target_speed_limit_mps r) limit_tolerance) target_speed \<or>
         dlt (dadd traction_limit limit_tolerance) longitudinal \<or>
         list_ex (\<lambda>v. dlt (dadd (rt_max_steering_request r) limit_tolerance) (dabs v)) (take 4 steering))"

definition retained_gear :: "'c bridge_runtime \<Rightarrow> int" where
  "retained_gear s =
     (if b_latest_intent_valid s \<and> 1 \<le> ci_gear (b_latest_intent s) \<and> ci_gear (b_latest_intent s) \<le> 3
      then ci_gear (b_latest_intent s) else feedback_gear_or_neutral s)"

text \<open>The last part of \<open>store_intent\<close>: the intent is accepted.\<close>

definition accept_intent ::
  "int \<Rightarrow> int \<Rightarrow> double \<Rightarrow> double \<Rightarrow> double list \<Rightarrow> bool \<Rightarrow> 'c bridge_runtime \<Rightarrow> 'c bridge_runtime" where
  "accept_intent now g target_speed longitudinal steering operator_active s =
     s\<lparr>b_intent_generation := b_intent_generation s + 1,
       b_operator_idle := oip_observe (operator_active \<and> vcu_ready (b_controller s)) (millis now) (b_operator_idle s),
       b_latest_intent := \<lparr>ci_gear = g, ci_target_speed_mps = target_speed, ci_longitudinal = longitudinal,
         ci_steering = take 4 (steering @ replicate 4 (Fin 0)), ci_generation = b_intent_generation s + 1\<rparr>,
       b_latest_intent_valid := True, b_last_successful_apply := Some now, b_clear_soft_stop_requested := True\<rparr>"

definition refuse_gear_change :: "double \<Rightarrow> 'c bridge_runtime \<Rightarrow> uint32 \<times> 'c bridge_runtime" where
  "refuse_gear_change longitudinal s = (issue_drive_gear_change, hold_rejected_gear longitudinal s)"

definition moving_or_stale :: "int \<Rightarrow> 'c bridge_runtime \<Rightarrow> bool" where
  "moving_or_stale now s \<longleftrightarrow> \<not> speed_feedback_fresh now s \<or> \<not> gear_feedback_fresh now s \<or>
     dlt stationary_limit (dabs (fb_speed_mps (feedback (b_controller s))))"

definition store_intent_checked ::
  "int \<Rightarrow> int \<Rightarrow> double \<Rightarrow> double \<Rightarrow> double list \<Rightarrow> bool \<Rightarrow> 'c bridge_runtime \<Rightarrow> uint32 \<times> 'c bridge_runtime" where
  "store_intent_checked now g target_speed longitudinal steering operator_active s =
     (let gear_changed = \<not> b_latest_intent_valid s \<or> ci_gear (b_latest_intent s) \<noteq> g;
          retained_zero_output = g = b_gear_rejection_retained_gear s \<and>
            dle target_speed limit_tolerance \<and> dle longitudinal (Fin 0)
      in if b_gear_rejection_latched s \<and> \<not> retained_zero_output then refuse_gear_change longitudinal s
         else let s1 = s\<lparr>b_gear_rejection_latched := False\<rparr>
           in if gear_changed \<and> moving_or_stale now s1
              then refuse_gear_change longitudinal
                (s1\<lparr>b_gear_rejection_retained_gear := retained_gear s1, b_gear_rejection_latched := True\<rparr>)
              else (issue_none, accept_intent now g target_speed longitudinal steering operator_active s1))"

definition store_intent ::
  "int \<Rightarrow> int \<Rightarrow> double \<Rightarrow> double \<Rightarrow> double list \<Rightarrow> bool \<Rightarrow> 'c bridge_runtime \<Rightarrow> uint32 \<times> 'c bridge_runtime" where
  "store_intent now g target_speed longitudinal steering operator_active s =
     (if \<not> b_running s \<or> b_io_error s \<noteq> 0 then (issue_runtime_unavailable, s)
      else if physical_emergency_latched (b_controller s)
      then (issue_physical_emergency_latched, withdraw_latest_traction s)
      else if b_hard_overspeed_latched s then (issue_hard_overspeed_latched, withdraw_latest_traction s)
      else if dlt (Fin 0) longitudinal \<and> \<not> rt_active (b_runtime_control s)
      then (issue_arguments_invalid, withdraw_latest_traction s)
      else if rt_active (b_runtime_control s) \<and> exceeds_profile target_speed longitudinal steering s
      then (issue_arguments_invalid, withdraw_latest_traction s)
      else store_intent_checked now g target_speed longitudinal steering operator_active s)"

subsection \<open>Runtime profile\<close>

definition out_of_limit :: "double \<Rightarrow> double \<Rightarrow> bool" where
  "out_of_limit v hi \<longleftrightarrow> \<not> isfinite v \<or> dlt v (Fin 0) \<or> dlt hi v"

definition pid_of_config :: "bridge_runtime_control_config_v3 \<Rightarrow> speed_pid_config" where
  "pid_of_config c = \<lparr>pid_kp = rc_speed_pid_kp c, pid_ki = rc_speed_pid_ki c, pid_kd = rc_speed_pid_kd c,
     pid_derivative_filter_tau_ms = rc_speed_pid_derivative_filter_tau_ms c, pid_max_dt_ms = rc_speed_pid_max_dt_ms c\<rparr>"

definition runtime_config_invalid ::
  "uint32 \<Rightarrow> uint32 \<Rightarrow> double \<Rightarrow> bridge_runtime_control_config_v3 \<Rightarrow> 'c bridge_runtime \<Rightarrow> bool" where
  "runtime_config_invalid struct_size version rise_rate c s \<longleftrightarrow>
     rc_struct_size c \<noteq> struct_size \<or> rc_profile_version c \<noteq> version \<or> rc_profile_revision c = 0 \<or> rc_reserved c \<noteq> 0 \<or>
     out_of_limit (rc_target_speed_limit_mps c) (sc_hard_speed_limit_mps (b_speed_control s)) \<or>
     out_of_limit (rc_max_motor_torque_nm c) (b_full_scale_motor_torque_nm s) \<or>
     out_of_limit (rc_max_brake_pressure_bar c) (b_max_ordinary_brake_pressure_bar s) \<or>
     out_of_limit (rc_max_steering_request c) mtc_max_steering_request \<or>
     out_of_limit rise_rate mtc_max_motor_torque_rise_rate \<or>
     \<not> speed_pid_config_is_valid (pid_of_config c)"

text \<open>A field comparison \<open>a != b\<close> on doubles is \<open>\<not> deq a b\<close>.\<close>

definition pid_differs :: "speed_pid_config \<Rightarrow> speed_pid_config \<Rightarrow> bool" where
  "pid_differs p q \<longleftrightarrow> \<not> deq (pid_kp p) (pid_kp q) \<or> \<not> deq (pid_ki p) (pid_ki q) \<or> \<not> deq (pid_kd p) (pid_kd q) \<or>
     \<not> deq (pid_derivative_filter_tau_ms p) (pid_derivative_filter_tau_ms q) \<or> pid_max_dt_ms p \<noteq> pid_max_dt_ms q"

definition requires_parking ::
  "double \<Rightarrow> int \<Rightarrow> bridge_runtime_control_config_v3 \<Rightarrow> 'c bridge_runtime \<Rightarrow> bool" where
  "requires_parking rise_rate parking_timeout c s \<longleftrightarrow>
     (let r = b_runtime_control s
      in \<not> rt_active r \<or> pid_differs (pid_of_config c) (sc_pid (b_speed_control s)) \<or>
         \<not> deq rise_rate (sc_motor_torque_rise_rate (b_speed_control s)) \<or>
         parking_timeout \<noteq> rt_parking_idle_timeout_ms r \<or>
         dlt (dadd (rt_target_speed_limit_mps r) limit_tolerance) (rc_target_speed_limit_mps c) \<or>
         dlt (dadd (rt_max_motor_torque_nm r) limit_tolerance) (rc_max_motor_torque_nm c) \<or>
         \<not> deq (rc_max_brake_pressure_bar c) (rt_max_brake_pressure_bar r) \<or>
         \<not> deq (rc_max_steering_request c) (rt_max_steering_request r))"

definition withdraw_intent :: "'c bridge_runtime \<Rightarrow> 'c bridge_runtime" where
  "withdraw_intent s = (let s1 = withdraw_latest_traction s
     in s1\<lparr>b_latest_intent := (b_latest_intent s1)\<lparr>ci_target_speed_mps := Fin 0\<rparr>\<rparr>)"

definition stopped_and_fresh :: "int \<Rightarrow> 'c bridge_runtime \<Rightarrow> bool" where
  "stopped_and_fresh now s \<longleftrightarrow> speed_feedback_fresh now s \<and> feedback_fresh now s \<and>
     dle (dabs (fb_speed_mps (feedback (b_controller s)))) stationary_limit"

definition install_runtime_control ::
  "int \<Rightarrow> double \<Rightarrow> int \<Rightarrow> bridge_runtime_control_config_v3 \<Rightarrow> 'c bridge_runtime \<Rightarrow> 'c bridge_runtime" where
  "install_runtime_control now rise_rate parking_timeout c s =
     (let s1 = (withdraw_intent s)\<lparr>
            b_speed_control := (b_speed_control s)\<lparr>sc_pid := pid_of_config c, sc_motor_torque_rise_rate := rise_rate\<rparr>,
            b_runtime_control := \<lparr>rt_parking_idle_timeout_ms = parking_timeout, rt_active = True,
              rt_revision = rc_profile_revision c, rt_target_speed_limit_mps = rc_target_speed_limit_mps c,
              rt_max_motor_torque_nm = rc_max_motor_torque_nm c, rt_max_brake_pressure_bar = rc_max_brake_pressure_bar c,
              rt_max_steering_request = rc_max_steering_request c, rt_motor_torque_rise_rate = rise_rate\<rparr>,
            b_operator_idle := oip_reset\<rparr>
      in on_controller (set_automatic_parking (automatic_parking_enabled s1) True (stopped_and_fresh now s1)
           (automatic_parking_pressure_bar s1)) s1)"

definition configure_runtime_control ::
  "int \<Rightarrow> uint32 \<Rightarrow> uint32 \<Rightarrow> double option \<Rightarrow> int \<Rightarrow> bridge_runtime_control_config_v3 \<Rightarrow> 'c bridge_runtime \<Rightarrow>
   (uint32 \<times> uint64) \<times> 'c bridge_runtime" where
  "configure_runtime_control now struct_size version session_rise_rate parking_timeout c s =
     (let rise_rate = (case session_rise_rate of Some r \<Rightarrow> r
            | None \<Rightarrow> sc_motor_torque_rise_rate (b_open_speed_control s));
          recoverable = arming_timeout_recovery_ready now s;
          st = vstate (b_controller s);
          parked = (st = Standby \<or> st = Disarmed) \<and> parking_gate_fresh now s \<and> parking_ready (b_controller s)
      in if \<not> b_running s \<or> (b_io_error s \<noteq> 0 \<and> \<not> recoverable) then ((runtime_issue_runtime_unavailable, 0), s)
         else if runtime_config_invalid struct_size version rise_rate c s then ((runtime_issue_arguments_invalid, 0), s)
         else if rt_active (b_runtime_control s) \<and> rc_profile_revision c \<le> rt_revision (b_runtime_control s)
         then ((runtime_issue_stale_revision, 0), s)
         else if requires_parking rise_rate parking_timeout c s \<and> \<not> parked
         then ((runtime_issue_parking_required, 0), s)
         else ((runtime_issue_none, rc_profile_revision c),
               install_runtime_control now rise_rate parking_timeout c
                 (if recoverable then recover_arming_timeout s else s)))"

text \<open>The V1 and V2 structures are prefixes of V3: the fields they lack are not read.\<close>

definition configure_runtime_control_v1 ::
  "int \<Rightarrow> bridge_runtime_control_config_v3 \<Rightarrow> 'c bridge_runtime \<Rightarrow> (uint32 \<times> uint64) \<times> 'c bridge_runtime" where
  "configure_runtime_control_v1 now c = configure_runtime_control now sizeof_runtime_config_v1 2 None (-1) c"

definition configure_runtime_control_v2 ::
  "int \<Rightarrow> bridge_runtime_control_config_v3 \<Rightarrow> 'c bridge_runtime \<Rightarrow> (uint32 \<times> uint64) \<times> 'c bridge_runtime" where
  "configure_runtime_control_v2 now c =
     configure_runtime_control now sizeof_runtime_config_v2 3 (Some (rc_motor_torque_rise_rate_nm_per_s c)) (-1) c"

definition configure_runtime_control_v3 ::
  "int \<Rightarrow> bridge_runtime_control_config_v3 \<Rightarrow> 'c bridge_runtime \<Rightarrow> (uint32 \<times> uint64) \<times> 'c bridge_runtime" where
  "configure_runtime_control_v3 now c s =
     (if rc_struct_size c \<noteq> sizeof_runtime_config_v3 \<or> rc_parking_reserved c \<noteq> 0 \<or>
         rc_parking_idle_timeout_ms c < 0 \<or> 1000 < rc_parking_idle_timeout_ms c
      then ((runtime_issue_arguments_invalid, 0), s)
      else configure_runtime_control now sizeof_runtime_config_v3 4 (Some (rc_motor_torque_rise_rate_nm_per_s c))
             (rc_parking_idle_timeout_ms c) c s)"

definition clear_runtime_control :: "'c bridge_runtime \<Rightarrow> uint32 \<times> 'c bridge_runtime" where
  "clear_runtime_control s =
     (let s1 = withdraw_intent s
      in (runtime_issue_none, s1\<lparr>
           b_speed_control := (b_speed_control s1)\<lparr>sc_pid := sc_pid (b_open_speed_control s1),
             sc_motor_torque_rise_rate := sc_motor_torque_rise_rate (b_open_speed_control s1)\<rparr>,
           b_runtime_control := default_runtime_control
             \<lparr>rt_parking_idle_timeout_ms := rt_parking_idle_timeout_ms (b_runtime_control s1)\<rparr>,
           b_operator_idle := oip_reset\<rparr>))"

subsection \<open>Stops and the handshake\<close>

definition set_stop_context :: "bridge_stop_context_v1 \<Rightarrow> 'c bridge_runtime \<Rightarrow> bool \<times> 'c bridge_runtime" where
  "set_stop_context ctx s =
     (let source = sc_stop_source ctx; reason = sc_stop_reason ctx
      in if \<not> b_running s \<or> sc_struct_size ctx \<noteq> sizeof_stop_context \<or> sc_reserved ctx \<noteq> 0 \<or>
            \<not> valid_stop_source source \<or> \<not> valid_stop_reason reason \<or>
            ((source = source_none) \<noteq> (reason = reason_none)) \<or>
            source = source_physical_emergency \<or> reason = reason_physical_emergency_switch
         then (False, s)
         else (True, s\<lparr>b_pending_stop := (if source = source_none \<and> reason = reason_none then no_stop
                        else \<lparr>sp_source = source, sp_reason = reason\<rparr>)\<rparr>))"

definition bridge_emergency_stop :: "'c bridge_runtime \<Rightarrow> bool \<times> 'c bridge_runtime" where
  "bridge_emergency_stop s =
     (if \<not> b_running s then (False, s)
      else let (ctx, s1) = consume_stop_context source_unknown reason_legacy_unspecified s;
               s2 = on_controller emergency_stop (latch_stop_provenance (sp_source ctx) (sp_reason ctx) s1)
           in (True, (withdraw_latest_traction (s2\<lparr>b_clear_soft_stop_requested := False\<rparr>))\<lparr>b_software_estop := True\<rparr>))"

definition at_rest_in_neutral :: "int \<Rightarrow> 'c bridge_runtime \<Rightarrow> bool" where
  "at_rest_in_neutral now s \<longleftrightarrow> speed_feedback_fresh now s \<and> gear_feedback_fresh now s \<and>
     fb_gear (feedback (b_controller s)) = 1 \<and>
     dle (dabs (fb_speed_mps (feedback (b_controller s)))) stationary_limit"

definition handshake_gate :: "int \<Rightarrow> 'c bridge_runtime \<Rightarrow> bool" where
  "handshake_gate now s \<longleftrightarrow>
     (let c = b_controller s
      in parking_gate_fresh now s \<and> parking_ready c \<and>
         (\<not> b_hard_overspeed_latched s \<or> (vstate c = Disarmed \<and> at_rest_in_neutral now s)) \<and>
         (\<not> physical_emergency_latched c \<or>
            ((vstate c = Disarmed \<or> vstate c = Standby) \<and> at_rest_in_neutral now s \<and>
             fb_emergency_switch (feedback c) = 0)))"

definition fresh_session :: "'c bridge_runtime \<Rightarrow> 'c bridge_runtime" where
  "fresh_session s = (reset_direct_traction (reset_speed_pid ((clear_stop_provenance s)\<lparr>
       b_last_successful_apply := None, b_operator_idle := oip_reset, b_ready_since := None,
       b_session_ready_latched := False, b_feedback_watchdog_armed := False, b_arming_deadline := None,
       b_control_watchdog_latched := False, b_hard_overspeed_latched := False,
       b_physical_emergency_reported := False, b_handshake_revoked_reported := False,
       b_recoverable_arming_timeout := False, b_gear_rejection_latched := False,
       b_gear_rejection_retained_gear := 1, b_clear_soft_stop_requested := False,
       b_intent_generation := b_intent_generation s + 1,
       b_latest_intent := default_control_intent\<lparr>ci_generation := b_intent_generation s + 1\<rparr>,
       b_latest_intent_valid := True\<rparr>)))\<lparr>b_software_estop := False\<rparr>"

definition bridge_request_handshake :: "int \<Rightarrow> 'c bridge_runtime \<Rightarrow> bool \<times> 'c bridge_runtime" where
  "bridge_request_handshake now s =
     (if \<not> b_running s then (False, s)
      else
        let recoverable = arming_timeout_recovery_ready now s
        in if b_io_error s \<noteq> 0 \<and> \<not> recoverable then (False, s)
           else if \<not> handshake_gate now s then (False, s)
           else let (requested, c) = request_parallel_handshake (b_controller s); s1 = s\<lparr>b_controller := c\<rparr>
             in if \<not> requested then (False, s1)
                else (True, fresh_session (if recoverable then recover_arming_timeout s1 else s1)))"

definition bridge_request_park :: "'c bridge_runtime \<Rightarrow> bool \<times> 'c bridge_runtime" where
  "bridge_request_park s =
     (if \<not> b_running s then (False, s)
      else let (ctx, s1) = consume_stop_context source_driver_page reason_vcu_handshake_disconnect s;
               s2 = (latch_stop_provenance (sp_source ctx) (sp_reason ctx) s1)
                      \<lparr>b_gear_rejection_latched := False, b_gear_rejection_retained_gear := 1\<rparr>
           in (True, (withdraw_latest_traction (on_controller request_disarm s2))\<lparr>b_software_estop := True\<rparr>))"

definition fail_control_apply :: "'c bridge_runtime \<Rightarrow> 'c bridge_runtime" where
  "fail_control_apply s =
     (withdraw_latest_traction
       ((on_controller emergency_stop (latch_stop_provenance source_software_fault reason_control_apply_failed s))
         \<lparr>b_clear_soft_stop_requested := False\<rparr>))
     \<lparr>b_software_estop := True, b_control_watchdog_latched := True\<rparr>"

text \<open>\<open>close\<close>: the disarm request, and what follows the bounded wait for it.\<close>

definition close_begin :: "'c bridge_runtime \<Rightarrow> 'c bridge_runtime" where
  "close_begin s =
     (if \<not> b_running s then s
      else let (ctx, s1) = consume_stop_context source_session reason_session_lost s
           in (on_controller request_disarm (latch_stop_provenance (sp_source ctx) (sp_reason ctx) s1))
                \<lparr>b_software_estop := True\<rparr>)"

definition close_end :: "'c bridge_runtime \<Rightarrow> 'c bridge_runtime" where
  "close_end s = s\<lparr>b_running := False\<rparr>"

subsection \<open>Injected feedback\<close>

definition bytes_frame :: "uint32 \<Rightarrow> (nat \<times> uint8) list \<Rightarrow> can_frame" where
  "bytes_frame i bytes = (new_frame i)\<lparr>frame_data :=
     foldl (\<lambda>d (n, b). d[n := b]) (replicate 8 0) bytes\<rparr>"

definition low_high :: "int \<Rightarrow> uint8 \<times> uint8" where
  "low_high raw = (let w = word_of_int raw :: 16 word
     in (ucast (w AND 0xFF), ucast (drop_bit 8 w AND 0xFF)))"

definition injected_speed_frames :: "bridge_feedback \<Rightarrow> can_frame list" where
  "injected_speed_frames f =
     (if bf_vehicle_speed_valid f = 0 then []
      else let kph = clamp_value (dmul (bf_vehicle_speed f) (dbl (36 / 10))) (dbl (- 500)) (dbl (60535 / 10));
               (lo, hi) = low_high (llround_double (ddiv (dadd kph (dbl 500)) (dbl (1 / 10))))
           in [bytes_frame kWvcuVehicleSpeed [(0, lo), (1, hi)]])"

definition injected_steering_frame :: "bridge_feedback \<Rightarrow> nat \<Rightarrow> can_frame" where
  "injected_steering_frame f i =
     (let a = bf_eps_angle f ! i;
          angle = (if isfinite a then clamp_value a (dbl (- 1575)) (dbl 1575) else Fin 0);
          (lo, hi) = low_high (llround_double (ddiv (dadd angle (dbl 1575)) (dbl (1 / 10))))
      in bytes_frame (kSteeringStatusIds ! i) [(0, word_of_int (bf_eps_mode f ! i)), (1, lo), (2, hi)])"

text \<open>
  The bit operations on the C \<open>int\<close> members reach at most their low eight bits, so they are
  written on bytes; the torque frame carries the raw value of zero, 32000.
\<close>

definition injected_frames :: "bridge_feedback \<Rightarrow> can_frame list" where
  "injected_frames f =
     [bytes_frame kWvcuHandshake [(1, word_of_int (bf_shake_hand_status f))],
      bytes_frame kWvcuVehicleStatus [(0, push_bit 2 (word_of_int (bf_gear_status f) AND 3))],
      bytes_frame kWvcuParkingBrake (map (\<lambda>i. (i * 2, word_of_int (bf_epb_status f ! i))) [0..<4])] @
     concat (map (\<lambda>i. [bytes_frame (kMotorStatus02Ids ! i) [(0, push_bit 4 (word_of_int (bf_mcu_mode f ! i) AND 15))],
                       bytes_frame (kMotorStatus01Ids ! i) [(2, 0), (3, 0x7D)]]) [0..<8]) @
     map (injected_steering_frame f) [0..<4] @
     map (\<lambda>pair. bytes_frame (kBrakeStatusIds ! pair)
       [(0, word_of_int (bf_ehb_mode f ! (pair * 2))), (4, word_of_int (bf_ehb_mode f ! (pair * 2 + 1)))]) [0..<4] @
     injected_speed_frames f @
     (if bf_driver_gear_request_valid f \<noteq> 0
      then [bytes_frame kWvcuDriverIntention [(7, push_bit 1 (word_of_int (bf_driver_gear_request f) AND 7))]] else [])"

definition inject :: "int \<Rightarrow> bridge_feedback \<Rightarrow> 'c bridge_runtime \<Rightarrow> 'c bridge_runtime" where
  "inject now f s = foldl (\<lambda>s frame. ingest_locked now frame s) s (injected_frames f)"

subsection \<open>Reports\<close>

definition poll :: "'c bridge_runtime \<Rightarrow> (int \<times> bridge_feedback) \<times> 'c bridge_runtime" where
  "poll s =
     (let f = b_last_feedback s
      in if \<not> b_running s then ((-2, f), s)
         else if b_io_error s \<noteq> 0 then ((b_io_error s, f), s)
         else if \<not> vcu_ready (b_controller s) \<or> \<not> feedback_complete (b_controller s) then ((1, f), s)
         else if b_last_polled_generation s = b_feedback_generation s then ((1, f), s)
         else ((0, f), s\<lparr>b_last_polled_generation := b_feedback_generation s\<rparr>))"

definition handshake_status :: "int \<Rightarrow> 'c bridge_runtime \<Rightarrow> bridge_handshake_status" where
  "handshake_status now s =
     (let c = b_controller s; f = feedback c
      in \<lparr>bh_state = handshake_state_code (vstate c), bh_requested = flag (handshake_requested c),
          bh_ready = flag (vcu_ready c), bh_disarming = flag (is_disarming (vstate c)),
          bh_parking_ready = flag (parking_gate_fresh now s \<and> parking_ready c),
          bh_driver_gear_request = fb_driver_gear_request f,
          bh_driver_gear_request_valid = flag (fb_driver_gear_request_valid f),
          bh_handshake_status = fb_handshake_status f, bh_handshake_valid = flag (fb_handshake_valid f),
          bh_epb_status = fb_parking_brake_status f, bh_epb_valid = map flag (fb_parking_brake_valid f),
          bh_speed_mps = fb_speed_mps f, bh_speed_valid = flag (fb_speed_valid f),
          bh_handshake_revoked = flag (handshake_revoked c),
          bh_revoked_handshake_status = revoked_handshake_status c,
          bh_vmc_fault_code = fb_vmc_fault_code f, bh_vmc_fault_code_valid = flag (fb_vmc_fault_code_valid f),
          bh_parking_brake_switch = fb_parking_brake_switch f,
          bh_parking_brake_switch_valid = flag (fb_parking_brake_switch_valid f),
          bh_brake_pedal_switch = fb_brake_pedal_switch f,
          bh_brake_pedal_switch_valid = flag (fb_brake_pedal_switch_valid f)\<rparr>)"

text \<open>The age of the oldest critical message, \<open>-1\<close> as soon as one is missing.\<close>

fun max_feedback_age :: "(uint32 \<Rightarrow> int option) \<Rightarrow> int \<Rightarrow> int \<Rightarrow> uint32 list \<Rightarrow> int" where
  "max_feedback_age seen now age [] = age"
| "max_feedback_age seen now age (i # ids) =
     (case seen i of None \<Rightarrow> -1 | Some t \<Rightarrow> max_feedback_age seen now (max age (millis (now - t))) ids)"

definition can_feedback_v1 :: "int \<Rightarrow> 'c bridge_runtime \<Rightarrow> bridge_can_feedback_v1" where
  "can_feedback_v1 now s =
     (let f = feedback (b_controller s)
      in \<lparr>bc_feedback_fresh = flag (feedback_fresh now s),
          bc_max_feedback_age_ms = max_feedback_age (b_last_seen s) now 0 kCriticalFeedbackIds,
          bc_speed_mps = fb_speed_mps f, bc_speed_valid = flag (fb_speed_valid f),
          bc_gear = fb_gear f, bc_gear_valid = flag (fb_gear_valid f),
          bc_emergency_switch = fb_emergency_switch f,
          bc_driver_gear_request = fb_driver_gear_request f,
          bc_driver_gear_request_valid = flag (fb_driver_gear_request_valid f),
          bc_handshake_status = fb_handshake_status f, bc_handshake_valid = flag (fb_handshake_valid f),
          bc_epb_status = fb_parking_brake_status f, bc_epb_valid = map flag (fb_parking_brake_valid f),
          bc_motor_mode = fb_motor_mode f, bc_motor_mode_valid = map flag (fb_motor_mode_valid f),
          bc_motor_torque_nm = fb_motor_torque_nm f, bc_motor_torque_valid = map flag (fb_motor_torque_valid f),
          bc_motor_speed_rpm = fb_motor_speed_rpm f, bc_motor_speed_valid = map flag (fb_motor_speed_valid f),
          bc_steering_mode = fb_steering_mode f, bc_steering_valid = map flag (fb_steering_valid f),
          bc_steering_angle_deg = fb_steering_angle_deg f,
          bc_brake_mode = fb_brake_mode f, bc_brake_valid = map flag (fb_brake_valid f),
          bc_brake_pressure_bar = fb_brake_pressure_bar f,
          bc_vmc_fault_code = fb_vmc_fault_code f, bc_vmc_fault_code_valid = flag (fb_vmc_fault_code_valid f),
          bc_parking_brake_switch = fb_parking_brake_switch f,
          bc_parking_brake_switch_valid = flag (fb_parking_brake_switch_valid f),
          bc_brake_pedal_switch = fb_brake_pedal_switch f,
          bc_brake_pedal_switch_valid = flag (fb_brake_pedal_switch_valid f)\<rparr>)"

end
