(* ===== verification/Bridge_Loop.thy ===== *)
theory Bridge_Loop
  imports Bridge_Runtime
begin

text \<open>
  The I/O loop of \<open>BridgeRuntime\<close>: draining the bus, the control cycle (feedback and control
  watchdogs, the command of the latest intent, the controller's tick and the bookkeeping of
  its state), and the results of sending. A cycle is one iteration; its clock readings, the
  received frames and the results of sending are inputs.
\<close>

subsection \<open>Control watchdog\<close>

definition watchdog_reference :: "'c bridge_runtime \<Rightarrow> int option" where
  "watchdog_reference s = (case (b_ready_since s, b_last_successful_apply s) of
       (Some r, Some a) \<Rightarrow> Some (if r < a then a else r)
     | (Some r, None) \<Rightarrow> Some r
     | (None, a) \<Rightarrow> a)"

definition check_control_watchdog :: "int \<Rightarrow> 'c bridge_runtime \<Rightarrow> 'c bridge_runtime" where
  "check_control_watchdog now s =
     (let reference = watchdog_reference s;
          elapsed_ms = max 0 (case reference of None \<Rightarrow> 0 | Some r \<Rightarrow> millis (now - r));
          retained_control_state = b_session_ready_latched s \<and> speed_safety_active_state (vstate (b_controller s))
      in if \<not> control_watchdog_expired retained_control_state (reference \<noteq> None) (b_control_watchdog_latched s)
              elapsed_ms (b_control_timeout_ms s)
         then s
         else withdraw_latest_traction
           ((on_controller emergency_stop (latch_stop_provenance source_watchdog reason_control_apply_timeout s))
             \<lparr>b_software_estop := True, b_control_watchdog_latched := True, b_clear_soft_stop_requested := False\<rparr>))"

subsection \<open>Command of the latest intent\<close>

text \<open>
  The blocks of \<open>update_command_from_intent_locked\<close> in their order. \<open>st\<close> is the controller state
  read at its start.
\<close>

definition physical_block :: "'c bridge_runtime \<Rightarrow> 'c bridge_runtime" where
  "physical_block s =
     (if physical_emergency_latched (b_controller s)
      then let s1 = reset_speed_pid
                 ((latch_stop_provenance source_physical_emergency reason_physical_emergency_switch s)
                   \<lparr>b_clear_soft_stop_requested := False, b_software_estop := True\<rparr>)
           in if b_physical_emergency_reported s1 then s1
              else withdraw_latest_traction (s1\<lparr>b_physical_emergency_reported := True\<rparr>)
      else s)"

definition overspeed_stop :: "uint32 \<Rightarrow> 'c bridge_runtime \<Rightarrow> 'c bridge_runtime" where
  "overspeed_stop reason s = reset_speed_pid
     ((on_controller emergency_stop
        ((latch_stop_provenance source_software_fault reason s)\<lparr>b_hard_overspeed_latched := True\<rparr>))
       \<lparr>b_software_estop := True\<rparr>)"

definition arming_motion_block :: "vcu_state \<Rightarrow> bool \<Rightarrow> 'c bridge_runtime \<Rightarrow> 'c bridge_runtime" where
  "arming_motion_block st speed_fresh s =
     (if \<not> physical_emergency_latched (b_controller s) \<and> \<not> b_hard_overspeed_latched s \<and>
         sc_enabled (b_speed_control s) \<and> stationary_arming_state st \<and> speed_fresh \<and>
         dlt stationary_limit (dabs (fb_speed_mps (feedback (b_controller s))))
      then overspeed_stop reason_arming_motion s else s)"

definition overspeed_block :: "vcu_state \<Rightarrow> bool \<Rightarrow> 'c bridge_runtime \<Rightarrow> 'c bridge_runtime" where
  "overspeed_block st speed_fresh s =
     (if \<not> physical_emergency_latched (b_controller s) \<and> \<not> b_hard_overspeed_latched s \<and>
         sc_enabled (b_speed_control s) \<and> speed_safety_active_state st \<and> speed_fresh \<and>
         hard_overspeed_latch (b_hard_overspeed_latched s) (sc_hard_speed_limit_mps (b_speed_control s))
           (fb_speed_mps (feedback (b_controller s))) (sc_hard_overspeed_margin_mps (b_speed_control s))
      then overspeed_stop reason_hard_overspeed s else s)"

definition clear_soft_stop_block :: "bool \<Rightarrow> bool \<Rightarrow> 'c bridge_runtime \<Rightarrow> 'c bridge_runtime" where
  "clear_soft_stop_block speed_fresh gear_matches s =
     (if b_clear_soft_stop_requested s \<and> \<not> physical_emergency_latched (b_controller s) \<and>
         \<not> b_hard_overspeed_latched s \<and> vcu_ready (b_controller s) \<and> speed_fresh \<and> gear_matches
      then clear_stop_provenance ((on_controller clear_emergency_stop s)
             \<lparr>b_software_estop := False, b_control_watchdog_latched := False, b_clear_soft_stop_requested := False\<rparr>)
      else s)"

definition idle_park :: "int \<Rightarrow> 'c bridge_runtime \<Rightarrow> bool" where
  "idle_park now s \<longleftrightarrow> \<not> rt_active (b_runtime_control s) \<or>
     oip_expired (millis now) (rt_parking_idle_timeout_ms (b_runtime_control s)) (b_operator_idle s)"

definition parking_block :: "int \<Rightarrow> bool \<Rightarrow> double \<Rightarrow> 'c bridge_runtime \<Rightarrow> 'c bridge_runtime" where
  "parking_block now speed_fresh measured s =
     on_controller (set_automatic_parking (automatic_parking_enabled s) (idle_park now s)
       (speed_fresh \<and> feedback_fresh now s \<and> dle measured stationary_limit) (automatic_parking_pressure_bar s)) s"

definition parking_allows_traction :: "int \<Rightarrow> 'c bridge_runtime \<Rightarrow> bool" where
  "parking_allows_traction now s \<longleftrightarrow> \<not> automatic_parking_enabled s \<or>
     (\<not> idle_park now s \<and> feedback_fresh now s \<and> parking_released (b_controller s))"

definition driving_gear :: "int \<Rightarrow> bool" where
  "driving_gear g \<longleftrightarrow> g = 2 \<or> g = 3"

definition traction_pid_active :: "int \<Rightarrow> control_intent \<Rightarrow> bool \<Rightarrow> bool \<Rightarrow> 'c bridge_runtime \<Rightarrow> bool" where
  "traction_pid_active now intent speed_fresh gear_matches s \<longleftrightarrow>
     sc_enabled (b_speed_control s) \<and> rt_active (b_runtime_control s) \<and>
     \<not> physical_emergency_latched (b_controller s) \<and> \<not> b_hard_overspeed_latched s \<and>
     \<not> b_control_watchdog_latched s \<and> \<not> b_software_estop s \<and>
     parking_allows_traction now s \<and> dlt (Fin 0) (ci_longitudinal intent) \<and> driving_gear (ci_gear intent) \<and>
     vcu_ready (b_controller s) \<and> speed_fresh \<and> gear_matches \<and> dlt (Fin 0) (ci_target_speed_mps intent)"

definition session_torque_limit :: "'c bridge_runtime \<Rightarrow> double" where
  "session_torque_limit s = dmin (rt_max_motor_torque_nm (b_runtime_control s)) (b_full_scale_motor_torque_nm s)"

text \<open>\<open>std::min (a, b)\<close> is \<open>dmin a b\<close>.\<close>

definition adopt_setpoint :: "control_intent \<Rightarrow> 'c bridge_runtime \<Rightarrow> 'c bridge_runtime" where
  "adopt_setpoint intent s =
     (let s1 = (if b_last_traction_gear s \<noteq> ci_gear intent
                then (reset_direct_traction s)\<lparr>b_last_traction_gear := ci_gear intent\<rparr> else s)
      in if setpoint_requires_reset (b_speed_pid_reference_valid s1) (b_speed_pid_gear s1) (ci_gear intent)
              (b_speed_pid_target_mps s1) (ci_target_speed_mps intent)
         then s1\<lparr>b_speed_pid_state := speed_pid_reset, b_speed_pid_reference_valid := True,
                b_speed_pid_gear := ci_gear intent, b_speed_pid_target_mps := ci_target_speed_mps intent\<rparr>
         else s1)"

definition reachable_output :: "double \<Rightarrow> 'c bridge_runtime \<Rightarrow> double" where
  "reachable_output dt s =
     (let motor_torque_limit_nm = bounded_motor_torque_nm (dbl 1) (session_torque_limit s);
          reachable_nm = rise_limited_motor_torque_nm (b_last_traction_torque_nm s) motor_torque_limit_nm
            (sc_motor_torque_rise_rate (b_speed_control s)) dt
      in if dlt (Fin 0) motor_torque_limit_nm
         then dclamp (ddiv reachable_nm motor_torque_limit_nm) (dbl 0) (dbl 1) else Fin 0)"

text \<open>\<open>normalized_output\<close> and the state after the PID has run or has been reset.\<close>

definition normalized_block ::
  "bool \<Rightarrow> control_intent \<Rightarrow> double \<Rightarrow> double \<Rightarrow> 'c bridge_runtime \<Rightarrow> double \<times> 'c bridge_runtime" where
  "normalized_block active intent measured dt s =
     (if dlt (ci_longitudinal intent) (Fin 0) \<and> \<not> physical_emergency_latched (b_controller s) \<and>
         \<not> b_hard_overspeed_latched s
      then (ci_longitudinal intent, reset_speed_pid s)
      else if active then
        let s1 = adopt_setpoint intent s;
            (out, pid) = speed_pid_step (sc_pid (b_speed_control s1)) (ci_target_speed_mps intent) measured
              (reachable_output dt s1) dt (b_speed_pid_state s1)
        in (out, s1\<lparr>b_speed_pid_state := pid\<rparr>)
      else (Fin 0, reset_speed_pid s))"

definition torque_block :: "bool \<Rightarrow> double \<Rightarrow> double \<Rightarrow> 'c bridge_runtime \<Rightarrow> 'c bridge_runtime" where
  "torque_block active normalized dt s =
     (if active \<and> dlt (Fin 0) normalized
      then s\<lparr>b_last_traction_torque_nm := rise_limited_motor_torque_nm (b_last_traction_torque_nm s)
             (bounded_motor_torque_nm normalized (session_torque_limit s))
             (sc_motor_torque_rise_rate (b_speed_control s)) dt\<rparr>
      else reset_direct_traction s)"

text \<open>The command built from the outputs of ChassisControl.\<close>

definition shape_command :: "control_intent \<Rightarrow> vcu_command \<Rightarrow> 'c bridge_runtime \<Rightarrow> vcu_command" where
  "shape_command intent cmd s =
     (let brake_requested = dlt (ci_longitudinal intent) (Fin 0);
          direct = b_physical_brake_input s \<and> brake_requested;
          torque = directional_motor_torque_nm (ci_gear intent) (b_last_traction_torque_nm s);
          c1 = cmd\<lparr>motor_torque_nm := replicate 8 torque\<rparr>;
          c2 = (if b_physical_brake_input s
                then c1\<lparr>motor_torque_nm := (if direct then replicate 8 (Fin 0) else motor_torque_nm c1),
                        brake_pressure_bar := replicate 8 (if direct
                          then quantize_brake_pressure_bar
                                 (dmul (dneg (ci_longitudinal intent)) (b_max_ordinary_brake_pressure_bar s))
                          else Fin 0)\<rparr>
                else c1)
      in if 0 \<le> rt_parking_idle_timeout_ms (b_runtime_control s) \<and> \<not> b_session_ready_latched s
         then c2\<lparr>motor_torque_nm := replicate 8 (Fin 0), motor_speed_rpm := replicate 8 (Fin 0),
                 steering_angle_deg := replicate 4 (Fin 0), brake_pressure_bar := replicate 8 (Fin 0)\<rparr>
         else c2)"

definition chassis_command ::
  "'c chassis_control \<Rightarrow> control_intent \<Rightarrow> bool \<Rightarrow> double \<Rightarrow> double \<Rightarrow> 'c bridge_runtime \<Rightarrow>
   vcu_command option \<times> 'c bridge_runtime" where
  "chassis_command CC intent speed_fresh measured normalized s =
     (let brake_requested = dlt (ci_longitudinal intent) (Fin 0);
          direct = b_physical_brake_input s \<and> brake_requested;
          longitudinal = (if \<not> direct \<and> brake_requested then normalized else Fin 0);
          state = make_vehicle_state (if speed_fresh then measured else Fin 0) (ci_gear intent)
            (ci_target_speed_mps intent) longitudinal (ci_steering intent);
          (updated, cc) = cc_update CC state (b_chassis s);
          s1 = s\<lparr>b_chassis := cc\<rparr>
      in case updated of
           Inl e \<Rightarrow> (None, s1)
         | Inr ok \<Rightarrow>
             if \<not> ok then (None, s1)
             else case command_from_chassis_control (ci_gear intent) (cc_controls CC cc) of
                 Inl e \<Rightarrow> (None, s1)
               | Inr cmd \<Rightarrow> (Some (shape_command intent cmd s1), s1))"

definition accepts_intent :: "vcu_state \<Rightarrow> bool" where
  "accepts_intent st \<longleftrightarrow> \<not> is_disarming st \<and> st \<noteq> Disarmed \<and> st \<noteq> Fault"

definition command_block :: "vcu_command \<Rightarrow> 'c bridge_runtime \<Rightarrow> 'c bridge_runtime" where
  "command_block cmd s =
     (let s1 = (if accepts_intent (vstate (b_controller s))
                then let (accepted, c) = set_command cmd (b_controller s); s' = s\<lparr>b_controller := c\<rparr>
                     in if accepted then s'
                        else reset_direct_traction (reset_speed_pid
                          ((on_controller emergency_stop
                             (latch_stop_provenance source_software_fault reason_control_command_invalid s'))
                            \<lparr>b_software_estop := True\<rparr>))
                else s)
      in if physical_emergency_latched (b_controller s1) \<or> b_hard_overspeed_latched s1
         then on_controller emergency_stop s1 else s1)"

definition faulted_block :: "'c bridge_runtime \<Rightarrow> 'c bridge_runtime" where
  "faulted_block s =
     (let st = vstate (b_controller s);
          s1 = (if \<not> is_disarming st \<and> st \<noteq> Disarmed then on_controller transport_fault s else s)
      in reset_direct_traction (reset_speed_pid (s1\<lparr>b_software_estop := True\<rparr>)))"

definition safety_blocks :: "int \<Rightarrow> vcu_state \<Rightarrow> bool \<Rightarrow> bool \<Rightarrow> double \<Rightarrow> 'c bridge_runtime \<Rightarrow> 'c bridge_runtime" where
  "safety_blocks now st speed_fresh gear_matches measured s =
     parking_block now speed_fresh measured (clear_soft_stop_block speed_fresh gear_matches
       (overspeed_block st speed_fresh (arming_motion_block st speed_fresh (physical_block s))))"

definition traction_blocks ::
  "int \<Rightarrow> control_intent \<Rightarrow> bool \<Rightarrow> bool \<Rightarrow> double \<Rightarrow> double \<Rightarrow> 'c bridge_runtime \<Rightarrow> double \<times> 'c bridge_runtime" where
  "traction_blocks now intent speed_fresh gear_matches measured dt s =
     (let active = traction_pid_active now intent speed_fresh gear_matches s;
          (normalized, s1) = normalized_block active intent measured dt s
      in (normalized, torque_block active normalized dt s1))"

definition update_command_from_intent ::
  "'c chassis_control \<Rightarrow> int \<Rightarrow> double \<Rightarrow> 'c bridge_runtime \<Rightarrow> 'c bridge_runtime" where
  "update_command_from_intent CC now dt s =
     (if b_chassis_control_fault_latched s then faulted_block s
      else
        let intent = (if b_latest_intent_valid s then b_latest_intent s else default_control_intent);
            speed_fresh = speed_feedback_fresh now s;
            gear_matches = gear_feedback_fresh now s \<and> fb_gear (feedback (b_controller s)) = ci_gear intent;
            measured = speed_magnitude_mps (fb_speed_mps (feedback (b_controller s)));
            s1 = safety_blocks now (vstate (b_controller s)) speed_fresh gear_matches measured s;
            (normalized, s2) = traction_blocks now intent speed_fresh gear_matches measured dt s1;
            (cmd, s3) = chassis_command CC intent speed_fresh measured normalized s2
        in case cmd of None \<Rightarrow> latch_chassis_control_fault s3 | Some c \<Rightarrow> command_block c s3)"

subsection \<open>Control cycle\<close>

definition first_arming_timeout :: "int \<Rightarrow> 'c bridge_runtime \<Rightarrow> bool" where
  "first_arming_timeout now s \<longleftrightarrow> \<not> b_feedback_watchdog_armed s \<and>
     (case b_arming_deadline s of None \<Rightarrow> False
      | Some (st, entry) \<Rightarrow> vstate (b_controller s) = st \<and> 500000000 \<le> now - entry \<and>
          \<not> arming_feedback_fresh (vstate (b_controller s)) now s)"

definition feedback_watchdog :: "int \<Rightarrow> 'c bridge_runtime \<Rightarrow> 'c bridge_runtime" where
  "feedback_watchdog now s =
     (let retained = b_feedback_watchdog_armed s \<and> speed_safety_active_state (vstate (b_controller s)) \<and>
            \<not> feedback_fresh now s;
          first_arming = first_arming_timeout now s
      in if retained \<or> first_arming
         then withdraw_latest_traction ((on_controller transport_fault
             (latch_stop_provenance source_watchdog reason_feedback_timeout
               (s\<lparr>b_io_error := - ETIMEDOUT, b_recoverable_arming_timeout := first_arming\<rparr>)))
             \<lparr>b_software_estop := True\<rparr>)
         else s)"

definition revocation_block :: "'c bridge_runtime \<Rightarrow> 'c bridge_runtime" where
  "revocation_block s =
     (if handshake_revoked (b_controller s) \<and> \<not> b_handshake_revoked_reported s
      then latch_stop_provenance source_software_fault reason_handshake_revoked
        (withdraw_latest_traction (s\<lparr>b_handshake_revoked_reported := True, b_software_estop := True,
           b_clear_soft_stop_requested := False\<rparr>))
      else s)"

definition state_fault_block :: "vcu_state \<Rightarrow> 'c bridge_runtime \<Rightarrow> 'c bridge_runtime" where
  "state_fault_block state_before s =
     (if vstate (b_controller s) = Fault \<and> state_before \<noteq> Fault
      then withdraw_latest_traction ((latch_stop_provenance source_software_fault reason_vcu_state_fault s)
             \<lparr>b_software_estop := True, b_clear_soft_stop_requested := False\<rparr>)
      else s)"

definition session_block :: "int \<Rightarrow> 'c bridge_runtime \<Rightarrow> 'c bridge_runtime" where
  "session_block now s =
     (let st = vstate (b_controller s)
      in if \<not> b_session_ready_latched s \<and> st = Ready
         then s\<lparr>b_session_ready_latched := True, b_feedback_watchdog_armed := True, b_ready_since := Some now,
                b_control_watchdog_latched := False\<rparr>
         else if b_session_ready_latched s \<and> \<not> speed_safety_active_state st
         then s\<lparr>b_session_ready_latched := False, b_feedback_watchdog_armed := False, b_ready_since := None\<rparr>
         else s)"

definition arming_deadline_block :: "int \<Rightarrow> 'c bridge_runtime \<Rightarrow> 'c bridge_runtime" where
  "arming_deadline_block now s =
     (let st = vstate (b_controller s)
      in if \<not> b_feedback_watchdog_armed s \<and> stationary_arming_state st \<and>
            (case b_arming_deadline s of None \<Rightarrow> True | Some (st', _) \<Rightarrow> st' \<noteq> st)
         then s\<lparr>b_arming_deadline := Some (st, now)\<rparr>
         else if \<not> stationary_arming_state st then s\<lparr>b_arming_deadline := None\<rparr>
         else s)"

definition control_dt :: "int \<Rightarrow> 'c bridge_runtime \<Rightarrow> double" where
  "control_dt now s = (case b_last_control_tick s of Some t \<Rightarrow> seconds (now - t)
     | None \<Rightarrow> ddiv (double_of_int kTransmitPeriodMs) (dbl 1000))"

definition bridge_tick :: "'c bridge_runtime \<Rightarrow> can_frame list \<times> 'c bridge_runtime" where
  "bridge_tick s = (let (frames, c) = vcu_tick (b_controller s) in (frames, s\<lparr>b_controller := c\<rparr>))"

definition before_tick :: "'c chassis_control \<Rightarrow> int \<Rightarrow> 'c bridge_runtime \<Rightarrow> 'c bridge_runtime" where
  "before_tick CC now s =
     update_command_from_intent CC now (control_dt now s) (check_control_watchdog now
       (feedback_watchdog now (s\<lparr>b_last_control_tick := Some now\<rparr>)))"

definition after_tick :: "int \<Rightarrow> vcu_state \<Rightarrow> 'c bridge_runtime \<Rightarrow> 'c bridge_runtime" where
  "after_tick now state_before s =
     update_feedback (arming_deadline_block now (session_block now
       (state_fault_block state_before (revocation_block s))))"

definition control_cycle :: "'c chassis_control \<Rightarrow> int \<Rightarrow> 'c bridge_runtime \<Rightarrow> can_frame list \<times> 'c bridge_runtime" where
  "control_cycle CC now s =
     (let (frames, t) = bridge_tick (before_tick CC now s)
      in (frames, after_tick now (vstate (b_controller s)) t))"

subsection \<open>Bus\<close>

text \<open>What \<open>receive\<close> returned: a frame and the clock at its ingestion, a frame that is not VCU feedback, an error.\<close>

datatype receive_outcome = RxFrame int can_frame | RxSpecial | RxError int

definition receive_failed :: "int \<Rightarrow> 'c bridge_runtime \<Rightarrow> 'c bridge_runtime" where
  "receive_failed code s =
     (on_controller transport_fault
       (latch_stop_provenance source_software_fault reason_can_receive_failed (s\<lparr>b_io_error := code\<rparr>)))
     \<lparr>b_software_estop := True\<rparr>"

fun drain_bus :: "receive_outcome list \<Rightarrow> 'c bridge_runtime \<Rightarrow> 'c bridge_runtime" where
  "drain_bus [] s = s"
| "drain_bus (RxFrame now frame # rx) s = drain_bus rx (ingest_locked now frame s)"
| "drain_bus (RxSpecial # rx) s = drain_bus rx s"
| "drain_bus (RxError code # rx) s = receive_failed code s"

definition sent_frames :: "bool \<Rightarrow> 'c bridge_runtime \<Rightarrow> 'c bridge_runtime" where
  "sent_frames all_sent s =
     (if all_sent then s\<lparr>b_send_failures := 0\<rparr>
      else let s1 = s\<lparr>b_send_failures := b_send_failures s + 1\<rparr>
        in if b_send_failures s1 = 3
           then (on_controller transport_fault
                  (latch_stop_provenance source_software_fault reason_can_send_failed (s1\<lparr>b_io_error := - EIO\<rparr>)))
                \<lparr>b_software_estop := True\<rparr>
           else s1)"

text \<open>The handler around the loop: an exception ends it.\<close>

definition io_thread_failed :: "'c bridge_runtime \<Rightarrow> 'c bridge_runtime" where
  "io_thread_failed s =
     (on_controller transport_fault
       (latch_stop_provenance source_software_fault reason_io_thread_exception (s\<lparr>b_io_error := - EFAULT\<rparr>)))
     \<lparr>b_software_estop := True, b_running := False\<rparr>"

end
