(* ===== verification/Bridge_Api.thy ===== *)
theory Bridge_Api
  imports Bridge_Loop
begin

text \<open>
  The exported C functions of the chassis bridge. \<open>g_runtime\<close> is a runtime or null; without
  one the state inside ChassisControl remains. The API mutex serialises the calls. A null
  pointer argument is \<open>None\<close>.
\<close>

datatype 'c bridge_world = Closed 'c | Open "'c bridge_runtime"

fun world_chassis :: "'c bridge_world \<Rightarrow> 'c" where
  "world_chassis (Closed c) = c"
| "world_chassis (Open s) = b_chassis s"

subsection \<open>Opening\<close>

text \<open>The outcomes of the protocol log and of the socket, which are input to \<open>start\<close>.\<close>

record open_resources =
  log_opens :: bool
  socket_opens :: bool

definition bridge_start ::
  "open_resources \<Rightarrow> vcu_command \<Rightarrow> vcu_command \<Rightarrow> 'c bridge_runtime \<Rightarrow> int \<times> 'c bridge_runtime" where
  "bridge_start io initial emergency_command s =
     (let (ok1, c1) = set_command initial (b_controller s);
          (ok2, c2) = set_emergency_command emergency_command c1
      in if \<not> ok1 then (-2, s\<lparr>b_controller := c1\<rparr>)
         else if \<not> ok2 then (-2, s\<lparr>b_controller := c2\<rparr>)
         else if \<not> log_opens io then (-4, s\<lparr>b_controller := c2\<rparr>)
         else if \<not> socket_opens io then (-3, s\<lparr>b_controller := c2\<rparr>)
         else (0, s\<lparr>b_controller := c2, b_running := True\<rparr>))"

text \<open>Feeding a seed state to ChassisControl and reading the command it gives in neutral.\<close>

definition seed_command :: "'c chassis_control \<Rightarrow> double \<Rightarrow> ('c, vcu_command option) oper" where
  "seed_command CC target_ax =
     bindS (cc_update CC (make_vehicle_state (Fin 0) 1 (Fin 0) target_ax (replicate 4 (Fin 0)))) (\<lambda>ok.
     if \<not> ok then returnS None
     else bindS (getS (cc_controls CC)) (\<lambda>controls.
       bindS (liftS (command_from_chassis_control 1 controls)) (\<lambda>cmd. returnS (Some cmd))))"

definition emergency_of :: "vcu_command \<Rightarrow> vcu_command" where
  "emergency_of cmd = cmd\<lparr>motor_torque_nm := replicate 8 (Fin 0),
     brake_pressure_bar := replicate 8 mtc_max_emergency_brake_pressure_bar\<rparr>"

definition open_runtime ::
  "'c chassis_control \<Rightarrow> open_resources \<Rightarrow> string \<Rightarrow> ('c \<Rightarrow> 'c bridge_runtime) \<Rightarrow>
   ('c, int \<times> 'c bridge_runtime option) oper" where
  "open_runtime CC io can_interface runtime =
     bindS (cc_initialize CC can_interface) (\<lambda>ok.
     if \<not> ok then returnS (-2, None)
     else bindS (seed_command CC (dbl (- 8))) (\<lambda>emergency_seed. case emergency_seed of
         None \<Rightarrow> returnS (-2, None)
       | Some e \<Rightarrow> bindS (seed_command CC (Fin 0)) (\<lambda>initial_seed. case initial_seed of
           None \<Rightarrow> returnS (-2, None)
         | Some initial \<Rightarrow> bindS (getS id) (\<lambda>cc.
             let (code, s) = bridge_start io initial (emergency_of e) (runtime cc)
             in returnS (code, if code = 0 then Some s else None)))))"

definition open_bridge ::
  "'c chassis_control \<Rightarrow> open_resources \<Rightarrow> string option \<Rightarrow> double \<Rightarrow> int \<Rightarrow> speed_control_settings \<Rightarrow> bool \<Rightarrow> double \<Rightarrow>
   'c bridge_world \<Rightarrow> int \<times> 'c bridge_world" where
  "open_bridge CC io can_interface full_scale control_timeout speed_control physical_brake max_brake w =
     (case (can_interface, w) of
        (Some (ch # chs), Closed cc) \<Rightarrow>
          (case open_runtime CC io (ch # chs)
                  (runtime_new full_scale control_timeout speed_control physical_brake max_brake) cc of
             (Inl e, cc') \<Rightarrow> (-5, Closed cc')
           | (Inr (code, Some s), cc') \<Rightarrow> (code, Open s)
           | (Inr (code, None), cc') \<Rightarrow> (code, Closed cc'))
      | _ \<Rightarrow> (-1, w))"

definition api_open ::
  "'c chassis_control \<Rightarrow> open_resources \<Rightarrow> string option \<Rightarrow> 'c bridge_world \<Rightarrow> int \<times> 'c bridge_world" where
  "api_open CC io can_interface = open_bridge CC io can_interface mtc_default_full_scale_motor_torque_nm
     mtc_default_control_timeout_ms default_speed_control False (Fin 0)"

definition api_open_v1 ::
  "'c chassis_control \<Rightarrow> open_resources \<Rightarrow> bridge_open_config_v4 option \<Rightarrow> 'c bridge_world \<Rightarrow> int \<times> 'c bridge_world" where
  "api_open_v1 CC io config w = (case config of
       None \<Rightarrow> (-1, w)
     | Some c \<Rightarrow>
         if oc_struct_size c \<noteq> 24 \<or>
            out_of_limit (oc_full_scale_motor_torque_nm c) mtc_max_full_scale_motor_torque_nm
         then (-1, w)
         else open_bridge CC io (Some (oc_can_interface c)) (oc_full_scale_motor_torque_nm c)
                mtc_default_control_timeout_ms default_speed_control False (Fin 0) w)"

definition pid_of_open :: "bridge_open_config_v4 \<Rightarrow> speed_pid_config" where
  "pid_of_open c = \<lparr>pid_kp = oc_speed_pid_kp c, pid_ki = oc_speed_pid_ki c, pid_kd = oc_speed_pid_kd c,
     pid_derivative_filter_tau_ms = oc_speed_pid_derivative_filter_tau_ms c, pid_max_dt_ms = oc_speed_pid_max_dt_ms c\<rparr>"

text \<open>The checks that \<open>open_v2\<close> and \<open>open_configured_bridge\<close> share.\<close>

definition open_config_invalid :: "uint32 \<Rightarrow> bridge_open_config_v4 \<Rightarrow> bool" where
  "open_config_invalid struct_size c \<longleftrightarrow>
     oc_struct_size c \<noteq> struct_size \<or>
     out_of_limit (oc_full_scale_motor_torque_nm c) mtc_max_full_scale_motor_torque_nm \<or>
     out_of_limit (oc_hard_speed_limit_mps c) (dbl 20) \<or>
     \<not> control_timeout_is_valid (oc_control_timeout_ms c) \<or>
     oc_speed_feedback_timeout_ms c < mtc_min_speed_feedback_timeout_ms \<or>
     mtc_max_speed_feedback_timeout_ms < oc_speed_feedback_timeout_ms c \<or>
     oc_control_timeout_ms c < oc_speed_feedback_timeout_ms c \<or>
     \<not> speed_pid_config_is_valid (pid_of_open c) \<or>
     \<not> isfinite (oc_hard_overspeed_margin_mps c) \<or> dle (oc_hard_overspeed_margin_mps c) (Fin 0) \<or>
     dlt mtc_max_hard_overspeed_margin_mps (oc_hard_overspeed_margin_mps c)"

definition speed_control_of :: "bridge_open_config_v4 \<Rightarrow> double \<Rightarrow> speed_control_settings" where
  "speed_control_of c rise_rate = \<lparr>sc_enabled = True, sc_hard_speed_limit_mps = oc_hard_speed_limit_mps c,
     sc_speed_feedback_timeout_ms = oc_speed_feedback_timeout_ms c, sc_pid = pid_of_open c,
     sc_hard_overspeed_margin_mps = oc_hard_overspeed_margin_mps c, sc_motor_torque_rise_rate = rise_rate\<rparr>"

definition api_open_v2 ::
  "'c chassis_control \<Rightarrow> open_resources \<Rightarrow> bridge_open_config_v4 option \<Rightarrow> 'c bridge_world \<Rightarrow> int \<times> 'c bridge_world" where
  "api_open_v2 CC io config w = (case config of
       None \<Rightarrow> (-1, w)
     | Some c \<Rightarrow>
         if open_config_invalid sizeof_open_config_v2 c then (-1, w)
         else open_bridge CC io (Some (oc_can_interface c)) (oc_full_scale_motor_torque_nm c) (oc_control_timeout_ms c)
                (speed_control_of c mtc_default_motor_torque_rise_rate) False (Fin 0) w)"

definition open_configured_bridge ::
  "'c chassis_control \<Rightarrow> open_resources \<Rightarrow> uint32 \<Rightarrow> bridge_open_config_v4 option \<Rightarrow> double \<Rightarrow> 'c bridge_world \<Rightarrow>
   int \<times> 'c bridge_world" where
  "open_configured_bridge CC io struct_size config rise_rate w = (case config of
       None \<Rightarrow> (-1, w)
     | Some c \<Rightarrow>
         if open_config_invalid struct_size c \<or>
            out_of_limit (oc_max_ordinary_brake_pressure_bar c) mtc_max_ordinary_brake_pressure_bar \<or>
            out_of_limit rise_rate mtc_max_motor_torque_rise_rate
         then (-1, w)
         else open_bridge CC io (Some (oc_can_interface c)) (oc_full_scale_motor_torque_nm c) (oc_control_timeout_ms c)
                (speed_control_of c rise_rate) True (oc_max_ordinary_brake_pressure_bar c) w)"

definition api_open_v3 ::
  "'c chassis_control \<Rightarrow> open_resources \<Rightarrow> bridge_open_config_v4 option \<Rightarrow> 'c bridge_world \<Rightarrow> int \<times> 'c bridge_world" where
  "api_open_v3 CC io config =
     open_configured_bridge CC io sizeof_open_config_v3 config mtc_default_motor_torque_rise_rate"

definition api_open_v4 ::
  "'c chassis_control \<Rightarrow> open_resources \<Rightarrow> bridge_open_config_v4 option \<Rightarrow> 'c bridge_world \<Rightarrow> int \<times> 'c bridge_world" where
  "api_open_v4 CC io config = open_configured_bridge CC io sizeof_open_config_v4 config
     (case config of None \<Rightarrow> NaN | Some c \<Rightarrow> oc_motor_torque_rise_rate_nm_per_s c)"

subsection \<open>Runtime profile\<close>

definition finish_runtime_control :: "int \<Rightarrow> uint32 \<Rightarrow> uint64 \<Rightarrow> int \<times> bridge_runtime_control_result_v1" where
  "finish_runtime_control code issue revision = (code, \<lparr>rr_struct_size = sizeof_runtime_result,
     rr_result_code = code, rr_issue_id = issue, rr_reserved = 0, rr_applied_revision = revision\<rparr>)"

definition runtime_control_result_code :: "uint32 \<Rightarrow> int" where
  "runtime_control_result_code issue =
     (if issue = runtime_issue_none then 0
      else if issue = runtime_issue_arguments_invalid then -1
      else if issue = runtime_issue_runtime_unavailable then -2 else -3)"

definition api_configure ::
  "(bridge_runtime_control_config_v3 \<Rightarrow> 'c bridge_runtime \<Rightarrow> (uint32 \<times> uint64) \<times> 'c bridge_runtime) \<Rightarrow>
   bridge_runtime_control_config_v3 option \<Rightarrow> 'c bridge_world \<Rightarrow>
   (int \<times> bridge_runtime_control_result_v1) \<times> 'c bridge_world" where
  "api_configure configure config w = (case (config, w) of
       (None, _) \<Rightarrow> (finish_runtime_control (-1) runtime_issue_arguments_invalid 0, w)
     | (Some _, Closed _) \<Rightarrow> (finish_runtime_control (-2) runtime_issue_runtime_unavailable 0, w)
     | (Some c, Open s) \<Rightarrow>
         (let ((issue, revision), s') = configure c s
          in (finish_runtime_control (runtime_control_result_code issue) issue
                (if issue = runtime_issue_none then revision else 0), Open s')))"

definition api_configure_v1 ::
  "int \<Rightarrow> bridge_runtime_control_config_v3 option \<Rightarrow> 'c bridge_world \<Rightarrow>
   (int \<times> bridge_runtime_control_result_v1) \<times> 'c bridge_world" where
  "api_configure_v1 now = api_configure (configure_runtime_control_v1 now)"

definition api_configure_v2 ::
  "int \<Rightarrow> bridge_runtime_control_config_v3 option \<Rightarrow> 'c bridge_world \<Rightarrow>
   (int \<times> bridge_runtime_control_result_v1) \<times> 'c bridge_world" where
  "api_configure_v2 now = api_configure (configure_runtime_control_v2 now)"

definition api_configure_v3 ::
  "int \<Rightarrow> bridge_runtime_control_config_v3 option \<Rightarrow> 'c bridge_world \<Rightarrow>
   (int \<times> bridge_runtime_control_result_v1) \<times> 'c bridge_world" where
  "api_configure_v3 now = api_configure (configure_runtime_control_v3 now)"

definition api_clear_runtime_control ::
  "'c bridge_world \<Rightarrow> (int \<times> bridge_runtime_control_result_v1) \<times> 'c bridge_world" where
  "api_clear_runtime_control w = (case w of
       Closed _ \<Rightarrow> (finish_runtime_control (-2) runtime_issue_runtime_unavailable 0, w)
     | Open s \<Rightarrow> (let (issue, s') = clear_runtime_control s
         in (finish_runtime_control (runtime_control_result_code issue) issue 0, Open s')))"

subsection \<open>Control\<close>

definition finish_apply :: "int \<Rightarrow> uint32 \<Rightarrow> int \<times> bridge_apply_result_v1" where
  "finish_apply code issue = (code, \<lparr>ar_struct_size = sizeof_apply_result, ar_result_code = code,
     ar_issue_id = issue, ar_reserved = 0\<rparr>)"

definition apply_arguments_invalid ::
  "int \<Rightarrow> double \<Rightarrow> double \<Rightarrow> double list option \<Rightarrow> int \<Rightarrow> int \<Rightarrow> bool" where
  "apply_arguments_invalid g vx ax steering count operator_active \<longleftrightarrow>
     (operator_active \<noteq> 0 \<and> operator_active \<noteq> 1) \<or> count < 0 \<or> g < 1 \<or> 4 < g \<or>
     \<not> isfinite vx \<or> dlt vx (dbl 0) \<or> dlt (dbl 20) vx \<or>
     \<not> isfinite ax \<or> dlt ax (dbl (- 1)) \<or> dlt (dbl 1) ax \<or>
     (case steering of None \<Rightarrow> True | Some vs \<Rightarrow> \<not> list_all isfinite (take (nat (min count 4)) vs))"

text \<open>The array behind the pointer has at least \<open>count\<close> values, as the C caller promises.\<close>

definition api_apply_state_v3 ::
  "int \<Rightarrow> int \<Rightarrow> double \<Rightarrow> double \<Rightarrow> double list option \<Rightarrow> int \<Rightarrow> int \<Rightarrow> 'c bridge_world \<Rightarrow>
   (int \<times> bridge_apply_result_v1) \<times> 'c bridge_world" where
  "api_apply_state_v3 now g vx ax steering count operator_active w = (case w of
       Closed _ \<Rightarrow> (finish_apply (-1) issue_runtime_unavailable, w)
     | Open s \<Rightarrow>
         if apply_arguments_invalid g vx ax steering count operator_active
         then (finish_apply (-1) issue_arguments_invalid, Open (fail_control_apply s))
         else if g = 4
         then (let (accepted, s') = bridge_request_park s
               in (finish_apply (if accepted then 0 else -3) (if accepted then issue_none else issue_generic_rejected), Open s'))
         else (let (issue, s') = store_intent now g vx ax
                     (case steering of None \<Rightarrow> [] | Some vs \<Rightarrow> take (nat count) vs) (operator_active \<noteq> 0) s
               in (finish_apply (if issue = issue_none then 0 else -3) issue, Open s')))"

definition api_apply_state_v2 ::
  "int \<Rightarrow> int \<Rightarrow> double \<Rightarrow> double \<Rightarrow> double list option \<Rightarrow> int \<Rightarrow> 'c bridge_world \<Rightarrow>
   (int \<times> bridge_apply_result_v1) \<times> 'c bridge_world" where
  "api_apply_state_v2 now g vx ax steering count = api_apply_state_v3 now g vx ax steering count 0"

definition api_apply_state ::
  "int \<Rightarrow> int \<Rightarrow> double \<Rightarrow> double \<Rightarrow> double list option \<Rightarrow> int \<Rightarrow> 'c bridge_world \<Rightarrow> int \<times> 'c bridge_world" where
  "api_apply_state now g vx ax steering count w =
     (let ((code, _), w') = api_apply_state_v2 now g vx ax steering count w in (code, w'))"

subsection \<open>Stops, handshake and feedback\<close>

text \<open>A flag operation of the runtime as an exported function: \<open>-1\<close> without a runtime, \<open>-2\<close> when refused.\<close>

definition api_flag :: "('c bridge_runtime \<Rightarrow> bool \<times> 'c bridge_runtime) \<Rightarrow> 'c bridge_world \<Rightarrow> int \<times> 'c bridge_world" where
  "api_flag f w = (case w of Closed _ \<Rightarrow> (-1, w)
     | Open s \<Rightarrow> (let (ok, s') = f s in (if ok then 0 else -2, Open s')))"

definition api_set_stop_context :: "bridge_stop_context_v1 option \<Rightarrow> 'c bridge_world \<Rightarrow> int \<times> 'c bridge_world" where
  "api_set_stop_context ctx w = (case ctx of None \<Rightarrow> (-1, w) | Some c \<Rightarrow> api_flag (set_stop_context c) w)"

definition api_emergency_stop :: "'c bridge_world \<Rightarrow> int \<times> 'c bridge_world" where
  "api_emergency_stop = api_flag bridge_emergency_stop"

definition api_request_parallel_handshake :: "int \<Rightarrow> 'c bridge_world \<Rightarrow> int \<times> 'c bridge_world" where
  "api_request_parallel_handshake now = api_flag (bridge_request_handshake now)"

definition api_disconnect_parallel_handshake :: "'c bridge_world \<Rightarrow> int \<times> 'c bridge_world" where
  "api_disconnect_parallel_handshake = api_flag bridge_request_park"

definition api_read_handshake_status :: "int \<Rightarrow> 'c bridge_world \<Rightarrow> int \<times> bridge_handshake_status option" where
  "api_read_handshake_status now w = (case w of Closed _ \<Rightarrow> (-1, None) | Open s \<Rightarrow> (0, Some (handshake_status now s)))"

definition api_update_feedback :: "int \<Rightarrow> bridge_feedback option \<Rightarrow> 'c bridge_world \<Rightarrow> int \<times> 'c bridge_world" where
  "api_update_feedback now f w = (case (f, w) of
       (Some f, Open s) \<Rightarrow> (0, Open (inject now f s)) | _ \<Rightarrow> (-1, w))"

definition api_poll_feedback :: "'c bridge_world \<Rightarrow> (int \<times> bridge_feedback option) \<times> 'c bridge_world" where
  "api_poll_feedback w = (case w of Closed _ \<Rightarrow> ((-1, None), w)
     | Open s \<Rightarrow> (let ((code, f), s') = poll s in ((code, Some f), Open s')))"

definition api_read_telemetry :: "'c bridge_world \<Rightarrow> int \<times> bridge_telemetry option" where
  "api_read_telemetry w = (case w of Closed _ \<Rightarrow> (-1, None) | Open s \<Rightarrow> (0, Some (b_telemetry s)))"

definition api_read_can_feedback_v1 :: "int \<Rightarrow> 'c bridge_world \<Rightarrow> int \<times> bridge_can_feedback_v1 option" where
  "api_read_can_feedback_v1 now w = (case w of Closed _ \<Rightarrow> (-1, None) | Open s \<Rightarrow> (0, Some (can_feedback_v1 now s)))"

text \<open>\<open>close\<close> takes the runtime out of \<open>g_runtime\<close>; its loop runs on, alone, until the disarming ends.\<close>

definition api_close :: "'c chassis_control \<Rightarrow> ((int \<times> receive_outcome list \<times> bool) list) \<Rightarrow> 'c bridge_world \<Rightarrow> int \<times> 'c bridge_world" where
  "api_close CC cycles w = (case w of Closed _ \<Rightarrow> (0, w)
     | Open s \<Rightarrow> (0, Closed (b_chassis (close_end (foldl
         (\<lambda>s (now, rx, sent). if b_running s then sent_frames sent (snd (control_cycle CC now (drain_bus rx s))) else s)
         (close_begin s) cycles)))))"

end
