(* ===== verification/Speed_Limits.thy ===== *)
theory Speed_Limits
  imports Speed_Pid Vcu_Signals
begin

text \<open>
  What the numeric routines of the bridge guarantee: the PID stays within its ceiling in every
  run, the torque within the limit and the rise rate, and quantisation to the step of the bus
  signal goes toward zero, up to the rounding of the intermediate doubles.
\<close>

subsection \<open>Speed PID\<close>

text \<open>A finite double of at most \<open>b\<close> in magnitude, and rounding below such a bound.\<close>

definition within_bound :: "rat \<Rightarrow> double \<Rightarrow> bool" where
  "within_bound b x \<longleftrightarrow> (\<exists>q. x = Fin q \<and> \<bar>q\<bar> \<le> b)"

lemma round_within:
  assumes "\<bar>n\<bar> \<le> 2 ^ 53" "\<bar>x\<bar> \<le> of_int n"
  shows "within_bound (of_int n) (round64 x)"
proof -
  have "is_double (Fin (- of_int n))" "is_double (Fin (of_int n))"
    using is_double_of_int[of n] is_double_of_int[of "- n"] assms(1) by simp_all
  from round64_between[OF this, of x] show ?thesis using assms(2) unfolding within_bound_def by fastforce
qed

lemma within_sum:
  assumes "within_bound a x" "within_bound b y" "a + b \<le> of_int n" "\<bar>n\<bar> \<le> 2 ^ 53"
  shows "within_bound (of_int n) (dadd x y)" "within_bound (of_int n) (dsub x y)"
  using assms by (auto simp: within_bound_def[of a] within_bound_def[of b] dsub_def intro!: round_within)

lemma within_product:
  assumes "within_bound a x" "within_bound b y" "a * b \<le> of_int n" "\<bar>n\<bar> \<le> 2 ^ 53"
  shows "within_bound (of_int n) (dmul x y)"
proof -
  obtain p q where pq: "x = Fin p" "\<bar>p\<bar> \<le> a" "y = Fin q" "\<bar>q\<bar> \<le> b" using assms(1,2) by (auto simp: within_bound_def)
  then have "\<bar>p * q\<bar> \<le> a * b" unfolding abs_mult by (intro mult_mono) auto
  then show ?thesis using pq assms(3,4) by (auto intro!: round_within)
qed

lemma clamped_unit:
  assumes "within_bound b x" "0 \<le> h" "h \<le> 1"
  shows "\<exists>q. clamp_between x (Fin h) = Fin q \<and> 0 \<le> q \<and> q \<le> h"
  using assms by (auto simp: within_bound_def clamp_between_def Let_def)

lemma ulp64_small:
  assumes "\<bar>x\<bar> \<le> 2 ^ 33"
  shows "ulp64 x \<le> 1"
proof (cases "x = 0")
  case True
  have "ulp64 0 \<le> 1" by code_simp
  then show ?thesis using True by simp
next
  case False
  have "(2::rat) powi (-1022) \<le> 2 powi 0" by (rule two_powi_mono) simp
  then have "ulp64 (2 ^ 33) \<le> 1" using ulp64_le[of "2 ^ 33"] by simp
  moreover have "ulp64 x \<le> ulp64 (2 ^ 33)"
    using ilog2_mono[of "\<bar>x\<bar>" "2 ^ 33"] False assms unfolding ulp64_def by (intro two_powi_mono) auto
  ultimately show ?thesis by simp
qed

lemma rnd64_near: "\<bar>x\<bar> \<le> 2 ^ 33 \<Longrightarrow> \<bar>rnd64 x - x\<bar> \<le> 1"
  using rnd64_error[of x] ulp64_small[of x] by linarith

text \<open>
  The low-pass filter moves its state toward the input by a share of at most one: rounding does
  not let the state grow beyond its bound.
\<close>

lemma filter_within:
  assumes "\<bar>f\<bar> \<le> 2 ^ 32" "\<bar>r\<bar> \<le> 2 ^ 31" "0 \<le> a" "a \<le> 1"
  shows "within_bound (2 ^ 32) (dadd (Fin f) (dmul (Fin a) (dsub (Fin r) (Fin f))))"
proof -
  define d where "d = rnd64 (r - f)"
  define p where "p = rnd64 (a * d)"
  have B: "is_double (Fin (2 ^ 33))" "is_double (Fin (- (2 ^ 33)))" "is_double (Fin (2 ^ 32))" "is_double (Fin (- (2 ^ 32)))"
    using is_double_of_int[of "2 ^ 33"] is_double_of_int[of "- (2 ^ 33)"] is_double_of_int[of "2 ^ 32"]
      is_double_of_int[of "- (2 ^ 32)"] by simp_all
  have "- (2 ^ 33) \<le> r - f" "r - f \<le> 2 ^ 33" using assms(1,2) by (simp_all add: abs_le_iff)
  from round64_between[OF B(2,1) this] have d: "round64 (r - f) = Fin d" "- (2 ^ 33) \<le> d" "d \<le> 2 ^ 33"
    unfolding d_def .
  have dnear: "\<bar>d - (r - f)\<bar> \<le> 1" unfolding d_def using assms(1,2) by (intro rnd64_near) (simp add: abs_le_iff)
  have ad: "\<bar>a * d\<bar> \<le> \<bar>d\<bar>" using assms(3,4) by (simp add: abs_mult mult_left_le_one_le)
  then have bounds: "- (2 ^ 33) \<le> a * d" "a * d \<le> 2 ^ 33" using d(2,3) by linarith+
  have p: "round64 (a * d) = Fin p" using round64_between(1)[OF B(2,1) bounds] by (simp add: p_def)
  have pnear: "\<bar>p - a * d\<bar> \<le> 1" unfolding p_def using bounds by (intro rnd64_near) linarith
  have sign: "0 \<le> d \<Longrightarrow> 0 \<le> p" "d \<le> 0 \<Longrightarrow> p \<le> 0"
    using rnd64_mono[of 0 "a * d"] rnd64_mono[of "a * d" 0] assms(3) by (simp_all add: p_def mult_nonneg_nonpos)
  have "- (2 ^ 32) \<le> f + p \<and> f + p \<le> 2 ^ 32"
    using sign ad dnear pnear assms(1,2) by (cases "0 \<le> d") (simp_all, linarith+)
  then have "within_bound (of_int (2 ^ 32)) (round64 (f + p))" by (intro round_within) auto
  moreover have "dsub (Fin r) (Fin f) = Fin d" using d(1) by (simp add: dsub_def)
  ultimately show ?thesis using p by simp
qed

text \<open>
  Speeds of at most 1024 m/s and, when it is positive, a time step of at least 2^-20 s (about a
  microsecond): with these the derivative stays finite.
\<close>

definition pid_input_sane :: "speed_pid_config \<times> double \<times> double \<times> double \<times> double \<Rightarrow> bool" where
  "pid_input_sane = (\<lambda>(c, target, measured, ceiling_in, dt).
     (isfinite target \<longrightarrow> within_bound 1024 target) \<and> (isfinite measured \<longrightarrow> within_bound 1024 measured) \<and>
     is_double dt \<and> (dlt (Fin 0) dt \<longrightarrow> \<not> dlt dt (Fin (1 / 2 ^ 20))))"

definition pid_state_sane :: "speed_pid_state \<Rightarrow> bool" where
  "pid_state_sane s \<longleftrightarrow> (\<exists>i. pid_integral s = Fin i \<and> 0 \<le> i \<and> i \<le> 1) \<and> within_bound (2 ^ 32) (pid_filtered_measurement_derivative s) \<and>
     within_bound 1024 (pid_previous_measurement s)"

lemma pid_dt_bounds:
  assumes "pid_step_ok c s target measured ceiling_in dt" "pid_input_sane (c, target, measured, ceiling_in, dt)"
  obtains q where "dt = Fin q" "1 / 2 ^ 20 \<le> q" "q \<le> 1" "is_double (Fin q)"
proof -
  obtain q where q: "dt = Fin q" "0 < q" using assms(1) by (auto simp: pid_step_ok_def isfinite_conv)
  have "q \<le> 1"
  proof (rule ccontr)
    assume "\<not> q \<le> 1"
    then have "\<not> dlt (round64 (q * 1000)) (Fin 1000)" using is_double_of_int[of 1000] by (intro round64_not_below) simp_all
    moreover have "\<not> dlt (Fin 200) (round64 (q * 1000))"
    proof -
      have "pid_max_dt_ms c \<le> 200" "20 \<le> pid_max_dt_ms c"
        using assms(1) by (auto simp: pid_step_ok_def speed_pid_config_is_valid_def mtc_limits
          mtc_min_speed_pid_max_dt_ms_def mtc_max_speed_pid_max_dt_ms_def)
      then have "double_of_int (pid_max_dt_ms c) = Fin (of_int (pid_max_dt_ms c))"
        using dbl_of_int[of "pid_max_dt_ms c"] by (simp add: double_of_int_def)
      then show ?thesis using assms(1) q \<open>pid_max_dt_ms c \<le> 200\<close> dbl_of_int[of 1000]
        by (cases "round64 (q * 1000)") (auto simp: pid_step_ok_def)
    qed
    moreover have "round64 (q * 1000) \<noteq> NaN" by (simp add: round64_def Let_def)
    ultimately show False by (cases "round64 (q * 1000)") auto
  qed
  then show thesis using that q assms(2) by (auto simp: pid_input_sane_def)
qed

lemma pid_filtered_within:
  assumes "pid_step_ok c s target measured ceiling_in dt" "pid_input_sane (c, target, measured, ceiling_in, dt)"
    "pid_state_sane s"
  shows "within_bound (2 ^ 32) (pid_filtered c s measured dt)"
proof -
  obtain q where q: "dt = Fin q" "1 / 2 ^ 20 \<le> q" "q \<le> 1" "is_double (Fin q)" using pid_dt_bounds[OF assms(1,2)] .
  obtain f where f: "pid_filtered_measurement_derivative s = Fin f" "\<bar>f\<bar> \<le> 2 ^ 32"
    using assms(3) by (auto simp: pid_state_sane_def within_bound_def)
  have "isfinite measured" using assms(1) by (simp add: pid_step_ok_def)
  then have "within_bound 1024 measured" "within_bound 1024 (pid_previous_measurement s)"
    using assms(2,3) by (simp_all add: pid_input_sane_def pid_state_sane_def)
  from within_sum(2)[OF this, of 2048] obtain m where m: "dsub measured (pid_previous_measurement s) = Fin m" "\<bar>m\<bar> \<le> 2048"
    by (auto simp: within_bound_def)
  have "\<bar>m / q\<bar> \<le> 2048 / (1 / 2 ^ 20)"
    unfolding abs_divide using m(2) q(2) by (intro frac_le) auto
  then have "within_bound (of_int (2 ^ 31)) (round64 (m / q))" by (intro round_within) auto
  then obtain r where r: "ddiv (Fin m) (Fin q) = Fin r" "\<bar>r\<bar> \<le> 2 ^ 31"
    using q(2) by (auto simp: within_bound_def)
  obtain t where t: "ddiv (pid_derivative_filter_tau_ms c) (Fin 1000) = Fin t" "0 \<le> t" "t \<le> 2"
  proof -
    obtain x where "pid_derivative_filter_tau_ms c = Fin x" "0 \<le> x" "x \<le> 2000"
      using assms(1) by (auto simp: pid_step_ok_def speed_pid_config_is_valid_def mtc_limits isfinite_conv)
    then show thesis using that round64_between[of 0 2 "x / 1000"] is_double_of_int[of 0] is_double_of_int[of 2] by simp
  qed
  obtain a where a: "(if dle (Fin t) (Fin 0) then Fin 1 else ddiv dt (dadd (Fin t) dt)) = Fin a" "0 \<le> a" "a \<le> 1"
  proof (cases "t \<le> 0")
    case True
    then show thesis using that[of 1] by simp
  next
    case False
    have "q \<le> t + q" "t + q \<le> 3" using t q(3) by simp_all
    from round64_between[OF q(4) _ this] obtain w where w: "dadd (Fin t) (Fin q) = Fin w" "q \<le> w"
      using is_double_of_int[of 3] by auto
    have "0 \<le> q / w" "q / w \<le> 1" using q(2) w(2) by simp_all
    then show thesis using that w q(1,2) False round64_between[of 0 1 "q / w"] is_double_of_int[of 0] is_double_of_int[of 1]
      by auto
  qed
  have k: "dbl 1000 = Fin 1000" "dbl 0 = Fin 0" "dbl 1 = Fin 1" using dbl_of_int[of 1000] by simp_all
  have "ddiv (dsub measured (pid_previous_measurement s)) dt = Fin r" unfolding m(1) q(1) by (rule r(1))
  then have "pid_filtered c s measured dt = dadd (Fin f) (dmul (Fin a) (dsub (Fin r) (Fin f)))"
    unfolding pid_filtered_def Let_def k t(1) f(1) a(1) by simp
  then show ?thesis using filter_within[OF f(2) r(2) a(2,3)] by simp
qed

lemma pid_command_within:
  assumes "pid_step_ok c s target measured ceiling_in dt" "pid_input_sane (c, target, measured, ceiling_in, dt)"
    "within_bound 1 i" "within_bound (2 ^ 32) g"
  shows "within_bound (2 ^ 40) (pid_unclamped c (dsub target measured) i g)"
    "within_bound (2 ^ 20) (dadd i (dmul (dmul (pid_ki c) (dsub target measured)) dt))"
proof -
  have "within_bound 1024 target" "within_bound 1024 measured"
    using assms(1,2) by (auto simp: pid_step_ok_def pid_input_sane_def)
  from within_sum(2)[OF this, of 2048] have error: "within_bound 2048 (dsub target measured)" by simp
  have gain: "within_bound 100 (pid_kp c)" "within_bound 100 (pid_ki c)" "within_bound 100 (pid_kd c)"
    using assms(1) by (auto simp: pid_step_ok_def speed_pid_config_is_valid_def mtc_limits isfinite_conv within_bound_def)
  obtain q where q: "dt = Fin q" "1 / 2 ^ 20 \<le> q" "q \<le> 1" using pid_dt_bounds[OF assms(1,2)] .
  have dt: "within_bound 1 dt" using q by (auto simp: within_bound_def)
  have "within_bound 204800 (dmul (pid_kp c) (dsub target measured))"
    using within_product[OF gain(1) error, of 204800] by simp
  from within_sum(1)[OF this assms(3), of 204801] have p: "within_bound 204801 (dadd (dmul (pid_kp c) (dsub target measured)) i)"
    by simp
  have "within_bound 429496729600 (dmul (pid_kd c) g)" using within_product[OF gain(3) assms(4), of 429496729600] by simp
  from within_sum(2)[OF p this, of "2 ^ 40"] show "within_bound (2 ^ 40) (pid_unclamped c (dsub target measured) i g)"
    by (simp add: pid_unclamped_def)
  have "within_bound 204800 (dmul (pid_ki c) (dsub target measured))"
    using within_product[OF gain(2) error, of 204800] by simp
  from within_product[OF this dt, of 204800] have "within_bound 204800 (dmul (dmul (pid_ki c) (dsub target measured)) dt)"
    by simp
  from within_sum(1)[OF assms(3) this, of "2 ^ 20"] show
    "within_bound (2 ^ 20) (dadd i (dmul (dmul (pid_ki c) (dsub target measured)) dt))" by simp
qed

lemma pid_step_within:
  assumes "pid_step_ok c s target measured ceiling_in dt" "pid_input_sane (c, target, measured, ceiling_in, dt)"
    "pid_state_sane s"
  shows "\<exists>h x. ceiling_in = Fin h \<and> fst (speed_pid_step c target measured ceiling_in dt s) = Fin x \<and> 0 \<le> x \<and> x \<le> 1 \<and> x \<le> h"
    "pid_state_sane (snd (speed_pid_step c target measured ceiling_in dt s))"
proof -
  obtain y where y: "ceiling_in = Fin y" "0 < y" using assms(1) by (auto simp: pid_step_ok_def isfinite_conv)
  define h where "h = min y 1"
  have top: "(if dlt (dbl 1) ceiling_in then dbl 1 else ceiling_in) = Fin h" and h: "0 \<le> h" "h \<le> 1" "h \<le> y"
    using y by (auto simp: h_def)
  define filtered where "filtered = (if pid_initialized s then pid_filtered c s measured dt else pid_filtered_measurement_derivative s)"
  define g where "g = (if pid_initialized s then filtered else dbl 0)"
  define i where "i = clamp_between (pid_integral s) (Fin h)"
  have filtered: "within_bound (2 ^ 32) filtered"
    using pid_filtered_within[OF assms] assms(3) by (simp add: filtered_def pid_state_sane_def)
  then have g: "within_bound (2 ^ 32) g" by (simp add: g_def within_bound_def)
  have unit: "\<exists>i. clamp_between x (Fin h) = Fin i \<and> 0 \<le> i \<and> i \<le> 1" if "within_bound b x" for b x
    using clamped_unit[OF that h(1,2)] h(2) by fastforce
  have "within_bound 1 (pid_integral s)" using assms(3) by (auto simp: pid_state_sane_def within_bound_def)
  from unit[OF this] have i: "\<exists>x. i = Fin x \<and> 0 \<le> x \<and> x \<le> 1" "within_bound 1 i"
    unfolding i_def by (auto simp: within_bound_def)
  define i' where "i' = pid_integral (snd (speed_pid_step c target measured ceiling_in dt s))"
  have "i' = i \<or> i' = clamp_between (dadd i (dmul (dmul (pid_ki c) (dsub target measured)) dt)) (Fin h)"
    using assms(1) unfolding i'_def speed_pid_step_def Let_def top i_def by simp
  then have i': "\<exists>x. i' = Fin x \<and> 0 \<le> x \<and> x \<le> 1" "within_bound 1 i'"
    using i(1) unit[OF pid_command_within(2)[OF assms(1,2) i(2) g]] by (auto simp: within_bound_def)
  have out: "fst (speed_pid_step c target measured ceiling_in dt s) =
      clamp_between (pid_unclamped c (dsub target measured) i' g) (Fin h)"
    using assms(1) unfolding i'_def speed_pid_step_def Let_def top g_def filtered_def by simp
  obtain x where "clamp_between (pid_unclamped c (dsub target measured) i' g) (Fin h) = Fin x" "0 \<le> x" "x \<le> h"
    using clamped_unit[OF pid_command_within(1)[OF assms(1,2) i'(2) g] h(1,2)] by auto
  then show "\<exists>h x. ceiling_in = Fin h \<and> fst (speed_pid_step c target measured ceiling_in dt s) = Fin x \<and> 0 \<le> x \<and> x \<le> 1 \<and> x \<le> h"
    using out y h by auto
  have rest: "pid_filtered_measurement_derivative (snd (speed_pid_step c target measured ceiling_in dt s)) = filtered"
    "pid_previous_measurement (snd (speed_pid_step c target measured ceiling_in dt s)) = measured"
    using assms(1) unfolding speed_pid_step_def Let_def filtered_def by simp_all
  have "within_bound 1024 measured" using assms(1,2) by (auto simp: pid_step_ok_def pid_input_sane_def)
  then show "pid_state_sane (snd (speed_pid_step c target measured ceiling_in dt s))"
    using i'(1) filtered rest by (simp add: pid_state_sane_def i'_def)
qed

text \<open>Runs of the controller: one step per input, the configuration may change at any time.\<close>

definition pid_event :: "speed_pid_config \<times> double \<times> double \<times> double \<times> double \<Rightarrow> speed_pid_state \<Rightarrow> double \<times> speed_pid_state" where
  "pid_event = (\<lambda>(c, target, measured, ceiling_in, dt) s. speed_pid_step c target measured ceiling_in dt s)"

definition pid_output_ok :: "speed_pid_config \<times> double \<times> double \<times> double \<times> double \<Rightarrow> double \<Rightarrow> bool" where
  "pid_output_ok = (\<lambda>(c, target, measured, ceiling_in, dt) out.
     out = Fin 0 \<or> (\<exists>h x. ceiling_in = Fin h \<and> out = Fin x \<and> 0 \<le> x \<and> x \<le> 1 \<and> x \<le> h))"

lemma pid_refused: "\<not> pid_step_ok c s target measured ceiling_in dt \<Longrightarrow>
    speed_pid_step c target measured ceiling_in dt s = (Fin 0, speed_pid_reset)"
  by (simp add: speed_pid_step_def)

lemma reset_sane: "pid_state_sane speed_pid_reset"
  by (simp add: pid_state_sane_def speed_pid_reset_def within_bound_def)

interpretation pid: machine pid_event pid_state_sane pid_input_sane pid_output_ok
proof
  fix s e assume e: "pid_state_sane s" "pid_input_sane e"
  obtain c target measured ceiling_in dt where ev: "e = (c, target, measured, ceiling_in, dt)" by (cases e) auto
  show "pid_state_sane (snd (pid_event e s))" "pid_output_ok e (fst (pid_event e s))"
    using e pid_step_within[of c s target measured ceiling_in dt] pid_refused[of c s target measured ceiling_in dt] reset_sane
    unfolding ev pid_event_def pid_output_ok_def by (cases "pid_step_ok c s target measured ceiling_in dt"; simp)+
qed

text \<open>
  C30. The speed PID is bounded: in every run from its reset state, whatever the configurations
  and inputs - invalid ones, NaN and the infinities included - every output is a number, zero or
  between zero and the smaller of one and the reachable ceiling, and the stored integral stays
  between zero and one. Assumed are speeds of at most 1024 m/s and time steps of at least a
  microsecond where these are finite and positive: beyond, the derivative may overflow, and an
  infinite derivative times a zero gain is NaN.
\<close>

theorem pid_bounded:
  assumes "list_all pid_input_sane es"
  shows "list_all2 pid_output_ok es (fst (run pid_event es speed_pid_reset)) \<and>
    (\<exists>i. pid_integral (snd (run pid_event es speed_pid_reset)) = Fin i \<and> 0 \<le> i \<and> i \<le> 1)"
  using pid.run_good[OF reset_sane assms] pid.run_inv[OF reset_sane assms]
  by (simp add: pid_state_sane_def)

text \<open>Two steps: a first measurement, then one 31 ms later.\<close>

definition demo_pid :: speed_pid_config where
  "demo_pid = \<lparr>pid_kp = Fin 1, pid_ki = Fin (1 / 2), pid_kd = Fin 0, pid_derivative_filter_tau_ms = Fin 100,
     pid_max_dt_ms = 100\<rparr>"

theorem pid_bounded_witness:
  "list_all2 pid_output_ok (replicate 2 (demo_pid, Fin 5, Fin 4, Fin (1 / 2), Fin (1 / 32)))
     (fst (run pid_event (replicate 2 (demo_pid, Fin 5, Fin 4, Fin (1 / 2), Fin (1 / 32))) speed_pid_reset))"
proof -
  have "is_double (Fin (1 / 32))" by (rule is_double_eval; code_simp)
  then have "list_all pid_input_sane (replicate 2 (demo_pid, Fin 5, Fin 4, Fin (1 / 2), Fin (1 / 32)))"
    by (simp add: pid_input_sane_def within_bound_def eval_nat_numeral)
  then show ?thesis by (rule pid_bounded[THEN conjunct1])
qed

subsection \<open>Torque limits\<close>

text \<open>A product with a factor of at most one does not exceed a representable bound.\<close>

lemma dmul_fraction:
  assumes "is_double (Fin l)" "0 < l" "0 < n" "n \<le> 1"
  shows "\<exists>x. dmul (Fin n) (Fin l) = Fin x \<and> 0 \<le> x \<and> x \<le> l"
proof -
  have "n * l \<le> l" using assms by (simp add: mult_left_le_one_le)
  then show ?thesis using assms round64_between[of 0 l "n * l"] by auto
qed

lemma bounded_torque:
  assumes "is_double limit"
  shows "bounded_motor_torque_nm n limit = Fin 0 \<or>
    (\<exists>x l. limit = Fin l \<and> bounded_motor_torque_nm n limit = Fin x \<and> 0 \<le> x \<and> x \<le> l \<and> x \<le> 640)"
proof (cases "isfinite n \<and> isfinite limit \<and> dlt (Fin 0) n \<and> dlt (Fin 0) limit")
  case True
  then obtain m l where ml: "n = Fin m" "limit = Fin l" "0 < m" "0 < l" by (auto simp: isfinite_conv)
  define l' where "l' = (if 640 < l then 640 else l)"
  have l': "is_double (Fin l')" "0 < l'" "l' \<le> l" "l' \<le> 640"
    using assms ml is_double_of_int[of 640] by (auto simp: l'_def)
  have "bounded_motor_torque_nm n limit = dmul (Fin (if m < 1 then m else 1)) (Fin l')"
    using ml l' by (auto simp: bounded_motor_torque_nm_def mtc_limits l'_def Let_def)
  then show ?thesis using dmul_fraction[OF l'(1,2), of "if m < 1 then m else 1"] ml l' by fastforce
next
  case False
  then show ?thesis by (auto simp: bounded_motor_torque_nm_def)
qed

lemma rise_limited:
  assumes "dlt (Fin 0) (rise_limited_motor_torque_nm before target rate dt)"
  shows "isfinite target \<and> dle (rise_limited_motor_torque_nm before target rate dt) target \<and>
    (dle (rise_limited_motor_torque_nm before target rate dt) before \<or> deq rate (Fin 0) \<or>
     dle (rise_limited_motor_torque_nm before target rate dt) (dadd before (dmul rate dt)))"
proof -
  obtain b t where b: "before = Fin b" and t: "target = Fin t" and bt: "0 \<le> b" "0 < t"
    using assms by (auto simp: rise_limited_motor_torque_nm_def isfinite_conv split: if_splits)
  consider (same) "t \<le> b \<or> deq rate (Fin 0)" | (rise) "\<not> t \<le> b" "\<not> deq rate (Fin 0)" by blast
  then show ?thesis
  proof cases
    case same
    then show ?thesis using b t bt by (auto simp: rise_limited_motor_torque_nm_def)
  next
    case rise
    then have r: "rise_limited_motor_torque_nm before target rate dt = dfmin target (dadd before (dmul rate dt))"
      "isfinite rate" "isfinite dt" "\<not> dlt rate (Fin 0)" "\<not> dle dt (Fin 0)"
      using assms b t bt by (auto simp: rise_limited_motor_torque_nm_def split: if_splits)
    then obtain x y where xy: "rate = Fin x" "dt = Fin y" "0 \<le> x" "0 < y" by (auto simp: isfinite_conv)
    have "dadd before (dmul rate dt) \<noteq> NaN"
      using xy b by (cases "round64 (x * y)") (auto simp: round64_def Let_def split: if_splits)
    then show ?thesis using r t by (cases "dadd before (dmul rate dt)") (auto simp: dfmin_def dle_def)
  qed
qed

subsection \<open>Quantisation\<close>

text \<open>The double of 0.1 is slightly above it.\<close>

abbreviation tenth :: rat where
  "tenth \<equiv> 3602879701896397 / 36028797018963968"

lemma ulp64_unit:
  assumes "0 \<le> x" "x \<le> 2 ^ 16"
  shows "ulp64 x \<le> 1 / 2 ^ 36"
proof (cases "x = 0")
  case True
  have "ulp64 0 \<le> 1 / 2 ^ 36" by code_simp
  then show ?thesis using True by simp
next
  case False
  have "(2::rat) powi (-1022) \<le> 2 powi 0" by (rule two_powi_mono) simp
  then have "ulp64 (2 ^ 16) \<le> 1 / 2 ^ 36" using ulp64_le[of "2 ^ 16"] by simp
  moreover have "ulp64 x \<le> ulp64 (2 ^ 16)"
    using ilog2_mono[of "\<bar>x\<bar>" "2 ^ 16"] False assms unfolding ulp64_def by (intro two_powi_mono) auto
  ultimately show ?thesis by simp
qed

text \<open>The quotient the functions take the floor of: at most one step below, hardly above.\<close>

lemma floor_next:
  assumes "0 < x" "x \<le> 4096"
  obtains k where "dfloor (nextafter_max (ddiv (Fin x) (Fin tenth))) = Fin (of_int k)" "0 \<le> k"
    "of_int k \<le> x / tenth + 1 / 2 ^ 35" "x / tenth < of_int k + 1 + 1 / 2 ^ 35"
proof -
  define v where "v = x / tenth"
  define q where "q = rnd64 v"
  have xt: "0 < v" "v \<le> 2 ^ 16" using assms by (simp_all add: v_def)
  have "is_double (Fin (2 ^ 16))" using is_double_of_int[of "2 ^ 16"] by simp
  then have q: "round64 (v) = Fin q" "0 \<le> q" "q \<le> 2 ^ 16"
    using round64_between[of 0 "2 ^ 16" "v"] xt by (simp_all add: q_def)
  have qe: "\<bar>q - v\<bar> \<le> ulp64 (v) / 2" unfolding q_def by (rule rnd64_error)
  have u: "ulp64 (v) \<le> 1 / 2 ^ 36" "0 < ulp64 q" "ulp64 q \<le> 1 / 2 ^ 36"
    using xt q ulp64_unit[of "v"] ulp64_unit[of q] by simp_all
  have "(2::rat) ^ 16 < dbl_max" by code_simp
  then have "nextafter_max (Fin q) = Fin (q + ulp64 q)" using q by simp
  then have shape: "dfloor (nextafter_max (ddiv (Fin x) (Fin tenth))) = Fin (of_int \<lfloor>q + ulp64 q\<rfloor>)"
    "0 \<le> \<lfloor>q + ulp64 q\<rfloor>"
    using q u by (simp_all add: v_def)
  have twice: "1 / 2 ^ 35 = 2 * (1 / 2 ^ 36 :: rat)" by simp
  define F :: rat where "F = of_int \<lfloor>q + ulp64 q\<rfloor>"
  have fl: "F \<le> q + ulp64 q" "q + ulp64 q < F + 1"
    using floor_correct[of "q + ulp64 q"] by (simp_all add: F_def)
  have "F \<le> v + 1 / 2 ^ 35" "v < F + 1 + 1 / 2 ^ 35"
    using fl u qe[unfolded abs_le_iff, THEN conjunct1] qe[unfolded abs_le_iff, THEN conjunct2] unfolding twice
    by linarith+
  with shape show ?thesis using that unfolding v_def F_def by blast
qed

text \<open>A multiple of the step, and what the signal of the bus carries for it.\<close>

lemma steps_product:
  assumes "0 \<le> k" "k \<le> 2 ^ 16"
  obtains y where "dmul (Fin (of_int k)) (Fin tenth) = Fin y" "0 \<le> y" "\<bar>y - of_int k * tenth\<bar> \<le> 1 / 2 ^ 38"
proof -
  have k: "0 \<le> of_int k * tenth" "of_int k * tenth \<le> 2 ^ 13"
    using assms by simp_all
  have "is_double (Fin (2 ^ 13))" using is_double_of_int[of "2 ^ 13"] by simp
  then have "round64 (of_int k * tenth) = Fin (rnd64 (of_int k * tenth))" "0 \<le> rnd64 (of_int k * tenth)"
    using round64_between[of 0 "2 ^ 13" "of_int k * tenth"] k by simp_all
  moreover have "\<bar>rnd64 (of_int k * tenth) - of_int k * tenth\<bar> \<le> 1 / 2 ^ 38"
    using rnd64_abs_error[of "of_int k * tenth" "2 ^ 13"] k by simp
  ultimately show ?thesis using that by simp
qed

lemma encode_steps:
  assumes "\<bar>k\<bar> \<le> 32000" "\<bar>y - of_int k * tenth\<bar> \<le> 1 / 2 ^ 38" "- 3200 \<le> y" "y \<le> 6707 / 2"
  shows "encode_torque (Fin y) = word_of_int (32000 + k)"
proof -
  have step: "1 / 16 \<le> tenth" "tenth \<le> 1" "6707 / 2 - - 3200 \<le> (2 :: rat) ^ 13"
    "(6707 / 2 - - 3200) / tenth + 1 / 2 + 1 / 2 ^ 30 \<le> 2 ^ 16" "16 \<le> (16 :: nat)" by simp_all
  obtain n where n: "encode_physical (Fin y) (Fin tenth) (Fin (- 3200)) 16 (Fin (- 3200)) (Fin (6707 / 2)) = word_of_int n"
    and err: "\<bar>of_int n * tenth + - 3200 - y\<bar> \<le> tenth / 2 + 1 / 2 ^ 35"
    using encode_physical_nearest[OF step(1,2) assms(3,4) step(3-5)] by blast
  have small: "1 / 2 ^ 35 \<le> (1 / 1000 :: rat)" "1 / 2 ^ 38 \<le> (1 / 1000 :: rat)" by simp_all
  have eq: "of_int (n - 32000 - k) * tenth = of_int n * tenth - 32000 * tenth - of_int k * tenth"
    by (simp only: of_int_diff left_diff_distrib of_int_numeral)
  have "\<bar>of_int (n - 32000 - k) * tenth\<bar> < tenth"
    using err assms(2) small unfolding eq abs_le_iff abs_less_iff by (elim conjE, intro conjI; linarith)
  then have "\<bar>of_int (n - 32000 - k) :: rat\<bar> < 1" by simp
  then have "n = 32000 + k" by linarith
  then show ?thesis
    using n by (simp add: encode_torque_def kMotorTorqueResolutionNm_def kMotorTorqueMinimumNm_def
        kMotorTorqueMaximumNm_def kMotorTorqueBits_def)
qed

text \<open>The torque of a motor frame as signed multiples of 0.1 Nm.\<close>

definition torque_steps :: "uint64 \<Rightarrow> int" where
  "torque_steps raw = uint raw - 32000"

lemma directional_steps:
  assumes "0 < x" "x \<le> 3000" "g = 2 \<or> g = 3"
  obtains k where "encode_torque (directional_motor_torque_nm g (Fin x)) = word_of_int (32000 + (if g = 3 then k else - k))"
    "0 \<le> k" "k \<le> 32000" "of_int k \<le> x / tenth + 1 / 2 ^ 35" "x / tenth < of_int k + 1 + 1 / 2 ^ 35"
proof -
  obtain k where k: "dfloor (nextafter_max (ddiv (Fin x) (Fin tenth))) = Fin (of_int k)" "0 \<le> k"
    "of_int k \<le> x / tenth + 1 / 2 ^ 35" "x / tenth < of_int k + 1 + 1 / 2 ^ 35"
    using floor_next[of x] assms by auto
  have kr: "of_int k < (30001 :: rat)" using k(3) assms(2) by simp
  then have k1: "k \<le> 30000" by linarith
  obtain y where y: "dmul (Fin (of_int k)) (Fin tenth) = Fin y" "0 \<le> y" "\<bar>y - of_int k * tenth\<bar> \<le> 1 / 2 ^ 38"
    using steps_product[of k] k(2) k1 by auto
  have "y < 3001" using y(3) kr unfolding abs_le_iff by simp
  then have "directional_motor_torque_nm g (Fin x) = Fin (if g = 3 then y else - y)"
    using assms k(1) y by (auto simp: directional_motor_torque_nm_def mtc_limits Let_def)
  then have "encode_torque (directional_motor_torque_nm g (Fin x)) = word_of_int (32000 + (if g = 3 then k else - k))"
    using encode_steps[of k y] encode_steps[of "- k" "- y"] y k1 k(2) \<open>y < 3001\<close>
    by (auto simp: abs_minus_commute[of y])
  then show ?thesis using that k k1 by auto
qed

text \<open>From the limit to the signal.\<close>

lemma limited_steps:
  assumes "is_double limit" "g = 2 \<or> g = 3"
    "t = rise_limited_motor_torque_nm before (bounded_motor_torque_nm n limit) rate dt"
  obtains k where "encode_torque (directional_motor_torque_nm g t) = word_of_int (32000 + (if g = 3 then k else - k))"
    "0 \<le> k" "k = 0 \<or> (\<exists>l. limit = Fin l \<and> of_int k \<le> 10 * min l 640 + 1 / 2 ^ 35)"
proof (cases "dlt (Fin 0) t")
  case True
  let ?b = "bounded_motor_torque_nm n limit"
  have "isfinite ?b" "dle t ?b" using rise_limited[of before ?b rate dt] True assms(3) by auto
  then obtain x y where t: "t = Fin x" "?b = Fin y" "0 < x" "x \<le> y"
    using True by (cases t; cases ?b) (auto simp: dle_def)
  obtain l where l: "limit = Fin l" "y \<le> l" "y \<le> 640" using bounded_torque[OF assms(1), of n] t by auto
  obtain k where k: "encode_torque (directional_motor_torque_nm g (Fin x)) = word_of_int (32000 + (if g = 3 then k else - k))"
    "0 \<le> k" "of_int k \<le> x / tenth + 1 / 2 ^ 35"
    using directional_steps[of x g] t l assms(2) by auto
  have "x / tenth \<le> 10 * x" using t by simp
  also have "\<dots> \<le> 10 * min l 640" using t l by simp
  finally have "of_int k \<le> 10 * min l 640 + 1 / 2 ^ 35" using k(3) by linarith
  then show ?thesis using that[of k] k t l by auto
next
  case False
  then have "directional_motor_torque_nm g t = Fin 0"
    by (cases t) (auto simp: directional_motor_torque_nm_def dle_def)
  then show ?thesis using that[of 0] encode_torque_zero by simp
qed

text \<open>
  The brake pressure goes toward zero only up to the last place: the double 0.3 is below three
  steps, the step to the next double makes it three, and three times the double 0.1 lies above it.
\<close>

lemma brake_pressure_exceeds_request:
  "dlt (Fin (5404319552844595 / 2 ^ 54)) (quantize_brake_pressure_bar (Fin (5404319552844595 / 2 ^ 54)))"
proof -
  let ?step = "3602879701896397 / 2 ^ 55 :: rat"
  let ?max = "2881600074075341 / 2 ^ 43 :: rat"
  have constants: "round64 (1 / 10) = Fin ?step" "round64 (3276 / 10) = Fin ?max" "round64 0 = Fin 0"
    by (rule round64_eval; code_simp)+
  have quotient: "round64 (5404319552844595 / 2 ^ 54 / ?step) = Fin (6755399441055743 / 2 ^ 51)"
    and product: "round64 (3 * ?step) = Fin (1351079888211149 / 2 ^ 52)"
    by (rule round64_eval; code_simp)+
  have "6755399441055743 / 2 ^ 51 + ulp64 (6755399441055743 / 2 ^ 51) = (3 :: rat)" by code_simp
  moreover have "6755399441055743 / 2 ^ 51 \<noteq> dbl_max" by (simp add: dbl_max_def)
  ultimately have "nextafter_max (Fin (6755399441055743 / 2 ^ 51)) = Fin 3" by simp
  then show ?thesis
    using constants quotient product
    by (simp add: quantize_brake_pressure_bar_def Let_def mtc_brake_pressure_resolution_bar_def mtc_max_ordinary_brake_pressure_bar_def)
qed

end
