(* ===== verification/Bridge_Frames.thy ===== *)
theory Bridge_Frames
  imports Bridge_Api Speed_Limits Vcu_Safety
begin

text \<open>
  Lemmas on the blocks of a control cycle: which fields the shared functions of the runtime
  leave alone, that the safety blocks only withdraw authority, and what an update of the
  command needs for a torque.
\<close>

subsection \<open>Frames of the shared functions\<close>

lemma latch_stop_provenance_frame [simp]:
  "b_full_scale_motor_torque_nm (latch_stop_provenance a r s) = b_full_scale_motor_torque_nm s" "b_control_timeout_ms (latch_stop_provenance a r s) = b_control_timeout_ms s"
  "b_open_speed_control (latch_stop_provenance a r s) = b_open_speed_control s" "b_speed_control (latch_stop_provenance a r s) = b_speed_control s"
  "b_runtime_control (latch_stop_provenance a r s) = b_runtime_control s" "b_physical_brake_input (latch_stop_provenance a r s) = b_physical_brake_input s"
  "b_max_ordinary_brake_pressure_bar (latch_stop_provenance a r s) = b_max_ordinary_brake_pressure_bar s" "b_controller (latch_stop_provenance a r s) = b_controller s"
  "b_running (latch_stop_provenance a r s) = b_running s" "b_last_seen (latch_stop_provenance a r s) = b_last_seen s"
  "b_io_error (latch_stop_provenance a r s) = b_io_error s" "b_software_estop (latch_stop_provenance a r s) = b_software_estop s"
  "b_last_successful_apply (latch_stop_provenance a r s) = b_last_successful_apply s" "b_ready_since (latch_stop_provenance a r s) = b_ready_since s"
  "b_session_ready_latched (latch_stop_provenance a r s) = b_session_ready_latched s" "b_feedback_watchdog_armed (latch_stop_provenance a r s) = b_feedback_watchdog_armed s"
  "b_arming_deadline (latch_stop_provenance a r s) = b_arming_deadline s" "b_control_watchdog_latched (latch_stop_provenance a r s) = b_control_watchdog_latched s"
  "b_hard_overspeed_latched (latch_stop_provenance a r s) = b_hard_overspeed_latched s" "b_recoverable_arming_timeout (latch_stop_provenance a r s) = b_recoverable_arming_timeout s"
  "b_chassis_control_fault_latched (latch_stop_provenance a r s) = b_chassis_control_fault_latched s" "b_clear_soft_stop_requested (latch_stop_provenance a r s) = b_clear_soft_stop_requested s"
  "b_operator_idle (latch_stop_provenance a r s) = b_operator_idle s" "b_latest_intent (latch_stop_provenance a r s) = b_latest_intent s"
  "b_latest_intent_valid (latch_stop_provenance a r s) = b_latest_intent_valid s" "b_gear_rejection_latched (latch_stop_provenance a r s) = b_gear_rejection_latched s"
  "b_gear_rejection_retained_gear (latch_stop_provenance a r s) = b_gear_rejection_retained_gear s" "b_last_traction_torque_nm (latch_stop_provenance a r s) = b_last_traction_torque_nm s"
  "b_last_traction_gear (latch_stop_provenance a r s) = b_last_traction_gear s" "b_speed_pid_state (latch_stop_provenance a r s) = b_speed_pid_state s"
  "b_chassis (latch_stop_provenance a r s) = b_chassis s"
  by (simp_all add: latch_stop_provenance_def set_provenance_def Let_def)

lemma clear_stop_provenance_frame [simp]:
  "b_full_scale_motor_torque_nm (clear_stop_provenance s) = b_full_scale_motor_torque_nm s" "b_control_timeout_ms (clear_stop_provenance s) = b_control_timeout_ms s"
  "b_open_speed_control (clear_stop_provenance s) = b_open_speed_control s" "b_speed_control (clear_stop_provenance s) = b_speed_control s"
  "b_runtime_control (clear_stop_provenance s) = b_runtime_control s" "b_physical_brake_input (clear_stop_provenance s) = b_physical_brake_input s"
  "b_max_ordinary_brake_pressure_bar (clear_stop_provenance s) = b_max_ordinary_brake_pressure_bar s" "b_controller (clear_stop_provenance s) = b_controller s"
  "b_running (clear_stop_provenance s) = b_running s" "b_last_seen (clear_stop_provenance s) = b_last_seen s"
  "b_io_error (clear_stop_provenance s) = b_io_error s" "b_software_estop (clear_stop_provenance s) = b_software_estop s"
  "b_last_successful_apply (clear_stop_provenance s) = b_last_successful_apply s" "b_ready_since (clear_stop_provenance s) = b_ready_since s"
  "b_session_ready_latched (clear_stop_provenance s) = b_session_ready_latched s" "b_feedback_watchdog_armed (clear_stop_provenance s) = b_feedback_watchdog_armed s"
  "b_arming_deadline (clear_stop_provenance s) = b_arming_deadline s" "b_control_watchdog_latched (clear_stop_provenance s) = b_control_watchdog_latched s"
  "b_hard_overspeed_latched (clear_stop_provenance s) = b_hard_overspeed_latched s" "b_recoverable_arming_timeout (clear_stop_provenance s) = b_recoverable_arming_timeout s"
  "b_chassis_control_fault_latched (clear_stop_provenance s) = b_chassis_control_fault_latched s" "b_clear_soft_stop_requested (clear_stop_provenance s) = b_clear_soft_stop_requested s"
  "b_operator_idle (clear_stop_provenance s) = b_operator_idle s" "b_latest_intent (clear_stop_provenance s) = b_latest_intent s"
  "b_latest_intent_valid (clear_stop_provenance s) = b_latest_intent_valid s" "b_gear_rejection_latched (clear_stop_provenance s) = b_gear_rejection_latched s"
  "b_gear_rejection_retained_gear (clear_stop_provenance s) = b_gear_rejection_retained_gear s" "b_last_traction_torque_nm (clear_stop_provenance s) = b_last_traction_torque_nm s"
  "b_last_traction_gear (clear_stop_provenance s) = b_last_traction_gear s" "b_speed_pid_state (clear_stop_provenance s) = b_speed_pid_state s"
  "b_chassis (clear_stop_provenance s) = b_chassis s"
  by (simp_all add: clear_stop_provenance_def set_provenance_def Let_def)

lemma reset_speed_pid_frame [simp]:
  "b_full_scale_motor_torque_nm (reset_speed_pid s) = b_full_scale_motor_torque_nm s" "b_control_timeout_ms (reset_speed_pid s) = b_control_timeout_ms s"
  "b_open_speed_control (reset_speed_pid s) = b_open_speed_control s" "b_speed_control (reset_speed_pid s) = b_speed_control s"
  "b_runtime_control (reset_speed_pid s) = b_runtime_control s" "b_physical_brake_input (reset_speed_pid s) = b_physical_brake_input s"
  "b_max_ordinary_brake_pressure_bar (reset_speed_pid s) = b_max_ordinary_brake_pressure_bar s" "b_controller (reset_speed_pid s) = b_controller s"
  "b_running (reset_speed_pid s) = b_running s" "b_last_seen (reset_speed_pid s) = b_last_seen s"
  "b_io_error (reset_speed_pid s) = b_io_error s" "b_software_estop (reset_speed_pid s) = b_software_estop s"
  "b_last_successful_apply (reset_speed_pid s) = b_last_successful_apply s" "b_ready_since (reset_speed_pid s) = b_ready_since s"
  "b_session_ready_latched (reset_speed_pid s) = b_session_ready_latched s" "b_feedback_watchdog_armed (reset_speed_pid s) = b_feedback_watchdog_armed s"
  "b_arming_deadline (reset_speed_pid s) = b_arming_deadline s" "b_control_watchdog_latched (reset_speed_pid s) = b_control_watchdog_latched s"
  "b_hard_overspeed_latched (reset_speed_pid s) = b_hard_overspeed_latched s" "b_recoverable_arming_timeout (reset_speed_pid s) = b_recoverable_arming_timeout s"
  "b_chassis_control_fault_latched (reset_speed_pid s) = b_chassis_control_fault_latched s" "b_clear_soft_stop_requested (reset_speed_pid s) = b_clear_soft_stop_requested s"
  "b_operator_idle (reset_speed_pid s) = b_operator_idle s" "b_latest_intent (reset_speed_pid s) = b_latest_intent s"
  "b_latest_intent_valid (reset_speed_pid s) = b_latest_intent_valid s" "b_gear_rejection_latched (reset_speed_pid s) = b_gear_rejection_latched s"
  "b_gear_rejection_retained_gear (reset_speed_pid s) = b_gear_rejection_retained_gear s" "b_last_traction_torque_nm (reset_speed_pid s) = b_last_traction_torque_nm s"
  "b_last_traction_gear (reset_speed_pid s) = b_last_traction_gear s" "b_stop_source (reset_speed_pid s) = b_stop_source s"
  "b_stop_reason (reset_speed_pid s) = b_stop_reason s" "b_stop_sequence (reset_speed_pid s) = b_stop_sequence s"
  "b_chassis (reset_speed_pid s) = b_chassis s"
  by (simp_all add: reset_speed_pid_def)

lemma reset_direct_traction_frame [simp]:
  "b_full_scale_motor_torque_nm (reset_direct_traction s) = b_full_scale_motor_torque_nm s" "b_control_timeout_ms (reset_direct_traction s) = b_control_timeout_ms s"
  "b_open_speed_control (reset_direct_traction s) = b_open_speed_control s" "b_speed_control (reset_direct_traction s) = b_speed_control s"
  "b_runtime_control (reset_direct_traction s) = b_runtime_control s" "b_physical_brake_input (reset_direct_traction s) = b_physical_brake_input s"
  "b_max_ordinary_brake_pressure_bar (reset_direct_traction s) = b_max_ordinary_brake_pressure_bar s" "b_controller (reset_direct_traction s) = b_controller s"
  "b_running (reset_direct_traction s) = b_running s" "b_last_seen (reset_direct_traction s) = b_last_seen s"
  "b_io_error (reset_direct_traction s) = b_io_error s" "b_software_estop (reset_direct_traction s) = b_software_estop s"
  "b_last_successful_apply (reset_direct_traction s) = b_last_successful_apply s" "b_ready_since (reset_direct_traction s) = b_ready_since s"
  "b_session_ready_latched (reset_direct_traction s) = b_session_ready_latched s" "b_feedback_watchdog_armed (reset_direct_traction s) = b_feedback_watchdog_armed s"
  "b_arming_deadline (reset_direct_traction s) = b_arming_deadline s" "b_control_watchdog_latched (reset_direct_traction s) = b_control_watchdog_latched s"
  "b_hard_overspeed_latched (reset_direct_traction s) = b_hard_overspeed_latched s" "b_recoverable_arming_timeout (reset_direct_traction s) = b_recoverable_arming_timeout s"
  "b_chassis_control_fault_latched (reset_direct_traction s) = b_chassis_control_fault_latched s" "b_clear_soft_stop_requested (reset_direct_traction s) = b_clear_soft_stop_requested s"
  "b_operator_idle (reset_direct_traction s) = b_operator_idle s" "b_latest_intent (reset_direct_traction s) = b_latest_intent s"
  "b_latest_intent_valid (reset_direct_traction s) = b_latest_intent_valid s" "b_gear_rejection_latched (reset_direct_traction s) = b_gear_rejection_latched s"
  "b_gear_rejection_retained_gear (reset_direct_traction s) = b_gear_rejection_retained_gear s" "b_speed_pid_state (reset_direct_traction s) = b_speed_pid_state s"
  "b_stop_source (reset_direct_traction s) = b_stop_source s" "b_stop_reason (reset_direct_traction s) = b_stop_reason s"
  "b_stop_sequence (reset_direct_traction s) = b_stop_sequence s" "b_chassis (reset_direct_traction s) = b_chassis s"
  by (simp_all add: reset_direct_traction_def)

lemma renew_intent_frame [simp]:
  "b_full_scale_motor_torque_nm (renew_intent s) = b_full_scale_motor_torque_nm s" "b_control_timeout_ms (renew_intent s) = b_control_timeout_ms s"
  "b_open_speed_control (renew_intent s) = b_open_speed_control s" "b_speed_control (renew_intent s) = b_speed_control s"
  "b_runtime_control (renew_intent s) = b_runtime_control s" "b_physical_brake_input (renew_intent s) = b_physical_brake_input s"
  "b_max_ordinary_brake_pressure_bar (renew_intent s) = b_max_ordinary_brake_pressure_bar s" "b_controller (renew_intent s) = b_controller s"
  "b_running (renew_intent s) = b_running s" "b_last_seen (renew_intent s) = b_last_seen s"
  "b_io_error (renew_intent s) = b_io_error s" "b_software_estop (renew_intent s) = b_software_estop s"
  "b_last_successful_apply (renew_intent s) = b_last_successful_apply s" "b_ready_since (renew_intent s) = b_ready_since s"
  "b_session_ready_latched (renew_intent s) = b_session_ready_latched s" "b_feedback_watchdog_armed (renew_intent s) = b_feedback_watchdog_armed s"
  "b_arming_deadline (renew_intent s) = b_arming_deadline s" "b_control_watchdog_latched (renew_intent s) = b_control_watchdog_latched s"
  "b_hard_overspeed_latched (renew_intent s) = b_hard_overspeed_latched s" "b_recoverable_arming_timeout (renew_intent s) = b_recoverable_arming_timeout s"
  "b_chassis_control_fault_latched (renew_intent s) = b_chassis_control_fault_latched s" "b_clear_soft_stop_requested (renew_intent s) = b_clear_soft_stop_requested s"
  "b_operator_idle (renew_intent s) = b_operator_idle s" "b_latest_intent_valid (renew_intent s) = b_latest_intent_valid s"
  "b_gear_rejection_latched (renew_intent s) = b_gear_rejection_latched s" "b_gear_rejection_retained_gear (renew_intent s) = b_gear_rejection_retained_gear s"
  "b_last_traction_torque_nm (renew_intent s) = b_last_traction_torque_nm s" "b_last_traction_gear (renew_intent s) = b_last_traction_gear s"
  "b_speed_pid_state (renew_intent s) = b_speed_pid_state s" "b_stop_source (renew_intent s) = b_stop_source s"
  "b_stop_reason (renew_intent s) = b_stop_reason s" "b_stop_sequence (renew_intent s) = b_stop_sequence s"
  "b_chassis (renew_intent s) = b_chassis s"
  by (simp_all add: renew_intent_def)

lemma withdraw_latest_traction_frame [simp]:
  "b_full_scale_motor_torque_nm (withdraw_latest_traction s) = b_full_scale_motor_torque_nm s" "b_control_timeout_ms (withdraw_latest_traction s) = b_control_timeout_ms s"
  "b_open_speed_control (withdraw_latest_traction s) = b_open_speed_control s" "b_speed_control (withdraw_latest_traction s) = b_speed_control s"
  "b_runtime_control (withdraw_latest_traction s) = b_runtime_control s" "b_physical_brake_input (withdraw_latest_traction s) = b_physical_brake_input s"
  "b_max_ordinary_brake_pressure_bar (withdraw_latest_traction s) = b_max_ordinary_brake_pressure_bar s" "b_controller (withdraw_latest_traction s) = b_controller s"
  "b_running (withdraw_latest_traction s) = b_running s" "b_last_seen (withdraw_latest_traction s) = b_last_seen s"
  "b_io_error (withdraw_latest_traction s) = b_io_error s" "b_software_estop (withdraw_latest_traction s) = b_software_estop s"
  "b_last_successful_apply (withdraw_latest_traction s) = b_last_successful_apply s" "b_ready_since (withdraw_latest_traction s) = b_ready_since s"
  "b_session_ready_latched (withdraw_latest_traction s) = b_session_ready_latched s" "b_feedback_watchdog_armed (withdraw_latest_traction s) = b_feedback_watchdog_armed s"
  "b_arming_deadline (withdraw_latest_traction s) = b_arming_deadline s" "b_control_watchdog_latched (withdraw_latest_traction s) = b_control_watchdog_latched s"
  "b_hard_overspeed_latched (withdraw_latest_traction s) = b_hard_overspeed_latched s" "b_recoverable_arming_timeout (withdraw_latest_traction s) = b_recoverable_arming_timeout s"
  "b_chassis_control_fault_latched (withdraw_latest_traction s) = b_chassis_control_fault_latched s" "b_clear_soft_stop_requested (withdraw_latest_traction s) = b_clear_soft_stop_requested s"
  "b_operator_idle (withdraw_latest_traction s) = b_operator_idle s" "b_gear_rejection_latched (withdraw_latest_traction s) = b_gear_rejection_latched s"
  "b_gear_rejection_retained_gear (withdraw_latest_traction s) = b_gear_rejection_retained_gear s" "b_stop_source (withdraw_latest_traction s) = b_stop_source s"
  "b_stop_reason (withdraw_latest_traction s) = b_stop_reason s" "b_stop_sequence (withdraw_latest_traction s) = b_stop_sequence s"
  "b_chassis (withdraw_latest_traction s) = b_chassis s"
  by (simp_all add: withdraw_latest_traction_def Let_def)

lemma on_controller_frame [simp]:
  "b_full_scale_motor_torque_nm (on_controller f s) = b_full_scale_motor_torque_nm s" "b_control_timeout_ms (on_controller f s) = b_control_timeout_ms s"
  "b_open_speed_control (on_controller f s) = b_open_speed_control s" "b_speed_control (on_controller f s) = b_speed_control s"
  "b_runtime_control (on_controller f s) = b_runtime_control s" "b_physical_brake_input (on_controller f s) = b_physical_brake_input s"
  "b_max_ordinary_brake_pressure_bar (on_controller f s) = b_max_ordinary_brake_pressure_bar s" "b_running (on_controller f s) = b_running s"
  "b_last_seen (on_controller f s) = b_last_seen s" "b_io_error (on_controller f s) = b_io_error s"
  "b_software_estop (on_controller f s) = b_software_estop s" "b_last_successful_apply (on_controller f s) = b_last_successful_apply s"
  "b_ready_since (on_controller f s) = b_ready_since s" "b_session_ready_latched (on_controller f s) = b_session_ready_latched s"
  "b_feedback_watchdog_armed (on_controller f s) = b_feedback_watchdog_armed s" "b_arming_deadline (on_controller f s) = b_arming_deadline s"
  "b_control_watchdog_latched (on_controller f s) = b_control_watchdog_latched s" "b_hard_overspeed_latched (on_controller f s) = b_hard_overspeed_latched s"
  "b_recoverable_arming_timeout (on_controller f s) = b_recoverable_arming_timeout s" "b_chassis_control_fault_latched (on_controller f s) = b_chassis_control_fault_latched s"
  "b_clear_soft_stop_requested (on_controller f s) = b_clear_soft_stop_requested s" "b_operator_idle (on_controller f s) = b_operator_idle s"
  "b_latest_intent (on_controller f s) = b_latest_intent s" "b_latest_intent_valid (on_controller f s) = b_latest_intent_valid s"
  "b_gear_rejection_latched (on_controller f s) = b_gear_rejection_latched s" "b_gear_rejection_retained_gear (on_controller f s) = b_gear_rejection_retained_gear s"
  "b_last_traction_torque_nm (on_controller f s) = b_last_traction_torque_nm s" "b_last_traction_gear (on_controller f s) = b_last_traction_gear s"
  "b_speed_pid_state (on_controller f s) = b_speed_pid_state s" "b_stop_source (on_controller f s) = b_stop_source s"
  "b_stop_reason (on_controller f s) = b_stop_reason s" "b_stop_sequence (on_controller f s) = b_stop_sequence s"
  "b_chassis (on_controller f s) = b_chassis s"
  by (simp_all add: on_controller_def)

lemma update_feedback_frame [simp]:
  "b_full_scale_motor_torque_nm (update_feedback s) = b_full_scale_motor_torque_nm s" "b_control_timeout_ms (update_feedback s) = b_control_timeout_ms s"
  "b_open_speed_control (update_feedback s) = b_open_speed_control s" "b_speed_control (update_feedback s) = b_speed_control s"
  "b_runtime_control (update_feedback s) = b_runtime_control s" "b_physical_brake_input (update_feedback s) = b_physical_brake_input s"
  "b_max_ordinary_brake_pressure_bar (update_feedback s) = b_max_ordinary_brake_pressure_bar s" "b_controller (update_feedback s) = b_controller s"
  "b_running (update_feedback s) = b_running s" "b_last_seen (update_feedback s) = b_last_seen s"
  "b_io_error (update_feedback s) = b_io_error s" "b_software_estop (update_feedback s) = b_software_estop s"
  "b_last_successful_apply (update_feedback s) = b_last_successful_apply s" "b_ready_since (update_feedback s) = b_ready_since s"
  "b_session_ready_latched (update_feedback s) = b_session_ready_latched s" "b_feedback_watchdog_armed (update_feedback s) = b_feedback_watchdog_armed s"
  "b_arming_deadline (update_feedback s) = b_arming_deadline s" "b_control_watchdog_latched (update_feedback s) = b_control_watchdog_latched s"
  "b_hard_overspeed_latched (update_feedback s) = b_hard_overspeed_latched s" "b_recoverable_arming_timeout (update_feedback s) = b_recoverable_arming_timeout s"
  "b_chassis_control_fault_latched (update_feedback s) = b_chassis_control_fault_latched s" "b_clear_soft_stop_requested (update_feedback s) = b_clear_soft_stop_requested s"
  "b_operator_idle (update_feedback s) = b_operator_idle s" "b_latest_intent (update_feedback s) = b_latest_intent s"
  "b_latest_intent_valid (update_feedback s) = b_latest_intent_valid s" "b_gear_rejection_latched (update_feedback s) = b_gear_rejection_latched s"
  "b_gear_rejection_retained_gear (update_feedback s) = b_gear_rejection_retained_gear s" "b_last_traction_torque_nm (update_feedback s) = b_last_traction_torque_nm s"
  "b_last_traction_gear (update_feedback s) = b_last_traction_gear s" "b_speed_pid_state (update_feedback s) = b_speed_pid_state s"
  "b_stop_source (update_feedback s) = b_stop_source s" "b_stop_reason (update_feedback s) = b_stop_reason s"
  "b_stop_sequence (update_feedback s) = b_stop_sequence s" "b_chassis (update_feedback s) = b_chassis s"
  by (simp_all add: update_feedback_def Let_def)

lemma overspeed_stop_frame [simp]:
  "b_full_scale_motor_torque_nm (overspeed_stop r s) = b_full_scale_motor_torque_nm s" "b_control_timeout_ms (overspeed_stop r s) = b_control_timeout_ms s"
  "b_open_speed_control (overspeed_stop r s) = b_open_speed_control s" "b_speed_control (overspeed_stop r s) = b_speed_control s"
  "b_runtime_control (overspeed_stop r s) = b_runtime_control s" "b_physical_brake_input (overspeed_stop r s) = b_physical_brake_input s"
  "b_max_ordinary_brake_pressure_bar (overspeed_stop r s) = b_max_ordinary_brake_pressure_bar s" "b_running (overspeed_stop r s) = b_running s"
  "b_last_seen (overspeed_stop r s) = b_last_seen s" "b_io_error (overspeed_stop r s) = b_io_error s"
  "b_last_successful_apply (overspeed_stop r s) = b_last_successful_apply s" "b_ready_since (overspeed_stop r s) = b_ready_since s"
  "b_session_ready_latched (overspeed_stop r s) = b_session_ready_latched s" "b_feedback_watchdog_armed (overspeed_stop r s) = b_feedback_watchdog_armed s"
  "b_arming_deadline (overspeed_stop r s) = b_arming_deadline s" "b_control_watchdog_latched (overspeed_stop r s) = b_control_watchdog_latched s"
  "b_recoverable_arming_timeout (overspeed_stop r s) = b_recoverable_arming_timeout s" "b_chassis_control_fault_latched (overspeed_stop r s) = b_chassis_control_fault_latched s"
  "b_clear_soft_stop_requested (overspeed_stop r s) = b_clear_soft_stop_requested s" "b_operator_idle (overspeed_stop r s) = b_operator_idle s"
  "b_latest_intent (overspeed_stop r s) = b_latest_intent s" "b_latest_intent_valid (overspeed_stop r s) = b_latest_intent_valid s"
  "b_gear_rejection_latched (overspeed_stop r s) = b_gear_rejection_latched s" "b_gear_rejection_retained_gear (overspeed_stop r s) = b_gear_rejection_retained_gear s"
  "b_last_traction_torque_nm (overspeed_stop r s) = b_last_traction_torque_nm s" "b_last_traction_gear (overspeed_stop r s) = b_last_traction_gear s"
  "b_chassis (overspeed_stop r s) = b_chassis s"
  by (simp_all add: overspeed_stop_def)

subsection \<open>Traction of a control cycle\<close>

definition armed :: "parallel_controller \<Rightarrow> bool" where
  "armed c \<longleftrightarrow> vstate c \<in> {WaitActuatorModes, Ready} \<and> \<not> emergency_stop_flag c \<and>
     fb_emergency_switch (feedback c) = 0"

lemma traction_advance:
  "traction (advance_state c) \<Longrightarrow> armed c"
  by (cases "vstate c")
    (auto simp: traction_def armed_def advance_state_def advance_switch_def begin_arming_emergency_disarm_def
       transport_fault_def vcu_enter_def split: if_splits)

lemma armed_stops [simp]: "\<not> armed (emergency_stop c)" "\<not> armed (transport_fault c)"
  by (simp_all add: armed_def emergency_stop_def begin_arming_emergency_disarm_def transport_fault_def
    vcu_enter_def split: vcu_state.split)

lemma armed_set_command:
  "armed (snd (set_command cmd c)) \<Longrightarrow> fst (set_command cmd c) \<Longrightarrow>
     armed c \<and> desired (snd (set_command cmd c)) = cmd \<and> physical_emergency_latched (snd (set_command cmd c)) =
     physical_emergency_latched c"
  by (auto simp: set_command_def armed_def vcu_enter_def Let_def split: if_splits)

lemma armed_accepts: "armed c \<Longrightarrow> accepts_intent (vstate c)"
  by (auto simp: armed_def accepts_intent_def is_disarming_def)

lemma on_controller_controller [simp]: "b_controller (on_controller f s) = f (b_controller s)"
  by (simp add: on_controller_def)

lemma armed_command_block:
  assumes "armed (b_controller (command_block cmd s))"
  shows "armed (b_controller s) \<and> \<not> physical_emergency_latched (b_controller s) \<and> \<not> b_hard_overspeed_latched s \<and>
     desired (b_controller (command_block cmd s)) = cmd \<and>
     b_last_traction_torque_nm (command_block cmd s) = b_last_traction_torque_nm s"
proof -
  obtain ok c where c: "set_command cmd (b_controller s) = (ok, c)" by fastforce
  have accepts: "accepts_intent (vstate (b_controller s))"
    using assms by (cases "accepts_intent (vstate (b_controller s))")
      (auto simp: command_block_def Let_def dest: armed_accepts split: if_splits)
  have ok
    using assms c accepts by (cases ok) (auto simp: command_block_def Let_def split: if_splits)
  then show ?thesis
    using assms c accepts armed_set_command[of cmd "b_controller s"]
    by (auto simp: command_block_def Let_def split: if_splits)
qed

lemma not_armed_fault [simp]: "\<not> armed (b_controller (faulted_block s))"
  by (auto simp: faulted_block_def Let_def armed_def is_disarming_def transport_fault_def vcu_enter_def)

lemma not_armed_chassis_fault [simp]: "\<not> armed (b_controller (latch_chassis_control_fault s))"
  by (simp add: latch_chassis_control_fault_def)

text \<open>What the command of a cycle asks of the motors.\<close>

lemma chassis_command_torque:
  assumes "chassis_command CC intent speed_fresh measured normalized s = (Some cmd, s')"
  shows "motor_torque_nm cmd = replicate 8 (Fin 0) \<or>
     motor_torque_nm cmd = replicate 8 (directional_motor_torque_nm (ci_gear intent) (b_last_traction_torque_nm s))"
  using assms by (auto simp: chassis_command_def shape_command_def Let_def split: prod.splits sum.splits if_splits)

lemma chassis_command_frame:
  assumes "chassis_command CC intent speed_fresh measured normalized s = (r, s')"
  shows "s' = s\<lparr>b_chassis := b_chassis s'\<rparr>"
  using assms by (auto simp: chassis_command_def Let_def split: prod.splits sum.splits if_splits)

lemma directional_zero [simp]: "directional_motor_torque_nm g (Fin 0) = Fin 0"
  by (simp add: directional_motor_torque_nm_def)

text \<open>
  The safety blocks only withdraw authority; the one exception is a requested release of the
  software stop.
\<close>

definition tightens :: "'c bridge_runtime \<Rightarrow> 'c bridge_runtime \<Rightarrow> bool" where
  "tightens s t \<longleftrightarrow>
     physical_emergency_latched (b_controller t) = physical_emergency_latched (b_controller s) \<and>
     feedback (b_controller t) = feedback (b_controller s) \<and>
     (b_hard_overspeed_latched s \<longrightarrow> b_hard_overspeed_latched t) \<and>
     (vstate (b_controller t) = Ready \<longrightarrow> vstate (b_controller s) = Ready) \<and>
     b_speed_control t = b_speed_control s \<and> b_runtime_control t = b_runtime_control s \<and>
     b_full_scale_motor_torque_nm t = b_full_scale_motor_torque_nm s \<and> b_last_seen t = b_last_seen s \<and>
     b_session_ready_latched t = b_session_ready_latched s \<and>
     (b_clear_soft_stop_requested t \<longrightarrow> b_clear_soft_stop_requested s) \<and>
     (\<not> b_software_estop t \<longrightarrow> \<not> b_software_estop s \<or> b_clear_soft_stop_requested s) \<and>
     (\<not> physical_emergency_latched (b_controller s) \<longrightarrow> b_last_traction_gear t = b_last_traction_gear s \<and>
        b_last_traction_torque_nm t = b_last_traction_torque_nm s)"

lemma tightens_refl [simp]: "tightens s s"
  by (simp add: tightens_def)

lemma tightens_trans [trans]: "tightens s t \<Longrightarrow> tightens t u \<Longrightarrow> tightens s u"
  unfolding tightens_def by (elim conjE, intro conjI; argo)

lemma emergency_stop_keeps [simp]:
  "physical_emergency_latched (emergency_stop c) = physical_emergency_latched c"
  "feedback (emergency_stop c) = feedback c"
  "vstate (emergency_stop c) = Ready \<longleftrightarrow> vstate c = Ready"
  by (simp_all add: emergency_stop_def begin_arming_emergency_disarm_def vcu_enter_def split: vcu_state.split)

lemma clear_emergency_stop_keeps [simp]:
  "physical_emergency_latched (clear_emergency_stop c) = physical_emergency_latched c"
  "feedback (clear_emergency_stop c) = feedback c" "vstate (clear_emergency_stop c) = vstate c"
  by (simp_all add: clear_emergency_stop_def)

lemma set_automatic_parking_keeps [simp]:
  "physical_emergency_latched (set_automatic_parking e r f b c) = physical_emergency_latched c"
  "feedback (set_automatic_parking e r f b c) = feedback c"
  "vstate (set_automatic_parking e r f b c) = vstate c"
  "emergency_stop_flag (set_automatic_parking e r f b c) = emergency_stop_flag c"
  by (simp_all add: set_automatic_parking_def)

lemma withdraw_no_torque [simp]: "b_last_traction_torque_nm (withdraw_latest_traction s) = Fin 0"
  by (simp add: withdraw_latest_traction_def Let_def reset_direct_traction_def)

lemma overspeed_stop_fields [simp]:
  "b_controller (overspeed_stop r s) = emergency_stop (b_controller s)" "b_software_estop (overspeed_stop r s)"
  "b_hard_overspeed_latched (overspeed_stop r s)"
  by (simp_all add: overspeed_stop_def)

lemma tightens_overspeed_stop: "tightens s (overspeed_stop r s)"
  by (simp add: tightens_def)

lemma tightens_physical: "tightens s (physical_block s)"
  by (cases "physical_emergency_latched (b_controller s)"; cases "b_physical_emergency_reported s")
    (simp_all add: physical_block_def Let_def tightens_def)

lemma tightens_arming: "tightens s (arming_motion_block st fresh s)"
  unfolding arming_motion_block_def by (simp add: tightens_overspeed_stop)

lemma tightens_overspeed: "tightens s (overspeed_block st fresh s)"
  unfolding overspeed_block_def by (simp add: tightens_overspeed_stop)

lemma tightens_provenance: "tightens s t \<Longrightarrow> tightens s (clear_stop_provenance t)"
  by (simp add: tightens_def)

lemma tightens_release:
  "b_clear_soft_stop_requested s \<Longrightarrow>
     tightens s ((on_controller clear_emergency_stop s)
       \<lparr>b_software_estop := False, b_control_watchdog_latched := False, b_clear_soft_stop_requested := False\<rparr>)"
  by (simp only: tightens_def, intro conjI, simp_all)

lemmas tightens_clear_stop = tightens_provenance[OF tightens_release]

lemma tightens_clear: "tightens s (clear_soft_stop_block fresh gear_ok s)"
  unfolding clear_soft_stop_block_def by (simp add: tightens_clear_stop)

lemma tightens_parking: "tightens s (parking_block now fresh measured s)"
  by (simp add: parking_block_def tightens_def)

lemma tightens_safety: "tightens s (safety_blocks now st fresh gear_ok measured s)"
  unfolding safety_blocks_def
  by (rule tightens_trans[OF tightens_trans[OF tightens_trans[OF tightens_trans[OF
    tightens_physical tightens_arming] tightens_overspeed] tightens_clear] tightens_parking])

text \<open>The traction torque of a cycle.\<close>

lemma torque_inactive: "\<not> active \<Longrightarrow> b_last_traction_torque_nm (torque_block active normalized dt s) = Fin 0"
  by (simp add: torque_block_def reset_direct_traction_def)

lemma normalized_inactive_fields:
  "b_runtime_control (snd (normalized_block active intent measured dt s)) = b_runtime_control s"
  "b_speed_control (snd (normalized_block active intent measured dt s)) = b_speed_control s"
  "b_full_scale_motor_torque_nm (snd (normalized_block active intent measured dt s)) = b_full_scale_motor_torque_nm s"
  "b_controller (snd (normalized_block active intent measured dt s)) = b_controller s"
  "b_hard_overspeed_latched (snd (normalized_block active intent measured dt s)) = b_hard_overspeed_latched s"
  by (simp_all add: normalized_block_def adopt_setpoint_def Let_def split: prod.split)

text \<open>The torque a rise is measured from.\<close>

definition torque_before :: "int \<Rightarrow> 'c bridge_runtime \<Rightarrow> double" where
  "torque_before g s = (if b_last_traction_gear s = g then b_last_traction_torque_nm s else Fin 0)"

lemma normalized_active:
  assumes "dlt (Fin 0) (ci_longitudinal intent)"
  shows "b_last_traction_torque_nm (snd (normalized_block True intent measured dt s)) = torque_before (ci_gear intent) s"
  using assms by (cases "ci_longitudinal intent")
    (simp_all add: normalized_block_def adopt_setpoint_def Let_def reset_direct_traction_def torque_before_def
      split: prod.split)

text \<open>
  The conditions of traction. \<open>drive_requested\<close> is about the request of the agent,
  \<open>drive_confirmed\<close> about the feedback and \<open>drive_permitted\<close> about the latches and timers.
\<close>

definition drive_requested :: "'c bridge_runtime \<Rightarrow> bool" where
  "drive_requested s \<longleftrightarrow> b_latest_intent_valid s \<and> dlt (Fin 0) (ci_longitudinal (b_latest_intent s)) \<and>
     dlt (Fin 0) (ci_target_speed_mps (b_latest_intent s)) \<and> driving_gear (ci_gear (b_latest_intent s)) \<and>
     rt_active (b_runtime_control s) \<and> sc_enabled (b_speed_control s)"

definition drive_confirmed :: "int \<Rightarrow> 'c bridge_runtime \<Rightarrow> bool" where
  "drive_confirmed now s \<longleftrightarrow> vstate (b_controller s) = Ready \<and> fb_emergency_switch (feedback (b_controller s)) = 0 \<and>
     speed_feedback_fresh now s \<and> gear_feedback_fresh now s \<and>
     fb_gear (feedback (b_controller s)) = ci_gear (b_latest_intent s)"

definition silent_ms :: "int \<Rightarrow> 'c bridge_runtime \<Rightarrow> int" where
  "silent_ms now s = max 0 (case watchdog_reference s of None \<Rightarrow> 0 | Some r \<Rightarrow> millis (now - r))"

definition control_overdue :: "int \<Rightarrow> 'c bridge_runtime \<Rightarrow> bool" where
  "control_overdue now s \<longleftrightarrow> b_session_ready_latched s \<and> speed_safety_active_state (vstate (b_controller s)) \<and>
     watchdog_reference s \<noteq> None \<and> \<not> b_control_watchdog_latched s \<and>
     control_timeout_is_valid (b_control_timeout_ms s) \<and> b_control_timeout_ms s \<le> silent_ms now s"

definition drive_permitted :: "int \<Rightarrow> 'c bridge_runtime \<Rightarrow> bool" where
  "drive_permitted now s \<longleftrightarrow> \<not> b_chassis_control_fault_latched s \<and> \<not> b_hard_overspeed_latched s \<and>
     \<not> physical_emergency_latched (b_controller s) \<and>
     (b_software_estop s \<longrightarrow> b_clear_soft_stop_requested s) \<and>
     (b_feedback_watchdog_armed s \<longrightarrow> feedback_fresh now s) \<and> \<not> control_overdue now s"

lemma withdraw_longitudinal [simp]: "ci_longitudinal (b_latest_intent (withdraw_latest_traction s)) = Fin 0"
  by (simp add: withdraw_latest_traction_def renew_intent_def reset_direct_traction_def reset_speed_pid_def Let_def)

lemma traction_active:
  assumes "b_last_traction_torque_nm (snd (traction_blocks now intent fresh gear_ok measured dt s)) \<noteq> Fin 0"
  shows "traction_pid_active now intent fresh gear_ok s"
proof (rule ccontr)
  assume "\<not> traction_pid_active now intent fresh gear_ok s"
  then show False using assms by (auto simp: traction_blocks_def Let_def torque_inactive split: prod.splits)
qed

lemma watchdog_due:
  "check_control_watchdog now s = (if control_overdue now s then withdraw_latest_traction
     ((on_controller emergency_stop (latch_stop_provenance source_watchdog reason_control_apply_timeout s))
       \<lparr>b_software_estop := True, b_control_watchdog_latched := True, b_clear_soft_stop_requested := False\<rparr>) else s)"
  by (simp add: check_control_watchdog_def control_overdue_def silent_ms_def control_watchdog_expired_def Let_def)

lemma watchdog_quiet:
  assumes "dlt (Fin 0) (ci_longitudinal (b_latest_intent (check_control_watchdog now s)))"
  shows "\<not> control_overdue now s" "check_control_watchdog now s = s"
  using assms by (auto simp: watchdog_due split: if_splits)

lemma feedback_watchdog_quiet:
  assumes "dlt (Fin 0) (ci_longitudinal (b_latest_intent (feedback_watchdog now s)))"
  shows "feedback_watchdog now s = s"
    "b_feedback_watchdog_armed s \<Longrightarrow> speed_safety_active_state (vstate (b_controller s)) \<Longrightarrow> feedback_fresh now s"
  using assms by (auto simp: feedback_watchdog_def Let_def split: if_splits)

lemma traction_blocks_controller:
  "b_controller (snd (traction_blocks now intent fresh gear_ok measured dt s)) = b_controller s"
  by (simp add: traction_blocks_def Let_def torque_block_def normalized_inactive_fields split: prod.split)
    (metis normalized_inactive_fields(4) snd_conv)

text \<open>An update of the command that leaves the controller armed with a torque.\<close>

lemma update_armed:
  assumes "armed (b_controller (update_command_from_intent CC now dt s))"
    "motor_torque_nm (desired (b_controller (update_command_from_intent CC now dt s))) \<noteq> replicate 8 (Fin 0)"
  obtains intent fresh gear_ok measured s1 normalized s2 where
    "intent = (if b_latest_intent_valid s then b_latest_intent s else default_control_intent)"
    "fresh = speed_feedback_fresh now s"
    "gear_ok \<longleftrightarrow> gear_feedback_fresh now s \<and> fb_gear (feedback (b_controller s)) = ci_gear intent"
    "tightens s s1" "traction_pid_active now intent fresh gear_ok s1"
    "traction_blocks now intent fresh gear_ok measured dt s1 = (normalized, s2)"
    "motor_torque_nm (desired (b_controller (update_command_from_intent CC now dt s))) =
       replicate 8 (directional_motor_torque_nm (ci_gear intent) (b_last_traction_torque_nm s2))"
    "b_last_traction_torque_nm (update_command_from_intent CC now dt s) = b_last_traction_torque_nm s2"
    "\<not> b_chassis_control_fault_latched s" "fb_emergency_switch (feedback (b_controller s)) = 0"
proof -
  let ?t = "update_command_from_intent CC now dt s"
  define intent where "intent = (if b_latest_intent_valid s then b_latest_intent s else default_control_intent)"
  define fresh where "fresh = speed_feedback_fresh now s"
  define gear_ok where "gear_ok \<longleftrightarrow> gear_feedback_fresh now s \<and> fb_gear (feedback (b_controller s)) = ci_gear intent"
  define measured where "measured = speed_magnitude_mps (fb_speed_mps (feedback (b_controller s)))"
  define s1 where "s1 = safety_blocks now (vstate (b_controller s)) fresh gear_ok measured s"
  obtain normalized s2 where s2: "traction_blocks now intent fresh gear_ok measured dt s1 = (normalized, s2)" by fastforce
  obtain r s3 where s3: "chassis_command CC intent fresh measured normalized s2 = (r, s3)" by fastforce
  have ok: "\<not> b_chassis_control_fault_latched s"
    using assms(1) by (auto simp: update_command_from_intent_def)
  have t: "?t = (case r of None \<Rightarrow> latch_chassis_control_fault s3 | Some c \<Rightarrow> command_block c s3)"
    using ok s2 s3
    by (simp add: update_command_from_intent_def Let_def intent_def fresh_def gear_ok_def measured_def s1_def)
  then obtain cmd where cmd: "r = Some cmd" "?t = command_block cmd s3" using assms(1) by (cases r) auto
  have c: "desired (b_controller ?t) = cmd" "b_last_traction_torque_nm ?t = b_last_traction_torque_nm s3"
    "armed (b_controller s3)"
    using armed_command_block[of cmd s3] assms(1) unfolding cmd(2) by simp_all
  have s23: "s3 = s2\<lparr>b_chassis := b_chassis s3\<rparr>" using s3 by (rule chassis_command_frame)
  have torque: "motor_torque_nm cmd = replicate 8 (directional_motor_torque_nm (ci_gear intent) (b_last_traction_torque_nm s2))"
    using chassis_command_torque[OF s3[unfolded cmd(1)]] assms(2) c(1) by auto
  then have "b_last_traction_torque_nm s2 \<noteq> Fin 0" using assms(2) c(1) by auto
  then have active: "traction_pid_active now intent fresh gear_ok s1"
    using traction_active[of now intent fresh gear_ok measured dt s1] s2 by simp
  have same: "b_last_traction_torque_nm s3 = b_last_traction_torque_nm s2"
    "b_controller s3 = b_controller s2" using arg_cong[OF s23, of b_last_traction_torque_nm]
      arg_cong[OF s23, of b_controller] by simp_all
  have "b_controller s2 = b_controller s1" using traction_blocks_controller[of now intent fresh gear_ok measured dt s1]
    unfolding s2 by simp
  moreover have "feedback (b_controller s1) = feedback (b_controller s)"
    using tightens_safety[of s now] unfolding s1_def tightens_def by blast
  ultimately have switch: "fb_emergency_switch (feedback (b_controller s)) = 0"
    using c(3) same(2) by (simp add: armed_def)
  show ?thesis
    by (rule that[OF intent_def fresh_def gear_ok_def _ active s2])
      (use torque c same ok switch tightens_safety in \<open>simp_all add: s1_def\<close>)
qed

end
