(* ===== verification/Bridge_Safety.thy ===== *)
theory Bridge_Safety
  imports Bridge_Frames
begin

text \<open>
  What a control cycle of the chassis bridge may do: the conditions under which it transmits a
  motor torque, how large the torque is, what the watchdogs do, and which faults stop it for
  good.
\<close>

subsection \<open>Traction\<close>

lemma frames_torque_nth: "motor_torques (tick_frames t) = map (\<lambda>i. encode_torque (o_motor_torque t ! i)) [0..<8]"
  by (auto simp: motor_torques_def tick_frames_def motor_frame_signals intro!: nth_equalityI)

lemma cycle_torques:
  "motor_torques (fst (control_cycle CC now s)) =
     (let c = b_controller (before_tick CC now s)
      in if traction (advance_state c) then map (\<lambda>i. encode_torque (motor_torque_nm (desired c) ! i)) [0..<8]
         else replicate 8 32000)"
proof -
  have "map (\<lambda>i. encode_torque (replicate 8 (Fin 0) ! i)) [0..<8] = replicate 8 32000"
    by (intro nth_equalityI) (simp_all add: encode_torque_zero)
  then show ?thesis
    by (simp add: control_cycle_def bridge_tick_def vcu_tick_def Let_def frames_torque_nth out_torque split: prod.split)
qed

lemma map_encode_replicate: "map (\<lambda>i. encode_torque (replicate 8 x ! i)) [0..<8] = replicate 8 (encode_torque x)"
  by (intro nth_equalityI) simp_all

text \<open>The torque of a cycle: the reachable part of a request, at most the session limit.\<close>

definition driven_by :: "double \<Rightarrow> 'c bridge_runtime \<Rightarrow> double \<Rightarrow> bool" where
  "driven_by dt s torque \<longleftrightarrow> (\<exists>normalized.
     torque = rise_limited_motor_torque_nm (torque_before (ci_gear (b_latest_intent s)) s)
       (bounded_motor_torque_nm normalized (session_torque_limit s)) (sc_motor_torque_rise_rate (b_speed_control s)) dt)"

lemma traction_blocks_driven:
  assumes "traction_blocks now intent fresh gear_ok measured dt s = (normalized, s2)"
    "traction_pid_active now intent fresh gear_ok s" "b_last_traction_torque_nm s2 \<noteq> Fin 0"
  shows "b_last_traction_torque_nm s2 = rise_limited_motor_torque_nm (torque_before (ci_gear intent) s)
    (bounded_motor_torque_nm normalized (session_torque_limit s)) (sc_motor_torque_rise_rate (b_speed_control s)) dt"
proof -
  have "dlt (Fin 0) (ci_longitudinal intent)" using assms(2) by (simp add: traction_pid_active_def)
  from normalized_active[OF this, of measured dt s] show ?thesis
    using assms normalized_inactive_fields[of True intent measured dt s]
    by (auto simp: traction_blocks_def Let_def torque_block_def session_torque_limit_def reset_direct_traction_def
      split: prod.splits if_splits)
qed

lemma tick_clock_conditions [simp]:
  "drive_requested (s\<lparr>b_last_control_tick := x\<rparr>) = drive_requested s"
  "drive_confirmed now (s\<lparr>b_last_control_tick := x\<rparr>) = drive_confirmed now s"
  "drive_permitted now (s\<lparr>b_last_control_tick := x\<rparr>) = drive_permitted now s"
  by (simp_all add: drive_requested_def drive_confirmed_def drive_permitted_def control_overdue_def
      silent_ms_def watchdog_reference_def speed_feedback_fresh_def gear_feedback_fresh_def feedback_id_fresh_def
      feedback_fresh_def Let_def cong: option.case_cong)

lemma cycle_driven:
  assumes "motor_torques (fst (control_cycle CC now s)) \<noteq> replicate 8 32000"
  shows "drive_requested s \<and> drive_confirmed now s \<and> drive_permitted now s \<and>
    (\<exists>torque. driven_by (control_dt now s) s torque \<and>
       b_last_traction_torque_nm (before_tick CC now s) = torque \<and>
       motor_torques (fst (control_cycle CC now s)) =
         replicate 8 (encode_torque (directional_motor_torque_nm (ci_gear (b_latest_intent s)) torque)))"
proof -
  define s0 where "s0 = s\<lparr>b_last_control_tick := Some now\<rparr>"
  define sf where "sf = feedback_watchdog now s0"
  define sw where "sw = check_control_watchdog now sf"
  have t: "before_tick CC now s = update_command_from_intent CC now (control_dt now s) sw"
    by (simp add: before_tick_def s0_def sf_def sw_def)
  let ?c = "b_controller (before_tick CC now s)"
  have traction: "traction (advance_state ?c)" and nz: "motor_torque_nm (desired ?c) \<noteq> replicate 8 (Fin 0)"
    using assms by (auto simp: cycle_torques Let_def encode_torque_zero map_encode_replicate split: if_splits)
  have armed: "armed ?c" using traction by (rule traction_advance)
  obtain intent fresh gear_ok measured s1 normalized s2 where u:
    "intent = (if b_latest_intent_valid sw then b_latest_intent sw else default_control_intent)"
    "fresh = speed_feedback_fresh now sw"
    "gear_ok \<longleftrightarrow> gear_feedback_fresh now sw \<and> fb_gear (feedback (b_controller sw)) = ci_gear intent"
    "tightens sw s1" "traction_pid_active now intent fresh gear_ok s1"
    "traction_blocks now intent fresh gear_ok measured (control_dt now s) s1 = (normalized, s2)"
    "motor_torque_nm (desired ?c) =
       replicate 8 (directional_motor_torque_nm (ci_gear intent) (b_last_traction_torque_nm s2))"
    "b_last_traction_torque_nm (before_tick CC now s) = b_last_traction_torque_nm s2"
    "\<not> b_chassis_control_fault_latched sw" "fb_emergency_switch (feedback (b_controller sw)) = 0"
    using armed nz unfolding t by (rule update_armed)
  have long: "dlt (Fin 0) (ci_longitudinal intent)" using u(5) by (simp add: traction_pid_active_def)
  then have valid: "b_latest_intent_valid sw" "intent = b_latest_intent sw"
    using u(1) by (auto simp: default_control_intent_def split: if_splits)
  then have w: "\<not> control_overdue now sf" "sw = sf" using watchdog_quiet[of now sf] long by (simp_all add: sw_def)
  have f: "sf = s0" "b_feedback_watchdog_armed s0 \<Longrightarrow> speed_safety_active_state (vstate (b_controller s0)) \<Longrightarrow>
      feedback_fresh now s0"
    using feedback_watchdog_quiet[of now s0] long valid(2) unfolding w(2) sf_def by blast+
  have sw0: "sw = s0" using w f by simp
  have ready: "vstate (b_controller s0) = Ready"
    using u(4,5) unfolding sw0 by (auto simp: tightens_def traction_pid_active_def vcu_ready_def)
  have "drive_requested s0" "drive_confirmed now s0" "drive_permitted now s0"
    using u(2-5,9,10) w(1) f ready valid unfolding sw0
    by (auto simp: drive_requested_def drive_confirmed_def drive_permitted_def tightens_def traction_pid_active_def
      speed_safety_active_state_def)
  then have cond: "drive_requested s" "drive_confirmed now s" "drive_permitted now s"
    by (simp_all add: s0_def)
  have nonzero: "b_last_traction_torque_nm s2 \<noteq> Fin 0" using nz u(7) by auto
  have b: "torque_before (ci_gear intent) s1 = torque_before (ci_gear (b_latest_intent s)) s"
    "session_torque_limit s1 = session_torque_limit s" "b_speed_control s1 = b_speed_control s"
    using u(4,5) valid(2) unfolding sw0
    by (simp_all add: tightens_def torque_before_def session_torque_limit_def traction_pid_active_def s0_def)
  have "driven_by (control_dt now s) s (b_last_traction_torque_nm s2)"
    using traction_blocks_driven[OF u(6,5) nonzero] unfolding driven_by_def b by blast
  moreover have "motor_torques (fst (control_cycle CC now s)) =
      replicate 8 (encode_torque (directional_motor_torque_nm (ci_gear (b_latest_intent s)) (b_last_traction_torque_nm s2)))"
    using traction u(7) valid(2) unfolding sw0
    by (simp add: cycle_torques Let_def map_encode_replicate s0_def)
  ultimately show ?thesis using cond u(8) by blast
qed

text \<open>
  C7. No traction without authority: a control cycle of the bridge transmits zero torque in all
  eight motor frames, unless the stored intent asks for traction in a driving gear under an
  active runtime profile, the controller is Ready with the emergency switch released and fresh
  speed and gear feedback that matches the intent, and no fault, overspeed or physical emergency
  is latched, no software stop stands without a requested release, and neither watchdog is due.
\<close>

theorem bridge_traction_authorised:
  "motor_torques (fst (control_cycle CC now s)) = replicate 8 32000 \<or>
   drive_requested s \<and> drive_confirmed now s \<and> drive_permitted now s"
  using cycle_driven by blast

text \<open>The gear of a cycle with torque is a driving gear.\<close>

lemma requested_gear: "drive_requested s \<Longrightarrow> ci_gear (b_latest_intent s) = 2 \<or> ci_gear (b_latest_intent s) = 3"
  by (simp add: drive_requested_def driving_gear_def)

text \<open>
  A bridge that drives: a chassis library that asks for no brake, and a runtime in Ready with an
  intent for traction in drive and a session limit of 100 Nm.
\<close>

definition demo_chassis :: "unit chassis_control" where
  "demo_chassis = \<lparr>cc_initialize = (\<lambda>_ c. (Inr True, c)), cc_update = (\<lambda>_ c. (Inr True, c)),
     cc_controls = (\<lambda>_. replicate 8 \<lparr>wc_wheel_torque = Fin 0, wc_wheel_speed = Fin 0, wc_eps_ang_req = Fin 0,
        wc_eps_ang_spd_req = Fin 0, wc_ehb_brk_pres_req = Fin 0\<rparr>)\<rparr>"

definition demo_controller :: parallel_controller where
  "demo_controller = vcu_reset\<lparr>vstate := Ready, desired := default_command\<lparr>cmd_gear := 3\<rparr>,
     feedback := default_feedback\<lparr>fb_gear := 3, fb_gear_valid := True, fb_speed_valid := True\<rparr>\<rparr>"

definition demo_runtime :: "unit bridge_runtime" where
  "demo_runtime = (runtime_new (Fin 300) 800
       (default_speed_control\<lparr>sc_enabled := True, sc_hard_speed_limit_mps := Fin 20\<rparr>) True (Fin 100) ())
     \<lparr>b_controller := demo_controller, b_running := True, b_last_seen := (\<lambda>_. Some 0),
      b_runtime_control := default_runtime_control\<lparr>rt_active := True, rt_max_motor_torque_nm := Fin 100,
        rt_target_speed_limit_mps := Fin 10\<rparr>,
      b_latest_intent := default_control_intent\<lparr>ci_gear := 3, ci_target_speed_mps := Fin 5,
        ci_longitudinal := Fin (1 / 2)\<rparr>,
      b_latest_intent_valid := True, b_last_control_tick := Some 0\<rparr>"

lemma demo_limit: "session_torque_limit demo_runtime = Fin 100" "ci_gear (b_latest_intent demo_runtime) = 3"
  by (simp_all add: session_torque_limit_def demo_runtime_def default_runtime_control_def runtime_new_def dmin_def)

text \<open>
  C16. The torque is limited: all eight motor frames of a cycle carry the same torque, which is
  zero or at most the smaller of the session's limit, the full scale of the vehicle and 640 Nm,
  in steps of 0.1 Nm and forward in drive, backward in reverse.
\<close>

theorem bridge_torque_limited:
  assumes "is_double (session_torque_limit s)"
  shows "\<exists>d. motor_torques (fst (control_cycle CC now s)) = replicate 8 (word_of_int (32000 + d)) \<and>
    (d = 0 \<or> (\<exists>l. session_torque_limit s = Fin l \<and> of_int \<bar>d\<bar> \<le> 10 * min l 640 + 1 / 2 ^ 35 \<and>
       ci_gear (b_latest_intent s) = (if 0 < d then 3 else 2)))"
proof (cases "motor_torques (fst (control_cycle CC now s)) = replicate 8 32000")
  case True
  then show ?thesis by (intro exI[of _ 0]) simp
next
  case False
  let ?g = "ci_gear (b_latest_intent s)"
  from cycle_driven[OF False] obtain torque where g: "?g = 2 \<or> ?g = 3" and
    t: "driven_by (control_dt now s) s torque" and
    m: "motor_torques (fst (control_cycle CC now s)) = replicate 8 (encode_torque (directional_motor_torque_nm ?g torque))"
    using requested_gear by blast
  from t obtain n where n: "torque = rise_limited_motor_torque_nm (torque_before ?g s)
      (bounded_motor_torque_nm n (session_torque_limit s)) (sc_motor_torque_rise_rate (b_speed_control s)) (control_dt now s)"
    unfolding driven_by_def by blast
  obtain k where k: "encode_torque (directional_motor_torque_nm ?g torque) = word_of_int (32000 + (if ?g = 3 then k else - k))"
    "0 \<le> k" "k = 0 \<or> (\<exists>l. session_torque_limit s = Fin l \<and> of_int k \<le> 10 * min l 640 + 1 / 2 ^ 35)"
    using limited_steps[OF assms g n] .
  show ?thesis
    using m k g by (intro exI[of _ "if ?g = 3 then k else - k"]) auto
qed

theorem bridge_torque_limited_witness:
  "\<exists>d. motor_torques (fst (control_cycle demo_chassis 20000000 demo_runtime)) = replicate 8 (word_of_int (32000 + d)) \<and>
     \<bar>d\<bar> \<le> 1000"
proof -
  have "is_double (session_torque_limit demo_runtime)"
    using is_double_of_int[of 100] by (simp add: demo_limit)
  from bridge_torque_limited[OF this, of demo_chassis 20000000] obtain d where d:
    "motor_torques (fst (control_cycle demo_chassis 20000000 demo_runtime)) = replicate 8 (word_of_int (32000 + d))"
    "d = 0 \<or> of_int \<bar>d\<bar> \<le> (1001 :: rat) - 1 / 2"
    by (auto simp: demo_limit)
  then have "\<bar>d\<bar> \<le> 1000" by linarith
  with d show ?thesis by blast
qed

text \<open>
  The torque rises no faster than the rate of the session: the torque of a cycle is zero or
  at most the torque before (zero after a change of gear), plus the rate times the elapsed time
  unless the rate is zero, which means unlimited.
\<close>

theorem bridge_torque_rise:
  "motor_torques (fst (control_cycle CC now s)) = replicate 8 32000 \<or>
   (let torque = b_last_traction_torque_nm (before_tick CC now s);
        start = torque_before (ci_gear (b_latest_intent s)) s;
        rate = sc_motor_torque_rise_rate (b_speed_control s)
    in motor_torques (fst (control_cycle CC now s)) =
         replicate 8 (encode_torque (directional_motor_torque_nm (ci_gear (b_latest_intent s)) torque)) \<and>
       (dle torque start \<or> deq rate (Fin 0) \<or> dle torque (dadd start (dmul rate (control_dt now s)))))"
proof (cases "motor_torques (fst (control_cycle CC now s)) = replicate 8 32000")
  case False
  let ?g = "ci_gear (b_latest_intent s)"
  from cycle_driven[OF False] obtain torque where t: "driven_by (control_dt now s) s torque" and
    b: "b_last_traction_torque_nm (before_tick CC now s) = torque" and
    m: "motor_torques (fst (control_cycle CC now s)) = replicate 8 (encode_torque (directional_motor_torque_nm ?g torque))"
    by blast
  have "dlt (Fin 0) torque"
  proof (rule ccontr)
    assume "\<not> dlt (Fin 0) torque"
    then have "directional_motor_torque_nm ?g torque = Fin 0"
      by (cases torque) (auto simp: directional_motor_torque_nm_def dle_def)
    with m False show False by (simp add: encode_torque_zero)
  qed
  then have "dle torque (torque_before ?g s) \<or> deq (sc_motor_torque_rise_rate (b_speed_control s)) (Fin 0) \<or>
      dle torque (dadd (torque_before ?g s) (dmul (sc_motor_torque_rise_rate (b_speed_control s)) (control_dt now s)))"
    using t rise_limited unfolding driven_by_def by metis
  then show ?thesis using m b unfolding Let_def by simp
qed simp

end
