(* ===== verification/Bridge_Runs.thy ===== *)
theory Bridge_Runs
  imports Bridge_Safety
begin

text \<open>
  Runs of the bridge: the operations of the agent and the locked sections of the I/O loop as
  events. The latches of the bridge, the software stop and the settings are followed through
  every operation by one relation, \<open>retains\<close>.
\<close>

subsection \<open>Events\<close>

datatype bridge_event =
    ApplyIntent int int double double "double list" bool
  | ConfigureV1 int bridge_runtime_control_config_v3
  | ConfigureV2 int bridge_runtime_control_config_v3
  | ConfigureV3 int bridge_runtime_control_config_v3
  | ClearProfile
  | StopContext bridge_stop_context_v1
  | StopNow
  | RequestHandshake int
  | RequestPark
  | FailApply
  | Inject int bridge_feedback
  | Poll
  | BeginClose
  | Drain "receive_outcome list"
  | Cycle int
  | Sent bool
  | IoFailed

text \<open>The frames an event transmits and the runtime after it. The loop ends when \<open>running\<close> is reset.\<close>

fun bridge_step :: "'c chassis_control \<Rightarrow> bridge_event \<Rightarrow> 'c bridge_runtime \<Rightarrow> can_frame list \<times> 'c bridge_runtime" where
  "bridge_step CC (ApplyIntent now g v a st op) s = ([], snd (store_intent now g v a st op s))"
| "bridge_step CC (ConfigureV1 now c) s = ([], snd (configure_runtime_control_v1 now c s))"
| "bridge_step CC (ConfigureV2 now c) s = ([], snd (configure_runtime_control_v2 now c s))"
| "bridge_step CC (ConfigureV3 now c) s = ([], snd (configure_runtime_control_v3 now c s))"
| "bridge_step CC ClearProfile s = ([], snd (clear_runtime_control s))"
| "bridge_step CC (StopContext ctx) s = ([], snd (set_stop_context ctx s))"
| "bridge_step CC StopNow s = ([], snd (bridge_emergency_stop s))"
| "bridge_step CC (RequestHandshake now) s = ([], snd (bridge_request_handshake now s))"
| "bridge_step CC RequestPark s = ([], snd (bridge_request_park s))"
| "bridge_step CC FailApply s = ([], fail_control_apply s)"
| "bridge_step CC (Inject now f) s = ([], inject now f s)"
| "bridge_step CC Poll s = ([], snd (poll s))"
| "bridge_step CC BeginClose s = ([], close_begin s)"
| "bridge_step CC (Drain rx) s = ([], if b_running s then drain_bus rx s else s)"
| "bridge_step CC (Cycle now) s = (if b_running s then control_cycle CC now s else ([], s))"
| "bridge_step CC (Sent ok) s = ([], if b_running s then sent_frames ok s else s)"
| "bridge_step CC IoFailed s = ([], io_thread_failed s)"

subsection \<open>Controller states without authority\<close>

abbreviation unarmed :: "parallel_controller \<Rightarrow> bool" where
  "unarmed c \<equiv> vstate c \<notin> armed_states"

lemma unarmed_stop [simp]: "unarmed c \<Longrightarrow> unarmed (emergency_stop c)" "unarmed (transport_fault c)"
  "unarmed (clear_emergency_stop c) \<longleftrightarrow> unarmed c" "unarmed (set_automatic_parking e r f b c) \<longleftrightarrow> unarmed c"
  by (simp_all add: armed_states_def emergency_stop_def begin_arming_emergency_disarm_def transport_fault_def
    vcu_enter_def split: vcu_state.split)

lemma unarmed_set_command [simp]: "unarmed c \<Longrightarrow> unarmed (snd (set_command cmd c))"
  by (cases "vstate c") (simp_all add: set_command_def Let_def armed_states_def emergency_stop_def
    begin_arming_emergency_disarm_def)

lemma unarmed_disarm [simp]: "unarmed c \<Longrightarrow> unarmed (request_disarm c)"
  by (cases "vstate c") (simp_all add: request_disarm_def Let_def armed_states_def vcu_enter_def)

lemma unarmed_advance [simp]: "unarmed c \<Longrightarrow> unarmed (advance_state c)"
  by (cases "vstate c") (simp_all add: advance_state_def advance_switch_def begin_arming_emergency_disarm_def
    armed_states_def vcu_enter_def)

lemma unarmed_ingest [simp]:
  assumes "unarmed c"
  shows "unarmed (snd (ingest frame c))"
proof (cases frame c rule: ingest_cases)
  case handshake
  then show ?thesis using assms
    by (auto simp: ingest_handshake_def next_generation_def Let_def armed_states_def transport_fault_def vcu_enter_def)
next
  case status
  then show ?thesis using assms
    by (auto simp: ingest_vehicle_status_def next_generation_def Let_def armed_states_def
      begin_arming_emergency_disarm_def vcu_enter_def split: vcu_state.splits)
next
  case other
  then show ?thesis using assms by (simp add: same_control_def)
qed

subsection \<open>Provenance of a stop\<close>

text \<open>The cause of the standing stop and the number of stops so far.\<close>

abbreviation provenance :: "'c bridge_runtime \<Rightarrow> uint32 \<times> uint32 \<times> uint64" where
  "provenance s \<equiv> (b_stop_source s, b_stop_reason s, b_stop_sequence s)"

definition proper_cause :: "uint32 \<Rightarrow> uint32 \<Rightarrow> bool" where
  "proper_cause source reason \<longleftrightarrow> valid_stop_source source \<and> valid_stop_reason reason \<and>
     source \<noteq> source_none \<and> reason \<noteq> reason_none"

inductive provenance_edge :: "uint32 \<times> uint32 \<times> uint64 \<Rightarrow> uint32 \<times> uint32 \<times> uint64 \<Rightarrow> bool" where
  first: "proper_cause a r \<Longrightarrow> provenance_edge (source_none, r0, n) (a, r, n + 1)"
| physical: "a \<noteq> source_physical_emergency \<Longrightarrow> proper_cause source_physical_emergency r \<Longrightarrow>
    provenance_edge (a, r0, n) (source_physical_emergency, r, n + 1)"

inductive_simps provenance_edge_simps: "provenance_edge p q"

text \<open>\<open>caused s t\<close>: no cause is released or replaced between the two, but by a physical emergency.\<close>

abbreviation caused :: "'c bridge_runtime \<Rightarrow> 'c bridge_runtime \<Rightarrow> bool" where
  "caused s t \<equiv> provenance_edge\<^sup>*\<^sup>* (provenance s) (provenance t)"

lemma unknown_cause: "proper_cause source_unknown reason_legacy_unspecified"
  by (simp add: proper_cause_def valid_stop_source_def valid_stop_reason_def source_defs reason_defs)

lemma provenance_latch [simp]:
  assumes "b_stop_source s = x" "b_stop_reason s = y" "b_stop_sequence s = z"
  shows "provenance_edge\<^sup>*\<^sup>* (x, y, z) (provenance (latch_stop_provenance a r s))"
proof -
  define bad where "bad \<longleftrightarrow> \<not> proper_cause a r"
  define a' where "a' = (if bad then source_unknown else a)"
  define r' where "r' = (if bad then reason_legacy_unspecified else r)"
  have cause: "proper_cause a' r'" using unknown_cause by (simp add: a'_def r'_def bad_def)
  have l: "latch_stop_provenance a r s = (if x \<noteq> source_none \<and> \<not> (a' = source_physical_emergency \<and> x \<noteq> source_physical_emergency)
      then s else set_provenance a' r' (s\<lparr>b_pending_stop := no_stop, b_stop_sequence := z + 1\<rparr>))"
    using assms by (simp add: latch_stop_provenance_def Let_def a'_def r'_def bad_def proper_cause_def)
  show ?thesis
    using assms cause unfolding l by (auto simp: set_provenance_def provenance_edge_simps)
qed

subsection \<open>What operations retain\<close>

definition held_stop :: "'c bridge_runtime \<Rightarrow> bool" where
  "held_stop s \<longleftrightarrow> b_software_estop s \<and> \<not> b_clear_soft_stop_requested s"

definition dead_stop :: "'c bridge_runtime \<Rightarrow> bool" where
  "dead_stop s \<longleftrightarrow> b_software_estop s \<and> unarmed (b_controller s)"

definition retains :: "'c bridge_runtime \<Rightarrow> 'c bridge_runtime \<Rightarrow> bool" where
  "retains s t \<longleftrightarrow>
     (b_chassis_control_fault_latched s \<longrightarrow> b_chassis_control_fault_latched t) \<and>
     (b_hard_overspeed_latched s \<longrightarrow> b_hard_overspeed_latched t) \<and>
     (held_stop s \<longrightarrow> held_stop t) \<and> (dead_stop s \<longrightarrow> dead_stop t) \<and>
     b_runtime_control t = b_runtime_control s \<and> b_speed_control t = b_speed_control s \<and>
     b_open_speed_control t = b_open_speed_control s \<and>
     b_full_scale_motor_torque_nm t = b_full_scale_motor_torque_nm s \<and>
     b_max_ordinary_brake_pressure_bar t = b_max_ordinary_brake_pressure_bar s"

lemma retains_refl [simp]: "retains s s"
  by (simp add: retains_def)

lemma retains_trans [trans]: "retains s t \<Longrightarrow> retains t u \<Longrightarrow> retains s u"
  unfolding retains_def by (elim conjE, intro conjI) argo+

lemmas stop_defs = held_stop_def dead_stop_def

lemma retains_I:
  assumes "b_chassis_control_fault_latched s \<Longrightarrow> b_chassis_control_fault_latched t"
    "b_hard_overspeed_latched s \<Longrightarrow> b_hard_overspeed_latched t"
    "b_software_estop s \<Longrightarrow> \<not> b_clear_soft_stop_requested s \<Longrightarrow> b_software_estop t \<and> \<not> b_clear_soft_stop_requested t"
    "b_software_estop s \<Longrightarrow> unarmed (b_controller s) \<Longrightarrow> b_software_estop t \<and> unarmed (b_controller t)"
    "b_runtime_control t = b_runtime_control s" "b_speed_control t = b_speed_control s"
    "b_open_speed_control t = b_open_speed_control s"
    "b_full_scale_motor_torque_nm t = b_full_scale_motor_torque_nm s"
    "b_max_ordinary_brake_pressure_bar t = b_max_ordinary_brake_pressure_bar s"
  shows "retains s t"
  unfolding retains_def stop_defs using assms by simp

lemma retains_latch [simp]: "retains s (latch_stop_provenance a r s)"
  by (rule retains_I) simp_all

lemma retains_withdraw [simp]: "retains s (withdraw_latest_traction s)"
  by (rule retains_I) simp_all

lemma retains_pid [simp]: "retains s (reset_speed_pid s)" "retains s (reset_direct_traction s)"
  by (rule retains_I; simp)+

lemma retains_feedback [simp]: "retains s (update_feedback s)"
  by (rule retains_I) simp_all

text \<open>A stop: the controller is stopped or faulted, and the software stop is set.\<close>

lemma retains_stop:
  "(\<And>c. unarmed c \<Longrightarrow> unarmed (f c)) \<Longrightarrow> retains s ((on_controller f s)\<lparr>b_software_estop := True\<rparr>)"
  by (rule retains_I) simp_all

lemma retains_physical: "retains s (physical_block s)"
  by (rule retains_I) (simp_all add: physical_block_def Let_def)

lemma retains_overspeed_stop: "retains s (overspeed_stop r s)"
  by (rule retains_I) simp_all

lemma retains_arming: "retains s (arming_motion_block st fresh s)"
  by (simp add: arming_motion_block_def retains_overspeed_stop)

lemma retains_overspeed: "retains s (overspeed_block st fresh s)"
  by (simp add: overspeed_block_def retains_overspeed_stop)

lemma retains_clear_soft_stop: "retains s (clear_soft_stop_block fresh gear_ok s)"
  by (rule retains_I) (auto simp: clear_soft_stop_block_def vcu_ready_def armed_states_def)

lemma retains_parking: "retains s (parking_block now fresh measured s)"
  by (rule retains_I) (simp_all add: parking_block_def)

lemma retains_safety: "retains s (safety_blocks now st fresh gear_ok measured s)"
  unfolding safety_blocks_def
  by (rule retains_trans[OF retains_trans[OF retains_trans[OF retains_trans[OF
    retains_physical retains_arming] retains_overspeed] retains_clear_soft_stop] retains_parking])

lemma retains_normalized: "retains s (snd (normalized_block active intent measured dt s))"
  by (rule retains_I) (simp_all add: normalized_block_def adopt_setpoint_def Let_def split: prod.split)

lemma retains_torque: "retains s (torque_block active normalized dt s)"
  by (rule retains_I) (simp_all add: torque_block_def)

lemma retains_traction: "retains s (snd (traction_blocks now intent fresh gear_ok measured dt s))"
  unfolding traction_blocks_def Let_def case_prod_beta snd_conv
  by (rule retains_trans[OF retains_normalized retains_torque])

lemma retains_chassis_command: "retains s (snd (chassis_command CC intent fresh measured normalized s))"
proof -
  obtain r s' where c: "chassis_command CC intent fresh measured normalized s = (r, s')" by fastforce
  have "retains s (s\<lparr>b_chassis := b_chassis s'\<rparr>)" by (rule retains_I) simp_all
  then show ?thesis using chassis_command_frame[OF c] c by simp
qed

lemma retains_command: "retains s (command_block cmd s)"
proof -
  obtain ok c where c: "set_command cmd (b_controller s) = (ok, c)" by fastforce
  then have "unarmed (b_controller s) \<Longrightarrow> unarmed c" using unarmed_set_command[of "b_controller s" cmd] by simp
  then show ?thesis by (intro retains_I) (simp_all add: command_block_def Let_def c)
qed

lemma retains_faulted: "retains s (faulted_block s)"
  by (rule retains_I) (simp_all add: faulted_block_def Let_def)

lemma retains_chassis_fault: "retains s (latch_chassis_control_fault s)"
  by (rule retains_I) (simp_all add: latch_chassis_control_fault_def)

lemma retains_update: "retains s (update_command_from_intent CC now dt s)"
proof (cases "b_chassis_control_fault_latched s")
  case True
  then show ?thesis by (simp add: update_command_from_intent_def retains_faulted)
next
  case False
  have "retains s (case cmd of None \<Rightarrow> latch_chassis_control_fault s3 | Some c \<Rightarrow> command_block c s3)"
    if "retains s s3" for cmd s3
    using that retains_trans[OF _ retains_command] retains_trans[OF _ retains_chassis_fault] by (cases cmd) auto
  moreover have "retains s s3" if "traction_blocks now intent fresh gear_ok measured dt
      (safety_blocks now st fresh gear_ok measured s) = (n, s2)" "chassis_command CC intent fresh measured n s2 = (cmd, s3)"
    for intent fresh gear_ok measured st n s2 cmd s3
    using retains_trans[OF retains_trans[OF retains_safety retains_traction] retains_chassis_command] that
    by (metis snd_conv)
  ultimately show ?thesis using False by (auto simp: update_command_from_intent_def Let_def split: prod.split)
qed

lemma retains_control_watchdog: "retains s (check_control_watchdog now s)"
  by (rule retains_I) (simp_all add: watchdog_due)

lemma retains_feedback_watchdog: "retains s (feedback_watchdog now s)"
  by (rule retains_I) (simp_all add: feedback_watchdog_def Let_def)

lemma retains_before_tick: "retains s (before_tick CC now s)"
proof -
  have "retains s (s\<lparr>b_last_control_tick := Some now\<rparr>)" by (rule retains_I) simp_all
  then show ?thesis unfolding before_tick_def
    by (rule retains_trans[OF retains_trans[OF retains_trans[OF _ retains_feedback_watchdog]
      retains_control_watchdog] retains_update])
qed

lemma retains_tick: "retains s (snd (bridge_tick s))"
  by (rule retains_I) (simp_all add: bridge_tick_def vcu_tick_def Let_def)

lemma retains_revocation: "retains s (revocation_block s)"
  by (rule retains_I) (simp_all add: revocation_block_def)

lemma retains_state_fault: "retains s (state_fault_block st s)"
  by (rule retains_I) (auto simp: state_fault_block_def)

lemma retains_session: "retains s (session_block now s)" "retains s (arming_deadline_block now s)"
  by (rule retains_I; auto simp: session_block_def arming_deadline_block_def Let_def split: if_splits)+

lemma retains_after_tick: "retains s (after_tick now st s)"
  unfolding after_tick_def
  by (rule retains_trans[OF retains_trans[OF retains_trans[OF retains_trans[OF
    retains_revocation retains_state_fault] retains_session(1)] retains_session(2)] retains_feedback])

lemma retains_cycle: "retains s (snd (control_cycle CC now s))"
  unfolding control_cycle_def case_prod_beta Let_def snd_conv
  by (rule retains_trans[OF retains_trans[OF retains_before_tick retains_tick] retains_after_tick])

lemma retains_ingest: "retains s (ingest_locked now frame s)"
proof -
  obtain ok c where c: "ingest frame (b_controller s) = (ok, c)" by fastforce
  then have "unarmed (b_controller s) \<Longrightarrow> unarmed c" using unarmed_ingest[of "b_controller s" frame] by simp
  then show ?thesis by (intro retains_I) (simp_all add: ingest_locked_def Let_def c)
qed

lemma retains_receive_failed: "retains s (receive_failed code s)"
  by (rule retains_I) (simp_all add: receive_failed_def)

lemma retains_drain: "retains s (drain_bus rx s)"
proof (induction rx s rule: drain_bus.induct)
  case (2 now frame rx s)
  then show ?case using retains_trans[OF retains_ingest] by simp
qed (simp_all add: retains_receive_failed)

lemma retains_sent: "retains s (sent_frames ok s)"
  by (rule retains_I) (simp_all add: sent_frames_def Let_def)

lemma retains_io_failed: "retains s (io_thread_failed s)"
  by (rule retains_I) (simp_all add: io_thread_failed_def)

lemma retains_set_stop_context: "retains s (snd (set_stop_context ctx s))"
  by (rule retains_I) (simp_all add: set_stop_context_def Let_def)

lemma retains_emergency_stop: "retains s (snd (bridge_emergency_stop s))"
  by (rule retains_I) (simp_all add: bridge_emergency_stop_def consume_stop_context_def Let_def)

lemma retains_park: "retains s (snd (bridge_request_park s))"
  by (rule retains_I) (simp_all add: bridge_request_park_def consume_stop_context_def Let_def)

lemma retains_fail_apply: "retains s (fail_control_apply s)"
  by (rule retains_I) (simp_all add: fail_control_apply_def)

lemma retains_inject: "retains s (inject now f s)"
proof -
  have "retains s (foldl (\<lambda>s frame. ingest_locked now frame s) s frames)" for frames
  proof (induction frames arbitrary: s)
    case (Cons frame frames)
    show ?case unfolding foldl.simps by (rule retains_trans[OF retains_ingest Cons.IH])
  qed simp
  then show ?thesis by (simp add: inject_def)
qed

lemma retains_poll: "retains s (snd (poll s))"
  by (rule retains_I) (simp_all add: poll_def Let_def)

lemma retains_close: "retains s (close_begin s)"
  by (rule retains_I) (simp_all add: close_begin_def consume_stop_context_def Let_def)

lemmas retains_operations = retains_set_stop_context retains_emergency_stop retains_park retains_fail_apply
  retains_inject retains_poll retains_close retains_drain retains_cycle retains_sent retains_io_failed

text \<open>The events that neither ask for motion, change the profile nor start a session.\<close>

fun no_request :: "bridge_event \<Rightarrow> bool" where
  "no_request (ApplyIntent _ _ _ _ _ _) = False"
| "no_request (ConfigureV1 _ _) = False"
| "no_request (ConfigureV2 _ _) = False"
| "no_request (ConfigureV3 _ _) = False"
| "no_request ClearProfile = False"
| "no_request (RequestHandshake _) = False"
| "no_request _ = True"

lemma retains_step: "no_request e \<Longrightarrow> retains s (snd (bridge_step CC e s))"
  by (cases e) (simp_all add: retains_operations)

text \<open>What the other operations change.\<close>

definition latches :: "'c bridge_runtime \<Rightarrow> 'c bridge_runtime \<Rightarrow> bool" where
  "latches s t \<longleftrightarrow> (b_chassis_control_fault_latched s \<longrightarrow> b_chassis_control_fault_latched t) \<and>
     (b_hard_overspeed_latched s \<longrightarrow> b_hard_overspeed_latched t) \<and> (dead_stop s \<longrightarrow> dead_stop t) \<and>
     b_open_speed_control t = b_open_speed_control s \<and>
     b_full_scale_motor_torque_nm t = b_full_scale_motor_torque_nm s \<and>
     b_max_ordinary_brake_pressure_bar t = b_max_ordinary_brake_pressure_bar s"

lemma retains_latches: "retains s t \<Longrightarrow> latches s t"
  by (simp add: retains_def latches_def)

lemma latches_withdraw_intent: "latches s (withdraw_intent s)"
  by (simp add: latches_def dead_stop_def withdraw_intent_def Let_def)

lemma latches_hold: "latches s (hold_rejected_gear a s)"
  by (simp add: latches_def dead_stop_def hold_rejected_gear_def Let_def)

lemma latches_store_intent: "latches s (snd (store_intent now g v a st op s))"
  by (simp add: store_intent_def store_intent_checked_def refuse_gear_change_def accept_intent_def
    retains_latches latches_hold Let_def)
    (simp add: latches_def dead_stop_def hold_rejected_gear_def Let_def)

lemma latches_install: "latches s (install_runtime_control now r p c s)"
  by (simp add: install_runtime_control_def latches_def dead_stop_def withdraw_intent_def Let_def)

lemma latches_configure: "latches s (snd (configure_runtime_control now n v r p c s))"
  by (simp add: configure_runtime_control_def Let_def latches_install)
    (simp add: latches_def dead_stop_def install_runtime_control_def recover_arming_timeout_def withdraw_intent_def Let_def)

lemma latches_clear: "latches s (snd (clear_runtime_control s))"
  by (simp add: clear_runtime_control_def latches_def dead_stop_def withdraw_intent_def Let_def)

text \<open>A software stop is held by the operations on the profile as well.\<close>

lemma held_install: "held_stop (install_runtime_control now r p c s) = held_stop s"
  by (simp add: install_runtime_control_def held_stop_def withdraw_intent_def Let_def)

lemma held_configure: "held_stop s \<Longrightarrow> held_stop (snd (configure_runtime_control now n v r p c s))"
  by (simp add: configure_runtime_control_def Let_def held_install)
    (simp add: held_stop_def recover_arming_timeout_def)

lemma held_clear: "held_stop s \<Longrightarrow> held_stop (snd (clear_runtime_control s))"
  by (simp add: clear_runtime_control_def held_stop_def withdraw_intent_def Let_def)

lemmas configure_defs = configure_runtime_control_v1_def configure_runtime_control_v2_def
  configure_runtime_control_v3_def

lemma fault_handshake:
  "b_chassis_control_fault_latched (snd (bridge_request_handshake now s)) = b_chassis_control_fault_latched s"
  by (simp add: bridge_request_handshake_def fresh_session_def recover_arming_timeout_def Let_def split: prod.split)

lemma step_cases:
  assumes "\<And>now g v a st op. e = ApplyIntent now g v a st op \<Longrightarrow> P (snd (store_intent now g v a st op s))"
    "\<And>now n v r p c. P (snd (configure_runtime_control now n v r p c s))" "P s"
    "P (snd (clear_runtime_control s))"
    "\<And>now. e = RequestHandshake now \<Longrightarrow> P (snd (bridge_request_handshake now s))"
    "\<And>t. retains s t \<Longrightarrow> P t"
  shows "P (snd (bridge_step CC e s))"
proof (cases "no_request e")
  case True
  then show ?thesis using assms(6) retains_step by blast
next
  case False
  then show ?thesis using assms by (cases e) (simp_all add: configure_defs)
qed

subsection \<open>What becomes of a cause\<close>

lemma caused_trans: "caused s t \<Longrightarrow> caused t u \<Longrightarrow> caused s u"
  by (rule rtranclp_trans)

lemma caused_requests:
  "caused s (snd (store_intent now g v a st op s))" "caused s (snd (configure_runtime_control now n w r p conf s))"
  "caused s (snd (clear_runtime_control s))" "caused s (snd (set_stop_context ctx s))"
  "caused s (snd (bridge_emergency_stop s))" "caused s (snd (bridge_request_park s))" "caused s (fail_control_apply s)"
  "caused s (snd (poll s))" "caused s (close_begin s)"
  by (simp_all add: store_intent_def store_intent_checked_def refuse_gear_change_def accept_intent_def hold_rejected_gear_def
      configure_runtime_control_def install_runtime_control_def recover_arming_timeout_def withdraw_intent_def
      clear_runtime_control_def set_stop_context_def bridge_emergency_stop_def bridge_request_park_def
      fail_control_apply_def poll_def close_begin_def consume_stop_context_def Let_def)

lemma caused_io:
  "caused s (receive_failed code s)" "caused s (sent_frames ok s)" "caused s (io_thread_failed s)"
  "caused s (ingest_locked now frame s)"
  by (simp_all add: receive_failed_def sent_frames_def io_thread_failed_def ingest_locked_def Let_def split: prod.split)

lemma caused_drain: "caused s (drain_bus rx s)"
proof (induction rx s rule: drain_bus.induct)
  case (2 now frame rx s)
  then show ?case using caused_trans[OF caused_io(4)] by simp
qed (simp_all add: caused_io)

lemma caused_inject: "caused s (inject now f s)"
proof -
  have "caused s (foldl (\<lambda>s frame. ingest_locked now frame s) s frames)" for frames
    by (induction frames arbitrary: s) (auto intro: caused_trans[OF caused_io(4)])
  then show ?thesis by (simp add: inject_def)
qed

text \<open>A control cycle may release the software stop, and its cause, only from such a runtime.\<close>

definition releasable :: "'c bridge_runtime \<Rightarrow> bool" where
  "releasable s \<longleftrightarrow> b_clear_soft_stop_requested s \<and> vcu_ready (b_controller s) \<and>
     \<not> physical_emergency_latched (b_controller s) \<and> \<not> b_hard_overspeed_latched s"

lemma releasable_before:
  "releasable (physical_block s) \<Longrightarrow> releasable s" "releasable (arming_motion_block st fresh s) \<Longrightarrow> releasable s"
  "releasable (overspeed_block st fresh s) \<Longrightarrow> releasable s" "releasable (check_control_watchdog now s) \<Longrightarrow> releasable s"
  "releasable (feedback_watchdog now s) \<Longrightarrow> releasable s"
  by (auto simp: releasable_def physical_block_def arming_motion_block_def overspeed_block_def watchdog_due
      check_control_watchdog_def feedback_watchdog_def transport_fault_def vcu_enter_def vcu_ready_def Let_def split: if_splits)

lemma caused_blocks:
  "caused s (physical_block s)" "caused s (arming_motion_block st fresh s)" "caused s (overspeed_block st fresh s)"
  "caused s (check_control_watchdog now s)" "caused s (feedback_watchdog now s)" "caused s (parking_block now fresh measured s)"
  "caused s (torque_block active normalized dt s)" "caused s (snd (normalized_block active intent measured dt s))"
  "caused s (command_block cmd s)" "caused s (latch_chassis_control_fault s)" "caused s (faulted_block s)"
  "caused s (snd (bridge_tick s))" "caused s (revocation_block s)" "caused s (state_fault_block st s)"
  "caused s (session_block now s)" "caused s (arming_deadline_block now s)" "caused s (update_feedback s)"
  by (simp_all add: physical_block_def arming_motion_block_def overspeed_block_def overspeed_stop_def
      check_control_watchdog_def feedback_watchdog_def parking_block_def torque_block_def normalized_block_def adopt_setpoint_def
      command_block_def latch_chassis_control_fault_def faulted_block_def bridge_tick_def revocation_block_def
      state_fault_block_def session_block_def arming_deadline_block_def Let_def split: prod.split)

lemma caused_clear: "\<not> releasable s \<Longrightarrow> caused s (clear_soft_stop_block fresh gear_ok s)"
  by (auto simp: clear_soft_stop_block_def releasable_def)

lemma caused_safety:
  assumes "\<not> releasable s"
  shows "caused s (safety_blocks now st fresh gear_ok measured s)"
proof -
  let ?t = "overspeed_block st fresh (arming_motion_block st fresh (physical_block s))"
  have "caused s ?t" by (rule caused_trans[OF caused_trans[OF caused_blocks(1) caused_blocks(2)] caused_blocks(3)])
  moreover have "caused ?t (clear_soft_stop_block fresh gear_ok ?t)" using assms releasable_before by (blast intro: caused_clear)
  ultimately show ?thesis
    unfolding safety_blocks_def by (rule caused_trans[OF caused_trans caused_blocks(6)])
qed

lemma caused_update:
  assumes "\<not> releasable s"
  shows "caused s (update_command_from_intent CC now dt s)"
proof (cases "b_chassis_control_fault_latched s")
  case True
  then show ?thesis by (simp add: update_command_from_intent_def caused_blocks)
next
  case False
  have "caused s s3" if "traction_blocks now intent fresh gear_ok measured dt
      (safety_blocks now st fresh gear_ok measured s) = (n, s2)" "chassis_command CC intent fresh measured n s2 = (cmd, s3)"
    for intent fresh gear_ok measured st n s2 cmd s3
  proof -
    have "caused s s2"
      using that(1) caused_trans[OF caused_safety[OF assms] caused_trans[OF caused_blocks(8) caused_blocks(7)]]
      by (auto simp: traction_blocks_def case_prod_beta Let_def)
    moreover have "provenance s3 = provenance s2"
      using arg_cong[OF chassis_command_frame[OF that(2)], of provenance] by simp
    ultimately show ?thesis by simp
  qed
  moreover have "caused s (case cmd of None \<Rightarrow> latch_chassis_control_fault s3 | Some c \<Rightarrow> command_block c s3)"
    if "caused s s3" for cmd s3
    using caused_trans[OF that caused_blocks(9)] caused_trans[OF that caused_blocks(10)] by (cases cmd) simp_all
  ultimately show ?thesis
    unfolding update_command_from_intent_def Let_def case_prod_beta using False by (simp only: if_False) (metis prod.collapse)
qed

lemma caused_cycle:
  assumes "\<not> releasable s"
  shows "caused s (snd (control_cycle CC now s))"
proof -
  let ?s = "s\<lparr>b_last_control_tick := Some now\<rparr>"
  have "\<not> releasable (check_control_watchdog now (feedback_watchdog now ?s))"
    using assms releasable_before(4)[of now "feedback_watchdog now ?s"] releasable_before(5)[of now ?s]
    by (auto simp: releasable_def[of ?s] releasable_def[of s])
  then have "caused ?s (before_tick CC now s)"
    unfolding before_tick_def by (rule caused_trans[OF caused_trans[OF caused_blocks(5) caused_blocks(4)] caused_update])
  then have before: "caused s (before_tick CC now s)" by simp
  have after: "caused t (after_tick now st t)" for t st
    unfolding after_tick_def by (rule caused_trans[OF caused_trans[OF caused_trans[OF caused_trans[OF
      caused_blocks(13) caused_blocks(14)] caused_blocks(15)] caused_blocks(16)] caused_blocks(17)])
  show ?thesis
    unfolding control_cycle_def case_prod_beta Let_def snd_conv
    by (rule caused_trans[OF caused_trans[OF before caused_blocks(12)] after])
qed

text \<open>The events that may release a cause: a handshake request the gate admits, and a cycle in which a release is due.\<close>

fun may_release :: "bridge_event \<Rightarrow> 'c bridge_runtime \<Rightarrow> bool" where
  "may_release (RequestHandshake now) s = (b_running s \<and> handshake_gate now s)"
| "may_release (Cycle now) s = (b_running s \<and> releasable s)"
| "may_release e s = False"

fun unreleased :: "'c chassis_control \<Rightarrow> bridge_event list \<Rightarrow> 'c bridge_runtime \<Rightarrow> bool" where
  "unreleased CC [] s = True"
| "unreleased CC (e # es) s \<longleftrightarrow> \<not> may_release e s \<and> unreleased CC es (snd (bridge_step CC e s))"

lemma step_caused: "\<not> may_release e s \<Longrightarrow> caused s (snd (bridge_step CC e s))"
  by (cases e) (simp_all add: caused_requests caused_drain caused_inject caused_cycle caused_io configure_defs,
    auto simp: caused_cycle bridge_request_handshake_def Let_def)

lemma run_caused: "unreleased CC es s \<Longrightarrow> caused s (snd (run (bridge_step CC) es s))"
  by (induction es arbitrary: s) (auto intro: caused_trans[OF step_caused])

lemma edges_kept:
  assumes "provenance_edge\<^sup>*\<^sup>* p q" "fst p \<noteq> source_none"
  shows "q = p \<or> (fst p \<noteq> source_physical_emergency \<and> fst q = source_physical_emergency \<and>
    proper_cause (fst q) (fst (snd q)) \<and> snd (snd q) = snd (snd p) + 1)"
  using assms by (induction rule: rtranclp_induct) (auto simp: provenance_edge_simps source_defs)

lemma edges_first:
  assumes "provenance_edge\<^sup>*\<^sup>* p q"
  shows "q = p \<or> proper_cause (fst q) (fst (snd q))"
  using assms by (induction rule: rtranclp_induct) (auto simp: provenance_edge_simps)

text \<open>
  C21. The cause of a stop is kept: through every sequence of operations in which no event
  releases the stop - a handshake request admitted by its gate, or a control cycle in Ready in
  which a new intent has asked for the release and neither a physical emergency nor an overspeed
  is latched - a recorded source, reason and count stay as they are, unless a physical emergency
  supersedes another cause, once and counted. A cause recorded where none stood is a proper one.
\<close>

theorem bridge_stop_provenance:
  assumes "unreleased CC es s" "t = snd (run (bridge_step CC) es s)"
  shows "if b_stop_source s \<noteq> source_none
    then provenance t = provenance s \<or>
      (b_stop_source s \<noteq> source_physical_emergency \<and> b_stop_source t = source_physical_emergency \<and>
       proper_cause (b_stop_source t) (b_stop_reason t) \<and> b_stop_sequence t = b_stop_sequence s + 1)
    else provenance t = provenance s \<or> proper_cause (b_stop_source t) (b_stop_reason t)"
proof -
  have c: "caused s t" unfolding assms(2) using assms(1) by (rule run_caused)
  show ?thesis using edges_kept[OF c] edges_first[OF c] by auto
qed

text \<open>A stop requested by the operator, then a failed application: the first cause stands.\<close>

theorem bridge_stop_provenance_witness:
  "provenance (snd (run (bridge_step demo_chassis) [FailApply, Cycle 20000000] (snd (bridge_emergency_stop demo_runtime)))) =
   provenance (snd (bridge_emergency_stop demo_runtime)) \<or>
   b_stop_source (snd (run (bridge_step demo_chassis) [FailApply, Cycle 20000000] (snd (bridge_emergency_stop demo_runtime)))) =
     source_physical_emergency"
proof -
  have "unreleased demo_chassis [FailApply, Cycle 20000000] (snd (bridge_emergency_stop demo_runtime))"
    by (simp add: releasable_def) (simp add: fail_control_apply_def)
  moreover have "b_stop_source (snd (bridge_emergency_stop demo_runtime)) \<noteq> source_none"
    by (simp add: bridge_emergency_stop_def demo_runtime_def runtime_new_def consume_stop_context_def
        latch_stop_provenance_def set_provenance_def no_stop_def source_defs Let_def)
  ultimately show ?thesis using bridge_stop_provenance[OF _ refl] by metis
qed

subsection \<open>Stops\<close>

text \<open>The output of an event has no torque.\<close>

definition no_torque :: "bridge_event \<Rightarrow> can_frame list \<Rightarrow> bool" where
  "no_torque e frames \<longleftrightarrow> frames = [] \<or> motor_torques frames = replicate 8 32000"

lemma no_torque_step:
  assumes "\<And>now. \<not> (drive_confirmed now s \<and> drive_permitted now s)"
  shows "no_torque e (fst (bridge_step CC e s))"
  using assms cycle_driven by (cases e) (auto simp: no_torque_def)

fun no_resume :: "bridge_event \<Rightarrow> bool" where
  "no_resume (ApplyIntent _ _ _ _ _ _) = False"
| "no_resume (RequestHandshake _) = False"
| "no_resume _ = True"

definition stopped_bridge :: "'c bridge_runtime \<Rightarrow> bool" where
  "stopped_bridge s \<longleftrightarrow> held_stop s \<or> dead_stop s"

lemma retains_stopped: "retains s t \<Longrightarrow> stopped_bridge s \<Longrightarrow> stopped_bridge t"
  by (auto simp: retains_def stopped_bridge_def)

lemma latches_stopped:
  "latches s t \<Longrightarrow> (held_stop s \<Longrightarrow> held_stop t) \<Longrightarrow> stopped_bridge s \<Longrightarrow> stopped_bridge t"
  by (auto simp: latches_def stopped_bridge_def)

lemma stopped_step:
  assumes "stopped_bridge s" "no_resume e"
  shows "stopped_bridge (snd (bridge_step CC e s))"
proof (rule step_cases)
  fix now n v r p c
  show "stopped_bridge (snd (configure_runtime_control now n v r p c s))"
    using latches_configure held_configure assms(1) by (rule latches_stopped)
next
  show "stopped_bridge (snd (clear_runtime_control s))"
    using latches_clear held_clear assms(1) by (rule latches_stopped)
qed (use assms in \<open>auto intro: retains_stopped\<close>)

lemma stopped_no_torque:
  assumes "stopped_bridge s"
  shows "no_torque e (fst (bridge_step CC e s))"
  using assms by (intro no_torque_step)
    (auto simp: stopped_bridge_def stop_defs drive_permitted_def drive_confirmed_def armed_states_def)

interpretation bridge_stop: machine "bridge_step CC" stopped_bridge no_resume no_torque
  for CC :: "'c chassis_control"
  by unfold_locales (simp_all add: stopped_step stopped_no_torque)

text \<open>The causes of a stop, each with the runtime after it.\<close>

inductive stopping :: "'c chassis_control \<Rightarrow> 'c bridge_runtime \<Rightarrow> 'c bridge_runtime \<Rightarrow> bool" for CC s where
  control_timeout: "control_overdue now s \<Longrightarrow> stopping CC s (snd (control_cycle CC now s))"
| stop_request: "b_running s \<Longrightarrow> stopping CC s (snd (bridge_emergency_stop s))"
| park_request: "b_running s \<Longrightarrow> stopping CC s (snd (bridge_request_park s))"
| apply_failure: "stopping CC s (fail_control_apply s)"
| receive_failure: "stopping CC s (receive_failed code s)"
| send_failure: "b_send_failures s = 2 \<Longrightarrow> stopping CC s (sent_frames False s)"
| thread_failure: "stopping CC s (io_thread_failed s)"

inductive_cases stoppingE: "stopping CC s t"

lemma unarmed_request_disarm: "unarmed (request_disarm c)"
  by (cases "vstate c") (simp_all add: request_disarm_def Let_def armed_states_def vcu_enter_def)

lemma feedback_watchdog_fires:
  "feedback_watchdog now s = s \<or> dead_stop (feedback_watchdog now s)"
  by (simp add: feedback_watchdog_def Let_def dead_stop_def)

lemma overdue_cycle:
  assumes "control_overdue now s"
  shows "stopped_bridge (snd (control_cycle CC now s))"
proof -
  define s0 where "s0 = s\<lparr>b_last_control_tick := Some now\<rparr>"
  have overdue: "control_overdue now s0"
    using assms by (simp add: s0_def control_overdue_def silent_ms_def watchdog_reference_def cong: option.case_cong)
  have "stopped_bridge (check_control_watchdog now (feedback_watchdog now s0))"
  proof (cases "feedback_watchdog now s0 = s0")
    case True
    then show ?thesis using overdue by (simp add: watchdog_due stopped_bridge_def held_stop_def)
  next
    case False
    then have "stopped_bridge (feedback_watchdog now s0)"
      using feedback_watchdog_fires[of now s0] by (auto simp: stopped_bridge_def)
    then show ?thesis by (rule retains_stopped[OF retains_control_watchdog])
  qed
  then have "stopped_bridge (before_tick CC now s)"
    unfolding before_tick_def s0_def by (rule retains_stopped[OF retains_update])
  then show ?thesis
    unfolding control_cycle_def case_prod_beta Let_def snd_conv
    by (rule retains_stopped[OF retains_trans[OF retains_tick retains_after_tick]])
qed

lemma stopping_stopped: "stopping CC s t \<Longrightarrow> stopped_bridge t"
  by (elim stoppingE) (simp_all add: overdue_cycle, simp_all add: stopped_bridge_def held_stop_def dead_stop_def
    bridge_emergency_stop_def bridge_request_park_def consume_stop_context_def fail_control_apply_def
    receive_failed_def sent_frames_def io_thread_failed_def Let_def unarmed_request_disarm)

text \<open>
  C11. A stop holds: after a control timeout, a stop or park request, a failed application, a
  receive error, three failed transmissions or an exception of the I/O thread, no sequence of
  operations without a new intent or handshake transmits torque, and the software stop stays set.
\<close>

theorem bridge_stop_holds:
  assumes "stopping CC s t" "list_all no_resume es"
  shows "list_all2 no_torque es (fst (run (bridge_step CC) es t)) \<and> b_software_estop (snd (run (bridge_step CC) es t))"
proof -
  have t: "stopped_bridge t" using assms(1) by (rule stopping_stopped)
  from bridge_stop.run_inv[OF t assms(2), of CC] show ?thesis
    using bridge_stop.run_good[OF t assms(2), of CC] by (auto simp: stopped_bridge_def stop_defs)
qed

theorem bridge_stop_holds_witness:
  "list_all2 no_torque [Poll, Cycle 20000000] (fst (run (bridge_step demo_chassis) [Poll, Cycle 20000000]
     (snd (bridge_emergency_stop demo_runtime))))"
proof -
  have "b_running demo_runtime" by (simp add: demo_runtime_def)
  from stopping.stop_request[OF this] have "stopping demo_chassis demo_runtime (snd (bridge_emergency_stop demo_runtime))" .
  moreover have "list_all no_resume [Poll, Cycle 20000000]" by simp
  ultimately show ?thesis by (rule bridge_stop_holds[THEN conjunct1])
qed

subsection \<open>Faults\<close>

lemma latches_fault: "latches s t \<Longrightarrow> b_chassis_control_fault_latched s \<Longrightarrow> b_chassis_control_fault_latched t"
  by (simp add: latches_def)

lemma latches_overspeed: "latches s t \<Longrightarrow> b_hard_overspeed_latched s \<Longrightarrow> b_hard_overspeed_latched t"
  by (simp add: latches_def)

lemmas latches_operations = latches_store_intent latches_configure latches_clear

lemma fault_step:
  assumes "b_chassis_control_fault_latched s"
  shows "b_chassis_control_fault_latched (snd (bridge_step CC e s))"
proof (rule step_cases)
  show "b_chassis_control_fault_latched t" if "retains s t" for t
    using retains_latches[OF that] assms by (rule latches_fault)
qed (simp_all add: assms fault_handshake latches_fault[OF latches_operations(1)] latches_fault[OF latches_operations(2)]
  latches_fault[OF latches_operations(3)])

interpretation chassis_fault: machine "bridge_step CC" b_chassis_control_fault_latched "\<lambda>_. True" no_torque
  for CC :: "'c chassis_control"
  by unfold_locales (simp_all add: no_torque_step fault_step drive_permitted_def)

text \<open>
  The chassis library with a flag beside its state: a call failed - it threw, it reported no
  success, or it left fewer than eight controls or one that is not finite.
\<close>

definition unusable :: "bool res \<Rightarrow> wheel_control list \<Rightarrow> bool" where
  "unusable r controls \<longleftrightarrow> r \<noteq> Inr True \<or> length controls < 8 \<or> \<not> list_all wheel_control_finite (take 8 controls)"

definition monitored :: "'c chassis_control \<Rightarrow> ('c \<times> bool) chassis_control" where
  "monitored CC = \<lparr>cc_initialize = (\<lambda>path (c, failed). case cc_initialize CC path c of (r, c') \<Rightarrow> (r, c', failed)),
     cc_update = (\<lambda>state (c, failed). case cc_update CC state c of (r, c') \<Rightarrow> (r, c', failed \<or> unusable r (cc_controls CC c'))),
     cc_controls = (\<lambda>(c, failed). cc_controls CC c)\<rparr>"

lemma find_upt_None: "find P [0..<n] = None \<longleftrightarrow> (\<forall>i<n. \<not> P i)"
  by (simp add: find_None_iff)

lemma usable_command:
  assumes "command_from_chassis_control g controls = Inr cmd"
  shows "\<not> unusable (Inr True) controls"
  using assms by (auto simp: command_from_chassis_control_def unusable_def find_upt_None list_all_length
    split: if_splits option.splits)

lemma chassis_call:
  assumes "chassis_command CC intent fresh measured n s = (cmd, t)"
  obtains state where "b_chassis t = snd (cc_update CC state (b_chassis s))"
    "cmd \<noteq> None \<Longrightarrow> \<not> unusable (fst (cc_update CC state (b_chassis s))) (cc_controls CC (b_chassis t))"
  using that[of "make_vehicle_state (if fresh then measured else Fin 0) (ci_gear intent) (ci_target_speed_mps intent)
      (if \<not> (b_physical_brake_input s \<and> dlt (ci_longitudinal intent) (Fin 0)) \<and> dlt (ci_longitudinal intent) (Fin 0)
        then n else Fin 0) (ci_steering intent)"] assms usable_command
  by (fastforce simp: chassis_command_def Let_def split: prod.splits sum.splits if_splits)

lemma chassis_same [simp]:
  "b_chassis (physical_block s) = b_chassis s" "b_chassis (arming_motion_block st fresh s) = b_chassis s"
  "b_chassis (overspeed_block st fresh s) = b_chassis s" "b_chassis (clear_soft_stop_block fresh gear_ok s) = b_chassis s"
  "b_chassis (parking_block now fresh measured s) = b_chassis s" "b_chassis (torque_block active normalized dt s) = b_chassis s"
  "b_chassis (snd (normalized_block active intent measured dt s)) = b_chassis s" "b_chassis (command_block cmd s) = b_chassis s"
  "b_chassis (latch_chassis_control_fault s) = b_chassis s" "b_chassis (check_control_watchdog now s) = b_chassis s"
  "b_chassis (feedback_watchdog now s) = b_chassis s" "b_chassis (snd (bridge_tick s)) = b_chassis s"
  "b_chassis (after_tick now st s) = b_chassis s"
  by (simp_all add: physical_block_def arming_motion_block_def overspeed_block_def clear_soft_stop_block_def parking_block_def
      torque_block_def normalized_block_def adopt_setpoint_def command_block_def latch_chassis_control_fault_def
      check_control_watchdog_def feedback_watchdog_def bridge_tick_def after_tick_def arming_deadline_block_def
      session_block_def state_fault_block_def revocation_block_def Let_def split: prod.split)

lemma chassis_traction [simp]: "b_chassis (snd (traction_blocks now intent fresh gear_ok measured dt s)) = b_chassis s"
  by (simp add: traction_blocks_def case_prod_beta Let_def)

lemma fault_watchdogs [simp]:
  "b_chassis_control_fault_latched (check_control_watchdog now s) = b_chassis_control_fault_latched s"
  "b_chassis_control_fault_latched (feedback_watchdog now s) = b_chassis_control_fault_latched s"
  by (simp_all add: check_control_watchdog_def feedback_watchdog_def Let_def)

text \<open>A cycle without a latched fault calls the library once; what it leaves unusable latches the fault.\<close>

lemma cycle_call:
  assumes "\<not> b_chassis_control_fault_latched s"
  obtains state where "b_chassis (snd (control_cycle CC now s)) = snd (cc_update CC state (b_chassis s))"
    "unusable (fst (cc_update CC state (b_chassis s))) (cc_controls CC (snd (cc_update CC state (b_chassis s)))) \<Longrightarrow>
       \<exists>u. before_tick CC now s = latch_chassis_control_fault u"
proof -
  define s1 where "s1 = check_control_watchdog now (feedback_watchdog now (s\<lparr>b_last_control_tick := Some now\<rparr>))"
  have s1: "b_chassis s1 = b_chassis s" "\<not> b_chassis_control_fault_latched s1" using assms by (simp_all add: s1_def)
  define intent where "intent = (if b_latest_intent_valid s1 then b_latest_intent s1 else default_control_intent)"
  define fresh where "fresh = speed_feedback_fresh now s1"
  define gear_ok where "gear_ok \<longleftrightarrow> gear_feedback_fresh now s1 \<and> fb_gear (feedback (b_controller s1)) = ci_gear intent"
  define measured where "measured = speed_magnitude_mps (fb_speed_mps (feedback (b_controller s1)))"
  define s2 where "s2 = traction_blocks now intent fresh gear_ok measured (control_dt now s)
    (safety_blocks now (vstate (b_controller s1)) fresh gear_ok measured s1)"
  obtain cmd s3 where cmd: "chassis_command CC intent fresh measured (fst s2) (snd s2) = (cmd, s3)" by fastforce
  have bt: "before_tick CC now s = (case cmd of None \<Rightarrow> latch_chassis_control_fault s3 | Some c \<Rightarrow> command_block c s3)"
    using cmd s1(2) unfolding before_tick_def s1_def[symmetric] update_command_from_intent_def Let_def case_prod_beta
      s2_def gear_ok_def measured_def fresh_def intent_def by (simp only: if_False fst_conv snd_conv)
  have s2: "b_chassis (snd s2) = b_chassis s" by (simp add: s2_def safety_blocks_def s1(1))
  obtain state where call: "b_chassis s3 = snd (cc_update CC state (b_chassis s))"
    "cmd \<noteq> None \<Longrightarrow> \<not> unusable (fst (cc_update CC state (b_chassis s))) (cc_controls CC (b_chassis s3))"
    using chassis_call[OF cmd] unfolding s2 by blast
  have "b_chassis (snd (control_cycle CC now s)) = b_chassis s3"
    by (simp add: control_cycle_def case_prod_beta Let_def bt split: option.split)
  then show thesis using that[of state] call bt by (cases cmd) auto
qed

lemma cycle_failure:
  assumes "\<not> snd (b_chassis s)" "snd (b_chassis (snd (control_cycle (monitored CC) now s)))"
  shows "motor_torques (fst (control_cycle (monitored CC) now s)) = replicate 8 32000 \<and>
    b_chassis_control_fault_latched (snd (control_cycle (monitored CC) now s))"
proof -
  have latched: "b_chassis_control_fault_latched (snd (control_cycle (monitored CC) now s))"
    if "b_chassis_control_fault_latched s"
    using retains_cycle that by (auto simp: retains_def)
  show ?thesis
  proof (cases "b_chassis_control_fault_latched s")
    case True
    then show ?thesis using latched cycle_driven[of "monitored CC" now s] by (auto simp: drive_permitted_def)
  next
    case False
    obtain state where call: "b_chassis (snd (control_cycle (monitored CC) now s)) = snd (cc_update (monitored CC) state (b_chassis s))"
      "unusable (fst (cc_update (monitored CC) state (b_chassis s)))
         (cc_controls (monitored CC) (snd (cc_update (monitored CC) state (b_chassis s)))) \<Longrightarrow>
       \<exists>u. before_tick (monitored CC) now s = latch_chassis_control_fault u"
      using cycle_call[OF False] by blast
    have "unusable (fst (cc_update (monitored CC) state (b_chassis s)))
       (cc_controls (monitored CC) (snd (cc_update (monitored CC) state (b_chassis s))))"
      using assms call(1) by (cases "b_chassis s") (auto simp: monitored_def split: prod.splits)
    then obtain u where u: "before_tick (monitored CC) now s = latch_chassis_control_fault u" using call(2) by blast
    have "b_chassis_control_fault_latched (before_tick (monitored CC) now s)"
      unfolding u by (simp add: latch_chassis_control_fault_def)
    then have "b_chassis_control_fault_latched (snd (control_cycle (monitored CC) now s))"
      unfolding control_cycle_def case_prod_beta Let_def snd_conv
      using retains_trans[OF retains_tick retains_after_tick] by (auto simp: retains_def)
    moreover have "\<not> traction (advance_state (b_controller (before_tick (monitored CC) now s)))"
      using traction_advance not_armed_chassis_fault unfolding u by blast
    ultimately show ?thesis by (simp add: cycle_torques Let_def)
  qed
qed

text \<open>
  C12. A failure of the chassis library is final: the control cycle in which a call into the
  library throws, reports no success or leaves fewer than eight controls or one that is not
  finite already transmits no torque, it latches the fault, and no later sequence of operations,
  handshakes and a recovered library included, transmits torque or resets the latch.
\<close>

theorem bridge_chassis_fault_final:
  assumes "\<not> snd (b_chassis s)" "t = snd (control_cycle (monitored CC) now s)" "snd (b_chassis t)"
  shows "motor_torques (fst (control_cycle (monitored CC) now s)) = replicate 8 32000 \<and>
    list_all2 no_torque es (fst (run (bridge_step CC') es t)) \<and>
    b_chassis_control_fault_latched (snd (run (bridge_step CC') es t))"
proof -
  have f: "motor_torques (fst (control_cycle (monitored CC) now s)) = replicate 8 32000" "b_chassis_control_fault_latched t"
    using cycle_failure[OF assms(1), of CC now] assms(2,3) by simp_all
  show ?thesis
    using f(1) chassis_fault.run_good[OF f(2), of es CC'] chassis_fault.run_inv[OF f(2), of es CC'] by (simp add: list_all_iff)
qed

text \<open>The driving bridge of above, over a library that fails; then one that works, with handshakes.\<close>

definition demo_failing :: "unit chassis_control" where
  "demo_failing = demo_chassis\<lparr>cc_update := (\<lambda>_ c. (Inr False, c))\<rparr>"

definition demo_monitored :: "(unit \<times> bool) bridge_runtime" where
  "demo_monitored = (runtime_new (Fin 300) 800 default_speed_control True (Fin 100) ((), False))
     \<lparr>b_controller := demo_controller, b_running := True\<rparr>"

theorem bridge_chassis_fault_final_witness:
  "list_all2 no_torque [Cycle 20000000, RequestHandshake 30000000, Cycle 40000000]
     (fst (run (bridge_step (monitored demo_chassis)) [Cycle 20000000, RequestHandshake 30000000, Cycle 40000000]
       (snd (control_cycle (monitored demo_failing) 0 demo_monitored))))"
proof -
  have flag: "\<not> snd (b_chassis demo_monitored)" "\<not> b_chassis_control_fault_latched demo_monitored"
    by (simp_all add: demo_monitored_def runtime_new_def)
  obtain state where "b_chassis (snd (control_cycle (monitored demo_failing) 0 demo_monitored)) =
      snd (cc_update (monitored demo_failing) state (b_chassis demo_monitored))"
    using cycle_call[OF flag(2)] by blast
  then have "snd (b_chassis (snd (control_cycle (monitored demo_failing) 0 demo_monitored)))"
    by (simp add: monitored_def demo_failing_def unusable_def split: prod.split)
  from bridge_chassis_fault_final[OF flag(1) refl this] show ?thesis by blast
qed

lemma overspeed_handshake:
  assumes "b_hard_overspeed_latched s"
  shows "b_hard_overspeed_latched (snd (bridge_request_handshake now s)) \<or>
    vstate (b_controller s) = Disarmed \<and> at_rest_in_neutral now s"
  using assms by (cases "handshake_gate now s")
    (simp_all add: bridge_request_handshake_def handshake_gate_def Let_def)

lemma overspeed_step:
  assumes "b_hard_overspeed_latched s"
  shows "b_hard_overspeed_latched (snd (bridge_step CC e s)) \<or>
    (\<exists>now. e = RequestHandshake now \<and> vstate (b_controller s) = Disarmed \<and> at_rest_in_neutral now s)"
proof (rule step_cases)
  fix t assume "retains s t"
  from latches_overspeed[OF retains_latches[OF this] assms] show "b_hard_overspeed_latched t \<or> (\<exists>now. e = RequestHandshake now \<and> vstate (b_controller s) = Disarmed \<and> at_rest_in_neutral now s)" ..
next
  fix now assume e: "e = RequestHandshake now"
  from overspeed_handshake[OF assms, of now] show "b_hard_overspeed_latched (snd (bridge_request_handshake now s)) \<or>
    (\<exists>now. e = RequestHandshake now \<and> vstate (b_controller s) = Disarmed \<and> at_rest_in_neutral now s)"
    by (simp add: e)
qed (simp_all add: assms latches_overspeed[OF latches_operations(1)] latches_overspeed[OF latches_operations(2)]
  latches_overspeed[OF latches_operations(3)])

text \<open>
  Overspeed and motion during arming are latched: with the latch set no operation transmits
  torque, and only a handshake request clears it, in Disarmed and with fresh feedback of neutral
  gear and standstill.
\<close>

theorem bridge_overspeed_latched:
  assumes "b_hard_overspeed_latched s"
  shows "no_torque e (fst (bridge_step CC e s)) \<and>
    (b_hard_overspeed_latched (snd (bridge_step CC e s)) \<or>
     (\<exists>now. e = RequestHandshake now \<and> vstate (b_controller s) = Disarmed \<and> at_rest_in_neutral now s))"
proof
  show "no_torque e (fst (bridge_step CC e s))"
    by (rule no_torque_step) (simp add: drive_permitted_def assms)
qed (rule overspeed_step[OF assms])

theorem bridge_overspeed_latched_witness:
  "no_torque (Cycle 0) (fst (bridge_step demo_chassis (Cycle 0) (overspeed_stop reason_hard_overspeed demo_runtime)))"
  by (rule bridge_overspeed_latched[OF overspeed_stop_fields(3), THEN conjunct1])

end
