(* ===== verification/Bridge_Profile.thy ===== *)
theory Bridge_Profile
  imports Bridge_Runs
begin

text \<open>
  The requests of the agent: which intents the bridge stores, which runtime profiles it
  installs, and the limits that an active profile keeps through every run.
\<close>

subsection \<open>Intents\<close>

definition intent_admitted :: "int \<Rightarrow> int \<Rightarrow> double \<Rightarrow> double \<Rightarrow> double list \<Rightarrow> 'c bridge_runtime \<Rightarrow> bool" where
  "intent_admitted now g v a st s \<longleftrightarrow>
     b_running s \<and> b_io_error s = 0 \<and> \<not> physical_emergency_latched (b_controller s) \<and> \<not> b_hard_overspeed_latched s \<and>
     \<not> (dlt (Fin 0) a \<and> \<not> rt_active (b_runtime_control s)) \<and>
     \<not> (rt_active (b_runtime_control s) \<and> exceeds_profile v a st s) \<and>
     (b_latest_intent_valid s \<and> ci_gear (b_latest_intent s) = g \<or> \<not> moving_or_stale now s) \<and>
     \<not> (b_gear_rejection_latched s \<and> \<not> (g = b_gear_rejection_retained_gear s \<and> dle v limit_tolerance \<and> dle a (Fin 0)))"

lemma moving_or_stale_latch [simp]: "moving_or_stale now (s\<lparr>b_gear_rejection_latched := x\<rparr>) = moving_or_stale now s"
  by (simp add: moving_or_stale_def speed_feedback_fresh_def gear_feedback_fresh_def feedback_id_fresh_def Let_def
    cong: option.case_cong)

lemma hold_rejected_longitudinal: "\<not> dlt (Fin 0) (ci_longitudinal (b_latest_intent (hold_rejected_gear a s)))"
  by (cases a) (simp_all add: hold_rejected_gear_def renew_intent_def reset_direct_traction_def reset_speed_pid_def
    Let_def dmin_def)

text \<open>
  An intent is stored exactly when it is admitted: the bridge runs without an error or latch,
  traction has an active profile and stays within it, and a change of gear happens with fresh
  feedback at standstill. The stored intent is the request; every refused request leaves the
  bridge unchanged or without a request for traction.
\<close>

theorem bridge_intent_outcome:
  "(case store_intent now g v a st op s of (issue, t) \<Rightarrow>
     if intent_admitted now g v a st s
     then issue = issue_none \<and> b_latest_intent_valid t \<and> b_last_successful_apply t = Some now \<and>
       ci_gear (b_latest_intent t) = g \<and> ci_target_speed_mps (b_latest_intent t) = v \<and>
       ci_longitudinal (b_latest_intent t) = a \<and> b_controller t = b_controller s
     else issue \<noteq> issue_none \<and> (if dlt (Fin 0) (ci_longitudinal (b_latest_intent t)) then t = s else True))"
proof (cases "intent_admitted now g v a st s")
  case True
  then have "store_intent now g v a st op s = (issue_none, accept_intent now g v a st op (s\<lparr>b_gear_rejection_latched := False\<rparr>))"
    by (auto simp: store_intent_def store_intent_checked_def intent_admitted_def Let_def)
  then show ?thesis using True by (simp add: accept_intent_def)
next
  case False
  have "fst (store_intent now g v a st op s) \<noteq> issue_none \<and>
      (snd (store_intent now g v a st op s) = s \<or>
       \<not> dlt (Fin 0) (ci_longitudinal (b_latest_intent (snd (store_intent now g v a st op s)))))"
    using False unfolding store_intent_def store_intent_checked_def refuse_gear_change_def Let_def intent_admitted_def
    by (simp add: issue_defs hold_rejected_longitudinal) blast
  then show ?thesis using False unfolding case_prod_beta by (simp only: if_False if_bool_eq_conj) blast
qed

subsection \<open>Runtime profiles\<close>

definition profile_limits :: "'c bridge_runtime \<Rightarrow> bool" where
  "profile_limits s \<longleftrightarrow>
     (let r = b_runtime_control s; c = b_speed_control s
      in \<not> out_of_limit (rt_target_speed_limit_mps r) (sc_hard_speed_limit_mps c) \<and>
         \<not> out_of_limit (rt_max_motor_torque_nm r) (b_full_scale_motor_torque_nm s) \<and>
         \<not> out_of_limit (rt_max_brake_pressure_bar r) (b_max_ordinary_brake_pressure_bar s) \<and>
         \<not> out_of_limit (rt_max_steering_request r) mtc_max_steering_request \<and>
         \<not> out_of_limit (sc_motor_torque_rise_rate c) mtc_max_motor_torque_rise_rate \<and>
         speed_pid_config_is_valid (sc_pid c))"

definition profile_inv :: "'c bridge_runtime \<Rightarrow> bool" where
  "profile_inv s \<longleftrightarrow> \<not> rt_active (b_runtime_control s) \<or> profile_limits s"

lemma profile_retains: "retains s t \<Longrightarrow> profile_inv s \<Longrightarrow> profile_inv t"
  by (simp add: profile_inv_def profile_limits_def retains_def Let_def)

lemma profile_install:
  assumes "\<not> runtime_config_invalid n v r c s"
  shows "profile_limits (install_runtime_control now r p c (if recoverable then recover_arming_timeout s else s))"
  using assms by (simp add: profile_limits_def install_runtime_control_def runtime_config_invalid_def withdraw_intent_def
    recover_arming_timeout_def Let_def)

lemma last_of_four:
  "snd (if A then (x, s) else if B then (y, s) else if C then (z, s) else if D then (w, s) else (u, t)) = s \<or>
   \<not> B \<and> snd (if A then (x, s) else if B then (y, s) else if C then (z, s) else if D then (w, s) else (u, t)) = t"
  by simp

lemma configure_outcome:
  "snd (configure_runtime_control now n v r p c s) = s \<or>
   (\<exists>rate recoverable. \<not> runtime_config_invalid n v rate c s \<and> snd (configure_runtime_control now n v r p c s) =
      install_runtime_control now rate p c (if recoverable then recover_arming_timeout s else s))"
proof -
  have "snd (configure_runtime_control now n v r p c s) = s \<or>
     \<not> runtime_config_invalid n v (case r of Some r \<Rightarrow> r | None \<Rightarrow> sc_motor_torque_rise_rate (b_open_speed_control s)) c s \<and>
     snd (configure_runtime_control now n v r p c s) =
      install_runtime_control now (case r of Some r \<Rightarrow> r | None \<Rightarrow> sc_motor_torque_rise_rate (b_open_speed_control s)) p c
        (if arming_timeout_recovery_ready now s then recover_arming_timeout s else s)"
    unfolding configure_runtime_control_def Let_def by (rule last_of_four)
  then show ?thesis by blast
qed

lemma profile_configure: "profile_inv s \<Longrightarrow> profile_inv (snd (configure_runtime_control now n v r p c s))"
  using configure_outcome[of now n v r p c s] profile_install unfolding profile_inv_def by metis

lemma profile_clear: "profile_inv (snd (clear_runtime_control s))"
  by (simp add: clear_runtime_control_def profile_inv_def default_runtime_control_def Let_def)

lemma same_settings_store_intent:
  "b_runtime_control (snd (store_intent now g v a st op s)) = b_runtime_control s"
  "b_speed_control (snd (store_intent now g v a st op s)) = b_speed_control s"
  by (simp_all add: store_intent_def store_intent_checked_def refuse_gear_change_def accept_intent_def
    hold_rejected_gear_def Let_def)

lemma profile_store_intent: "profile_inv s \<Longrightarrow> profile_inv (snd (store_intent now g v a st op s))"
  using latches_store_intent[of s now g v a st op]
  by (simp add: profile_inv_def profile_limits_def same_settings_store_intent latches_def)

lemma fresh_session_settings:
  "b_runtime_control (fresh_session s) = b_runtime_control s" "b_speed_control (fresh_session s) = b_speed_control s"
  "b_full_scale_motor_torque_nm (fresh_session s) = b_full_scale_motor_torque_nm s"
  "b_max_ordinary_brake_pressure_bar (fresh_session s) = b_max_ordinary_brake_pressure_bar s"
  by (simp_all add: fresh_session_def)

lemma one_of_three:
  "P x \<Longrightarrow> P y \<Longrightarrow> P z \<Longrightarrow>
     P (snd (if a then (False, x) else if b then (False, x) else if c then (False, x) else if d then (False, y) else (True, z)))"
  by simp

lemma handshake_cases:
  assumes "P s" "\<And>c. P (s\<lparr>b_controller := c\<rparr>)" "\<And>c. P (fresh_session (s\<lparr>b_controller := c\<rparr>))"
    "\<And>c. P (fresh_session (recover_arming_timeout (s\<lparr>b_controller := c\<rparr>)))"
  shows "P (snd (bridge_request_handshake now s))"
proof -
  have "P (fresh_session (if r then recover_arming_timeout (s\<lparr>b_controller := c\<rparr>) else s\<lparr>b_controller := c\<rparr>))" for r c
    using assms(3,4) by (cases r) simp_all
  then show ?thesis
    unfolding bridge_request_handshake_def Let_def case_prod_beta by (rule one_of_three[where P = P, OF assms(1,2)])
qed

lemma same_settings_handshake:
  "b_runtime_control (snd (bridge_request_handshake now s)) = b_runtime_control s \<and>
   b_speed_control (snd (bridge_request_handshake now s)) = b_speed_control s \<and>
   b_full_scale_motor_torque_nm (snd (bridge_request_handshake now s)) = b_full_scale_motor_torque_nm s \<and>
   b_max_ordinary_brake_pressure_bar (snd (bridge_request_handshake now s)) = b_max_ordinary_brake_pressure_bar s"
  by (rule handshake_cases) (simp_all add: fresh_session_settings recover_arming_timeout_def)

lemma profile_handshake: "profile_inv s \<Longrightarrow> profile_inv (snd (bridge_request_handshake now s))"
  by (simp add: profile_inv_def profile_limits_def same_settings_handshake)

lemma profile_step: "profile_inv s \<Longrightarrow> profile_inv (snd (bridge_step CC e s))"
  by (rule step_cases) (simp_all add: profile_store_intent profile_configure profile_clear profile_handshake profile_retains)

interpretation bridge_profile: machine "bridge_step CC" profile_inv "\<lambda>_. True" "\<lambda>_ _. True"
  for CC :: "'c chassis_control"
  by unfold_locales (simp_all add: profile_step)

text \<open>
  Every run of a new bridge keeps an active runtime profile within the vehicle's limits:
  target speed, motor torque, brake pressure and steering request within what the bridge was
  opened with, the rise rate and the gains of the PID in their ranges.
\<close>

theorem bridge_profile_within_limits:
  "profile_inv (snd (run (bridge_step CC) es (runtime_new full timeout settings brake max_brake cc)))"
proof (rule bridge_profile.run_inv)
  show "profile_inv (runtime_new full timeout settings brake max_brake cc)"
    by (simp add: profile_inv_def runtime_new_def default_runtime_control_def)
qed (simp add: list_all_iff)

definition parked_bridge :: "int \<Rightarrow> 'c bridge_runtime \<Rightarrow> bool" where
  "parked_bridge now s \<longleftrightarrow> (vstate (b_controller s) = Standby \<or> vstate (b_controller s) = Disarmed) \<and>
     parking_gate_fresh now s \<and> parking_ready (b_controller s)"

lemma installed:
  fixes s :: "'c bridge_runtime"
  defines "t \<equiv> \<lambda>now r p c recoverable. install_runtime_control now r p c (if recoverable then recover_arming_timeout s else s)"
  shows "b_runtime_control (t now r p c recoverable) = \<lparr>rt_parking_idle_timeout_ms = p, rt_active = True,
      rt_revision = rc_profile_revision c, rt_target_speed_limit_mps = rc_target_speed_limit_mps c,
      rt_max_motor_torque_nm = rc_max_motor_torque_nm c, rt_max_brake_pressure_bar = rc_max_brake_pressure_bar c,
      rt_max_steering_request = rc_max_steering_request c, rt_motor_torque_rise_rate = r\<rparr>"
    "ci_longitudinal (b_latest_intent (t now r p c recoverable)) = Fin 0"
    "ci_target_speed_mps (b_latest_intent (t now r p c recoverable)) = Fin 0"
  by (simp_all add: t_def install_runtime_control_def withdraw_intent_def Let_def)

text \<open>
  C18. A runtime profile is installed only with a newer revision than the active one, within the
  limits of the vehicle and, when it is the first or changes more than a reduction, on a parked
  vehicle with fresh feedback; it is then active, and the stored intent asks for no motion. Any
  other outcome leaves the bridge as it was.
\<close>

theorem bridge_configure_outcome:
  "(case configure_runtime_control_v3 now c s of ((issue, revision), t) \<Rightarrow>
     if issue = runtime_issue_none
     then revision = rc_profile_revision c \<and> rt_active (b_runtime_control t) \<and>
       rt_revision (b_runtime_control t) = revision \<and> profile_limits t \<and>
       (if rt_active (b_runtime_control s) then rt_revision (b_runtime_control s) < revision else True) \<and>
       (if requires_parking (rc_motor_torque_rise_rate_nm_per_s c) (rc_parking_idle_timeout_ms c) c s
        then parked_bridge now s else True) \<and>
       ci_longitudinal (b_latest_intent t) = Fin 0 \<and> ci_target_speed_mps (b_latest_intent t) = Fin 0
     else t = s \<and> revision = 0)"
proof -
  let ?r = "rc_motor_torque_rise_rate_nm_per_s c" and ?p = "rc_parking_idle_timeout_ms c"
  let ?new = "install_runtime_control now ?r ?p c (if arming_timeout_recovery_ready now s then recover_arming_timeout s else s)"
  define ok where "ok \<longleftrightarrow> \<not> (rc_struct_size c \<noteq> sizeof_runtime_config_v3 \<or> rc_parking_reserved c \<noteq> 0 \<or>
      rc_parking_idle_timeout_ms c < 0 \<or> 1000 < rc_parking_idle_timeout_ms c) \<and>
    \<not> (\<not> b_running s \<or> (b_io_error s \<noteq> 0 \<and> \<not> arming_timeout_recovery_ready now s)) \<and>
    \<not> runtime_config_invalid sizeof_runtime_config_v3 4 ?r c s \<and>
    \<not> (rt_active (b_runtime_control s) \<and> rc_profile_revision c \<le> rt_revision (b_runtime_control s)) \<and>
    \<not> (requires_parking ?r ?p c s \<and> \<not> parked_bridge now s)"
  show ?thesis
  proof (cases ok)
    case True
    then have "configure_runtime_control_v3 now c s = ((runtime_issue_none, rc_profile_revision c), ?new)"
      by (simp only: ok_def configure_runtime_control_v3_def configure_runtime_control_def Let_def option.case
        parked_bridge_def if_False simp_thms)
    moreover have "profile_limits ?new" using True by (intro profile_install[of sizeof_runtime_config_v3 4]) (simp add: ok_def)
    ultimately show ?thesis using True by (simp add: installed ok_def not_le)
  next
    case False
    then have "\<exists>issue. issue \<noteq> runtime_issue_none \<and> configure_runtime_control_v3 now c s = ((issue, 0), s)"
      unfolding ok_def configure_runtime_control_v3_def configure_runtime_control_def Let_def option.case
        parked_bridge_def[symmetric]
      by (auto simp: runtime_issue_defs)
    then show ?thesis by auto
  qed
qed

end
