(* ===== verification/Bridge_Link.thy ===== *)
theory Bridge_Link
  imports Bridge_Profile Adapter_Contract
begin

text \<open>
  The adapter of the vehicle agent over the chassis bridge: the exported functions of the bridge
  as the library that the adapter loads. The contract of the interface is the locale
  \<open>well_formed_bridge\<close>; the model of the bridge satisfies it, and a command or a stop that the
  adapter reports as done has reached the state of the bridge.
\<close>

subsection \<open>The exported functions\<close>

record 'c linked =
  lk_now :: int
  lk_world :: "'c bridge_world"

text \<open>The caller passes zero-initialised structures; a function that fails leaves them alone.\<close>

definition zero_handshake_status :: bridge_handshake_status where
  "zero_handshake_status = \<lparr>bh_state = 0, bh_requested = 0, bh_ready = 0, bh_disarming = 0, bh_parking_ready = 0,
     bh_driver_gear_request = 0, bh_driver_gear_request_valid = 0, bh_handshake_status = 0, bh_handshake_valid = 0,
     bh_epb_status = replicate 4 0, bh_epb_valid = replicate 4 0, bh_speed_mps = Fin 0, bh_speed_valid = 0,
     bh_handshake_revoked = 0, bh_revoked_handshake_status = 0, bh_vmc_fault_code = 0, bh_vmc_fault_code_valid = 0,
     bh_parking_brake_switch = 0, bh_parking_brake_switch_valid = 0, bh_brake_pedal_switch = 0,
     bh_brake_pedal_switch_valid = 0\<rparr>"

definition zero_telemetry :: bridge_telemetry where
  "zero_telemetry = \<lparr>bt_speed_mps = Fin 0, bt_gear = 0, bt_steering_feedback = Fin 0, bt_throttle_feedback = Fin 0,
     bt_brake_feedback = Fin 0, bt_estop = 0, bt_stop_source = 0, bt_stop_reason = 0, bt_stop_sequence = 0\<rparr>"

definition zero_can_feedback :: bridge_can_feedback_v1 where
  "zero_can_feedback = \<lparr>bc_feedback_fresh = 0, bc_max_feedback_age_ms = 0, bc_speed_mps = Fin 0, bc_speed_valid = 0,
     bc_gear = 0, bc_gear_valid = 0, bc_emergency_switch = 0, bc_driver_gear_request = 0, bc_driver_gear_request_valid = 0,
     bc_handshake_status = 0, bc_handshake_valid = 0, bc_epb_status = replicate 4 0, bc_epb_valid = replicate 4 0,
     bc_motor_mode = replicate 8 0, bc_motor_mode_valid = replicate 8 0, bc_motor_torque_nm = replicate 8 (Fin 0),
     bc_motor_torque_valid = replicate 8 0, bc_motor_speed_rpm = replicate 8 (Fin 0), bc_motor_speed_valid = replicate 8 0,
     bc_steering_mode = replicate 4 0, bc_steering_valid = replicate 4 0, bc_steering_angle_deg = replicate 4 (Fin 0),
     bc_brake_mode = replicate 8 0, bc_brake_valid = replicate 8 0, bc_brake_pressure_bar = replicate 8 (Fin 0),
     bc_vmc_fault_code = 0, bc_vmc_fault_code_valid = 0, bc_parking_brake_switch = 0, bc_parking_brake_switch_valid = 0,
     bc_brake_pedal_switch = 0, bc_brake_pedal_switch_valid = 0\<rparr>"

text \<open>A call of the interface, at the present time.\<close>

definition linked_call :: "(int \<Rightarrow> 'c bridge_world \<Rightarrow> 'r \<times> 'c bridge_world) \<Rightarrow> 'c linked \<Rightarrow> 'r \<times> 'c linked" where
  "linked_call f l = (let (r, w) = f (lk_now l) (lk_world l) in (r, l\<lparr>lk_world := w\<rparr>))"

definition filled :: "'r \<Rightarrow> int \<times> 'r option \<Rightarrow> int \<times> 'r" where
  "filled initial r = (fst r, case snd r of None \<Rightarrow> initial | Some x \<Rightarrow> x)"

definition linked_bridge ::
  "'c chassis_control \<Rightarrow> open_resources \<Rightarrow> (string \<Rightarrow> ('c linked, bridge_abi) oper) \<Rightarrow>
   (string \<Rightarrow> int \<Rightarrow> int \<Rightarrow> ('c linked, unit) oper) \<Rightarrow> (int \<times> receive_outcome list \<times> bool) list \<Rightarrow>
   'c linked chassis_bridge" where
  "linked_bridge CC io load prepare cycles = \<lparr>br_load = load, br_prepare_socketcan = prepare,
     br_open_v4 = (\<lambda>c. linked_call (\<lambda>now. api_open_v4 CC io (Some c))),
     br_close = linked_call (\<lambda>now. api_close CC cycles),
     br_configure_runtime_control_v3 = (\<lambda>c. linked_call (\<lambda>now. api_configure_v3 now (Some c))),
     br_clear_runtime_control = linked_call (\<lambda>now. api_clear_runtime_control),
     br_apply_v3 = (\<lambda>g v a st n op. linked_call (\<lambda>now. api_apply_state_v3 now g v a (Some st) n op)),
     br_apply = (\<lambda>g v a st n. linked_call (\<lambda>now. api_apply_state now g v a (Some st) n)),
     br_set_stop_context = (\<lambda>ctx. linked_call (\<lambda>now. api_set_stop_context (Some ctx))),
     br_emergency_stop = linked_call (\<lambda>now. api_emergency_stop),
     br_request_handshake = linked_call api_request_parallel_handshake,
     br_disconnect_handshake = linked_call (\<lambda>now. api_disconnect_parallel_handshake),
     br_poll_feedback = linked_call (\<lambda>now w. let ((code, _), w') = api_poll_feedback w in (code, w')),
     br_read_handshake = linked_call (\<lambda>now w. (filled zero_handshake_status (api_read_handshake_status now w), w)),
     br_read_telemetry = linked_call (\<lambda>now w. (filled zero_telemetry (api_read_telemetry w), w)),
     br_read_can_feedback = linked_call (\<lambda>now w. (filled zero_can_feedback (api_read_can_feedback_v1 now w), w))\<rparr>"

subsection \<open>The contract of the interface\<close>

locale well_formed_bridge =
  fixes B :: "'b chassis_bridge"
  assumes apply_result: "br_apply_v3 B g v a st n op b = ((code, r), b') \<Longrightarrow> apply_result_ok code r"
    and configure_result:
      "br_configure_runtime_control_v3 B c b = ((code', r'), b'') \<Longrightarrow> runtime_result_ok code' (rc_profile_revision c) r'"
    and clear_result: "br_clear_runtime_control B b = ((code'', r''), b''') \<Longrightarrow> runtime_result_ok code'' 0 r''"
begin

text \<open>Over such a bridge a command that was sent is applied or refused by name, never malformed.\<close>

lemma apply_never_malformed:
  assumes "dynamic_apply_control B c s = (Inl e, s')"
  shows "s' = s \<or> (\<exists>issue code. code \<noteq> 0 \<and> e = control_rejected (bridge_apply_issue_code issue) code)"
proof (cases rule: apply_control_cases [where B = B and c = c and s = s])
  case (refused e')
  then show ?thesis using assms by simp
next
  case (sent v a g code r b)
  then show ?thesis using assms apply_result[OF sent(5)] by (auto split: if_splits)
qed

end

lemma linked_apply:
  "br_apply_v3 (linked_bridge CC io load prepare cycles) g v a st n op l =
     (let (r, w) = api_apply_state_v3 (lk_now l) g v a (Some st) n op (lk_world l) in (r, l\<lparr>lk_world := w\<rparr>))"
  by (simp add: linked_bridge_def linked_call_def)

lemma finish_apply_ok: "finish_apply code issue = (c, r) \<Longrightarrow> (code = 0 \<Longrightarrow> issue = issue_none) \<Longrightarrow> apply_result_ok c r"
  by (auto simp: finish_apply_def apply_result_ok_def kBridgeApplyIssueNone_def issue_none_def)

lemma finish_runtime_ok:
  "finish_runtime_control code issue revision = (c, r) \<Longrightarrow>
     (code = 0 \<Longrightarrow> issue = runtime_issue_none \<and> revision = expected) \<Longrightarrow> runtime_result_ok c expected r"
  by (auto simp: finish_runtime_control_def runtime_result_ok_def runtime_issue_none_def)

lemma api_apply_wf: "api_apply_state_v3 now g v a st n op w = ((c, r), w') \<Longrightarrow> apply_result_ok c r"
  by (auto simp: api_apply_state_v3_def split: bridge_world.splits if_splits prod.splits elim!: finish_apply_ok)

lemma result_code_zero: "runtime_control_result_code issue = 0 \<longleftrightarrow> issue = runtime_issue_none"
  by (simp add: runtime_control_result_code_def)

lemma configure_revision:
  assumes "configure_runtime_control_v3 now c s = ((issue, revision), t)" "issue = runtime_issue_none"
  shows "revision = rc_profile_revision c"
  using assms by (auto simp: configure_runtime_control_v3_def configure_runtime_control_def Let_def runtime_issue_defs
    split: if_splits)

lemma api_configure_wf:
  "api_configure_v3 now (Some c) w = ((code, r), w') \<Longrightarrow> runtime_result_ok code (rc_profile_revision c) r"
  by (cases w)
    (auto simp: api_configure_v3_def api_configure_def Let_def result_code_zero split: prod.splits
      elim!: finish_runtime_ok dest: configure_revision)

lemma api_clear_wf: "api_clear_runtime_control w = ((code, r), w') \<Longrightarrow> runtime_result_ok code 0 r"
  by (cases w)
    (auto simp: api_clear_runtime_control_def clear_runtime_control_def Let_def result_code_zero split: prod.splits
      elim!: finish_runtime_ok)

interpretation linked: well_formed_bridge "linked_bridge CC io load prepare cycles"
  for CC :: "'c chassis_control" and io load prepare cycles
  by unfold_locales
    (auto simp: linked_bridge_def linked_call_def split: prod.splits
      dest: api_apply_wf api_configure_wf api_clear_wf)

subsection \<open>Commands and stops through both layers\<close>

lemma gear_values: "gear_to_bridge_value g = Inr n \<Longrightarrow> 1 \<le> n \<and> n \<le> 4 \<and> (n = 4 \<longleftrightarrow> g = ''P'')"
  by (auto simp: gear_to_bridge_value_def split: if_splits)

text \<open>
  What the bridge holds after a command was applied at \<open>now\<close>: the world before and after. The
  parking gear is a stop; any other command is the stored intent, with its operator's activity
  counted from then on by the idle timer, and fed to the watchdog.
\<close>

definition command_stored :: "int \<Rightarrow> int \<Rightarrow> double \<Rightarrow> double \<Rightarrow> double list \<Rightarrow> bool \<Rightarrow> 'c bridge_world \<Rightarrow> 'c bridge_world \<Rightarrow> bool" where
  "command_stored now g v a st active w w' \<longleftrightarrow> (\<exists>s t. w = Open s \<and> w' = Open t \<and>
     (if g = 4 then dead_stop t
      else b_latest_intent_valid t \<and> b_latest_intent t = \<lparr>ci_gear = g, ci_target_speed_mps = v, ci_longitudinal = a,
          ci_steering = st, ci_generation = b_intent_generation s + 1\<rparr> \<and>
        b_operator_idle t = oip_observe (active \<and> vcu_ready (b_controller s)) (millis now) (b_operator_idle s) \<and>
        b_last_successful_apply t = Some now))"

lemma park_dead: "bridge_request_park s = (True, t) \<Longrightarrow> dead_stop t"
  by (auto simp: bridge_request_park_def consume_stop_context_def Let_def dead_stop_def unarmed_request_disarm split: if_splits)

lemma stored_intent:
  assumes "store_intent now g v a (replicate 4 x) active s = (issue_none, t)"
  shows "b_latest_intent_valid t \<and> b_latest_intent t = \<lparr>ci_gear = g, ci_target_speed_mps = v, ci_longitudinal = a,
        ci_steering = replicate 4 x, ci_generation = b_intent_generation s + 1\<rparr> \<and>
      b_operator_idle t = oip_observe (active \<and> vcu_ready (b_controller s)) (millis now) (b_operator_idle s) \<and>
      b_last_successful_apply t = Some now"
  using assms by (auto simp: store_intent_def store_intent_checked_def refuse_gear_change_def accept_intent_def issue_defs
    Let_def split: if_splits)

lemma api_apply_stored:
  assumes "api_apply_state_v3 now g v a (Some (replicate 4 x)) 4 op w = ((0, r), w')"
  shows "command_stored now g v a (replicate 4 x) (op \<noteq> 0) w w'"
  using assms
  by (auto simp: api_apply_state_v3_def finish_apply_def command_stored_def Let_def
    split: bridge_world.splits if_splits prod.splits dest: park_dead stored_intent)

subsection \<open>Concrete adapter over the bridge\<close>

definition demo_linked :: "unit linked dynamic_adapter" where
  "demo_linked = \<lparr>da_library_path = ''lib'', da_can_interface = ''can0'', da_can_bitrate = 500000,
     da_can_tx_queue_length = 16, da_max_speed_mps = Fin 5, da_full_scale_motor_torque_nm = Fin 640,
     da_motor_torque_rise_rate_nm_per_s = zero, da_max_ordinary_brake_pressure_bar = Fin 128,
     da_session_motor_torque_limit_nm = Fin 320, da_session_brake_pressure_limit_bar = Fin 64,
     da_runtime_control_profile_revision = 1, da_control_timeout_ms = 200, da_speed_feedback_timeout_ms = 100,
     da_speed_pid_kp = one, da_speed_pid_ki = zero, da_speed_pid_kd = zero,
     da_speed_pid_derivative_filter_tau_ms = zero, da_speed_pid_max_dt_ms = 100, da_hard_overspeed_margin_mps = one,
     da_loaded = True, da_opened = True, da_feedback_ready = True, da_applied_command_count = 3,
     da_safe_stop_count = 0, da_last_error = [], da_bridge = \<lparr>lk_now = 0, lk_world = Open demo_runtime\<rparr>\<rparr>"

definition demo_link :: "unit linked chassis_bridge" where
  "demo_link = linked_bridge demo_chassis \<lparr>log_opens = True, socket_opens = True\<rparr> (\<lambda>_. throwS not_open)
     (\<lambda>_ _ _. returnS ()) []"

lemma demo_linked_fields:
  "da_opened demo_linked" "da_max_speed_mps demo_linked = Fin 5" "da_session_brake_pressure_limit_bar demo_linked = Fin 64"
  "da_max_ordinary_brake_pressure_bar demo_linked = Fin 128"
  "da_bridge demo_linked = \<lparr>lk_now = 0, lk_world = Open demo_runtime\<rparr>"
  "traction_ceiling_of demo_linked = traction_ceiling_of demo_dynamic"
  by (simp_all add: demo_linked_def demo_dynamic_def traction_ceiling_of_def)

lemma demo_running: "b_running demo_runtime"
  by (simp add: demo_runtime_def)

text \<open>A command to drive with half of the steering, and a session that allows it.\<close>

definition demo_turn :: control_command where
  "demo_turn = demo_drive\<lparr>steering := Fin (1 / 2)\<rparr>"

definition demo_steered :: "unit bridge_runtime" where
  "demo_steered = demo_runtime\<lparr>b_runtime_control := (b_runtime_control demo_runtime)
     \<lparr>rt_max_motor_torque_nm := Fin 300, rt_max_steering_request := Fin 1\<rparr>\<rparr>"

definition demo_turning :: "unit linked dynamic_adapter" where
  "demo_turning = demo_linked\<lparr>da_bridge := \<lparr>lk_now = 20000000, lk_world = Open demo_steered\<rparr>\<rparr>"

lemma within_tolerance:
  assumes "is_double (Fin b)" "x \<le> b"
  shows "\<not> dlt (dadd (Fin b) limit_tolerance) (Fin x)"
proof -
  have d: "is_double (Fin 0)" "is_double (Fin 1)" using is_double_of_int[of 0] is_double_of_int[of 1] by simp_all
  obtain r where r: "limit_tolerance = Fin r" "0 \<le> r"
    using round64_between[OF d, of "1 / 1000000000"] by (auto simp: limit_tolerance_def dbl_def)
  then have "\<not> dlt (dadd (Fin b) limit_tolerance) (Fin b)" using round64_not_below[OF assms(1), of "b + r"] unfolding r by simp
  then show ?thesis using assms(2) by (cases "dadd (Fin b) limit_tolerance") auto
qed

lemma demo_within: "\<not> exceeds_profile (Fin 5) (Fin (1 / 2)) (replicate 4 (Fin (1 / 2))) demo_steered"
proof -
  have limits: "rt_target_speed_limit_mps (b_runtime_control demo_steered) = Fin 10"
    "rt_max_motor_torque_nm (b_runtime_control demo_steered) = Fin 300"
    "rt_max_steering_request (b_runtime_control demo_steered) = Fin 1" "b_full_scale_motor_torque_nm demo_steered = Fin 300"
    by (simp_all add: demo_steered_def demo_runtime_def runtime_new_def)
  have one: "round64 1 = Fin 1" by (rule round64_eval; code_simp)
  show ?thesis
    using within_tolerance[of 10 5] within_tolerance[of 1 "1 / 2"] is_double_of_int[of 10] is_double_of_int[of 1]
    by (simp add: exceeds_profile_def limits one eval_nat_numeral Let_def)
qed

lemma demo_stored:
  obtains t where "store_intent 20000000 3 (Fin 5) (Fin (1 / 2)) (replicate 4 (Fin (1 / 2))) True demo_steered = (issue_none, t)"
proof -
  have "b_running demo_steered" "b_io_error demo_steered = 0" "\<not> physical_emergency_latched (b_controller demo_steered)"
    "\<not> b_hard_overspeed_latched demo_steered" "rt_active (b_runtime_control demo_steered)" "b_latest_intent_valid demo_steered"
    "ci_gear (b_latest_intent demo_steered) = 3" "\<not> b_gear_rejection_latched demo_steered"
    by (simp_all add: demo_steered_def demo_runtime_def runtime_new_def demo_controller_def vcu_reset_def)
  then show thesis using demo_within that by (simp add: store_intent_def store_intent_checked_def Let_def)
qed

lemma demo_turn_requests:
  "dynamic_adapter_target_acceleration demo_turn (traction_ceiling_of demo_turning) (Fin 64) (Fin 128) = Inr (Fin (1 / 2))"
  "dynamic_adapter_target_speed_mps demo_turn (Fin 5) = Inr (Fin 5)" "gear_to_bridge_value (gear demo_turn) = Inr 3"
proof -
  have valid: "control_command_validate demo_turn = Inr ()"
    by (simp add: demo_turn_def demo_drive_def validate_simps kProtocolVersion_def allowed_gear_def)
  have ceiling: "traction_ceiling_of demo_turning = Fin (1 / 2)"
    by (simp add: traction_ceiling_of_def demo_turning_def demo_linked_def demo_half)
  have brake: "vehicle_normalized_brake_request zero (Fin 64) (Fin 128) = Inr zero"
    by (simp add: vehicle_normalized_brake_request_def require_finite_range_def throw_if_def limit_values)
  have five: "round64 5 = Fin 5" by (rule round64_eval; code_simp)
  show "dynamic_adapter_target_acceleration demo_turn (traction_ceiling_of demo_turning) (Fin 64) (Fin 128) = Inr (Fin (1 / 2))"
    "dynamic_adapter_target_speed_mps demo_turn (Fin 5) = Inr (Fin 5)"
    using brake unfolding dynamic_adapter_target_acceleration_def dynamic_adapter_target_speed_mps_def ceiling valid
    by (simp_all add: require_finite_range_def throw_if_def demo_turn_def demo_drive_def five dclamp_def)
  show "gear_to_bridge_value (gear demo_turn) = Inr 3" by (simp add: demo_turn_def demo_drive_def gear_to_bridge_value_def)
qed

lemma demo_turned:
  obtains s' where "dynamic_apply_control demo_link demo_turn demo_turning = (Inr (), s')"
proof -
  obtain t where t: "store_intent 20000000 3 (Fin 5) (Fin (1 / 2)) (replicate 4 (Fin (1 / 2))) True demo_steered = (issue_none, t)"
    by (rule demo_stored)
  have fields: "steering demo_turn = Fin (1 / 2)" "operator_active demo_turn" "\<not> estop demo_turn"
    by (simp_all add: demo_turn_def demo_drive_def)
  have "\<not> apply_arguments_invalid 3 (Fin 5) (Fin (1 / 2)) (Some (replicate 4 (Fin (1 / 2)))) 4 1"
    using dbl_of_int [of "- 1"] dbl_of_int [of 20] dbl_of_int [of 0] dbl_of_int [of 1]
    by (simp add: apply_arguments_invalid_def eval_nat_numeral)
  then have "api_apply_state_v3 20000000 3 (Fin 5) (Fin (1 / 2)) (Some (replicate 4 (Fin (1 / 2)))) 4 1 (Open demo_steered) =
      (finish_apply 0 issue_none, Open t)"
    using t by (simp add: api_apply_state_v3_def)
  then have "br_apply_v3 demo_link 3 (Fin 5) (Fin (1 / 2)) (replicate 4 (steering demo_turn)) 4
      (if operator_active demo_turn \<and> \<not> estop demo_turn then 1 else 0) (da_bridge demo_turning) =
      (finish_apply 0 issue_none, \<lparr>lk_now = 20000000, lk_world = Open t\<rparr>)"
    unfolding demo_link_def linked_apply by (simp add: demo_turning_def fields)
  then show ?thesis
    using apply_control_sent [of demo_turning demo_turn "Fin 5" "Fin (1 / 2)" 3 demo_link 0] demo_turn_requests that
    by (auto simp: demo_turning_def demo_linked_fields apply_result_ok_def finish_apply_def kBridgeApplyIssueNone_def
        issue_none_def)
qed

subsection \<open>What the adapter reports\<close>

text \<open>
  C15. A command that the adapter reports as applied is in force in the bridge: with the model of
  the bridge behind the adapter, a returning \<open>apply_control\<close> leaves the bridge open with exactly the
  requested gear, target speed, acceleration and steering of the four axles stored as a new
  intent, the operator's activity noted for the parking timer (never under an ESTOP) and the
  watchdog fed at that time, or stopped on its way to parking when the command asks for the
  parking gear.
\<close>

theorem linked_command_stored:
  assumes "dynamic_apply_control (linked_bridge CC io load prepare cycles) c s = (Inr (), s')"
  shows "\<exists>g v a. gear_to_bridge_value (gear c) = Inr g \<and>
    dynamic_adapter_target_speed_mps c (da_max_speed_mps s) = Inr v \<and>
    dynamic_adapter_target_acceleration c (traction_ceiling_of s) (da_session_brake_pressure_limit_bar s)
      (da_max_ordinary_brake_pressure_bar s) = Inr a \<and>
    command_stored (lk_now (da_bridge s)) g v a (replicate 4 (steering c)) (operator_active c \<and> \<not> estop c)
      (lk_world (da_bridge s)) (lk_world (da_bridge s'))"
proof (cases rule: apply_control_cases [where B = "linked_bridge CC io load prepare cycles" and c = c and s = s])
  case (refused e)
  then show ?thesis using assms by simp
next
  case (sent v a g code r b)
  let ?op = "if operator_active c \<and> \<not> estop c then 1 else 0 :: int"
  have ok: "code = 0" "da_bridge s' = b" using sent(6) assms by (auto split: if_splits)
  then obtain w where w: "api_apply_state_v3 (lk_now (da_bridge s)) g v a (Some (replicate 4 (steering c))) 4 ?op
      (lk_world (da_bridge s)) = ((0, r), w)" "b = (da_bridge s)\<lparr>lk_world := w\<rparr>"
    using sent(5) by (auto simp: linked_apply Let_def split: prod.splits)
  have "(?op \<noteq> 0) = (operator_active c \<and> \<not> estop c)" by simp
  with api_apply_stored[OF w(1)] show ?thesis using sent(2-4) ok w(2) by auto
qed

text \<open>A command to drive and to steer is stored as it is.\<close>

theorem linked_command_stored_witness:
  "\<exists>s' t. dynamic_apply_control demo_link demo_turn demo_turning = (Inr (), s') \<and> lk_world (da_bridge s') = Open t \<and>
     ci_gear (b_latest_intent t) = 3 \<and> ci_target_speed_mps (b_latest_intent t) = Fin 5 \<and>
     ci_longitudinal (b_latest_intent t) = Fin (1 / 2) \<and> ci_steering (b_latest_intent t) = replicate 4 (Fin (1 / 2)) \<and>
     b_last_successful_apply t = Some 20000000"
proof -
  obtain s' where s': "dynamic_apply_control demo_link demo_turn demo_turning = (Inr (), s')" by (rule demo_turned)
  have fields: "da_max_speed_mps demo_turning = Fin 5" "da_session_brake_pressure_limit_bar demo_turning = Fin 64"
    "da_max_ordinary_brake_pressure_bar demo_turning = Fin 128" "lk_now (da_bridge demo_turning) = 20000000"
    "steering demo_turn = Fin (1 / 2)"
    by (simp_all add: demo_turning_def demo_linked_fields) (simp add: demo_turn_def)
  from linked_command_stored [OF s' [unfolded demo_link_def]] have
    "command_stored 20000000 3 (Fin 5) (Fin (1 / 2)) (replicate 4 (Fin (1 / 2))) (operator_active demo_turn \<and> \<not> estop demo_turn)
      (lk_world (da_bridge demo_turning)) (lk_world (da_bridge s'))"
    by (simp add: fields demo_turn_requests)
  then show ?thesis using s' by (auto simp: command_stored_def)
qed

lemma api_stop_held:
  assumes "api_emergency_stop w = (0, w')"
  obtains s where "w = Open s" "b_running s" "w' = Open (snd (bridge_emergency_stop s))"
  using assms by (auto simp: api_emergency_stop_def api_flag_def bridge_emergency_stop_def Let_def
    split: bridge_world.splits if_splits prod.splits)

lemma safe_stop_call:
  assumes "dynamic_apply_safe_stop (linked_bridge CC io load prepare cycles) out ctx s = (Inr (), s')"
    "out_estop out \<or> full_emergency_brake out"
  obtains w where "api_emergency_stop w = (0, lk_world (da_bridge s'))"
  using assms
  by (auto simp: dynamic_apply_safe_stop_def oper_defs require_open_def bridge_call_def check_result_def linked_bridge_def
    linked_call_def Let_def split: prod.splits if_splits)

text \<open>
  C8. A safe stop reaches the motors: with the model of the bridge behind the adapter, a returning
  \<open>apply_safe_stop\<close> for an ESTOP or a full emergency brake leaves the bridge open and stopped; no
  sequence of operations without a new intent or handshake transmits torque afterwards.
\<close>

theorem linked_safe_stop:
  assumes "dynamic_apply_safe_stop (linked_bridge CC io load prepare cycles) out ctx s = (Inr (), s')"
    "out_estop out \<or> full_emergency_brake out" "list_all no_resume es"
  shows "\<exists>t. lk_world (da_bridge s') = Open t \<and> b_software_estop t \<and>
    list_all2 no_torque es (fst (run (bridge_step CC) es t))"
proof -
  obtain w where "api_emergency_stop w = (0, lk_world (da_bridge s'))" using safe_stop_call[OF assms(1,2)] .
  then obtain t where t: "b_running t" "lk_world (da_bridge s') = Open (snd (bridge_emergency_stop t))"
    by (elim api_stop_held)
  have "stopped_bridge (snd (bridge_emergency_stop t))" by (rule stopping_stopped[OF stopping.stop_request[OF t(1)]])
  then show ?thesis
    using bridge_stop.run_good[OF _ assms(3)] t by (auto simp: stopped_bridge_def stop_defs)
qed

abbreviation demo_estop :: control_output where
  "demo_estop \<equiv> default_output\<lparr>out_estop := True\<rparr>"

lemma emergency_stop_running: "b_running s \<Longrightarrow> \<exists>t. bridge_emergency_stop s = (True, t)"
  by (simp add: bridge_emergency_stop_def Let_def case_prod_beta)

lemma demo_context_set:
  obtains t where "set_stop_context \<lparr>sc_struct_size = sizeof_stop_context, sc_stop_source = 1,
    sc_stop_reason = 1, sc_reserved = 0\<rparr> demo_runtime = (True, t)" "b_running t"
proof
  show "set_stop_context \<lparr>sc_struct_size = sizeof_stop_context, sc_stop_source = 1, sc_stop_reason = 1, sc_reserved = 0\<rparr>
      demo_runtime = (True, demo_runtime\<lparr>b_pending_stop := \<lparr>sp_source = 1, sp_reason = 1\<rparr>\<rparr>)"
    by (simp add: set_stop_context_def Let_def demo_running valid_stop_source_def valid_stop_reason_def source_defs reason_defs)
qed (use demo_running in simp)

lemma demo_stopped:
  obtains s' where "dynamic_apply_safe_stop demo_link demo_estop
    (stop_context DriverPage OperatorEstop) demo_linked = (Inr (), s')"
proof -
  obtain t where t: "set_stop_context \<lparr>sc_struct_size = sizeof_stop_context, sc_stop_source = 1,
    sc_stop_reason = 1, sc_reserved = 0\<rparr> demo_runtime = (True, t)" "b_running t"
    by (rule demo_context_set)
  obtain u where u: "bridge_emergency_stop t = (True, u)" using emergency_stop_running[OF t(2)] by blast
  show ?thesis
    by (rule that)
      (simp add: dynamic_apply_safe_stop_def oper_defs require_open_def bridge_call_def check_result_def demo_link_def
        linked_bridge_def linked_call_def demo_linked_fields stop_context_def api_set_stop_context_def api_flag_def t(1)
        api_emergency_stop_def u)
qed

theorem linked_safe_stop_witness:
  "\<exists>s' t. dynamic_apply_safe_stop demo_link demo_estop (stop_context DriverPage OperatorEstop) demo_linked = (Inr (), s') \<and>
     lk_world (da_bridge s') = Open t \<and> b_software_estop t \<and>
     list_all2 no_torque [Poll, Cycle 20000000] (fst (run (bridge_step demo_chassis) [Poll, Cycle 20000000] t))"
proof -
  obtain s' where s': "dynamic_apply_safe_stop demo_link demo_estop (stop_context DriverPage OperatorEstop) demo_linked = (Inr (), s')"
    by (rule demo_stopped)
  have stop: "out_estop demo_estop \<or> full_emergency_brake demo_estop" by simp
  have es: "list_all no_resume [Poll, Cycle 20000000]" by simp
  from linked_safe_stop [OF s' [unfolded demo_link_def] stop es] s' show ?thesis by blast
qed

end
