(* ===== verification/Json_Codec.thy ===== *)
theory Json_Codec
  imports Protocol
begin

text \<open>
  JSON values and the codecs of the protocol structures. The JSON library is not part of the
  repository: its values are a type variable and the functions that the code calls on them are
  the record \<open>json_ops\<close>, an argument of every definition that uses them. What the round trips
  need of the library is the locale \<open>json_library\<close>; \<open>tree_json\<close> is an implementation of it as a
  tagged union, which the witnesses use.
\<close>

subsection \<open>The library interface\<close>

record 'j json_ops =
  js_is_object :: "'j \<Rightarrow> bool"
  js_is_null :: "'j \<Rightarrow> bool"
  js_is_string :: "'j \<Rightarrow> bool"
  js_is_boolean :: "'j \<Rightarrow> bool"
  js_is_number :: "'j \<Rightarrow> bool"
  js_is_number_integer :: "'j \<Rightarrow> bool"
  js_is_number_unsigned :: "'j \<Rightarrow> bool"
  js_contains :: "'j \<Rightarrow> string \<Rightarrow> bool"
  js_at :: "'j \<Rightarrow> string \<Rightarrow> 'j res"
  js_get_string :: "'j \<Rightarrow> string res"
  js_get_bool :: "'j \<Rightarrow> bool res"
  js_get_int :: "'j \<Rightarrow> int res"
  js_get_int64 :: "'j \<Rightarrow> int res"
  js_get_uint64 :: "'j \<Rightarrow> uint64 res"
  js_get_double :: "'j \<Rightarrow> double res"
  js_value_string :: "'j \<Rightarrow> string \<Rightarrow> string \<Rightarrow> string res"
  js_value_bool :: "'j \<Rightarrow> string \<Rightarrow> bool \<Rightarrow> bool res"
  js_value_uint64 :: "'j \<Rightarrow> string \<Rightarrow> uint64 \<Rightarrow> uint64 res"
  js_value_int64 :: "'j \<Rightarrow> string \<Rightarrow> int \<Rightarrow> int res"
  js_value_json :: "'j \<Rightarrow> string \<Rightarrow> 'j \<Rightarrow> 'j res"
  js_less_int :: "'j \<Rightarrow> int \<Rightarrow> bool"
  js_greater_int :: "'j \<Rightarrow> int \<Rightarrow> bool"
  js_null :: 'j
  js_of_bool :: "bool \<Rightarrow> 'j"
  js_of_int :: "int \<Rightarrow> 'j"
  js_of_uint :: "uint64 \<Rightarrow> 'j"
  js_of_double :: "double \<Rightarrow> 'j"
  js_of_string :: "string \<Rightarrow> 'j"
  js_array :: "'j list \<Rightarrow> 'j"
  js_is_array :: "'j \<Rightarrow> bool"
  js_elements :: "'j \<Rightarrow> 'j list"
  js_length :: "'j \<Rightarrow> nat"
  js_object :: "(string \<times> 'j) list \<Rightarrow> 'j"
  js_set :: "'j \<Rightarrow> string \<Rightarrow> 'j \<Rightarrow> 'j"
  js_dump :: "'j \<Rightarrow> string res"
  js_parse :: "string \<Rightarrow> 'j res"

text \<open>
  The documented behaviour the codecs rely on: an object built from a list of fields has them, an
  assigned field is read back, a stored scalar is read back at its type, and \<open>value\<close> returns the
  field or the default.
\<close>

locale json_library =
  fixes J :: "'j json_ops"
  assumes object [simp]: "js_is_object J (js_object J kvs)" "js_is_object J v \<Longrightarrow> js_is_object J (js_set J v key x)"
    and contains_object [simp]: "js_contains J (js_object J kvs) key \<longleftrightarrow> map_of kvs key \<noteq> None"
    and at_object [simp]: "map_of kvs key = Some x \<Longrightarrow> js_at J (js_object J kvs) key = Inr x"
    and contains_set [simp]: "js_is_object J v \<Longrightarrow> js_contains J (js_set J v key x) key' \<longleftrightarrow> key' = key \<or> js_contains J v key'"
    and at_set [simp]: "js_is_object J v \<Longrightarrow>
      js_at J (js_set J v key x) key' = (if key' = key then Inr x else js_at J v key')"
    and get [simp]: "js_get_string J (js_of_string J str) = Inr str" "js_get_bool J (js_of_bool J b) = Inr b"
      "js_get_uint64 J (js_of_uint J w) = Inr w" "js_get_double J (js_of_double J d) = Inr d"
      "in_int32 i \<Longrightarrow> js_get_int J (js_of_int J i) = Inr i" "in_int64 n \<Longrightarrow> js_get_int64 J (js_of_int J n) = Inr n"
    and integer [simp]: "js_is_number_integer J (js_of_int J n)" "js_less_int J (js_of_int J n) m \<longleftrightarrow> n < m"
      "js_greater_int J (js_of_int J n) m \<longleftrightarrow> m < n"
    and null [simp]: "js_is_null J (js_null J)" "\<not> js_is_null J (js_object J kvs)"
    and value_string [simp]: "js_is_object J v \<Longrightarrow>
      js_value_string J v key str = (if js_contains J v key then bindE (js_at J v key) (js_get_string J) else Inr str)"
    and value_bool [simp]: "js_is_object J v \<Longrightarrow>
      js_value_bool J v key b = (if js_contains J v key then bindE (js_at J v key) (js_get_bool J) else Inr b)"

subsection \<open>Accessors of the request fields\<close>

definition required_string :: "'j json_ops \<Rightarrow> 'j \<Rightarrow> string \<Rightarrow> string res" where
  "required_string J value name =
     (let bad = Inl (InvalidArgument (name @ '' must be a non-empty string''))
      in if \<not> js_contains J value name then bad
         else bindE (js_at J value name) (\<lambda>field.
           if \<not> js_is_string J field then bad
           else bindE (js_get_string J field) (\<lambda>str. if str = [] then bad else Inr str)))"

definition optional_string :: "'j json_ops \<Rightarrow> 'j \<Rightarrow> string \<Rightarrow> string res" where
  "optional_string J value name =
     (if \<not> js_contains J value name then Inr []
      else bindE (js_at J value name) (\<lambda>field.
        if js_is_null J field then Inr []
        else if \<not> js_is_string J field then Inl (InvalidArgument (name @ '' must be a string''))
        else js_get_string J field))"

text \<open>
  \<open>std::stoull\<close> in base 10: leading white space, a sign and the longest run of digits; the
  position behind it is the number of characters consumed. Values above the range throw; a
  minus sign negates modulo \<open>2 ^ 64\<close>.
\<close>

definition c_isspace :: "char \<Rightarrow> bool" where
  "c_isspace c \<longleftrightarrow> (let n = (of_char c :: nat) in n = 32 \<or> (9 \<le> n \<and> n \<le> 13))"

definition c_isdigit :: "char \<Rightarrow> bool" where
  "c_isdigit c \<longleftrightarrow> (let n = (of_char c :: nat) in 48 \<le> n \<and> n \<le> 57)"

definition digits_value :: "string \<Rightarrow> nat" where
  "digits_value ds = foldl (\<lambda>v c. 10 * v + (of_char c - 48)) 0 ds"

definition stoull :: "string \<Rightarrow> (uint64 \<times> nat) option" where
  "stoull text =
     (let spaces = takeWhile c_isspace text; rest = dropWhile c_isspace text;
          negative = rest \<noteq> [] \<and> hd rest = CHR ''-'';
          signed = rest \<noteq> [] \<and> (hd rest = CHR ''-'' \<or> hd rest = CHR ''+'');
          body = (if signed then tl rest else rest);
          ds = takeWhile c_isdigit body; n = digits_value ds
      in if ds = [] \<or> 2 ^ 64 \<le> n then None
         else Some (if negative then - of_nat n else of_nat n,
                    length spaces + (if signed then 1 else 0) + length ds))"

definition required_uint64 :: "'j json_ops \<Rightarrow> 'j \<Rightarrow> string \<Rightarrow> uint64 res" where
  "required_uint64 J value name =
     (if \<not> js_contains J value name then Inl (InvalidArgument (name @ '' is required''))
      else bindE (js_at J value name) (\<lambda>field.
        if js_is_number_unsigned J field then js_get_uint64 J field
        else bindE (if js_is_number_integer J field then js_get_int64 J field else Inr 0) (\<lambda>parsed.
          if 0 < parsed then Inr (word_of_int parsed)
          else bindE (if js_is_string J field then js_get_string J field else Inr []) (\<lambda>text.
            case stoull text of
              Some (n, consumed) \<Rightarrow>
                if 0 < n \<and> consumed = length text then Inr n
                else Inl (InvalidArgument (name @ '' must be a positive integer''))
            | None \<Rightarrow> Inl (InvalidArgument (name @ '' must be a positive integer''))))))"

definition required_int64 :: "'j json_ops \<Rightarrow> 'j \<Rightarrow> string \<Rightarrow> int res" where
  "required_int64 J value name =
     (if \<not> js_contains J value name then Inl (InvalidArgument (name @ '' must be an integer''))
      else bindE (js_at J value name) (\<lambda>field.
        if \<not> js_is_number_integer J field then Inl (InvalidArgument (name @ '' must be an integer''))
        else js_get_int64 J field))"

definition required_nonnegative_uint64 :: "'j json_ops \<Rightarrow> 'j \<Rightarrow> string \<Rightarrow> uint64 res" where
  "required_nonnegative_uint64 J value name =
     (let bad = Inl (InvalidArgument (name @ '' must be a non-negative integer''))
      in if \<not> js_contains J value name then bad
         else bindE (js_at J value name) (\<lambda>field.
           if \<not> js_is_number_integer J field then bad
           else if js_is_number_unsigned J field then js_get_uint64 J field
           else bindE (js_get_int64 J field) (\<lambda>parsed. if parsed < 0 then bad else Inr (word_of_int parsed))))"

definition required_nonnegative_number :: "'j json_ops \<Rightarrow> 'j \<Rightarrow> string \<Rightarrow> double res" where
  "required_nonnegative_number J value name =
     (let bad = Inl (InvalidArgument (name @ '' must be a non-negative number''))
      in if \<not> js_contains J value name then bad
         else bindE (js_at J value name) (\<lambda>field.
           if \<not> js_is_number J field then bad
           else bindE (js_get_double J field) (\<lambda>parsed.
             if \<not> isfinite parsed \<or> dlt parsed zero then bad else Inr parsed)))"

text \<open>The lambda \<open>required_boolean\<close> of the WebRTC status route.\<close>

definition required_boolean :: "'j json_ops \<Rightarrow> 'j \<Rightarrow> string \<Rightarrow> bool res" where
  "required_boolean J value name =
     (let bad = Inl (InvalidArgument (name @ '' must be a boolean''))
      in if \<not> js_contains J value name then bad
         else bindE (js_at J value name) (\<lambda>field. if \<not> js_is_boolean J field then bad else js_get_bool J field))"

subsection \<open>Codecs of the protocol structures\<close>

text \<open>\<open>catch (const Json::exception& error)\<close> around the reads of a codec.\<close>

definition rethrow_json :: "string \<Rightarrow> 'a res \<Rightarrow> 'a res" where
  "rethrow_json prefix r = (case r of Inl (JsonError m) \<Rightarrow> Inl (InvalidArgument (prefix @ m)) | _ \<Rightarrow> r)"

definition read_at :: "'j json_ops \<Rightarrow> 'j \<Rightarrow> string \<Rightarrow> ('j \<Rightarrow> 'a res) \<Rightarrow> 'a res" where
  "read_at J value key get = bindE (js_at J value key) get"

definition metadata_to_json :: "'j json_ops \<Rightarrow> 'a protocol_metadata_scheme \<Rightarrow> 'j" where
  "metadata_to_json J m = js_object J
     [(''protocol_version'', js_of_int J (protocol_version m)),
      (''vehicle_id'', js_of_string J (vehicle_id m)),
      (''driver_id'', js_of_string J (driver_id m)),
      (''session_id'', js_of_string J (session_id m)),
      (''seq'', js_of_uint J (seq m)),
      (''sent_at_utc_ms'', js_of_int J (sent_at_utc_ms m))]"

definition metadata_from_json :: "'j json_ops \<Rightarrow> 'j \<Rightarrow> protocol_metadata res" where
  "metadata_from_json J value =
     (if \<not> js_is_object J value then Inl (InvalidArgument ''protocol message must be a JSON object'')
      else bindE (rethrow_json ''invalid protocol metadata: ''
         (bindE (read_at J value ''protocol_version'' (js_get_int J)) (\<lambda>version.
          bindE (read_at J value ''vehicle_id'' (js_get_string J)) (\<lambda>vehicle.
          bindE (read_at J value ''driver_id'' (js_get_string J)) (\<lambda>driver.
          bindE (read_at J value ''session_id'' (js_get_string J)) (\<lambda>session.
          bindE (read_at J value ''seq'' (js_get_uint64 J)) (\<lambda>n.
          bindE (read_at J value ''sent_at_utc_ms'' (js_get_int64 J)) (\<lambda>sent.
            Inr \<lparr>protocol_version = version, vehicle_id = vehicle, driver_id = driver, session_id = session,
                 seq = n, sent_at_utc_ms = sent\<rparr>)))))))) (\<lambda>m.
        bindE (metadata_validate m) (\<lambda>_. Inr m)))"

definition command_to_json :: "'j json_ops \<Rightarrow> control_command \<Rightarrow> 'j" where
  "command_to_json J c = foldl (\<lambda>value (key, field). js_set J value key field) (metadata_to_json J c)
     [(''type'', js_of_string J ''control_command''),
      (''gear'', js_of_string J (gear c)),
      (''steering'', js_of_double J (steering c)),
      (''throttle'', js_of_double J (throttle c)),
      (''brake'', js_of_double J (brake c)),
      (''estop'', js_of_bool J (estop c)),
      (''operator_active'', js_of_bool J (operator_active c)),
      (''control_token'', js_of_string J (control_token c))]"

definition command_from_json :: "'j json_ops \<Rightarrow> 'j \<Rightarrow> control_command res" where
  "command_from_json J value =
     (if \<not> js_is_object J value then Inl (InvalidArgument ''control command must be a JSON object'')
      else bindE (js_value_string J value ''type'' []) (\<lambda>kind.
        if kind \<noteq> ''control_command'' then Inl (InvalidArgument ''type must be control_command'')
        else bindE (rethrow_json ''invalid control command: ''
         (bindE (metadata_from_json J value) (\<lambda>m.
          bindE (read_at J value ''gear'' (js_get_string J)) (\<lambda>g.
          bindE (read_at J value ''steering'' (js_get_double J)) (\<lambda>st.
          bindE (read_at J value ''throttle'' (js_get_double J)) (\<lambda>th.
          bindE (read_at J value ''brake'' (js_get_double J)) (\<lambda>br.
          bindE (js_value_bool J value ''estop'' False) (\<lambda>stop.
          bindE (js_value_bool J value ''operator_active'' False) (\<lambda>active.
          bindE (read_at J value ''control_token'' (js_get_string J)) (\<lambda>token.
            Inr (protocol_metadata.extend m (control_command.fields g st th br stop token active)))))))))))) (\<lambda>c.
        bindE (control_command_validate c) (\<lambda>_. Inr c))))"

definition profile_to_json :: "'j json_ops \<Rightarrow> session_control_profile \<Rightarrow> 'j res" where
  "profile_to_json J p = bindE (profile_validate p) (\<lambda>_. Inr (js_object J
     [(''profile_version'', js_of_int J (profile_version p)),
      (''parking_idle_timeout_ms'', js_of_int J (parking_idle_timeout_ms p)),
      (''target_speed_kph'', js_of_double J (target_speed_kph p)),
      (''max_motor_torque_nm'', js_of_double J (max_motor_torque_nm p)),
      (''max_brake_pressure_bar'', js_of_double J (max_brake_pressure_bar p)),
      (''service_brake_pressure_bar'', js_of_double J (service_brake_pressure_bar p)),
      (''hard_brake_pressure_bar'', js_of_double J (hard_brake_pressure_bar p)),
      (''max_steering_angle_deg'', js_of_double J (max_steering_angle_deg p)),
      (''speed_pid_kp'', js_of_double J (speed_pid_kp p)),
      (''speed_pid_ki'', js_of_double J (speed_pid_ki p)),
      (''speed_pid_kd'', js_of_double J (speed_pid_kd p)),
      (''speed_pid_derivative_filter_tau_ms'', js_of_double J (speed_pid_derivative_filter_tau_ms p)),
      (''speed_pid_max_dt_ms'', js_of_int J (speed_pid_max_dt_ms p)),
      (''motor_torque_rise_rate_nm_per_s'', js_of_double J (motor_torque_rise_rate_nm_per_s p))]))"

definition profile_from_json :: "'j json_ops \<Rightarrow> 'j \<Rightarrow> session_control_profile res" where
  "profile_from_json J value =
     (if \<not> js_is_object J value then Inl (InvalidArgument ''session control profile must be a JSON object'')
      else bindE (rethrow_json ''invalid session control profile: ''
         (bindE (js_at J value ''parking_idle_timeout_ms'') (\<lambda>field.
          if \<not> js_is_number_integer J field \<or> js_less_int J field 0 \<or> js_greater_int J field 1000
          then Inl (InvalidArgument ''parking_idle_timeout_ms must be an integer'')
          else
          bindE (js_get_int J field) (\<lambda>parking.
          bindE (read_at J value ''profile_version'' (js_get_int J)) (\<lambda>version.
          bindE (read_at J value ''target_speed_kph'' (js_get_double J)) (\<lambda>speed.
          bindE (read_at J value ''max_motor_torque_nm'' (js_get_double J)) (\<lambda>torque.
          bindE (read_at J value ''max_brake_pressure_bar'' (js_get_double J)) (\<lambda>pressure.
          bindE (read_at J value ''service_brake_pressure_bar'' (js_get_double J)) (\<lambda>service.
          bindE (read_at J value ''hard_brake_pressure_bar'' (js_get_double J)) (\<lambda>hard.
          bindE (read_at J value ''max_steering_angle_deg'' (js_get_double J)) (\<lambda>angle.
          bindE (read_at J value ''speed_pid_kp'' (js_get_double J)) (\<lambda>kp.
          bindE (read_at J value ''speed_pid_ki'' (js_get_double J)) (\<lambda>ki.
          bindE (read_at J value ''speed_pid_kd'' (js_get_double J)) (\<lambda>kd.
          bindE (read_at J value ''speed_pid_derivative_filter_tau_ms'' (js_get_double J)) (\<lambda>tau.
          bindE (read_at J value ''speed_pid_max_dt_ms'' (js_get_int J)) (\<lambda>dt.
          bindE (read_at J value ''motor_torque_rise_rate_nm_per_s'' (js_get_double J)) (\<lambda>rise.
            Inr \<lparr>profile_version = version, target_speed_kph = speed, max_motor_torque_nm = torque,
              max_brake_pressure_bar = pressure, service_brake_pressure_bar = service,
              hard_brake_pressure_bar = hard, max_steering_angle_deg = angle, speed_pid_kp = kp,
              speed_pid_ki = ki, speed_pid_kd = kd, speed_pid_derivative_filter_tau_ms = tau,
              speed_pid_max_dt_ms = dt, motor_torque_rise_rate_nm_per_s = rise,
              parking_idle_timeout_ms = parking\<rparr>))))))))))))))))) (\<lambda>p.
        bindE (profile_validate p) (\<lambda>_. Inr p)))"

text \<open>The fields of a profile, in the order of \<open>profile_to_json\<close>; a request has them beside its own.\<close>

definition profile_keys :: "string list" where
  "profile_keys = [''profile_version'', ''parking_idle_timeout_ms'', ''target_speed_kph'', ''max_motor_torque_nm'',
     ''max_brake_pressure_bar'', ''service_brake_pressure_bar'', ''hard_brake_pressure_bar'', ''max_steering_angle_deg'',
     ''speed_pid_kp'', ''speed_pid_ki'', ''speed_pid_kd'', ''speed_pid_derivative_filter_tau_ms'', ''speed_pid_max_dt_ms'',
     ''motor_torque_rise_rate_nm_per_s'']"

text \<open>\<open>for (const auto& [key, field] : profile_json.items()) value[key] = field\<close>\<close>

fun copy_items :: "'j json_ops \<Rightarrow> 'j \<Rightarrow> string list \<Rightarrow> 'j \<Rightarrow> 'j res" where
  "copy_items J source [] value = Inr value"
| "copy_items J source (key # keys) value =
     bindE (js_at J source key) (\<lambda>field. copy_items J source keys (js_set J value key field))"

definition profile_request_to_json :: "'j json_ops \<Rightarrow> session_control_profile_request \<Rightarrow> 'j res" where
  "profile_request_to_json J r =
     bindE (profile_request_validate r) (\<lambda>_.
     bindE (profile_to_json J (req_profile r)) (\<lambda>profile_json.
       copy_items J profile_json profile_keys
         (js_set J (js_set J (metadata_to_json J r) ''type'' (js_of_string J ''session_control_profile''))
            ''control_token'' (js_of_string J (req_control_token r)))))"

definition profile_request_from_json :: "'j json_ops \<Rightarrow> 'j \<Rightarrow> session_control_profile_request res" where
  "profile_request_from_json J value =
     bindE (if \<not> js_is_object J value then Inr [] else js_value_string J value ''type'' []) (\<lambda>kind.
     if kind \<noteq> ''session_control_profile'' then Inl (InvalidArgument ''type must be session_control_profile'')
     else bindE (rethrow_json ''invalid session control profile request: ''
       (bindE (metadata_from_json J value) (\<lambda>m.
        bindE (read_at J value ''control_token'' (js_get_string J)) (\<lambda>token.
        bindE (profile_from_json J value) (\<lambda>p.
          Inr (protocol_metadata.extend m (session_control_profile_request.fields token p))))))) (\<lambda>r.
     bindE (profile_request_validate r) (\<lambda>_. Inr r)))"

definition profile_result_to_json :: "'j json_ops \<Rightarrow> session_control_profile_result \<Rightarrow> 'j res" where
  "profile_result_to_json J r =
     bindE (profile_result_validate r) (\<lambda>_.
     bindE (case res_effective_profile r of Some p \<Rightarrow> profile_to_json J p | None \<Rightarrow> Inr (js_null J)) (\<lambda>profile_json.
       Inr (foldl (\<lambda>value (key, field). js_set J value key field) (metadata_to_json J r)
         [(''event'', js_of_string J ''session_control_profile_result''),
          (''last_request_seq'', js_of_uint J (seq r)),
          (''active'', js_of_bool J (res_effective_profile r \<noteq> None)),
          (''accepted'', js_of_bool J (res_accepted r)),
          (''idempotent'', js_of_bool J (res_idempotent r)),
          (''applied_revision'', js_of_uint J (res_applied_revision r)),
          (''reason'', js_of_string J (res_reason r)),
          (''effective_profile'', profile_json)])))"

definition profile_result_from_json :: "'j json_ops \<Rightarrow> 'j \<Rightarrow> session_control_profile_result res" where
  "profile_result_from_json J value =
     bindE (if \<not> js_is_object J value then Inr [] else js_value_string J value ''event'' []) (\<lambda>event.
     if event \<noteq> ''session_control_profile_result'' then Inl (InvalidArgument ''event must be session_control_profile_result'')
     else bindE (rethrow_json ''invalid session control profile result: ''
       (bindE (metadata_from_json J value) (\<lambda>m.
        bindE (read_at J value ''last_request_seq'' (js_get_uint64 J)) (\<lambda>last_request_seq.
        bindE (read_at J value ''active'' (js_get_bool J)) (\<lambda>active.
        bindE (read_at J value ''accepted'' (js_get_bool J)) (\<lambda>accepted.
        bindE (read_at J value ''idempotent'' (js_get_bool J)) (\<lambda>idempotent.
        bindE (read_at J value ''applied_revision'' (js_get_uint64 J)) (\<lambda>revision.
        bindE (read_at J value ''reason'' (js_get_string J)) (\<lambda>why.
        bindE (js_at J value ''effective_profile'') (\<lambda>field.
        bindE (if js_is_null J field then Inr None else map_sum id Some (profile_from_json J field)) (\<lambda>effective.
          Inr (last_request_seq, active, protocol_metadata.extend m
            (session_control_profile_result.fields accepted idempotent revision why effective))))))))))))) (\<lambda>(last_request_seq, active, r).
     if last_request_seq \<noteq> seq r
     then Inl (InvalidArgument ''session control profile result last_request_seq does not match seq'')
     else if active \<noteq> (res_effective_profile r \<noteq> None)
     then Inl (InvalidArgument ''session control profile result active flag does not match effective_profile'')
     else bindE (profile_result_validate r) (\<lambda>_. Inr r)))"

subsection \<open>Round trips\<close>

lemma rethrow_json_Inr [simp]: "rethrow_json prefix (Inr a) = Inr a"
  by (simp add: rethrow_json_def)

lemma profile_ints:
  assumes "profile_validate p = Inr u"
  shows "in_int32 (profile_version p)" "in_int32 (parking_idle_timeout_ms p)" "in_int32 (speed_pid_max_dt_ms p)"
    "0 \<le> parking_idle_timeout_ms p" "parking_idle_timeout_ms p \<le> 1000"
  using assms by (auto simp: profile_validate_def in_int32_def kSessionControlProfileVersion_def kMinSpeedPidMaxDtMs_def
    kMaxSpeedPidMaxDtMs_def)

lemma version_int: "in_int32 kProtocolVersion"
  by (simp add: in_int32_def kProtocolVersion_def)

context json_library
begin

text \<open>A value whose reads agree with the metadata is decoded to it.\<close>

lemma metadata_decoded:
  assumes "js_is_object J value" "metadata_validate m = Inr u" "in_int64 (sent_at_utc_ms m)"
    and "\<And>key x. map_of [(''protocol_version'', js_of_int J (protocol_version m)), (''vehicle_id'', js_of_string J (vehicle_id m)),
      (''driver_id'', js_of_string J (driver_id m)), (''session_id'', js_of_string J (session_id m)),
      (''seq'', js_of_uint J (seq m)), (''sent_at_utc_ms'', js_of_int J (sent_at_utc_ms m))] key = Some x \<Longrightarrow>
      js_at J value key = Inr x"
  shows "metadata_from_json J value = Inr (protocol_metadata.truncate m)"
proof -
  have "in_int32 (protocol_version m)" using assms(2) version_int by (simp add: metadata_validate_ok)
  moreover have "metadata_validate (protocol_metadata.truncate m) = Inr ()"
    using assms(2) by (simp add: metadata_validate_ok protocol_metadata.defs)
  ultimately show ?thesis
    using assms(1,3) by (simp add: metadata_from_json_def read_at_def assms(4) protocol_metadata.defs)
qed

lemma metadata_set:
  assumes "js_is_object J value" "key \<notin> {''protocol_version'', ''vehicle_id'', ''driver_id'', ''session_id'', ''seq'', ''sent_at_utc_ms''}"
  shows "metadata_from_json J (js_set J value key x) = metadata_from_json J value"
proof -
  have "js_at J (js_set J value key x) k = js_at J value k"
    if "k \<in> {''protocol_version'', ''vehicle_id'', ''driver_id'', ''session_id'', ''seq'', ''sent_at_utc_ms''}" for k
    using assms that by (metis at_set)
  then show ?thesis using assms(1) by (simp add: metadata_from_json_def read_at_def)
qed

lemma metadata_round_trip:
  assumes "metadata_validate m = Inr u" "in_int64 (sent_at_utc_ms m)"
  shows "metadata_from_json J (metadata_to_json J m) = Inr (protocol_metadata.truncate m)"
  by (rule metadata_decoded[OF _ assms]) (simp_all add: metadata_to_json_def)

lemma metadata_object: "js_is_object J (metadata_to_json J m)"
  by (simp add: metadata_to_json_def)

lemma command_round_trip:
  assumes "valid_command c" "in_int64 (sent_at_utc_ms c)"
  shows "command_from_json J (command_to_json J c) = Inr c"
proof -
  have v: "control_command_validate c = Inr ()" using assms(1) by (simp add: valid_command_def)
  then have m: "metadata_validate c = Inr ()" by (simp add: control_command_validate_ok)
  have "protocol_metadata.extend (protocol_metadata.truncate c)
      (control_command.fields (gear c) (steering c) (throttle c) (brake c) (estop c) (control_token c) (operator_active c)) = c"
    by (simp add: protocol_metadata.defs control_command.defs)
  with v show ?thesis
    by (simp add: command_from_json_def command_to_json_def metadata_object metadata_set metadata_round_trip[OF m assms(2)]
      read_at_def)
qed

lemma profile_decoded:
  assumes "js_is_object J obj" "profile_validate p = Inr u" "profile_to_json J p = Inr src"
    and "\<And>key. key \<in> set profile_keys \<Longrightarrow> js_at J obj key = js_at J src key"
  shows "profile_from_json J obj = Inr p"
proof -
  note ints = profile_ints[OF assms(2)]
  have "u = ()" by simp
  with assms(2,3) have "src = js_object J
     [(''profile_version'', js_of_int J (profile_version p)),
      (''parking_idle_timeout_ms'', js_of_int J (parking_idle_timeout_ms p)),
      (''target_speed_kph'', js_of_double J (target_speed_kph p)),
      (''max_motor_torque_nm'', js_of_double J (max_motor_torque_nm p)),
      (''max_brake_pressure_bar'', js_of_double J (max_brake_pressure_bar p)),
      (''service_brake_pressure_bar'', js_of_double J (service_brake_pressure_bar p)),
      (''hard_brake_pressure_bar'', js_of_double J (hard_brake_pressure_bar p)),
      (''max_steering_angle_deg'', js_of_double J (max_steering_angle_deg p)),
      (''speed_pid_kp'', js_of_double J (speed_pid_kp p)),
      (''speed_pid_ki'', js_of_double J (speed_pid_ki p)),
      (''speed_pid_kd'', js_of_double J (speed_pid_kd p)),
      (''speed_pid_derivative_filter_tau_ms'', js_of_double J (speed_pid_derivative_filter_tau_ms p)),
      (''speed_pid_max_dt_ms'', js_of_int J (speed_pid_max_dt_ms p)),
      (''motor_torque_rise_rate_nm_per_s'', js_of_double J (motor_torque_rise_rate_nm_per_s p))]"
    by (simp add: profile_to_json_def)
  then show ?thesis
    using assms(1,2) ints by (cases p) (simp add: profile_from_json_def read_at_def assms(4) profile_keys_def not_less)
qed

lemma profile_round_trip:
  assumes "profile_validate p = Inr u"
  obtains obj where "profile_to_json J p = Inr obj" "js_is_object J obj" "\<not> js_is_null J obj"
    "profile_from_json J obj = Inr p"
proof -
  obtain obj where v: "profile_to_json J p = Inr obj" "js_is_object J obj" "\<not> js_is_null J obj"
    using assms by (simp add: profile_to_json_def)
  show thesis by (rule that[OF v profile_decoded[OF v(2) assms v(1) refl]])
qed

lemma copied_items:
  assumes "\<And>key. key \<in> set keys \<Longrightarrow> \<exists>x. js_at J src key = Inr x" "js_is_object J obj"
  shows "\<exists>res. copy_items J src keys obj = Inr res \<and> js_is_object J res \<and>
    (\<forall>key. js_at J res key = (if key \<in> set keys then js_at J src key else js_at J obj key)) \<and>
    (\<forall>key. js_contains J res key \<longleftrightarrow> key \<in> set keys \<or> js_contains J obj key)"
  using assms
proof (induction keys arbitrary: obj)
  case (Cons k ks)
  obtain x where x: "js_at J src k = Inr x" using Cons.prems(1) by auto
  have "js_is_object J (js_set J obj k x)" using Cons.prems(2) by simp
  with Cons.IH[of "js_set J obj k x"] Cons.prems obtain res where v: "copy_items J src ks (js_set J obj k x) = Inr res"
    "js_is_object J res"
    "\<forall>key. js_at J res key = (if key \<in> set ks then js_at J src key else js_at J (js_set J obj k x) key)"
    "\<forall>key. js_contains J res key \<longleftrightarrow> key \<in> set ks \<or> js_contains J (js_set J obj k x) key" by auto
  then show ?case using x Cons.prems(2) by auto
qed simp

lemma profile_fields:
  assumes "profile_to_json J p = Inr src" "key \<in> set profile_keys"
  shows "\<exists>x. js_at J src key = Inr x"
  using assms by (auto simp: profile_to_json_def profile_keys_def)

lemma request_round_trip:
  assumes "profile_request_validate r = Inr u" "in_int64 (sent_at_utc_ms r)"
  shows "bindE (profile_request_to_json J r) (profile_request_from_json J) = Inr r"
proof -
  have m: "metadata_validate r = Inr ()" and p: "profile_validate (req_profile r) = Inr ()" and v: "profile_request_validate r = Inr ()"
    using assms(1) by (simp_all add: profile_request_validate_def)
  obtain src where src: "profile_to_json J (req_profile r) = Inr src" using profile_round_trip[OF p] by metis
  let ?base = "js_set J (js_set J (metadata_to_json J r) ''type'' (js_of_string J ''session_control_profile''))
    ''control_token'' (js_of_string J (req_control_token r))"
  obtain obj where obj: "copy_items J src profile_keys ?base = Inr obj" "js_is_object J obj"
    "\<forall>key. js_at J obj key = (if key \<in> set profile_keys then js_at J src key else js_at J ?base key)"
    "\<forall>key. js_contains J obj key \<longleftrightarrow> key \<in> set profile_keys \<or> js_contains J ?base key"
    using copied_items[of profile_keys src ?base] profile_fields[OF src] by (auto simp: metadata_object)
  have "metadata_from_json J obj = Inr (protocol_metadata.truncate r)"
    by (rule metadata_decoded[OF obj(2) m assms(2)])
      (auto simp: obj(3) metadata_object metadata_to_json_def profile_keys_def split: if_splits)
  moreover have "profile_from_json J obj = Inr (req_profile r)"
    by (rule profile_decoded[OF obj(2) p src]) (simp add: obj(3))
  moreover have "protocol_metadata.extend (protocol_metadata.truncate r)
      (session_control_profile_request.fields (req_control_token r) (req_profile r)) = r"
    by (simp add: protocol_metadata.defs session_control_profile_request.defs)
  moreover have "js_value_string J obj ''type'' [] = Inr ''session_control_profile''"
    "js_at J obj ''control_token'' = Inr (js_of_string J (req_control_token r))"
    using obj(2) by (simp_all add: obj(3,4) metadata_object profile_keys_def)
  ultimately have "profile_request_from_json J obj = Inr r"
    using obj(2) v by (simp add: profile_request_from_json_def read_at_def)
  then show ?thesis using v src obj(1) by (simp add: profile_request_to_json_def)
qed

lemma result_round_trip:
  assumes "profile_result_validate r = Inr u" "in_int64 (sent_at_utc_ms r)"
  shows "bindE (profile_result_to_json J r) (profile_result_from_json J) = Inr r"
proof -
  have m: "metadata_validate r = Inr ()" and v: "profile_result_validate r = Inr ()"
    using assms(1) by (simp_all add: profile_result_validate_def)
  obtain field where field: "(case res_effective_profile r of Some p \<Rightarrow> profile_to_json J p | None \<Rightarrow> Inr (js_null J)) = Inr field"
    "(if js_is_null J field then Inr None else map_sum id Some (profile_from_json J field)) = Inr (res_effective_profile r)"
  proof (cases "res_effective_profile r")
    case (Some p)
    then have "profile_validate p = Inr ()" using v by (simp add: profile_result_validate_def)
    then show thesis using that Some by (auto elim!: profile_round_trip)
  qed (use that in auto)
  have "protocol_metadata.extend (protocol_metadata.truncate r) (session_control_profile_result.fields (res_accepted r)
      (res_idempotent r) (res_applied_revision r) (res_reason r) (res_effective_profile r)) = r"
    by (simp add: protocol_metadata.defs session_control_profile_result.defs)
  moreover have "seq (protocol_metadata.truncate r) = seq r" by (simp add: protocol_metadata.defs)
  ultimately show ?thesis
    using v field by (simp add: profile_result_to_json_def profile_result_from_json_def metadata_object metadata_set
      metadata_round_trip[OF m assms(2)] read_at_def)
qed

end

subsection \<open>A tagged union as JSON library\<close>

datatype json_tree = TNull | TBool bool | TInt int | TUint uint64 | TNum double | TString string
  | TArray "json_tree list" | TObject "(string \<times> json_tree) list"

fun tree_is_object :: "json_tree \<Rightarrow> bool" where
  "tree_is_object (TObject kvs) \<longleftrightarrow> True" | "tree_is_object _ \<longleftrightarrow> False"

fun tree_at :: "json_tree \<Rightarrow> string \<Rightarrow> json_tree res" where
  "tree_at (TObject kvs) key = (case map_of kvs key of Some x \<Rightarrow> Inr x | None \<Rightarrow> Inl (JsonError (''key not found: '' @ key)))"
| "tree_at _ key = Inl (JsonError ''cannot use at'')"

fun tree_contains :: "json_tree \<Rightarrow> string \<Rightarrow> bool" where
  "tree_contains (TObject kvs) key \<longleftrightarrow> map_of kvs key \<noteq> None"
| "tree_contains _ key \<longleftrightarrow> False"

fun tree_set :: "json_tree \<Rightarrow> string \<Rightarrow> json_tree \<Rightarrow> json_tree" where
  "tree_set (TObject kvs) key x = TObject ((key, x) # kvs)"
| "tree_set _ key x = TObject [(key, x)]"

fun tree_string :: "json_tree \<Rightarrow> string res" where
  "tree_string (TString str) = Inr str" | "tree_string _ = Inl (JsonError ''type must be string'')"

fun tree_bool :: "json_tree \<Rightarrow> bool res" where
  "tree_bool (TBool b) = Inr b" | "tree_bool _ = Inl (JsonError ''type must be boolean'')"

fun tree_integer :: "json_tree \<Rightarrow> int res" where
  "tree_integer (TInt i) = Inr i" | "tree_integer (TUint w) = Inr (uint w)"
| "tree_integer _ = Inl (JsonError ''type must be number'')"

fun tree_uint :: "json_tree \<Rightarrow> uint64 res" where
  "tree_uint (TInt i) = Inr (word_of_int i)" | "tree_uint (TUint w) = Inr w"
| "tree_uint _ = Inl (JsonError ''type must be number'')"

fun tree_double :: "json_tree \<Rightarrow> double res" where
  "tree_double (TNum d) = Inr d" | "tree_double (TInt i) = Inr (dbl (of_int i))"
| "tree_double (TUint w) = Inr (dbl (of_int (uint w)))" | "tree_double _ = Inl (JsonError ''type must be number'')"

definition tree_value :: "(json_tree \<Rightarrow> 'a res) \<Rightarrow> json_tree \<Rightarrow> string \<Rightarrow> 'a \<Rightarrow> 'a res" where
  "tree_value get v key d = (case v of
     TObject kvs \<Rightarrow> (case map_of kvs key of Some x \<Rightarrow> get x | None \<Rightarrow> Inr d) | _ \<Rightarrow> Inl (JsonError ''cannot use value''))"

fun tree_dump :: "json_tree \<Rightarrow> string" where
  "tree_dump TNull = ''null''"
| "tree_dump (TBool b) = (if b then ''true'' else ''false'')"
| "tree_dump (TInt i) = int_to_string i"
| "tree_dump (TUint w) = nat_to_string (unat w)"
| "tree_dump (TNum d) = ''number''"
| "tree_dump (TString str) = CHR 0x22 # str @ [CHR 0x22]"
| "tree_dump (TArray xs) = ''['' @ concat (map (\<lambda>x. tree_dump x @ '','') xs) @ '']''"
| "tree_dump (TObject kvs) = ''{'' @ concat (map (\<lambda>(k, x). k @ '':'' @ tree_dump x @ '','') kvs) @ ''}''"

fun tree_elements :: "json_tree \<Rightarrow> json_tree list" where
  "tree_elements (TArray xs) = xs" | "tree_elements (TObject kvs) = map snd kvs" | "tree_elements _ = []"

definition tree_json :: "(string \<Rightarrow> json_tree res) \<Rightarrow> json_tree json_ops" where
  "tree_json parse = \<lparr>
     js_is_object = tree_is_object,
     js_is_null = (\<lambda>v. v = TNull),
     js_is_string = (\<lambda>v. case v of TString _ \<Rightarrow> True | _ \<Rightarrow> False),
     js_is_boolean = (\<lambda>v. case v of TBool _ \<Rightarrow> True | _ \<Rightarrow> False),
     js_is_number = (\<lambda>v. case v of TInt _ \<Rightarrow> True | TUint _ \<Rightarrow> True | TNum _ \<Rightarrow> True | _ \<Rightarrow> False),
     js_is_number_integer = (\<lambda>v. case v of TInt _ \<Rightarrow> True | TUint _ \<Rightarrow> True | _ \<Rightarrow> False),
     js_is_number_unsigned = (\<lambda>v. case v of TUint _ \<Rightarrow> True | _ \<Rightarrow> False),
     js_contains = tree_contains, js_at = tree_at,
     js_get_string = tree_string, js_get_bool = tree_bool, js_get_int = tree_integer, js_get_int64 = tree_integer,
     js_get_uint64 = tree_uint, js_get_double = tree_double,
     js_value_string = tree_value tree_string, js_value_bool = tree_value tree_bool,
     js_value_uint64 = tree_value tree_uint, js_value_int64 = tree_value tree_integer, js_value_json = tree_value Inr,
     js_less_int = (\<lambda>v n. case tree_integer v of Inr i \<Rightarrow> i < n | _ \<Rightarrow> False),
     js_greater_int = (\<lambda>v n. case tree_integer v of Inr i \<Rightarrow> n < i | _ \<Rightarrow> False),
     js_null = TNull, js_of_bool = TBool, js_of_int = TInt, js_of_uint = TUint, js_of_double = TNum,
     js_of_string = TString, js_array = TArray,
     js_is_array = (\<lambda>v. case v of TArray _ \<Rightarrow> True | _ \<Rightarrow> False), js_elements = tree_elements, js_length = length \<circ> tree_elements,
     js_object = TObject, js_set = tree_set,
     js_dump = (\<lambda>v. Inr (tree_dump v)), js_parse = parse\<rparr>"

lemma tree_object: "tree_is_object v \<Longrightarrow> \<exists>kvs. v = TObject kvs"
  by (cases v) simp_all

interpretation tree: json_library "tree_json parse" for parse
  by unfold_locales (auto dest!: tree_object simp: tree_json_def tree_value_def split: option.splits if_splits)

text \<open>
  C40. The wire format of the protocol loses nothing: for every JSON library with the documented
  behaviour, a valid control command, session profile request and profile result, encoded and
  decoded again, is the one that was sent, every field and its validation included.
\<close>

theorem wire_round_trip:
  assumes "json_library J"
    and "valid_command c" "profile_request_validate r = Inr ()" "profile_result_validate a = Inr ()"
    and "in_int64 (sent_at_utc_ms c)" "in_int64 (sent_at_utc_ms r)" "in_int64 (sent_at_utc_ms a)"
  shows "command_from_json J (command_to_json J c) = Inr c \<and>
    bindE (profile_request_to_json J r) (profile_request_from_json J) = Inr r \<and>
    bindE (profile_result_to_json J a) (profile_result_from_json J) = Inr a"
  using json_library.command_round_trip[OF assms(1,2,5)] json_library.request_round_trip[OF assms(1,3,6)]
    json_library.result_round_trip[OF assms(1,4,7)] by blast

definition wire_command :: control_command where
  "wire_command = \<lparr>protocol_version = kProtocolVersion, vehicle_id = ''truck'', driver_id = ''ann'', session_id = ''s1'',
     seq = 7, sent_at_utc_ms = 1000, gear = ''D'', steering = zero, throttle = one, brake = zero, estop = False,
     control_token = ''t'', operator_active = True\<rparr>"

definition wire_request :: session_control_profile_request where
  "wire_request = \<lparr>protocol_version = kProtocolVersion, vehicle_id = ''truck'', driver_id = ''ann'', session_id = ''s1'',
     seq = 3, sent_at_utc_ms = 900, req_control_token = ''t'', req_profile = default_profile\<rparr>"

definition wire_result :: session_control_profile_result where
  "wire_result = \<lparr>protocol_version = kProtocolVersion, vehicle_id = ''truck'', driver_id = ''ann'', session_id = ''s1'',
     seq = 3, sent_at_utc_ms = 950, res_accepted = True, res_idempotent = False, res_applied_revision = 3,
     res_reason = ''accepted'', res_effective_profile = Some default_profile\<rparr>"

lemma default_profile_valid: "profile_validate default_profile = Inr ()"
  by (simp add: profile_validate_def default_profile_def validate_simps limit_values kMinSpeedPidMaxDtMs_def
      kMaxSpeedPidMaxDtMs_def dle_def kDefaultMotorTorqueRiseRateNmPerSecond_def)

theorem wire_round_trip_witness:
  "let J = tree_json (\<lambda>_. Inr TNull) in
     command_from_json J (command_to_json J wire_command) = Inr wire_command \<and>
     bindE (profile_request_to_json J wire_request) (profile_request_from_json J) = Inr wire_request \<and>
     bindE (profile_result_to_json J wire_result) (profile_result_from_json J) = Inr wire_result"
proof -
  have "valid_command wire_command"
    by (simp add: valid_command_def wire_command_def validate_simps allowed_gear_def)
  moreover have "profile_request_validate wire_request = Inr ()"
    by (simp add: profile_request_validate_def wire_request_def validate_simps default_profile_valid)
  moreover have "profile_result_validate wire_result = Inr ()"
    by (simp add: profile_result_validate_def wire_result_def validate_simps default_profile_valid)
  moreover have "in_int64 (sent_at_utc_ms wire_command)" "in_int64 (sent_at_utc_ms wire_request)"
    "in_int64 (sent_at_utc_ms wire_result)"
    by (simp_all add: wire_command_def wire_request_def wire_result_def in_int64_def)
  ultimately show ?thesis
    unfolding Let_def by (rule wire_round_trip[OF tree.json_library_axioms])
qed

end
