(* ===== verification/Encodings.thy ===== *)
theory Encodings
  imports Protocol
begin

text \<open>
  Encodings of the web layer: percent encoding of URLs, base64 and UTF-8, with their round trips
  and the equivalence of the UTF-8 check with the encoding of Unicode scalar values.
\<close>

subsection \<open>Percent encoding\<close>

definition hex_digit :: "char \<Rightarrow> int" where
  "hex_digit c = (let n = (of_char c :: int)
     in if 48 \<le> n \<and> n \<le> 57 then n - 48 else if 97 \<le> n \<and> n \<le> 102 then n - 97 + 10
        else if 65 \<le> n \<and> n \<le> 70 then n - 65 + 10 else -1)"

fun url_decode :: "string \<Rightarrow> string res" where
  "url_decode [] = Inr []"
| "url_decode (c # cs) =
     (if c = CHR ''+'' then bindE (url_decode cs) (\<lambda>r. Inr (CHR '' '' # r))
      else if c = CHR ''%'' \<and> 2 \<le> length cs then
        (let high = hex_digit (cs ! 0); low = hex_digit (cs ! 1)
         in if high < 0 \<or> low < 0 then Inl (InvalidArgument ''invalid URL encoding'')
            else bindE (url_decode (drop 2 cs)) (\<lambda>r. Inr (char_of (nat (16 * high + low)) # r)))
      else bindE (url_decode cs) (\<lambda>r. Inr (c # r)))"

definition url_unreserved :: "char \<Rightarrow> bool" where
  "url_unreserved c \<longleftrightarrow> c_isalnum c \<or> c \<in> {CHR ''-'', CHR ''_'', CHR ''.'', CHR ''~''}"

fun url_encode :: "string \<Rightarrow> string" where
  "url_encode [] = []"
| "url_encode (c # cs) =
     (if url_unreserved c then c # url_encode cs
      else CHR ''%'' # ''0123456789ABCDEF'' ! (of_char c div 16) # ''0123456789ABCDEF'' ! (of_char c mod 16) # url_encode cs)"

lemma hex_digit_nth: "n < 16 \<Longrightarrow> hex_digit (''0123456789ABCDEF'' ! n) = int n"
proof -
  have "\<forall>n \<in> set [0..<16]. hex_digit (''0123456789ABCDEF'' ! n) = int n" by code_simp
  then show "n < 16 \<Longrightarrow> ?thesis" by simp
qed

text \<open>One pass of decoding restores an encoded text, whatever its characters and whatever follows it.\<close>

lemma url_decode_encode: "url_decode (url_encode cs @ ys) = bindE (url_decode ys) (\<lambda>r. Inr (cs @ r))"
proof (induction cs)
  case (Cons c cs)
  have n: "(of_char c :: nat) div 16 < 16" "(of_char c :: nat) mod 16 < 16"
    using of_char_of[of "of_char c"] by (simp_all add: less_mult_imp_div_less)
  have plain: "c \<noteq> CHR ''+'' \<and> c \<noteq> CHR ''%''" if "url_unreserved c"
    using that by (auto simp: url_unreserved_def c_isalnum_def)
  have "nat (16 * int (of_char c div 16) + int (of_char c mod 16)) = 16 * (of_char c div 16) + of_char c mod 16"
    by linarith
  then have "char_of (nat (16 * int (of_char c div 16) + int (of_char c mod 16))) = c" by simp
  then show ?case using Cons.IH plain n by (cases "url_decode ys") (auto simp: hex_digit_nth Let_def)
qed (cases "url_decode ys"; simp)

lemma url_round_trip: "url_decode (url_encode cs) = Inr cs"
  using url_decode_encode[of cs "[]"] by simp

lemma url_decode_plain: "CHR ''+'' \<notin> set xs \<Longrightarrow> CHR ''%'' \<notin> set xs \<Longrightarrow>
    url_decode (xs @ ys) = bindE (url_decode ys) (\<lambda>r. Inr (xs @ r))"
  by (induction xs) (cases "url_decode ys"; auto)+

lemma url_encode_chars: "c \<in> set (url_encode cs) \<Longrightarrow> url_unreserved c \<or> c = CHR ''%''"
proof (induction cs)
  case (Cons x cs)
  have digit: "url_unreserved (''0123456789ABCDEF'' ! n)" if "n < 16" for n
  proof -
    have "\<forall>n \<in> set [0..<16]. url_unreserved (''0123456789ABCDEF'' ! n)" by code_simp
    then show ?thesis using that by simp
  qed
  have "(of_char x :: nat) div 16 < 16" "(of_char x :: nat) mod 16 < 16"
    using of_char_of[of "of_char x"] by (simp_all add: less_mult_imp_div_less)
  then show ?case using Cons digit by (auto split: if_splits)
qed simp

lemma url_encode_avoids [simp]:
  "CHR ''?'' \<notin> set (url_encode cs)" "CHR ''&'' \<notin> set (url_encode cs)"
  "CHR ''='' \<notin> set (url_encode cs)" "CHR ''/'' \<notin> set (url_encode cs)"
  using url_encode_chars[of _ cs] by (fastforce simp: url_unreserved_def c_isalnum_def)+

subsection \<open>Base64\<close>

definition base64_alphabet :: string where
  "base64_alphabet = ''ABCDEFGHIJKLMNOPQRSTUVWXYZabcdefghijklmnopqrstuvwxyz0123456789+/''"

text \<open>A block of three bytes is a number below \<open>2 ^ 24\<close>; \<open>base64_symbol\<close> reads six bits of it.\<close>

definition base64_symbol :: "nat \<Rightarrow> nat \<Rightarrow> char" where
  "base64_symbol block shift = base64_alphabet ! (block div 2 ^ shift mod 64)"

definition base64_block :: "uint8 \<Rightarrow> uint8 \<Rightarrow> uint8 \<Rightarrow> nat" where
  "base64_block a b c = unat a * 2 ^ 16 + unat b * 2 ^ 8 + unat c"

fun base64_encode :: "uint8 list \<Rightarrow> string" where
  "base64_encode [] = []"
| "base64_encode [a] = (let n = base64_block a 0 0 in [base64_symbol n 18, base64_symbol n 12, CHR ''='', CHR ''=''])"
| "base64_encode [a, b] = (let n = base64_block a b 0 in [base64_symbol n 18, base64_symbol n 12, base64_symbol n 6, CHR ''=''])"
| "base64_encode (a # b # c # rest) =
     (let n = base64_block a b c
      in base64_symbol n 18 # base64_symbol n 12 # base64_symbol n 6 # base64_symbol n 0 # base64_encode rest)"

definition base64_digit :: "char \<Rightarrow> int" where
  "base64_digit c = (let n = (of_char c :: int)
     in if 65 \<le> n \<and> n \<le> 90 then n - 65 else if 97 \<le> n \<and> n \<le> 122 then n - 97 + 26
        else if 48 \<le> n \<and> n \<le> 57 then n - 48 + 52 else if n = 43 then 62 else if n = 47 then 63 else -1)"

definition base64_bytes :: "int \<Rightarrow> uint8 list" where
  "base64_bytes block = map word_of_int [block div 2 ^ 16, block div 2 ^ 8, block]"

fun base64_groups :: "string \<Rightarrow> uint8 list res" where
  "base64_groups [] = Inr []"
| "base64_groups (c1 # c2 # c3 # c4 # rest) =
     (let third_padding = (c3 = CHR ''=''); fourth_padding = (c4 = CHR ''='');
          first = base64_digit c1; second = base64_digit c2;
          third = (if third_padding then 0 else base64_digit c3); fourth = (if fourth_padding then 0 else base64_digit c4);
          bytes = base64_bytes (first * 2 ^ 18 + second * 2 ^ 12 + third * 2 ^ 6 + fourth);
          kept = (if third_padding then 1 else if fourth_padding then 2 else 3)
      in if c1 = CHR ''='' \<or> c2 = CHR ''='' \<or> (third_padding \<and> \<not> fourth_padding) \<or>
            (rest \<noteq> [] \<and> (third_padding \<or> fourth_padding)) then Inl (InvalidArgument ''invalid base64'')
         else if first < 0 \<or> second < 0 \<or> third < 0 \<or> fourth < 0 then Inl (InvalidArgument ''invalid base64'')
         else bindE (base64_groups rest) (\<lambda>decoded. Inr (take kept bytes @ decoded)))"
| "base64_groups _ = Inl (InvalidArgument ''invalid base64'')"

definition base64_decode :: "string \<Rightarrow> uint8 list res" where
  "base64_decode encoded =
     (if encoded = [] \<or> length encoded mod 4 \<noteq> 0 then Inl (InvalidArgument ''invalid base64'') else base64_groups encoded)"

lemma base64_symbols:
  assumes "n < 64"
  shows "base64_digit (base64_alphabet ! n) = int n" "base64_alphabet ! n \<noteq> CHR ''=''"
proof -
  have "\<forall>n \<in> set [0..<64]. base64_digit (base64_alphabet ! n) = int n \<and> base64_alphabet ! n \<noteq> CHR ''=''" by code_simp
  then show "base64_digit (base64_alphabet ! n) = int n" "base64_alphabet ! n \<noteq> CHR ''=''" using assms by simp_all
qed

lemma base64_symbol_facts [simp]:
  "base64_digit (base64_symbol n k) = int (n div 2 ^ k mod 64)" "base64_symbol n k \<noteq> CHR ''=''"
  by (simp_all add: base64_symbol_def base64_symbols)

text \<open>The four groups of six bits of a number below \<open>2 ^ 24\<close> are the number again.\<close>

lemma base64_regroup:
  assumes "n < 2 ^ 24"
  shows "int (n div 2 ^ 18 mod 64) * 2 ^ 18 + int (n div 2 ^ 12 mod 64) * 2 ^ 12 + int (n div 2 ^ 6 mod 64) * 2 ^ 6 +
    int (n div 2 ^ 0 mod 64) = int n"
proof -
  define x y z where "x = n div 64" and "y = x div 64" and "z = y div 64"
  have "n div 2 ^ 6 = x" "n div 2 ^ 12 = y" "n div 2 ^ 18 = z" by (simp_all add: x_def y_def z_def flip: div_mult2_eq)
  moreover have "z < 64" using assms by (simp add: x_def y_def z_def flip: div_mult2_eq)
  moreover have "n = 64 * x + n mod 64" "x = 64 * y + x mod 64" "y = 64 * z + y mod 64"
    by (simp_all add: x_def y_def z_def)
  ultimately have "int (n mod 64) = int n - 64 * int x" "int (x mod 64) = int x - 64 * int y" "int (y mod 64) = int y - 64 * int z"
    "z mod 64 = z" by (linarith, linarith, linarith, simp)
  then show ?thesis
    using \<open>n div 2 ^ 6 = x\<close> \<open>n div 2 ^ 12 = y\<close> \<open>n div 2 ^ 18 = z\<close> by simp
qed

lemma base64_block_bound: "base64_block a b c < 2 ^ 24"
  using unsigned_less[of a, where ?'a = nat] unsigned_less[of b, where ?'a = nat] unsigned_less[of c, where ?'a = nat] by (simp add: base64_block_def)

lemma div_word_of_int: "word_of_int (int n div 2 ^ k) = word_of_nat (n div 2 ^ k)"
proof -
  have "int n div 2 ^ k = int (n div 2 ^ k)" by (simp add: zdiv_int)
  then show ?thesis by simp
qed

lemma base64_block_bytes: "base64_bytes (int (base64_block a b c)) = [a, b, c]"
proof -
  have le: "unat a < 256" "unat b < 256" "unat c < 256" using unsigned_less[of a, where ?'a = nat] unsigned_less[of b, where ?'a = nat] unsigned_less[of c, where ?'a = nat] by simp_all
  have "base64_block a b c div 2 ^ 16 = unat a" "base64_block a b c div 2 ^ 8 = unat a * 256 + unat b"
    using le by (simp_all add: base64_block_def)
  moreover have z: "(256 :: uint8) = 0" "(65536 :: uint8) = 0" by simp_all
  have "x * (256 :: uint8) = 0" "x * (65536 :: uint8) = 0" for x unfolding z by (rule mult_zero_right)+
  then have "(word_of_nat (unat a * 256 + unat b) :: uint8) = b" "(word_of_nat (base64_block a b c) :: uint8) = c"
    by (simp_all add: base64_block_def)
  ultimately show ?thesis
    by (simp only: base64_bytes_def list.map div_word_of_int of_int_of_nat_eq) simp
qed

lemma base64_regrouped:
  "base64_bytes (int (base64_block a b c div 2 ^ 18 mod 64) * 2 ^ 18 + int (base64_block a b c div 2 ^ 12 mod 64) * 2 ^ 12 +
    int (base64_block a b c div 2 ^ 6 mod 64) * 2 ^ 6 + int (base64_block a b c div 2 ^ 0 mod 64)) = [a, b, c]"
  unfolding base64_regroup[OF base64_block_bound] by (rule base64_block_bytes)

lemma base64_padded:
  "int (base64_block a 0 0 div 2 ^ 6 mod 64) = 0" "int (base64_block a b 0 div 2 ^ 0 mod 64) = 0"
proof -
  have "base64_block a 0 0 div 2 ^ 6 = 64 * (unat a * 16)" by (simp add: base64_block_def)
  then show "int (base64_block a 0 0 div 2 ^ 6 mod 64) = 0" by simp
  have "base64_block a b 0 div 2 ^ 0 = 64 * (unat a * 1024 + unat b * 4)" by (simp add: base64_block_def)
  then show "int (base64_block a b 0 div 2 ^ 0 mod 64) = 0" by simp
qed

lemma base64_padded_bytes:
  "base64_bytes (int (base64_block a 0 0 div 2 ^ 18 mod 64) * 2 ^ 18 + int (base64_block a 0 0 div 2 ^ 12 mod 64) * 2 ^ 12) = [a, 0, 0]"
  "base64_bytes (int (base64_block a b 0 div 2 ^ 18 mod 64) * 2 ^ 18 + int (base64_block a b 0 div 2 ^ 12 mod 64) * 2 ^ 12 +
     int (base64_block a b 0 div 2 ^ 6 mod 64) * 2 ^ 6) = [a, b, 0]"
  using base64_regrouped[of a 0 0] base64_regrouped[of a b 0] by (simp_all only: base64_padded mult_zero_left add_0_right)

lemma base64_group:
  assumes "base64_digit c1 = x" "base64_digit c2 = y" "0 \<le> x" "0 \<le> y" "c1 \<noteq> CHR ''=''" "c2 \<noteq> CHR ''=''"
  shows "base64_groups [c1, c2, CHR ''='', CHR ''=''] = Inr (take 1 (base64_bytes (x * 2 ^ 18 + y * 2 ^ 12)))"
    "base64_digit c3 = z \<Longrightarrow> 0 \<le> z \<Longrightarrow> c3 \<noteq> CHR ''='' \<Longrightarrow>
      base64_groups [c1, c2, c3, CHR ''=''] = Inr (take 2 (base64_bytes (x * 2 ^ 18 + y * 2 ^ 12 + z * 2 ^ 6)))"
    "base64_digit c3 = z \<Longrightarrow> 0 \<le> z \<Longrightarrow> c3 \<noteq> CHR ''='' \<Longrightarrow> base64_digit c4 = w \<Longrightarrow> 0 \<le> w \<Longrightarrow> c4 \<noteq> CHR ''='' \<Longrightarrow>
      base64_groups (c1 # c2 # c3 # c4 # rest) =
        bindE (base64_groups rest) (\<lambda>d. Inr (take 3 (base64_bytes (x * 2 ^ 18 + y * 2 ^ 12 + z * 2 ^ 6 + w)) @ d))"
  using assms by (simp_all add: Let_def)

lemma base64_groups_encode: "base64_groups (base64_encode bs) = Inr bs"
proof (induction bs rule: base64_encode.induct)
  case (2 a)
  show ?case unfolding base64_encode.simps Let_def
    by (subst base64_group(1)[OF base64_symbol_facts(1) base64_symbol_facts(1)])
      (simp_all only: base64_padded_bytes, simp_all)
next
  case (3 a b)
  show ?case unfolding base64_encode.simps Let_def
    by (subst base64_group(2)[OF base64_symbol_facts(1) base64_symbol_facts(1) _ _ base64_symbol_facts(2) base64_symbol_facts(2)
      base64_symbol_facts(1) _ base64_symbol_facts(2)])
      (simp_all only: base64_padded_bytes, simp_all)
next
  case (4 a b c rest)
  then show ?case unfolding base64_encode.simps Let_def
    by (subst base64_group(3)[OF base64_symbol_facts(1) base64_symbol_facts(1) _ _ base64_symbol_facts(2) base64_symbol_facts(2)
      base64_symbol_facts(1) _ base64_symbol_facts(2) base64_symbol_facts(1) _ base64_symbol_facts(2)])
      (simp_all only: base64_regrouped, simp_all)
qed simp

lemma base64_encode_length: "length (base64_encode bs) = 4 * ((length bs + 2) div 3)"
proof (induction bs rule: base64_encode.induct)
  case (4 a b c rest)
  have "(length (a # b # c # rest) + 2) div 3 = Suc ((length rest + 2) div 3)" by simp
  with 4 show ?case by (simp add: Let_def)
qed (simp_all add: Let_def)

lemma base64_encode_Nil [simp]: "base64_encode bs = [] \<longleftrightarrow> bs = []"
  using base64_encode_length[of bs] by (cases bs) auto

lemma base64_round_trip:
  "base64_decode (base64_encode bs) = (if bs = [] then Inl (InvalidArgument ''invalid base64'') else Inr bs)"
  using base64_encode_length[of bs] by (simp add: base64_decode_def base64_groups_encode)

subsection \<open>UTF-8\<close>

text \<open>
  The check that close reasons are valid text, and its specification: the encoding of a list of
  Unicode scalar values (every code point but the surrogates) in one to four bytes.
\<close>

definition continuation :: "uint8 \<Rightarrow> bool" where
  "continuation byte \<longleftrightarrow> 0x80 \<le> byte \<and> byte \<le> 0xbf"

fun valid_utf8 :: "uint8 list \<Rightarrow> bool" where
  "valid_utf8 [] = True"
| "valid_utf8 (first # rest) =
     (if first \<le> 0x7f then valid_utf8 rest
      else if 0xc2 \<le> first \<and> first \<le> 0xdf then
        1 \<le> length rest \<and> continuation (rest ! 0) \<and> valid_utf8 (drop 1 rest)
      else if 0xe0 \<le> first \<and> first \<le> 0xef then
        2 \<le> length rest \<and> (let second = rest ! 0; third = rest ! 1 in
          \<not> (\<not> continuation third \<or> (first = 0xe0 \<and> (second < 0xa0 \<or> 0xbf < second)) \<or>
             (first = 0xed \<and> (second < 0x80 \<or> 0x9f < second)) \<or>
             (first \<noteq> 0xe0 \<and> first \<noteq> 0xed \<and> \<not> continuation second))) \<and> valid_utf8 (drop 2 rest)
      else if 0xf0 \<le> first \<and> first \<le> 0xf4 then
        3 \<le> length rest \<and> (let second = rest ! 0; third = rest ! 1; fourth = rest ! 2 in
          \<not> (\<not> continuation third \<or> \<not> continuation fourth \<or> (first = 0xf0 \<and> (second < 0x90 \<or> 0xbf < second)) \<or>
             (first = 0xf4 \<and> (second < 0x80 \<or> 0x8f < second)) \<or>
             (first \<noteq> 0xf0 \<and> first \<noteq> 0xf4 \<and> \<not> continuation second))) \<and> valid_utf8 (drop 3 rest)
      else False)"

definition unicode_scalar :: "nat \<Rightarrow> bool" where
  "unicode_scalar c \<longleftrightarrow> c < 0xd800 \<or> (0xe000 \<le> c \<and> c < 0x110000)"

definition byte :: "nat \<Rightarrow> uint8" where
  "byte n = word_of_nat n"

definition utf8_char :: "nat \<Rightarrow> uint8 list" where
  "utf8_char c = map byte
     (if c < 0x80 then [c]
      else if c < 0x800 then [0xc0 + c div 64, 0x80 + c mod 64]
      else if c < 0x10000 then [0xe0 + c div 4096, 0x80 + c div 64 mod 64, 0x80 + c mod 64]
      else [0xf0 + c div 262144, 0x80 + c div 4096 mod 64, 0x80 + c div 64 mod 64, 0x80 + c mod 64])"

definition utf8_encode :: "nat list \<Rightarrow> uint8 list" where
  "utf8_encode cs = concat (map utf8_char cs)"

lemma byte_bound: "unat (b :: uint8) < 256"
  using unsigned_less[of b, where ?'a = nat] by simp

lemma unat_byte [simp]: "n < 256 \<Longrightarrow> unat (byte n) = n"
  by (simp add: byte_def unat_of_nat)

lemma byte_unat [simp]: "byte (unat b) = b"
  by (simp add: byte_def)

lemmas byte_order = word_le_nat_alt word_less_nat_alt word_unat_eq_iff

text \<open>The groups of six bits of a code point, in each of the four lengths.\<close>

lemma six_bits:
  "y < 64 \<Longrightarrow> (64 * (x :: nat) + y) div 64 = x" "y < 64 \<Longrightarrow> (64 * (x :: nat) + y) mod 64 = y"
  "(c :: nat) div 4096 = c div 64 div 64" "(c :: nat) div 262144 = c div 64 div 64 div 64"
  by (simp_all flip: div_mult2_eq)

lemma utf8_char_groups:
  "x < 128 \<Longrightarrow> utf8_char x = [byte x]"
  "2 \<le> x \<Longrightarrow> x < 32 \<Longrightarrow> y < 64 \<Longrightarrow> utf8_char (64 * x + y) = [byte (0xc0 + x), byte (0x80 + y)]"
  "x < 16 \<Longrightarrow> y < 64 \<Longrightarrow> z < 64 \<Longrightarrow> x = 0 \<longrightarrow> 32 \<le> y \<Longrightarrow>
    utf8_char (64 * (64 * x + y) + z) = [byte (0xe0 + x), byte (0x80 + y), byte (0x80 + z)]"
  "x < 5 \<Longrightarrow> y < 64 \<Longrightarrow> z < 64 \<Longrightarrow> w < 64 \<Longrightarrow> x = 0 \<longrightarrow> 16 \<le> y \<Longrightarrow>
    utf8_char (64 * (64 * (64 * x + y) + z) + w) = [byte (0xf0 + x), byte (0x80 + y), byte (0x80 + z), byte (0x80 + w)]"
proof -
  show "x < 128 \<Longrightarrow> utf8_char x = [byte x]" by (simp add: utf8_char_def)
  show "2 \<le> x \<Longrightarrow> x < 32 \<Longrightarrow> y < 64 \<Longrightarrow> utf8_char (64 * x + y) = [byte (0xc0 + x), byte (0x80 + y)]"
    by (simp add: utf8_char_def)
  show "utf8_char (64 * (64 * x + y) + z) = [byte (0xe0 + x), byte (0x80 + y), byte (0x80 + z)]"
    if *: "x < 16" "y < 64" "z < 64" "x = 0 \<longrightarrow> 32 \<le> y"
  proof -
    let ?c = "64 * (64 * x + y) + z"
    have "\<not> ?c < 0x80" "\<not> ?c < 0x800" "?c < 0x10000" using * by auto
    then show ?thesis by (simp only: utf8_char_def if_False if_True six_bits *) simp
  qed
  show "utf8_char (64 * (64 * (64 * x + y) + z) + w) = [byte (0xf0 + x), byte (0x80 + y), byte (0x80 + z), byte (0x80 + w)]"
    if *: "x < 5" "y < 64" "z < 64" "w < 64" "x = 0 \<longrightarrow> 16 \<le> y"
  proof -
    let ?c = "64 * (64 * (64 * x + y) + z) + w"
    have "\<not> ?c < 0x80" "\<not> ?c < 0x800" "\<not> ?c < 0x10000" using * by auto
    then show ?thesis by (simp only: utf8_char_def if_False if_True six_bits *) simp
  qed
qed

text \<open>Every Unicode scalar value is one of these, within the bounds that the check has for each length.\<close>

lemma unicode_scalar_cases:
  assumes "unicode_scalar c"
  obtains (one) "c < 128"
  | (two) x y where "c = 64 * x + y" "2 \<le> x" "x < 32" "y < 64"
  | (three) x y z where "c = 64 * (64 * x + y) + z" "x < 16" "y < 64" "z < 64" "x = 0 \<longrightarrow> 32 \<le> y" "x = 13 \<longrightarrow> y < 32"
  | (four) x y z w where "c = 64 * (64 * (64 * x + y) + z) + w" "x < 5" "y < 64" "z < 64" "w < 64" "x = 0 \<longrightarrow> 16 \<le> y" "x = 4 \<longrightarrow> y < 16"
proof -
  define p q r where "p = c div 64" and "q = p div 64" and "r = q div 64"
  have c: "c = 64 * p + c mod 64" "p = 64 * q + p mod 64" "q = 64 * r + q mod 64" by (simp_all add: p_def q_def r_def)
  have m: "c mod 64 < 64" "p mod 64 < 64" "q mod 64 < 64" by simp_all
  consider "c < 128" | "128 \<le> c" "c < 2048" | "2048 \<le> c" "c < 65536" | "65536 \<le> c" by linarith
  then show ?thesis
  proof cases
    case 1
    then show ?thesis by (rule one)
  next
    case 2
    then show ?thesis using two[of p "c mod 64"] c m by linarith
  next
    case 3
    have "q < 16" "q = 0 \<longrightarrow> 32 \<le> p mod 64" "q = 13 \<longrightarrow> p mod 64 < 32" using 3 c m assms unfolding unicode_scalar_def by linarith+
    then show ?thesis using three[of q "p mod 64" "c mod 64"] c m by metis
  next
    case 4
    have "r < 5" "r = 0 \<longrightarrow> 16 \<le> q mod 64" "r = 4 \<longrightarrow> q mod 64 < 16" using 4 c m assms unfolding unicode_scalar_def by linarith+
    then show ?thesis using four[of r "q mod 64" "p mod 64" "c mod 64"] c m by metis
  qed
qed

lemma valid_utf8_char:
  assumes "unicode_scalar c"
  shows "valid_utf8 (utf8_char c @ bs) = valid_utf8 bs"
  using assms
proof (cases rule: unicode_scalar_cases)
  case one
  then show ?thesis by (simp add: utf8_char_groups byte_order)
next
  case (two x y)
  then show ?thesis by (simp add: utf8_char_groups continuation_def byte_order)
next
  case (three x y z)
  then show ?thesis unfolding three(1) utf8_char_groups(3)[OF three(2-5)] by (auto simp: continuation_def byte_order Let_def)
next
  case (four x y z w)
  then show ?thesis unfolding four(1) utf8_char_groups(4)[OF four(2-6)] by (auto simp: continuation_def byte_order Let_def)
qed

lemma six_bits_of_byte:
  assumes "continuation b"
  shows "\<exists>y < 64. b = byte (0x80 + y)"
proof (intro exI conjI)
  show "unat b - 0x80 < 64" using assms by (auto simp: continuation_def byte_order)
  show "b = byte (0x80 + (unat b - 0x80))" using assms by (simp add: continuation_def byte_order)
qed

lemma byte_offset: "n \<le> unat b \<Longrightarrow> \<exists>x. b = byte (n + x) \<and> n + x < 256"
  using byte_bound[of b] by (intro exI[of _ "unat b - n"]) simp

lemma take_bytes:
  "1 \<le> length xs \<Longrightarrow> xs = xs ! 0 # drop 1 xs"
  "2 \<le> length xs \<Longrightarrow> xs = xs ! 0 # xs ! 1 # drop 2 xs"
  "3 \<le> length xs \<Longrightarrow> xs = xs ! 0 # xs ! 1 # xs ! 2 # drop 3 xs"
  by (cases xs; cases "tl xs"; cases "tl (tl xs)"; simp)+

lemma utf8_scalar_bytes:
  "first \<le> 0x7f \<Longrightarrow> \<exists>c. unicode_scalar c \<and> utf8_char c = [first]"
  "0xc2 \<le> first \<Longrightarrow> first \<le> 0xdf \<Longrightarrow> continuation second \<Longrightarrow> \<exists>c. unicode_scalar c \<and> utf8_char c = [first, second]"
proof -
  show "first \<le> 0x7f \<Longrightarrow> \<exists>c. unicode_scalar c \<and> utf8_char c = [first]"
    by (intro exI[of _ "unat first"]) (simp add: byte_order unicode_scalar_def utf8_char_groups)
  assume *: "0xc2 \<le> first" "first \<le> 0xdf" "continuation second"
  obtain y where y: "y < 64" "second = byte (0x80 + y)" using six_bits_of_byte *(3) by blast
  obtain x where x: "first = byte (0xc0 + x)" "0xc0 + x < 256" using byte_offset[of "0xc0" first] *(1) by (auto simp: byte_order)
  have "2 \<le> x" "x < 32" using *(1,2) x by (simp_all add: byte_order)
  then show "\<exists>c. unicode_scalar c \<and> utf8_char c = [first, second]"
    using x y by (intro exI[of _ "64 * x + y"]) (simp add: unicode_scalar_def utf8_char_groups)
qed

lemma utf8_scalar_three:
  assumes "0xe0 \<le> first" "first \<le> 0xef" "continuation second" "continuation third"
    "first = 0xe0 \<longrightarrow> 0xa0 \<le> second" "first = 0xed \<longrightarrow> second \<le> 0x9f"
  shows "\<exists>c. unicode_scalar c \<and> utf8_char c = [first, second, third]"
proof -
  obtain y z where yz: "y < 64" "second = byte (0x80 + y)" "z < 64" "third = byte (0x80 + z)"
    using six_bits_of_byte[OF assms(3)] six_bits_of_byte[OF assms(4)] by metis
  obtain x where x: "first = byte (0xe0 + x)" "0xe0 + x < 256" using byte_offset[of "0xe0" first] assms(1) by (auto simp: byte_order)
  have b: "x < 16" "x = 0 \<longrightarrow> 32 \<le> y" "x = 13 \<longrightarrow> y < 32" using assms x yz by (auto simp: byte_order)
  then have "unicode_scalar (64 * (64 * x + y) + z)" using yz(1,3)
    by (cases x "13 :: nat" rule: linorder_cases) (simp_all add: unicode_scalar_def)
  then show ?thesis using utf8_char_groups(3)[OF b(1) yz(1) yz(3) b(2)] x yz by metis
qed

lemma utf8_scalar_four:
  assumes "0xf0 \<le> first" "first \<le> 0xf4" "continuation second" "continuation third" "continuation fourth"
    "first = 0xf0 \<longrightarrow> 0x90 \<le> second" "first = 0xf4 \<longrightarrow> second \<le> 0x8f"
  shows "\<exists>c. unicode_scalar c \<and> utf8_char c = [first, second, third, fourth]"
proof -
  obtain y z w where yz: "y < 64" "second = byte (0x80 + y)" "z < 64" "third = byte (0x80 + z)" "w < 64" "fourth = byte (0x80 + w)"
    using six_bits_of_byte[OF assms(3)] six_bits_of_byte[OF assms(4)] six_bits_of_byte[OF assms(5)] by metis
  obtain x where x: "first = byte (0xf0 + x)" "0xf0 + x < 256" using byte_offset[of "0xf0" first] assms(1) by (auto simp: byte_order)
  have b: "x < 5" "x = 0 \<longrightarrow> 16 \<le> y" "x = 4 \<longrightarrow> y < 16" using assms x yz by (auto simp: byte_order)
  then have "unicode_scalar (64 * (64 * (64 * x + y) + z) + w)" using yz(1,3,5)
    by (cases "x = 0"; cases "x = 4") (simp_all add: unicode_scalar_def)
  then show ?thesis using utf8_char_groups(4)[OF b(1) yz(1,3,5) b(2)] x yz by metis
qed

lemma utf8_second:
  "(first = 0xe0 \<and> (second < 0xa0 \<or> 0xbf < second)) \<or> (first = 0xed \<and> (second < 0x80 \<or> 0x9f < second)) \<or>
     (first \<noteq> 0xe0 \<and> first \<noteq> 0xed \<and> \<not> continuation second) \<longleftrightarrow>
   \<not> (continuation second \<and> (first = 0xe0 \<longrightarrow> 0xa0 \<le> second) \<and> (first = 0xed \<longrightarrow> second \<le> 0x9f))"
  "(first = 0xf0 \<and> (second < 0x90 \<or> 0xbf < second)) \<or> (first = 0xf4 \<and> (second < 0x80 \<or> 0x8f < second)) \<or>
     (first \<noteq> 0xf0 \<and> first \<noteq> 0xf4 \<and> \<not> continuation second) \<longleftrightarrow>
   \<not> (continuation second \<and> (first = 0xf0 \<longrightarrow> 0x90 \<le> second) \<and> (first = 0xf4 \<longrightarrow> second \<le> 0x8f))"
  by (auto simp: continuation_def byte_order)

lemma utf8_next_char:
  assumes "valid_utf8 (first # rest)"
  shows "\<exists>c bs. unicode_scalar c \<and> first # rest = utf8_char c @ bs \<and> valid_utf8 bs"
proof -
  consider (one) "first \<le> 0x7f" "valid_utf8 rest"
    | (two) "0xc2 \<le> first" "first \<le> 0xdf" "1 \<le> length rest" "continuation (rest ! 0)" "valid_utf8 (drop 1 rest)"
    | (three) "0xe0 \<le> first" "first \<le> 0xef" "2 \<le> length rest" "continuation (rest ! 0)" "continuation (rest ! 1)"
        "first = 0xe0 \<longrightarrow> 0xa0 \<le> rest ! 0" "first = 0xed \<longrightarrow> rest ! 0 \<le> 0x9f" "valid_utf8 (drop 2 rest)"
    | (four) "0xf0 \<le> first" "first \<le> 0xf4" "3 \<le> length rest" "continuation (rest ! 0)" "continuation (rest ! 1)" "continuation (rest ! 2)"
        "first = 0xf0 \<longrightarrow> 0x90 \<le> rest ! 0" "first = 0xf4 \<longrightarrow> rest ! 0 \<le> 0x8f" "valid_utf8 (drop 3 rest)"
    using assms unfolding valid_utf8.simps Let_def utf8_second by metis
  then show ?thesis
  proof cases
    case one
    then show ?thesis using utf8_scalar_bytes(1) by (metis append_Cons append_Nil)
  next
    case two
    then show ?thesis using utf8_scalar_bytes(2)[OF two(1,2,4)] take_bytes(1)[OF two(3)] by (metis append_Cons append_Nil)
  next
    case three
    then show ?thesis using utf8_scalar_three[OF three(1,2,4-7)] take_bytes(2)[OF three(3)] by (metis append_Cons append_Nil)
  next
    case four
    then show ?thesis using utf8_scalar_four[OF four(1,2,4-8)] take_bytes(3)[OF four(3)] by (metis append_Cons append_Nil)
  qed
qed

text \<open>
  C36. A close reason passes the UTF-8 check exactly if it is the UTF-8 encoding of a list of Unicode
  scalar values: the check accepts no overlong form, no surrogate, no value past \<open>U+10FFFF\<close> and no
  truncated sequence, and rejects no well-formed text.
\<close>

theorem valid_utf8_iff: "valid_utf8 bs \<longleftrightarrow> (\<exists>cs. list_all unicode_scalar cs \<and> utf8_encode cs = bs)"
proof
  show "valid_utf8 bs \<Longrightarrow> \<exists>cs. list_all unicode_scalar cs \<and> utf8_encode cs = bs"
  proof (induction bs rule: length_induct)
    case (1 bs)
    show ?case
    proof (cases bs)
      case Nil
      then show ?thesis by (intro exI[of _ "[]"]) (simp add: utf8_encode_def)
    next
      case (Cons first rest)
      obtain c more where c: "unicode_scalar c" "bs = utf8_char c @ more" "valid_utf8 more"
        using utf8_next_char 1(2) Cons by metis
      have "length more < length bs" using c(2) by (simp add: utf8_char_def)
      then obtain cs where "list_all unicode_scalar cs" "utf8_encode cs = more" using 1(1) c(3) by blast
      then show ?thesis using c by (intro exI[of _ "c # cs"]) (simp add: utf8_encode_def)
    qed
  qed
  have "list_all unicode_scalar cs \<Longrightarrow> valid_utf8 (utf8_encode cs)" for cs
    by (induction cs) (simp_all add: utf8_encode_def valid_utf8_char)
  then show "\<exists>cs. list_all unicode_scalar cs \<and> utf8_encode cs = bs \<Longrightarrow> valid_utf8 bs" by blast
qed

end
