(* ===== verification/Signaling_State.thy ===== *)
theory Signaling_State
  imports Json_Codec "HOL-Library.AList"
begin

text \<open>
  State of the signaling service: configuration, environment, tokens, connections, sessions,
  approvals and message queues, with the readings of the environment. The service holds its mutex during an operation, so operations are serialised. A hash
  map is an association list in its iteration order. Clock readings, random tokens and the outcome
  of appending to the audit log come from the environment, indexed by the number of readings so
  far; the details of an audit record are left out. \<open>SessionLogBroker::remember\<close> never throws and
  does not touch this state.
\<close>

subsection \<open>Configuration\<close>

record signaling_config =
  cf_driver_passwords :: "(string \<times> string) list"
  cf_device_tokens :: "(string \<times> string) list"
  cf_driver_vehicle_permissions :: "(string \<times> string list) list"
  cf_admin_token :: string
  cf_mobile_app_password :: string
  cf_mobile_approval_vehicles :: "string list"
  cf_mobile_approval_timeout_ms :: int
  cf_approver_token_ttl_ms :: int
  cf_token_ttl_ms :: int
  cf_control_token_ttl_ms :: int
  cf_vehicle_heartbeat_timeout_ms :: int
  cf_driver_heartbeat_timeout_ms :: int
  cf_connection_reaper_interval_ms :: int
  cf_login_max_failures :: int
  cf_login_failure_window_ms :: int
  cf_login_lockout_ms :: int
  cf_api_rate_limit_requests :: int
  cf_api_rate_limit_window_ms :: int
  cf_api_rate_limit_max_sources :: int
  cf_trusted_proxy_addresses :: "string list"
  cf_stun_urls :: "string list"
  cf_turn_urls :: "string list"
  cf_turn_realm :: string
  cf_turn_static_auth_secret :: string
  cf_turn_credential_ttl_seconds :: int
  cf_max_signaling_payload_bytes :: nat
  cf_max_sdp_bytes :: nat
  cf_max_ice_candidate_bytes :: nat
  cf_signaling_message_ttl_ms :: int
  cf_native_control_message_ttl_ms :: int
  cf_audit_log_path :: string
  cf_audit_log_max_bytes :: int
  cf_audit_log_files :: int
  cf_audit_log_rotation_interval_ms :: int
  cf_audit_log_retention_days :: int

subsection \<open>Strings\<close>

definition c_tolower :: "char \<Rightarrow> char" where
  "c_tolower c = (let n = (of_char c :: nat) in if 65 \<le> n \<and> n \<le> 90 then char_of (n + 32) else c)"

definition lower :: "string \<Rightarrow> string" where
  "lower = map c_tolower"

definition is_blank :: "char \<Rightarrow> bool" where
  "is_blank c \<longleftrightarrow> c \<in> {CHR '' '', CHR 0x09, CHR 0x0D, CHR 0x0A}"

definition trim :: "string \<Rightarrow> string" where
  "trim value = rev (dropWhile is_blank (rev (dropWhile is_blank value)))"

definition starts_with :: "string \<Rightarrow> string \<Rightarrow> bool" where
  "starts_with value prefix \<longleftrightarrow> take (length prefix) value = prefix"

definition valid_ice_url :: "string \<Rightarrow> bool \<Rightarrow> bool" where
  "valid_ice_url value turn =
     (if turn then starts_with value ''turn:'' \<or> starts_with value ''turns:''
      else starts_with value ''stun:'' \<or> starts_with value ''stuns:'')"

definition message_key :: "string \<Rightarrow> string \<Rightarrow> string" where
  "message_key session recipient = session @ [CHR 0x1F] @ recipient"

subsection \<open>Environment\<close>

text \<open>
  \<open>en_inet4\<close> and \<open>en_inet6\<close> stand for \<open>inet_pton\<close> followed by \<open>inet_ntop\<close>, \<open>en_hmac_sha1\<close> for the
  HMAC of the TLS library, and \<open>en_audit\<close> for the audit file: the exception of the attempt to append
  a record, if there is one. \<open>en_steady\<close> is the steady clock in nanoseconds. \<open>en_logs\<close> is the export of
  session logs, a component that is not modelled: what it answers may differ from call to call.
\<close>

record 'j log_broker =
  lb_vehicle :: "nat \<Rightarrow> string \<Rightarrow> 'j \<Rightarrow> bool \<Rightarrow> 'j res"
  lb_sessions :: "nat \<Rightarrow> string \<Rightarrow> 'j list res"
  lb_session :: "nat \<Rightarrow> string \<Rightarrow> string \<Rightarrow> 'j res"
  lb_start :: "nat \<Rightarrow> 'j \<Rightarrow> bool \<Rightarrow> 'j res"
  lb_status :: "nat \<Rightarrow> string \<Rightarrow> string \<Rightarrow> bool \<Rightarrow> 'j res"
  lb_chunk :: "nat \<Rightarrow> string \<Rightarrow> string \<Rightarrow> 'j \<Rightarrow> 'j res"
  lb_release :: "nat \<Rightarrow> string \<Rightarrow> string \<Rightarrow> unit res"

record 'j signaling_env =
  en_config :: signaling_config
  en_json :: "'j json_ops"
  en_now :: "nat \<Rightarrow> int"
  en_steady :: "nat \<Rightarrow> int"
  en_random :: "nat \<Rightarrow> nat \<Rightarrow> string"
  en_audit :: "nat \<Rightarrow> exn option"
  en_inet4 :: "string \<Rightarrow> string option"
  en_inet6 :: "string \<Rightarrow> string option"
  en_hmac_sha1 :: "string \<Rightarrow> string \<Rightarrow> uint8 list res"
  en_logs :: "'j log_broker"

definition canonical_ip_address :: "'j signaling_env \<Rightarrow> string \<Rightarrow> string option" where
  "canonical_ip_address E value0 =
     (let value = trim value0
      in if value = [] then None
         else case en_inet4 E value of Some text \<Rightarrow> Some text | None \<Rightarrow> en_inet6 E value)"

subsection \<open>State\<close>

datatype session_state = SOffline | SOnline | SReserved | SConnecting | SActive | SDegraded | SStopping | SClosed

fun session_state_to_string :: "session_state \<Rightarrow> string" where
  "session_state_to_string SOffline = ''offline''"
| "session_state_to_string SOnline = ''online''"
| "session_state_to_string SReserved = ''reserved''"
| "session_state_to_string SConnecting = ''connecting''"
| "session_state_to_string SActive = ''active''"
| "session_state_to_string SDegraded = ''degraded''"
| "session_state_to_string SStopping = ''stopping''"
| "session_state_to_string SClosed = ''closed''"

definition session_state_from_string :: "string \<Rightarrow> session_state res" where
  "session_state_from_string value =
     (case map_of (map (\<lambda>st. (session_state_to_string st, st))
        [SOffline, SOnline, SReserved, SConnecting, SActive, SDegraded, SStopping, SClosed]) value of
        Some st \<Rightarrow> Inr st | None \<Rightarrow> Inl (InvalidArgument ''unsupported session state''))"

datatype approval_state = Pending | Approved | Rejected | Cancelled | Expired | Consumed

fun approval_state_text :: "approval_state \<Rightarrow> string" where
  "approval_state_text Pending = ''pending''"
| "approval_state_text Approved = ''approved''"
| "approval_state_text Rejected = ''rejected''"
| "approval_state_text Cancelled = ''cancelled''"
| "approval_state_text Expired = ''expired''"
| "approval_state_text Consumed = ''consumed''"

record mobile_approval =
  ma_request_id :: string
  ma_vehicle_id :: string
  ma_driver_id :: string
  ma_state :: approval_state
  ma_decided_by :: string
  ma_session_id :: string
  ma_driver_generation :: uint64
  ma_vehicle_generation :: uint64
  ma_expires_at_ms :: int
  ma_deadline :: int

record driver_token =
  dt_driver_id :: string
  dt_expires_at_ms :: int
  dt_connection_generation :: uint64

record connection_presence =
  cp_connection_id :: string
  cp_generation :: uint64
  cp_connected_at_ms :: int
  cp_last_seen_at_ms :: int

record relay_usage_sample =
  ru_sequence :: uint64
  ru_bytes_sent :: uint64
  ru_bytes_received :: uint64
  ru_duration_ms :: uint64

record session =
  ss_session_id :: string
  ss_vehicle_id :: string
  ss_driver_id :: string
  ss_started_at_utc_ms :: int
  ss_state :: session_state
  ss_control_token :: string
  ss_control_token_expires_at_ms :: int
  ss_relay_bytes_sent :: uint64
  ss_relay_bytes_received :: uint64
  ss_relay_duration_ms :: uint64
  ss_relay_usage_samples :: uint64
  ss_last_relay_bitrate_kbps :: double
  ss_last_relay_usage_by_actor :: "(string \<times> relay_usage_sample) list"

record 'j message =
  mg_metadata :: protocol_metadata
  mg_sender :: string
  mg_recipient :: string
  mg_type :: string
  mg_payload :: 'j
  mg_queued_at_utc_ms :: int
  mg_queued_at_monotonic_ms :: int
  mg_delivery_cursor :: uint64

record 'j accepted_message =
  am_sequence :: uint64
  am_fingerprint :: string
  am_acknowledgement :: 'j

record login_failure_state =
  lf_failures :: int
  lf_window_started_at_ms :: int
  lf_blocked_until_ms :: int

record api_rate_state =
  ar_requests :: int
  ar_window_started_at_ms :: int
  ar_limit_audited :: bool

record 'j signaling =
  sg_reads :: nat
  sg_audit_log :: "string list"
  sg_service_instance_id :: string
  sg_driver_tokens :: "(string \<times> driver_token) list"
  sg_mobile_approvals :: "(string \<times> mobile_approval) list"
  sg_approver_tokens :: "(string \<times> driver_token) list"
  sg_online_vehicles :: "(string \<times> connection_presence) list"
  sg_online_drivers :: "(string \<times> connection_presence) list"
  sg_revoked_vehicles :: "string list"
  sg_revoked_drivers :: "string list"
  sg_sessions :: "(string \<times> session) list"
  sg_messages :: "(string \<times> 'j message list) list"
  sg_latest_control :: "(string \<times> 'j message) list"
  sg_last_accepted :: "(string \<times> 'j accepted_message) list"
  sg_next_cursors :: "(string \<times> uint64) list"
  sg_login_failures :: "(string \<times> login_failure_state) list"
  sg_approver_login_last_cleanup_ms :: int
  sg_trusted_proxy_addresses :: "string list"
  sg_api_rate_limits :: "(string \<times> api_rate_state) list"
  sg_api_rate_limit_overflow :: api_rate_state
  sg_api_rate_limit_last_cleanup_ms :: int
  sg_api_rate_limited_requests :: uint64
  sg_session_counter :: uint64
  sg_connection_generation :: uint64

definition empty_rate_state :: api_rate_state where
  "empty_rate_state = \<lparr>ar_requests = 0, ar_window_started_at_ms = 0, ar_limit_audited = False\<rparr>"

subsection \<open>Readings of the environment\<close>

type_synonym ('j, 'a) sig = "('j signaling, 'a) oper"

definition reading :: "(nat \<Rightarrow> 'a) \<Rightarrow> ('j, 'a) sig" where
  "reading source s = (Inr (source (sg_reads s)), s\<lparr>sg_reads := Suc (sg_reads s)\<rparr>)"

definition now_ms :: "'j signaling_env \<Rightarrow> ('j, int) sig" where
  "now_ms E = reading (en_now E)"

definition steady_now :: "'j signaling_env \<Rightarrow> ('j, int) sig" where
  "steady_now E = reading (en_steady E)"

text \<open>\<open>duration_cast\<close> to milliseconds rounds towards zero.\<close>

definition cast_ms :: "int \<Rightarrow> int" where
  "cast_ms n = (if n < 0 then - (- n div 1000000) else n div 1000000)"

definition monotonic_now_ms :: "'j signaling_env \<Rightarrow> ('j, int) sig" where
  "monotonic_now_ms E = bindS (steady_now E) (\<lambda>n. returnS (cast_ms n))"

definition random_token :: "'j signaling_env \<Rightarrow> nat \<Rightarrow> ('j, string) sig" where
  "random_token E bytes = reading (en_random E bytes)"

definition audit :: "'j signaling_env \<Rightarrow> string \<Rightarrow> ('j, unit) sig" where
  "audit E event =
     (if cf_audit_log_path (en_config E) = [] then returnS ()
      else bindS (reading (en_audit E)) (\<lambda>failure. case failure of
          Some e \<Rightarrow> throwS e
        | None \<Rightarrow> modifyS (\<lambda>s. s\<lparr>sg_audit_log := sg_audit_log s @ [event]\<rparr>)))"

definition try_audit :: "'j signaling_env \<Rightarrow> string \<Rightarrow> ('j, bool) sig" where
  "try_audit E event = tryS (bindS (audit E event) (\<lambda>_. returnS True)) (\<lambda>_. returnS False)"

text \<open>A loop over the elements of a container, in its iteration order.\<close>

fun forS :: "'x list \<Rightarrow> ('x \<Rightarrow> ('s, unit) oper) \<Rightarrow> ('s, unit) oper" where
  "forS [] f = returnS ()"
| "forS (x # xs) f = thenS (f x) (forS xs f)"

text \<open>The loop runs over the elements the container has when it starts.\<close>

definition for_eachS :: "('s \<Rightarrow> 'x list) \<Rightarrow> ('x \<Rightarrow> ('s, unit) oper) \<Rightarrow> ('s, unit) oper" where
  "for_eachS elements f = bindS (getS elements) (\<lambda>xs. forS xs f)"

end
