(* ===== verification/Http_Server.thy ===== *)
theory Http_Server
  imports Signaling_State Encodings
begin

text \<open>
  The HTTP layer of the servers: decoding of targets and paths, the request that is read from the
  received chunks, and the responses. Sockets are not modelled; what \<open>recv\<close> returns is a list of
  outcomes.
\<close>

subsection \<open>Requests\<close>

record http_request =
  rq_method :: string
  rq_target :: string
  rq_peer_address :: string
  rq_path :: string
  rq_query :: "(string \<times> string) list"
  rq_headers :: "(string \<times> string) list"
  rq_body :: string

function path_parts :: "string \<Rightarrow> string list res" where
  "path_parts path =
     (let rest = dropWhile (\<lambda>c. c = CHR ''/'') path
      in if rest = [] then Inr []
         else bindE (url_decode (takeWhile (\<lambda>c. c \<noteq> CHR ''/'') rest)) (\<lambda>part.
              bindE (path_parts (drop 1 (dropWhile (\<lambda>c. c \<noteq> CHR ''/'') rest))) (\<lambda>parts. Inr (part # parts))))"
  by pat_completeness auto
termination
proof (relation "measure length")
  fix path rest :: string and part
  assume rest: "rest = dropWhile (\<lambda>c. c = CHR ''/'') path" "rest \<noteq> []"
  then have "hd rest \<noteq> CHR ''/''" using hd_dropWhile[of "\<lambda>c. c = CHR ''/''" path] by simp
  then have "length (dropWhile (\<lambda>c. c \<noteq> CHR ''/'') rest) \<le> length (tl rest)"
    using rest(2) by (cases rest) (simp_all add: length_dropWhile_le)
  moreover have "length rest \<le> length path" using rest(1) by (simp add: length_dropWhile_le)
  ultimately show "(drop 1 (dropWhile (\<lambda>c. c \<noteq> CHR ''/'') rest), path) \<in> measure length"
    using rest(2) by (cases rest) auto
qed simp

declare path_parts.simps [simp del]

definition query_value :: "http_request \<Rightarrow> string \<Rightarrow> string" where
  "query_value request key = (case map_of (rq_query request) key of None \<Rightarrow> [] | Some v \<Rightarrow> v)"

definition credential_value :: "http_request \<Rightarrow> string \<Rightarrow> string \<Rightarrow> string" where
  "credential_value request query_key header_name = (case map_of (rq_headers request) header_name of
     Some v \<Rightarrow> if v \<noteq> [] then v else query_value request query_key
   | None \<Rightarrow> query_value request query_key)"

definition json_body :: "'j json_ops \<Rightarrow> http_request \<Rightarrow> 'j res" where
  "json_body J request =
     (if rq_body request = [] then Inr (js_object J [])
      else rethrow_json ''invalid JSON body: '' (bindE (js_parse J (rq_body request)) (\<lambda>value.
        if \<not> js_is_object J value then Inl (InvalidArgument ''JSON body must be an object'') else Inr value)))"

subsection \<open>Reading a request\<close>

datatype recv_result = Received string | RecvInterrupted | RecvFailed string

text \<open>The position of a substring, and the lines of \<open>std::getline\<close>: the last line has no terminator.\<close>

fun find_text :: "string \<Rightarrow> string \<Rightarrow> nat option" where
  "find_text pattern [] = (if pattern = [] then Some 0 else None)"
| "find_text pattern (c # cs) =
     (if take (length pattern) (c # cs) = pattern then Some 0 else map_option Suc (find_text pattern cs))"

fun split_lines :: "string \<Rightarrow> string list" where
  "split_lines [] = []"
| "split_lines (c # cs) =
     (if c = CHR 0x0A then [] # split_lines cs
      else case split_lines cs of [] \<Rightarrow> [[c]] | l # ls \<Rightarrow> (c # l) # ls)"

text \<open>Fields between separators, the empty ones included: \<open>a,,b\<close> has three.\<close>

fun split_on :: "char \<Rightarrow> string \<Rightarrow> string list" where
  "split_on d [] = [[]]"
| "split_on d (c # cs) = (if c = d then [] # split_on d cs
     else case split_on d cs of [] \<Rightarrow> [[c]] | f # fs \<Rightarrow> (c # f) # fs)"

text \<open>Formatted extraction of words: the maximal runs without white space.\<close>

fun words_of :: "string \<Rightarrow> string list" where
  "words_of [] = []"
| "words_of (c # cs) = (if c_isspace c then words_of cs
     else case (cs, words_of cs) of (d # _, w # ws) \<Rightarrow> if c_isspace d then [c] # w # ws else (c # w) # ws
       | (_, ws) \<Rightarrow> [c] # ws)"

text \<open>\<open>recv_until done\<close> appends chunks to the wire until \<open>done\<close> holds; an empty chunk is the end of the stream.\<close>

fun recv_until :: "(string \<Rightarrow> bool) \<Rightarrow> (string \<Rightarrow> unit res) \<Rightarrow> string \<Rightarrow> recv_result list \<Rightarrow> string \<Rightarrow>
    (string \<times> recv_result list) res" where
  "recv_until finished check eof chunks wire =
     (if finished wire then Inr (wire, chunks)
      else case chunks of
        [] \<Rightarrow> Inl (InvalidArgument eof)
      | Received [] # _ \<Rightarrow> Inl (InvalidArgument eof)
      | Received data # rest \<Rightarrow> bindE (check (wire @ data)) (\<lambda>_. recv_until finished check eof rest (wire @ data))
      | RecvInterrupted # rest \<Rightarrow> recv_until finished check eof rest wire
      | RecvFailed message # _ \<Rightarrow> Inl (RuntimeError (''recv failed: '' @ message)))"

declare recv_until.simps [simp del]

definition header_separator :: string where
  "header_separator = [CHR 0x0D, CHR 0x0A, CHR 0x0D, CHR 0x0A]"

definition parse_header :: "string \<Rightarrow> (string \<times> string) list \<Rightarrow> (string \<times> string) list res" where
  "parse_header line0 headers =
     (let line = trim line0
      in if line = [] then Inr headers
         else case find_text '':'' line of
           None \<Rightarrow> Inl (InvalidArgument ''invalid HTTP header'')
         | Some i \<Rightarrow> Inr (AList.update (lower (trim (take i line))) (trim (drop (i + 1) line)) headers))"

fun parse_headers :: "string list \<Rightarrow> (string \<times> string) list \<Rightarrow> (string \<times> string) list res" where
  "parse_headers [] headers = Inr headers"
| "parse_headers (line # ls) headers = bindE (parse_header line headers) (parse_headers ls)"

definition content_length :: "(string \<times> string) list \<Rightarrow> nat res" where
  "content_length headers = (case map_of headers ''content-length'' of
     None \<Rightarrow> Inr 0
   | Some text \<Rightarrow> (case stoull text of
       Some (n, consumed) \<Rightarrow> if consumed = length text then Inr (unat n) else Inl (InvalidArgument ''invalid Content-Length header'')
     | None \<Rightarrow> Inl (InvalidArgument ''invalid Content-Length header'')))"

fun parse_query :: "string list \<Rightarrow> (string \<times> string) list \<Rightarrow> (string \<times> string) list res" where
  "parse_query [] query = Inr query"
| "parse_query (item # items) query =
     (if item = [] then parse_query items query
      else case find_text ''='' item of
        None \<Rightarrow> bindE (url_decode item) (\<lambda>key. parse_query items (AList.update key [] query))
      | Some i \<Rightarrow> bindE (url_decode (drop (i + 1) item)) (\<lambda>value.
          bindE (url_decode (take i item)) (\<lambda>key. parse_query items (AList.update key value query))))"

text \<open>The path and the query of a request, each decoded; \<open>path_parts\<close> decodes the parts of the path again.\<close>

definition decode_target :: "string \<Rightarrow> (string \<times> (string \<times> string) list) res" where
  "decode_target target = (let question = find_text ''?'' target in
     bindE (url_decode (case question of None \<Rightarrow> target | Some q \<Rightarrow> take q target)) (\<lambda>path.
     bindE (case question of None \<Rightarrow> Inr []
       | Some q \<Rightarrow> parse_query (split_on CHR ''&'' (drop (q + 1) target)) []) (\<lambda>query.
     Inr (path, query))))"

datatype parsed = Request http_request | TooLarge

text \<open>\<open>TooLarge\<close> is \<open>std::length_error\<close> (\<open>request body too large\<close>), which the server answers with 413.\<close>

definition parse_request :: "nat \<Rightarrow> recv_result list \<Rightarrow> parsed res" where
  "parse_request max_body_bytes chunks =
     bindE (recv_until (\<lambda>wire. find_text header_separator wire \<noteq> None)
        (\<lambda>wire. throw_if (64 * 1024 < length wire) (InvalidArgument ''HTTP headers too large''))
        ''client closed before sending HTTP headers'' chunks []) (\<lambda>(wire, chunks1).
     let header_end = the (find_text header_separator wire)
     in case split_lines (take header_end wire) of
       [] \<Rightarrow> Inl (InvalidArgument ''missing HTTP request line'')
     | request_line # header_lines \<Rightarrow>
         (case words_of (trim request_line) of
           meth # target # version # _ \<Rightarrow>
             if \<not> starts_with version ''HTTP/1.'' then Inl (InvalidArgument ''invalid HTTP request line'')
             else bindE (parse_headers header_lines []) (\<lambda>headers.
               bindE (content_length headers) (\<lambda>n.
               if max_body_bytes < n then Inr TooLarge
               else let body_start = header_end + 4 in
                 bindE (recv_until (\<lambda>w. n \<le> length w - body_start) (\<lambda>_. Inr ())
                    ''client closed before sending HTTP body'' chunks1 wire) (\<lambda>(wire1, _).
                 bindE (decode_target target) (\<lambda>(path, query).
                   Inr (Request \<lparr>rq_method = meth, rq_target = target, rq_peer_address = [], rq_path = path,
                     rq_query = query, rq_headers = headers, rq_body = take n (drop body_start wire1)\<rparr>)))))
         | _ \<Rightarrow> Inl (InvalidArgument ''invalid HTTP request line'')))"

subsection \<open>Decoding of the targets that clients build\<close>

lemma find_text_char: "d \<notin> set xs \<Longrightarrow> find_text [d] (xs @ d # ys) = Some (length xs)"
  by (induction xs) auto

lemma split_on_plain: "d \<notin> set xs \<Longrightarrow> split_on d xs = [xs]"
  by (induction xs) auto

lemma split_on_append: "d \<notin> set xs \<Longrightarrow> split_on d (xs @ d # ys) = xs # split_on d ys"
  by (induction xs) auto

lemma path_parts_slash: "path_parts (CHR ''/'' # path) = path_parts path"
  by (simp add: path_parts.simps[of "CHR ''/'' # path"] path_parts.simps[of path])

lemma path_parts_part:
  assumes "part \<noteq> []" "CHR ''/'' \<notin> set part"
  shows "path_parts (part @ CHR ''/'' # rest) =
    bindE (url_decode part) (\<lambda>p. bindE (path_parts rest) (\<lambda>ps. Inr (p # ps)))"
proof -
  have "dropWhile (\<lambda>c. c = CHR ''/'') (part @ CHR ''/'' # rest) = part @ CHR ''/'' # rest"
    using assms by (cases part) auto
  moreover have "takeWhile (\<lambda>c. c \<noteq> CHR ''/'') (part @ CHR ''/'' # rest) = part"
    "dropWhile (\<lambda>c. c \<noteq> CHR ''/'') (part @ CHR ''/'' # rest) = CHR ''/'' # rest"
    using assms(2) by (auto simp: takeWhile_append dropWhile_append)
  ultimately show ?thesis using assms(1) by (subst path_parts.simps) (simp add: Let_def)
qed

lemma path_parts_last:
  assumes "part \<noteq> []" "CHR ''/'' \<notin> set part"
  shows "path_parts part = bindE (url_decode part) (\<lambda>p. Inr [p])"
proof -
  have "dropWhile (\<lambda>c. c = CHR ''/'') part = part" using assms by (cases part) auto
  moreover have t: "takeWhile (\<lambda>c. c \<noteq> CHR ''/'') part = part" "dropWhile (\<lambda>c. c \<noteq> CHR ''/'') part = []"
    using assms(2) by (auto simp: takeWhile_eq_all_conv)
  moreover have "path_parts [] = Inr []" by (simp add: path_parts.simps)
  ultimately show ?thesis using assms(1) by (subst path_parts.simps) (simp add: Let_def t)
qed

subsection \<open>Responses\<close>

record server_response =
  sr_status :: int
  sr_content_type :: string
  sr_body :: string
  sr_headers :: "(string \<times> string) list"

definition response_json :: "'j json_ops \<Rightarrow> int \<Rightarrow> 'j \<Rightarrow> server_response res" where
  "response_json J status value = bindE (js_dump J value) (\<lambda>body.
     Inr \<lparr>sr_status = status, sr_content_type = ''application/json; charset=utf-8'', sr_body = body, sr_headers = []\<rparr>)"

definition response_text :: "int \<Rightarrow> string \<Rightarrow> string \<Rightarrow> server_response" where
  "response_text status body content_type =
     \<lparr>sr_status = status, sr_content_type = content_type, sr_body = body, sr_headers = []\<rparr>"

definition add_header :: "string \<Rightarrow> string \<Rightarrow> server_response \<Rightarrow> server_response" where
  "add_header name value r = r\<lparr>sr_headers := sr_headers r @ [(name, value)]\<rparr>"

definition add_request_id_header :: "server_response \<Rightarrow> string \<Rightarrow> server_response" where
  "add_request_id_header r request_id = add_header ''X-Request-ID'' request_id r"

text \<open>Division of \<open>std::int64_t\<close> rounds towards zero; the times to wait are not negative.\<close>

definition too_many_requests_response :: "'j json_ops \<Rightarrow> string \<Rightarrow> int \<Rightarrow> server_response res" where
  "too_many_requests_response J message retry_after_ms =
     bindE (response_json J 429 (js_object J [(''error'', js_of_string J message), (''retry_after_ms'', js_of_int J retry_after_ms)]))
       (\<lambda>r. let retry_after_seconds = retry_after_ms div 1000 + (if retry_after_ms mod 1000 = 0 then 0 else 1)
            in Inr (add_header ''Cache-Control'' ''no-store''
                 (add_header ''Retry-After'' (int_to_string (max 1 retry_after_seconds)) r)))"

definition status_reason :: "int \<Rightarrow> string" where
  "status_reason status = (case map_of [(200, ''OK''), (201, ''Created''), (400, ''Bad Request''), (401, ''Unauthorized''),
     (404, ''Not Found''), (405, ''Method Not Allowed''), (409, ''Conflict''), (410, ''Gone''), (413, ''Payload Too Large''),
     (429, ''Too Many Requests''), (500, ''Internal Server Error'')] status of Some r \<Rightarrow> r | None \<Rightarrow> ''Response'')"

definition crlf :: string where
  "crlf = [CHR 0x0D, CHR 0x0A]"

definition http_response_wire :: "server_response \<Rightarrow> string" where
  "http_response_wire r =
     ''HTTP/1.1 '' @ int_to_string (sr_status r) @ '' '' @ status_reason (sr_status r) @ crlf @
     ''Content-Type: '' @ sr_content_type r @ crlf @
     ''Content-Length: '' @ nat_to_string (length (sr_body r)) @ crlf @
     ''Connection: close'' @ crlf @
     concat (map (\<lambda>(name, value). name @ '': '' @ value @ crlf) (sr_headers r)) @ crlf @ sr_body r"

end
