(* ===== verification/Websocket.thy ===== *)
theory Websocket
  imports Http_Server
begin

unbundle bit_operations_syntax

text \<open>
  The WebSocket connections of \<open>websocket.cpp\<close>: the frames of the server and of the client, their
  receive loops, the upgrade handshake of the client and the signaling URL. A socket is what the
  peer's bytes are and how they end (nothing more in time, the end of the stream, an error); what a
  send does is a function of its position among the sends. SHA-1, the random source, the URL parser
  and the connection of libcurl are parameters.
\<close>

subsection \<open>Bytes and text\<close>

definition text_of :: "uint8 list \<Rightarrow> string" where
  "text_of bs = map (\<lambda>b. char_of (unat b)) bs"

definition bytes_of :: "string \<Rightarrow> uint8 list" where
  "bytes_of cs = map (\<lambda>c. byte (of_char c)) cs"

lemma text_of_bytes [simp]: "text_of (bytes_of cs) = cs"
proof -
  have "char_of (unat (byte (of_char c))) = c" for c
    using of_char_mod_256[of c, where ?'a = nat] by (simp add: byte_def unat_of_nat)
  then show ?thesis by (simp add: text_of_def bytes_of_def comp_def)
qed

lemma length_bytes_of [simp]: "length (bytes_of cs) = length cs" "bytes_of [] = []"
  by (simp_all add: bytes_of_def)

type_synonym uint16 = "16 word"

subsection \<open>Close codes and opcodes\<close>

definition valid_websocket_close_code :: "uint16 \<Rightarrow> bool" where
  "valid_websocket_close_code code =
     (if 3000 \<le> code \<and> code \<le> 4999 then True
      else if code < 1000 \<or> 1014 < code then False
      else code \<noteq> 1004 \<and> code \<noteq> 1005 \<and> code \<noteq> 1006)"

definition validate_websocket_close_payload :: "uint8 list \<Rightarrow> unit res" where
  "validate_websocket_close_payload payload =
     (if length payload = 1 then Inl (InvalidArgument ''websocket close payload must be empty or include a status code'')
      else if length payload < 2 then Inr ()
      else let code = push_bit 8 (ucast (payload ! 0)) OR ucast (payload ! 1) in
        if \<not> valid_websocket_close_code code then Inl (InvalidArgument ''invalid websocket close status code'')
        else if \<not> valid_utf8 (drop 2 payload) then Inl (InvalidArgument ''websocket close reason must be valid UTF-8'')
        else Inr ())"

definition supported_websocket_opcode :: "uint8 \<Rightarrow> bool" where
  "supported_websocket_opcode opcode \<longleftrightarrow> opcode = 0x1 \<or> opcode = 0x8 \<or> opcode = 0x9 \<or> opcode = 0xa"

definition control_opcode :: "uint8 \<Rightarrow> bool" where
  "control_opcode opcode \<longleftrightarrow> opcode = 0x8 \<or> opcode = 0x9 \<or> opcode = 0xa"

subsection \<open>Frames\<close>

text \<open>
  The header of a frame: \<open>mask_bit\<close> is 0 for the server and \<open>0x80\<close> for the client. A byte of the
  length is the low byte of the shifted length.
\<close>

definition frame_header :: "uint8 \<Rightarrow> uint8 \<Rightarrow> nat \<Rightarrow> uint8 list" where
  "frame_header mask_bit opcode len = (0x80 OR (opcode AND 0x0f)) #
     (if len < 126 then [mask_bit OR byte len]
      else if len \<le> 0xffff then [mask_bit OR 126, byte (len div 2 ^ 8), byte len]
      else (mask_bit OR 127) # map (\<lambda>shift. byte (len div 2 ^ shift)) [56, 48, 40, 32, 24, 16, 8, 0])"

definition apply_mask :: "uint8 list \<Rightarrow> uint8 list \<Rightarrow> uint8 list" where
  "apply_mask key payload = map (\<lambda>index. payload ! index XOR key ! (index mod 4)) [0..<length payload]"

definition server_frame :: "uint8 \<Rightarrow> uint8 list \<Rightarrow> uint8 list" where
  "server_frame opcode payload = frame_header 0 opcode (length payload) @ payload"

definition client_frame :: "uint8 list \<Rightarrow> uint8 \<Rightarrow> uint8 list \<Rightarrow> uint8 list" where
  "client_frame key opcode payload = frame_header 0x80 opcode (length payload) @ key @ apply_mask key payload"

fun big_endian :: "uint8 list \<Rightarrow> nat \<Rightarrow> nat" where
  "big_endian [] acc = acc"
| "big_endian (b # bs) acc = big_endian bs (acc * 256 + unat b)"

subsection \<open>The connection of the server\<close>

datatype stream_end = Idle | Eof | Broken exn

record websocket =
  ws_max_message_bytes :: nat
  ws_bytes :: "uint8 list"
  ws_end :: stream_end
  ws_sent :: "uint8 list"
  ws_sends :: nat
  ws_send_outcome :: "nat \<Rightarrow> exn option"

datatype 'j receive = Message 'j | Timeout | ClosedByPeer

definition server_websocket :: "int \<Rightarrow> nat \<Rightarrow> websocket \<Rightarrow> websocket res" where
  "server_websocket socket max_message_bytes s =
     (if socket < 0 \<or> max_message_bytes = 0 then Inl (InvalidArgument ''invalid server websocket connection'')
      else Inr (s\<lparr>ws_max_message_bytes := max_message_bytes\<rparr>))"

definition socket_send_all :: "uint8 list \<Rightarrow> (websocket, unit) oper" where
  "socket_send_all bytes s = (case ws_send_outcome s (ws_sends s) of
     Some e \<Rightarrow> (Inl e, s\<lparr>ws_sends := Suc (ws_sends s)\<rparr>)
   | None \<Rightarrow> (Inr (), s\<lparr>ws_sends := Suc (ws_sends s), ws_sent := ws_sent s @ bytes\<rparr>))"

definition socket_receive_exact :: "nat \<Rightarrow> (websocket, uint8 list option) oper" where
  "socket_receive_exact len s =
     (if len \<le> length (ws_bytes s) then (Inr (Some (take len (ws_bytes s))), s\<lparr>ws_bytes := drop len (ws_bytes s)\<rparr>)
      else ((case ws_end s of Idle \<Rightarrow> Inl (RuntimeError ''websocket frame timed out'') | Eof \<Rightarrow> Inr None | Broken e \<Rightarrow> Inl e),
        s\<lparr>ws_bytes := []\<rparr>))"

definition server_send_frame :: "uint8 \<Rightarrow> uint8 list \<Rightarrow> (websocket, unit) oper" where
  "server_send_frame opcode payload = socket_send_all (server_frame opcode payload)"

definition server_send_json :: "'j json_ops \<Rightarrow> 'j \<Rightarrow> (websocket, unit) oper" where
  "server_send_json J value = bindS (liftS (js_dump J value)) (\<lambda>text. server_send_frame 0x1 (bytes_of text))"

definition server_send_close :: "uint16 \<Rightarrow> uint8 list \<Rightarrow> (websocket, unit) oper" where
  "server_send_close code reason =
     thenS (liftS (checks [
       throw_if (\<not> valid_websocket_close_code code) (InvalidArgument ''invalid websocket close status code''),
       throw_if (123 < length reason) (InvalidArgument ''websocket close reason is too long''),
       throw_if (\<not> valid_utf8 reason) (InvalidArgument ''websocket close reason must be valid UTF-8'')]))
     (server_send_frame 0x8 (ucast (drop_bit 8 code) # ucast code # reason))"

text \<open>
  One pass of the loop of \<open>receive_json\<close>: \<open>None\<close> is \<open>continue\<close>. \<open>received n k\<close> reads \<open>n\<close> bytes, and
  returns \<open>Closed\<close> when the stream ends before them.
\<close>

definition received :: "nat \<Rightarrow> (uint8 list \<Rightarrow> (websocket, 'j receive option) oper) \<Rightarrow> (websocket, 'j receive option) oper" where
  "received len k = bindS (socket_receive_exact len) (\<lambda>r. case r of None \<Rightarrow> returnS (Some ClosedByPeer) | Some bs \<Rightarrow> k bs)"

definition server_frame_length ::
  "uint8 \<Rightarrow> (nat \<Rightarrow> (websocket, 'j receive option) oper) \<Rightarrow> (websocket, 'j receive option) oper" where
  "server_frame_length second k =
     (let len = unat (second AND 0x7f) in
      if len = 126 then received 2 (\<lambda>extended.
        if big_endian extended 0 < 126 then throwS (InvalidArgument ''websocket frame length is not minimally encoded'')
        else k (big_endian extended 0))
      else if len = 127 then received 8 (\<lambda>extended.
        if extended ! 0 AND 0x80 \<noteq> 0 then throwS (InvalidArgument ''invalid websocket frame length'')
        else if big_endian extended 0 \<le> 0xffff then throwS (InvalidArgument ''websocket frame length is not minimally encoded'')
        else k (big_endian extended 0))
      else k len)"

definition server_accept_frame :: "'j json_ops \<Rightarrow> bool \<Rightarrow> uint8 \<Rightarrow> uint8 list \<Rightarrow> (websocket, 'j receive option) oper" where
  "server_accept_frame J final opcode payload =
     (if opcode = 0x8 then thenS (liftS (validate_websocket_close_payload payload))
        (thenS (server_send_frame 0x8 payload) (returnS (Some ClosedByPeer)))
      else if opcode = 0x9 then thenS (server_send_frame 0xa payload) (returnS None)
      else if opcode = 0xa then returnS None
      else if \<not> final then throwS (InvalidArgument ''fragmented websocket messages are not supported'')
      else if opcode \<noteq> 0x1 then throwS (InvalidArgument ''only text websocket frames are supported'')
      else liftS (rethrow_json ''invalid websocket JSON: '' (bindE (js_parse J (text_of payload)) (\<lambda>value.
        if js_is_object J value then Inr (Some (Message value))
        else Inl (InvalidArgument ''websocket message must be a JSON object'')))))"

definition server_read_frame :: "'j json_ops \<Rightarrow> (websocket, 'j receive option) oper" where
  "server_read_frame J =
     received 2 (\<lambda>header. let first = header ! 0; second = header ! 1; final = (first AND 0x80 \<noteq> 0); opcode = first AND 0x0f in
       thenS (liftS (checks [
         throw_if (first AND 0x70 \<noteq> 0) (InvalidArgument ''websocket reserved bits are not supported''),
         throw_if (second AND 0x80 = 0) (InvalidArgument ''client websocket frames must be masked''),
         throw_if (\<not> supported_websocket_opcode opcode) (InvalidArgument ''unsupported websocket opcode'')]))
       (server_frame_length second (\<lambda>len. bindS (getS ws_max_message_bytes) (\<lambda>max_message_bytes.
         thenS (liftS (checks [
           throw_if (control_opcode opcode \<and> (\<not> final \<or> 125 < len))
             (InvalidArgument ''websocket control frames must be complete and no longer than 125 bytes''),
           throw_if (max_message_bytes < len) (InvalidArgument ''websocket message too large'')]))
         (received 4 (\<lambda>key. received len (\<lambda>payload.
           server_accept_frame J final opcode (apply_mask key payload))))))))"

definition server_receive_step :: "'j json_ops \<Rightarrow> (websocket, 'j receive option) oper" where
  "server_receive_step J = bindS (getS (\<lambda>s. ws_bytes s = [] \<and> ws_end s = Idle)) (\<lambda>timed_out.
     if timed_out then returnS (Some Timeout) else server_read_frame J)"

text \<open>A pass that continues has read at least the two bytes of a header and the four of a mask.\<close>

lemma wp_received [wp_simps]:
  "wp (received len k) Q X s =
     (if len \<le> length (ws_bytes s) then wp (k (take len (ws_bytes s))) Q X (s\<lparr>ws_bytes := drop len (ws_bytes s)\<rparr>)
      else case ws_end s of
        Idle \<Rightarrow> X (RuntimeError ''websocket frame timed out'') (s\<lparr>ws_bytes := []\<rparr>)
      | Eof \<Rightarrow> Q (Some ClosedByPeer) (s\<lparr>ws_bytes := []\<rparr>)
      | Broken e \<Rightarrow> X e (s\<lparr>ws_bytes := []\<rparr>))"
  by (auto simp: received_def wp_simps wp_def socket_receive_exact_def returnS_def bindS_def split: stream_end.splits)

lemma wp_socket_send_all [wp_simps]:
  "wp (socket_send_all bytes) Q X s = (case ws_send_outcome s (ws_sends s) of
     Some e \<Rightarrow> X e (s\<lparr>ws_sends := Suc (ws_sends s)\<rparr>)
   | None \<Rightarrow> Q () (s\<lparr>ws_sends := Suc (ws_sends s), ws_sent := ws_sent s @ bytes\<rparr>))"
  by (simp add: wp_def socket_send_all_def split: option.splits)

definition shorter :: "nat \<Rightarrow> 'r option \<Rightarrow> websocket \<Rightarrow> bool" where
  "shorter n r t \<longleftrightarrow> (r = None \<longrightarrow> length (ws_bytes t) + 6 \<le> n)"

lemma server_accept_frame_shorter:
  assumes "length (ws_bytes s) + 6 \<le> n"
  shows "wp (server_accept_frame J final opcode payload) (shorter n) (\<lambda>_ _. True) s"
  using assms by (auto simp: server_accept_frame_def server_send_frame_def wp_simps shorter_def rethrow_json_def
      split: sum.splits option.splits exn.splits)

lemma server_frame_length_shorter:
  assumes "length (ws_bytes s) + 2 \<le> n" "\<And>len t. length (ws_bytes t) + 2 \<le> n \<Longrightarrow> wp (k len) (shorter n) (\<lambda>_ _. True) t"
  shows "wp (server_frame_length second k) (shorter n) (\<lambda>_ _. True) s"
  using assms by (auto simp: server_frame_length_def wp_simps Let_def shorter_def split: stream_end.splits)

lemma server_read_frame_shorter: "wp (server_read_frame J) (shorter (length (ws_bytes s))) (\<lambda>_ _. True) s"
proof -
  let ?n = "length (ws_bytes s)"
  have body: "wp (server_accept_frame J f oc p) (shorter ?n) (\<lambda>_ _. True) t" if "length (ws_bytes t) + 6 \<le> ?n" for f oc p t
    using that by (rule server_accept_frame_shorter)
  show ?thesis
    unfolding server_read_frame_def Let_def
    by (auto simp: wp_simps shorter_def intro!: server_frame_length_shorter body split: stream_end.splits sum.splits)
qed

lemma server_receive_step_shorter: "wp (server_receive_step J) (shorter (length (ws_bytes s))) (\<lambda>_ _. True) s"
  using server_read_frame_shorter[of J s] by (simp add: server_receive_step_def wp_simps shorter_def)

lemma server_receive_continues: "server_receive_step J s = (Inr None, t) \<Longrightarrow> length (ws_bytes t) + 6 \<le> length (ws_bytes s)"
  using server_receive_step_shorter[of J s] by (simp add: wp_def shorter_def)

function server_receive_json :: "'j json_ops \<Rightarrow> websocket \<Rightarrow> 'j receive res \<times> websocket" where
  "server_receive_json J s = (case server_receive_step J s of
     (Inl e, t) \<Rightarrow> (Inl e, t)
   | (Inr (Some r), t) \<Rightarrow> (Inr r, t)
   | (Inr None, t) \<Rightarrow> server_receive_json J t)"
  by pat_completeness auto
termination
  by (relation "measure (\<lambda>(J, s). length (ws_bytes s))") (auto dest!: server_receive_continues[OF sym])

declare server_receive_json.simps [simp del]

subsection \<open>The connection of the client\<close>

text \<open>
  \<open>wc_chunks\<close> are the blocks that \<open>curl_easy_recv\<close> returns, in order, and \<open>wc_end\<close> what follows
  them: \<open>CURLE_AGAIN\<close> until the deadline, an empty block (the peer closed), or an error. The random
  source is consulted once per frame and once for the key of the handshake.
\<close>

record ws_client =
  wc_connected :: bool
  wc_url :: string
  wc_buffered :: "uint8 list"
  wc_peer_closed :: bool
  wc_max_message_bytes :: nat
  wc_chunks :: "uint8 list list"
  wc_end :: stream_end
  wc_sent :: "uint8 list"
  wc_sends :: nat
  wc_send_outcome :: "nat \<Rightarrow> exn option"
  wc_randoms :: nat

record ws_env =
  wv_random :: "nat \<Rightarrow> nat \<Rightarrow> uint8 list res"
  wv_sha1 :: "string \<Rightarrow> uint8 list res"
  wv_parse_url :: "string \<Rightarrow> (string \<times> string \<times> string \<times> string) option"
  wv_connect :: "string \<Rightarrow> (uint8 list list \<times> stream_end \<times> (nat \<Rightarrow> exn option)) res"

definition random_bytes :: "ws_env \<Rightarrow> nat \<Rightarrow> (ws_client, uint8 list) oper" where
  "random_bytes V len c = (wv_random V (wc_randoms c) len, c\<lparr>wc_randoms := Suc (wc_randoms c)\<rparr>)"

definition client_send_all :: "uint8 list \<Rightarrow> (ws_client, unit) oper" where
  "client_send_all bytes c = (case wc_send_outcome c (wc_sends c) of
     Some e \<Rightarrow> (Inl e, c\<lparr>wc_sends := Suc (wc_sends c)\<rparr>)
   | None \<Rightarrow> (Inr (), c\<lparr>wc_sends := Suc (wc_sends c), wc_sent := wc_sent c @ bytes\<rparr>))"

definition client_send_frame :: "ws_env \<Rightarrow> uint8 \<Rightarrow> uint8 list \<Rightarrow> (ws_client, unit) oper" where
  "client_send_frame V opcode payload =
     bindS (random_bytes V 4) (\<lambda>key. client_send_all (client_frame key opcode payload))"

definition read_more :: "(ws_client, bool) oper" where
  "read_more c = (case wc_chunks c of
     chunk # chunks \<Rightarrow> (if chunk = [] then (Inr False, c\<lparr>wc_peer_closed := True, wc_chunks := chunks\<rparr>)
       else (Inr True, c\<lparr>wc_buffered := wc_buffered c @ chunk, wc_chunks := chunks\<rparr>))
   | [] \<Rightarrow> (case wc_end c of
       Idle \<Rightarrow> (Inr False, c)
     | Eof \<Rightarrow> (Inr False, c\<lparr>wc_peer_closed := True\<rparr>)
     | Broken e \<Rightarrow> (Inl e, c)))"

lemma read_more_chunks: "read_more c = (Inr True, d) \<Longrightarrow> length (wc_chunks d) < length (wc_chunks c)"
  by (auto simp: read_more_def split: list.splits if_splits stream_end.splits)

function ensure_bytes :: "nat \<Rightarrow> ws_client \<Rightarrow> bool res \<times> ws_client" where
  "ensure_bytes len c =
     (if len \<le> length (wc_buffered c) then (Inr True, c)
      else case read_more c of
        (Inl e, d) \<Rightarrow> (Inl e, d)
      | (Inr got, d) \<Rightarrow> if got then ensure_bytes len d else (Inr False, d))"
  by pat_completeness auto
termination
  by (relation "measure (\<lambda>(len, c). length (wc_chunks c))") (auto intro: read_more_chunks[OF sym])

declare ensure_bytes.simps [simp del]

text \<open>\<open>close\<close> announces the end of the connection with the status code 1000 and ignores a failing send.\<close>

definition client_close :: "ws_env \<Rightarrow> (ws_client, unit) oper" where
  "client_close V = bindS (getS wc_connected) (\<lambda>connected.
     thenS (whenS connected (tryS (client_send_frame V 0x8 [0x03, 0xe8]) (\<lambda>_. returnS ())))
       (modifyS (\<lambda>c. c\<lparr>wc_connected := False, wc_buffered := [], wc_peer_closed := False, wc_url := []\<rparr>)))"

definition client_send_json :: "'j json_ops \<Rightarrow> ws_env \<Rightarrow> 'j \<Rightarrow> int \<Rightarrow> (ws_client, unit) oper" where
  "client_send_json J V value timeout = bindS (getS wc_connected) (\<lambda>connected.
     thenS (liftS (checks [
       throw_if (\<not> connected) (RuntimeError ''websocket is not connected''),
       throw_if (timeout \<le> 0) (InvalidArgument ''websocket send timeout must be positive''),
       throw_if (\<not> js_is_object J value) (InvalidArgument ''websocket JSON message must be an object'')]))
     (bindS (liftS (js_dump J value)) (\<lambda>text. client_send_frame V 0x1 (bytes_of text))))"

definition client_ensure :: "nat \<Rightarrow> (ws_client, 'a) oper \<Rightarrow> (ws_client, 'a) oper" where
  "client_ensure len k = bindS (ensure_bytes len) (\<lambda>enough.
     if enough then k else throwS (RuntimeError ''incomplete websocket frame''))"

definition client_frame_length ::
  "uint8 \<Rightarrow> (nat \<Rightarrow> nat \<Rightarrow> (ws_client, 'a) oper) \<Rightarrow> (ws_client, 'a) oper" where
  "client_frame_length second k =
     (let len = unat (second AND 0x7f) in
      if len = 126 then client_ensure 4 (bindS (getS (\<lambda>c. big_endian (take 2 (drop 2 (wc_buffered c))) 0)) (\<lambda>extended.
        if extended < 126 then throwS (RuntimeError ''websocket frame length is not minimally encoded'')
        else k extended 4))
      else if len = 127 then client_ensure 10 (bindS (getS wc_buffered) (\<lambda>buffered.
        let extended = big_endian (take 8 (drop 2 buffered)) 0 in
        if buffered ! 2 AND 0x80 \<noteq> 0 then throwS (RuntimeError ''invalid websocket frame length'')
        else if extended \<le> 0xffff then throwS (RuntimeError ''websocket frame length is not minimally encoded'')
        else k extended 10))
      else k len 2)"

definition client_accept_frame :: "'j json_ops \<Rightarrow> ws_env \<Rightarrow> bool \<Rightarrow> uint8 \<Rightarrow> uint8 list \<Rightarrow> (ws_client, 'j receive option) oper" where
  "client_accept_frame J V final opcode payload =
     (if opcode = 0x8 then thenS (tryS (liftS (validate_websocket_close_payload payload)) (\<lambda>e. throwS (RuntimeError (what e))))
        (thenS (client_close V) (returnS (Some ClosedByPeer)))
      else if opcode = 0x9 then thenS (client_send_frame V 0xa payload) (returnS None)
      else if opcode = 0xa then returnS None
      else if \<not> final then throwS (RuntimeError ''fragmented websocket messages are not supported'')
      else if opcode \<noteq> 0x1 then throwS (RuntimeError ''only text websocket frames are supported'')
      else liftS (case js_parse J (text_of payload) of
          Inl (JsonError m) \<Rightarrow> Inl (RuntimeError (''invalid websocket JSON: '' @ m))
        | Inl e \<Rightarrow> Inl e
        | Inr value \<Rightarrow> if js_is_object J value then Inr (Some (Message value))
            else Inl (RuntimeError ''websocket message must be a JSON object'')))"

definition client_read_frame :: "'j json_ops \<Rightarrow> ws_env \<Rightarrow> (ws_client, 'j receive option) oper" where
  "client_read_frame J V = bindS (getS wc_buffered) (\<lambda>buffered.
     let first = buffered ! 0; second = buffered ! 1; final = (first AND 0x80 \<noteq> 0); opcode = first AND 0x0f in
     thenS (liftS (checks [
       throw_if (first AND 0x70 \<noteq> 0) (RuntimeError ''websocket server used unsupported reserved bits''),
       throw_if (second AND 0x80 \<noteq> 0) (RuntimeError ''websocket server frame must not be masked''),
       throw_if (\<not> supported_websocket_opcode opcode) (RuntimeError ''websocket server used an unsupported opcode'')]))
     (client_frame_length second (\<lambda>len header_size. bindS (getS wc_max_message_bytes) (\<lambda>max_message_bytes.
       thenS (liftS (checks [
         throw_if (control_opcode opcode \<and> (\<not> final \<or> 125 < len)) (RuntimeError ''invalid websocket control frame''),
         throw_if (max_message_bytes < len) (RuntimeError ''websocket message too large''),
         throw_if (2 ^ 64 - 1 - header_size < len) (RuntimeError ''websocket frame length is unsupported'')]))
       (client_ensure (header_size + len) (bindS (getS wc_buffered) (\<lambda>frame.
         thenS (modifyS (\<lambda>c. c\<lparr>wc_buffered := drop (header_size + len) frame\<rparr>))
           (client_accept_frame J V final opcode (take len (drop header_size frame)))))))))) "

definition client_receive_step :: "'j json_ops \<Rightarrow> ws_env \<Rightarrow> (ws_client, 'j receive option) oper" where
  "client_receive_step J V = bindS (ensure_bytes 2) (\<lambda>enough.
     if enough then client_read_frame J V
     else bindS (getS wc_peer_closed) (\<lambda>peer_closed.
       if peer_closed then thenS (client_close V) (returnS (Some ClosedByPeer)) else returnS (Some Timeout)))"

text \<open>Reading keeps the bytes still to come in their order; a pass that continues has consumed a frame.\<close>

definition unread :: "ws_client \<Rightarrow> uint8 list" where
  "unread c = wc_buffered c @ concat (wc_chunks c)"

lemma read_more_unread: "unread (snd (read_more c)) = unread c"
  by (auto simp: read_more_def unread_def split: list.splits stream_end.splits)

lemma ensure_bytes_unread: "unread (snd (ensure_bytes len c)) = unread c"
proof (induction len c rule: ensure_bytes.induct)
  case (1 len c)
  then show ?case using read_more_unread[of c]
    by (subst ensure_bytes.simps) (auto split: prod.splits sum.splits)
qed

lemma ensure_bytes_enough: "ensure_bytes len c = (Inr True, d) \<Longrightarrow> len \<le> length (wc_buffered d)"
proof (induction len c rule: ensure_bytes.induct)
  case (1 len c)
  then show ?case by (subst (asm) (2) ensure_bytes.simps) (auto split: prod.splits sum.splits if_splits)
qed

lemma wp_ensure_bytes:
  assumes "\<And>d. unread d = unread c \<Longrightarrow> len \<le> length (wc_buffered d) \<Longrightarrow> Q True d"
    and "\<And>d. unread d = unread c \<Longrightarrow> Q False d"
    and "\<And>e d. unread d = unread c \<Longrightarrow> X e d"
  shows "wp (ensure_bytes len) Q X c"
  using assms ensure_bytes_unread[of len c] ensure_bytes_enough[of len c]
  by (auto simp: wp_def split: prod.splits sum.splits) (metis (full_types) snd_conv)

definition consumed :: "nat \<Rightarrow> 'j receive option \<Rightarrow> ws_client \<Rightarrow> bool" where
  "consumed n r d \<longleftrightarrow> (r = None \<or> (\<exists>v. r = Some (Message v)) \<longrightarrow> length (unread d) < n)"

lemma wp_client_send_frame:
  assumes "\<And>d. unread d = unread c \<Longrightarrow> Q () d" "\<And>e d. unread d = unread c \<Longrightarrow> X e d"
  shows "wp (client_send_frame V opcode payload) Q X c"
  using assms by (auto simp: client_send_frame_def wp_def bindS_def random_bytes_def client_send_all_def unread_def
      split: sum.splits option.splits prod.splits)

lemma client_accept_frame_consumed:
  assumes "length (unread c) < n"
  shows "wp (client_accept_frame J V final opcode payload) (consumed n) (\<lambda>_ _. True) c"
  using assms by (auto simp: client_accept_frame_def wp_simps consumed_def client_close_def
      intro!: wp_client_send_frame split: sum.splits exn.splits)

lemma client_ensure_wp:
  assumes "\<And>d. unread d = unread c \<Longrightarrow> len \<le> length (wc_buffered d) \<Longrightarrow> wp k Q (\<lambda>_ _. True) d"
  shows "wp (client_ensure len k) Q (\<lambda>_ _. True) c"
  unfolding client_ensure_def wp_simps by (rule wp_ensure_bytes) (auto simp: assms wp_simps)

lemma client_frame_length_consumed:
  assumes "\<And>len h d. 2 \<le> h \<Longrightarrow> unread d = unread c \<Longrightarrow> wp (k len h) (consumed n) (\<lambda>_ _. True) d"
  shows "wp (client_frame_length second k) (consumed n) (\<lambda>_ _. True) c"
  using assms by (auto simp: client_frame_length_def Let_def wp_simps intro!: client_ensure_wp)

lemma client_read_frame_consumed: "wp (client_read_frame J V) (consumed (length (unread c))) (\<lambda>_ _. True) c"
proof -
  have "wp (client_accept_frame J V f oc p) (consumed (length (unread c))) (\<lambda>_ _. True) (d\<lparr>wc_buffered := drop (h + len) (wc_buffered d)\<rparr>)"
    if "2 \<le> h" "unread d = unread c" "h + len \<le> length (wc_buffered d)" for f oc p h len d
  proof (rule client_accept_frame_consumed)
    show "length (unread (d\<lparr>wc_buffered := drop (h + len) (wc_buffered d)\<rparr>)) < length (unread c)"
      using that unfolding that(2)[symmetric] by (simp add: unread_def)
  qed
  then show ?thesis unfolding client_read_frame_def Let_def
    by (auto simp: wp_simps intro!: client_frame_length_consumed client_ensure_wp split: sum.splits)
qed

lemma client_read_frame_from:
  "unread d = unread c \<Longrightarrow> wp (client_read_frame J V) (consumed (length (unread c))) (\<lambda>_ _. True) d"
  by (metis client_read_frame_consumed)

lemma client_receive_step_consumed: "wp (client_receive_step J V) (consumed (length (unread c))) (\<lambda>_ _. True) c"
  unfolding client_receive_step_def wp_simps
  by (rule wp_ensure_bytes)
    (auto simp: wp_simps consumed_def client_close_def intro!: wp_client_send_frame client_read_frame_from)

lemma client_receive_continues: "client_receive_step J V c = (Inr None, d) \<Longrightarrow> length (unread d) < length (unread c)"
  using client_receive_step_consumed[of J V c] by (simp add: wp_def consumed_def)

function client_receive_loop :: "'j json_ops \<Rightarrow> ws_env \<Rightarrow> ws_client \<Rightarrow> 'j receive res \<times> ws_client" where
  "client_receive_loop J V c = (case client_receive_step J V c of
     (Inl e, d) \<Rightarrow> (Inl e, d)
   | (Inr (Some r), d) \<Rightarrow> (Inr r, d)
   | (Inr None, d) \<Rightarrow> client_receive_loop J V d)"
  by pat_completeness auto
termination
  by (relation "measure (\<lambda>(J, V, c). length (unread c))") (auto intro: client_receive_continues[OF sym])

declare client_receive_loop.simps [simp del]

definition client_receive_json :: "'j json_ops \<Rightarrow> ws_env \<Rightarrow> ws_client \<Rightarrow> 'j receive res \<times> ws_client" where
  "client_receive_json J V c =
     (if wc_connected c then client_receive_loop J V c else (Inl (RuntimeError ''websocket is not connected''), c))"

lemma client_receive_message: "client_receive_json J V c = (Inr (Message v), d) \<Longrightarrow> length (unread d) < length (unread c)"
proof -
  have "client_receive_loop J V c = (Inr (Message v), d) \<Longrightarrow> length (unread d) < length (unread c)"
  proof (induction J V c rule: client_receive_loop.induct)
    case (1 J V c)
    then show ?case
      using client_receive_step_consumed[of J V c] client_receive_continues[of J V c]
      by (subst (asm) (2) client_receive_loop.simps)
        (fastforce simp: wp_def consumed_def split: prod.splits sum.splits option.splits)
  qed
  then show "client_receive_json J V c = (Inr (Message v), d) \<Longrightarrow> ?thesis"
    by (simp add: client_receive_json_def split: if_splits)
qed

subsection \<open>The handshake\<close>

definition websocket_accept_key :: "ws_env \<Rightarrow> string \<Rightarrow> string res" where
  "websocket_accept_key V client_key =
     (if (case base64_decode client_key of Inl e \<Rightarrow> False | Inr decoded \<Rightarrow> length decoded = 16) then
        bindE (wv_sha1 V (client_key @ ''258EAFA5-E914-47DA-95CA-C5AB0DC85B11'')) (\<lambda>digest. Inr (base64_encode digest))
      else Inl (InvalidArgument ''Sec-WebSocket-Key must be a base64-encoded 16-byte value''))"

definition ends_with :: "string \<Rightarrow> string \<Rightarrow> bool" where
  "ends_with value suffix \<longleftrightarrow> starts_with (rev value) (rev suffix)"

definition replace_prefix :: "string \<Rightarrow> string \<Rightarrow> string \<Rightarrow> string" where
  "replace_prefix prefix by value = (if starts_with value prefix then by @ drop (length prefix) value else value)"

definition signaling_websocket_url :: "string \<Rightarrow> string \<Rightarrow> string \<Rightarrow> string \<Rightarrow> string res" where
  "signaling_websocket_url signaling_url sid participant connection_generation =
     (if sid = [] \<or> participant = [] then Inl (InvalidArgument ''websocket signaling identity is required'')
      else let origin = replace_prefix ''https://'' ''wss://'' (replace_prefix ''http://'' ''ws://'' signaling_url) in
        if \<not> starts_with origin ''ws://'' \<and> \<not> starts_with origin ''wss://'' then
          Inl (InvalidArgument ''websocket signaling URL must use ws, wss, http, or https'')
        else let origin = (if ends_with origin ''/signaling'' then take (length origin - length ''/signaling'') origin else origin);
            origin = rev (dropWhile (\<lambda>c. c = CHR ''/'') (rev origin))
          in Inr (origin @ ''/signaling/'' @ url_encode sid @ ''/ws?participant='' @ url_encode participant @
            (if connection_generation = [] then [] else ''&connection_generation='' @ url_encode connection_generation)))"

text \<open>The target of a signaling URL, decoded as the server does.\<close>

lemma signaling_target:
  assumes "signaling_websocket_url base sid who gen = Inr url"
  obtains origin target where
    "url = origin @ target" "take 11 target = ''/signaling/''"
    "decode_target target = Inr (''/signaling/'' @ sid @ ''/ws'', (''participant'', who) #
       (if gen = [] then [] else [(''connection_generation'', gen)]))"
    "sid \<noteq> []"
proof -
  define query where "query = ''participant='' @ url_encode who @
    (if gen = [] then [] else ''&connection_generation='' @ url_encode gen)"
  define path where "path = ''/signaling/'' @ sid @ ''/ws''"
  define target where "target = (''/signaling/'' @ url_encode sid @ ''/ws'') @ CHR ''?'' # query"
  obtain origin where url: "url = origin @ target" and ids: "sid \<noteq> []"
    using assms by (auto simp: signaling_websocket_url_def Let_def target_def query_def split: if_splits)
  have q: "find_text ''?'' target = Some (length (''/signaling/'' @ url_encode sid @ ''/ws''))"
    unfolding target_def by (rule find_text_char) simp
  have p: "url_decode (''/signaling/'' @ url_encode sid @ ''/ws'') = Inr path"
    by (simp add: url_decode_encode path_def)
  have items: "split_on CHR ''&'' query = (''participant'' @ CHR ''='' # url_encode who) #
      (if gen = [] then [] else [''connection_generation'' @ CHR ''='' # url_encode gen])"
    using split_on_append[of "CHR ''&''" "''participant='' @ url_encode who" "''connection_generation='' @ url_encode gen"]
    by (simp add: query_def split_on_plain)
  have "parse_query (split_on CHR ''&'' query) [] = Inr ((''participant'', who) #
      (if gen = [] then [] else [(''connection_generation'', gen)]))"
    by (simp add: items url_round_trip)
  then have d: "decode_target target = Inr (path, (''participant'', who) #
      (if gen = [] then [] else [(''connection_generation'', gen)]))"
    using p by (simp add: decode_target_def q) (simp add: target_def)
  show thesis by (rule that[OF url _ d[unfolded path_def] ids]) (simp add: target_def)
qed

lemma path_parts_websocket:
  assumes "sid \<noteq> []" "CHR ''/'' \<notin> set sid"
  shows "path_parts (''/signaling/'' @ sid @ ''/ws'') = bindE (url_decode sid) (\<lambda>d. Inr [''signaling'', d, ''ws''])"
  using path_parts_part[of "''signaling''" "sid @ CHR ''/'' # ''ws''"] path_parts_part[OF assms, of "''ws''"]
    path_parts_last[of "''ws''"] by (cases "url_decode sid") (simp_all add: path_parts_slash)

lemma find_text_bound: "find_text pattern cs = Some i \<Longrightarrow> pattern \<noteq> [] \<Longrightarrow> i < length cs"
  by (induction cs arbitrary: i) (auto split: if_splits)

function response_headers :: "string \<Rightarrow> (string \<times> string) list \<Rightarrow> (string \<times> string) list" where
  "response_headers rest headers = (case find_text crlf rest of
     None \<Rightarrow> headers
   | Some e \<Rightarrow> if e = 0 then headers
       else let line = take e rest in response_headers (drop (e + 2) rest)
         (case find_text '':'' line of
            None \<Rightarrow> headers
          | Some i \<Rightarrow> AList.update (lower (trim (take i line))) (trim (drop (i + 1) line)) headers))"
  by pat_completeness auto
termination
  by (relation "measure (\<lambda>(rest, headers). length rest)") (auto dest!: find_text_bound simp: crlf_def)

declare response_headers.simps [simp del]

definition parse_http_headers :: "string \<Rightarrow> (string \<times> string) list" where
  "parse_http_headers response = (case find_text crlf response of
     None \<Rightarrow> [] | Some first_end \<Rightarrow> response_headers (drop (first_end + 2) response) [])"

definition reserved_headers :: "string list" where
  "reserved_headers = [''host'', ''upgrade'', ''connection'', ''sec-websocket-key'', ''sec-websocket-version'', ''user-agent'']"

definition has_any :: "string \<Rightarrow> string \<Rightarrow> bool" where
  "has_any chars text \<longleftrightarrow> list_ex (\<lambda>c. c \<in> set chars) text"

fun request_headers_text :: "(string \<times> string) list \<Rightarrow> string list \<Rightarrow> string option" where
  "request_headers_text [] names = Some []"
| "request_headers_text ((name, value) # rest) names =
     (if name = [] \<or> has_any ('':'' @ crlf) name \<or> has_any crlf value \<or> lower name \<in> set reserved_headers \<or> lower name \<in> set names then None
      else map_option (\<lambda>more_text. name @ '': '' @ value @ crlf @ more_text) (request_headers_text rest (lower name # names)))"

definition upgrade_request :: "string \<Rightarrow> string \<Rightarrow> string \<Rightarrow> string \<Rightarrow> string" where
  "upgrade_request target authority key headers =
     ''GET '' @ target @ '' HTTP/1.1'' @ crlf @ ''Host: '' @ authority @ crlf @ ''Upgrade: websocket'' @ crlf @
     ''Connection: Upgrade'' @ crlf @ ''Sec-WebSocket-Key: '' @ key @ crlf @ ''Sec-WebSocket-Version: 13'' @ crlf @
     ''User-Agent: mine-teleop-websocket/0.2'' @ crlf @ headers @ crlf"

definition upgrade_offered :: "(string \<times> string) list \<Rightarrow> string option" where
  "upgrade_offered headers =
     (case (map_of headers ''upgrade'', map_of headers ''connection'', map_of headers ''sec-websocket-accept'') of
       (Some upgrade, Some connection, Some accept) \<Rightarrow>
         if lower upgrade = ''websocket'' \<and> find_text ''upgrade'' (lower connection) \<noteq> None then Some accept else None
     | _ \<Rightarrow> None)"

text \<open>\<open>close_and\<close>: the failures of the handshake after which the connection is closed.\<close>

definition close_and :: "ws_env \<Rightarrow> exn \<Rightarrow> (ws_client, 'a) oper" where
  "close_and V e = thenS (client_close V) (throwS e)"

function receive_handshake :: "ws_env \<Rightarrow> ws_client \<Rightarrow> unit res \<times> ws_client" where
  "receive_handshake V c =
     (if find_text header_separator (text_of (wc_buffered c)) \<noteq> None then (Inr (), c)
      else if 64 * 1024 < length (wc_buffered c) then close_and V (RuntimeError ''websocket handshake headers are too large'') c
      else case read_more c of
        (Inl e, d) \<Rightarrow> (Inl e, d)
      | (Inr got, d) \<Rightarrow> if got then receive_handshake V d else close_and V (RuntimeError ''websocket handshake timed out'') d)"
  by pat_completeness auto
termination
  by (relation "measure (\<lambda>(V, c). length (wc_chunks c))") (auto intro: read_more_chunks[OF sym])

declare receive_handshake.simps [simp del]

definition client_upgrade :: "ws_env \<Rightarrow> string \<Rightarrow> string \<Rightarrow> (string \<times> string) list \<Rightarrow> (ws_client, unit) oper" where
  "client_upgrade V target authority headers =
     bindS (random_bytes V 16) (\<lambda>nonce. let key = base64_encode nonce in
     case request_headers_text headers [] of
       None \<Rightarrow> close_and V (InvalidArgument ''websocket header is invalid or reserved'')
     | Some header_text \<Rightarrow>
       thenS (client_send_all (bytes_of (upgrade_request target authority key header_text)))
       (thenS (receive_handshake V)
       (bindS (getS wc_buffered) (\<lambda>buffered.
        let e = the (find_text header_separator (text_of buffered)) + 4; response = text_of (take e buffered);
            line_end = the (find_text crlf response) in
        thenS (modifyS (\<lambda>c. c\<lparr>wc_buffered := drop e buffered\<rparr>))
        (if find_text '' 101 '' (take line_end response) = None then
           close_and V (RuntimeError (''websocket upgrade failed: '' @ take line_end response))
         else case upgrade_offered (parse_http_headers response) of
             None \<Rightarrow> close_and V (RuntimeError ''websocket upgrade response is invalid'')
           | Some accept \<Rightarrow> bindS (liftS (websocket_accept_key V key)) (\<lambda>accept_key.
               if accept = accept_key then returnS ()
               else close_and V (RuntimeError ''websocket upgrade response is invalid'')))))))"

definition client_connect :: "ws_env \<Rightarrow> string \<Rightarrow> (string \<times> string) list \<Rightarrow> (ws_client, unit) oper" where
  "client_connect V url headers = thenS (client_close V)
     (if \<not> starts_with url ''ws://'' \<and> \<not> starts_with url ''wss://'' then throwS (InvalidArgument ''websocket URL must use ws or wss'')
      else let transport_url = replace_prefix ''wss://'' ''https://'' (replace_prefix ''ws://'' ''http://'' url) in
        thenS (modifyS (\<lambda>c. c\<lparr>wc_url := url\<rparr>))
        (case wv_parse_url V transport_url of
           None \<Rightarrow> throwS (InvalidArgument ''invalid websocket URL'')
         | Some (host, port, path, query) \<Rightarrow>
           if host = [] then throwS (InvalidArgument ''websocket URL host is required'')
           else let authority_host = (if CHR '':'' \<in> set host then ''['' @ host @ '']'' else host);
               authority = (if port = [] then authority_host else authority_host @ '':'' @ port);
               target = (if path = [] then ''/'' else path) @ (if query = [] then [] else ''?'' @ query) in
             case wv_connect V transport_url of
               Inl e \<Rightarrow> close_and V e
             | Inr (chunks, stream_end, outcome) \<Rightarrow>
               thenS (modifyS (\<lambda>c. c\<lparr>wc_connected := True, wc_buffered := [], wc_peer_closed := False,
                   wc_max_message_bytes := 8 * 1024 * 1024, wc_chunks := chunks, wc_end := stream_end,
                   wc_sent := [], wc_sends := 0, wc_send_outcome := outcome\<rparr>))
                 (client_upgrade V target authority headers)))"

end
