(* ===== verification/Websocket_Frames.thy ===== *)
theory Websocket_Frames
  imports Websocket
begin

unbundle bit_operations_syntax

text \<open>
  Frames across the two ends of a WebSocket: each end reads exactly the payloads that the other
  framed, whatever their length encoding, mask and segmentation, answers pings on the way, and
  leaves the bytes behind the message for the next call; the receive loops end.
\<close>

subsection \<open>Headers\<close>

lemma all_bytes:
  "n < 256 \<Longrightarrow> (byte n AND 0x80 = 0) = (n < 128)"
  "n < 128 \<Longrightarrow> (0x80 OR byte n) AND 0x80 \<noteq> 0 \<and> unat ((0x80 OR byte n) AND 0x7f) = n \<and> unat (byte n AND 0x7f) = n"
proof -
  have "\<forall>n \<in> set [0..<256]. (byte n AND 0x80 = 0) = (n < 128)" by code_simp
  then show "n < 256 \<Longrightarrow> (byte n AND 0x80 = 0) = (n < 128)" by simp
  have "\<forall>n \<in> set [0..<128]. (0x80 OR byte n) AND 0x80 \<noteq> 0 \<and> unat ((0x80 OR byte n) AND 0x7f) = n \<and> unat (byte n AND 0x7f) = n"
    by code_simp
  then show "n < 128 \<Longrightarrow> (0x80 OR byte n) AND 0x80 \<noteq> 0 \<and> unat ((0x80 OR byte n) AND 0x7f) = n \<and> unat (byte n AND 0x7f) = n"
    by simp
qed

lemma unat_byte_mod: "unat (byte n) = n mod 256"
  by (simp add: byte_def unat_of_nat)

lemma big_endian_append: "big_endian (xs @ ys) acc = big_endian ys (big_endian xs acc)"
  by (induction xs arbitrary: acc) auto

lemma big_endian_bytes: "big_endian (map (\<lambda>k. byte (n div 2 ^ (8 * k))) (rev [0..<m])) acc = acc * 2 ^ (8 * m) + n mod 2 ^ (8 * m)"
proof (induction m arbitrary: acc)
  case (Suc m)
  have "n mod 2 ^ (8 * Suc m) = 2 ^ (8 * m) * (n div 2 ^ (8 * m) mod 256) + n mod 2 ^ (8 * m)"
    using mod_mult2_eq[of n "2 ^ (8 * m)" 256] by (simp add: power_add mult.commute)
  moreover have "(2 :: nat) ^ (8 * Suc m) = 256 * 2 ^ (8 * m)" by (simp add: power_add)
  ultimately show ?case using Suc.IH[of "acc * 256 + n div 2 ^ (8 * m) mod 256"]
    by (simp only: upt_Suc rev_append list.map rev.simps append.simps big_endian.simps unat_byte_mod simp_thms if_True le0)
      (simp add: distrib_right del: power_Suc mult_Suc_right)
qed simp

lemma shifts: "[56, 48, 40, 32, 24, 16, 8, 0] = map ((*) (8 :: nat)) (rev [0..<8])"
  by (simp add: upt_rec)

lemma frame_header_eight: "map (\<lambda>shift. byte (n div 2 ^ shift)) [56, 48, 40, 32, 24, 16, 8, 0] = map (\<lambda>k. byte (n div 2 ^ (8 * k))) (rev [0..<8])"
  unfolding shifts by simp

lemma big_endian_eight: "n < 2 ^ 64 \<Longrightarrow> big_endian (map (\<lambda>shift. byte (n div 2 ^ shift)) [56, 48, 40, 32, 24, 16, 8, 0]) 0 = n"
  unfolding frame_header_eight big_endian_bytes by simp

lemma big_endian_two: "n \<le> 0xffff \<Longrightarrow> big_endian [byte (n div 2 ^ 8), byte n] 0 = n"
  by (simp add: unat_byte_mod)

lemma opcode_facts:
  assumes "supported_websocket_opcode opcode"
  shows "(0x80 OR (opcode AND 0x0f)) AND 0x80 \<noteq> 0" "(0x80 OR (opcode AND 0x0f)) AND 0x0f = opcode" "(0x80 OR (opcode AND 0x0f)) AND 0x70 = 0"
  using assms by (auto simp: supported_websocket_opcode_def)

lemma length_apply_mask [simp]: "length (apply_mask key payload) = length payload"
  by (simp add: apply_mask_def)

lemma apply_mask_twice [simp]: "apply_mask key (apply_mask key payload) = payload"
  by (rule nth_equalityI) (simp_all add: apply_mask_def xor.assoc)

subsection \<open>The server reads the frames of the client\<close>

lemma received_append:
  assumes "length bs = len"
  shows "received len k (s\<lparr>ws_bytes := bs @ rest\<rparr>) = k bs (s\<lparr>ws_bytes := rest\<rparr>)"
  using assms by (simp add: received_def bindS_def socket_receive_exact_def)


lemma wp_eq_step: "(\<And>Q X. wp m Q X s = wp m' Q X s') \<Longrightarrow> m s = m' s'"
proof -
  assume "\<And>Q X. wp m Q X s = wp m' Q X s'"
  from this[of "\<lambda>a t. m s = (Inr a, t)" "\<lambda>e t. m s = (Inl e, t)"]
  have "wp m' (\<lambda>a t. m s = (Inr a, t)) (\<lambda>e t. m s = (Inl e, t)) s'" by (simp add: wp_def split: prod.splits sum.splits)
  then show ?thesis by (auto simp: wp_def split: prod.splits sum.splits)
qed

lemma server_frame_length_header:
  assumes "n < 2 ^ 63"
  shows "\<exists>second extended. frame_header 0x80 opcode n = (0x80 OR (opcode AND 0x0f)) # second # extended \<and>
    second AND 0x80 \<noteq> 0 \<and>
    (\<forall>(k :: nat \<Rightarrow> (websocket, 'j receive option) oper) rest s. server_frame_length second k (s\<lparr>ws_bytes := extended @ rest\<rparr>) = k n (s\<lparr>ws_bytes := rest\<rparr>))"
proof (cases "n < 126")
  case True
  then show ?thesis using all_bytes(2)[of n]
    by (intro exI[of _ "0x80 OR byte n"] exI[of _ "[]"]) (simp add: frame_header_def server_frame_length_def)
next
  case False
  note n = False
  show ?thesis
  proof (cases "n \<le> 0xffff")
    case True
    have "server_frame_length (0x80 OR 126) k (s\<lparr>ws_bytes := [byte (n div 2 ^ 8), byte n] @ rest\<rparr>) = k n (s\<lparr>ws_bytes := rest\<rparr>)" for k :: "nat \<Rightarrow> (websocket, 'j receive option) oper" and s rest
      unfolding server_frame_length_def Let_def using n big_endian_two[OF True] by (simp add: received_append del: append_Cons big_endian.simps)
    then show ?thesis using n True
      by (intro exI[of _ "0x80 OR 126"] exI[of _ "[byte (n div 2 ^ 8), byte n]"]) (simp add: frame_header_def)
  next
    case False
    let ?e = "map (\<lambda>shift. byte (n div 2 ^ shift)) [56, 48, 40, 32, 24, 16, 8, 0]"
    have e: "big_endian ?e 0 = n" using assms by (intro big_endian_eight) simp
    have "?e ! 0 AND 0x80 = 0" using all_bytes(1)[of "n div 2 ^ 56"] assms by simp
    then have "server_frame_length (0x80 OR 127) k (s\<lparr>ws_bytes := ?e @ rest\<rparr>) = k n (s\<lparr>ws_bytes := rest\<rparr>)" for k :: "nat \<Rightarrow> (websocket, 'j receive option) oper" and s rest
      unfolding server_frame_length_def Let_def using False e
      by (subst received_append | simp del: append_Cons big_endian.simps list.map nth_Cons_0)+
    then show ?thesis using n False
      by (intro exI[of _ "0x80 OR 127"] exI[of _ ?e]) (simp add: frame_header_def)
  qed
qed


definition frame_ok :: "nat \<Rightarrow> uint8 \<Rightarrow> uint8 list \<Rightarrow> bool" where
  "frame_ok max_message_bytes opcode payload \<longleftrightarrow> supported_websocket_opcode opcode \<and> length payload \<le> max_message_bytes \<and>
     length payload < 2 ^ 63 \<and> (if control_opcode opcode then length payload \<le> 125 else True)"

lemma server_reads_client_frame:
  assumes "frame_ok (ws_max_message_bytes s) opcode payload" "length key = 4"
  shows "server_read_frame J (s\<lparr>ws_bytes := client_frame key opcode payload @ rest\<rparr>) =
    server_accept_frame J True opcode payload (s\<lparr>ws_bytes := rest\<rparr>)"
proof -
  let ?f = "0x80 OR (opcode AND 0x0f)"
  have oc: "supported_websocket_opcode opcode" using assms(1) by (simp add: frame_ok_def)
  obtain second extended where h: "frame_header 0x80 opcode (length payload) = ?f # second # extended" "second AND 0x80 \<noteq> 0"
    "\<And>(k :: nat \<Rightarrow> (websocket, 'a receive option) oper) rest s. server_frame_length second k (s\<lparr>ws_bytes := extended @ rest\<rparr>) =
      k (length payload) (s\<lparr>ws_bytes := rest\<rparr>)"
    using server_frame_length_header[of "length payload" opcode] assms(1) unfolding frame_ok_def by blast
  have c: "client_frame key opcode payload @ rest = [?f, second] @ extended @ key @ apply_mask key payload @ rest"
    by (simp add: client_frame_def h(1))
  have k: "control_opcode opcode \<and> 125 < length payload \<longleftrightarrow> False" "\<not> ws_max_message_bytes s < length payload"
    using assms(1) by (auto simp: frame_ok_def split: if_splits)
  show ?thesis
    unfolding server_read_frame_def c Let_def
    apply (subst received_append, simp)
    apply (simp only: nth_Cons_0 nth_Cons_Suc One_nat_def opcode_facts[OF oc] oc h(2))
    apply (simp add: thenS_def bindS_def liftS_def throw_if_def h(3) getS_def k received_append assms(2))
    done
qed

lemma client_frame_nonempty [simp]: "client_frame key opcode payload \<noteq> []" "server_frame opcode payload \<noteq> []"
  by (simp_all add: client_frame_def server_frame_def frame_header_def)

lemma server_step_client_frame:
  assumes "frame_ok (ws_max_message_bytes s) opcode payload" "length key = 4"
  shows "server_receive_step J (s\<lparr>ws_bytes := client_frame key opcode payload @ rest\<rparr>) =
    server_accept_frame J True opcode payload (s\<lparr>ws_bytes := rest\<rparr>)"
  using server_reads_client_frame[OF assms] by (simp add: server_receive_step_def bindS_def getS_def)

definition client_pings :: "(uint8 list \<times> uint8 list) list \<Rightarrow> uint8 list" where
  "client_pings pings = concat (map (\<lambda>(key, payload). client_frame key 0x9 payload) pings)"

definition server_pongs :: "(uint8 list \<times> uint8 list) list \<Rightarrow> uint8 list" where
  "server_pongs pings = concat (map (\<lambda>(key, payload). server_frame 0xa payload) pings)"

lemma server_answers_pings:
  assumes "list_all (\<lambda>(key, payload). length key = 4 \<and> frame_ok (ws_max_message_bytes s) 0x9 payload) pings" "ws_send_outcome s = (\<lambda>_. None)"
  shows "server_receive_json J (s\<lparr>ws_bytes := client_pings pings @ rest\<rparr>) =
    server_receive_json J (s\<lparr>ws_sends := ws_sends s + length pings, ws_sent := ws_sent s @ server_pongs pings, ws_bytes := rest\<rparr>)"
  using assms
proof (induction pings arbitrary: s)
  case Nil
  then show ?case by (simp add: client_pings_def server_pongs_def)
next
  case (Cons ping pings)
  obtain key payload where ping: "ping = (key, payload)" by (cases ping)
  let ?t = "s\<lparr>ws_sends := Suc (ws_sends s), ws_sent := ws_sent s @ server_frame 0xa payload\<rparr>"
  have "server_receive_step J (s\<lparr>ws_bytes := client_pings (ping # pings) @ rest\<rparr>) = (Inr None, ?t\<lparr>ws_bytes := client_pings pings @ rest\<rparr>)"
    using server_step_client_frame[of s "0x9" payload key J "client_pings pings @ rest"] Cons.prems
    by (simp add: ping client_pings_def server_accept_frame_def server_send_frame_def socket_send_all_def thenS_def bindS_def returnS_def)
  then show ?case using Cons.IH[of ?t] Cons.prems
    by (subst server_receive_json.simps) (simp add: ping server_pongs_def)
qed

text \<open>
  C33. Whatever pings come first and whatever masks it draws, a JSON object that the client frames and
  masks is the message that the server's \<open>receive_json\<close> returns; the pings are answered with their own
  payloads, in order, and the bytes after the message stay for the next call.
\<close>

theorem client_message_received:
  assumes "list_all (\<lambda>(key, payload). length key = 4 \<and> frame_ok (ws_max_message_bytes s) 0x9 payload) pings"
    and "ws_send_outcome s = (\<lambda>_. None)" and "length key = 4" and "frame_ok (ws_max_message_bytes s) 0x1 (bytes_of body)"
    and "js_parse J body = Inr obj" and "js_is_object J obj"
  shows "server_receive_json J (s\<lparr>ws_bytes := client_pings pings @ client_frame key 0x1 (bytes_of body) @ rest\<rparr>) =
    (Inr (Message obj), s\<lparr>ws_sends := ws_sends s + length pings, ws_sent := ws_sent s @ server_pongs pings, ws_bytes := rest\<rparr>)"
proof -
  let ?s = "s\<lparr>ws_sends := ws_sends s + length pings, ws_sent := ws_sent s @ server_pongs pings\<rparr>"
  have "server_receive_step J (?s\<lparr>ws_bytes := client_frame key 0x1 (bytes_of body) @ rest\<rparr>) = (Inr (Some (Message obj)), ?s\<lparr>ws_bytes := rest\<rparr>)"
    using assms server_step_client_frame[of ?s "0x1" "bytes_of body" key J rest]
    by (simp add: server_accept_frame_def liftS_def rethrow_json_def)
  then show ?thesis unfolding server_answers_pings[OF assms(1,2)]
    by (subst server_receive_json.simps) simp
qed

text \<open>The loop with a bound on its passes: each pass that continues reads a header and a mask.\<close>

fun server_receive_bounded :: "nat \<Rightarrow> 'j json_ops \<Rightarrow> websocket \<Rightarrow> ('j receive res \<times> websocket) option" where
  "server_receive_bounded 0 J s = None"
| "server_receive_bounded (Suc n) J s = (case server_receive_step J s of
     (Inl e, t) \<Rightarrow> Some (Inl e, t)
   | (Inr (Some r), t) \<Rightarrow> Some (Inr r, t)
   | (Inr None, t) \<Rightarrow> server_receive_bounded n J t)"

text \<open>
  C35. \<open>receive_json\<close> returns: on any input it takes at most one pass for every six bytes that the peer
  has sent and one more, so no sequence of control frames can hold it in its loop.
\<close>

theorem server_receive_terminates:
  "server_receive_bounded (Suc (length (ws_bytes s) div 6)) J s = Some (server_receive_json J s)"
proof -
  have "length (ws_bytes s) div 6 < n \<Longrightarrow> server_receive_bounded n J s = Some (server_receive_json J s)" for n
  proof (induction n arbitrary: s)
    case (Suc n)
    have "length (ws_bytes t) div 6 < n" if "server_receive_step J s = (Inr None, t)" for t
      using server_receive_continues[OF that] Suc.prems by linarith
    then show ?case using Suc.IH
      by (subst server_receive_json.simps) (auto split: prod.splits sum.splits option.splits)
  qed simp
  then show ?thesis by blast
qed

subsection \<open>The client reads the frames of the server\<close>

text \<open>\<open>buffers c d\<close>: \<open>d\<close> is \<open>c\<close> after moving whole chunks to the buffer.\<close>

definition buffers :: "ws_client \<Rightarrow> ws_client \<Rightarrow> bool" where
  "buffers c d \<longleftrightarrow> d\<lparr>wc_buffered := [], wc_chunks := []\<rparr> = c\<lparr>wc_buffered := [], wc_chunks := []\<rparr> \<and>
     unread d = unread c \<and> list_all (\<lambda>chunk. chunk \<noteq> []) (wc_chunks d)"

lemma buffers_refl: "list_all (\<lambda>chunk. chunk \<noteq> []) (wc_chunks c) \<Longrightarrow> buffers c c"
  by (simp add: buffers_def)

lemma buffers_trans: "buffers c d \<Longrightarrow> buffers d e \<Longrightarrow> buffers c e"
  by (simp add: buffers_def)

lemma buffers_max: "buffers c d \<Longrightarrow> wc_max_message_bytes d = wc_max_message_bytes c"
  by (cases c; cases d) (simp add: buffers_def)

lemma ensure_bytes_buffers:
  assumes "len \<le> length (unread c)" "list_all (\<lambda>chunk. chunk \<noteq> []) (wc_chunks c)"
  shows "\<exists>d. ensure_bytes len c = (Inr True, d) \<and> buffers c d \<and> len \<le> length (wc_buffered d)"
  using assms
proof (induction len c rule: ensure_bytes.induct)
  case (1 len c)
  show ?case
  proof (cases "len \<le> length (wc_buffered c)")
    case True
    then show ?thesis using buffers_refl[OF "1.prems"(2)] by (subst ensure_bytes.simps) simp
  next
    case False
    then obtain chunk chunks where c: "wc_chunks c = chunk # chunks" using "1.prems"(1) by (cases "wc_chunks c") (auto simp: unread_def)
    let ?d = "c\<lparr>wc_buffered := wc_buffered c @ chunk, wc_chunks := chunks\<rparr>"
    have r: "read_more c = (Inr True, ?d)" using "1.prems"(2) by (simp add: read_more_def c)
    have d: "unread ?d = unread c" by (simp add: unread_def c)
    then have b: "buffers c ?d" using "1.prems"(2) by (auto simp: buffers_def c)
    have "\<exists>e. ensure_bytes len ?d = (Inr True, e) \<and> buffers ?d e \<and> len \<le> length (wc_buffered e)"
      using "1.IH"[OF False] r "1.prems" d by (simp add: c)
    then show ?thesis using False r buffers_trans[OF b] by (subst ensure_bytes.simps) auto
  qed
qed

lemma client_ensure_buffers:
  assumes "buffers c c'" "len \<le> length (unread c)"
  shows "\<exists>d. client_ensure len k c' = k d \<and> buffers c d \<and> len \<le> length (wc_buffered d)"
  using ensure_bytes_buffers[of len c'] assms buffers_trans[of c c']
  by (fastforce simp: buffers_def client_ensure_def bindS_def)

lemma client_frame_length_header:
  assumes "n < 2 ^ 63"
  shows "\<exists>second extended. frame_header 0 opcode n = (0x80 OR (opcode AND 0x0f)) # second # extended \<and>
    second AND 0x80 = 0 \<and>
    (\<forall>(k :: nat \<Rightarrow> nat \<Rightarrow> (ws_client, 'a) oper) first rest c c'. buffers c c' \<and> unread c = first # second # extended @ rest \<longrightarrow>
      (\<exists>d. client_frame_length second k c' = k n (2 + length extended) d \<and> buffers c d))"
proof -
  have len: "\<exists>d. client_ensure m k c' = k d \<and> buffers c d \<and> take (m - 2) (drop 2 (wc_buffered d)) = extended \<and> wc_buffered d ! 2 = hd extended"
    if asm: "buffers c c'" "unread c = first # second # extended @ rest" "m = 2 + length extended" "extended \<noteq> []"
    for m and k :: "(ws_client, 'a) oper" and c c' first second extended rest
  proof -
    obtain d where d: "client_ensure m k c' = k d" "buffers c d" "m \<le> length (wc_buffered d)"
      using client_ensure_buffers[OF asm(1), of m k] asm(2,3) by auto
    then have u: "wc_buffered d @ concat (wc_chunks d) = first # second # extended @ rest" using asm(2) by (simp add: buffers_def unread_def)
    have "take m (wc_buffered d) = first # second # extended"
      using arg_cong[OF u, of "take m"] d(3) asm(3) by simp
    then have "take (m - 2) (drop 2 (wc_buffered d)) = extended" by (metis drop_take drop_Suc_Cons drop0 numeral_2_eq_2)
    moreover have "wc_buffered d ! 2 = hd extended"
    proof -
      have "wc_buffered d ! 2 = take m (wc_buffered d) ! 2" using asm(3,4) by (cases extended) simp_all
      then show ?thesis using \<open>take m (wc_buffered d) = _\<close> asm(4) by (simp add: hd_conv_nth)
    qed
    ultimately show ?thesis using d by blast
  qed
  show ?thesis
  proof (cases "n < 126")
    case True
    then show ?thesis using all_bytes(2)[of n] all_bytes(1)[of n]
      by (intro exI[of _ "byte n"] exI[of _ "[]"]) (auto simp: frame_header_def client_frame_length_def)
  next
    case False
    note n = False
    show ?thesis
    proof (cases "n \<le> 0xffff")
      case True
      let ?e = "[byte (n div 2 ^ 8), byte n]"
      have "\<exists>d. client_frame_length 126 k c' = k n (2 + length ?e) d \<and> buffers c d"
        if asm: "buffers c c'" "unread c = first # 126 # ?e @ rest" for k :: "nat \<Rightarrow> nat \<Rightarrow> (ws_client, 'a) oper" and c c' first rest
      proof -
        let ?k = "bindS (getS (\<lambda>c. big_endian (take 2 (drop 2 (wc_buffered c))) 0)) (\<lambda>extended.
          if extended < 126 then throwS (RuntimeError ''websocket frame length is not minimally encoded'') else k extended 4)"
        obtain d where "client_ensure 4 ?k c' = ?k d" "buffers c d" "take (4 - 2) (drop 2 (wc_buffered d)) = ?e"
          using len[OF asm, of 4 ?k] by auto
        then show ?thesis using big_endian_two[OF True] n
          by (intro exI[of _ d]) (simp add: client_frame_length_def bindS_def getS_def del: big_endian.simps)
      qed
      then show ?thesis using n True
        by (intro exI[of _ "126"] exI[of _ ?e]) (simp add: frame_header_def)
    next
      case False
      let ?e = "map (\<lambda>shift. byte (n div 2 ^ shift)) [56, 48, 40, 32, 24, 16, 8, 0]"
      have e: "big_endian ?e 0 = n" using assms by (intro big_endian_eight) simp
      have "hd ?e AND 0x80 = 0" using all_bytes(1)[of "n div 2 ^ 56"] assms by simp
      then have "\<exists>d. client_frame_length 127 k c' = k n (2 + length ?e) d \<and> buffers c d"
        if asm: "buffers c c'" "unread c = first # 127 # ?e @ rest" for k :: "nat \<Rightarrow> nat \<Rightarrow> (ws_client, 'a) oper" and c c' first rest
      proof -
        let ?k = "bindS (getS wc_buffered) (\<lambda>buffered. let extended = big_endian (take 8 (drop 2 buffered)) 0 in
          if buffered ! 2 AND 0x80 \<noteq> 0 then throwS (RuntimeError ''invalid websocket frame length'')
          else if extended \<le> 0xffff then throwS (RuntimeError ''websocket frame length is not minimally encoded'')
          else k extended 10)"
        obtain d where d: "client_ensure 10 ?k c' = ?k d" "buffers c d" "take (10 - 2) (drop 2 (wc_buffered d)) = ?e" "wc_buffered d ! 2 = hd ?e"
          using len[OF asm, of 10 ?k] by auto
        have "take 8 (drop 2 (wc_buffered d)) = ?e" using d(3) by (simp del: list.map)
        then have "?k d = k n 10 d"
          using d(4) \<open>hd ?e AND 0x80 = 0\<close> False by (simp add: bindS_def getS_def e del: list.map)
        then show ?thesis using d(1,2) by (intro exI[of _ d]) (simp add: client_frame_length_def)
      qed
      then show ?thesis using n False
        by (intro exI[of _ "127"] exI[of _ ?e]) (simp add: frame_header_def)
    qed
  qed
qed

lemma client_reads_server_frame:
  assumes "frame_ok (wc_max_message_bytes c) opcode payload" "unread c = server_frame opcode payload @ rest"
    "2 \<le> length (wc_buffered c)" "list_all (\<lambda>chunk. chunk \<noteq> []) (wc_chunks c)"
  shows "\<exists>d. client_read_frame J V c = client_accept_frame J V True opcode payload d \<and> unread d = rest \<and>
    d\<lparr>wc_buffered := [], wc_chunks := []\<rparr> = c\<lparr>wc_buffered := [], wc_chunks := []\<rparr>"
proof -
  let ?f = "0x80 OR (opcode AND 0x0f)"
  have oc: "supported_websocket_opcode opcode" using assms(1) by (simp add: frame_ok_def)
  obtain second extended where h: "frame_header 0 opcode (length payload) = ?f # second # extended" "second AND 0x80 = 0"
    "\<And>(k :: nat \<Rightarrow> nat \<Rightarrow> (ws_client, 'a receive option) oper) first rest c c'. buffers c c' \<Longrightarrow>
      unread c = first # second # extended @ rest \<Longrightarrow>
      \<exists>d. client_frame_length second k c' = k (length payload) (2 + length extended) d \<and> buffers c d"
    using client_frame_length_header[of "length payload" opcode] assms(1) unfolding frame_ok_def by metis
  have u: "unread c = ?f # second # extended @ payload @ rest" using assms(2) by (simp add: server_frame_def h(1))
  have "take 2 (wc_buffered c) = take 2 (unread c)" using assms(3) by (simp add: unread_def)
  then have b: "wc_buffered c ! 0 = ?f" "wc_buffered c ! 1 = second"
    using u assms(3) by (cases "wc_buffered c"; cases "tl (wc_buffered c)"; simp)+
  have ok: "control_opcode opcode \<and> 125 < length payload \<longleftrightarrow> False" "\<not> wc_max_message_bytes c < length payload" "length payload < 2 ^ 63"
    using assms(1) by (auto simp: frame_ok_def split: if_splits)
  let ?h = "2 + length extended"
  let ?n = "length payload"
  let ?last = "client_ensure (?h + ?n) (bindS (getS wc_buffered) (\<lambda>frame.
    thenS (modifyS (\<lambda>c. c\<lparr>wc_buffered := drop (?h + ?n) frame\<rparr>)) (client_accept_frame J V True opcode (take ?n (drop ?h frame)))))"
  obtain d where d: "client_read_frame J V c = ?last d" "buffers c d"
  proof -
    have hl: "length extended \<le> 8" using arg_cong[OF h(1), of length] by (auto simp: frame_header_def split: if_splits)
    let ?k = "\<lambda>len header_size. bindS (getS wc_max_message_bytes) (\<lambda>max_message_bytes.
       thenS (liftS (checks [
         throw_if (control_opcode opcode \<and> (\<not> True \<or> 125 < len)) (RuntimeError ''invalid websocket control frame''),
         throw_if (max_message_bytes < len) (RuntimeError ''websocket message too large''),
         throw_if (2 ^ 64 - 1 - header_size < len) (RuntimeError ''websocket frame length is unsupported'')]))
       (client_ensure (header_size + len) (bindS (getS wc_buffered) (\<lambda>frame.
         thenS (modifyS (\<lambda>c. c\<lparr>wc_buffered := drop (header_size + len) frame\<rparr>))
           (client_accept_frame J V True opcode (take len (drop header_size frame)))))))"
    obtain d where d: "client_frame_length second ?k c = ?k ?n ?h d" "buffers c d"
      using h(3)[OF buffers_refl[OF assms(4)] u, of ?k] by blast
    have r: "client_read_frame J V c = client_frame_length second ?k c"
      unfolding client_read_frame_def Let_def
      by (simp only: bindS_def getS_def prod.case sum.case b opcode_facts[OF oc] h(2) oc thenS_def liftS_def)
        (simp add: throw_if_def)
    have "wc_max_message_bytes d = wc_max_message_bytes c" using d(2) by (rule buffers_max)
    moreover have "checks [throw_if (control_opcode opcode \<and> (\<not> True \<or> 125 < ?n)) (RuntimeError ''invalid websocket control frame''),
         throw_if (wc_max_message_bytes c < ?n) (RuntimeError ''websocket message too large''),
         throw_if (2 ^ 64 - 1 - ?h < ?n) (RuntimeError ''websocket frame length is unsupported'')] = Inr ()"
      using ok hl by auto
    ultimately have "?k ?n ?h d = ?last d" by (simp only: bindS_def getS_def thenS_def liftS_def prod.case sum.case)
    then show ?thesis by (intro that[OF _ d(2)]) (rule r[THEN trans], rule d(1)[THEN trans])
  qed
  have "?h + ?n \<le> length (unread c)" using u by simp
  then obtain e where e: "?last d = bindS (getS wc_buffered) (\<lambda>frame.
    thenS (modifyS (\<lambda>c. c\<lparr>wc_buffered := drop (?h + ?n) frame\<rparr>)) (client_accept_frame J V True opcode (take ?n (drop ?h frame)))) e"
    "buffers c e" "?h + ?n \<le> length (wc_buffered e)" using client_ensure_buffers[OF d(2)] by blast
  let ?e = "e\<lparr>wc_buffered := drop (?h + ?n) (wc_buffered e)\<rparr>"
  have ue: "wc_buffered e @ concat (wc_chunks e) = ?f # second # extended @ payload @ rest" using e(2) u by (simp add: buffers_def unread_def)
  have t: "take (?h + ?n) (wc_buffered e) = (?f # second # extended) @ payload"
    using arg_cong[OF ue, of "take (?h + ?n)"] e(3) by simp
  have "take ?n (drop ?h (wc_buffered e)) = drop ?h (take (?h + ?n) (wc_buffered e))" by (simp add: drop_take)
  also have "\<dots> = payload" unfolding t by simp
  finally have p: "take ?n (drop ?h (wc_buffered e)) = payload" .
  have r: "unread ?e = rest" using arg_cong[OF ue, of "drop (?h + ?n)"] e(3) by (simp add: unread_def)
  have "client_read_frame J V c = client_accept_frame J V True opcode payload ?e"
    unfolding d(1) e(1) by (simp only: bindS_def getS_def thenS_def modifyS_def p prod.case sum.case)
  then show ?thesis using e(2) r by (intro exI[of _ ?e]) (simp add: buffers_def)
qed

text \<open>
  C34. However TCP cuts the server's bytes into blocks, and whatever part of them an earlier call left in
  its buffer, the client's \<open>receive_json\<close> returns the JSON object that the server framed and keeps
  exactly the bytes behind it.
\<close>

theorem server_message_received:
  assumes "wc_connected c" and "frame_ok (wc_max_message_bytes c) 0x1 (bytes_of body)"
    and "wc_buffered c @ concat (wc_chunks c) = server_frame 0x1 (bytes_of body) @ rest"
    and "list_all (\<lambda>chunk. chunk \<noteq> []) (wc_chunks c)"
    and "js_parse J body = Inr obj" and "js_is_object J obj"
  shows "\<exists>d. client_receive_json J V c = (Inr (Message obj), d) \<and> wc_buffered d @ concat (wc_chunks d) = rest \<and>
    d\<lparr>wc_buffered := [], wc_chunks := []\<rparr> = c\<lparr>wc_buffered := [], wc_chunks := []\<rparr>"
proof -
  have u: "unread c = server_frame 0x1 (bytes_of body) @ rest" using assms(3) by (simp add: unread_def)
  have "2 \<le> length (unread c)" unfolding u by (simp add: server_frame_def frame_header_def)
  then obtain d where d: "ensure_bytes 2 c = (Inr True, d)" "buffers c d" "2 \<le> length (wc_buffered d)"
    using ensure_bytes_buffers[OF _ assms(4), of 2] by blast
  have m: "wc_max_message_bytes d = wc_max_message_bytes c" using d(2) by (rule buffers_max)
  obtain e where e: "client_read_frame J V d = client_accept_frame J V True 0x1 (bytes_of body) e" "unread e = rest"
    "e\<lparr>wc_buffered := [], wc_chunks := []\<rparr> = d\<lparr>wc_buffered := [], wc_chunks := []\<rparr>"
    using client_reads_server_frame[of d "0x1" "bytes_of body" rest J V] assms(2) u d m by (auto simp: buffers_def)
  have "client_receive_step J V c = (Inr (Some (Message obj)), e)"
    using assms(5,6) by (simp add: client_receive_step_def bindS_def d(1) e(1) client_accept_frame_def liftS_def)
  then have "client_receive_json J V c = (Inr (Message obj), e)"
    using assms(1) by (simp add: client_receive_json_def client_receive_loop.simps[of J V c])
  then show ?thesis using e d(2) by (intro exI[of _ e]) (simp add: unread_def buffers_def)
qed

text \<open>A connection and its peer for the witnesses.\<close>

definition example_json :: "json_tree json_ops" where
  "example_json = tree_json (\<lambda>_. Inr (js_object (tree_json (\<lambda>_. Inl (JsonError []))) []))"

definition example_websocket :: websocket where
  "example_websocket = \<lparr>ws_max_message_bytes = 100, ws_bytes = [], ws_end = Idle, ws_sent = [], ws_sends = 0, ws_send_outcome = \<lambda>_. None\<rparr>"

definition example_client :: ws_client where
  "example_client = \<lparr>wc_connected = True, wc_url = [], wc_buffered = [0x81], wc_peer_closed = False, wc_max_message_bytes = 100,
     wc_chunks = [[0x02, 0x7b], [0x7d, 0x89]], wc_end = Idle, wc_sent = [], wc_sends = 0, wc_send_outcome = \<lambda>_. None, wc_randoms = 0\<rparr>"

definition example_env :: ws_env where
  "example_env = \<lparr>wv_random = \<lambda>_ len. Inr (replicate len 0), wv_sha1 = \<lambda>_. Inr (replicate 20 0),
     wv_parse_url = \<lambda>_. None, wv_connect = \<lambda>_. Inl (RuntimeError [])\<rparr>"

theorem client_message_received_witness:
  "server_receive_json example_json (example_websocket\<lparr>ws_bytes :=
     client_pings [([1, 2, 3, 4], [9])] @ client_frame [5, 6, 7, 8] 0x1 (bytes_of ''{}'') @ []\<rparr>) =
   (Inr (Message (js_object example_json [])), example_websocket\<lparr>ws_sends := 1, ws_sent := server_frame 0xa [9]\<rparr>)"
  using client_message_received[where s = example_websocket and pings = "[([1, 2, 3, 4], [9])]" and key = "[5, 6, 7, 8]" and body = "''{}''"
      and J = example_json and obj = "js_object example_json []" and rest = "[]"]
  by (simp add: example_websocket_def example_json_def tree_json_def frame_ok_def supported_websocket_opcode_def server_pongs_def)

theorem server_message_received_witness:
  "\<exists>d. client_receive_json example_json example_env example_client = (Inr (Message (js_object example_json [])), d) \<and>
     wc_buffered d @ concat (wc_chunks d) = [0x89] \<and>
     d\<lparr>wc_buffered := [], wc_chunks := []\<rparr> = example_client\<lparr>wc_buffered := [], wc_chunks := []\<rparr>"
  by (rule server_message_received[where body = "''{}''"])
    (simp_all add: example_client_def example_env_def example_json_def tree_json_def frame_ok_def supported_websocket_opcode_def
      server_frame_def frame_header_def bytes_of_def byte_def)

end
