(* ===== verification/Signaling_Sessions.thy ===== *)
theory Signaling_Sessions
  imports Signaling_State
begin

text \<open>
  Sessions of the signaling service: construction, authentication of drivers and vehicles, the
  state machine of a session, and the expiry of tokens, connections and approvals. The reason of a
  transition only goes to the audit record and is left out with it.
\<close>

subsection \<open>Construction\<close>

definition empty_signaling :: "'j signaling" where
  "empty_signaling = \<lparr>sg_reads = 0, sg_audit_log = [], sg_service_instance_id = [], sg_driver_tokens = [],
     sg_mobile_approvals = [], sg_approver_tokens = [], sg_online_vehicles = [], sg_online_drivers = [],
     sg_revoked_vehicles = [], sg_revoked_drivers = [], sg_sessions = [], sg_messages = [], sg_latest_control = [],
     sg_last_accepted = [], sg_next_cursors = [], sg_login_failures = [], sg_approver_login_last_cleanup_ms = 0,
     sg_trusted_proxy_addresses = [], sg_api_rate_limits = [], sg_api_rate_limit_overflow = empty_rate_state,
     sg_api_rate_limit_last_cleanup_ms = 0, sg_api_rate_limited_requests = 0, sg_session_counter = 0,
     sg_connection_generation = 0\<rparr>"

definition config_checks :: "'j signaling_env \<Rightarrow> unit res" where
  "config_checks E =
     (let c = en_config E; bad = (\<lambda>b m. throw_if b (InvalidArgument m)) in checks
      [bad (cf_mobile_approval_timeout_ms c \<le> 0 \<or> 600000 < cf_mobile_approval_timeout_ms c)
         ''mobile approval timeout must be between 1 and 600000 ms'',
       bad (cf_mobile_approval_vehicles c \<noteq> [] \<and> cf_mobile_app_password c = [])
         ''mobile approval requires a non-empty mobile app password'',
       bad (list_ex (\<lambda>v. map_of (cf_device_tokens c) v = None) (cf_mobile_approval_vehicles c))
         ''unknown mobile approval vehicle'',
       bad (cf_approver_token_ttl_ms c \<le> 0 \<or> 7 * 24 * 60 * 60 * 1000 < cf_approver_token_ttl_ms c)
         ''approver token TTL must be between 1ms and 7 days'',
       bad (cf_token_ttl_ms c \<le> 0) ''driver token TTL must be positive'',
       bad (cf_control_token_ttl_ms c \<le> 0) ''control token TTL must be positive'',
       bad (cf_vehicle_heartbeat_timeout_ms c \<le> 0 \<or> cf_driver_heartbeat_timeout_ms c \<le> 0 \<or>
            cf_connection_reaper_interval_ms c \<le> 0) ''connection heartbeat and reaper intervals must be positive'',
       bad (cf_login_max_failures c \<le> 0 \<or> cf_login_failure_window_ms c \<le> 0 \<or> cf_login_lockout_ms c \<le> 0)
         ''login failure limit, window, and lockout must be positive'',
       bad (cf_api_rate_limit_requests c \<le> 0 \<or> cf_api_rate_limit_window_ms c \<le> 0 \<or> cf_api_rate_limit_max_sources c \<le> 0)
         ''API rate limit, window, and source capacity must be positive'',
       bad (cf_audit_log_max_bytes c < 1024 \<or> cf_audit_log_files c < 1 \<or> 20 < cf_audit_log_files c)
         ''audit log max bytes must be at least 1024 and files must be between 1 and 20'',
       bad (cf_audit_log_rotation_interval_ms c \<le> 0 \<or> 24 * 60 * 60 * 1000 < cf_audit_log_rotation_interval_ms c)
         ''audit log rotation interval must be between 1ms and 24 hours'',
       bad (cf_audit_log_retention_days c < 1 \<or> 365 < cf_audit_log_retention_days c)
         ''audit log retention must be between 1 and 365 days'',
       bad (list_ex (\<lambda>a. canonical_ip_address E a = None) (cf_trusted_proxy_addresses c))
         ''trusted proxy address must be an IP address'',
       bad (cf_turn_credential_ttl_seconds c \<le> 0) ''TURN credential TTL must be positive'',
       bad (cf_max_signaling_payload_bytes c = 0 \<or> cf_max_sdp_bytes c = 0 \<or> cf_max_ice_candidate_bytes c = 0 \<or>
            cf_signaling_message_ttl_ms c \<le> 0 \<or> cf_native_control_message_ttl_ms c \<le> 0 \<or>
            1000 < cf_native_control_message_ttl_ms c) ''signaling limits and message TTL must be positive'',
       bad (cf_stun_urls c = [] \<and> cf_turn_urls c = []) ''at least one STUN or TURN URL is required'',
       bad (list_ex (\<lambda>u. \<not> valid_ice_url u False) (cf_stun_urls c)) ''invalid STUN URL'',
       bad (list_ex (\<lambda>u. \<not> valid_ice_url u True) (cf_turn_urls c)) ''invalid TURN URL'',
       bad (cf_turn_urls c \<noteq> [] \<and> (cf_turn_realm c = [] \<or> cf_turn_static_auth_secret c = []))
         ''TURN URLs require a realm and static auth secret'',
       bad (cf_driver_passwords c = []) ''at least one driver credential is required'',
       bad (cf_device_tokens c = []) ''at least one device credential is required'',
       bad (list_ex (\<lambda>(i, p). i = [] \<or> p = []) (cf_driver_passwords c)) ''driver credentials must not be empty'',
       bad (list_ex (\<lambda>(i, p). i = [] \<or> p = []) (cf_device_tokens c)) ''device credentials must not be empty'',
       (case find (\<lambda>(d, vs). map_of (cf_driver_passwords c) d = None \<or>
            list_ex (\<lambda>v. map_of (cf_device_tokens c) v = None) vs) (cf_driver_vehicle_permissions c) of
          None \<Rightarrow> Inr ()
        | Some (d, vs) \<Rightarrow> Inl (InvalidArgument
            (if map_of (cf_driver_passwords c) d = None then ''vehicle permission references an unknown driver''
             else ''vehicle permission references an unknown vehicle'')))])"

definition signaling_start :: "'j signaling_env \<Rightarrow> ('j, unit) sig" where
  "signaling_start E =
     bindS (random_token E 12) (\<lambda>token.
     thenS (modifyS (\<lambda>s. s\<lparr>sg_service_instance_id := ''service-'' @ token\<rparr>))
    (thenS (liftS (config_checks E))
    (thenS (modifyS (\<lambda>s. s\<lparr>sg_trusted_proxy_addresses :=
        List.map_filter (canonical_ip_address E) (cf_trusted_proxy_addresses (en_config E))\<rparr>))
       (audit E ''signaling_service_started''))))"

subsection \<open>Authentication\<close>

definition require_active_session :: "string \<Rightarrow> ('j, session) sig" where
  "require_active_session sid = bindS (getS (\<lambda>s. map_of (sg_sessions s) sid)) (\<lambda>found. case found of
       None \<Rightarrow> throwS (NotFound ''unknown session'')
     | Some session \<Rightarrow>
         if ss_state session \<noteq> SActive then throwS (Conflict ''session is not active'' ''session_not_active'' [])
         else returnS session)"

definition require_participant :: "string \<Rightarrow> string \<Rightarrow> ('j, session) sig" where
  "require_participant sid participant = bindS (require_active_session sid) (\<lambda>session.
     if participant \<noteq> ss_driver_id session \<and> participant \<noteq> ss_vehicle_id session
     then throwS (Unauthorized ''actor is not current session participant'')
     else returnS session)"

definition validate_driver_token :: "'j signaling_env \<Rightarrow> string \<Rightarrow> string \<Rightarrow> ('j, unit) sig" where
  "validate_driver_token E driver token =
     bindS (getS (\<lambda>s. driver \<in> set (sg_revoked_drivers s))) (\<lambda>revoked.
     if revoked then throwS (Unauthorized ''driver is revoked'')
     else bindS (getS (\<lambda>s. map_of (sg_driver_tokens s) token)) (\<lambda>found. case found of
       None \<Rightarrow> throwS (Unauthorized ''invalid driver token'')
     | Some t \<Rightarrow>
         if token = [] \<or> dt_driver_id t \<noteq> driver then throwS (Unauthorized ''invalid driver token'')
         else bindS (now_ms E) (\<lambda>now.
           if dt_expires_at_ms t \<le> now then throwS (Unauthorized ''driver token expired'')
           else bindS (getS (\<lambda>s. map_of (sg_online_drivers s) driver)) (\<lambda>presence. case presence of
             None \<Rightarrow> throwS (Unauthorized ''driver connection is no longer current'')
           | Some p \<Rightarrow>
               if cp_generation p \<noteq> dt_connection_generation t
               then throwS (Unauthorized ''driver connection is no longer current'')
               else bindS (now_ms E) (\<lambda>seen. modifyS (\<lambda>s. s\<lparr>sg_online_drivers :=
                 AList.update driver (p\<lparr>cp_last_seen_at_ms := seen\<rparr>) (sg_online_drivers s)\<rparr>))))))"

definition validate_device_token :: "'j signaling_env \<Rightarrow> string \<Rightarrow> string \<Rightarrow> ('j, unit) sig" where
  "validate_device_token E vehicle token =
     bindS (getS (\<lambda>s. vehicle \<in> set (sg_revoked_vehicles s))) (\<lambda>revoked.
     if revoked then throwS (Unauthorized ''vehicle is revoked'')
     else if token = [] \<or> map_of (cf_device_tokens (en_config E)) vehicle \<noteq> Some token
     then throwS (Unauthorized ''invalid device token'')
     else returnS ())"

definition validate_vehicle_connection :: "'j signaling_env \<Rightarrow> string \<Rightarrow> string \<Rightarrow> uint64 \<Rightarrow> ('j, unit) sig" where
  "validate_vehicle_connection E vehicle token generation =
     thenS (validate_device_token E vehicle token)
     (bindS (getS (\<lambda>s. map_of (sg_online_vehicles s) vehicle)) (\<lambda>found. case found of
       None \<Rightarrow> throwS (Conflict ''vehicle is offline'' ''vehicle_offline'' [])
     | Some p \<Rightarrow>
         if generation = 0 \<or> cp_generation p \<noteq> generation
         then throwS (Conflict ''vehicle connection generation is stale'' ''vehicle_connection_generation_stale'' [])
         else bindS (now_ms E) (\<lambda>seen. modifyS (\<lambda>s. s\<lparr>sg_online_vehicles :=
           AList.update vehicle (p\<lparr>cp_last_seen_at_ms := seen\<rparr>) (sg_online_vehicles s)\<rparr>))))"

definition validate_actor_credential :: "'j signaling_env \<Rightarrow> session \<Rightarrow> string \<Rightarrow> 'j \<Rightarrow> ('j, unit) sig" where
  "validate_actor_credential E session actor value =
     (if actor = ss_driver_id session
      then bindS (liftS (optional_string (en_json E) value ''token'')) (\<lambda>token. validate_driver_token E actor token)
      else if actor = ss_vehicle_id session
      then bindS (liftS (optional_string (en_json E) value ''device_token'')) (\<lambda>token.
           bindS (liftS (required_uint64 (en_json E) value ''connection_generation'')) (\<lambda>generation.
             validate_vehicle_connection E actor token generation))
      else throwS (Unauthorized ''actor is not current session participant''))"

definition validate_message_metadata :: "session \<Rightarrow> protocol_metadata \<Rightarrow> unit res" where
  "validate_message_metadata session m =
     bindE (metadata_validate m) (\<lambda>_.
       throw_if (vehicle_id m \<noteq> ss_vehicle_id session \<or> driver_id m \<noteq> ss_driver_id session \<or>
         session_id m \<noteq> ss_session_id session) (Unauthorized ''protocol metadata does not match current session''))"

subsection \<open>The session state machine\<close>

fun transition_allowed :: "session_state \<Rightarrow> session_state \<Rightarrow> bool" where
  "transition_allowed SOnline next \<longleftrightarrow> next = SReserved"
| "transition_allowed SReserved next \<longleftrightarrow> next \<in> {SConnecting, SStopping, SClosed}"
| "transition_allowed SConnecting next \<longleftrightarrow> next \<in> {SActive, SDegraded, SStopping, SClosed}"
| "transition_allowed SActive next \<longleftrightarrow> next \<in> {SDegraded, SStopping, SClosed}"
| "transition_allowed SDegraded next \<longleftrightarrow> next \<in> {SActive, SStopping, SClosed}"
| "transition_allowed SStopping next \<longleftrightarrow> next = SClosed"
| "transition_allowed _ next \<longleftrightarrow> False"

definition with_session :: "string \<Rightarrow> (session \<Rightarrow> ('j, unit) sig) \<Rightarrow> ('j, unit) sig" where
  "with_session sid f = bindS (getS (\<lambda>s. map_of (sg_sessions s) sid)) (\<lambda>found. case found of
     None \<Rightarrow> returnS () | Some session \<Rightarrow> f session)"

definition store_session :: "string \<Rightarrow> session \<Rightarrow> 'j signaling \<Rightarrow> 'j signaling" where
  "store_session sid session s = s\<lparr>sg_sessions := AList.update sid session (sg_sessions s)\<rparr>"

definition transition_session :: "'j signaling_env \<Rightarrow> string \<Rightarrow> session_state \<Rightarrow> ('j, unit) sig" where
  "transition_session E sid next = with_session sid (\<lambda>session.
     let previous = ss_state session
     in if previous = next then returnS ()
        else if \<not> transition_allowed previous next
        then throwS (LogicError (''invalid session transition '' @ session_state_to_string previous @ '' -> '' @
               session_state_to_string next))
        else thenS (modifyS (store_session sid (session\<lparr>ss_state := next\<rparr>))) (audit E ''session_state_changed''))"

definition drop_queues :: "session \<Rightarrow> 'j signaling \<Rightarrow> 'j signaling" where
  "drop_queues session s =
     (let d = message_key (ss_session_id session) (ss_driver_id session);
          v = message_key (ss_session_id session) (ss_vehicle_id session)
      in s\<lparr>sg_messages := AList.delete v (AList.delete d (sg_messages s)),
           sg_latest_control := AList.delete v (AList.delete d (sg_latest_control s)),
           sg_last_accepted := AList.delete (d @ '':native_control'') (AList.delete v (AList.delete d (sg_last_accepted s))),
           sg_next_cursors := AList.delete v (AList.delete d (sg_next_cursors s))\<rparr>)"

definition close_session :: "'j signaling_env \<Rightarrow> string \<Rightarrow> ('j, unit) sig" where
  "close_session E sid = with_session sid (\<lambda>session.
     if ss_state session = SClosed then returnS ()
     else thenS (modifyS (\<lambda>s. drop_queues session
            (store_session sid (session\<lparr>ss_control_token := [], ss_control_token_expires_at_ms := 0\<rparr>) s)))
         (thenS (whenS (ss_state session \<noteq> SStopping) (transition_session E sid SStopping))
         (thenS (transition_session E sid SClosed)
         (bindS (now_ms E) (\<lambda>_. returnS ())))))"

definition close_sessions_for_vehicle :: "'j signaling_env \<Rightarrow> string \<Rightarrow> ('j, unit) sig" where
  "close_sessions_for_vehicle E vehicle = for_eachS (\<lambda>s. map fst (sg_sessions s)) (\<lambda>sid. with_session sid (\<lambda>session.
     whenS (ss_vehicle_id session = vehicle \<and> ss_state session \<noteq> SClosed) (close_session E sid)))"

definition close_sessions_for_driver :: "'j signaling_env \<Rightarrow> string \<Rightarrow> ('j, unit) sig" where
  "close_sessions_for_driver E driver = for_eachS (\<lambda>s. map fst (sg_sessions s)) (\<lambda>sid. with_session sid (\<lambda>session.
     whenS (ss_driver_id session = driver \<and> ss_state session \<noteq> SClosed) (close_session E sid)))"

subsection \<open>Expiry\<close>

definition approval_live :: "mobile_approval \<Rightarrow> bool" where
  "approval_live a \<longleftrightarrow> ma_state a \<in> {Pending, Approved, Rejected}"

definition approval_orphaned :: "string \<Rightarrow> mobile_approval \<Rightarrow> 'j signaling \<Rightarrow> bool" where
  "approval_orphaned vehicle a s \<longleftrightarrow>
     (case (map_of (sg_online_drivers s) (ma_driver_id a), map_of (sg_online_vehicles s) vehicle) of
        (Some d, Some v) \<Rightarrow> cp_generation d \<noteq> ma_driver_generation a \<or> cp_generation v \<noteq> ma_vehicle_generation a \<or>
          ma_driver_id a \<in> set (sg_revoked_drivers s) \<or> vehicle \<in> set (sg_revoked_vehicles s)
      | _ \<Rightarrow> True)"

definition store_approval :: "string \<Rightarrow> mobile_approval \<Rightarrow> 'j signaling \<Rightarrow> 'j signaling" where
  "store_approval vehicle a s = s\<lparr>sg_mobile_approvals := AList.update vehicle a (sg_mobile_approvals s)\<rparr>"

definition end_approval :: "'j signaling_env \<Rightarrow> string \<Rightarrow> mobile_approval \<Rightarrow> approval_state \<Rightarrow> ('j, unit) sig" where
  "end_approval E vehicle a next =
     thenS (modifyS (store_approval vehicle (a\<lparr>ma_state := next\<rparr>)))
     (bindS (try_audit E (''mobile_approval_'' @ approval_state_text next)) (\<lambda>_. returnS ()))"

definition cleanup_mobile_approvals :: "'j signaling_env \<Rightarrow> ('j, unit) sig" where
  "cleanup_mobile_approvals E =
     thenS (for_eachS (\<lambda>s. map fst (sg_mobile_approvals s)) (\<lambda>vehicle.
       bindS (getS (\<lambda>s. (map_of (sg_mobile_approvals s) vehicle, s))) (\<lambda>(found, s). case found of
         None \<Rightarrow> returnS ()
       | Some a \<Rightarrow>
           if \<not> approval_live a then returnS ()
           else if approval_orphaned vehicle a s then end_approval E vehicle a Cancelled
           else bindS (steady_now E) (\<lambda>now. whenS (ma_deadline a \<le> now) (end_approval E vehicle a Expired)))))
     (bindS (now_ms E) (\<lambda>timestamp. modifyS (\<lambda>s. s\<lparr>sg_approver_tokens :=
        filter (\<lambda>(k, t). timestamp < dt_expires_at_ms t) (sg_approver_tokens s)\<rparr>)))"

definition expire_driver_token :: "'j signaling_env \<Rightarrow> int \<Rightarrow> string \<Rightarrow> ('j, unit) sig" where
  "expire_driver_token E timestamp token =
     bindS (getS (\<lambda>s. map_of (sg_driver_tokens s) token)) (\<lambda>found. case found of
       None \<Rightarrow> returnS ()
     | Some t \<Rightarrow>
         if timestamp < dt_expires_at_ms t then returnS ()
         else thenS (modifyS (\<lambda>s. s\<lparr>sg_driver_tokens := AList.delete token (sg_driver_tokens s)\<rparr>))
           (bindS (getS (\<lambda>s. map_of (sg_online_drivers s) (dt_driver_id t))) (\<lambda>presence.
              if map_option cp_generation presence \<noteq> Some (dt_connection_generation t) then returnS ()
              else thenS (modifyS (\<lambda>s. s\<lparr>sg_online_drivers := AList.delete (dt_driver_id t) (sg_online_drivers s)\<rparr>))
                 (thenS (close_sessions_for_driver E (dt_driver_id t)) (audit E ''driver_offline'')))))"

definition expire_control_token :: "'j signaling_env \<Rightarrow> int \<Rightarrow> string \<Rightarrow> ('j, unit) sig" where
  "expire_control_token E timestamp sid = with_session sid (\<lambda>session.
     whenS (ss_state session \<noteq> SClosed \<and> 0 < ss_control_token_expires_at_ms session \<and>
         ss_control_token_expires_at_ms session \<le> timestamp)
       (thenS (close_session E sid) (audit E ''control_authority_expired'')))"

definition expire_vehicle :: "'j signaling_env \<Rightarrow> int \<Rightarrow> string \<Rightarrow> ('j, unit) sig" where
  "expire_vehicle E timestamp vehicle =
     bindS (getS (\<lambda>s. map_of (sg_online_vehicles s) vehicle)) (\<lambda>found. case found of
       None \<Rightarrow> returnS ()
     | Some p \<Rightarrow>
         if timestamp - cp_last_seen_at_ms p < cf_vehicle_heartbeat_timeout_ms (en_config E) then returnS ()
         else thenS (modifyS (\<lambda>s. s\<lparr>sg_online_vehicles := AList.delete vehicle (sg_online_vehicles s)\<rparr>))
           (thenS (close_sessions_for_vehicle E vehicle) (audit E ''vehicle_offline'')))"

definition expire_driver :: "'j signaling_env \<Rightarrow> int \<Rightarrow> string \<Rightarrow> ('j, unit) sig" where
  "expire_driver E timestamp driver =
     bindS (getS (\<lambda>s. map_of (sg_online_drivers s) driver)) (\<lambda>found. case found of
       None \<Rightarrow> returnS ()
     | Some p \<Rightarrow>
         if timestamp - cp_last_seen_at_ms p < cf_driver_heartbeat_timeout_ms (en_config E) then returnS ()
         else thenS (modifyS (\<lambda>s. s\<lparr>sg_online_drivers := AList.delete driver (sg_online_drivers s),
               sg_driver_tokens := filter (\<lambda>(k, t). \<not> (dt_driver_id t = driver \<and> dt_connection_generation t = cp_generation p))
                 (sg_driver_tokens s)\<rparr>))
           (thenS (close_sessions_for_driver E driver) (audit E ''driver_offline'')))"

definition cleanup_expired_connections :: "'j signaling_env \<Rightarrow> int \<Rightarrow> ('j, unit) sig" where
  "cleanup_expired_connections E timestamp =
     thenS (for_eachS (\<lambda>s. map fst (sg_driver_tokens s)) (expire_driver_token E timestamp))
    (thenS (for_eachS (\<lambda>s. map fst (sg_sessions s)) (expire_control_token E timestamp))
    (thenS (for_eachS (\<lambda>s. map fst (sg_online_vehicles s)) (expire_vehicle E timestamp))
    (thenS (for_eachS (\<lambda>s. map fst (sg_online_drivers s)) (expire_driver E timestamp))
       (cleanup_mobile_approvals E))))"

text \<open>One round of the reaper thread, and the cleanup with which a request starts.\<close>

definition cleanup_now :: "'j signaling_env \<Rightarrow> ('j, unit) sig" where
  "cleanup_now E = bindS (now_ms E) (cleanup_expired_connections E)"

end
