(* ===== verification/Signaling_Access.thy ===== *)
theory Signaling_Access
  imports Signaling_Sessions Http_Server "HOL-Library.Char_ord" "HOL-Library.List_Lexorder"
begin

text \<open>
  Access to the signaling service: the limits on failed logins and on requests, and the approval of
  a connection on a phone, with the routes of the approval application.
\<close>

subsection \<open>Messages\<close>

text \<open>The texts of the approval routes are UTF-8; a string is the list of its bytes.\<close>

definition utf8 :: "nat list \<Rightarrow> string" where
  "utf8 = map char_of"

definition msg_policy_changed :: string where
  "msg_policy_changed = utf8 [232, 189, 166, 232, 190, 134, 229, 174, 161, 230, 137, 185, 231, 173, 150, 231,
     149, 165, 229, 183, 178, 229, 143, 152, 229, 140, 150, 239, 188, 140, 232, 175, 183, 233, 135, 141, 230,
     150, 176, 231, 148, 179, 232, 175, 183, 232, 191, 158, 230, 142, 165]"

definition msg_request_stale :: string where
  "msg_request_stale = utf8 [232, 191, 158, 230, 142, 165, 231, 148, 179, 232, 175, 183, 229, 183, 178, 229,
     164, 177, 230, 149, 136, 239, 188, 140, 232, 175, 183, 233, 135, 141, 230, 150, 176, 231, 148, 179, 232,
     175, 183]"

definition msg_request_ended :: string where
  "msg_request_ended = utf8 [230, 137, 139, 230, 156, 186, 229, 174, 161, 230, 137, 185, 229, 183, 178, 232,
     191, 135, 230, 156, 159, 230, 136, 150, 231, 148, 179, 232, 175, 183, 229, 183, 178, 231, 187, 147, 230,
     157, 159, 239, 188, 140, 232, 175, 183, 233, 135, 141, 230, 150, 176, 231, 148, 179, 232, 175, 183, 232,
     191, 158, 230, 142, 165]"

definition msg_vehicle_busy :: string where
  "msg_vehicle_busy = utf8 [232, 175, 165, 232, 189, 166, 232, 190, 134, 229, 183, 178, 230, 156, 137, 230,
     137, 139, 230, 156, 186, 229, 174, 161, 230, 137, 185, 231, 148, 179, 232, 175, 183, 239, 188, 140, 232,
     175, 183, 231, 168, 141, 229, 144, 142, 233, 135, 141, 232, 175, 149]"

definition msg_rejected :: string where
  "msg_rejected = utf8 [230, 137, 139, 230, 156, 186, 229, 183, 178, 230, 139, 146, 231, 187, 157, 230, 156,
     172, 230, 172, 161, 231, 148, 179, 232, 175, 183, 239, 188, 140, 232, 175, 183, 229, 156, 168, 231, 148,
     179, 232, 175, 183, 232, 191, 135, 230, 156, 159, 229, 144, 142, 233, 135, 141, 232, 175, 149]"

definition msg_waiting :: string where
  "msg_waiting = utf8 [231, 173, 137, 229, 190, 133, 230, 137, 139, 230, 156, 186, 229, 174, 161, 230, 137,
     185, 239, 188, 140, 229, 144, 140, 230, 132, 143, 229, 144, 142, 229, 176, 134, 232, 135, 170, 229, 138,
     168, 232, 191, 158, 230, 142, 165]"

definition msg_requested :: string where
  "msg_requested = utf8 [229, 183, 178, 229, 143, 145, 233, 128, 129, 230, 137, 139, 230, 156, 186, 229, 174,
     161, 230, 137, 185, 231, 148, 179, 232, 175, 183, 239, 188, 140, 229, 144, 140, 230, 132, 143, 229, 144,
     142, 229, 176, 134, 232, 135, 170, 229, 138, 168, 232, 191, 158, 230, 142, 165]"

definition msg_app_password :: string where
  "msg_app_password = utf8 [65, 112, 112, 32, 229, 175, 134, 231, 160, 129, 233, 148, 153, 232, 175, 175]"

definition msg_login_expired :: string where
  "msg_login_expired = utf8 [229, 174, 161, 230, 137, 185, 231, 153, 187, 229, 189, 149, 229, 183, 178, 229,
     164, 177, 230, 149, 136, 239, 188, 140, 232, 175, 183, 233, 135, 141, 230, 150, 176, 231, 153, 187, 229,
     189, 149]"

definition msg_approval_unknown :: string where
  "msg_approval_unknown = utf8 [229, 174, 161, 230, 137, 185, 231, 148, 179, 232, 175, 183, 228, 184, 141,
     229, 173, 152, 229, 156, 168, 230, 136, 150, 230, 151, 160, 230, 157, 131, 232, 174, 191, 233, 151, 174]"

definition msg_approval_decided :: string where
  "msg_approval_decided = utf8 [231, 148, 179, 232, 175, 183, 229, 183, 178, 229, 164, 132, 231, 144, 134,
     230, 136, 150, 229, 164, 177, 230, 149, 136, 239, 188, 140, 232, 175, 183, 229, 136, 183, 230, 150, 176]"

definition msg_cancel_stale :: string where
  "msg_cancel_stale = utf8 [232, 191, 158, 230, 142, 165, 231, 148, 179, 232, 175, 183, 229, 183, 178, 229,
     164, 177, 230, 149, 136]"

subsection \<open>Failed logins\<close>

definition int64_max :: int where
  "int64_max = 9223372036854775807"

definition saturating_deadline :: "int \<Rightarrow> int \<Rightarrow> int" where
  "saturating_deadline duration timestamp =
     (if int64_max - timestamp < duration then int64_max else timestamp + duration)"

definition login_bucket :: "'j signaling_env \<Rightarrow> string \<Rightarrow> bool \<Rightarrow> string" where
  "login_bucket E identity approver =
     (if approver then ''approver:'' @ identity
      else if map_of (cf_driver_passwords (en_config E)) identity \<noteq> None then ''driver:'' @ identity
      else ''unknown'')"

definition enforce_login_rate_limit :: "'j signaling_env \<Rightarrow> string \<Rightarrow> int \<Rightarrow> bool \<Rightarrow> ('j, unit) sig" where
  "enforce_login_rate_limit E identity timestamp approver =
     (let bucket = login_bucket E identity approver in
      bindS (getS (\<lambda>s. map_of (sg_login_failures s) bucket)) (\<lambda>found. case found of
        None \<Rightarrow> returnS ()
      | Some state \<Rightarrow>
          if timestamp < lf_blocked_until_ms state
          then throwS (TooManyRequests ''too many login attempts'' (lf_blocked_until_ms state - timestamp))
          else whenS (0 < lf_blocked_until_ms state \<or>
              cf_login_failure_window_ms (en_config E) \<le> timestamp - lf_window_started_at_ms state)
            (modifyS (\<lambda>s. s\<lparr>sg_login_failures := AList.delete bucket (sg_login_failures s)\<rparr>))))"

definition failed_login :: "'j signaling_env \<Rightarrow> int \<Rightarrow> login_failure_state option \<Rightarrow> login_failure_state" where
  "failed_login E timestamp found =
     (let c = en_config E;
          state0 = (case found of Some st \<Rightarrow> st
            | None \<Rightarrow> \<lparr>lf_failures = 0, lf_window_started_at_ms = 0, lf_blocked_until_ms = 0\<rparr>);
          state1 = (if lf_window_started_at_ms state0 = 0 \<or>
                       cf_login_failure_window_ms c \<le> timestamp - lf_window_started_at_ms state0
                    then \<lparr>lf_failures = 0, lf_window_started_at_ms = timestamp, lf_blocked_until_ms = 0\<rparr> else state0);
          state2 = state1\<lparr>lf_failures := lf_failures state1 + 1\<rparr>
      in if cf_login_max_failures c \<le> lf_failures state2
         then state2\<lparr>lf_blocked_until_ms := saturating_deadline (cf_login_lockout_ms c) timestamp\<rparr> else state2)"

definition record_login_failure :: "'j signaling_env \<Rightarrow> string \<Rightarrow> int \<Rightarrow> bool \<Rightarrow> ('j, unit) sig" where
  "record_login_failure E identity timestamp approver =
     (let bucket = login_bucket E identity approver; c = en_config E in
      bindS (getS (\<lambda>s. failed_login E timestamp (map_of (sg_login_failures s) bucket))) (\<lambda>state.
      thenS (modifyS (\<lambda>s. s\<lparr>sg_login_failures := AList.update bucket state (sg_login_failures s)\<rparr>))
     (thenS (audit E (if approver then ''approver_login_failed'' else ''driver_login_failed''))
        (if lf_failures state < cf_login_max_failures c then returnS ()
         else thenS (audit E (if approver then ''approver_login_rate_limited'' else ''driver_login_rate_limited''))
           (throwS (TooManyRequests ''too many login attempts'' (cf_login_lockout_ms c)))))))"

definition clear_login_failures :: "string \<Rightarrow> bool \<Rightarrow> ('j, unit) sig" where
  "clear_login_failures identity approver = modifyS (\<lambda>s. s\<lparr>sg_login_failures :=
     AList.delete ((if approver then ''approver:'' else ''driver:'') @ identity) (sg_login_failures s)\<rparr>)"

subsection \<open>Request rates\<close>

definition request_source :: "'j signaling_env \<Rightarrow> http_request \<Rightarrow> 'j signaling \<Rightarrow> string" where
  "request_source E request s =
     (let peer = (case canonical_ip_address E (rq_peer_address request) of Some p \<Rightarrow> p | None \<Rightarrow> ''unknown'')
      in if peer \<notin> set (sg_trusted_proxy_addresses s) then peer
         else case map_of (rq_headers request) ''x-forwarded-for'' of
           None \<Rightarrow> peer
         | Some forwarded \<Rightarrow> (case canonical_ip_address E (last (split_on CHR '','' forwarded)) of
             Some a \<Rightarrow> a | None \<Rightarrow> peer))"

definition rate_expired :: "'j signaling_env \<Rightarrow> int \<Rightarrow> api_rate_state \<Rightarrow> bool" where
  "rate_expired E timestamp state \<longleftrightarrow> ar_window_started_at_ms state = 0 \<or> timestamp < ar_window_started_at_ms state \<or>
     cf_api_rate_limit_window_ms (en_config E) \<le> timestamp - ar_window_started_at_ms state"

definition cleanup_api_rate_limits :: "'j signaling_env \<Rightarrow> int \<Rightarrow> 'j signaling \<Rightarrow> 'j signaling" where
  "cleanup_api_rate_limits E timestamp s =
     s\<lparr>sg_api_rate_limits := filter (\<lambda>(k, st). \<not> rate_expired E timestamp st) (sg_api_rate_limits s),
       sg_api_rate_limit_overflow := (if rate_expired E timestamp (sg_api_rate_limit_overflow s) then empty_rate_state
         else sg_api_rate_limit_overflow s),
       sg_api_rate_limit_last_cleanup_ms := timestamp\<rparr>"

definition rate_overflows :: "'j signaling_env \<Rightarrow> string \<Rightarrow> 'j signaling \<Rightarrow> bool" where
  "rate_overflows E source s \<longleftrightarrow> map_of (sg_api_rate_limits s) source = None \<and>
     cf_api_rate_limit_max_sources (en_config E) \<le> int (length (sg_api_rate_limits s))"

definition rate_state_of :: "'j signaling_env \<Rightarrow> string \<Rightarrow> 'j signaling \<Rightarrow> api_rate_state" where
  "rate_state_of E source s =
     (if rate_overflows E source s then sg_api_rate_limit_overflow s
      else case map_of (sg_api_rate_limits s) source of Some st \<Rightarrow> st | None \<Rightarrow> empty_rate_state)"

definition put_rate_state :: "bool \<Rightarrow> string \<Rightarrow> api_rate_state \<Rightarrow> 'j signaling \<Rightarrow> 'j signaling" where
  "put_rate_state overflow source state s =
     (if overflow then s\<lparr>sg_api_rate_limit_overflow := state\<rparr>
      else s\<lparr>sg_api_rate_limits := AList.update source state (sg_api_rate_limits s)\<rparr>)"

definition count_request :: "'j signaling_env \<Rightarrow> int \<Rightarrow> api_rate_state \<Rightarrow> api_rate_state" where
  "count_request E timestamp state =
     (let state1 = (if rate_expired E timestamp state
            then \<lparr>ar_requests = 0, ar_window_started_at_ms = timestamp, ar_limit_audited = False\<rparr> else state)
      in if ar_requests state1 < int64_max then state1\<lparr>ar_requests := ar_requests state1 + 1\<rparr> else state1)"

definition enforce_api_rate_limit :: "'j signaling_env \<Rightarrow> http_request \<Rightarrow> int \<Rightarrow> ('j, unit) sig" where
  "enforce_api_rate_limit E request timestamp =
     (let c = en_config E in
      bindS (getS sg_api_rate_limit_last_cleanup_ms) (\<lambda>cleaned.
      thenS (whenS (cleaned = 0 \<or> timestamp < cleaned \<or> cf_api_rate_limit_window_ms c \<le> timestamp - cleaned)
               (modifyS (cleanup_api_rate_limits E timestamp)))
     (bindS (getS (request_source E request)) (\<lambda>source.
      bindS (getS (rate_overflows E source)) (\<lambda>overflow.
      bindS (getS (\<lambda>s. count_request E timestamp (rate_state_of E source s))) (\<lambda>state.
      thenS (modifyS (put_rate_state overflow source state))
        (if ar_requests state \<le> cf_api_rate_limit_requests c then returnS ()
         else thenS (modifyS (\<lambda>s. if sg_api_rate_limited_requests s < - 1
                then s\<lparr>sg_api_rate_limited_requests := sg_api_rate_limited_requests s + 1\<rparr> else s))
             (thenS (whenS (\<not> ar_limit_audited state)
                (thenS (modifyS (put_rate_state overflow source (state\<lparr>ar_limit_audited := True\<rparr>))) (audit E ''api_rate_limited'')))
             (throwS (TooManyRequests ''API request rate limit exceeded''
                (max 1 (cf_api_rate_limit_window_ms c - max 0 (timestamp - ar_window_started_at_ms state)))))))))))))"

definition approver_login_bucket :: "'j signaling_env \<Rightarrow> http_request \<Rightarrow> int \<Rightarrow> ('j, string) sig" where
  "approver_login_bucket E request timestamp =
     (let c = en_config E in
      bindS (getS sg_approver_login_last_cleanup_ms) (\<lambda>cleaned.
      thenS (whenS (cleaned = 0 \<or> timestamp < cleaned \<or> cf_login_failure_window_ms c \<le> timestamp - cleaned)
        (modifyS (\<lambda>s. s\<lparr>sg_login_failures := filter (\<lambda>(k, st). \<not> (starts_with k ''approver:'' \<and>
             (if 0 < lf_blocked_until_ms st then lf_blocked_until_ms st \<le> timestamp
              else cf_login_failure_window_ms c \<le> timestamp - lf_window_started_at_ms st))) (sg_login_failures s),
           sg_approver_login_last_cleanup_ms := timestamp\<rparr>)))
     (bindS (getS (request_source E request)) (\<lambda>source.
      getS (\<lambda>s. if map_of (sg_login_failures s) (''approver:'' @ source) \<noteq> None then source
        else if int (length (filter (\<lambda>(k, st). starts_with k ''approver:'' \<and> k \<noteq> ''approver:<overflow>'') (sg_login_failures s)))
               < cf_api_rate_limit_max_sources c
        then source else ''<overflow>'')))))"

subsection \<open>Approvals\<close>

definition json_scalar :: "'j json_ops \<Rightarrow> scalar \<Rightarrow> 'j" where
  "json_scalar J x = (case x of SString str \<Rightarrow> js_of_string J str | SInt i \<Rightarrow> js_of_int J i | SUint w \<Rightarrow> js_of_uint J w)"

definition json_fields :: "'j json_ops \<Rightarrow> (string \<times> scalar) list \<Rightarrow> 'j" where
  "json_fields J kvs = js_object J (map (\<lambda>(k, x). (k, json_scalar J x)) kvs)"

definition approval_fields :: "'j signaling_env \<Rightarrow> mobile_approval \<Rightarrow> ('j, (string \<times> scalar) list) sig" where
  "approval_fields E a = bindS (steady_now E) (\<lambda>now. returnS
     [(''request_id'', SString (ma_request_id a)), (''vehicle_id'', SString (ma_vehicle_id a)),
      (''driver_id'', SString (ma_driver_id a)), (''state'', SString (approval_state_text (ma_state a))),
      (''decided_by'', SString (ma_decided_by a)), (''expires_at_utc_ms'', SInt (ma_expires_at_ms a)),
      (''remaining_ms'', SInt (max 0 (cast_ms (ma_deadline a - now))))])"

definition approval_conflict :: "'j signaling_env \<Rightarrow> string \<Rightarrow> string \<Rightarrow> mobile_approval \<Rightarrow> ('j, 'a) sig" where
  "approval_conflict E message code a = bindS (approval_fields E a) (\<lambda>details. throwS (Conflict message code details))"

definition request_approval :: "'j signaling_env \<Rightarrow> string \<Rightarrow> string \<Rightarrow> ('j, unit) sig" where
  "request_approval E driver vehicle =
     bindS (random_token E 24) (\<lambda>token.
     bindS (getS (\<lambda>s. (map_of (sg_online_drivers s) driver, map_of (sg_online_vehicles s) vehicle))) (\<lambda>presences. case presences of
       (Some d, Some v) \<Rightarrow>
         bindS (now_ms E) (\<lambda>now.
         bindS (steady_now E) (\<lambda>steady.
           let a = \<lparr>ma_request_id = ''approval-'' @ token, ma_vehicle_id = vehicle, ma_driver_id = driver, ma_state = Pending,
                 ma_decided_by = [], ma_session_id = [], ma_driver_generation = cp_generation d,
                 ma_vehicle_generation = cp_generation v, ma_expires_at_ms = now + cf_mobile_approval_timeout_ms (en_config E),
                 ma_deadline = steady + cf_mobile_approval_timeout_ms (en_config E) * 1000000\<rparr>
           in bindS (try_audit E ''mobile_approval_requested'') (\<lambda>recorded.
              if \<not> recorded then throwS (ServiceUnavailable ''audit log unavailable; approval request is disabled'')
              else thenS (modifyS (store_approval vehicle a)) (approval_conflict E msg_requested ''mobile_approval_pending'' a))))
     | _ \<Rightarrow> throwS (OutOfRange ''unordered_map::at'')))"

definition check_named_approval :: "'j signaling_env \<Rightarrow> string \<Rightarrow> string \<Rightarrow> string \<Rightarrow> ('j, unit) sig" where
  "check_named_approval E driver vehicle request_id =
     bindS (getS (\<lambda>s. map_of (sg_mobile_approvals s) vehicle)) (\<lambda>found. case found of
       None \<Rightarrow> throwS (Conflict msg_request_stale ''mobile_approval_stale'' [])
     | Some a \<Rightarrow>
         if ma_request_id a \<noteq> request_id \<or> ma_driver_id a \<noteq> driver
         then throwS (Conflict msg_request_stale ''mobile_approval_stale'' [])
         else if \<not> approval_live a then approval_conflict E msg_request_ended ''mobile_approval_ended'' a
         else returnS ())"

definition require_mobile_approval :: "'j signaling_env \<Rightarrow> string \<Rightarrow> string \<Rightarrow> string \<Rightarrow> ('j, unit) sig" where
  "require_mobile_approval E driver vehicle request_id =
     (if vehicle \<notin> set (cf_mobile_approval_vehicles (en_config E))
      then if request_id \<noteq> [] then throwS (Conflict msg_policy_changed ''mobile_approval_stale'' []) else returnS ()
      else thenS (cleanup_mobile_approvals E)
          (thenS (whenS (request_id \<noteq> []) (check_named_approval E driver vehicle request_id))
          (bindS (getS (\<lambda>s. map_of (sg_mobile_approvals s) vehicle)) (\<lambda>found. case found of
             None \<Rightarrow> request_approval E driver vehicle
           | Some a \<Rightarrow>
               if \<not> approval_live a then request_approval E driver vehicle
               else if ma_driver_id a \<noteq> driver then throwS (Conflict msg_vehicle_busy ''mobile_approval_busy'' [])
               else if ma_state a = Approved then returnS ()
               else if ma_state a = Rejected then approval_conflict E msg_rejected ''mobile_approval_rejected'' a
               else approval_conflict E msg_waiting ''mobile_approval_pending'' a))))"

subsection \<open>The routes of the approval application\<close>

definition respond :: "'j signaling_env \<Rightarrow> int \<Rightarrow> (string \<times> 'j) list \<Rightarrow> ('j, server_response) sig" where
  "respond E status kvs = liftS (response_json (en_json E) status (js_object (en_json E) kvs))"

definition not_found_response :: "'j signaling_env \<Rightarrow> ('j, server_response) sig" where
  "not_found_response E = respond E 404 [(''error'', js_of_string (en_json E) ''not found'')]"

definition mobile_login :: "'j signaling_env \<Rightarrow> http_request \<Rightarrow> ('j, server_response) sig" where
  "mobile_login E request =
     (let c = en_config E; J = en_json E in
      bindS (liftS (json_body J request)) (\<lambda>value.
      bindS (now_ms E) (\<lambda>timestamp.
      bindS (approver_login_bucket E request timestamp) (\<lambda>source.
      thenS (enforce_login_rate_limit E source timestamp True)
     (bindS (if cf_mobile_app_password c = [] then returnS True
             else bindS (liftS (optional_string J value ''password'')) (\<lambda>p. returnS (cf_mobile_app_password c \<noteq> p))) (\<lambda>wrong.
      if wrong then thenS (record_login_failure E source timestamp True) (throwS (Unauthorized msg_app_password))
      else thenS (clear_login_failures source True)
          (bindS (random_token E 12) (\<lambda>label.
           bindS (random_token E 24) (\<lambda>secret.
           bindS (now_ms E) (\<lambda>now.
             let token = ''approver-token-'' @ secret; expiry = now + cf_approver_token_ttl_ms c
             in thenS (modifyS (\<lambda>s. s\<lparr>sg_approver_tokens := AList.update token
                     \<lparr>dt_driver_id = ''app-'' @ label, dt_expires_at_ms = expiry, dt_connection_generation = 0\<rparr> (sg_approver_tokens s)\<rparr>))
               (thenS (audit E ''approver_login'')
               (bindS (now_ms E) (\<lambda>now2.
                  respond E 200 [(''token'', js_of_string J token), (''expires_at_utc_ms'', js_of_int J expiry),
                    (''remaining_ms'', js_of_int J (max 0 (expiry - now2)))])))))))))))))"

definition mobile_decision :: "'j signaling_env \<Rightarrow> http_request \<Rightarrow> string \<Rightarrow> string \<Rightarrow> ('j, server_response) sig" where
  "mobile_decision E request request_id approver =
     (let J = en_json E in
      bindS (liftS (json_body J request)) (\<lambda>value.
      bindS (liftS (required_string J value ''decision'')) (\<lambda>decision.
      if decision \<noteq> ''approve'' \<and> decision \<noteq> ''reject'' then throwS (InvalidArgument ''decision must be approve or reject'')
      else bindS (getS (\<lambda>s. find (\<lambda>(v, a). ma_request_id a = request_id \<and> v \<in> set (cf_mobile_approval_vehicles (en_config E)))
             (sg_mobile_approvals s))) (\<lambda>found. case found of
        None \<Rightarrow> throwS (NotFound msg_approval_unknown)
      | Some (vehicle, a) \<Rightarrow>
          let next = (if decision = ''approve'' then Approved else Rejected);
              reply = (\<lambda>a. bindS (approval_fields E a) (\<lambda>kvs. liftS (response_json J 200 (json_fields J kvs))))
          in if ma_state a = next \<and> ma_decided_by a = approver then reply a
             else if ma_state a \<noteq> Pending then approval_conflict E msg_approval_decided ''mobile_approval_not_pending'' a
             else let decided = a\<lparr>ma_state := next, ma_decided_by := approver\<rparr>
               in bindS (try_audit E ''mobile_approval_decided'') (\<lambda>recorded.
                  if \<not> recorded then throwS (ServiceUnavailable ''audit log unavailable; approval decision was not saved'')
                  else thenS (modifyS (store_approval vehicle decided)) (reply decided))))))"

fun mapS :: "('x \<Rightarrow> ('s, 'y) oper) \<Rightarrow> 'x list \<Rightarrow> ('s, 'y list) oper" where
  "mapS f [] = returnS []"
| "mapS f (x # xs) = bindS (f x) (\<lambda>y. bindS (mapS f xs) (\<lambda>ys. returnS (y # ys)))"

definition mobile_requests :: "'j signaling_env \<Rightarrow> ('j, server_response) sig" where
  "mobile_requests E =
     bindS (getS (\<lambda>s. List.map_filter (map_of (sg_mobile_approvals s)) (sort (cf_mobile_approval_vehicles (en_config E))))) (\<lambda>approvals.
     bindS (mapS (approval_fields E) approvals) (\<lambda>entries.
       respond E 200 [(''requests'', js_array (en_json E) (map (json_fields (en_json E)) entries))]))"

definition handle_mobile_api :: "'j signaling_env \<Rightarrow> http_request \<Rightarrow> ('j, server_response) sig" where
  "handle_mobile_api E request =
     thenS (cleanup_mobile_approvals E)
     (if rq_path request = ''/mobile/api/login'' \<and> rq_method request = ''POST'' then mobile_login E request
      else let token = (case map_of (rq_headers request) ''x-mine-teleop-approver-token'' of Some t \<Rightarrow> t | None \<Rightarrow> []) in
        bindS (getS (\<lambda>s. map_of (sg_approver_tokens s) token)) (\<lambda>authenticated. case authenticated of
          None \<Rightarrow> throwS (Unauthorized msg_login_expired)
        | Some t \<Rightarrow>
            if rq_path request = ''/mobile/api/logout'' \<and> rq_method request = ''POST''
            then thenS (modifyS (\<lambda>s. s\<lparr>sg_approver_tokens := AList.delete token (sg_approver_tokens s)\<rparr>))
                (thenS (audit E ''approver_logout'')
                   (respond E 200 [(''state'', js_of_string (en_json E) ''logged_out'')]))
            else if rq_path request = ''/mobile/api/requests'' \<and> rq_method request = ''GET'' then mobile_requests E
            else bindS (liftS (path_parts (rq_path request))) (\<lambda>parts.
              if length parts = 5 \<and> parts ! 0 = ''mobile'' \<and> parts ! 1 = ''api'' \<and> parts ! 2 = ''requests'' \<and>
                 parts ! 4 = ''decision'' \<and> rq_method request = ''POST''
              then mobile_decision E request (parts ! 3) (dt_driver_id t)
              else not_found_response E)))"

end
