(* ===== verification/Signaling_Messages.thy ===== *)
theory Signaling_Messages
  imports Signaling_Access
begin

text \<open>
  Messages between the participants of a session: queueing with the checks of sender, route,
  payload and sequence, delivery by cursor and acknowledgement. Control commands go to a mailbox
  that holds the latest one. The diagnostic trace of control commands is left out.
\<close>

subsection \<open>Delivery\<close>

definition message_to_json :: "'j json_ops \<Rightarrow> 'j message \<Rightarrow> 'j" where
  "message_to_json J m = foldl (\<lambda>value (key, field). js_set J value key field) (metadata_to_json J (mg_metadata m))
     [(''sender'', js_of_string J (mg_sender m)),
      (''recipient'', js_of_string J (mg_recipient m)),
      (''type'', js_of_string J (mg_type m)),
      (''payload'', mg_payload m),
      (''queued_at_utc_ms'', js_of_int J (mg_queued_at_utc_ms m)),
      (''delivery_cursor'', js_of_uint J (mg_delivery_cursor m))]"

definition type_requested :: "string \<Rightarrow> string \<Rightarrow> bool" where
  "type_requested requested_types kind \<longleftrightarrow>
     requested_types = [] \<or> kind \<in> set (filter (\<lambda>t. t \<noteq> []) (map trim (split_on CHR '','' requested_types)))"

definition queue_of :: "string \<Rightarrow> 'j signaling \<Rightarrow> 'j message list" where
  "queue_of key s = (case map_of (sg_messages s) key of None \<Rightarrow> [] | Some ms \<Rightarrow> ms)"

text \<open>A queue that becomes empty is erased.\<close>

definition set_queue :: "string \<Rightarrow> 'j message list \<Rightarrow> 'j signaling \<Rightarrow> 'j signaling" where
  "set_queue key ms s = s\<lparr>sg_messages := (if ms = [] then AList.delete key (sg_messages s)
     else AList.update key ms (sg_messages s))\<rparr>"

definition drop_latest_control :: "string \<Rightarrow> 'j signaling \<Rightarrow> 'j signaling" where
  "drop_latest_control key s = s\<lparr>sg_latest_control := AList.delete key (sg_latest_control s)\<rparr>"

definition expire_latest_control :: "'j signaling_env \<Rightarrow> int \<Rightarrow> string \<Rightarrow> 'j signaling \<Rightarrow> 'j signaling" where
  "expire_latest_control E now key s = (case map_of (sg_latest_control s) key of
     Some m \<Rightarrow> if cf_native_control_message_ttl_ms (en_config E) \<le> now - mg_queued_at_monotonic_ms m
       then drop_latest_control key s else s
   | None \<Rightarrow> s)"

definition expire_queue :: "'j signaling_env \<Rightarrow> int \<Rightarrow> string \<Rightarrow> 'j signaling \<Rightarrow> 'j signaling" where
  "expire_queue E now key s = (case map_of (sg_messages s) key of
     None \<Rightarrow> s
   | Some ms \<Rightarrow> set_queue key (filter (\<lambda>m. \<not> cf_signaling_message_ttl_ms (en_config E) \<le> now - mg_queued_at_monotonic_ms m) ms) s)"

definition pending_control :: "string \<Rightarrow> string \<Rightarrow> 'j signaling \<Rightarrow> 'j message list" where
  "pending_control key requested_types s = (case map_of (sg_latest_control s) key of
     Some m \<Rightarrow> if type_requested requested_types ''control_command'' then [m] else [] | None \<Rightarrow> [])"

definition take_signaling_messages ::
  "'j signaling_env \<Rightarrow> string \<Rightarrow> string \<Rightarrow> string \<Rightarrow> bool \<Rightarrow> ('j, 'j message list) sig" where
  "take_signaling_messages E sid recipient requested_types consume =
     (let key = message_key sid recipient; requested = (\<lambda>m. type_requested requested_types (mg_type m)) in
      bindS (monotonic_now_ms E) (\<lambda>now.
      thenS (modifyS (expire_latest_control E now key))
     (bindS (getS (pending_control key requested_types)) (\<lambda>control.
      thenS (whenS (consume \<and> control \<noteq> []) (modifyS (drop_latest_control key)))
     (thenS (modifyS (expire_queue E now key))
     (bindS (getS (queue_of key)) (\<lambda>queue.
      thenS (whenS (consume \<and> queue \<noteq> []) (modifyS (set_queue key (filter (\<lambda>m. \<not> requested m) queue))))
        (returnS (sort_key mg_delivery_cursor (control @ filter requested queue))))))))))"

definition acknowledge_signaling_messages :: "string \<Rightarrow> string \<Rightarrow> uint64 \<Rightarrow> bool \<Rightarrow> ('j, nat) sig" where
  "acknowledge_signaling_messages sid recipient cursor control_only =
     (let key = message_key sid recipient in
      bindS (getS (\<lambda>s. if control_only then [] else queue_of key s)) (\<lambda>queue.
      let kept = filter (\<lambda>m. \<not> mg_delivery_cursor m \<le> cursor) queue in
      thenS (whenS (queue \<noteq> []) (modifyS (set_queue key kept)))
     (bindS (getS (\<lambda>s. map_of (sg_latest_control s) key)) (\<lambda>latest.
        let taken = (case latest of Some m \<Rightarrow> mg_delivery_cursor m \<le> cursor | None \<Rightarrow> False) in
        thenS (whenS taken (modifyS (drop_latest_control key)))
          (returnS (length queue - length kept + (if taken then 1 else 0)))))))"

subsection \<open>Queueing\<close>

definition message_types :: "string list" where
  "message_types = [''webrtc_offer'', ''webrtc_answer'', ''ice_candidate'', ''media_capabilities'', ''media_fallback'',
     ''connection_status'', ''telemetry'', ''media_status'', ''session_event'', ''control_command'']"

definition check_route :: "session \<Rightarrow> string \<Rightarrow> string \<Rightarrow> string \<Rightarrow> unit res" where
  "check_route session sender recipient kind =
     (let driver_to_vehicle = (sender = ss_driver_id session \<and> recipient = ss_vehicle_id session);
          vehicle_to_driver = (sender = ss_vehicle_id session \<and> recipient = ss_driver_id session)
      in checks
      [throw_if (recipient \<noteq> ss_driver_id session \<and> recipient \<noteq> ss_vehicle_id session)
         (Unauthorized ''recipient is not current session participant''),
       throw_if (sender = recipient) (Unauthorized ''signaling messages must target the other session participant''),
       throw_if (kind \<in> {''media_capabilities'', ''media_fallback'', ''webrtc_answer''} \<and> \<not> driver_to_vehicle)
         (Unauthorized (kind @ '' route is invalid'')),
       throw_if (kind = ''webrtc_offer'' \<and> \<not> vehicle_to_driver) (Unauthorized ''webrtc_offer route is invalid''),
       throw_if (kind = ''control_command'' \<and> \<not> driver_to_vehicle) (Unauthorized ''control_command route is invalid''),
       throw_if (kind = ''ice_candidate'' \<and> \<not> driver_to_vehicle \<and> \<not> vehicle_to_driver)
         (Unauthorized ''ice_candidate route is invalid'')])"

definition check_description :: "'j signaling_env \<Rightarrow> string \<Rightarrow> 'j \<Rightarrow> unit res" where
  "check_description E kind payload =
     (if kind = ''webrtc_offer'' \<or> kind = ''webrtc_answer''
      then bindE (required_string (en_json E) payload ''sdp'') (\<lambda>sdp.
           if cf_max_sdp_bytes (en_config E) < length sdp then Inl (InvalidArgument ''WebRTC SDP exceeds configured limit'')
           else bindE (js_value_string (en_json E) payload ''type'' []) (\<lambda>described.
             throw_if (described \<noteq> (if kind = ''webrtc_offer'' then ''offer'' else ''answer''))
               (InvalidArgument ''WebRTC SDP type does not match signaling message type'')))
      else Inr ())"

definition check_candidate :: "'j signaling_env \<Rightarrow> string \<Rightarrow> 'j \<Rightarrow> unit res" where
  "check_candidate E kind payload =
     (if kind = ''ice_candidate''
      then bindE (required_string (en_json E) payload ''candidate'') (\<lambda>candidate.
        throw_if (cf_max_ice_candidate_bytes (en_config E) < length candidate)
          (InvalidArgument ''WebRTC ICE candidate exceeds configured limit''))
      else Inr ())"

definition check_intent_fresh :: "'j json_ops \<Rightarrow> 'j \<Rightarrow> unit res" where
  "check_intent_fresh J payload =
     (if \<not> js_contains J payload ''intent_fresh'' then Inl (InvalidArgument ''intent_fresh must be a boolean'')
      else bindE (js_at J payload ''intent_fresh'') (\<lambda>field.
        throw_if (\<not> js_is_boolean J field) (InvalidArgument ''intent_fresh must be a boolean'')))"

definition check_control_command :: "'j signaling_env \<Rightarrow> session \<Rightarrow> protocol_metadata \<Rightarrow> string \<Rightarrow> 'j \<Rightarrow> unit res" where
  "check_control_command E session m kind payload =
     (if kind \<noteq> ''control_command'' then Inr ()
      else bindE (command_from_json (en_json E) payload) (\<lambda>command.
        bindE (required_uint64 (en_json E) payload ''intent_seq'') (\<lambda>intent_seq.
        if intent_seq = 0 then Inl (InvalidArgument ''intent_seq must be positive'')
        else bindE (check_intent_fresh (en_json E) payload) (\<lambda>_.
        if protocol_version command \<noteq> protocol_version m \<or> vehicle_id command \<noteq> vehicle_id m \<or>
           driver_id command \<noteq> driver_id m \<or> session_id command \<noteq> session_id m \<or> seq command \<noteq> seq m \<or>
           sent_at_utc_ms command \<noteq> sent_at_utc_ms m
        then Inl (InvalidArgument ''control command payload metadata does not match signaling wrapper'')
        else throw_if (control_token command \<noteq> ss_control_token session)
          (Unauthorized ''control command token does not match active session'')))))"

text \<open>The checks of a message in their order, up to the sequence number.\<close>

definition admit_message ::
  "'j signaling_env \<Rightarrow> string \<Rightarrow> 'j \<Rightarrow> string option \<Rightarrow> ('j, string \<times> string \<times> string \<times> protocol_metadata \<times> 'j \<times> string) sig" where
  "admit_message E sid value actor =
     (let J = en_json E in
      bindS (liftS (required_string J value ''sender'')) (\<lambda>sender.
      bindS (liftS (required_string J value ''recipient'')) (\<lambda>recipient.
      bindS (liftS (required_string J value ''type'')) (\<lambda>kind.
      if kind \<notin> set message_types then throwS (InvalidArgument ''unsupported signaling message type'')
      else bindS (require_participant sid sender) (\<lambda>session.
      thenS (case actor of
               Some a \<Rightarrow> whenS (sender \<noteq> a) (throwS (Unauthorized ''sender is not authenticated websocket participant''))
             | None \<Rightarrow> validate_actor_credential E session sender value)
     (bindS (liftS (metadata_from_json J value)) (\<lambda>m.
      thenS (liftS (validate_message_metadata session m))
     (thenS (liftS (check_route session sender recipient kind))
     (bindS (liftS (js_value_json J value ''payload'' (js_object J []))) (\<lambda>payload.
      if \<not> js_is_object J payload then throwS (InvalidArgument ''payload must be an object'')
      else bindS (liftS (js_dump J payload)) (\<lambda>text.
      if cf_max_signaling_payload_bytes (en_config E) < length text
      then throwS (InvalidArgument ''signaling payload exceeds configured limit'')
      else thenS (liftS (check_description E kind payload))
     (thenS (liftS (check_candidate E kind payload))
     (thenS (liftS (check_control_command E session m kind payload))
        (returnS (sender, recipient, kind, m, payload, text)))))))))))))))"

definition sequence_key :: "string \<Rightarrow> string \<Rightarrow> string \<Rightarrow> string" where
  "sequence_key sid sender kind = message_key sid sender @ (if kind = ''control_command'' then '':native_control'' else [])"

definition message_fingerprint ::
  "'j json_ops \<Rightarrow> string \<Rightarrow> string \<Rightarrow> protocol_metadata \<Rightarrow> string \<Rightarrow> string res" where
  "message_fingerprint J recipient kind m payload_text =
     bindE (js_dump J (metadata_to_json J m)) (\<lambda>metadata_text.
       Inr (recipient @ [CHR 0x0A] @ kind @ [CHR 0x0A] @ metadata_text @ [CHR 0x0A] @ payload_text))"

definition push_message :: "string \<Rightarrow> 'j message \<Rightarrow> 'j signaling \<Rightarrow> 'j signaling" where
  "push_message key m s =
     (if mg_type m = ''control_command'' then s\<lparr>sg_latest_control := AList.update key m (sg_latest_control s)\<rparr>
      else s\<lparr>sg_messages := AList.update key (queue_of key s @ [m]) (sg_messages s)\<rparr>)"

definition next_cursor :: "string \<Rightarrow> 'j signaling \<Rightarrow> uint64" where
  "next_cursor key s = (case map_of (sg_next_cursors s) key of Some n \<Rightarrow> n | None \<Rightarrow> 0) + 1"

definition message_acknowledgement ::
  "'j json_ops \<Rightarrow> string \<Rightarrow> 'j message \<Rightarrow> nat \<Rightarrow> int \<Rightarrow> int \<Rightarrow> 'j" where
  "message_acknowledgement J sid m queued received_at processing_ms =
     (let base = js_object J
        [(''queued'', js_of_uint J (of_nat queued)),
         (''event'', js_of_string J ''signaling_ack''),
         (''type'', js_of_string J (mg_type m)),
         (''seq'', js_of_uint J (seq (mg_metadata m))),
         (''message_id'', js_of_string J (sid @ '':'' @ mg_sender m @ '':'' @ nat_to_string (unat (seq (mg_metadata m))))),
         (''delivery_cursor'', js_of_uint J (mg_delivery_cursor m)),
         (''duplicate'', js_of_bool J False)]
      in if mg_type m \<noteq> ''control_command'' then base
         else js_set J (js_set J (js_set J base ''cloud_received_at_utc_ms'' (js_of_int J received_at))
                ''cloud_queued_at_utc_ms'' (js_of_int J (mg_queued_at_utc_ms m)))
                ''cloud_ingress_processing_ms'' (js_of_int J processing_ms))"

definition queue_message ::
  "'j signaling_env \<Rightarrow> string \<Rightarrow> string \<Rightarrow> string \<Rightarrow> string \<Rightarrow> protocol_metadata \<Rightarrow> 'j \<Rightarrow> string \<Rightarrow> int \<Rightarrow> int \<Rightarrow> ('j, 'j) sig" where
  "queue_message E sid sender recipient kind m payload fingerprint received_at received_monotonic =
     (let key = message_key sid recipient in
      bindS (getS (next_cursor key)) (\<lambda>cursor.
      thenS (modifyS (\<lambda>s. s\<lparr>sg_next_cursors := AList.update key cursor (sg_next_cursors s)\<rparr>))
     (bindS (now_ms E) (\<lambda>queued_at.
      bindS (monotonic_now_ms E) (\<lambda>queued_monotonic.
      let message = \<lparr>mg_metadata = m, mg_sender = sender, mg_recipient = recipient, mg_type = kind, mg_payload = payload,
            mg_queued_at_utc_ms = queued_at, mg_queued_at_monotonic_ms = queued_monotonic, mg_delivery_cursor = cursor\<rparr> in
      thenS (modifyS (push_message key message))
     (bindS (getS (\<lambda>s. if kind = ''control_command'' then 1 else length (queue_of key s))) (\<lambda>queued.
      let ack = message_acknowledgement (en_json E) sid message queued received_at (max 0 (queued_monotonic - received_monotonic)) in
      thenS (modifyS (\<lambda>s. s\<lparr>sg_last_accepted := AList.update (sequence_key sid sender kind)
          \<lparr>am_sequence = seq m, am_fingerprint = fingerprint, am_acknowledgement = ack\<rparr> (sg_last_accepted s)\<rparr>))
     (thenS (whenS (kind \<noteq> ''control_command'') (audit E kind)) (returnS ack)))))))))"

definition sequence_conflict :: "string \<Rightarrow> string \<Rightarrow> uint64 \<Rightarrow> uint64 \<Rightarrow> exn" where
  "sequence_conflict message code received previous =
     Conflict message code [(''received_seq'', SUint received), (''last_accepted_seq'', SUint previous)]"

definition enqueue_signaling_message :: "'j signaling_env \<Rightarrow> string \<Rightarrow> 'j \<Rightarrow> string option \<Rightarrow> ('j, 'j) sig" where
  "enqueue_signaling_message E sid value actor =
     bindS (now_ms E) (\<lambda>received_at.
     bindS (monotonic_now_ms E) (\<lambda>received_monotonic.
     bindS (admit_message E sid value actor) (\<lambda>(sender, recipient, kind, m, payload, text).
     bindS (liftS (message_fingerprint (en_json E) recipient kind m text)) (\<lambda>fingerprint.
     bindS (getS (\<lambda>s. map_of (sg_last_accepted s) (sequence_key sid sender kind))) (\<lambda>accepted. case accepted of
       None \<Rightarrow> queue_message E sid sender recipient kind m payload fingerprint received_at received_monotonic
     | Some a \<Rightarrow>
         if seq m < am_sequence a
         then throwS (sequence_conflict ''signaling message sequence is older than the previous message''
                ''signaling_sequence_older'' (seq m) (am_sequence a))
         else if seq m = am_sequence a
         then if fingerprint \<noteq> am_fingerprint a
              then throwS (sequence_conflict ''signaling message sequence was reused with different content''
                     ''signaling_sequence_reused'' (seq m) (am_sequence a))
              else thenS (audit E ''signaling_retry_acknowledged'')
                     (returnS (js_set (en_json E) (am_acknowledgement a) ''duplicate'' (js_of_bool (en_json E) True)))
         else queue_message E sid sender recipient kind m payload fingerprint received_at received_monotonic)))))"

end
