(* ===== verification/Signaling_Api.thy ===== *)
theory Signaling_Api
  imports Signaling_Messages
begin

text \<open>
  The GET routes of the signaling service with \<open>handle_get\<close>, which dispatches to them, the
  connections of drivers and vehicles, and the administration. Each route is one definition; the
  routes that create and end sessions are in \<open>Signaling_Routes\<close>.
\<close>

subsection \<open>Numbers and encodings\<close>

definition trunc_div :: "int \<Rightarrow> int \<Rightarrow> int" where
  "trunc_div a b = (if a < 0 then - (- a div b) else a div b)"

text \<open>\<open>std::stoll\<close> in base 10 with the number of characters consumed.\<close>

definition stoll :: "string \<Rightarrow> (int \<times> nat) option" where
  "stoll text =
     (let spaces = takeWhile c_isspace text; rest = dropWhile c_isspace text;
          negative = rest \<noteq> [] \<and> hd rest = CHR ''-'';
          signed = rest \<noteq> [] \<and> (hd rest = CHR ''-'' \<or> hd rest = CHR ''+'');
          body = (if signed then tl rest else rest);
          ds = takeWhile c_isdigit body; n = (if negative then - int (digits_value ds) else int (digits_value ds))
      in if ds = [] \<or> \<not> in_int64 n then None else Some (n, length spaces + (if signed then 1 else 0) + length ds))"

definition turn_rest_credential :: "'j signaling_env \<Rightarrow> string \<Rightarrow> string \<Rightarrow> string res" where
  "turn_rest_credential E secret username = bindE (en_hmac_sha1 E secret username) (\<lambda>digest. Inr (base64_encode digest))"

definition session_name :: "uint64 \<Rightarrow> string" where
  "session_name counter = (let digits = nat_to_string (unat counter)
     in ''session-'' @ replicate (6 - length digits) CHR ''0'' @ digits)"

subsection \<open>Status\<close>

definition turn_usage_json :: "'j json_ops \<Rightarrow> session \<Rightarrow> 'j" where
  "turn_usage_json J session = js_object J
     [(''bytes_sent'', js_of_uint J (ss_relay_bytes_sent session)),
      (''bytes_received'', js_of_uint J (ss_relay_bytes_received session)),
      (''relay_bytes_total'', js_of_uint J (ss_relay_bytes_sent session + ss_relay_bytes_received session)),
      (''duration_ms'', js_of_uint J (ss_relay_duration_ms session)),
      (''sample_count'', js_of_uint J (ss_relay_usage_samples session)),
      (''last_bitrate_kbps'', js_of_double J (ss_last_relay_bitrate_kbps session))]"

definition session_to_json :: "'j json_ops \<Rightarrow> bool \<Rightarrow> session \<Rightarrow> 'j" where
  "session_to_json J include_control_token session =
     (let base = js_object J
        [(''session_id'', js_of_string J (ss_session_id session)),
         (''vehicle_id'', js_of_string J (ss_vehicle_id session)),
         (''driver_id'', js_of_string J (ss_driver_id session)),
         (''state'', js_of_string J (session_state_to_string (ss_state session))),
         (''turn_usage'', turn_usage_json J session)]
      in if include_control_token \<and> ss_control_token session \<noteq> []
         then js_set J (js_set J base ''control_token'' (js_of_string J (ss_control_token session)))
                ''control_token_expires_at_utc_ms'' (js_of_int J (ss_control_token_expires_at_ms session))
         else base)"

definition saturating_total :: "uint64 \<Rightarrow> uint64 \<Rightarrow> uint64" where
  "saturating_total total_bytes n = (if - 1 - total_bytes < n then - 1 else total_bytes + n)"

definition health :: "'j signaling_env \<Rightarrow> ('j, 'j) sig" where
  "health E =
     (let J = en_json E; c = en_config E; count = (\<lambda>n. js_of_uint J (of_nat n)) in
      bindS (now_ms E) (\<lambda>timestamp.
      bindS (getS id) (\<lambda>s.
        let used = filter (\<lambda>(i, x). ss_relay_usage_samples x \<noteq> 0) (sg_sessions s);
            relayed = foldl (\<lambda>n (i, x). saturating_total n (ss_relay_bytes_sent x + ss_relay_bytes_received x)) 0 used;
            locked = length (filter (\<lambda>(k, st). timestamp < lf_blocked_until_ms st) (sg_login_failures s));
            overflow = (0 < ar_window_started_at_ms (sg_api_rate_limit_overflow s) \<and>
              timestamp - ar_window_started_at_ms (sg_api_rate_limit_overflow s) < cf_api_rate_limit_window_ms c);
            alert = (\<lambda>code n. js_object J [(''code'', js_of_string J code), (''severity'', js_of_string J ''warning''), (''count'', count n)]);
            alerts = (if 0 < locked then [alert ''login_lockout_active'' locked] else []) @
              (if overflow then [alert ''api_rate_limit_source_capacity'' 1] else [])
        in returnS (js_object J
          [(''status'', js_of_string J (if alerts = [] then ''ok'' else ''degraded'')),
           (''runtime'', js_of_string J ''cpp''),
           (''service_instance_id'', js_of_string J (sg_service_instance_id s)),
           (''alerts'', js_array J alerts),
           (''alert_count'', count (length alerts)),
           (''online_vehicles'', count (length (sg_online_vehicles s))),
           (''online_drivers'', count (length (sg_online_drivers s))),
           (''active_sessions'', count (length (filter (\<lambda>(i, x). ss_state x = SActive \<or> ss_state x = SDegraded) (sg_sessions s)))),
           (''sessions'', count (length (sg_sessions s))),
           (''revoked_vehicles'', count (length (sg_revoked_vehicles s))),
           (''revoked_drivers'', count (length (sg_revoked_drivers s))),
           (''login_locked_buckets'', count locked),
           (''api_rate_limit_tracked_sources'', count (length (sg_api_rate_limits s))),
           (''api_rate_limit_overflow_active'', js_of_bool J overflow),
           (''api_rate_limited_requests'', js_of_uint J (sg_api_rate_limited_requests s)),
           (''turn_usage_sessions'', count (length used)),
           (''turn_relay_bytes_total'', js_of_uint J relayed)]))))"

definition time_route :: "'j signaling_env \<Rightarrow> http_request \<Rightarrow> ('j, server_response) sig" where
  "time_route E request =
     (let J = en_json E; encoded = query_value request ''client_send_ms'' in
      bindS (now_ms E) (\<lambda>server_receive_ms.
      if encoded = [] then throwS (InvalidArgument ''client_send_ms is required'')
      else case stoll encoded of
        None \<Rightarrow> throwS (InvalidArgument ''client_send_ms must be an integer'')
      | Some (client_send_ms, consumed) \<Rightarrow>
          if consumed \<noteq> length encoded then throwS (InvalidArgument ''client_send_ms must be an integer'')
          else bindS (now_ms E) (\<lambda>server_send_ms. respond E 200
            [(''time_domain'', js_of_string J ''signaling_server''), (''client_send_ms'', js_of_int J client_send_ms),
             (''server_receive_ms'', js_of_int J server_receive_ms), (''server_send_ms'', js_of_int J server_send_ms)])))"

definition active_session_of :: "string \<Rightarrow> 'j signaling \<Rightarrow> session option" where
  "active_session_of vehicle s = map_option snd (find (\<lambda>(i, x). ss_vehicle_id x = vehicle \<and> ss_state x \<noteq> SClosed) (sg_sessions s))"

definition vehicle_entry :: "'j signaling_env \<Rightarrow> 'j signaling \<Rightarrow> string \<Rightarrow> 'j" where
  "vehicle_entry E s vehicle =
     (let J = en_json E; revoked = (vehicle \<in> set (sg_revoked_vehicles s));
          online = (\<not> revoked \<and> map_of (sg_online_vehicles s) vehicle \<noteq> None); active = active_session_of vehicle s;
          state = (if revoked then ''revoked'' else case active of None \<Rightarrow> if online then ''online'' else ''offline''
            | Some x \<Rightarrow> session_state_to_string (ss_state x))
      in js_object J
        [(''vehicle_id'', js_of_string J vehicle), (''state'', js_of_string J state), (''online'', js_of_bool J online),
         (''controllable'', js_of_bool J (online \<and> active = None)),
         (''mobile_approval_required'', js_of_bool J (vehicle \<in> set (cf_mobile_approval_vehicles (en_config E)))),
         (''controlled_by'', js_of_string J (case active of None \<Rightarrow> [] | Some x \<Rightarrow> ss_driver_id x)),
         (''session_id'', js_of_string J (case active of None \<Rightarrow> [] | Some x \<Rightarrow> ss_session_id x))])"

definition driver_vehicles_route :: "'j signaling_env \<Rightarrow> http_request \<Rightarrow> string \<Rightarrow> ('j, server_response) sig" where
  "driver_vehicles_route E request driver =
     thenS (validate_driver_token E driver (credential_value request ''token'' ''x-mine-teleop-driver-token''))
     (bindS (getS (\<lambda>s. case map_of (cf_driver_vehicle_permissions (en_config E)) driver of
        None \<Rightarrow> [] | Some vs \<Rightarrow> map (vehicle_entry E s) (sort vs))) (\<lambda>vehicles.
      thenS (audit E ''authorized_vehicles_listed'')
        (respond E 200 [(''driver_id'', js_of_string (en_json E) driver), (''vehicles'', js_array (en_json E) vehicles)])))"

text \<open>A generation from the query string, read by \<open>required_uint64\<close> as a JSON string.\<close>

definition query_generation :: "'j signaling_env \<Rightarrow> http_request \<Rightarrow> uint64 res" where
  "query_generation E request = required_uint64 (en_json E)
     (js_object (en_json E) [(''connection_generation'', js_of_string (en_json E) (query_value request ''connection_generation''))])
     ''connection_generation''"

definition vehicle_credential :: "http_request \<Rightarrow> string" where
  "vehicle_credential request = credential_value request ''device_token'' ''x-mine-teleop-device-token''"

definition poll_messages_route :: "'j signaling_env \<Rightarrow> http_request \<Rightarrow> string \<Rightarrow> ('j, server_response) sig" where
  "poll_messages_route E request sid =
     (let recipient = query_value request ''recipient'' in
      if recipient = [] then throwS (InvalidArgument ''recipient is required'')
      else bindS (require_participant sid recipient) (\<lambda>session.
        thenS (if recipient = ss_driver_id session
               then validate_driver_token E recipient (credential_value request ''token'' ''x-mine-teleop-driver-token'')
               else bindS (liftS (query_generation E request)) (\<lambda>generation.
                 validate_vehicle_connection E recipient (vehicle_credential request) generation))
       (bindS (take_signaling_messages E sid recipient (query_value request ''types'') True) (\<lambda>messages.
          respond E 200 [(''messages'', js_array (en_json E) (map (message_to_json (en_json E)) messages))]))))"

definition vehicle_session_route :: "'j signaling_env \<Rightarrow> http_request \<Rightarrow> string \<Rightarrow> ('j, server_response) sig" where
  "vehicle_session_route E request vehicle =
     (let J = en_json E in
      bindS (liftS (query_generation E request)) (\<lambda>generation.
      thenS (validate_vehicle_connection E vehicle (vehicle_credential request) generation)
     (bindS (getS (\<lambda>s. (find (\<lambda>(i, x). ss_vehicle_id x = vehicle \<and> ss_state x = SActive) (sg_sessions s),
          map_of (sg_online_vehicles s) vehicle))) (\<lambda>found. case found of
        (_, None) \<Rightarrow> throwS (OutOfRange ''unordered_map::at'')
      | (Some (i, x), Some p) \<Rightarrow> respond E 200
          [(''vehicle_id'', js_of_string J vehicle), (''session_id'', js_of_string J (ss_session_id x)),
           (''driver_id'', js_of_string J (ss_driver_id x)), (''state'', js_of_string J (session_state_to_string (ss_state x))),
           (''control_token'', js_of_string J (ss_control_token x)),
           (''control_token_expires_at_utc_ms'', js_of_int J (ss_control_token_expires_at_ms x)),
           (''connection_generation'', js_of_uint J (cp_generation p))]
      | (None, Some p) \<Rightarrow> respond E 200
          [(''vehicle_id'', js_of_string J vehicle), (''session_id'', js_of_string J []), (''state'', js_of_string J ''online''),
           (''connection_generation'', js_of_uint J (cp_generation p))]))))"

definition request_credentials :: "'j signaling_env \<Rightarrow> http_request \<Rightarrow> 'j" where
  "request_credentials E request =
     (let J = en_json E in js_object J
       [(''token'', js_of_string J (credential_value request ''token'' ''x-mine-teleop-driver-token'')),
        (''device_token'', js_of_string J (vehicle_credential request)),
        (''connection_generation'', js_of_string J (query_value request ''connection_generation''))])"

definition query_participant :: "'j signaling_env \<Rightarrow> http_request \<Rightarrow> string \<Rightarrow> ('j, session) sig" where
  "query_participant E request sid =
     bindS (require_participant sid (query_value request ''actor'')) (\<lambda>session.
     thenS (validate_actor_credential E session (query_value request ''actor'') (request_credentials E request)) (returnS session))"

definition session_route :: "'j signaling_env \<Rightarrow> http_request \<Rightarrow> string \<Rightarrow> ('j, server_response) sig" where
  "session_route E request sid = bindS (query_participant E request sid) (\<lambda>session.
     liftS (response_json (en_json E) 200 (session_to_json (en_json E) False session)))"

definition ice_servers_route :: "'j signaling_env \<Rightarrow> http_request \<Rightarrow> string \<Rightarrow> ('j, server_response) sig" where
  "ice_servers_route E request sid =
     (let J = en_json E; c = en_config E; strings = (\<lambda>xs. js_array J (map (js_of_string J) xs));
          stun = (if cf_stun_urls c \<noteq> [] then [js_object J [(''urls'', strings (cf_stun_urls c))]] else []) in
      bindS (query_participant E request sid) (\<lambda>session.
      bindS (if cf_turn_urls c = [] then returnS ([], 0)
             else bindS (now_ms E) (\<lambda>now.
               let expires = trunc_div now 1000 + cf_turn_credential_ttl_seconds c;
                   username = int_to_string expires @ '':'' @ cf_turn_realm c @ '':'' @ ss_session_id session @ '':'' @
                     query_value request ''actor''
               in bindS (liftS (turn_rest_credential E (cf_turn_static_auth_secret c) username)) (\<lambda>credential.
                  returnS ([js_object J [(''urls'', strings (cf_turn_urls c)), (''username'', js_of_string J username),
                    (''credential'', js_of_string J credential), (''credentialType'', js_of_string J ''password'')]], expires * 1000))))
        (\<lambda>(turn, expires_at).
      thenS (audit E ''ice_servers_issued'')
        (respond E 200 [(''session_id'', js_of_string J (ss_session_id session)), (''ice_servers'', js_array J (stun @ turn)),
           (''expires_at_utc_ms'', js_of_int J expires_at)]))))"

definition handle_get :: "'j signaling_env \<Rightarrow> http_request \<Rightarrow> ('j, server_response) sig" where
  "handle_get E request =
     (if rq_path request = ''/health'' then bindS (health E) (\<lambda>v. liftS (response_json (en_json E) 200 v))
      else if rq_path request = ''/time'' then time_route E request
      else bindS (liftS (path_parts (rq_path request))) (\<lambda>parts.
        thenS (cleanup_now E)
        (case parts of
           [a, b] \<Rightarrow> if a = ''sessions'' then session_route E request b else not_found_response E
         | [a, b, c] \<Rightarrow>
             if a = ''drivers'' \<and> c = ''vehicles'' then driver_vehicles_route E request b
             else if a = ''signaling'' \<and> c = ''messages'' then poll_messages_route E request b
             else if a = ''vehicles'' \<and> c = ''session'' then vehicle_session_route E request b
             else if a = ''sessions'' \<and> c = ''ice_servers'' then ice_servers_route E request b
             else not_found_response E
         | _ \<Rightarrow> not_found_response E)))"

subsection \<open>Administration and connections\<close>

definition admin_api :: "'j signaling_env \<Rightarrow> string \<Rightarrow> 'j \<Rightarrow> ('j, server_response) sig" where
  "admin_api E path value =
     (let c = en_config E; J = en_json E;
          reply = (\<lambda>key i state. respond E 200 [(key, js_of_string J i), (''state'', js_of_string J state)]) in
      if cf_admin_token c = [] then throwS (Unauthorized ''admin API is disabled'')
      else bindS (liftS (optional_string J value ''admin_token'')) (\<lambda>token.
      if token \<noteq> cf_admin_token c then throwS (Unauthorized ''invalid admin token'')
      else bindS (liftS (required_string J value ''id'')) (\<lambda>i.
      if path = ''/admin/revoke/driver'' then
        if map_of (cf_driver_passwords c) i = None then throwS (NotFound ''unknown driver'')
        else thenS (modifyS (\<lambda>s. s\<lparr>sg_revoked_drivers := List.insert i (sg_revoked_drivers s)\<rparr>))
            (thenS (close_sessions_for_driver E i)
            (thenS (modifyS (\<lambda>s. s\<lparr>sg_online_drivers := AList.delete i (sg_online_drivers s),
                sg_driver_tokens := filter (\<lambda>(k, t). dt_driver_id t \<noteq> i) (sg_driver_tokens s)\<rparr>))
            (thenS (audit E ''driver_revoked'') (reply ''driver_id'' i ''revoked''))))
      else if path = ''/admin/restore/driver'' then
        if map_of (cf_driver_passwords c) i = None then throwS (NotFound ''unknown driver'')
        else thenS (modifyS (\<lambda>s. s\<lparr>sg_revoked_drivers := removeAll i (sg_revoked_drivers s)\<rparr>))
            (thenS (audit E ''driver_restored'') (reply ''driver_id'' i ''offline''))
      else if path = ''/admin/revoke/vehicle'' then
        if map_of (cf_device_tokens c) i = None then throwS (NotFound ''unknown vehicle'')
        else thenS (modifyS (\<lambda>s. s\<lparr>sg_revoked_vehicles := List.insert i (sg_revoked_vehicles s)\<rparr>))
            (thenS (close_sessions_for_vehicle E i)
            (thenS (modifyS (\<lambda>s. s\<lparr>sg_online_vehicles := AList.delete i (sg_online_vehicles s)\<rparr>))
            (thenS (audit E ''vehicle_revoked'') (reply ''vehicle_id'' i ''revoked''))))
      else if path = ''/admin/restore/vehicle'' then
        if map_of (cf_device_tokens c) i = None then throwS (NotFound ''unknown vehicle'')
        else thenS (modifyS (\<lambda>s. s\<lparr>sg_revoked_vehicles := removeAll i (sg_revoked_vehicles s)\<rparr>))
            (thenS (audit E ''vehicle_restored'') (reply ''vehicle_id'' i ''offline''))
      else not_found_response E)))"

definition driver_login :: "'j signaling_env \<Rightarrow> 'j \<Rightarrow> ('j, server_response) sig" where
  "driver_login E value =
     (let c = en_config E; J = en_json E in
      bindS (liftS (required_string J value ''driver_id'')) (\<lambda>driver.
      bindS (liftS (optional_string J value ''password'')) (\<lambda>password.
      bindS (now_ms E) (\<lambda>timestamp.
      thenS (enforce_login_rate_limit E driver timestamp False)
        (if map_of (cf_driver_passwords c) driver \<noteq> Some password
         then thenS (record_login_failure E driver timestamp False) (throwS (Unauthorized ''invalid driver credentials''))
         else thenS (clear_login_failures driver False)
             (bindS (getS (\<lambda>s. (driver \<in> set (sg_revoked_drivers s), map_of (sg_online_drivers s) driver \<noteq> None))) (\<lambda>(revoked, online).
              if revoked then thenS (audit E ''driver_login_rejected'') (throwS (Unauthorized ''driver is revoked''))
              else if online then thenS (audit E ''driver_login_rejected'') (throwS (Conflict ''driver is already online'' ''conflict'' []))
              else bindS (getS (\<lambda>s. sg_connection_generation s + 1)) (\<lambda>generation.
                thenS (modifyS (\<lambda>s. s\<lparr>sg_connection_generation := generation\<rparr>))
               (bindS (random_token E 24) (\<lambda>secret.
                let token = ''driver-token-'' @ secret; expires = timestamp + cf_token_ttl_ms c in
                thenS (modifyS (\<lambda>s. s\<lparr>
                    sg_driver_tokens := AList.update token \<lparr>dt_driver_id = driver, dt_expires_at_ms = expires,
                      dt_connection_generation = generation\<rparr> (sg_driver_tokens s),
                    sg_online_drivers := AList.update driver \<lparr>cp_connection_id = [], cp_generation = generation,
                      cp_connected_at_ms = timestamp, cp_last_seen_at_ms = timestamp\<rparr> (sg_online_drivers s)\<rparr>))
               (thenS (audit E ''driver_login'')
               (bindS (getS sg_service_instance_id) (\<lambda>instance_id.
                  respond E 200 [(''token_type'', js_of_string J ''bearer''), (''token'', js_of_string J token),
                    (''expires_at_ms'', js_of_int J expires), (''connection_generation'', js_of_uint J generation),
                    (''service_instance_id'', js_of_string J instance_id)])))))))))))))"

definition driver_heartbeat :: "'j signaling_env \<Rightarrow> 'j \<Rightarrow> ('j, server_response) sig" where
  "driver_heartbeat E value =
     (let J = en_json E in
      bindS (liftS (required_string J value ''driver_id'')) (\<lambda>driver.
      bindS (liftS (optional_string J value ''token'')) (\<lambda>token.
      thenS (validate_driver_token E driver token)
     (bindS (getS (\<lambda>s. map_of (sg_online_drivers s) driver)) (\<lambda>found. case found of
        None \<Rightarrow> throwS (OutOfRange ''unordered_map::at'')
      | Some p \<Rightarrow> respond E 200 [(''driver_id'', js_of_string J driver), (''state'', js_of_string J ''online''),
          (''connection_generation'', js_of_uint J (cp_generation p)), (''last_seen_at_utc_ms'', js_of_int J (cp_last_seen_at_ms p))])))))"

definition driver_logout :: "'j signaling_env \<Rightarrow> 'j \<Rightarrow> ('j, server_response) sig" where
  "driver_logout E value =
     (let J = en_json E in
      bindS (liftS (required_string J value ''driver_id'')) (\<lambda>driver.
      bindS (liftS (optional_string J value ''token'')) (\<lambda>token.
      thenS (validate_driver_token E driver token)
     (thenS (close_sessions_for_driver E driver)
     (thenS (modifyS (\<lambda>s. s\<lparr>sg_driver_tokens := AList.delete token (sg_driver_tokens s),
         sg_online_drivers := AList.delete driver (sg_online_drivers s)\<rparr>))
     (bindS (liftS (optional_string J value ''reason'')) (\<lambda>_.
      thenS (audit E ''driver_logout'')
        (respond E 200 [(''driver_id'', js_of_string J driver), (''state'', js_of_string J ''offline'')]))))))))"

definition vehicle_online :: "'j signaling_env \<Rightarrow> 'j \<Rightarrow> ('j, server_response) sig" where
  "vehicle_online E value =
     (let J = en_json E; reply = (\<lambda>vehicle generation policy. respond E 200 [(''vehicle_id'', js_of_string J vehicle),
            (''state'', js_of_string J ''online''), (''connection_generation'', js_of_uint J generation),
            (''duplicate_policy'', js_of_string J policy)]) in
      bindS (liftS (required_string J value ''vehicle_id'')) (\<lambda>vehicle.
      bindS (liftS (optional_string J value ''device_token'')) (\<lambda>token.
      thenS (validate_device_token E vehicle token)
     (bindS (liftS (required_string J value ''connection_id'')) (\<lambda>connection.
      bindS (now_ms E) (\<lambda>timestamp.
      bindS (getS (\<lambda>s. map_of (sg_online_vehicles s) vehicle)) (\<lambda>current.
        if map_option cp_connection_id current = Some connection
        then let p = the current in
          thenS (modifyS (\<lambda>s. s\<lparr>sg_online_vehicles :=
              AList.update vehicle (p\<lparr>cp_last_seen_at_ms := timestamp\<rparr>) (sg_online_vehicles s)\<rparr>))
            (reply vehicle (cp_generation p) ''same_connection_refresh'')
        else thenS (whenS (current \<noteq> None) (thenS (close_sessions_for_vehicle E vehicle) (audit E ''vehicle_connection_replaced'')))
            (bindS (getS (\<lambda>s. sg_connection_generation s + 1)) (\<lambda>generation.
             thenS (modifyS (\<lambda>s. s\<lparr>sg_connection_generation := generation, sg_online_vehicles := AList.update vehicle
                 \<lparr>cp_connection_id = connection, cp_generation = generation, cp_connected_at_ms = timestamp,
                  cp_last_seen_at_ms = timestamp\<rparr> (sg_online_vehicles s)\<rparr>))
            (thenS (audit E ''vehicle_online'')
               (reply vehicle generation (if current \<noteq> None then ''replace_previous_connection'' else ''new_connection''))))))))))))"

definition vehicle_heartbeat :: "'j signaling_env \<Rightarrow> 'j \<Rightarrow> ('j, server_response) sig" where
  "vehicle_heartbeat E value =
     (let J = en_json E in
      bindS (liftS (required_string J value ''vehicle_id'')) (\<lambda>vehicle.
      bindS (liftS (required_uint64 J value ''connection_generation'')) (\<lambda>generation.
      bindS (liftS (optional_string J value ''device_token'')) (\<lambda>token.
      thenS (validate_vehicle_connection E vehicle token generation)
     (bindS (getS (\<lambda>s. map_of (sg_online_vehicles s) vehicle)) (\<lambda>found. case found of
        None \<Rightarrow> throwS (OutOfRange ''unordered_map::at'')
      | Some p \<Rightarrow> respond E 200 [(''vehicle_id'', js_of_string J vehicle), (''state'', js_of_string J ''online''),
          (''connection_generation'', js_of_uint J generation), (''last_seen_at_utc_ms'', js_of_int J (cp_last_seen_at_ms p))]))))))"

definition vehicle_offline :: "'j signaling_env \<Rightarrow> 'j \<Rightarrow> ('j, server_response) sig" where
  "vehicle_offline E value =
     (let J = en_json E in
      bindS (liftS (required_string J value ''vehicle_id'')) (\<lambda>vehicle.
      bindS (liftS (required_uint64 J value ''connection_generation'')) (\<lambda>generation.
      bindS (liftS (optional_string J value ''device_token'')) (\<lambda>token.
      thenS (validate_vehicle_connection E vehicle token generation)
     (thenS (modifyS (\<lambda>s. s\<lparr>sg_online_vehicles := AList.delete vehicle (sg_online_vehicles s)\<rparr>))
     (thenS (close_sessions_for_vehicle E vehicle)
     (bindS (liftS (optional_string J value ''reason'')) (\<lambda>_.
      thenS (audit E ''vehicle_offline'')
        (respond E 200 [(''vehicle_id'', js_of_string J vehicle), (''state'', js_of_string J ''offline'')])))))))))"

end
