(* ===== verification/Signaling_Routes.thy ===== *)
theory Signaling_Routes
  imports Signaling_Api
begin

text \<open>
  The routes that create, renew, end and report on sessions, the dispatch of requests with the
  mapping of exceptions to responses.
\<close>

subsection \<open>Creating a session\<close>

definition cancel_approval :: "'j signaling_env \<Rightarrow> 'j \<Rightarrow> ('j, server_response) sig" where
  "cancel_approval E value =
     (let J = en_json E; stale = Conflict msg_cancel_stale ''mobile_approval_stale'' [];
          reply = (\<lambda>a. bindS (approval_fields E a) (\<lambda>kvs. liftS (response_json J 200 (json_fields J kvs)))) in
      bindS (liftS (required_string J value ''driver_id'')) (\<lambda>driver.
      bindS (liftS (required_string J value ''vehicle_id'')) (\<lambda>vehicle.
      bindS (liftS (optional_string J value ''token'')) (\<lambda>token.
      thenS (validate_driver_token E driver token)
     (bindS (liftS (required_string J value ''approval_request_id'')) (\<lambda>request_id.
      bindS (getS (\<lambda>s. (map_of (sg_mobile_approvals s) vehicle, map_of (sg_online_drivers s) driver))) (\<lambda>(found, presence). case found of
        None \<Rightarrow> throwS stale
      | Some a \<Rightarrow>
          if ma_request_id a \<noteq> request_id \<or> ma_driver_id a \<noteq> driver then throwS stale
          else (case presence of
            None \<Rightarrow> throwS (OutOfRange ''unordered_map::at'')
          | Some p \<Rightarrow>
              if ma_driver_generation a \<noteq> cp_generation p then throwS stale
              else thenS (whenS (ma_session_id a \<noteq> []) (with_session (ma_session_id a) (\<lambda>session.
                       whenS (ss_state session \<noteq> SClosed) (close_session E (ma_session_id a)))))
                  (if ma_state a \<in> {Pending, Approved, Consumed}
                   then thenS (modifyS (store_approval vehicle (a\<lparr>ma_state := Cancelled\<rparr>)))
                       (thenS (audit E ''mobile_approval_cancelled'') (reply (a\<lparr>ma_state := Cancelled\<rparr>)))
                   else reply a)))))))))"

definition approval_required :: "'j signaling_env \<Rightarrow> string \<Rightarrow> bool" where
  "approval_required E vehicle \<longleftrightarrow> vehicle \<in> set (cf_mobile_approval_vehicles (en_config E))"

definition on_approval :: "string \<Rightarrow> (mobile_approval \<Rightarrow> mobile_approval) \<Rightarrow> ('j, unit) sig" where
  "on_approval vehicle f = bindS (getS (\<lambda>s. map_of (sg_mobile_approvals s) vehicle)) (\<lambda>found. case found of
     None \<Rightarrow> throwS (OutOfRange ''unordered_map::at'')
   | Some a \<Rightarrow> modifyS (store_approval vehicle (f a)))"

text \<open>The checks before the authority is granted, and the consumption of the approval.\<close>

definition check_grant :: "'j signaling_env \<Rightarrow> string \<Rightarrow> string \<Rightarrow> ('j, unit) sig" where
  "check_grant E driver vehicle =
     bindS (getS (\<lambda>s. (map_of (sg_online_vehicles s) vehicle, active_session_of vehicle s))) (\<lambda>(online, active).
     if (case map_of (cf_driver_vehicle_permissions (en_config E)) driver of None \<Rightarrow> True | Some vs \<Rightarrow> vehicle \<notin> set vs)
     then thenS (audit E ''session_rejected'') (throwS (Unauthorized ''driver is not permitted to control this vehicle''))
     else if online = None then throwS (Conflict ''vehicle is not online'' ''conflict'' [])
     else if active \<noteq> None
     then thenS (audit E ''session_rejected'') (throwS (Conflict ''control authority already granted'' ''conflict'' []))
     else returnS ())"

definition consume_approval :: "'j signaling_env \<Rightarrow> string \<Rightarrow> string \<Rightarrow> string \<Rightarrow> ('j, unit) sig" where
  "consume_approval E driver vehicle request_id =
     thenS (on_approval vehicle (\<lambda>a. a))
    (bindS (try_audit E ''mobile_approval_consume_preflight'') (\<lambda>recorded.
     if \<not> recorded then throwS (ServiceUnavailable ''audit log unavailable; approval cannot be consumed'')
     else thenS (require_mobile_approval E driver vehicle request_id)
            (on_approval vehicle (\<lambda>a. a\<lparr>ma_state := Consumed\<rparr>))))"

definition new_session :: "string \<Rightarrow> string \<Rightarrow> string \<Rightarrow> int \<Rightarrow> string \<Rightarrow> int \<Rightarrow> session" where
  "new_session sid vehicle driver started token expires =
     \<lparr>ss_session_id = sid, ss_vehicle_id = vehicle, ss_driver_id = driver, ss_started_at_utc_ms = started, ss_state = SOnline,
      ss_control_token = token, ss_control_token_expires_at_ms = expires, ss_relay_bytes_sent = 0, ss_relay_bytes_received = 0,
      ss_relay_duration_ms = 0, ss_relay_usage_samples = 0, ss_last_relay_bitrate_kbps = zero, ss_last_relay_usage_by_actor = []\<rparr>"

definition force_closed :: "string \<Rightarrow> ('j, unit) sig" where
  "force_closed sid = with_session sid (\<lambda>session. modifyS (store_session sid (session\<lparr>ss_state := SClosed\<rparr>)))"

definition grant_not_recorded :: exn where
  "grant_not_recorded = ServiceUnavailable ''audit log unavailable; control authority was not granted''"

definition activate_session :: "'j signaling_env \<Rightarrow> string \<Rightarrow> ('j, unit) sig" where
  "activate_session E sid =
     tryS (thenS (audit E ''session_created'')
          (thenS (transition_session E sid SReserved)
          (thenS (transition_session E sid SConnecting)
          (thenS (transition_session E sid SActive)
          (bindS (try_audit E ''control_authority_granted'') (\<lambda>recorded.
             whenS (\<not> recorded) (thenS (close_session E sid) (throwS grant_not_recorded))))))))
       (\<lambda>_. thenS (force_closed sid) (throwS grant_not_recorded))"

definition session_reply :: "'j signaling_env \<Rightarrow> bool \<Rightarrow> string \<Rightarrow> ('j, server_response) sig" where
  "session_reply E include_control_token sid = bindS (getS (\<lambda>s. map_of (sg_sessions s) sid)) (\<lambda>found. case found of
     None \<Rightarrow> throwS (OutOfRange ''unordered_map::at'')
   | Some session \<Rightarrow> liftS (response_json (en_json E) 200 (session_to_json (en_json E) include_control_token session)))"

definition grant_session :: "'j signaling_env \<Rightarrow> string \<Rightarrow> string \<Rightarrow> ('j, string) sig" where
  "grant_session E driver vehicle =
     bindS (getS (\<lambda>s. sg_session_counter s + 1)) (\<lambda>counter.
     thenS (modifyS (\<lambda>s. s\<lparr>sg_session_counter := counter\<rparr>))
    (bindS (now_ms E) (\<lambda>started.
     bindS (random_token E 24) (\<lambda>secret.
     bindS (now_ms E) (\<lambda>now.
       let sid = session_name counter;
           session = new_session sid vehicle driver started (''control-token-'' @ secret) (now + cf_control_token_ttl_ms (en_config E))
       in thenS (modifyS (store_session sid session))
         (thenS (whenS (approval_required E vehicle) (on_approval vehicle (\<lambda>a. a\<lparr>ma_session_id := sid\<rparr>)))
         (thenS (activate_session E sid) (returnS sid))))))))"

definition create_session :: "'j signaling_env \<Rightarrow> 'j \<Rightarrow> ('j, server_response) sig" where
  "create_session E value =
     (let J = en_json E in
      bindS (liftS (required_string J value ''driver_id'')) (\<lambda>driver.
      bindS (liftS (required_string J value ''vehicle_id'')) (\<lambda>vehicle.
      bindS (liftS (optional_string J value ''token'')) (\<lambda>token.
      thenS (validate_driver_token E driver token)
     (thenS (check_grant E driver vehicle)
     (bindS (liftS (optional_string J value ''approval_request_id'')) (\<lambda>request_id.
      thenS (require_mobile_approval E driver vehicle request_id)
     (bindS (try_audit E ''control_authority_grant_preflight'') (\<lambda>recorded.
      if \<not> recorded then throwS (ServiceUnavailable ''audit log unavailable; new control authority is disabled'')
      else thenS (whenS (approval_required E vehicle) (consume_approval E driver vehicle request_id))
          (bindS (grant_session E driver vehicle) (session_reply E True)))))))))))"

subsection \<open>Routes of a session\<close>

definition acting :: "'j signaling_env \<Rightarrow> string \<Rightarrow> 'j \<Rightarrow> (string \<Rightarrow> session \<Rightarrow> ('j, 'a) sig) \<Rightarrow> ('j, 'a) sig" where
  "acting E sid value f =
     bindS (liftS (required_string (en_json E) value ''actor'')) (\<lambda>actor.
     bindS (require_participant sid actor) (\<lambda>session.
     thenS (validate_actor_credential E session actor value) (f actor session)))"

definition renew_session :: "'j signaling_env \<Rightarrow> string \<Rightarrow> 'j \<Rightarrow> ('j, server_response) sig" where
  "renew_session E sid value =
     bindS (liftS (required_string (en_json E) value ''actor'')) (\<lambda>actor.
     bindS (require_participant sid actor) (\<lambda>session.
     if actor \<noteq> ss_driver_id session then throwS (Unauthorized ''only the current driver can renew control authority'')
     else thenS (validate_actor_credential E session actor value)
         (bindS (now_ms E) (\<lambda>renewed.
          thenS (modifyS (store_session sid (session\<lparr>ss_control_token_expires_at_ms :=
              saturating_deadline (cf_control_token_ttl_ms (en_config E)) renewed\<rparr>)))
         (thenS (audit E ''control_authority_renewed'') (session_reply E True sid))))))"

definition end_session :: "'j signaling_env \<Rightarrow> string \<Rightarrow> 'j \<Rightarrow> ('j, server_response) sig" where
  "end_session E sid value = acting E sid value (\<lambda>actor session.
     bindS (liftS (optional_string (en_json E) value ''reason'')) (\<lambda>_.
     thenS (close_session E sid) (thenS (audit E ''session_ended'') (session_reply E False sid))))"

definition revoke_authority :: "'j signaling_env \<Rightarrow> string \<Rightarrow> 'j \<Rightarrow> ('j, server_response) sig" where
  "revoke_authority E sid value = acting E sid value (\<lambda>actor session.
     bindS (liftS (optional_string (en_json E) value ''reason'')) (\<lambda>_.
     thenS (close_session E sid) (thenS (audit E ''control_authority_revoked'') (session_reply E False sid))))"

definition event_reply :: "'j signaling_env \<Rightarrow> string \<Rightarrow> session \<Rightarrow> ('j, server_response) sig" where
  "event_reply E event session = respond E 200 [(''event'', js_of_string (en_json E) event),
     (''session_id'', js_of_string (en_json E) (ss_session_id session))]"

definition webrtc_connection :: "'j signaling_env \<Rightarrow> string \<Rightarrow> 'j \<Rightarrow> ('j, server_response) sig" where
  "webrtc_connection E sid value = acting E sid value (\<lambda>actor session.
     let J = en_json E in
     bindS (liftS (required_string J value ''connection_state'')) (\<lambda>state.
     bindS (liftS (required_string J value ''connection_method'')) (\<lambda>connection_method.
     if state \<notin> {''new'', ''connecting'', ''connected'', ''disconnected'', ''failed'', ''closed''}
     then throwS (InvalidArgument ''invalid WebRTC connection state'')
     else if connection_method \<notin> {''unknown'', ''direct'', ''STUN'', ''TURN''} then throwS (InvalidArgument ''invalid WebRTC connection method'')
     else bindS (liftS (required_boolean J value ''turn_in_use'')) (\<lambda>turn_in_use.
     bindS (liftS (required_boolean J value ''time_sync_synchronized'')) (\<lambda>_.
     bindS (liftS (required_boolean J value ''time_sync_acceptable'')) (\<lambda>acceptable.
     bindS (liftS (required_int64 J value ''time_sync_uncertainty_ms'')) (\<lambda>uncertainty_ms.
     bindS (liftS (required_int64 J value ''sampled_at_utc_ms'')) (\<lambda>sampled_at.
     if uncertainty_ms < 0 then throwS (InvalidArgument ''time_sync_uncertainty_ms must be non-negative'')
     else if sampled_at \<le> 0 then throwS (InvalidArgument ''sampled_at_utc_ms must be positive'')
     else if turn_in_use \<noteq> (connection_method = ''TURN'')
     then throwS (InvalidArgument ''TURN usage does not match the WebRTC connection method'')
     else let event = (if state = ''connected'' then ''webrtc_connection_succeeded''
            else if state = ''failed'' then ''webrtc_connection_failed'' else ''webrtc_connection_state'')
       in thenS (audit E event) (thenS (whenS (\<not> acceptable) (audit E ''time_sync_anomaly'')) (event_reply E event session))))))))))"

definition abnormal_disconnect :: "'j signaling_env \<Rightarrow> string \<Rightarrow> 'j \<Rightarrow> ('j, server_response) sig" where
  "abnormal_disconnect E sid value = acting E sid value (\<lambda>actor session.
     bindS (liftS (required_string (en_json E) value ''reason'')) (\<lambda>_.
     bindS (liftS (required_string (en_json E) value ''detected_by'')) (\<lambda>_.
     thenS (audit E ''abnormal_disconnect'') (event_reply E ''abnormal_disconnect'' session))))"

definition diagnostics_report :: "'j signaling_env \<Rightarrow> string \<Rightarrow> 'j \<Rightarrow> ('j, server_response) sig" where
  "diagnostics_report E sid value = acting E sid value (\<lambda>actor session.
     let J = en_json E in
     bindS (liftS (required_string J value ''component'')) (\<lambda>_.
     bindS (liftS (required_nonnegative_uint64 J value ''rtt_ms'')) (\<lambda>_.
     bindS (liftS (required_nonnegative_number J value ''packet_loss_percent'')) (\<lambda>packet_loss.
     bindS (liftS (required_nonnegative_uint64 J value ''jitter_ms'')) (\<lambda>_.
     bindS (liftS (required_nonnegative_uint64 J value ''video_latency_ms'')) (\<lambda>_.
     bindS (liftS (required_nonnegative_number J value ''control_rate_hz'')) (\<lambda>_.
     if dlt (dbl 100) packet_loss then throwS (InvalidArgument ''packet_loss_percent must not exceed 100'')
     else thenS (audit E ''realtime_diagnostics'') (event_reply E ''realtime_diagnostics'' session))))))))"

definition control_timeout_report :: "'j signaling_env \<Rightarrow> string \<Rightarrow> 'j \<Rightarrow> ('j, server_response) sig" where
  "control_timeout_report E sid value = acting E sid value (\<lambda>actor session.
     let J = en_json E in
     if actor \<noteq> ss_vehicle_id session then throwS (Unauthorized ''only the vehicle may report a control timeout'')
     else
     bindS (liftS (required_nonnegative_uint64 J value ''last_valid_control_at_utc_ms'')) (\<lambda>last_valid.
     bindS (liftS (required_nonnegative_uint64 J value ''braking_at_utc_ms'')) (\<lambda>braking_at.
     bindS (liftS (required_nonnegative_uint64 J value ''control_timeout_ms'')) (\<lambda>timeout.
     if timeout = 0 then throwS (InvalidArgument ''control_timeout_ms must be positive'')
     else if braking_at < last_valid
     then throwS (InvalidArgument ''braking_at_utc_ms must not precede the last valid control time'')
     else thenS (audit E ''control_timeout'') (event_reply E ''control_timeout'' session)))))"

definition estop_report :: "'j signaling_env \<Rightarrow> string \<Rightarrow> 'j \<Rightarrow> ('j, server_response) sig" where
  "estop_report E sid value = acting E sid value (\<lambda>actor session.
     bindS (liftS (required_string (en_json E) value ''reason'')) (\<lambda>_.
     bindS (liftS (required_nonnegative_uint64 (en_json E) value ''control_seq'')) (\<lambda>_.
     thenS (audit E ''estop'') (event_reply E ''estop'' session))))"

definition turn_relay_report :: "'j signaling_env \<Rightarrow> string \<Rightarrow> 'j \<Rightarrow> ('j, server_response) sig" where
  "turn_relay_report E sid value = acting E sid value (\<lambda>actor session.
     bindS (liftS (required_string (en_json E) value ''turn_url'')) (\<lambda>_.
     bindS (liftS (required_string (en_json E) value ''relay_candidate'')) (\<lambda>_.
     bindS (liftS (required_string (en_json E) value ''selected_pair'')) (\<lambda>_.
     thenS (audit E ''turn_relay_enabled'') (event_reply E ''turn_relay_enabled'' session)))))"

subsection \<open>Relay usage\<close>

definition relay_overflow :: "session \<Rightarrow> relay_usage_sample \<Rightarrow> string option" where
  "relay_overflow session sample =
     (if - 1 - ru_bytes_received sample < ru_bytes_sent sample then Some ''TURN usage sample bytes overflow''
      else if - 1 - ss_relay_bytes_received session < ss_relay_bytes_sent session \<or>
         - 1 - (ru_bytes_sent sample + ru_bytes_received sample) < ss_relay_bytes_sent session + ss_relay_bytes_received session \<or>
         - 1 - ru_duration_ms sample < ss_relay_duration_ms session \<or> ss_relay_usage_samples session = - 1
      then Some ''TURN usage total overflow'' else None)"

text \<open>\<open>static_cast<double>\<close> of a \<open>std::uint64_t\<close> rounds to the nearest double.\<close>

definition add_relay_sample :: "string \<Rightarrow> relay_usage_sample \<Rightarrow> session \<Rightarrow> session" where
  "add_relay_sample actor sample session = session\<lparr>
     ss_relay_bytes_sent := ss_relay_bytes_sent session + ru_bytes_sent sample,
     ss_relay_bytes_received := ss_relay_bytes_received session + ru_bytes_received sample,
     ss_relay_duration_ms := ss_relay_duration_ms session + ru_duration_ms sample,
     ss_relay_usage_samples := ss_relay_usage_samples session + 1,
     ss_last_relay_bitrate_kbps := ddiv (dmul (dbl (of_int (uint (ru_bytes_sent sample + ru_bytes_received sample)))) (dbl 8))
       (dbl (of_int (uint (ru_duration_ms sample)))),
     ss_last_relay_usage_by_actor := AList.update actor sample (ss_last_relay_usage_by_actor session)\<rparr>"

definition turn_usage_reply :: "'j signaling_env \<Rightarrow> bool \<Rightarrow> uint64 \<Rightarrow> session \<Rightarrow> ('j, server_response) sig" where
  "turn_usage_reply E duplicate n session = respond E 200
     [(''event'', js_of_string (en_json E) ''turn_relay_usage''), (''duplicate'', js_of_bool (en_json E) duplicate),
      (''sample_seq'', js_of_uint (en_json E) n), (''turn_usage'', turn_usage_json (en_json E) session)]"

definition turn_usage :: "'j signaling_env \<Rightarrow> string \<Rightarrow> 'j \<Rightarrow> ('j, server_response) sig" where
  "turn_usage E sid value = acting E sid value (\<lambda>actor session.
     let J = en_json E in
     bindS (liftS (required_nonnegative_uint64 J value ''sample_seq'')) (\<lambda>n.
     if n = 0 then throwS (InvalidArgument ''sample_seq must be positive'')
     else bindS (liftS (required_nonnegative_uint64 J value ''bytes_sent'')) (\<lambda>sent.
     bindS (liftS (required_nonnegative_uint64 J value ''bytes_received'')) (\<lambda>received.
     bindS (liftS (required_nonnegative_uint64 J value ''duration_ms'')) (\<lambda>duration.
     if duration = 0 then throwS (InvalidArgument ''duration_ms must be positive'')
     else let sample = \<lparr>ru_sequence = n, ru_bytes_sent = sent, ru_bytes_received = received, ru_duration_ms = duration\<rparr>;
              previous = map_of (ss_last_relay_usage_by_actor session) actor;
              record_sample = (case relay_overflow session sample of
                  Some message \<Rightarrow> throwS (InvalidArgument message)
                | None \<Rightarrow> thenS (audit E ''turn_relay_usage'')
                    (thenS (modifyS (store_session sid (add_relay_sample actor sample session)))
                       (turn_usage_reply E False n (add_relay_sample actor sample session))))
       in case previous of
            None \<Rightarrow> record_sample
          | Some q \<Rightarrow>
              if n < ru_sequence q then throwS (Conflict ''stale TURN usage sample sequence'' ''conflict'' [])
              else if n = ru_sequence q
              then if sent \<noteq> ru_bytes_sent q \<or> received \<noteq> ru_bytes_received q \<or> duration \<noteq> ru_duration_ms q
                   then throwS (Conflict ''TURN usage sample sequence was reused with different content'' ''conflict'' [])
                   else turn_usage_reply E True n session
              else record_sample)))))"

subsection \<open>Dispatch\<close>

definition handle_post :: "'j signaling_env \<Rightarrow> http_request \<Rightarrow> ('j, server_response) sig" where
  "handle_post E request =
     bindS (liftS (json_body (en_json E) request)) (\<lambda>value.
     bindS (liftS (path_parts (rq_path request))) (\<lambda>parts.
     thenS (cleanup_now E)
     (let path = rq_path request in
      if starts_with path ''/admin/'' then admin_api E path value
      else if path = ''/auth/driver_login'' then driver_login E value
      else if path = ''/auth/driver_heartbeat'' then driver_heartbeat E value
      else if path = ''/auth/driver_logout'' then driver_logout E value
      else if path = ''/vehicles/online'' then vehicle_online E value
      else if path = ''/vehicles/heartbeat'' then vehicle_heartbeat E value
      else if path = ''/vehicles/offline'' then vehicle_offline E value
      else if path = ''/sessions/approval/cancel'' then cancel_approval E value
      else if path = ''/sessions'' then create_session E value
      else case parts of
        [a, b, c] \<Rightarrow>
          if a = ''sessions'' \<and> c = ''renew'' then renew_session E b value
          else if a = ''sessions'' \<and> c = ''end'' then end_session E b value
          else if a = ''sessions'' \<and> c = ''webrtc_connection'' then webrtc_connection E b value
          else if a = ''sessions'' \<and> c = ''abnormal_disconnect'' then abnormal_disconnect E b value
          else if a = ''sessions'' \<and> c = ''diagnostics'' then diagnostics_report E b value
          else if a = ''sessions'' \<and> c = ''control_timeout'' then control_timeout_report E b value
          else if a = ''sessions'' \<and> c = ''estop'' then estop_report E b value
          else if a = ''sessions'' \<and> c = ''turn_relay'' then turn_relay_report E b value
          else if a = ''sessions'' \<and> c = ''turn_usage'' then turn_usage E b value
          else if a = ''signaling'' \<and> c = ''messages''
          then bindS (enqueue_signaling_message E b value None) (\<lambda>ack. liftS (response_json (en_json E) 200 ack))
          else not_found_response E
      | [a, b, c, d] \<Rightarrow>
          if a = ''sessions'' \<and> c = ''control_authority'' \<and> d = ''revoke'' then revoke_authority E b value
          else not_found_response E
      | _ \<Rightarrow> not_found_response E)))"

definition session_busy :: "(session \<Rightarrow> bool) \<Rightarrow> 'j signaling \<Rightarrow> bool" where
  "session_busy p s \<longleftrightarrow> list_ex (\<lambda>(i, x). p x \<and> ss_state x \<noteq> SClosed) (sg_sessions s)"

definition broker :: "(nat \<Rightarrow> 'a res) \<Rightarrow> ('j, 'a) sig" where
  "broker call = bindS (reading call) liftS"

definition diagnostics_driver :: "'j signaling_env \<Rightarrow> 'j \<Rightarrow> string \<Rightarrow> ('j, server_response) sig" where
  "diagnostics_driver E value operation =
     (let J = en_json E; L = en_logs E; reply = (\<lambda>v. liftS (response_json J 200 v));
          vehicle_of = (\<lambda>r. bindE (js_at J r ''vehicle_id'') (js_get_string J)) in
      bindS (liftS (required_string J value ''driver_id'')) (\<lambda>driver.
      bindS (liftS (optional_string J value ''token'')) (\<lambda>token.
      thenS (validate_driver_token E driver token)
     (let allowed = (case map_of (cf_driver_vehicle_permissions (en_config E)) driver of Some vs \<Rightarrow> vs | None \<Rightarrow> []) in
      if operation = ''list'' then
        bindS (broker (\<lambda>n. lb_sessions L n driver)) (\<lambda>records.
        bindS (mapS (\<lambda>r. bindS (liftS (vehicle_of r)) (\<lambda>v. returnS (v, r))) records) (\<lambda>named.
          respond E 200 [(''sessions'', js_array J (map snd (filter (\<lambda>(v, r). v \<in> set allowed) named)))]))
      else if operation = ''start'' then
        bindS (liftS (required_string J value ''key'')) (\<lambda>key.
        bindS (broker (\<lambda>n. lb_session L n key driver)) (\<lambda>log_record.
        bindS (liftS (vehicle_of log_record)) (\<lambda>vehicle.
        if vehicle \<notin> set allowed then throwS (Unauthorized ''vehicle permission was revoked'')
        else thenS (cleanup_now E)
            (bindS (getS (\<lambda>s. (map_of (sg_online_vehicles s) vehicle \<noteq> None,
                session_busy (\<lambda>x. ss_vehicle_id x = vehicle \<or> ss_driver_id x = driver) s))) (\<lambda>(online, busy).
             if busy then throwS (Conflict ''end the active control session before collecting logs'' ''conflict'' [])
             else bindS (broker (\<lambda>n. lb_start L n log_record online)) reply)))))
      else
        bindS (liftS (required_string J value ''export_id'')) (\<lambda>i.
        bindS (broker (\<lambda>n. lb_status L n i driver False)) (\<lambda>state.
        bindS (liftS (bindE (js_at J state ''session'') vehicle_of)) (\<lambda>vehicle.
        if vehicle \<notin> set allowed then throwS (Unauthorized ''vehicle permission was revoked'')
        else if operation = ''status'' then
          bindS (liftS (js_value_bool J value ''finish_partial'' False)) (\<lambda>partial.
          bindS (broker (\<lambda>n. lb_status L n i driver partial)) reply)
        else if operation = ''chunk'' then bindS (broker (\<lambda>n. lb_chunk L n i driver value)) reply
        else if operation = ''release'' then
          bindS (broker (\<lambda>n. lb_release L n i driver)) (\<lambda>_. respond E 200 [(''released'', js_of_bool J True)])
        else throwS (InvalidArgument ''unknown log export operation''))))))))"

definition handle_diagnostics :: "'j signaling_env \<Rightarrow> http_request \<Rightarrow> ('j, server_response) sig" where
  "handle_diagnostics E request =
     (let J = en_json E in
      if rq_method request \<noteq> ''POST'' then respond E 405 [(''error'', js_of_string J ''POST required'')]
      else bindS (liftS (json_body J request)) (\<lambda>value.
        bindS (liftS (required_string J value ''operation'')) (\<lambda>operation.
        if rq_path request = ''/sessions/logs/vehicle'' then
          bindS (liftS (required_string J value ''vehicle_id'')) (\<lambda>vehicle.
          bindS (liftS (optional_string J value ''device_token'')) (\<lambda>token.
          thenS (validate_device_token E vehicle token)
         (bindS (getS (\<lambda>s. \<not> session_busy (\<lambda>x. ss_vehicle_id x = vehicle) s)) (\<lambda>idle.
          bindS (broker (\<lambda>n. lb_vehicle (en_logs E) n vehicle value idle)) (\<lambda>v. liftS (response_json J 200 v))))))
        else if rq_path request \<noteq> ''/sessions/logs/driver'' then not_found_response E
        else diagnostics_driver E value operation)))"

definition error_response :: "'j signaling_env \<Rightarrow> exn \<Rightarrow> ('j, server_response) sig" where
  "error_response E e =
     (let J = en_json E; plain = (\<lambda>status m. respond E status [(''error'', js_of_string J m)])
      in case e of
        Unauthorized m \<Rightarrow> plain 401 m
      | TooManyRequests m retry_after_ms \<Rightarrow> liftS (too_many_requests_response J m retry_after_ms)
      | ServiceUnavailable m \<Rightarrow> plain 503 m
      | NotFound m \<Rightarrow> plain 404 m
      | Conflict m code details \<Rightarrow> liftS (response_json J 409
          (foldl (\<lambda>value (key, x). js_set J value key (json_scalar J x))
             (js_object J [(''error'', js_of_string J m), (''issue_code'', js_of_string J code)]) details))
      | InvalidArgument m \<Rightarrow> plain 400 m
      | JsonError m \<Rightarrow> plain 400 m
      | _ \<Rightarrow> throwS e)"

definition dispatch :: "'j signaling_env \<Rightarrow> http_request \<Rightarrow> ('j, server_response) sig" where
  "dispatch E request =
     bindS (now_ms E) (\<lambda>timestamp.
     thenS (enforce_api_rate_limit E request timestamp)
     (if starts_with (rq_path request) ''/sessions/logs/''
      then bindS (handle_diagnostics E request) (\<lambda>r. returnS (add_header ''Cache-Control'' ''no-store'' r))
      else if starts_with (rq_path request) ''/mobile/api/'' then thenS (cleanup_now E) (handle_mobile_api E request)
      else if rq_method request = ''GET'' then handle_get E request
      else if rq_method request = ''POST'' then handle_post E request
      else respond E 405 [(''error'', js_of_string (en_json E) ''method not allowed'')]))"

definition finish_response :: "http_request \<Rightarrow> string \<Rightarrow> server_response \<Rightarrow> server_response" where
  "finish_response request request_id r =
     (let mobile = starts_with (rq_path request) ''/mobile/api/'';
          r1 = (if (rq_path request = ''/auth/driver_login'' \<or> mobile) \<and>
                   \<not> list_ex (\<lambda>(name, v). lower name = ''cache-control'') (sr_headers r)
                then add_header ''Cache-Control'' ''no-store'' r else r);
          r2 = (if mobile then add_header ''X-Content-Type-Options'' ''nosniff'' r1 else r1)
      in add_request_id_header r2 request_id)"

definition handle :: "'j signaling_env \<Rightarrow> http_request \<Rightarrow> ('j, server_response) sig" where
  "handle E request =
     bindS (random_token E 12) (\<lambda>token.
     bindS (tryS (dispatch E request) (error_response E)) (\<lambda>r.
       returnS (finish_response request (''request-'' @ token) r)))"

end
