(* ===== verification/Signaling_Websocket.thy ===== *)
theory Signaling_Websocket
  imports Signaling_Routes Websocket
begin

text \<open>
  The WebSocket endpoint of the signaling service: the checks and the upgrade of a connection, and
  one pass of its loop, which delivers pending messages, receives one message and acknowledges or
  queues it. The service is locked section by section, so the sections are operations of their own;
  a pass runs on the service and on the connection. The diagnostic trace is left out.
\<close>

subsection \<open>Connections\<close>

record 'j ws_request =
  wq_session :: string
  wq_participant :: string
  wq_send_only :: bool
  wq_control_only :: bool
  wq_credentials :: 'j

record ws_link =
  wl_socket :: websocket
  wl_last_cursor :: uint64
  wl_last_sent_at :: int

datatype 'j ws_opening = NotWebSocket | WsRefused "server_response option" | WsAccepted "'j ws_request" string

text \<open>The section that every pass starts with: expiry, participation and credential.\<close>

definition ws_participant :: "'j signaling_env \<Rightarrow> 'j ws_request \<Rightarrow> ('j, session) sig" where
  "ws_participant E Q =
     thenS (cleanup_now E)
     (bindS (require_participant (wq_session Q) (wq_participant Q)) (\<lambda>session.
      thenS (validate_actor_credential E session (wq_participant Q) (wq_credentials Q)) (returnS session)))"

definition ws_authenticate :: "'j signaling_env \<Rightarrow> 'j ws_request \<Rightarrow> ('j, unit) sig" where
  "ws_authenticate E Q = bindS (ws_participant E Q) (\<lambda>session.
     if wq_send_only Q \<and> wq_participant Q \<noteq> ss_driver_id session
     then throwS (Unauthorized ''send-only signaling is restricted to the session driver'')
     else if wq_control_only Q \<and> wq_participant Q \<noteq> ss_vehicle_id session
     then throwS (Unauthorized ''control-command receive signaling is restricted to the session vehicle'')
     else returnS ())"

text \<open>A refusal is a response with the request id, or nothing if it cannot be built.\<close>

definition ws_reject :: "'j signaling_env \<Rightarrow> string \<Rightarrow> int \<Rightarrow> string \<Rightarrow> ('j, 'j ws_opening) sig" where
  "ws_reject E request_id status message =
     returnS (WsRefused (case response_json (en_json E) status (js_object (en_json E) [(''error'', js_of_string (en_json E) message)]) of
       Inl e \<Rightarrow> None | Inr r \<Rightarrow> Some (add_request_id_header r request_id)))"

definition ws_error_status :: "exn \<Rightarrow> int" where
  "ws_error_status e = (case e of Unauthorized _ \<Rightarrow> 401 | NotFound _ \<Rightarrow> 404 | Conflict _ _ _ \<Rightarrow> 409 | _ \<Rightarrow> 400)"

definition ws_upgrade_error :: "http_request \<Rightarrow> string option" where
  "ws_upgrade_error request =
     (let header = map_of (rq_headers request);
          upgrading = (case header ''connection'' of None \<Rightarrow> False
            | Some v \<Rightarrow> ''upgrade'' \<in> set (map (lower \<circ> trim) (split_on CHR '','' v)))
      in first_match
        [(map_option (lower \<circ> trim) (header ''upgrade'') \<noteq> Some ''websocket'', ''WebSocket Upgrade header is required''),
         (\<not> upgrading, ''Connection: Upgrade header is required''),
         (map_option trim (header ''sec-websocket-version'') \<noteq> Some ''13'', ''Sec-WebSocket-Version must be 13''),
         ((case header ''sec-websocket-key'' of None \<Rightarrow> True | Some v \<Rightarrow> trim v = []), ''Sec-WebSocket-Key is required'')])"

definition ws_switching :: "string \<Rightarrow> string \<Rightarrow> string" where
  "ws_switching accept request_id =
     ''HTTP/1.1 101 Switching Protocols'' @ crlf @ ''Upgrade: websocket'' @ crlf @ ''Connection: Upgrade'' @ crlf @
     ''Sec-WebSocket-Accept: '' @ accept @ crlf @ ''X-Request-ID: '' @ request_id @ crlf @ crlf"

definition ws_parameters :: "'j signaling_env \<Rightarrow> http_request \<Rightarrow> string \<Rightarrow> 'j ws_request" where
  "ws_parameters E request sid =
     \<lparr>wq_session = sid, wq_participant = query_value request ''participant'',
      wq_send_only = (query_value request ''send_only'' = ''1''), wq_control_only = (query_value request ''types'' \<noteq> []),
      wq_credentials = request_credentials E request\<rparr>"

definition ws_request_error :: "http_request \<Rightarrow> (int \<times> string) option" where
  "ws_request_error request =
     (let send_only = query_value request ''send_only''; types = query_value request ''types''
      in first_match
        [(rq_method request \<noteq> ''GET'', (405, ''WebSocket endpoint requires GET'')),
         (query_value request ''participant'' = [], (400, ''participant is required'')),
         (send_only \<noteq> [] \<and> send_only \<noteq> ''1'', (400, ''send_only must be 1 when provided'')),
         (types \<noteq> [] \<and> types \<noteq> ''control_command'', (400, ''WebSocket types must be control_command when provided'')),
         (types \<noteq> [] \<and> send_only = ''1'', (400, ''control-command receive WebSocket cannot be send-only''))])"

definition ws_open :: "'j signaling_env \<Rightarrow> ws_env \<Rightarrow> http_request \<Rightarrow> ('j, 'j ws_opening) sig" where
  "ws_open E V request =
     bindS (liftS (path_parts (rq_path request))) (\<lambda>parts.
     if length parts \<noteq> 3 \<or> parts ! 0 \<noteq> ''signaling'' \<or> parts ! 2 \<noteq> ''ws'' then returnS NotWebSocket
     else bindS (random_token E 12) (\<lambda>token. let request_id = ''request-'' @ token; Q = ws_parameters E request (parts ! 1) in
       tryS (bindS (now_ms E) (\<lambda>timestamp. thenS (enforce_api_rate_limit E request timestamp)
         (case ws_request_error request of
            Some (status, message) \<Rightarrow> ws_reject E request_id status message
          | None \<Rightarrow> bindS (tryS (thenS (ws_authenticate E Q) (returnS None)) (\<lambda>e. returnS (Some e))) (\<lambda>failure. case failure of
              Some e \<Rightarrow> ws_reject E request_id (ws_error_status e) (what e)
            | None \<Rightarrow> (case ws_upgrade_error request of
                Some message \<Rightarrow> ws_reject E request_id 400 message
              | None \<Rightarrow> (case websocket_accept_key V (trim (the (map_of (rq_headers request) ''sec-websocket-key''))) of
                  Inl e \<Rightarrow> ws_reject E request_id 400 (what e)
                | Inr accept \<Rightarrow> returnS (WsAccepted Q (ws_switching accept request_id))))))))
        (\<lambda>e. case e of
           TooManyRequests m retry_after_ms \<Rightarrow> returnS (WsRefused (case too_many_requests_response (en_json E) m retry_after_ms of
             Inl _ \<Rightarrow> None | Inr r \<Rightarrow> Some (add_request_id_header r request_id)))
         | _ \<Rightarrow> throwS e)))"

subsection \<open>A pass of the loop\<close>

definition ws_pending :: "'j signaling_env \<Rightarrow> 'j ws_request \<Rightarrow> ('j, 'j message list) sig" where
  "ws_pending E Q = bindS (ws_participant E Q) (\<lambda>_.
     if wq_send_only Q then returnS []
     else take_signaling_messages E (wq_session Q) (wq_participant Q) (if wq_control_only Q then ''control_command'' else []) False)"

definition ws_acknowledge :: "'j signaling_env \<Rightarrow> 'j ws_request \<Rightarrow> uint64 \<Rightarrow> ('j, nat) sig" where
  "ws_acknowledge E Q cursor = bindS (ws_participant E Q) (\<lambda>_.
     acknowledge_signaling_messages (wq_session Q) (wq_participant Q) cursor (wq_control_only Q))"

definition ws_enqueue :: "'j signaling_env \<Rightarrow> 'j ws_request \<Rightarrow> 'j \<Rightarrow> ('j, 'j) sig" where
  "ws_enqueue E Q value = bindS (ws_participant E Q) (\<lambda>_.
     bindS (if wq_send_only Q then liftS (js_value_string (en_json E) value ''type'' []) else returnS ''control_command'') (\<lambda>kind.
     if kind \<noteq> ''control_command'' then throwS (InvalidArgument ''send-only control WebSocket accepts control_command messages only'')
     else enqueue_signaling_message E (wq_session Q) value (Some (wq_participant Q))))"

type_synonym ('j, 'a) pass = "('j signaling \<times> ws_link, 'a) oper"

definition on_service :: "('j, 'a) sig \<Rightarrow> ('j, 'a) pass" where
  "on_service m = (\<lambda>(s, l). case m s of (r, t) \<Rightarrow> (r, (t, l)))"

definition on_socket :: "(websocket, 'a) oper \<Rightarrow> ('j, 'a) pass" where
  "on_socket m = (\<lambda>(s, l). case m (wl_socket l) of (r, w) \<Rightarrow> (r, (s, l\<lparr>wl_socket := w\<rparr>)))"

definition ws_send :: "'j signaling_env \<Rightarrow> (string \<times> 'j) list \<Rightarrow> ('j, unit) pass" where
  "ws_send E kvs = on_socket (server_send_json (en_json E) (js_object (en_json E) kvs))"

definition ws_fail :: "'j signaling_env \<Rightarrow> string \<Rightarrow> uint16 \<Rightarrow> string \<Rightarrow> exn \<Rightarrow> ('j, bool) pass" where
  "ws_fail E event code reason e =
     thenS (ws_send E [(''error'', js_of_string (en_json E) (what e)), (''event'', js_of_string (en_json E) event)])
     (thenS (on_socket (server_send_close code (bytes_of reason))) (returnS False))"

text \<open>The pending messages are sent again only for a newer cursor or after half a second.\<close>

definition ws_deliver :: "'j signaling_env \<Rightarrow> 'j ws_request \<Rightarrow> 'j message list \<Rightarrow> ('j, unit) pass" where
  "ws_deliver E Q pending =
     (if wq_send_only Q \<or> pending = [] then returnS ()
      else let J = en_json E; cursor = mg_delivery_cursor (last pending) in
        bindS (on_service (steady_now E)) (\<lambda>timestamp.
        bindS (getS snd) (\<lambda>l.
        if wl_last_cursor l < cursor \<or> 500 * 1000000 \<le> timestamp - wl_last_sent_at l
        then thenS (ws_send E [(''event'', js_of_string J ''signaling_messages''), (''delivery_cursor'', js_of_uint J cursor),
                (''messages'', js_array J (map (message_to_json J) pending))])
             (modifyS (\<lambda>(s, l). (s, l\<lparr>wl_last_cursor := max (wl_last_cursor l) cursor, wl_last_sent_at := timestamp\<rparr>)))
        else returnS ())))"

definition ws_delivery_ack :: "'j signaling_env \<Rightarrow> 'j ws_request \<Rightarrow> 'j \<Rightarrow> ('j, unit) pass" where
  "ws_delivery_ack E Q value =
     (let J = en_json E in
      bindS (liftS (required_uint64 J value ''delivery_cursor'')) (\<lambda>cursor.
      bindS (liftS (js_value_string J value ''trace_session_id'' [])) (\<lambda>reported.
      if reported \<noteq> [] \<and> reported \<noteq> wq_session Q
      then throwS (InvalidArgument ''delivery acknowledgement trace session does not match WebSocket session'')
      else bindS (liftS (js_value_uint64 J value ''seq'' 0)) (\<lambda>_.
      bindS (liftS (js_value_uint64 J value ''intent_seq'' 0)) (\<lambda>_.
      bindS (getS (\<lambda>(s, l). wl_last_cursor l)) (\<lambda>sent.
      if sent < cursor then throwS (InvalidArgument ''delivery acknowledgement exceeds the last delivered cursor'')
      else bindS (on_service (ws_acknowledge E Q cursor)) (\<lambda>acknowledged.
        ws_send E [(''event'', js_of_string J ''signaling_delivery_acknowledged''), (''delivery_cursor'', js_of_uint J cursor),
          (''acknowledged'', js_of_uint J (of_nat acknowledged))])))))))"

definition ws_message :: "'j signaling_env \<Rightarrow> 'j ws_request \<Rightarrow> 'j \<Rightarrow> ('j, unit) pass" where
  "ws_message E Q value =
     (let J = en_json E in
      bindS (if wq_send_only Q then returnS [] else liftS (js_value_string J value ''event'' [])) (\<lambda>event.
      if event = ''signaling_delivery_ack'' then ws_delivery_ack E Q value
      else if wq_control_only Q
      then throwS (InvalidArgument ''control-command receive WebSocket accepts delivery acknowledgements only'')
      else bindS (on_service (ws_enqueue E Q value)) (\<lambda>ack. on_socket (server_send_json J ack))))"

definition ws_received :: "'j signaling_env \<Rightarrow> 'j ws_request \<Rightarrow> 'j receive \<Rightarrow> ('j, bool) pass" where
  "ws_received E Q incoming = (case incoming of
     Timeout \<Rightarrow> returnS True
   | ClosedByPeer \<Rightarrow> returnS False
   | Message value \<Rightarrow>
       thenS (tryS (ws_message E Q value) (\<lambda>e. ws_send E [(''error'', js_of_string (en_json E) (what e)),
           (''event'', js_of_string (en_json E) ''signaling_message_rejected'')]))
         (returnS True))"

text \<open>\<open>True\<close> is another pass; an exception of a send ends the connection, too.\<close>

definition ws_pass :: "'j signaling_env \<Rightarrow> 'j ws_request \<Rightarrow> ('j, bool) pass" where
  "ws_pass E Q =
     bindS (tryS (bindS (on_service (ws_pending E Q)) (\<lambda>pending. returnS (Inr pending))) (\<lambda>e. returnS (Inl e))) (\<lambda>section. case section of
       Inl e \<Rightarrow> ws_fail E ''signaling_authority_lost'' 1008 ''signaling authority lost'' e
     | Inr pending \<Rightarrow>
         thenS (ws_deliver E Q pending)
        (bindS (tryS (bindS (on_socket (server_receive_json (en_json E))) (\<lambda>incoming. returnS (Inr incoming))) (\<lambda>e. returnS (Inl e))) (\<lambda>outcome. case outcome of
           Inl e \<Rightarrow> ws_fail E ''websocket_protocol_error'' 1002 ''websocket protocol error'' e
         | Inr incoming \<Rightarrow> ws_received E Q incoming)))"

definition ws_step :: "'j signaling_env \<Rightarrow> 'j ws_request \<Rightarrow> ('j, bool) pass" where
  "ws_step E Q = tryS (ws_pass E Q) (\<lambda>_. returnS False)"

subsection \<open>From the URL a client builds to the identity the service acts for\<close>

lemma nat_to_string_digits: "c \<in> set (nat_to_string n) \<Longrightarrow> c_isdigit c"
proof (induction n rule: nat_to_string.induct)
  case (1 n)
  have "c_isdigit (''0123456789'' ! m)" if "m < 10" for m
  proof -
    have "\<forall>m \<in> set [0..<10]. c_isdigit (''0123456789'' ! m)" by code_simp
    then show ?thesis using that by simp
  qed
  then show ?case using 1 by (subst (asm) nat_to_string.simps) (auto split: if_splits)
qed

lemma session_name_plain: "set (session_name n) \<inter> {CHR ''/'', CHR ''+'', CHR ''%''} = {}"
  using nat_to_string_digits[of _ "unat n"] by (fastforce simp: session_name_def Let_def c_isdigit_def)

text \<open>
  C39. From the identities a client puts into a signaling URL to the ones the service acts for: the target of
  the URL lies below \<open>/signaling\<close>, and decoding it gives the participant and the connection generation
  unchanged, whatever their characters. A session id is decoded twice, with the path and again as its part:
  the service sees every id it grants, and any other id without \<open>/\<close>, \<open>+\<close> and \<open>%\<close>, as it is;
  an id with \<open>+\<close> or \<open>%\<close> it sees decoded once more, or the request fails.
\<close>

theorem signaling_url_decoded:
  assumes "signaling_websocket_url base sid who gen = Inr url"
  shows "\<exists>origin target path. url = origin @ target \<and> take 11 target = ''/signaling/'' \<and>
    decode_target target = Inr (path, (''participant'', who) #
      (if gen = [] then [] else [(''connection_generation'', gen)])) \<and>
    (CHR ''/'' \<notin> set sid \<longrightarrow> path_parts path = bindE (url_decode sid) (\<lambda>d. Inr [''signaling'', d, ''ws''])) \<and>
    (sid \<in> range session_name \<or> set sid \<inter> {CHR ''/'', CHR ''+'', CHR ''%''} = {} \<longrightarrow>
      path_parts path = Inr [''signaling'', sid, ''ws''])"
proof -
  obtain origin target where t: "url = origin @ target" "take 11 target = ''/signaling/''"
    "decode_target target = Inr (''/signaling/'' @ sid @ ''/ws'', (''participant'', who) #
      (if gen = [] then [] else [(''connection_generation'', gen)]))" "sid \<noteq> []"
    using assms by (rule signaling_target)
  have "path_parts (''/signaling/'' @ sid @ ''/ws'') = Inr [''signaling'', sid, ''ws'']"
    if "set sid \<inter> {CHR ''/'', CHR ''+'', CHR ''%''} = {}"
    using that path_parts_websocket[of sid] t(4) url_decode_plain[of sid "[]"] by simp
  then have seen: "path_parts (''/signaling/'' @ sid @ ''/ws'') = Inr [''signaling'', sid, ''ws'']"
    if "sid \<in> range session_name \<or> set sid \<inter> {CHR ''/'', CHR ''+'', CHR ''%''} = {}"
    using that by (metis session_name_plain rangeE)
  show ?thesis
    by (rule exI[of _ origin], rule exI[of _ target], rule exI[of _ "''/signaling/'' @ sid @ ''/ws''"],
        intro conjI impI t(1-3) seen path_parts_websocket[OF t(4)]; assumption)
qed

text \<open>A granted session and an id that the second decoding changes.\<close>

theorem signaling_url_decoded_witness:
  "(\<exists>origin target path.
      ''wss://mine/signaling/session-000007/ws?participant=d%2B1&connection_generation=3'' = origin @ target \<and>
      decode_target target = Inr (path, [(''participant'', ''d+1''), (''connection_generation'', ''3'')]) \<and>
      path_parts path = Inr [''signaling'', ''session-000007'', ''ws'']) \<and>
   (\<exists>origin target path. ''ws://mine/signaling/a%2541%2Bb/ws?participant=d'' = origin @ target \<and>
      decode_target target = Inr (path, [(''participant'', ''d'')]) \<and>
      path_parts path = Inr [''signaling'', ''aA b'', ''ws''])"
proof (rule conjI)
  have "signaling_websocket_url ''https://mine/signaling'' ''session-000007'' ''d+1'' ''3'' =
      Inr ''wss://mine/signaling/session-000007/ws?participant=d%2B1&connection_generation=3''" by code_simp
  from signaling_url_decoded[OF this] show "\<exists>origin target path.
      ''wss://mine/signaling/session-000007/ws?participant=d%2B1&connection_generation=3'' = origin @ target \<and>
      decode_target target = Inr (path, [(''participant'', ''d+1''), (''connection_generation'', ''3'')]) \<and>
      path_parts path = Inr [''signaling'', ''session-000007'', ''ws'']" by auto
  have "signaling_websocket_url ''http://mine'' ''a%41+b'' ''d'' [] =
      Inr ''ws://mine/signaling/a%2541%2Bb/ws?participant=d''" by code_simp
  moreover have "url_decode ''a%41+b'' = Inr ''aA b''" by code_simp
  ultimately show "\<exists>origin target path. ''ws://mine/signaling/a%2541%2Bb/ws?participant=d'' = origin @ target \<and>
      decode_target target = Inr (path, [(''participant'', ''d'')]) \<and>
      path_parts path = Inr [''signaling'', ''aA b'', ''ws'']"
    using signaling_url_decoded[of "''http://mine''" "''a%41+b''" "''d''" "[]"] by auto
qed

end
