(* ===== verification/Signaling_Order.thy ===== *)
theory Signaling_Order
  imports Signaling_Websocket
begin

text \<open>
  Relations that every operation of the signaling service respects. \<open>moves R m\<close> relates each state
  to the one that operation \<open>m\<close> leaves behind, whether it returns or throws; the locale
  \<open>step_order\<close> lifts a reflexive and transitive relation through the combinators, so that an
  operation respects it if its assignments do. The interpretation on \<open>sessions_evolve\<close> covers every
  operation but the grant of a new session.
\<close>

named_theorems moves_intros

definition moves :: "('s \<Rightarrow> 's \<Rightarrow> bool) \<Rightarrow> ('s, 'a) oper \<Rightarrow> bool" where
  "moves R m \<longleftrightarrow> (\<forall>s. R s (snd (m s)))"

lemma movesD: "moves R m \<Longrightarrow> R s (snd (m s))"
  by (simp add: moves_def)

lemma movesE: "moves R m \<Longrightarrow> m s = (r, t) \<Longrightarrow> R s t"
  by (metis movesD snd_conv)

lemma moves_control [moves_intros]:
  "(\<And>s. R s (f s)) \<Longrightarrow> moves R (modifyS f)"
  "moves R m \<Longrightarrow> moves R k \<Longrightarrow> moves R (if c then m else k)"
  "moves R (a x) \<Longrightarrow> moves R (let y = x in a y)"
  by (simp_all add: moves_def modifyS_def)

lemma moves_cases [moves_intros]:
  "(x = None \<Longrightarrow> moves R m) \<Longrightarrow> (\<And>y. x = Some y \<Longrightarrow> moves R (k y)) \<Longrightarrow> moves R (case x of None \<Rightarrow> m | Some y \<Rightarrow> k y)"
  "(\<And>y z. p = (y, z) \<Longrightarrow> moves R (g y z)) \<Longrightarrow> moves R (case p of (y, z) \<Rightarrow> g y z)"
  "moves R n \<Longrightarrow> (\<And>z zs. moves R (h z zs)) \<Longrightarrow> moves R (case l of [] \<Rightarrow> n | z # zs \<Rightarrow> h z zs)"
  by (auto split: option.splits prod.splits list.splits)

locale step_order =
  fixes R :: "'s \<Rightarrow> 's \<Rightarrow> bool"
  assumes refl: "R s s" and trans: "R s t \<Longrightarrow> R t u \<Longrightarrow> R s u"
begin

lemma moves_basic:
  "moves R (returnS a)" "moves R (throwS e)" "moves R (getS f)" "moves R (liftS r)"
  by (simp_all add: moves_def returnS_def throwS_def getS_def liftS_def refl)

lemma moves_bindS: "moves R m \<Longrightarrow> (\<And>a. moves R (f a)) \<Longrightarrow> moves R (bindS m f)"
  unfolding moves_def
proof
  fix s
  assume m: "\<forall>s. R s (snd (m s))" and f: "\<And>a. \<forall>s. R s (snd (f a s))"
  obtain r t where "m s = (r, t)" by (cases "m s")
  moreover from this m have "R s t" by (metis snd_conv)
  ultimately show "R s (snd (bindS m f s))" using trans[OF _ f[rule_format], of s t] by (cases r) (simp_all add: bindS_def)
qed

lemma moves_thenS: "moves R m \<Longrightarrow> moves R k \<Longrightarrow> moves R (thenS m k)"
  by (simp add: thenS_def moves_bindS)

lemma moves_tryS: "moves R m \<Longrightarrow> (\<And>e. moves R (h e)) \<Longrightarrow> moves R (tryS m h)"
  unfolding moves_def
proof
  fix s
  assume m: "\<forall>s. R s (snd (m s))" and h: "\<And>e. \<forall>s. R s (snd (h e s))"
  obtain r t where "m s = (r, t)" by (cases "m s")
  moreover from this m have "R s t" by (metis snd_conv)
  ultimately show "R s (snd (tryS m h s))" using trans[OF _ h[rule_format], of s t] by (cases r) (simp_all add: tryS_def)
qed

lemma moves_whenS: "moves R m \<Longrightarrow> moves R (whenS c m)"
  by (simp add: whenS_def moves_basic)

lemma moves_forS: "(\<And>x. moves R (f x)) \<Longrightarrow> moves R (forS xs f)"
  by (induction xs) (simp_all add: moves_basic moves_thenS)

lemma moves_for_eachS: "(\<And>x. moves R (f x)) \<Longrightarrow> moves R (for_eachS elements f)"
  by (simp add: for_eachS_def moves_bindS moves_basic moves_forS)

lemma moves_mapS: "(\<And>x. moves R (f x)) \<Longrightarrow> moves R (mapS f xs)"
  by (induction xs) (auto intro!: moves_basic moves_bindS)

text \<open>The getter that hands the state on: the continuation is used at that state.\<close>

lemma moves_at: "(\<And>s. R s (snd (f (g s) s))) \<Longrightarrow> moves R (bindS (getS g) f)"
  by (simp add: moves_def bindS_def getS_def)

lemma moves_run: "(\<And>e. moves R (step e)) \<Longrightarrow> R s (snd (run step es s))"
proof (induction es arbitrary: s)
  case (Cons e es)
  then show ?case using trans[OF movesD[of R "step e" s]] by simp
qed (simp add: refl)

lemmas moves_rules = moves_basic moves_bindS moves_thenS moves_tryS moves_whenS moves_forS moves_for_eachS moves_mapS

end

subsection \<open>Sessions\<close>

text \<open>
  \<open>state_after a b\<close>: a session in state \<open>a\<close> may later be in state \<open>b\<close>. It follows the transitions of the
  service, or it is closed, which is final.
\<close>

definition state_after :: "session_state \<Rightarrow> session_state \<Rightarrow> bool" where
  "state_after a b \<longleftrightarrow> b = SClosed \<or> transition_allowed\<^sup>*\<^sup>* a b"

definition session_evolves :: "session \<Rightarrow> session \<Rightarrow> bool" where
  "session_evolves x y \<longleftrightarrow> ss_session_id y = ss_session_id x \<and> ss_vehicle_id y = ss_vehicle_id x \<and> ss_driver_id y = ss_driver_id x \<and>
     (ss_control_token y = ss_control_token x \<or> ss_control_token y = []) \<and> state_after (ss_state x) (ss_state y)"

definition sessions_evolve :: "'j signaling \<Rightarrow> 'j signaling \<Rightarrow> bool" where
  "sessions_evolve s t \<longleftrightarrow> sg_session_counter t = sg_session_counter s \<and>
     list_all2 (\<lambda>(i, x) (j, y). j = i \<and> session_evolves x y) (sg_sessions s) (sg_sessions t)"

lemma closed_final: "transition_allowed\<^sup>*\<^sup>* SClosed b \<Longrightarrow> b = SClosed"
  by (induction rule: rtranclp_induct) auto

lemma state_after_refl [simp]: "state_after a a"
  by (simp add: state_after_def)

lemma state_after_trans: "state_after a b \<Longrightarrow> state_after b c \<Longrightarrow> state_after a c"
  unfolding state_after_def using closed_final by (metis rtranclp_trans)

lemma session_evolves_refl [simp]: "session_evolves x x"
  by (simp add: session_evolves_def)

lemma session_evolves_trans: "session_evolves x y \<Longrightarrow> session_evolves y z \<Longrightarrow> session_evolves x z"
  by (auto simp: session_evolves_def intro: state_after_trans)

lemma same_step:
  "(case a of (i, x) \<Rightarrow> \<lambda>(j, y). j = i \<and> session_evolves x y) b \<Longrightarrow>
   (case b of (i, x) \<Rightarrow> \<lambda>(j, y). j = i \<and> session_evolves x y) c \<Longrightarrow>
   (case a of (i, x) \<Rightarrow> \<lambda>(j, y). j = i \<and> session_evolves x y) c"
  by (auto split: prod.splits intro: session_evolves_trans)

interpretation evolution: step_order sessions_evolve
proof
  fix s t u :: "'j signaling"
  show "sessions_evolve s s" by (auto simp: sessions_evolve_def intro: list_all2_refl)
  show "sessions_evolve s t \<Longrightarrow> sessions_evolve t u \<Longrightarrow> sessions_evolve s u"
    unfolding sessions_evolve_def
    using list_all2_trans[OF same_step] by auto
qed

lemma evolve_frame:
  "sg_sessions t = sg_sessions s \<Longrightarrow> sg_session_counter t = sg_session_counter s \<Longrightarrow> sessions_evolve s t"
  using evolution.refl[of s] by (simp add: sessions_evolve_def)

lemma evolve_update:
  assumes "map_of l i = Some x" "session_evolves x y"
  shows "list_all2 (\<lambda>(i, x) (j, y). j = i \<and> session_evolves x y) l (AList.update i y l)"
  using assms by (induction l) (auto intro: list_all2_refl split: if_splits)

lemma evolve_store:
  "map_of (sg_sessions s) i = Some x \<Longrightarrow> session_evolves x y \<Longrightarrow> sessions_evolve s (store_session i y s)"
  by (simp add: sessions_evolve_def store_session_def evolve_update)

text \<open>The operations that do not touch the sessions at all.\<close>

definition same_sessions :: "'j signaling \<Rightarrow> 'j signaling \<Rightarrow> bool" where
  "same_sessions s t \<longleftrightarrow> sg_sessions t = sg_sessions s \<and> sg_session_counter t = sg_session_counter s"

interpretation frame: step_order same_sessions
  by unfold_locales (simp_all add: same_sessions_def)

lemma same_evolve: "moves same_sessions m \<Longrightarrow> moves sessions_evolve m"
  by (simp add: moves_def same_sessions_def evolve_frame)

named_theorems same

lemmas same_rules = frame.moves_rules moves_intros

lemma same_reading [same]: "moves same_sessions (reading f)"
  by (simp add: moves_def reading_def same_sessions_def)

lemma same_env [same]:
  "moves same_sessions (now_ms E)" "moves same_sessions (steady_now E)" "moves same_sessions (monotonic_now_ms E)"
  "moves same_sessions (random_token E n)" "moves same_sessions (audit E event)" "moves same_sessions (try_audit E event)"
  unfolding now_ms_def steady_now_def monotonic_now_ms_def random_token_def audit_def try_audit_def
  by (intro same_rules same; simp add: same_sessions_def)+

lemma same_require [same]:
  "moves same_sessions (require_active_session sid)" "moves same_sessions (require_participant sid actor)"
  unfolding require_participant_def require_active_session_def by (intro same_rules)+

lemma same_validate [same]:
  "moves same_sessions (validate_driver_token E driver token)" "moves same_sessions (validate_device_token E vehicle token)"
  unfolding validate_driver_token_def validate_device_token_def
  by (intro same_rules same; simp add: same_sessions_def)+

lemma same_validate_connection [same]:
  "moves same_sessions (validate_vehicle_connection E vehicle token generation)"
  "moves same_sessions (validate_actor_credential E session actor value)"
  unfolding validate_actor_credential_def validate_vehicle_connection_def
  by (intro same_rules same; simp add: same_sessions_def)+

lemma same_approvals [same]:
  "moves same_sessions (end_approval E vehicle a next)" "moves same_sessions (cleanup_mobile_approvals E)"
  unfolding cleanup_mobile_approvals_def end_approval_def
  by (intro same_rules same; simp add: same_sessions_def store_approval_def)+

lemma same_limits [same]:
  "moves same_sessions (enforce_login_rate_limit E identity timestamp approver)"
  "moves same_sessions (record_login_failure E identity timestamp approver)"
  "moves same_sessions (clear_login_failures identity approver)"
  "moves same_sessions (enforce_api_rate_limit E request timestamp)"
  "moves same_sessions (approver_login_bucket E request timestamp)"
  unfolding enforce_login_rate_limit_def record_login_failure_def clear_login_failures_def enforce_api_rate_limit_def
    approver_login_bucket_def Let_def
  by (intro same_rules same; simp add: same_sessions_def cleanup_api_rate_limits_def put_rate_state_def)+

lemma same_approval_checks [same]:
  "moves same_sessions (approval_fields E a)" "moves same_sessions (approval_conflict E message code a :: ('j, 'a) sig)"
  "moves same_sessions (request_approval E driver vehicle)" "moves same_sessions (check_named_approval E driver vehicle request_id)"
  "moves same_sessions (require_mobile_approval E driver vehicle request_id)"
  unfolding require_mobile_approval_def check_named_approval_def request_approval_def approval_conflict_def approval_fields_def Let_def
  by (intro same_rules same; simp add: same_sessions_def store_approval_def)+

lemma same_replies [same]:
  "moves same_sessions (respond E status kvs)" "moves same_sessions (not_found_response E)" "moves same_sessions (session_reply E b sid)"
  "moves same_sessions (event_reply E event session)" "moves same_sessions (turn_usage_reply E b n session)"
  unfolding not_found_response_def event_reply_def turn_usage_reply_def respond_def session_reply_def by (intro same_rules)+

lemma same_mobile [same]:
  "moves same_sessions (mobile_login E request)" "moves same_sessions (mobile_decision E request request_id approver)"
  "moves same_sessions (mobile_requests E)" "moves same_sessions (handle_mobile_api E request)"
  unfolding handle_mobile_api_def mobile_login_def mobile_decision_def mobile_requests_def Let_def
  by (intro same_rules same; simp add: same_sessions_def store_approval_def)+

lemma same_messages [same]:
  "moves same_sessions (take_signaling_messages E sid recipient types consume)"
  "moves same_sessions (acknowledge_signaling_messages sid recipient cursor control_only)"
  "moves same_sessions (admit_message E sid value actor)"
  "moves same_sessions (queue_message E sid sender recipient kind m payload fingerprint received_at monotonic)"
  unfolding take_signaling_messages_def acknowledge_signaling_messages_def admit_message_def queue_message_def Let_def
  by (intro same_rules same; simp add: same_sessions_def expire_latest_control_def expire_queue_def set_queue_def
      drop_latest_control_def push_message_def split: option.splits)+

lemma same_enqueue [same]: "moves same_sessions (enqueue_signaling_message E sid value actor)"
  unfolding enqueue_signaling_message_def by (intro same_rules same)

subsection \<open>Closing and expiry\<close>

named_theorems evolves

lemmas evolves_rules = evolution.moves_rules moves_intros

lemma evolve_then: "sessions_evolve s (f s) \<Longrightarrow> moves sessions_evolve k \<Longrightarrow> sessions_evolve s (snd (thenS (modifyS f) k s))"
  by (auto simp: thenS_def bindS_def modifyS_def intro: evolution.trans movesD)

lemma evolves_with_session:
  assumes "\<And>x s. map_of (sg_sessions s) sid = Some x \<Longrightarrow> sessions_evolve s (snd (f x s))"
  shows "moves sessions_evolve (with_session sid f)"
  unfolding with_session_def
  by (rule evolution.moves_at) (use assms in \<open>auto simp: returnS_def evolution.refl split: option.splits\<close>)

lemma evolves_transition [evolves]: "moves sessions_evolve (transition_session E sid next)"
  unfolding transition_session_def Let_def
proof (rule evolves_with_session)
  fix x :: session and s :: "'a signaling"
  assume "map_of (sg_sessions s) sid = Some x"
  moreover have "session_evolves x (x\<lparr>ss_state := next\<rparr>)" if "transition_allowed (ss_state x) next"
    using that by (simp add: session_evolves_def state_after_def r_into_rtranclp)
  ultimately show "sessions_evolve s (snd ((if ss_state x = next then returnS ()
      else if \<not> transition_allowed (ss_state x) next
        then throwS (LogicError (''invalid session transition '' @ session_state_to_string (ss_state x) @ '' -> '' @
            session_state_to_string next))
        else thenS (modifyS (store_session sid (x\<lparr>ss_state := next\<rparr>))) (audit E ''session_state_changed'')) s))"
    by (auto simp: returnS_def throwS_def evolution.refl intro!: evolve_then evolve_store same_evolve same)
qed

lemma evolves_close [evolves]: "moves sessions_evolve (close_session E sid)"
  unfolding close_session_def
proof (rule evolves_with_session)
  fix x :: session and s :: "'a signaling"
  assume x: "map_of (sg_sessions s) sid = Some x"
  let ?y = "x\<lparr>ss_control_token := [], ss_control_token_expires_at_ms := 0\<rparr>"
  have "sessions_evolve s (store_session sid ?y s)" using x by (rule evolve_store) (simp add: session_evolves_def)
  then have "sessions_evolve s (drop_queues x (store_session sid ?y s))" by (simp add: sessions_evolve_def drop_queues_def Let_def)
  then show "sessions_evolve s (snd ((if ss_state x = SClosed then returnS ()
     else thenS (modifyS (\<lambda>s. drop_queues x (store_session sid ?y s)))
         (thenS (whenS (ss_state x \<noteq> SStopping) (transition_session E sid SStopping))
         (thenS (transition_session E sid SClosed) (bindS (now_ms E) (\<lambda>_. returnS ()))))) s))"
    by (auto simp: returnS_def evolution.refl intro!: evolve_then evolves_rules evolves same_evolve[OF same_env(1)])
qed

lemma evolves_each: "(\<And>x. moves sessions_evolve (f x)) \<Longrightarrow> moves sessions_evolve (with_session sid f)"
  by (rule evolves_with_session) (simp add: movesD)

lemma evolves_closing [evolves]:
  "moves sessions_evolve (close_sessions_for_vehicle E vehicle)" "moves sessions_evolve (close_sessions_for_driver E driver)"
  unfolding close_sessions_for_vehicle_def close_sessions_for_driver_def
  by (intro evolves_rules evolves_each evolves)+

lemma evolves_expiry [evolves]:
  "moves sessions_evolve (expire_driver_token E timestamp token)" "moves sessions_evolve (expire_control_token E timestamp sid)"
  "moves sessions_evolve (expire_vehicle E timestamp vehicle)" "moves sessions_evolve (expire_driver E timestamp driver)"
  unfolding expire_driver_token_def expire_control_token_def expire_vehicle_def expire_driver_def
  by (intro evolves_rules evolves_each evolves same[THEN same_evolve]; simp add: evolve_frame)+

lemma evolves_cleanup [evolves]: "moves sessions_evolve (cleanup_expired_connections E timestamp)" "moves sessions_evolve (cleanup_now E)"
  unfolding cleanup_now_def cleanup_expired_connections_def
  by (intro evolves_rules evolves same[THEN same_evolve])+

subsection \<open>Routes\<close>

lemma evolves_get [evolves]:
  "moves sessions_evolve (health E)" "moves sessions_evolve (time_route E request)" "moves sessions_evolve (driver_vehicles_route E request driver)"
  "moves sessions_evolve (poll_messages_route E request sid)" "moves sessions_evolve (vehicle_session_route E request vehicle)"
  "moves sessions_evolve (query_participant E request sid)" "moves sessions_evolve (session_route E request sid)"
  "moves sessions_evolve (ice_servers_route E request sid)" "moves sessions_evolve (handle_get E request)"
  unfolding handle_get_def health_def time_route_def driver_vehicles_route_def poll_messages_route_def vehicle_session_route_def
    session_route_def ice_servers_route_def query_participant_def Let_def
  by (intro evolves_rules evolves same[THEN same_evolve])+

lemma evolves_connections [evolves]:
  "moves sessions_evolve (admin_api E path value)" "moves sessions_evolve (driver_login E value)"
  "moves sessions_evolve (driver_heartbeat E value)" "moves sessions_evolve (driver_logout E value)"
  "moves sessions_evolve (vehicle_online E value)" "moves sessions_evolve (vehicle_heartbeat E value)"
  "moves sessions_evolve (vehicle_offline E value)" "moves sessions_evolve (cancel_approval E value)"
  unfolding admin_api_def driver_login_def driver_heartbeat_def driver_logout_def vehicle_online_def vehicle_heartbeat_def
    vehicle_offline_def cancel_approval_def Let_def
  by (intro evolves_rules evolves evolves_each same[THEN same_evolve]; simp add: evolve_frame store_approval_def)+

text \<open>A participant acts on the session it was found in.\<close>

lemma participant_cases:
  "require_participant sid actor s = (case map_of (sg_sessions s) sid of
     Some x \<Rightarrow> if ss_state x \<noteq> SActive then (Inl (Conflict ''session is not active'' ''session_not_active'' []), s)
       else if actor \<noteq> ss_driver_id x \<and> actor \<noteq> ss_vehicle_id x then (Inl (Unauthorized ''actor is not current session participant''), s)
       else (Inr x, s)
   | None \<Rightarrow> (Inl (NotFound ''unknown session''), s))"
  by (auto simp: require_participant_def require_active_session_def bindS_def getS_def throwS_def returnS_def split: option.splits)

lemma evolves_participant:
  assumes "\<And>x s. map_of (sg_sessions s) sid = Some x \<Longrightarrow> sessions_evolve s (snd (f x s))"
  shows "moves sessions_evolve (bindS (require_participant sid actor) f)"
  using assms by (auto simp: moves_def bindS_def participant_cases evolution.refl split: option.splits)

lemma evolve_after_same:
  assumes "moves same_sessions m" "\<And>a t. sg_sessions t = sg_sessions s \<Longrightarrow> sessions_evolve t (snd (f a t))"
  shows "sessions_evolve s (snd (bindS m f s))"
proof -
  obtain r t where m: "m s = (r, t)" by (cases "m s")
  then have st: "same_sessions s t" using assms(1) by (rule movesE[rotated])
  then have "sessions_evolve s t" by (simp add: same_sessions_def evolve_frame)
  then show ?thesis using assms(2)[of t] st m by (cases r) (auto simp: bindS_def same_sessions_def intro: evolution.trans)
qed

lemma evolve_then_same:
  assumes "moves same_sessions m" "\<And>t. sg_sessions t = sg_sessions s \<Longrightarrow> sessions_evolve t (snd (k t))"
  shows "sessions_evolve s (snd (thenS m k s))"
  unfolding thenS_def using assms by (rule evolve_after_same)

lemma evolves_acting:
  assumes "\<And>actor x. moves sessions_evolve (f actor x)"
  shows "moves sessions_evolve (acting E sid value f)"
  unfolding acting_def by (intro evolves_rules same[THEN same_evolve] assms)

lemma evolve_if: "(c \<Longrightarrow> sessions_evolve s (snd (m s))) \<Longrightarrow> (\<not> c \<Longrightarrow> sessions_evolve s (snd (k s))) \<Longrightarrow>
    sessions_evolve s (snd ((if c then m else k) s))"
  by simp

lemma evolve_option: "(x = None \<Longrightarrow> sessions_evolve s (snd (m s))) \<Longrightarrow> (\<And>y. x = Some y \<Longrightarrow> sessions_evolve s (snd (k y s))) \<Longrightarrow>
    sessions_evolve s (snd ((case x of None \<Rightarrow> m | Some y \<Rightarrow> k y) s))"
  by (cases x) simp_all

lemma evolve_renewal:
  assumes "map_of (sg_sessions s) sid = Some x" "sg_sessions t = sg_sessions s"
  shows "sessions_evolve t (store_session sid (x\<lparr>ss_control_token_expires_at_ms := e\<rparr>) t)"
  by (rule evolve_store[of t sid x]) (simp_all add: assms session_evolves_def)

lemma evolves_renew [evolves]: "moves sessions_evolve (renew_session E sid value)"
  unfolding renew_session_def
  by (rule evolution.moves_bindS, rule evolution.moves_basic, rule evolves_participant, rule evolve_if,
      rule movesD[OF evolution.moves_basic(2)], rule evolve_then_same, rule same, rule evolve_after_same, rule same,
      rule evolve_then, rule evolve_renewal, assumption, simp, intro evolves_rules same[THEN same_evolve])

lemma evolves_reports [evolves]:
  "moves sessions_evolve (end_session E sid value)" "moves sessions_evolve (revoke_authority E sid value)"
  "moves sessions_evolve (webrtc_connection E sid value)" "moves sessions_evolve (abnormal_disconnect E sid value)"
  "moves sessions_evolve (diagnostics_report E sid value)" "moves sessions_evolve (control_timeout_report E sid value)"
  "moves sessions_evolve (estop_report E sid value)" "moves sessions_evolve (turn_relay_report E sid value)"
  unfolding end_session_def revoke_authority_def webrtc_connection_def abnormal_disconnect_def diagnostics_report_def
    control_timeout_report_def estop_report_def turn_relay_report_def Let_def
  by (intro evolves_acting evolves_rules evolves same[THEN same_evolve])+

lemma evolves_acting_at:
  assumes "\<And>actor x s. map_of (sg_sessions s) sid = Some x \<Longrightarrow> sessions_evolve s (snd (f actor x s))"
  shows "moves sessions_evolve (acting E sid value f)"
  unfolding acting_def by (intro evolves_rules evolves_participant evolve_then_same same assms) simp

lemma evolve_sample:
  "map_of (sg_sessions s) sid = Some x \<Longrightarrow> sg_sessions t = sg_sessions s \<Longrightarrow>
     sessions_evolve t (store_session sid (add_relay_sample actor sample x) t)"
  by (rule evolve_store[of t sid x]) (simp_all add: session_evolves_def add_relay_sample_def)

lemma evolve_record:
  assumes "map_of (sg_sessions s) sid = Some x"
  shows "sessions_evolve s (snd ((case relay_overflow x sample of
       Some message \<Rightarrow> throwS (InvalidArgument message)
     | None \<Rightarrow> thenS (audit E ''turn_relay_usage'')
         (thenS (modifyS (store_session sid (add_relay_sample actor sample x))) (turn_usage_reply E b n (add_relay_sample actor sample x)))) s))"
  by (rule evolve_option, rule evolve_then_same, rule same, rule evolve_then, rule evolve_sample[OF assms], assumption,
      rule same[THEN same_evolve], simp add: throwS_def evolution.refl)

lemma evolve_lift: "(\<And>a. sessions_evolve s (snd (f a s))) \<Longrightarrow> sessions_evolve s (snd (bindS (liftS r) f s))"
  by (cases r) (simp_all add: bindS_def liftS_def evolution.refl)

lemma evolve_still: "sessions_evolve s (snd (throwS e s))" "sessions_evolve s (snd (turn_usage_reply E b n x s))"
  by (rule movesD, rule evolution.moves_basic, rule movesD[OF same_evolve], rule same)

lemma evolves_turn_usage [evolves]: "moves sessions_evolve (turn_usage E sid value)"
  unfolding turn_usage_def Let_def
  by (rule evolves_acting_at) (intro evolve_lift evolve_if evolve_record evolve_still evolve_option; assumption)

lemma evolves_diagnostics [evolves]: "moves sessions_evolve (diagnostics_driver E value operation)" "moves sessions_evolve (handle_diagnostics E request)"
  unfolding handle_diagnostics_def diagnostics_driver_def broker_def Let_def
  by (intro evolves_rules evolves same[THEN same_evolve])+

lemma evolves_websocket [evolves]:
  "moves sessions_evolve (ws_participant E Q)" "moves sessions_evolve (ws_authenticate E Q)" "moves sessions_evolve (ws_pending E Q)"
  "moves sessions_evolve (ws_acknowledge E Q cursor)" "moves sessions_evolve (ws_enqueue E Q value)"
  unfolding ws_authenticate_def ws_pending_def ws_acknowledge_def ws_enqueue_def ws_participant_def
  by (intro evolves_rules evolves same[THEN same_evolve])+

end
