(* ===== verification/Signaling_Safety.thy ===== *)
theory Signaling_Safety
  imports Signaling_Order "HOL-Library.Sublist"
begin

text \<open>
  Safety of the signaling service in every run of its locked sections: a vehicle has at most one
  open session, a session keeps its identity and a closed one stays closed, and a session is
  granted only to an authorised driver with a consumed approval.
\<close>

subsection \<open>Runs of the service\<close>

text \<open>
  One event per section that holds the mutex of the service: the rate limit of a request, its
  route, a round of the reaper thread and the sections of a WebSocket connection.
\<close>

datatype 'j service_event =
    Limit http_request int
  | Diagnose http_request
  | Mobile http_request
  | Get http_request
  | Post http_request
  | Reap
  | Authenticate "'j ws_request"
  | Deliver "'j ws_request"
  | Acknowledge "'j ws_request" uint64
  | Enqueue "'j ws_request" 'j

definition discard :: "('s, 'a) oper \<Rightarrow> ('s, unit) oper" where
  "discard m = bindS m (\<lambda>_. returnS ())"

lemma moves_discard [simp]: "moves R (discard m) \<longleftrightarrow> moves R m"
proof -
  have "snd (discard m s) = snd (m s)" for s by (simp add: discard_def bindS_def returnS_def split: prod.splits sum.splits)
  then show ?thesis by (simp add: moves_def)
qed

fun service_step :: "'j signaling_env \<Rightarrow> 'j service_event \<Rightarrow> ('j, unit) sig" where
  "service_step E (Limit request timestamp) = enforce_api_rate_limit E request timestamp"
| "service_step E (Diagnose request) = discard (handle_diagnostics E request)"
| "service_step E (Mobile request) = thenS (cleanup_now E) (discard (handle_mobile_api E request))"
| "service_step E (Get request) = discard (handle_get E request)"
| "service_step E (Post request) = discard (handle_post E request)"
| "service_step E Reap = cleanup_now E"
| "service_step E (Authenticate Q) = ws_authenticate E Q"
| "service_step E (Deliver Q) = discard (ws_pending E Q)"
| "service_step E (Acknowledge Q cursor) = discard (ws_acknowledge E Q cursor)"
| "service_step E (Enqueue Q value) = discard (ws_enqueue E Q value)"

definition service_run :: "'j signaling_env \<Rightarrow> 'j service_event list \<Rightarrow> 'j signaling \<Rightarrow> 'j signaling" where
  "service_run E events s = snd (run (service_step E) events s)"

text \<open>
  A relation that allows every evolution of the sessions, also before a step, and the creation of a
  session is respected by every event.
\<close>

locale service_relation =
  fixes R :: "'j signaling \<Rightarrow> 'j signaling \<Rightarrow> bool"
  assumes evolve: "sessions_evolve s t \<Longrightarrow> R s t"
    and after: "sessions_evolve s t \<Longrightarrow> R t u \<Longrightarrow> R s u"
    and create: "moves R (create_session E value)"
begin

lemma moves_evolve: "moves sessions_evolve m \<Longrightarrow> moves R m"
  by (simp add: moves_def evolve)

lemma moves_after: "moves sessions_evolve m \<Longrightarrow> (\<And>a. moves R (f a)) \<Longrightarrow> moves R (bindS m f)"
  unfolding moves_def
proof
  fix s
  assume m: "\<forall>s. sessions_evolve s (snd (m s))" and f: "\<And>a. \<forall>s. R s (snd (f a s))"
  obtain r t where mr: "m s = (r, t)" by (cases "m s")
  then have "sessions_evolve s t" using m by (metis snd_conv)
  then show "R s (snd (bindS m f s))" using after[OF _ f[rule_format], of s t] evolve mr by (cases r) (simp_all add: bindS_def)
qed

lemma moves_then: "moves sessions_evolve m \<Longrightarrow> moves R k \<Longrightarrow> moves R (thenS m k)"
  by (simp add: thenS_def moves_after)

lemma moves_post: "moves R (handle_post E request)"
  unfolding handle_post_def Let_def
  by (intro moves_after moves_then evolution.moves_basic evolves moves_intros create;
      intro moves_evolve evolves_rules evolves same[THEN same_evolve])

lemma moves_step: "moves R (service_step E e)"
proof (cases "\<exists>request. e = Post request")
  case False
  then show ?thesis by (cases e) (simp_all, (intro moves_evolve evolves same[THEN same_evolve] evolution.moves_thenS; simp add: evolves same[THEN same_evolve])+)
qed (auto intro: moves_post)

end

subsection \<open>Granting a session\<close>

definition open_sessions :: "(string \<times> session) list \<Rightarrow> string list" where
  "open_sessions l = map (\<lambda>(i, x). ss_vehicle_id x) (filter (\<lambda>(i, x). ss_state x \<noteq> SClosed) l)"

text \<open>The vehicles with a session that is not closed, once per session.\<close>

definition open_vehicles :: "'j signaling \<Rightarrow> string list" where
  "open_vehicles s = open_sessions (sg_sessions s)"

lemma open_sessions_simps [simp]:
  "open_sessions [] = []"
  "open_sessions ((i, x) # l) = (if ss_state x = SClosed then open_sessions l else ss_vehicle_id x # open_sessions l)"
  by (simp_all add: open_sessions_def)

lemma evolving_open:
  "list_all2 (\<lambda>(i, x) (j, y). j = i \<and> session_evolves x y) l k \<Longrightarrow> subseq (open_sessions k) (open_sessions l)"
proof (induction rule: list_all2_induct)
  case (Cons a l b k)
  obtain i x y where ab: "a = (i, x)" "b = (i, y)" "session_evolves x y" using Cons.hyps by (cases a; cases b) auto
  then have "ss_state y = SClosed" if "ss_state x = SClosed" using that closed_final by (auto simp: session_evolves_def state_after_def)
  then show ?case using Cons.IH ab by (auto simp: session_evolves_def)
qed simp

lemma evolve_open: "sessions_evolve s t \<Longrightarrow> subseq (open_vehicles t) (open_vehicles s)"
  by (simp add: sessions_evolve_def open_vehicles_def evolving_open)

lemma open_update:
  "set (open_sessions (AList.update i x l)) \<subseteq> insert (ss_vehicle_id x) (set (open_sessions l))"
  "ss_state x = SClosed \<Longrightarrow> set (open_sessions (AList.update i x l)) \<subseteq> set (open_sessions l)"
  by (induction l) (auto split: if_splits dest: subsetD)

lemma distinct_open_update:
  "distinct (open_sessions l) \<Longrightarrow> ss_vehicle_id x \<notin> set (open_sessions l) \<Longrightarrow> distinct (open_sessions (AList.update i x l))"
proof (induction l)
  case (Cons a l)
  then show ?case using open_update(1)[of i x l] by (cases a) (auto split: if_splits)
qed simp

lemma no_active_session: "active_session_of vehicle s = None \<longleftrightarrow> vehicle \<notin> set (open_vehicles s)"
  by (auto simp: active_session_of_def open_vehicles_def open_sessions_def find_None_iff)

text \<open>What the checks of a new session leave unchanged; an approval can only be lost by them.\<close>

definition prepares :: "'j signaling \<Rightarrow> 'j signaling \<Rightarrow> bool" where
  "prepares s t \<longleftrightarrow> same_sessions s t \<and> sg_driver_tokens t = sg_driver_tokens s \<and> sg_online_vehicles t = sg_online_vehicles s \<and>
     sg_revoked_drivers t = sg_revoked_drivers s \<and>
     (\<forall>v a. map_of (sg_mobile_approvals t) v = Some a \<longrightarrow> ma_state a = Approved \<longrightarrow> map_of (sg_mobile_approvals s) v = Some a)"

interpretation preparation: step_order prepares
  by unfold_locales (auto simp: prepares_def same_sessions_def)

named_theorems prepared

lemmas prepared_rules = preparation.moves_rules moves_intros

lemma prepared_reading [prepared]: "moves prepares (reading f)"
  by (simp add: moves_def reading_def prepares_def same_sessions_def)

lemma prepared_env [prepared]:
  "moves prepares (now_ms E)" "moves prepares (steady_now E)" "moves prepares (monotonic_now_ms E)"
  "moves prepares (random_token E n)" "moves prepares (audit E event)" "moves prepares (try_audit E event)"
  unfolding now_ms_def steady_now_def monotonic_now_ms_def random_token_def audit_def try_audit_def
  by (intro prepared_rules prepared; simp add: prepares_def same_sessions_def)+

lemma prepared_validate [prepared]: "moves prepares (validate_driver_token E driver token)"
  unfolding validate_driver_token_def by (intro prepared_rules prepared; simp add: prepares_def same_sessions_def)

lemma store_unapproved: "ma_state a \<noteq> Approved \<Longrightarrow> prepares s (store_approval v a s)"
  by (simp add: prepares_def same_sessions_def store_approval_def update_conv' split: if_splits)

lemma prepared_approvals [prepared]:
  "moves prepares (cleanup_mobile_approvals E)" "moves prepares (approval_fields E a)"
  "moves prepares (approval_conflict E message code a :: ('j, 'a) sig)"
  "moves prepares (request_approval E driver vehicle)" "moves prepares (check_named_approval E driver vehicle request_id)"
  "moves prepares (require_mobile_approval E driver vehicle request_id)"
  unfolding require_mobile_approval_def check_named_approval_def request_approval_def approval_conflict_def approval_fields_def
    cleanup_mobile_approvals_def end_approval_def Let_def
  by (intro prepared_rules prepared store_unapproved; simp add: prepares_def same_sessions_def)+

text \<open>
  \<open>triple P m Q X\<close>: from a state of \<open>P\<close>, operation \<open>m\<close> returns with \<open>Q\<close> or throws with \<open>X\<close>; the weakest
  preconditions of \<open>Prelude\<close> for all states at once.
\<close>

definition triple :: "('s \<Rightarrow> bool) \<Rightarrow> ('s, 'a) oper \<Rightarrow> ('a \<Rightarrow> 's \<Rightarrow> bool) \<Rightarrow> (exn \<Rightarrow> 's \<Rightarrow> bool) \<Rightarrow> bool" where
  triple_wp: "triple P m Q X \<longleftrightarrow> (\<forall>s. P s \<longrightarrow> wp m Q X s)"

lemma triple_def: "triple P m Q X \<longleftrightarrow> (\<forall>s. P s \<longrightarrow> (case m s of (Inr a, t) \<Rightarrow> Q a t | (Inl e, t) \<Rightarrow> X e t))"
  by (simp add: triple_wp wp_def)

lemma triple_bindS: "triple P m R X \<Longrightarrow> (\<And>a. triple (R a) (f a) Q X) \<Longrightarrow> triple P (bindS m f) Q X"
  by (fastforce simp: triple_def bindS_def split: prod.splits sum.splits)

lemma triple_thenS: "triple P m (\<lambda>_. R) X \<Longrightarrow> triple R k Q X \<Longrightarrow> triple P (thenS m k) Q X"
  unfolding thenS_def by (rule triple_bindS)

lemma triple_moves:
  assumes "moves R m" "\<And>s t. P s \<Longrightarrow> R s t \<Longrightarrow> Q t" "\<And>s t. P s \<Longrightarrow> R s t \<Longrightarrow> X t"
  shows "triple P m (\<lambda>_. Q) (\<lambda>_. X)"
  using assms by (auto simp: triple_def split: prod.splits sum.splits dest: movesE)

lemma triple_basic:
  "(\<And>s. P s \<Longrightarrow> Q a s) \<Longrightarrow> triple P (returnS a) Q X" "(\<And>s. P s \<Longrightarrow> X e s) \<Longrightarrow> triple P (throwS e) Q X"
  "(\<And>s. P s \<Longrightarrow> Q (g s) s) \<Longrightarrow> triple P (getS g) Q X" "(\<And>s. P s \<Longrightarrow> U (f s)) \<Longrightarrow> triple P (modifyS f) (\<lambda>_. U) X"
  by (simp_all add: triple_def returnS_def throwS_def getS_def modifyS_def)

lemma triple_if: "(c \<Longrightarrow> triple P m Q X) \<Longrightarrow> (\<not> c \<Longrightarrow> triple P k Q X) \<Longrightarrow> triple P (if c then m else k) Q X"
  by simp

lemma triple_option:
  "(x = None \<Longrightarrow> triple P m Q X) \<Longrightarrow> (\<And>y. x = Some y \<Longrightarrow> triple P (k y) Q X) \<Longrightarrow>
   triple P (case x of None \<Rightarrow> m | Some y \<Rightarrow> k y) Q X"
  by (cases x) simp_all

lemma triple_lift: "(\<And>a s. P s \<Longrightarrow> r = Inr a \<Longrightarrow> Q a s) \<Longrightarrow> (\<And>e s. P s \<Longrightarrow> r = Inl e \<Longrightarrow> X e s) \<Longrightarrow> triple P (liftS r) Q X"
  by (auto simp: triple_def liftS_def split: sum.splits)

lemma triple_pure: "(c \<Longrightarrow> triple P m Q X) \<Longrightarrow> triple (\<lambda>s. P s \<and> c) m Q X"
  by (auto simp: triple_def)

lemma triple_read: "(\<And>a. r = Inr a \<Longrightarrow> triple P (f a) Q X) \<Longrightarrow> (\<And>e t. P t \<Longrightarrow> X e t) \<Longrightarrow> triple P (bindS (liftS r) f) Q X"
  by (auto simp: triple_def liftS_def bindS_def split: sum.splits)

lemma triple_weaken: "triple P m Q' X' \<Longrightarrow> (\<And>a s. Q' a s \<Longrightarrow> Q a s) \<Longrightarrow> (\<And>e s. X' e s \<Longrightarrow> X e s) \<Longrightarrow> triple P m Q X"
  by (fastforce simp: triple_def split: prod.splits sum.splits)

lemma triple_strengthen: "triple P m Q X \<Longrightarrow> (\<And>s. P' s \<Longrightarrow> P s) \<Longrightarrow> triple P' m Q X"
  by (simp add: triple_def)

lemma tripleD: "triple P m Q X \<Longrightarrow> P s \<Longrightarrow> case m s of (Inr a, t) \<Rightarrow> Q a t | (Inl e, t) \<Rightarrow> X e t"
  by (simp add: triple_def)

subsection \<open>The checks of a new session\<close>

definition driver_accepted :: "'j signaling_env \<Rightarrow> string \<Rightarrow> string \<Rightarrow> 'j signaling \<Rightarrow> bool" where
  "driver_accepted E driver token s \<longleftrightarrow> driver \<notin> set (sg_revoked_drivers s) \<and> token \<noteq> [] \<and>
     (\<exists>d p. map_of (sg_driver_tokens s) token = Some d \<and> dt_driver_id d = driver \<and>
        en_now E (sg_reads s) < dt_expires_at_ms d \<and>
        map_of (sg_online_drivers s) driver = Some p \<and> cp_generation p = dt_connection_generation d)"

definition vehicle_free :: "'j signaling_env \<Rightarrow> string \<Rightarrow> string \<Rightarrow> 'j signaling \<Rightarrow> bool" where
  "vehicle_free E driver vehicle s \<longleftrightarrow> vehicle \<notin> set (open_vehicles s) \<and> map_of (sg_online_vehicles s) vehicle \<noteq> None \<and>
     (case map_of (cf_driver_vehicle_permissions (en_config E)) driver of None \<Rightarrow> False | Some vs \<Rightarrow> vehicle \<in> set vs)"

definition approved_for :: "string \<Rightarrow> string \<Rightarrow> mobile_approval \<Rightarrow> 'j signaling \<Rightarrow> bool" where
  "approved_for driver vehicle a s \<longleftrightarrow> map_of (sg_mobile_approvals s) vehicle = Some a \<and> ma_driver_id a = driver \<and> ma_state a = Approved"

lemma prepares_checks:
  assumes "prepares s t"
  shows "vehicle_free E driver vehicle t = vehicle_free E driver vehicle s"
    "approved_for driver vehicle a t \<Longrightarrow> approved_for driver vehicle a s"
  using assms by (auto simp: prepares_def same_sessions_def vehicle_free_def open_vehicles_def approved_for_def)

lemma triple_prepares: "moves prepares m \<Longrightarrow> triple (prepares s) m (\<lambda>_. prepares s) (\<lambda>_. prepares s)"
  by (erule triple_moves) (auto intro: preparation.trans)

text \<open>What a check establishes beyond the frame is a matter of its results.\<close>

lemma triple_prepared:
  assumes "moves prepares m" "\<And>t a u. prepares s t \<Longrightarrow> m t = (Inr a, u) \<Longrightarrow> K a u"
  shows "triple (prepares s) m (\<lambda>a t. prepares s t \<and> K a t) (\<lambda>_. prepares s)"
  using triple_prepares[OF assms(1), of s] assms(2) by (fastforce simp: triple_def split: prod.splits sum.splits)

text \<open>The token is checked on the state in which the request arrives, with the first reading of the clock.\<close>

lemma validate_accepts:
  "triple (\<lambda>t. t = s) (validate_driver_token E driver token) (\<lambda>_ t. prepares s t \<and> driver_accepted E driver token s) (\<lambda>_. prepares s)"
proof -
  have "moves prepares (validate_driver_token E driver token)" by (rule prepared)
  then have "prepares s (snd (validate_driver_token E driver token s))" by (simp add: moves_def)
  moreover have "driver_accepted E driver token s" if "validate_driver_token E driver token s = (Inr a, u)" for a u
    using that by (auto simp: driver_accepted_def validate_driver_token_def now_ms_def reading_def bindS_def getS_def throwS_def
        split: if_splits option.splits)
  ultimately show ?thesis by (auto simp: triple_def split: prod.splits sum.splits)
qed

lemma check_grant_free:
  "triple (prepares s) (check_grant E driver vehicle) (\<lambda>_ t. prepares s t \<and> vehicle_free E driver vehicle s) (\<lambda>_. prepares s)"
proof (rule triple_prepared)
  show "moves prepares (check_grant E driver vehicle)" unfolding check_grant_def by (intro prepared_rules prepared)
  fix t a u
  assume st: "prepares s t" and "check_grant E driver vehicle t = (Inr a, u)"
  then have "vehicle_free E driver vehicle t"
    by (auto simp: vehicle_free_def check_grant_def bindS_def thenS_def getS_def throwS_def no_active_session
        split: if_splits option.splits sum.splits prod.splits)
  then show "vehicle_free E driver vehicle s" by (simp add: prepares_checks(1)[OF st])
qed

lemma approval_never_returns [simp]: "request_approval E driver vehicle s \<noteq> (Inr a, t)" "approval_conflict E message code b s \<noteq> (Inr c, t)"
  by (auto simp: request_approval_def approval_conflict_def bindS_def getS_def throwS_def thenS_def Let_def
      split: prod.splits sum.splits option.splits if_splits)

lemma require_approval:
  "triple (prepares s) (require_mobile_approval E driver vehicle request_id)
     (\<lambda>_ t. prepares s t \<and> (approval_required E vehicle \<longrightarrow> (\<exists>a. approved_for driver vehicle a t))) (\<lambda>_. prepares s)"
proof (rule triple_prepared)
  fix t b u
  assume "prepares s t" "require_mobile_approval E driver vehicle request_id t = (Inr b, u)"
  then show "approval_required E vehicle \<longrightarrow> (\<exists>a. approved_for driver vehicle a u)"
    by (auto simp: approval_required_def approved_for_def require_mobile_approval_def bindS_def thenS_def getS_def throwS_def returnS_def
        split: if_splits option.splits sum.splits prod.splits)
qed (rule prepared)

text \<open>The approval is consumed on the vehicle it was given for; the sessions stay as they are.\<close>

definition consumed_for :: "string \<Rightarrow> string \<Rightarrow> 'j signaling \<Rightarrow> 'j signaling \<Rightarrow> bool" where
  "consumed_for driver vehicle s t \<longleftrightarrow> (\<exists>a. approved_for driver vehicle a s \<and>
     map_of (sg_mobile_approvals t) vehicle = Some (a\<lparr>ma_state := Consumed\<rparr>))"

lemma on_approval_touch: "moves prepares (on_approval vehicle (\<lambda>a. a))"
  by (auto simp: moves_def on_approval_def bindS_def getS_def throwS_def modifyS_def prepares_def same_sessions_def store_approval_def
      update_conv' split: option.splits if_splits)

lemma consume_approves:
  "triple (prepares s) (consume_approval E driver vehicle request_id)
     (\<lambda>_ t. same_sessions s t \<and> (approval_required E vehicle \<longrightarrow> consumed_for driver vehicle s t)) (\<lambda>_. same_sessions s)"
proof -
  have frame: "prepares s t \<Longrightarrow> same_sessions s t" for t by (simp add: prepares_def)
  have take: "triple (\<lambda>t. prepares s t \<and> (approval_required E vehicle \<longrightarrow> (\<exists>a. approved_for driver vehicle a t)))
      (on_approval vehicle (\<lambda>a. a\<lparr>ma_state := Consumed\<rparr>))
      (\<lambda>_ t. same_sessions s t \<and> (approval_required E vehicle \<longrightarrow> consumed_for driver vehicle s t)) (\<lambda>_. same_sessions s)"
    unfolding triple_def
  proof (intro allI impI, elim conjE)
    fix t
    assume t: "prepares s t" "approval_required E vehicle \<longrightarrow> (\<exists>a. approved_for driver vehicle a t)"
    then show "case on_approval vehicle (\<lambda>a. a\<lparr>ma_state := Consumed\<rparr>) t of
        (Inl e, u) \<Rightarrow> same_sessions s u
      | (Inr a, u) \<Rightarrow> same_sessions s u \<and> (approval_required E vehicle \<longrightarrow> consumed_for driver vehicle s u)"
      using prepares_checks(2)[OF t(1), of driver vehicle] frame[OF t(1)]
      by (auto simp: on_approval_def bindS_def getS_def throwS_def modifyS_def store_approval_def same_sessions_def consumed_for_def
          update_conv' approved_for_def split: option.splits)
  qed
  show ?thesis
    unfolding consume_approval_def
    by (intro triple_thenS triple_bindS triple_if triple_basic(2), rule triple_weaken[OF triple_prepares[OF on_approval_touch]],
        assumption, erule frame, rule triple_weaken[OF triple_prepares], rule prepared, assumption, erule frame, erule frame,
        rule triple_weaken[OF require_approval], assumption, erule frame, rule take)
qed

subsection \<open>Activation\<close>

text \<open>
  \<open>grown sid x s t\<close>: the sessions of \<open>s\<close>, with \<open>x\<close> stored under \<open>sid\<close>, evolved into those of \<open>t\<close>.
\<close>

definition grown :: "string \<Rightarrow> session \<Rightarrow> 'j signaling \<Rightarrow> 'j signaling \<Rightarrow> bool" where
  "grown sid x s t \<longleftrightarrow> sg_session_counter t = sg_session_counter s + 1 \<and>
     list_all2 (\<lambda>(i, x) (j, y). j = i \<and> session_evolves x y) (AList.update sid x (sg_sessions s)) (sg_sessions t)"

lemma grown_evolve: "grown sid x s t \<Longrightarrow> sessions_evolve t u \<Longrightarrow> grown sid x s u"
  unfolding grown_def sessions_evolve_def using list_all2_trans[OF same_step] by auto

lemma evolving_set:
  "list_all2 (\<lambda>(i, x) (j, y). j = i \<and> session_evolves x y) l k \<Longrightarrow> set (open_sessions k) \<subseteq> set (open_sessions l)"
  by (drule evolving_open) (auto simp: subseq_conv_nths dest: in_set_nthsD)

lemma close_grown:
  "list_all2 (\<lambda>(i, x) (j, y). j = i \<and> session_evolves x y) (AList.update sid x l) k \<Longrightarrow> ss_state y = SClosed \<Longrightarrow>
     set (open_sessions (AList.update sid y k)) \<subseteq> set (open_sessions l)"
proof (induction l arbitrary: k)
  case Nil
  then show ?case by (auto simp: list_all2_Cons1)
next
  case (Cons a l)
  obtain j z where a: "a = (j, z)" by (cases a)
  show ?case
  proof (cases "j = sid")
    case True
    then obtain y' k' where "k = (sid, y') # k'" "list_all2 (\<lambda>(i, x) (j, y). j = i \<and> session_evolves x y) l k'"
      using Cons.prems(1) a by (auto simp: list_all2_Cons1)
    then show ?thesis using evolving_set[of l k'] True a Cons.prems(2) by auto
  next
    case False
    then obtain y' k' where k: "k = (j, y') # k'" "session_evolves z y'"
        "list_all2 (\<lambda>(i, x) (j, y). j = i \<and> session_evolves x y) (AList.update sid x l) k'"
      using Cons.prems(1) a by (auto simp: list_all2_Cons1)
    then have "ss_state y' = SClosed" if "ss_state z = SClosed" using that closed_final by (auto simp: session_evolves_def state_after_def)
    then show ?thesis using Cons.IH[OF k(3) Cons.prems(2)] k False a by (auto simp: session_evolves_def)
  qed
qed

lemma grown_lookup:
  assumes "grown sid x s t"
  obtains y where "map_of (sg_sessions t) sid = Some y" "session_evolves x y"
proof -
  have "\<exists>y. map_of k sid = Some y \<and> session_evolves x y"
    if "list_all2 (\<lambda>(i, x) (j, y). j = i \<and> session_evolves x y) l k" "map_of l sid = Some x" for l k
    using that by (induction rule: list_all2_induct) (auto split: if_splits)
  from this[of "AList.update sid x (sg_sessions s)" "sg_sessions t"] show thesis
    using assms that by (auto simp: grown_def update_conv')
qed

lemma evolves_force_closed [evolves]: "moves sessions_evolve (force_closed sid)"
  unfolding force_closed_def
  by (rule evolves_with_session) (simp add: modifyS_def evolve_store session_evolves_def state_after_def)

lemma force_closed_closes:
  "triple (grown sid x s) (thenS (force_closed sid) (throwS e)) Q (\<lambda>_ t. grown sid x s t \<and> set (open_vehicles t) \<subseteq> set (open_vehicles s))"
  unfolding triple_def
proof (intro allI impI)
  fix t
  assume t: "grown sid x s t"
  then obtain y where y: "map_of (sg_sessions t) sid = Some y" by (rule grown_lookup)
  let ?u = "store_session sid (y\<lparr>ss_state := SClosed\<rparr>) t"
  have "force_closed sid t = (Inr (), ?u)" using y by (simp add: force_closed_def with_session_def bindS_def getS_def modifyS_def)
  moreover have "grown sid x s ?u" using grown_evolve[OF t movesE[OF evolves_force_closed]] calculation by simp
  moreover have "set (open_vehicles ?u) \<subseteq> set (open_vehicles s)"
    using t close_grown[of sid x "sg_sessions s" "sg_sessions t"] by (simp add: grown_def open_vehicles_def store_session_def)
  ultimately show "case thenS (force_closed sid) (throwS e) t of (Inl e, t) \<Rightarrow> grown sid x s t \<and> set (open_vehicles t) \<subseteq> set (open_vehicles s)
      | (Inr a, t) \<Rightarrow> Q a t"
    by (simp add: thenS_def bindS_def throwS_def)
qed

text \<open>The readings and records that change nothing else.\<close>

definition logs_only :: "'j signaling \<Rightarrow> 'j signaling \<Rightarrow> bool" where
  "logs_only s t \<longleftrightarrow> t = s\<lparr>sg_reads := sg_reads t, sg_audit_log := sg_audit_log t\<rparr>"

interpretation logging: step_order logs_only
proof
  fix s t u :: "'j signaling"
  show "logs_only s s" by (simp add: logs_only_def)
  assume "logs_only s t" "logs_only t u"
  then show "logs_only s u" unfolding logs_only_def by (cases s; cases t; cases u) simp
qed

lemma logs_reading: "moves logs_only (reading f)"
  by (simp add: moves_def reading_def logs_only_def)

lemma logs_audit: "moves logs_only (audit E event)" "moves logs_only (try_audit E event)" "moves logs_only (now_ms E)"
  "moves logs_only (random_token E n)"
  unfolding audit_def try_audit_def now_ms_def random_token_def
  by (intro logging.moves_rules moves_intros logs_reading; simp add: logs_only_def)+

lemma logs_onlyD:
  assumes "logs_only s t"
  shows "sg_sessions t = sg_sessions s" "sg_mobile_approvals t = sg_mobile_approvals s" "sg_session_counter t = sg_session_counter s"
  using arg_cong[OF assms[unfolded logs_only_def], of sg_session_counter] arg_cong[OF assms[unfolded logs_only_def], of sg_sessions] arg_cong[OF assms[unfolded logs_only_def], of sg_mobile_approvals]
  by simp_all

lemma triple_conj:
  "triple P m Q X \<Longrightarrow> triple P' m Q' X' \<Longrightarrow> triple (\<lambda>s. P s \<and> P' s) m (\<lambda>a s. Q a s \<and> Q' a s) (\<lambda>e s. X e s \<and> X' e s)"
  by (fastforce simp: triple_def split: prod.splits sum.splits)

lemma triple_tryS: "triple P m Q X' \<Longrightarrow> (\<And>e. triple (X' e) (h e) Q X) \<Longrightarrow> triple P (tryS m h) Q X"
  by (fastforce simp: triple_def tryS_def split: prod.splits sum.splits)

lemma triple_whenS: "(c \<Longrightarrow> triple P m (\<lambda>_. Q) X) \<Longrightarrow> (\<And>s. \<not> c \<Longrightarrow> P s \<Longrightarrow> Q s) \<Longrightarrow> triple P (whenS c m) (\<lambda>_. Q) X"
  by (simp add: whenS_def triple_def returnS_def)

text \<open>\<open>granted_as sid x A t\<close>: session \<open>sid\<close> is \<open>x\<close> and the approvals are \<open>A\<close>.\<close>

definition granted_as :: "string \<Rightarrow> session \<Rightarrow> (string \<times> mobile_approval) list \<Rightarrow> 'j signaling \<Rightarrow> bool" where
  "granted_as sid x A t \<longleftrightarrow> map_of (sg_sessions t) sid = Some x \<and> sg_mobile_approvals t = A"

lemma triple_logs:
  assumes "moves logs_only m"
  shows "triple (granted_as sid x A) m (\<lambda>_. granted_as sid x A) (\<lambda>_ _. True)"
  by (rule triple_moves[OF assms]) (auto simp: granted_as_def dest: logs_onlyD)

lemma triple_transition:
  assumes "transition_allowed (ss_state x) next" "ss_state x \<noteq> next"
  shows "triple (granted_as sid x A) (transition_session E sid next) (\<lambda>_. granted_as sid (x\<lparr>ss_state := next\<rparr>) A) (\<lambda>_ _. True)"
proof -
  have "granted_as sid (x\<lparr>ss_state := next\<rparr>) A (store_session sid (x\<lparr>ss_state := next\<rparr>) t)" if "granted_as sid x A t" for t
    using that by (simp add: granted_as_def store_session_def update_conv')
  then have "triple (granted_as sid x A) (thenS (modifyS (store_session sid (x\<lparr>ss_state := next\<rparr>))) (audit E ''session_state_changed''))
      (\<lambda>_. granted_as sid (x\<lparr>ss_state := next\<rparr>) A) (\<lambda>_ _. True)"
    by (intro triple_thenS[OF triple_basic(4) triple_logs] logs_audit)
  then show ?thesis
    using assms by (auto simp: triple_def transition_session_def with_session_def granted_as_def bindS_def getS_def Let_def)
qed

lemma activation:
  assumes "ss_state x = SOnline"
  shows "triple (\<lambda>t. granted_as sid x A t \<and> grown sid x s t) (activate_session E sid)
     (\<lambda>_ t. granted_as sid (x\<lparr>ss_state := SActive\<rparr>) A t \<and> grown sid x s t)
     (\<lambda>_ t. grown sid x s t \<and> set (open_vehicles t) \<subseteq> set (open_vehicles s))"
proof -
  let ?body = "thenS (audit E ''session_created'')
          (thenS (transition_session E sid SReserved)
          (thenS (transition_session E sid SConnecting)
          (thenS (transition_session E sid SActive)
          (bindS (try_audit E ''control_authority_granted'') (\<lambda>recorded.
             whenS (\<not> recorded) (thenS (close_session E sid) (throwS grant_not_recorded)))))))"
  have grows: "triple (grown sid x s) ?body (\<lambda>_. grown sid x s) (\<lambda>_. grown sid x s)"
    by (rule triple_moves[of sessions_evolve])
      ((intro evolves_rules evolves same[THEN same_evolve]), (erule (1) grown_evolve)+)
  have refuse: "triple P (thenS (close_session E sid) (throwS grant_not_recorded)) (\<lambda>_. Q) (\<lambda>_ _. True)" for P Q
    by (auto simp: triple_def thenS_def bindS_def throwS_def split: prod.splits sum.splits)
  have "triple (granted_as sid x A) ?body (\<lambda>_. granted_as sid (x\<lparr>ss_state := SActive\<rparr>) A) (\<lambda>_ _. True)"
    by (rule triple_thenS, rule triple_logs, rule logs_audit, rule triple_thenS, rule triple_transition,
        simp add: assms, simp add: assms, rule triple_thenS, rule triple_transition, simp, simp, rule triple_thenS, rule triple_transition,
        simp, simp, rule triple_bindS, rule triple_logs, rule logs_audit, rule triple_whenS, rule refuse, simp)
  from triple_conj[OF this grows] show ?thesis
    unfolding activate_session_def
    by (rule triple_tryS) (rule triple_weaken[OF force_closed_closes[THEN triple_strengthen]], auto)
qed

text \<open>\<open>approval_bound\<close>: the approval of the vehicle, given to the driver in \<open>s\<close>, is consumed by session \<open>sid\<close> in \<open>t\<close>.\<close>

definition approval_bound :: "string \<Rightarrow> string \<Rightarrow> string \<Rightarrow> 'j signaling \<Rightarrow> 'j signaling \<Rightarrow> bool" where
  "approval_bound driver vehicle sid s t \<longleftrightarrow> (\<exists>a. approved_for driver vehicle a s \<and>
     map_of (sg_mobile_approvals t) vehicle = Some (a\<lparr>ma_state := Consumed, ma_session_id := sid\<rparr>))"

definition session_granted :: "'j signaling_env \<Rightarrow> string \<Rightarrow> string \<Rightarrow> string \<Rightarrow> 'j signaling \<Rightarrow> 'j signaling \<Rightarrow> bool" where
  "session_granted E driver vehicle sid s t \<longleftrightarrow>
     (\<exists>x. map_of (sg_sessions t) sid = Some x \<and> ss_state x = SActive \<and> ss_session_id x = sid \<and> ss_driver_id x = driver \<and>
        ss_vehicle_id x = vehicle \<and> ss_control_token x \<noteq> []) \<and>
     (if approval_required E vehicle then approval_bound driver vehicle sid s t else True)"

definition grown_for :: "string \<Rightarrow> 'j signaling \<Rightarrow> 'j signaling \<Rightarrow> bool" where
  "grown_for vehicle s t \<longleftrightarrow> (\<exists>x. ss_vehicle_id x = vehicle \<and> ss_session_id x = session_name (sg_session_counter s + 1) \<and>
     grown (ss_session_id x) x s t)"

lemma grant_rest:
  assumes "ss_state x = SOnline" "ss_session_id x = sid" "ss_vehicle_id x = vehicle" "ss_driver_id x = driver" "ss_control_token x \<noteq> []"
  shows "triple (\<lambda>t. map_of (sg_sessions t) sid = Some x \<and> grown sid x s t \<and> (approval_required E vehicle \<longrightarrow> consumed_for driver vehicle s t))
     (thenS (whenS (approval_required E vehicle) (on_approval vehicle (\<lambda>a. a\<lparr>ma_session_id := sid\<rparr>)))
         (thenS (activate_session E sid) (returnS sid)))
     (\<lambda>r t. r = sid \<and> session_granted E driver vehicle sid s t \<and> grown sid x s t)
     (\<lambda>_ t. grown sid x s t \<and> set (open_vehicles t) \<subseteq> set (open_vehicles s))"
    (is "triple ?P (thenS ?bind ?rest) ?Q ?X")
proof (rule triple_thenS)
  let ?R = "\<lambda>t. map_of (sg_sessions t) sid = Some x \<and> grown sid x s t \<and> (approval_required E vehicle \<longrightarrow> approval_bound driver vehicle sid s t)"
  have binds: "triple (consumed_for driver vehicle s) (on_approval vehicle (\<lambda>a. a\<lparr>ma_session_id := sid\<rparr>))
      (\<lambda>_. approval_bound driver vehicle sid s) (\<lambda>_ _. False)"
    by (fastforce simp: triple_def on_approval_def bindS_def getS_def modifyS_def consumed_for_def approval_bound_def store_approval_def update_conv')
  have "moves same_sessions (on_approval vehicle f)" for f
    unfolding on_approval_def by (intro same_rules; simp add: same_sessions_def store_approval_def)
  then have keeps: "triple (\<lambda>t. map_of (sg_sessions t) sid = Some x \<and> grown sid x s t) (on_approval vehicle f)
      (\<lambda>_ t. map_of (sg_sessions t) sid = Some x \<and> grown sid x s t) (\<lambda>_ _. True)" for f
    by (rule triple_moves) (auto simp: same_sessions_def grown_def)
  show "triple ?P ?bind (\<lambda>_. ?R) ?X"
    by (rule triple_whenS) (rule triple_weaken[OF triple_strengthen[OF triple_conj[OF keeps binds]]], auto)
  have act: "triple (\<lambda>t. granted_as sid x A t \<and> grown sid x s t) ?rest
     (\<lambda>r t. r = sid \<and> granted_as sid (x\<lparr>ss_state := SActive\<rparr>) A t \<and> grown sid x s t) ?X" for A
    by (rule triple_thenS[OF activation[OF assms(1)]]) (rule triple_basic(1), simp)
  show "triple ?R ?rest ?Q ?X"
    unfolding triple_def
  proof (intro allI impI)
    fix t
    assume t: "?R t"
    then have "granted_as sid x (sg_mobile_approvals t) t \<and> grown sid x s t" by (simp add: granted_as_def)
    from tripleD[OF act this] t assms show "case ?rest t of (Inl e, u) \<Rightarrow> ?X e u | (Inr r, u) \<Rightarrow> ?Q r u"
      by (auto simp: session_granted_def granted_as_def approval_bound_def split: prod.splits sum.splits)
  qed
qed

text \<open>A granted session is new in the sessions of the state before.\<close>

lemma bind_reading [simp]:
  "bindS (now_ms E) k s = k (en_now E (sg_reads s)) (s\<lparr>sg_reads := Suc (sg_reads s)\<rparr>)"
  "bindS (random_token E n) l s = l (en_random E n (sg_reads s)) (s\<lparr>sg_reads := Suc (sg_reads s)\<rparr>)"
  by (simp_all add: bindS_def now_ms_def random_token_def reading_def)

lemma grant_at:
  assumes "same_sessions s t" "approval_required E vehicle \<longrightarrow> consumed_for driver vehicle s t"
  obtains x u where "ss_state x = SOnline" "ss_session_id x = session_name (sg_session_counter s + 1)" "ss_vehicle_id x = vehicle"
    "ss_driver_id x = driver" "ss_control_token x \<noteq> []" "map_of (sg_sessions u) (ss_session_id x) = Some x" "grown (ss_session_id x) x s u"
    "approval_required E vehicle \<longrightarrow> consumed_for driver vehicle s u"
    "grant_session E driver vehicle t =
       thenS (whenS (approval_required E vehicle) (on_approval vehicle (\<lambda>a. a\<lparr>ma_session_id := ss_session_id x\<rparr>)))
         (thenS (activate_session E (ss_session_id x)) (returnS (ss_session_id x))) u"
proof -
  let ?n = "sg_reads t"
  let ?sid = "session_name (sg_session_counter s + 1)"
  let ?x = "new_session ?sid vehicle driver (en_now E ?n) (''control-token-'' @ en_random E 24 (Suc ?n))
      (en_now E (Suc (Suc ?n)) + cf_control_token_ttl_ms (en_config E))"
  let ?u = "store_session ?sid ?x (t\<lparr>sg_session_counter := sg_session_counter s + 1, sg_reads := Suc (Suc (Suc ?n))\<rparr>)"
  have new: "ss_state ?x = SOnline" "ss_session_id ?x = ?sid" "ss_vehicle_id ?x = vehicle" "ss_driver_id ?x = driver" "ss_control_token ?x \<noteq> []"
    by (simp_all add: new_session_def)
  have "map_of (sg_sessions ?u) ?sid = Some ?x" by (simp add: store_session_def update_conv')
  moreover have "grown ?sid ?x s ?u" using assms(1)
    by (auto simp: grown_def store_session_def same_sessions_def intro: list_all2_refl)
  moreover have "approval_required E vehicle \<longrightarrow> consumed_for driver vehicle s ?u"
    using assms(2) by (simp add: consumed_for_def store_session_def)
  moreover have "grant_session E driver vehicle t =
       thenS (whenS (approval_required E vehicle) (on_approval vehicle (\<lambda>a. a\<lparr>ma_session_id := ?sid\<rparr>)))
         (thenS (activate_session E ?sid) (returnS ?sid)) ?u"
    using assms(1) by (simp add: grant_session_def Let_def same_sessions_def bindS_def[of "getS f" for f] thenS_def bindS_def[of "modifyS f" for f]
        getS_def modifyS_def)
  ultimately show thesis using that[of ?x ?u] new by simp
qed

lemma grant_grants:
  "triple (\<lambda>t. same_sessions s t \<and> (approval_required E vehicle \<longrightarrow> consumed_for driver vehicle s t)) (grant_session E driver vehicle)
     (\<lambda>r t. r = session_name (sg_session_counter s + 1) \<and> session_granted E driver vehicle r s t \<and> grown_for vehicle s t)
     (\<lambda>_ t. grown_for vehicle s t \<and> set (open_vehicles t) \<subseteq> set (open_vehicles s))"
  unfolding triple_def
proof (intro allI impI, elim conjE)
  fix t
  assume "same_sessions s t" "approval_required E vehicle \<longrightarrow> consumed_for driver vehicle s t"
  then obtain x u where x: "ss_state x = SOnline" "ss_session_id x = session_name (sg_session_counter s + 1)" "ss_vehicle_id x = vehicle"
    "ss_driver_id x = driver" "ss_control_token x \<noteq> []" "map_of (sg_sessions u) (ss_session_id x) = Some x" "grown (ss_session_id x) x s u"
    "approval_required E vehicle \<longrightarrow> consumed_for driver vehicle s u"
    and grant: "grant_session E driver vehicle t =
       thenS (whenS (approval_required E vehicle) (on_approval vehicle (\<lambda>a. a\<lparr>ma_session_id := ss_session_id x\<rparr>)))
         (thenS (activate_session E (ss_session_id x)) (returnS (ss_session_id x))) u"
    by (rule grant_at)
  from tripleD[OF grant_rest[OF x(1) refl x(3,4,5)], of u s E] x(6-8)
  show "case grant_session E driver vehicle t of
      (Inl e, t) \<Rightarrow> grown_for vehicle s t \<and> set (open_vehicles t) \<subseteq> set (open_vehicles s)
    | (Inr r, t) \<Rightarrow> r = session_name (sg_session_counter s + 1) \<and> session_granted E driver vehicle r s t \<and> grown_for vehicle s t"
    unfolding grant using x(2,3) by (auto simp: grown_for_def split: prod.splits sum.splits)
qed

subsection \<open>Creating a session\<close>

text \<open>\<open>create_request\<close>: the fields of a request for a session.\<close>

definition create_request :: "'j json_ops \<Rightarrow> 'j \<Rightarrow> string \<Rightarrow> string \<Rightarrow> string \<Rightarrow> bool" where
  "create_request J value driver vehicle token \<longleftrightarrow> required_string J value ''driver_id'' = Inr driver \<and>
     required_string J value ''vehicle_id'' = Inr vehicle \<and> optional_string J value ''token'' = Inr token"

definition session_created :: "'j signaling_env \<Rightarrow> string \<Rightarrow> string \<Rightarrow> string \<Rightarrow> 'j signaling \<Rightarrow> 'j signaling \<Rightarrow> bool" where
  "session_created E driver vehicle token s t \<longleftrightarrow> driver_accepted E driver token s \<and> vehicle_free E driver vehicle s \<and>
     session_granted E driver vehicle (session_name (sg_session_counter s + 1)) s t"

text \<open>The session was granted, but the library could not write the reply about it.\<close>

definition reply_failed :: "'j signaling_env \<Rightarrow> exn \<Rightarrow> 'j signaling \<Rightarrow> 'j signaling \<Rightarrow> bool" where
  "reply_failed E e s t \<longleftrightarrow> (\<exists>x. map_of (sg_sessions t) (session_name (sg_session_counter s + 1)) = Some x \<and>
     response_json (en_json E) 200 (session_to_json (en_json E) True x) = Inl e)"

definition not_created :: "'j signaling \<Rightarrow> 'j signaling \<Rightarrow> bool" where
  "not_created s t \<longleftrightarrow> same_sessions s t \<or>
     (\<exists>vehicle. vehicle \<notin> set (open_vehicles s) \<and> grown_for vehicle s t \<and> set (open_vehicles t) \<subseteq> set (open_vehicles s))"

lemma prepares_not_created: "prepares s t \<Longrightarrow> not_created s t"
  by (simp add: not_created_def prepares_def)

lemma grant_reply:
  assumes "vehicle_free E driver vehicle s" "driver_accepted E driver token s"
  shows "triple (\<lambda>t. same_sessions s t \<and> (approval_required E vehicle \<longrightarrow> consumed_for driver vehicle s t))
     (bindS (grant_session E driver vehicle) (session_reply E True))
     (\<lambda>_ t. session_created E driver vehicle token s t \<and> grown_for vehicle s t)
     (\<lambda>e t. not_created s t \<or> reply_failed E e s t \<and> session_created E driver vehicle token s t \<and> grown_for vehicle s t)"
proof (rule triple_bindS)
  show "triple (\<lambda>t. same_sessions s t \<and> (approval_required E vehicle \<longrightarrow> consumed_for driver vehicle s t)) (grant_session E driver vehicle)
     (\<lambda>r t. r = session_name (sg_session_counter s + 1) \<and> session_granted E driver vehicle r s t \<and> grown_for vehicle s t)
     (\<lambda>e t. not_created s t \<or> reply_failed E e s t \<and> session_created E driver vehicle token s t \<and> grown_for vehicle s t)"
    using assms by (intro triple_weaken[OF grant_grants]) (auto simp: not_created_def vehicle_free_def)
  fix r
  show "triple (\<lambda>t. r = session_name (sg_session_counter s + 1) \<and> session_granted E driver vehicle r s t \<and> grown_for vehicle s t) (session_reply E True r)
     (\<lambda>_ t. session_created E driver vehicle token s t \<and> grown_for vehicle s t)
     (\<lambda>e t. not_created s t \<or> reply_failed E e s t \<and> session_created E driver vehicle token s t \<and> grown_for vehicle s t)"
    using assms by (auto simp: triple_def session_reply_def bindS_def getS_def liftS_def session_granted_def session_created_def reply_failed_def
        split: sum.splits)
qed

text \<open>The grant itself, after the checks.\<close>

lemma create_granting:
  assumes "vehicle_free E driver vehicle s" "driver_accepted E driver token s"
  shows "triple (prepares s)
     (thenS (whenS (approval_required E vehicle) (consume_approval E driver vehicle request_id))
        (bindS (grant_session E driver vehicle) (session_reply E True)))
     (\<lambda>_ t. session_created E driver vehicle token s t \<and> grown_for vehicle s t)
     (\<lambda>e t. not_created s t \<or> reply_failed E e s t \<and> session_created E driver vehicle token s t \<and> grown_for vehicle s t)"
  by (rule triple_thenS[OF _ grant_reply[OF assms]], rule triple_whenS, rule triple_weaken[OF consume_approves])
    (auto simp: not_created_def prepares_def)

lemma create_triple:
  "triple (\<lambda>t. t = s) (create_session E value)
     (\<lambda>_ t. \<exists>driver vehicle token. create_request (en_json E) value driver vehicle token \<and> session_created E driver vehicle token s t \<and>
        grown_for vehicle s t)
     (\<lambda>e t. not_created s t \<or> (\<exists>driver vehicle token. create_request (en_json E) value driver vehicle token \<and> reply_failed E e s t \<and>
        session_created E driver vehicle token s t \<and> grown_for vehicle s t))"
    (is "triple _ _ ?Q ?X")
proof -
  have none: "prepares s t \<Longrightarrow> ?X e t" for e t by (simp add: prepares_not_created)
  have go: "triple (prepares s)
     (thenS (whenS (approval_required E vehicle) (consume_approval E driver vehicle request_id))
        (bindS (grant_session E driver vehicle) (session_reply E True))) ?Q ?X"
    if "create_request (en_json E) value driver vehicle token" "vehicle_free E driver vehicle s" "driver_accepted E driver token s"
    for driver vehicle token request_id
    using that by (intro triple_weaken[OF create_granting[OF that(2,3)]]) auto
  have keep: "triple (prepares s) m (\<lambda>_. prepares s) ?X" if "moves prepares m" for m :: "('a, 'c) sig"
    by (rule triple_weaken[OF triple_prepares[OF that]]) (assumption, erule none)
  have rest: "triple (\<lambda>t. prepares s t \<and> vehicle_free E driver vehicle s)
     (bindS (liftS (optional_string (en_json E) value ''approval_request_id'')) (\<lambda>request_id.
      thenS (require_mobile_approval E driver vehicle request_id)
     (bindS (try_audit E ''control_authority_grant_preflight'') (\<lambda>recorded.
      if \<not> recorded then throwS (ServiceUnavailable ''audit log unavailable; new control authority is disabled'')
      else thenS (whenS (approval_required E vehicle) (consume_approval E driver vehicle request_id))
          (bindS (grant_session E driver vehicle) (session_reply E True)))))) ?Q ?X"
    if "create_request (en_json E) value driver vehicle token" "driver_accepted E driver token s" for driver vehicle token
    by (rule triple_pure, rule triple_read, rule triple_thenS[OF keep], rule prepared, rule triple_bindS[OF keep], rule prepared,
        rule triple_if, rule triple_basic(2), erule none, rule go[OF that(1) _ that(2)], assumption, erule none)
  show ?thesis
    unfolding create_session_def Let_def
  proof (intro triple_read, rule triple_thenS)
    fix driver vehicle token
    assume "required_string (en_json E) value ''driver_id'' = Inr driver" "required_string (en_json E) value ''vehicle_id'' = Inr vehicle"
      "optional_string (en_json E) value ''token'' = Inr token"
    then have r: "create_request (en_json E) value driver vehicle token" by (simp add: create_request_def)
    show "triple (\<lambda>t. t = s) (validate_driver_token E driver token) (\<lambda>_ t. prepares s t \<and> driver_accepted E driver token s) ?X"
      by (rule triple_weaken[OF validate_accepts]) (assumption, erule none)
    show "triple (\<lambda>t. prepares s t \<and> driver_accepted E driver token s) (thenS (check_grant E driver vehicle)
     (bindS (liftS (optional_string (en_json E) value ''approval_request_id'')) (\<lambda>request_id.
      thenS (require_mobile_approval E driver vehicle request_id)
     (bindS (try_audit E ''control_authority_grant_preflight'') (\<lambda>recorded.
      if \<not> recorded then throwS (ServiceUnavailable ''audit log unavailable; new control authority is disabled'')
      else thenS (whenS (approval_required E vehicle) (consume_approval E driver vehicle request_id))
          (bindS (grant_session E driver vehicle) (session_reply E True))))))) ?Q ?X"
      by (rule triple_pure, rule triple_thenS[OF _ rest[OF r]], rule triple_weaken[OF check_grant_free])
        (assumption, erule none, assumption)
  qed (simp_all add: none[OF preparation.refl])
qed

text \<open>
  C4. POST /sessions returns a session only if the driver of the request is not revoked and holds a
  token of this service that has not expired and belongs to the driver's current connection, has
  permission for the vehicle, the vehicle is online and has no open session, and, where the vehicle
  needs an approval, an approval given to this driver was waiting; afterwards the new session is
  active for this driver and vehicle, and the approval is consumed by it. If it throws, either no
  vehicle has an open session that had none before, or under the same conditions the session was
  granted in full and the exception is that of building the reply about it.
\<close>

theorem create_session_outcome:
  "case create_session E value s of
     (Inr _, t) \<Rightarrow> \<exists>driver vehicle token. create_request (en_json E) value driver vehicle token \<and> session_created E driver vehicle token s t
   | (Inl e, t) \<Rightarrow> set (open_vehicles t) \<subseteq> set (open_vehicles s) \<or>
       (reply_failed E e s t \<and>
        (\<exists>driver vehicle token. create_request (en_json E) value driver vehicle token \<and> session_created E driver vehicle token s t))"
  using tripleD[OF create_triple[of s E "value"] refl]
  by (auto simp: not_created_def same_sessions_def open_vehicles_def split: prod.splits sum.splits)

subsection \<open>One open session per vehicle\<close>

lemma create_cases:
  "sessions_evolve s (snd (create_session E value s)) \<or>
     (\<exists>vehicle. vehicle \<notin> set (open_vehicles s) \<and> grown_for vehicle s (snd (create_session E value s)))"
  using tripleD[OF create_triple[of s E "value"] refl]
  by (auto simp: not_created_def session_created_def vehicle_free_def same_sessions_def evolve_frame split: prod.splits sum.splits)

definition exclusive_kept :: "'j signaling \<Rightarrow> 'j signaling \<Rightarrow> bool" where
  "exclusive_kept s t \<longleftrightarrow> (distinct (open_vehicles s) \<longrightarrow> distinct (open_vehicles t))"

lemma subseq_distinct: "subseq xs ys \<Longrightarrow> distinct ys \<Longrightarrow> distinct xs"
  by (auto simp: subseq_conv_nths distinct_nthsI)

lemma exclusive_evolve: "sessions_evolve s t \<Longrightarrow> exclusive_kept s t"
  by (auto simp: exclusive_kept_def dest!: evolve_open intro: subseq_distinct)

lemma exclusive_grown: "vehicle \<notin> set (open_vehicles s) \<Longrightarrow> grown_for vehicle s t \<Longrightarrow> exclusive_kept s t"
  by (auto simp: exclusive_kept_def grown_for_def grown_def open_vehicles_def dest!: evolving_open
      intro: subseq_distinct distinct_open_update)

interpretation exclusion: service_relation exclusive_kept
proof
  fix s t u :: "'j signaling"
  show keep: "exclusive_kept s t" if "sessions_evolve s t" using that by (rule exclusive_evolve)
  show "exclusive_kept s u" if "sessions_evolve s t" "exclusive_kept t u"
    using keep[OF that(1)] that(2) by (simp add: exclusive_kept_def)
  show "moves exclusive_kept (create_session E v)" for E :: "'j signaling_env" and v
    unfolding moves_def using create_cases[of _ E v] by (metis exclusive_evolve exclusive_grown)
qed

interpretation exclusive_order: step_order exclusive_kept
  by unfold_locales (auto simp: exclusive_kept_def)

lemma start_without_sessions: "sg_sessions (snd (signaling_start E s)) = sg_sessions s"
proof -
  have "moves same_sessions (signaling_start E)"
    unfolding signaling_start_def by (intro same_rules same; simp add: same_sessions_def)
  then show ?thesis by (simp add: moves_def same_sessions_def)
qed

text \<open>
  C3. In every run of the signaling service from its start, whatever requests, reaper rounds and
  WebSocket messages it serves and wherever the audit log fails, no vehicle has two sessions that
  are not closed: control of a vehicle is granted to one driver at a time.
\<close>

theorem signaling_one_session: "distinct (open_vehicles (service_run E events (snd (signaling_start E empty_signaling))))"
proof -
  have "exclusive_kept s (service_run E events s)" for s
    unfolding service_run_def by (rule exclusive_order.moves_run) (rule exclusion.moves_step)
  then show ?thesis by (simp add: exclusive_kept_def open_vehicles_def start_without_sessions empty_signaling_def)
qed

subsection \<open>The table of sessions\<close>

definition sessions_named :: "'j signaling \<Rightarrow> bool" where
  "sessions_named s \<longleftrightarrow> distinct (map fst (sg_sessions s)) \<and> list_all (\<lambda>(i, x). ss_session_id x = i) (sg_sessions s)"

definition names_kept :: "'j signaling \<Rightarrow> 'j signaling \<Rightarrow> bool" where
  "names_kept s t \<longleftrightarrow> (sessions_named s \<longrightarrow> sessions_named t)"

lemma evolving_names:
  "list_all2 (\<lambda>(i, x) (j, y). j = i \<and> session_evolves x y) l k \<Longrightarrow> list_all (\<lambda>(i, x). ss_session_id x = i) l \<Longrightarrow>
     map fst k = map fst l \<and> list_all (\<lambda>(i, x). ss_session_id x = i) k"
  by (induction rule: list_all2_induct) (auto simp: session_evolves_def)

lemma update_names:
  "list_all (\<lambda>(i, x). ss_session_id x = i) l \<Longrightarrow> list_all (\<lambda>(i, x). ss_session_id x = i) (AList.update (ss_session_id x) x l)"
  by (induction l) auto

lemma names_evolve: "sessions_evolve s t \<Longrightarrow> names_kept s t"
  by (auto simp: names_kept_def sessions_named_def sessions_evolve_def dest: evolving_names)

lemma names_grown: "grown_for vehicle s t \<Longrightarrow> names_kept s t"
  by (auto simp: names_kept_def sessions_named_def grown_for_def grown_def AList.distinct_update dest!: evolving_names[OF _ update_names])

interpretation naming: service_relation names_kept
proof
  fix s t u :: "'j signaling"
  show keep: "names_kept s t" if "sessions_evolve s t" using that by (rule names_evolve)
  show "names_kept s u" if "sessions_evolve s t" "names_kept t u"
    using keep[OF that(1)] that(2) by (simp add: names_kept_def)
  show "moves names_kept (create_session E v)" for E :: "'j signaling_env" and v
    unfolding moves_def using create_cases[of _ E v] by (metis names_evolve names_grown)
qed

interpretation naming_order: step_order names_kept
  by unfold_locales (auto simp: names_kept_def)

text \<open>
  C38. In every run of the signaling service from its start the table of sessions is well-formed:
  every session is stored under its own name, and no name occurs twice.
\<close>

theorem sessions_well_formed: "sessions_named (service_run E events (snd (signaling_start E empty_signaling)))"
proof -
  have "names_kept s (service_run E events s)" for s
    unfolding service_run_def by (rule naming_order.moves_run) (rule naming.moves_step)
  then show ?thesis by (simp add: names_kept_def sessions_named_def start_without_sessions empty_signaling_def)
qed

subsection \<open>The life of a session\<close>

definition kept_session :: "string \<Rightarrow> session \<Rightarrow> 'j signaling \<Rightarrow> bool" where
  "kept_session sid x t \<longleftrightarrow> (case map_of (sg_sessions t) sid of None \<Rightarrow> False | Some y \<Rightarrow> session_evolves x y)"

definition history :: "'j signaling \<Rightarrow> 'j signaling \<Rightarrow> bool" where
  "history s t \<longleftrightarrow> sg_session_counter t \<in> {sg_session_counter s, sg_session_counter s + 1} \<and>
     (\<forall>sid x. map_of (sg_sessions s) sid = Some x \<longrightarrow> sid \<noteq> session_name (sg_session_counter s + 1) \<longrightarrow> kept_session sid x t)"

lemma evolving_lookup:
  "list_all2 (\<lambda>(i, x) (j, y). j = i \<and> session_evolves x y) l k \<Longrightarrow> map_of l sid = Some x \<Longrightarrow>
     \<exists>y. map_of k sid = Some y \<and> session_evolves x y"
  by (induction rule: list_all2_induct) (auto split: if_splits)

lemma kept_evolve: "kept_session sid x s \<Longrightarrow> sessions_evolve s t \<Longrightarrow> kept_session sid x t"
  by (auto simp: kept_session_def sessions_evolve_def split: option.splits dest!: evolving_lookup intro: session_evolves_trans)

lemma kept_now: "map_of (sg_sessions s) sid = Some x \<Longrightarrow> kept_session sid x s"
  by (simp add: kept_session_def)

lemma history_evolve: "sessions_evolve s t \<Longrightarrow> history s t"
  by (auto simp: history_def intro: kept_evolve[OF kept_now]) (simp add: sessions_evolve_def)

lemma kept_counter: "sessions_evolve s t \<Longrightarrow> sg_session_counter t = sg_session_counter s"
  by (simp add: sessions_evolve_def)

lemma history_grown:
  assumes "grown_for vehicle s t"
  shows "history s t"
proof -
  let ?sid = "session_name (sg_session_counter s + 1)"
  obtain n where counter: "sg_session_counter t = sg_session_counter s + 1" and
    l: "list_all2 (\<lambda>(i, x) (j, y). j = i \<and> session_evolves x y) (AList.update ?sid n (sg_sessions s)) (sg_sessions t)"
    using assms by (auto simp: grown_for_def grown_def)
  have "kept_session sid x t" if "map_of (sg_sessions s) sid = Some x" "sid \<noteq> ?sid" for sid x
    using evolving_lookup[OF l, of sid x] that by (auto simp: kept_session_def update_conv')
  then show ?thesis using counter by (simp add: history_def)
qed

lemma history_after:
  assumes "sessions_evolve s t" "history t u"
  shows "history s u"
  unfolding history_def
proof (intro conjI allI impI)
  fix sid x
  assume x: "map_of (sg_sessions s) sid = Some x" and other: "sid \<noteq> session_name (sg_session_counter s + 1)"
  then obtain y where y: "map_of (sg_sessions t) sid = Some y" "session_evolves x y"
    using assms(1) evolving_lookup[of "sg_sessions s" "sg_sessions t" sid x] by (auto simp: sessions_evolve_def)
  then have "kept_session sid y u" using assms(2) other kept_counter[OF assms(1)] by (simp add: history_def)
  then show "kept_session sid x u" using y(2) by (auto simp: kept_session_def split: option.splits intro: session_evolves_trans)
qed (use assms in \<open>simp add: history_def kept_counter\<close>)

interpretation life: service_relation history
proof
  fix s t u :: "'j signaling"
  show "history s t" if "sessions_evolve s t" using that by (rule history_evolve)
  show "history s u" if "sessions_evolve s t" "history t u" using that by (rule history_after)
  show "moves history (create_session E v)" for E :: "'j signaling_env" and v
    unfolding moves_def using create_cases[of _ E v] by (metis history_evolve history_grown)
qed

text \<open>The names of the next \<open>n\<close> sessions; the counter of sessions wraps.\<close>

definition next_names :: "uint64 \<Rightarrow> nat \<Rightarrow> string list" where
  "next_names counter n = map (\<lambda>k. session_name (counter + of_nat (Suc k))) [0..<n]"

lemma next_names_snoc: "next_names counter (Suc n) = next_names counter n @ [session_name (counter + of_nat (Suc n))]"
  by (simp add: next_names_def)

lemma next_names_Suc: "next_names counter (Suc n) = session_name (counter + 1) # next_names (counter + 1) n"
proof (induction n)
  case (Suc n)
  then show ?case by (subst next_names_snoc) (simp add: next_names_snoc algebra_simps)
qed (simp add: next_names_def)

lemma next_names_step:
  "session_name (counter + 1) \<in> set (next_names counter (Suc n))" "set (next_names (counter + 1) n) \<subseteq> set (next_names counter (Suc n))"
  by (auto simp: next_names_Suc)

lemma next_names_mono: "set (next_names counter n) \<subseteq> set (next_names counter (Suc n))"
  by (auto simp: next_names_def)

lemma run_history:
  "sid \<notin> set (next_names (sg_session_counter s) (length events)) \<Longrightarrow> map_of (sg_sessions s) sid = Some x \<Longrightarrow>
     kept_session sid x (snd (run (service_step E) events s))"
proof (induction events arbitrary: s x)
  case Nil
  then show ?case by (simp add: kept_now)
next
  case (Cons e events)
  let ?t = "snd (service_step E e s)"
  have h: "history s ?t" by (rule movesD[OF life.moves_step])
  have "kept_session sid x ?t" using Cons.prems h next_names_step(1)[of "sg_session_counter s" "length events"] by (auto simp: history_def)
  then obtain y where y: "map_of (sg_sessions ?t) sid = Some y" "session_evolves x y" by (auto simp: kept_session_def split: option.splits)
  have "sid \<notin> set (next_names (sg_session_counter ?t) (length events))"
    using Cons.prems(1) h next_names_step(2)[of "sg_session_counter s" "length events"] next_names_mono[of "sg_session_counter s" "length events"]
    by (auto simp: history_def)
  then have "kept_session sid y (snd (run (service_step E) events ?t))" using y(1) by (rule Cons.IH)
  then show ?case using y(2) by (auto simp: kept_session_def split: option.splits intro: session_evolves_trans)
qed

text \<open>
  C37. A session of the signaling service never disappears and never changes its driver, vehicle or
  name, whatever events follow: its state only follows the transitions of the service or becomes
  closed, which is final, and its control token is kept or cleared, never replaced. The one exception is a later grant under the same name, when the
  counter of sessions comes back to it.
\<close>

theorem session_life:
  "case map_of (sg_sessions s) sid of
     None \<Rightarrow> True
   | Some x \<Rightarrow> if sid \<in> set (next_names (sg_session_counter s) (length events)) then True
       else kept_session sid x (service_run E events s)"
  by (simp add: service_run_def run_history split: option.splits)

subsection \<open>An interrupted close\<close>

text \<open>
  If the audit log fails while a session is closed, the session stays Stopping with its control token
  and the expiry cleared: the expiry of tokens does not close it any more, and the vehicle has an
  open session until the vehicle or the driver goes offline.
\<close>

lemma close_interrupted:
  assumes "map_of (sg_sessions s) sid = Some x" "ss_state x = SActive" "cf_audit_log_path (en_config E) \<noteq> []"
    "en_audit E (sg_reads s) = Some e"
  shows "fst (close_session E sid s) = Inl e"
    "map_of (sg_sessions (snd (close_session E sid s))) sid =
       Some (x\<lparr>ss_state := SStopping, ss_control_token := [], ss_control_token_expires_at_ms := 0\<rparr>)"
  using assms
  by (simp_all add: close_session_def transition_session_def with_session_def thenS_def whenS_def bindS_def getS_def modifyS_def audit_def
      reading_def throwS_def store_session_def drop_queues_def update_conv' Let_def)

lemma stopping_not_expired:
  assumes "map_of (sg_sessions s) sid = Some x" "ss_control_token_expires_at_ms x = 0"
  shows "expire_control_token E timestamp sid s = (Inr (), s)"
  using assms by (simp add: expire_control_token_def with_session_def bindS_def getS_def whenS_def returnS_def)

end
