(* ===== verification/Signaling_Commands.thy ===== *)
theory Signaling_Commands
  imports Signaling_Safety
begin

text \<open>
  What the signaling service accepts into its queues: messages between the participants of an
  active session, in increasing sequence, and control commands from the driver with the control
  token of the session only.
\<close>

text \<open>What the checks of a message leave unchanged.\<close>

definition untouched :: "'j signaling \<Rightarrow> 'j signaling \<Rightarrow> bool" where
  "untouched s t \<longleftrightarrow> sg_sessions t = sg_sessions s \<and> sg_messages t = sg_messages s \<and> sg_latest_control t = sg_latest_control s \<and>
     sg_last_accepted t = sg_last_accepted s \<and> sg_next_cursors t = sg_next_cursors s"

interpretation rest: step_order untouched
  by unfold_locales (auto simp: untouched_def)

named_theorems touchless

lemmas touchless_rules = rest.moves_rules moves_intros

lemma touchless_reading [touchless]: "moves untouched (reading f)"
  by (simp add: moves_def reading_def untouched_def)

lemma touchless_env [touchless]:
  "moves untouched (now_ms E)" "moves untouched (steady_now E)" "moves untouched (monotonic_now_ms E)"
  "moves untouched (random_token E n)" "moves untouched (audit E event)"
  unfolding now_ms_def steady_now_def monotonic_now_ms_def random_token_def audit_def
  by (intro touchless_rules touchless; simp add: untouched_def)+

lemma touchless_credential [touchless]:
  "moves untouched (validate_driver_token E driver token)" "moves untouched (validate_vehicle_connection E vehicle token generation)"
  "moves untouched (validate_actor_credential E session actor value)" "moves untouched (require_participant sid actor)"
  unfolding validate_actor_credential_def validate_vehicle_connection_def validate_driver_token_def validate_device_token_def
    require_participant_def require_active_session_def
  by (intro touchless_rules touchless; simp add: untouched_def)+

lemma touchless_admit [touchless]: "moves untouched (admit_message E sid value actor)"
  unfolding admit_message_def Let_def by (intro touchless_rules touchless)

text \<open>A message that session \<open>x\<close> lets through.\<close>

definition admissible :: "'j json_ops \<Rightarrow> session \<Rightarrow> string \<Rightarrow> string \<Rightarrow> string \<Rightarrow> protocol_metadata \<Rightarrow> 'j \<Rightarrow> bool" where
  "admissible J x sender recipient kind m payload \<longleftrightarrow> ss_state x = SActive \<and> kind \<in> set message_types \<and>
     vehicle_id m = ss_vehicle_id x \<and> driver_id m = ss_driver_id x \<and> session_id m = ss_session_id x \<and>
     (sender, recipient) \<in> {(ss_driver_id x, ss_vehicle_id x), (ss_vehicle_id x, ss_driver_id x)} \<and>
     (if kind = ''control_command''
      then sender = ss_driver_id x \<and> recipient = ss_vehicle_id x \<and>
        (case command_from_json J payload of Inl _ \<Rightarrow> False | Inr c \<Rightarrow> control_token c = ss_control_token x \<and> seq c = seq m)
      else True)"

lemma route_ok:
  assumes "check_route x sender recipient kind = Inr ()" "sender = ss_driver_id x \<or> sender = ss_vehicle_id x"
  shows "(sender, recipient) \<in> {(ss_driver_id x, ss_vehicle_id x), (ss_vehicle_id x, ss_driver_id x)}"
    "kind = ''control_command'' \<Longrightarrow> sender = ss_driver_id x \<and> recipient = ss_vehicle_id x"
  using assms by (auto simp: check_route_def Let_def throw_if_def split: if_splits)

lemma control_ok:
  assumes "check_control_command E x m kind payload = Inr ()" "kind = ''control_command''"
  shows "case command_from_json (en_json E) payload of Inl _ \<Rightarrow> False | Inr c \<Rightarrow> control_token c = ss_control_token x \<and> seq c = seq m"
  using assms by (auto simp: check_control_command_def bindE_def throw_if_def split: sum.splits if_splits)

lemma metadata_ok:
  "validate_message_metadata x m = Inr () \<Longrightarrow> vehicle_id m = ss_vehicle_id x \<and> driver_id m = ss_driver_id x \<and> session_id m = ss_session_id x"
  by (auto simp: validate_message_metadata_def bindE_def throw_if_def split: sum.splits if_splits)

lemma participant_ok:
  assumes "require_participant sid actor s = (Inr x, t)"
  shows "map_of (sg_sessions s) sid = Some x" "ss_state x = SActive" "actor = ss_driver_id x \<or> actor = ss_vehicle_id x"
  using assms by (auto simp: participant_cases split: option.splits if_splits)

lemma admitted:
  assumes "admit_message E sid v actor s = (Inr (sender, recipient, kind, m, payload, dump), t)"
  shows "\<exists>x. map_of (sg_sessions s) sid = Some x \<and> admissible (en_json E) x sender recipient kind m payload"
proof -
  obtain x u where kind: "kind \<in> set message_types" and found: "require_participant sid sender s = (Inr x, u)"
    and checked: "validate_message_metadata x m = Inr ()" "check_route x sender recipient kind = Inr ()"
      "check_control_command E x m kind payload = Inr ()"
    using assms unfolding admit_message_def Let_def
    by (simp only: returned_iff prod.inject) (elim exE conjE, simp only: simp_thms)
  note route = route_ok[OF checked(2) participant_ok(3)[OF found]]
  have "admissible (en_json E) x sender recipient kind m payload"
    unfolding admissible_def using kind route participant_ok(2)[OF found] metadata_ok[OF checked(1)] control_ok[OF checked(3)]
    by (simp only: simp_thms split: if_split) blast
  then show ?thesis using participant_ok(1)[OF found] by blast
qed

text \<open>
  \<open>message_accepted\<close>: a message that the session lets through and that is newer than the last one of
  its sender is pushed, and recorded as the last accepted.
\<close>

definition newer :: "string \<Rightarrow> uint64 \<Rightarrow> 'j signaling \<Rightarrow> bool" where
  "newer key n s \<longleftrightarrow> (case map_of (sg_last_accepted s) key of None \<Rightarrow> True | Some a \<Rightarrow> am_sequence a < n)"

definition message_accepted :: "'j signaling_env \<Rightarrow> string \<Rightarrow> 'j signaling \<Rightarrow> 'j signaling \<Rightarrow> bool" where
  "message_accepted E sid s t \<longleftrightarrow> (\<exists>x g. map_of (sg_sessions s) sid = Some x \<and>
     admissible (en_json E) x (mg_sender g) (mg_recipient g) (mg_type g) (mg_metadata g) (mg_payload g) \<and>
     newer (sequence_key sid (mg_sender g) (mg_type g)) (seq (mg_metadata g)) s \<and>
     sg_messages t = sg_messages (push_message (message_key sid (mg_recipient g)) g s) \<and>
     sg_latest_control t = sg_latest_control (push_message (message_key sid (mg_recipient g)) g s) \<and>
     map_option am_sequence (map_of (sg_last_accepted t) (sequence_key sid (mg_sender g) (mg_type g))) = Some (seq (mg_metadata g)))"

lemma bind_monotonic [simp]:
  "bindS (monotonic_now_ms E) k s = k (cast_ms (en_steady E (sg_reads s))) (s\<lparr>sg_reads := Suc (sg_reads s)\<rparr>)"
  by (simp add: bindS_def monotonic_now_ms_def steady_now_def reading_def returnS_def)

lemma bind_getS [simp]: "bindS (getS f) k s = k (f s) s" "thenS (modifyS h) l s = l (h s)"
  by (simp_all add: bindS_def thenS_def getS_def modifyS_def)

lemma queue_accepts:
  assumes "map_of (sg_sessions s) sid = Some x" "admissible (en_json E) x sender recipient kind m payload"
    "newer (sequence_key sid sender kind) (seq m) s"
  shows "message_accepted E sid s (snd (queue_message E sid sender recipient kind m payload fingerprint received_at received_monotonic s))"
proof -
  let ?key = "message_key sid recipient"
  let ?n = "sg_reads s"
  let ?g = "\<lparr>mg_metadata = m, mg_sender = sender, mg_recipient = recipient, mg_type = kind, mg_payload = payload,
            mg_queued_at_utc_ms = en_now E ?n, mg_queued_at_monotonic_ms = cast_ms (en_steady E (Suc ?n)),
            mg_delivery_cursor = next_cursor ?key s\<rparr>"
  let ?t = "snd (queue_message E sid sender recipient kind m payload fingerprint received_at received_monotonic s)"
  let ?pushed = "push_message ?key ?g (s\<lparr>sg_next_cursors := AList.update ?key (next_cursor ?key s) (sg_next_cursors s), sg_reads := Suc (Suc ?n)\<rparr>)"
  let ?u = "\<lambda>ack. ?pushed\<lparr>sg_last_accepted := AList.update (sequence_key sid sender kind)
      \<lparr>am_sequence = seq m, am_fingerprint = fingerprint, am_acknowledgement = ack\<rparr> (sg_last_accepted ?pushed)\<rparr>"
  have "\<exists>ack. queue_message E sid sender recipient kind m payload fingerprint received_at received_monotonic s =
      thenS (whenS (kind \<noteq> ''control_command'') (audit E kind)) (returnS ack) (?u ack)"
    by (simp add: queue_message_def Let_def exI)
  then obtain ack where t: "?t = snd (thenS (whenS (kind \<noteq> ''control_command'') (audit E kind)) (returnS ack) (?u ack))" by auto
  have "moves untouched (thenS (whenS (kind \<noteq> ''control_command'') (audit E kind)) (returnS ack))"
    by (intro touchless_rules touchless)
  then have "untouched (?u ack) ?t" unfolding t by (rule movesD)
  moreover have "map_of (sg_last_accepted (?u ack)) (sequence_key sid sender kind) =
      Some \<lparr>am_sequence = seq m, am_fingerprint = fingerprint, am_acknowledgement = ack\<rparr>" by (simp add: update_conv')
  moreover have "sg_messages (?u ack) = sg_messages (push_message ?key ?g s)" "sg_latest_control (?u ack) = sg_latest_control (push_message ?key ?g s)"
    by (simp_all add: push_message_def queue_of_def)
  ultimately have same: "sg_messages ?t = sg_messages (push_message ?key ?g s)"
    "sg_latest_control ?t = sg_latest_control (push_message ?key ?g s)"
    "map_option am_sequence (map_of (sg_last_accepted ?t) (sequence_key sid sender kind)) = Some (seq m)"
    unfolding untouched_def by (simp_all only: option.map accepted_message.simps)
  show ?thesis
    unfolding message_accepted_def by (rule exI[of _ x], rule exI[of _ ?g]) (use assms same in simp)
qed

lemma accepted_after:
  assumes "untouched s t" "message_accepted E sid t u"
  shows "message_accepted E sid s u"
  using assms unfolding message_accepted_def untouched_def newer_def push_message_def queue_of_def by (simp add: if_distrib cong: if_cong)

lemma enqueue_cases:
  "untouched s (snd (enqueue_signaling_message E sid v actor s)) \<or> message_accepted E sid s (snd (enqueue_signaling_message E sid v actor s))"
proof -
  let ?s = "s\<lparr>sg_reads := Suc (Suc (sg_reads s))\<rparr>"
  have start: "untouched s ?s" by (simp add: untouched_def)
  obtain r t where admit: "admit_message E sid v actor ?s = (r, t)" by (cases "admit_message E sid v actor ?s")
  then have st: "untouched s t" using rest.trans[OF start movesE[OF touchless_admit]] by blast
  show ?thesis
  proof (cases r)
    case (Inl e)
    then show ?thesis using admit st by (simp add: enqueue_signaling_message_def bindS_def[of "admit_message E sid v actor"])
  next
    case (Inr a)
    obtain sender recipient kind m payload dump where a: "a = (sender, recipient, kind, m, payload, dump)" by (cases a)
    then obtain x where x: "map_of (sg_sessions t) sid = Some x" "admissible (en_json E) x sender recipient kind m payload"
      using admitted admit Inr st start by (force simp: untouched_def)
    have queue: "message_accepted E sid s (snd (queue_message E sid sender recipient kind m payload f received_at monotonic t))"
      if "newer (sequence_key sid sender kind) (seq m) t" for f received_at monotonic
      by (rule accepted_after[OF st queue_accepts[OF x that]])
    have retry: "untouched s (snd (thenS (audit E event) (returnS b) t))" for event and b :: 'a
      by (rule rest.trans[OF st], rule movesD) (intro touchless_rules touchless)
    show ?thesis using Inr a admit st queue retry
      by (auto simp: enqueue_signaling_message_def bindS_def[of "admit_message E sid v actor"] bindS_def[of "liftS r" for r] liftS_def
          throwS_def newer_def split: sum.splits option.splits)
  qed
qed

text \<open>
  C5. Queueing a message, posted or from a WebSocket, changes the queues, the command mailbox and the last accepted messages only
  to accept it: then the session is active, sender and recipient are its two participants, the
  metadata are those of the session, a control command goes from driver to vehicle and carries the
  control token of the session and the sequence number of its envelope, and the sequence is newer
  than the last accepted one of this sender. In particular a retransmission is never queued again.
\<close>

theorem enqueue_outcome:
  "case enqueue_signaling_message E sid v actor s of (r, t) \<Rightarrow>
     untouched s t \<or> message_accepted E sid s t"
  using enqueue_cases[of s E sid v actor] by (simp add: case_prod_beta)

end
