(* ===== verification/Spec2Isabelle.thy ===== *)
theory Spec2Isabelle
  imports Prelude Binary64 Protocol Intent_Store Receiver Safety Vcu_Signals Vcu_Controller
    Vcu_Safety Vcu_Arming Adapter Dynamic_Adapter Control_Authority Session_Profiles Adapter_Contract
    Bridge_Link Json_Codec Encodings Http_Server Websocket_Frames Signaling_Commands
begin

text \<open>
  Mine Teleop lets a remote driver control a mining vehicle. A driver obtains a session from the
  signaling service (\<open>cpp/src/server.cpp\<close>); commands travel over its message queues, by HTTP or
  WebSocket, to the vehicle agent (\<open>cpp/src/core.cpp\<close>); the agent's service checks them and passes
  them to a vehicle adapter, which calls the chassis bridge, a shared library of its own
  (\<open>deployments/chassis-control-bridge\<close>); the bridge drives the vehicle control unit over CAN with
  the parallel controller of \<open>cpp/src/vcu.cpp\<close>. The development follows a command along this path.

  How the code is modelled. A class is a \<open>record\<close> of its fields and an operation of a class is a
  state-and-exception operation \<open>'s \<Rightarrow> (exn + 'a) \<times> 's\<close> of \<open>Prelude\<close> with the combinators
  \<open>bindS\<close>, \<open>thenS\<close>, \<open>tryS\<close>, \<open>whenS\<close>; every \<open>throw\<close> is an \<open>Inl\<close> with the exception and its message, and
  the state at a throw is the one the code leaves behind. A pure function that may throw has the
  result type \<open>'a res\<close>. Machine integers are words where they wrap (sequence numbers, cursors,
  generations, CAN payloads) and \<open>int\<close> where the code only compares and adds clock readings. A
  \<open>double\<close> is an IEEE 754 binary64 (\<open>Binary64\<close>), rounded after every operation. A mutex serialises
  the operations of an object, so concurrent histories are lists of events (\<open>run\<close> in \<open>Prelude\<close>),
  and the locked sections of one function are events of their own where it releases the lock in
  between.
\<close>

section \<open>The vehicle side\<close>

text \<open>
  \<open>Protocol\<close>, \<open>Intent_Store\<close>, \<open>Receiver\<close>, \<open>Safety\<close> model the parts of \<open>core.cpp\<close> and \<open>core.hpp\<close> below
  the service: the wire structures with \<open>validate\<close> and every message of it, the browser's intent with
  its lease and sticky ESTOP (\<open>NativeControlIntentStore\<close>), \<open>LatestControlCommandMailbox\<close> and
  \<open>ControlReceiver\<close> with the replay check, and \<open>SafetyStateMachine\<close> with its deceleration profile.
  Their lemmas: an ESTOP or a fault is left only by an explicit reset; a session and sequence number
  is accepted at most once; the watchdog of the safety machine refines the abstract thresholds.

  \<open>Control_Service\<close> is \<open>VehicleControlService\<close>: \<open>process_received\<close> is \<open>receive_control_command\<close> with all
  its branches, and the other operations carry the names of the code. It is parametric in the
  adapter, a record of operations (\<open>Adapter\<close>, with \<open>MockVehicleAdapter\<close>). \<open>Control_Authority\<close> proves
  its safety over the locale \<open>service_contract\<close>, for every adapter whatever it throws or reports:
  after an ESTOP nothing reaches the adapter until a confirmed reset, and an ordinary command passes
  only under an active profile, fresh feedback and a safety machine that allows it. What the service
  read of the vehicle before it passed a command is recorded by adapters around the adapter (\<open>logged\<close>,
  \<open>recorded\<close>), which add a log to its state and change nothing else.
  \<open>Session_Profiles\<close> has the profile requests, the watchdog timeout that revokes a profile, and the
  reset of the ESTOP.

  \<open>Dynamic_Adapter\<close> is \<open>DynamicLibraryVehicleAdapter\<close>, which calls the C functions of the bridge. They
  are a parameter there, with the structures of \<open>Bridge_Abi\<close>; \<open>Adapter_Contract\<close> states what the
  adapter sends and when a command counts as applied.
\<close>

section \<open>The chassis bridge and the control unit\<close>

text \<open>
  \<open>Vcu_Signals\<close> is the CAN layer of \<open>vcu.cpp\<close> (signals within 64-bit payloads, scaling), and
  \<open>Vcu_Controller\<close> is \<open>ParallelController\<close>: the handshake states, the ingestion of the frames and
  \<open>vcu_tick\<close>, which returns the frames of a cycle. \<open>Vcu_Safety\<close> shows that no torque is sent unless the
  controller is Ready and no stop is requested or latched, that the transitions are the documented
  ones, and that a revocation by the vehicle is permanent for the session; \<open>Vcu_Arming\<close> that progress
  needs every frame of the transition to be received after the state was entered and that a
  cooperating vehicle does get armed.

  \<open>Speed_Pid\<close> has the numeric routines of \<open>mine_teleop_chassis_bridge.h\<close>, \<open>Speed_Limits\<close> their bounds,
  NaN and infinities included; those of the PID are for speeds up to 1024 m/s and steps of at least
  a microsecond, because beyond them its derivative can overflow to a NaN output. \<open>Bridge_State\<close>, \<open>Bridge_Runtime\<close>, \<open>Bridge_Loop\<close> and
  \<open>Bridge_Api\<close> are \<open>chassis_control_bridge.cpp\<close>: the fields of \<open>BridgeRuntime\<close>, the operations that the
  agent requests, one iteration of the I/O loop with its watchdogs, and the exported C functions.
  \<open>ChassisControl\<close>, the vehicle maker's library, is a parameter. \<open>Bridge_Frames\<close> and \<open>Bridge_Safety\<close> are
  about one control cycle (when it may send torque and how much), \<open>Bridge_Runs\<close> and \<open>Bridge_Profile\<close>
  about runs of all operations: stops, provenance of a stop as long as nothing releases it, faults of
  the chassis library (seen by \<open>monitored\<close>, the library with a flag that a call failed), limits of the
  active profile. \<open>Bridge_Link\<close> instantiates the library of the adapter with the bridge itself:
  a safe stop of the service becomes the software stop of the bridge, and a command becomes exactly
  the stored intent.
\<close>

section \<open>The signaling side\<close>

text \<open>
  \<open>Json_Codec\<close> has \<open>to_json\<close> and \<open>from_json\<close> of the protocol structures. The JSON library is the
  record \<open>json_ops\<close>; its documented laws are the locale \<open>json_library\<close>, interpreted on a concrete
  JSON datatype. \<open>Encodings\<close> (percent encoding, base64, UTF-8), \<open>Http_Server\<close> (requests from
  received blocks, responses) and \<open>Websocket\<close> (frames of both ends, receive loops, handshake of the
  client) are \<open>server.cpp\<close> and \<open>websocket.cpp\<close> over the blocks that \<open>recv\<close> returns; TLS, SHA-1 and the
  random source are parameters. \<open>Websocket_Frames\<close> proves that each end reads exactly the messages the
  other framed, and that the receive loop of the server ends: every round consumes a block or a
  buffered byte.

  \<open>Signaling_State\<close> and \<open>Signaling_Sessions\<close> are the state of \<open>SignalingService\<close>, its start, the
  authentication of drivers and vehicles, the state machine of a session and \<open>close_session\<close>, and
  \<open>cleanup_expired_connections\<close>. \<open>Signaling_Access\<close> has the limits on logins and requests and the
  approval of a connection on a phone, \<open>Signaling_Messages\<close> the queues, cursors and retransmissions,
  \<open>Signaling_Api\<close> and \<open>Signaling_Routes\<close> every route with \<open>handle\<close>, and \<open>Signaling_Websocket\<close> the
  WebSocket endpoint. Clock readings, random tokens and the outcome of each append to the audit log
  come from the environment by the number of readings so far, so every failure of the log and every
  clock is covered.

  \<open>Signaling_Order\<close> lifts a reflexive and transitive relation through every operation (locale
  \<open>step_order\<close>, interpreted on the evolution of sessions). \<open>Signaling_Safety\<close> adds the grant of a
  session by triples with normal and exceptional postconditions, and proves for all runs of the
  locked sections (\<open>service_run\<close>; locale \<open>service_relation\<close>) that no vehicle has two open sessions and
  that sessions keep their identity and only move forward. \<open>Signaling_Commands\<close> shows what may
  enter a queue. \<open>Signaling_Websocket\<close> also follows an identity from the URL a client builds through
  the two decodings of a path to the parts the service acts for. Runs have no bound on their length; the 64-bit counter of sessions may wrap, which
  \<open>session_life\<close> states and \<open>signaling_one_session\<close> survives.
\<close>

section \<open>Not modelled\<close>

text \<open>
  \<^item> \<open>DriverConsoleRuntime\<close> and \<open>DriverConsoleHttpApp\<close> (\<open>server.cpp\<close> from line 4048): threads, gamepad
    and browser input over the modelled intent store, WebSocket client and codecs.
  \<^item> \<open>media.cpp\<close> and \<open>webrtc_media.cpp\<close>: callbacks of GStreamer and libdatachannel.
  \<^item> \<open>session_logs.cpp\<close>: the export of log files to disk; the service sees it as a parameter.
  \<^item> \<open>platform.cpp\<close>, \<open>http.cpp\<close> and the programs under \<open>cpp/apps\<close>: operating system and libcurl calls,
    command lines and process supervision.
  \<^item> Within the modelled parts: the text and rotation of audit, trace and protocol logs, sockets,
    listeners and threads themselves, the random delays of the reaper, and exceptions of memory
    allocation.
\<close>

end
